(* ===== verification/Prelude.thy ===== *)
theory Prelude
  imports Main "HOL-Library.Word" "HOL-Library.List_Lexorder" "HOL-Library.Char_ord" "HOL-Library.Signed_Division" "HOL-Library.Multiset" "HOL-Library.Sublist"
begin

text \<open>
  What every component shares and that is not about OpenPay: Go's 64-bit
  integers as integers with the wrap-around written out, tables as lists of
  rows with a key, sums over tables, and the named theorem collections the
  proofs of the other theories use.

  \<^item> \<open>wrap64 x\<close> is the int64 that Go's arithmetic leaves for the exact result \<open>x\<close>.
  \<^item> \<open>find_row\<close>, \<open>update_rows\<close> are \<open>SELECT ... WHERE key = $1\<close> and
    \<open>UPDATE ... WHERE key = $1\<close> on a table kept in insertion order.
\<close>

named_theorems wrap_simps "facts that remove a wrap-around under a bound"
named_theorems row_simps "facts on the lookup and update of table rows"

section \<open>Go's int64\<close>

definition wrap64 :: "int \<Rightarrow> int" where
  "wrap64 x = (x + 2 ^ 63) mod 2 ^ 64 - 2 ^ 63"

definition in64 :: "int \<Rightarrow> bool" where
  "in64 x \<longleftrightarrow> - (2 ^ 63) \<le> x \<and> x < 2 ^ 63"

definition max_int64 :: int where
  "max_int64 = 2 ^ 63 - 1"

definition min_int64 :: int where
  "min_int64 = - (2 ^ 63)"

lemma wrap64_in64 [simp, intro]: "in64 (wrap64 x)"
proof -
  have "0 \<le> (x + 2 ^ 63) mod (2 ^ 64 :: int)" "(x + 2 ^ 63) mod (2 ^ 64 :: int) < 2 ^ 64"
    by simp_all
  then show ?thesis by (simp add: wrap64_def in64_def)
qed

lemma wrap64_id [wrap_simps]: "in64 x \<Longrightarrow> wrap64 x = x"
  by (simp add: wrap64_def in64_def)

lemma wrap64_abs [wrap_simps]: "\<bar>x\<bar> < 2 ^ 63 \<Longrightarrow> wrap64 x = x"
  by (rule wrap64_id) (auto simp: in64_def)

lemma wrap64_id_iff: "wrap64 x = x \<longleftrightarrow> in64 x"
  using wrap64_id wrap64_in64 by metis

lemma wrap64_cong: "wrap64 x mod 2 ^ 64 = x mod 2 ^ 64"
  by (simp add: wrap64_def mod_diff_left_eq)

lemma wrap64_eq_iff: "wrap64 x = wrap64 y \<longleftrightarrow> x mod 2 ^ 64 = y mod 2 ^ 64"
proof
  assume "wrap64 x = wrap64 y"
  then show "x mod 2 ^ 64 = y mod 2 ^ 64" by (metis wrap64_cong)
next
  assume "x mod 2 ^ 64 = y mod 2 ^ 64"
  then have "(x + 2 ^ 63) mod 2 ^ 64 = (y + 2 ^ 63) mod 2 ^ 64" by (rule mod_add_cong) simp
  then show "wrap64 x = wrap64 y" by (simp add: wrap64_def)
qed

lemma wrap64_wrap64 [simp]: "wrap64 (wrap64 x) = wrap64 x"
  by (simp add: wrap64_id)

lemma wrap64_add_left [simp]: "wrap64 (wrap64 x + y) = wrap64 (x + y)"
  unfolding wrap64_eq_iff by (metis mod_add_left_eq wrap64_cong)

lemma wrap64_add_right [simp]: "wrap64 (x + wrap64 y) = wrap64 (x + y)"
  using wrap64_add_left [of y x] by (simp add: add.commute)

lemma wrap64_add_mid [simp]: "wrap64 (x + (wrap64 y + z)) = wrap64 (x + (y + z))"
  using wrap64_add_left [of y "x + z"] by (simp add: algebra_simps)

lemma wrap64_diff_left [simp]: "wrap64 (wrap64 x - y) = wrap64 (x - y)"
  unfolding wrap64_eq_iff by (metis mod_diff_left_eq wrap64_cong)

lemma wrap64_diff_right [simp]: "wrap64 (x - wrap64 y) = wrap64 (x - y)"
  unfolding wrap64_eq_iff by (metis mod_diff_right_eq wrap64_cong)

lemma wrap64_mult_left [simp]: "wrap64 (wrap64 x * y) = wrap64 (x * y)"
  unfolding wrap64_eq_iff by (metis mod_mult_left_eq wrap64_cong)

lemma wrap64_uminus [simp]: "wrap64 (- wrap64 x) = wrap64 (- x)"
  using wrap64_diff_right [of 0 x] by simp

lemma wrap64_0 [simp]: "wrap64 0 = 0"
  by (simp add: wrap64_def)

text \<open>The same reading of the 64 bits as the machine word library's.\<close>

lemma wrap64_sint: "wrap64 x = sint (word_of_int x :: 64 word)"
proof -
  have "in64 (sint (word_of_int x :: 64 word))"
    using sint_range_size [of "word_of_int x :: 64 word"] by (simp add: in64_def word_size)
  moreover have "sint (word_of_int x :: 64 word) mod 2 ^ 64 = x mod 2 ^ 64"
    by (simp add: sint_uint signed_take_bit_eq_take_bit_shift uint_word_of_int take_bit_eq_mod mod_diff_left_eq)
  ultimately show ?thesis
    by (metis wrap64_eq_iff wrap64_id)
qed

section \<open>Tables\<close>

fun find_row :: "('r \<Rightarrow> 'k) \<Rightarrow> 'k \<Rightarrow> 'r list \<Rightarrow> 'r option" where
  "find_row key k [] = None"
| "find_row key k (r # rs) = (if key r = k then Some r else find_row key k rs)"

definition update_rows :: "('r \<Rightarrow> 'k) \<Rightarrow> 'k \<Rightarrow> ('r \<Rightarrow> 'r) \<Rightarrow> 'r list \<Rightarrow> 'r list" where
  "update_rows key k f rs = map (\<lambda>r. if key r = k then f r else r) rs"

text \<open>BIGSERIAL without gaps: rows are never deleted from the tables modelled.\<close>

definition next_id :: "'r list \<Rightarrow> int" where
  "next_id rs = int (length rs) + 1"

lemma find_row_Some: "find_row key k rs = Some r \<Longrightarrow> r \<in> set rs \<and> key r = k"
  by (induction rs) (auto split: if_splits)

lemma find_row_None: "find_row key k rs = None \<longleftrightarrow> k \<notin> key ` set rs"
  by (induction rs) auto

lemma find_row_distinct:
  "distinct (map key rs) \<Longrightarrow> find_row key k rs = Some r \<longleftrightarrow> r \<in> set rs \<and> key r = k"
  by (induction rs) (auto dest: find_row_Some)

lemma find_row_append [row_simps]:
  "find_row key k (rs @ ss) = (case find_row key k rs of Some r \<Rightarrow> Some r | None \<Rightarrow> find_row key k ss)"
  by (induction rs) auto

lemma update_rows_Nil [simp]: "update_rows key k f [] = []"
  by (simp add: update_rows_def)

lemma update_rows_Cons [simp]:
  "update_rows key k f (r # rs) = (if key r = k then f r else r) # update_rows key k f rs"
  by (simp add: update_rows_def)

lemma find_row_update [row_simps]:
  assumes "\<And>r. key' (f r) = key' r"
  shows "find_row key' k' (update_rows key k f rs) =
    map_option (\<lambda>r. if key r = k then f r else r) (find_row key' k' rs)"
  by (induction rs) (simp_all add: update_rows_def assms)

lemma update_rows_append [row_simps]:
  "update_rows key k f (rs @ ss) = update_rows key k f rs @ update_rows key k f ss"
  by (simp add: update_rows_def)

lemma update_rows_absent [row_simps]: "k \<notin> key ` set rs \<Longrightarrow> update_rows key k f rs = rs"
  by (induction rs) auto

lemma map_update_rows [row_simps]:
  assumes "\<And>r. g (f r) = g r"
  shows "map g (update_rows key k f rs) = map g rs"
  by (induction rs) (simp_all add: assms)

lemma length_update_rows [simp]: "length (update_rows key k f rs) = length rs"
  by (simp add: update_rows_def)

lemma set_update_rows:
  "set (update_rows key k f rs) = (\<lambda>r. if key r = k then f r else r) ` set rs"
  by (simp add: update_rows_def)

section \<open>Sums over tables\<close>

definition sum_by :: "('r \<Rightarrow> int) \<Rightarrow> ('r \<Rightarrow> bool) \<Rightarrow> 'r list \<Rightarrow> int" where
  "sum_by f P rs = sum_list (map f (filter P rs))"

lemma sum_by_Nil [simp]: "sum_by f P [] = 0"
  by (simp add: sum_by_def)

lemma sum_by_Cons [simp]: "sum_by f P (r # rs) = (if P r then f r else 0) + sum_by f P rs"
  by (simp add: sum_by_def)

lemma sum_by_append [simp]: "sum_by f P (rs @ ss) = sum_by f P rs + sum_by f P ss"
  by (simp add: sum_by_def)

lemma sum_by_none: "(\<And>r. r \<in> set rs \<Longrightarrow> \<not> P r) \<Longrightarrow> sum_by f P rs = 0"
  by (induction rs) auto

lemma sum_by_cong:
  "(\<And>r. r \<in> set rs \<Longrightarrow> P r = Q r) \<Longrightarrow> (\<And>r. r \<in> set rs \<Longrightarrow> P r \<Longrightarrow> f r = g r) \<Longrightarrow>
   sum_by f P rs = sum_by g Q rs"
  by (induction rs) auto

lemma sum_by_abs_le:
  assumes "\<And>r. r \<in> set rs \<Longrightarrow> \<bar>f r\<bar> \<le> g r"
  shows "\<bar>sum_by f P rs\<bar> \<le> sum_by g (\<lambda>_. True) rs"
  using assms
proof (induction rs)
  case Nil
  then show ?case by simp
next
  case (Cons r rs)
  have "\<bar>f r\<bar> \<le> g r" "\<bar>sum_by f P rs\<bar> \<le> sum_by g (\<lambda>_. True) rs" using Cons by auto
  then show ?case by auto
qed

lemma sum_by_nonneg: "(\<And>r. r \<in> set rs \<Longrightarrow> P r \<Longrightarrow> 0 \<le> f r) \<Longrightarrow> 0 \<le> sum_by f P rs"
  by (induction rs) auto

lemma sum_list_update_int:
  "i < length xs \<Longrightarrow> sum_list (xs[i := x]) = sum_list xs - xs ! i + (x :: int)"
proof (induction xs arbitrary: i)
  case Nil
  then show ?case by simp
next
  case (Cons y ys)
  then show ?case by (cases i) simp_all
qed

lemma member_le_sum_list_int:
  "\<forall>r\<in>set rs. 0 \<le> r \<Longrightarrow> x \<in> set rs \<Longrightarrow> x \<le> sum_list (rs :: int list)"
proof (induction rs)
  case Nil
  then show ?case by simp
next
  case (Cons r rs)
  moreover have "0 \<le> sum_list rs" using Cons.prems(1) by (intro sum_list_nonneg) simp
  ultimately show ?case by auto
qed

lemma sum_list_first_k:
  assumes "k \<le> n"
  shows "sum_list (map (\<lambda>j. if j < k then d else 0) [0..<n]) = (d :: int) * int k"
proof -
  have "[0..<n] = [0..<k] @ [k..<n]" using assms by (metis le0 le_iff_add upt_add_eq_append)
  moreover have "map (\<lambda>j. if j < k then d else 0) [0..<k] = replicate k d"
    by (simp add: map_replicate_const [symmetric] list_eq_iff_nth_eq)
  moreover have "sum_list (map (\<lambda>j. if j < k then d else 0) [k..<n]) = 0"
    by (induction n) auto
  ultimately show ?thesis by (simp add: sum_list_replicate mult.commute)
qed

lemma map_nth_sum: "sum_list (map (\<lambda>j. xs ! j) [0..<length xs]) = sum_list xs"
  by (simp add: map_nth)

section \<open>Serial ids\<close>

definition serials :: "nat \<Rightarrow> int list" where
  "serials n = map (\<lambda>k. int k + 1) [0..<n]"

lemma serials_0 [simp]: "serials 0 = []"
  by (simp add: serials_def)

lemma serials_Suc [simp]: "serials (Suc n) = serials n @ [int n + 1]"
  by (simp add: serials_def)

lemma set_serials: "set (serials n) = {i. 1 \<le> i \<and> i \<le> int n}"
proof (intro set_eqI iffI)
  fix i
  assume "i \<in> set (serials n)"
  then show "i \<in> {i. 1 \<le> i \<and> i \<le> int n}" by (auto simp: serials_def)
next
  fix i
  assume "i \<in> {i. 1 \<le> i \<and> i \<le> int n}"
  then have "i = int (nat (i - 1)) + 1" "nat (i - 1) < n" by auto
  then show "i \<in> set (serials n)" unfolding serials_def set_map by (intro image_eqI [of _ _ "nat (i - 1)"]) auto
qed

lemma distinct_serials [simp]: "distinct (serials n)"
  by (induction n) (simp_all add: set_serials)

lemma length_serials [simp]: "length (serials n) = n"
  by (simp add: serials_def)

lemma next_id_fresh: "map key rs = serials (length rs) \<Longrightarrow> next_id rs \<notin> key ` set rs"
proof -
  assume "map key rs = serials (length rs)"
  then have "key ` set rs = set (serials (length rs))" by (metis list.set_map)
  then show ?thesis by (simp add: set_serials next_id_def)
qed

lemma serials_snoc:
  "map key rs = serials (length rs) \<Longrightarrow> key r = next_id rs \<Longrightarrow> map key (rs @ [r]) = serials (length (rs @ [r]))"
  by (simp add: next_id_def)

lemma find_row_serial:
  assumes "map key rs = serials (length rs)" "r \<in> set rs"
  shows "find_row key (key r) rs = Some r"
proof -
  have "distinct (map key rs)" unfolding assms(1) by (rule distinct_serials)
  then show ?thesis by (subst find_row_distinct) (use assms(2) in simp_all)
qed

lemma list_all2_right: "list_all2 P xs ys \<Longrightarrow> y \<in> set ys \<Longrightarrow> \<exists>x\<in>set xs. P x y"
  by (induction rule: list_all2_induct) auto

end
