(* ===== verification/AppErrors.thy ===== *)
theory AppErrors
  imports Prelude
begin

text \<open>
  The error taxonomy of \<open>pkg/apperrors\<close>: the stable codes, the table onto
  gRPC codes, and how any error is normalised into one that carries a code.

  An error value is either an \<open>*apperrors.Error\<close> or a foreign error, with the
  error it wraps. What \<open>status.FromError\<close> reports of a foreign error is a
  library call, so it is the argument \<open>status_of\<close> of the definitions that use
  it. The formatting of messages is left out: a message is a string.
\<close>

datatype code = Internal | InvalidArgument | NotFound | AlreadyExists | PermissionDenied
  | Unauthenticated | FailedPrecondition | Unavailable | RateLimited
  | InsufficientBalance | IdempotencyKeyConflict | IdempotencyInProgress
  | LedgerImbalance | CurrencyMismatch | WalletOperationDenied

datatype grpc_code = GOK | GCanceled | GUnknown | GInvalidArgument | GDeadlineExceeded
  | GNotFound | GAlreadyExists | GPermissionDenied | GResourceExhausted | GFailedPrecondition
  | GAborted | GOutOfRange | GUnimplemented | GInternal | GUnavailable | GDataLoss | GUnauthenticated

datatype go_error = AppError code string "go_error option" | Foreign string "go_error option"

text \<open>The string of each code, part of the API contract.\<close>

fun code_string :: "code \<Rightarrow> string" where
  "code_string Internal = ''internal''"
| "code_string InvalidArgument = ''invalid_argument''"
| "code_string NotFound = ''not_found''"
| "code_string AlreadyExists = ''already_exists''"
| "code_string PermissionDenied = ''permission_denied''"
| "code_string Unauthenticated = ''unauthenticated''"
| "code_string FailedPrecondition = ''failed_precondition''"
| "code_string Unavailable = ''unavailable''"
| "code_string RateLimited = ''rate_limited''"
| "code_string InsufficientBalance = ''insufficient_balance''"
| "code_string IdempotencyKeyConflict = ''idempotency_key_conflict''"
| "code_string IdempotencyInProgress = ''idempotency_in_progress''"
| "code_string LedgerImbalance = ''ledger_imbalance''"
| "code_string CurrencyMismatch = ''currency_mismatch''"
| "code_string WalletOperationDenied = ''wallet_operation_denied''"

definition all_codes :: "code list" where
  "all_codes = [Internal, InvalidArgument, NotFound, AlreadyExists, PermissionDenied,
    Unauthenticated, FailedPrecondition, Unavailable, RateLimited, InsufficientBalance,
    IdempotencyKeyConflict, IdempotencyInProgress, LedgerImbalance, CurrencyMismatch,
    WalletOperationDenied]"

text \<open>\<open>Code(s)\<close> with the membership test in \<open>grpcCodes\<close>: the code a string names, if any.\<close>

definition known_code :: "string \<Rightarrow> code option" where
  "known_code s = List.find (\<lambda>c. code_string c = s) all_codes"

fun grpc_codes :: "code \<Rightarrow> grpc_code" where
  "grpc_codes Internal = GInternal"
| "grpc_codes InvalidArgument = GInvalidArgument"
| "grpc_codes NotFound = GNotFound"
| "grpc_codes AlreadyExists = GAlreadyExists"
| "grpc_codes PermissionDenied = GPermissionDenied"
| "grpc_codes Unauthenticated = GUnauthenticated"
| "grpc_codes FailedPrecondition = GFailedPrecondition"
| "grpc_codes Unavailable = GUnavailable"
| "grpc_codes RateLimited = GResourceExhausted"
| "grpc_codes InsufficientBalance = GFailedPrecondition"
| "grpc_codes IdempotencyKeyConflict = GAlreadyExists"
| "grpc_codes IdempotencyInProgress = GAborted"
| "grpc_codes LedgerImbalance = GInternal"
| "grpc_codes CurrencyMismatch = GInvalidArgument"
| "grpc_codes WalletOperationDenied = GFailedPrecondition"

fun code_from_grpc :: "grpc_code \<Rightarrow> code" where
  "code_from_grpc GInvalidArgument = InvalidArgument"
| "code_from_grpc GOutOfRange = InvalidArgument"
| "code_from_grpc GNotFound = NotFound"
| "code_from_grpc GAlreadyExists = AlreadyExists"
| "code_from_grpc GPermissionDenied = PermissionDenied"
| "code_from_grpc GUnauthenticated = Unauthenticated"
| "code_from_grpc GFailedPrecondition = FailedPrecondition"
| "code_from_grpc GUnavailable = Unavailable"
| "code_from_grpc GDeadlineExceeded = Unavailable"
| "code_from_grpc GResourceExhausted = RateLimited"
| "code_from_grpc _ = Internal"

text \<open>A gRPC status: its code, message and the ErrorInfo details as (domain, reason).\<close>

record status =
  st_code :: grpc_code
  st_message :: string
  st_infos :: "(string \<times> string) list"

definition error_domain :: string where
  "error_domain = ''openpay''"

definition public_internal_message :: string where
  "public_internal_message = ''internal error''"

fun error_string :: "go_error \<Rightarrow> string" where
  "error_string (AppError c m None) = m"
| "error_string (AppError c m (Some e)) = m @ '': '' @ error_string e"
| "error_string (Foreign m _) = m"

text \<open>\<open>errors.As\<close> for the target \<open>*apperrors.Error\<close>: the first one along the chain.\<close>

fun as_app_error :: "go_error \<Rightarrow> (code \<times> string \<times> go_error option) option" where
  "as_app_error (AppError c m e) = Some (c, m, e)"
| "as_app_error (Foreign m (Some e)) = as_app_error e"
| "as_app_error (Foreign m None) = None"

definition message_of :: "code \<Rightarrow> string \<Rightarrow> string" where
  "message_of c m = (if c = Internal then public_internal_message else m)"

definition grpc_status :: "code \<Rightarrow> string \<Rightarrow> status" where
  "grpc_status c m = \<lparr>st_code = grpc_codes c, st_message = message_of c m,
     st_infos = [(error_domain, code_string c)]\<rparr>"

text \<open>The loop over the details: the last known OpenPay reason wins.\<close>

fun code_from_details :: "code \<Rightarrow> (string \<times> string) list \<Rightarrow> code" where
  "code_from_details c [] = c"
| "code_from_details c ((domain, reason) # ds) =
     code_from_details (if domain = error_domain then (case known_code reason of Some k \<Rightarrow> k | None \<Rightarrow> c) else c) ds"

definition from_error :: "(go_error \<Rightarrow> status option) \<Rightarrow> go_error \<Rightarrow> code \<times> string \<times> go_error option" where
  "from_error status_of e =
     (case as_app_error e of
        Some a \<Rightarrow> a
      | None \<Rightarrow>
          (case status_of e of
             Some s \<Rightarrow>
               if st_code s \<noteq> GUnknown
               then (code_from_details (code_from_grpc (st_code s)) (st_infos s), st_message s, Some e)
               else (Internal, error_string e, Some e)
           | None \<Rightarrow> (Internal, error_string e, Some e)))"

definition code_of :: "(go_error \<Rightarrow> status option) \<Rightarrow> go_error \<Rightarrow> code" where
  "code_of status_of e = fst (from_error status_of e)"

definition grpc_code_of :: "(go_error \<Rightarrow> status option) \<Rightarrow> go_error \<Rightarrow> grpc_code" where
  "grpc_code_of status_of e = (case from_error status_of e of (c, m, _) \<Rightarrow> st_code (grpc_status c m))"

definition is_code :: "go_error \<Rightarrow> code \<Rightarrow> bool" where
  "is_code e c = (case as_app_error e of Some (c', _) \<Rightarrow> c' = c | None \<Rightarrow> False)"

text \<open>\<open>apperrors.New\<close> with the message text left out, as the other theories use it.\<close>

definition app_err :: "code \<Rightarrow> go_error" where
  "app_err c = AppError c [] None"

lemma is_code_app_err [simp]: "is_code (app_err c) d = (c = d)"
  by (simp add: is_code_def app_err_def)

lemma known_code_string: "known_code (code_string c) = Some c"
  by (cases c) (simp_all add: known_code_def all_codes_def)

lemma code_roundtrip_details: "code_from_details (code_from_grpc (grpc_codes c)) [(error_domain, code_string c)] = c"
  by (simp add: known_code_string)

text \<open>
  An error keeps its stable code across a gRPC hop: when the status that \<open>GRPCStatus\<close> builds for a code is what
  the client's status library reads from the error, \<open>From\<close> recovers the code (though several codes share one
  gRPC code) and the same gRPC code, and the message is the public one, so an internal error's text never crosses.
\<close>

theorem error_code_survives_wire:
  assumes "as_app_error e = None" "status_of e = Some (grpc_status c m)"
  shows "code_of status_of e = c \<and> grpc_code_of status_of e = grpc_codes c \<and>
    fst (snd (from_error status_of e)) = (if c = Internal then public_internal_message else m)"
proof -
  have "grpc_codes c \<noteq> GUnknown" by (cases c) simp_all
  then show ?thesis
    using assms code_roundtrip_details [of c]
    by (simp add: code_of_def grpc_code_of_def from_error_def grpc_status_def message_of_def)
qed

text \<open>A client that finds the status of a denied wallet operation.\<close>

lemma error_code_survives_wire_witness:
  "code_of (\<lambda>e. Some (grpc_status WalletOperationDenied ''no'')) (Foreign ''rpc error'' None) = WalletOperationDenied"
  using error_code_survives_wire [of "Foreign ''rpc error'' None" "\<lambda>e. Some (grpc_status WalletOperationDenied ''no'')" WalletOperationDenied "''no''"]
  by simp

end
