(* ===== verification/Money.thy ===== *)
theory Money
  imports AppErrors
begin

text \<open>
  \<open>pkg/money\<close>: amounts in integer minor units of a currency, on Go's int64
  (every addition, subtraction, product and negation below is wrapped). An
  error of this package is a BAD_REQUEST of the error library; its text is
  left out, so a failing function returns \<open>None\<close>.

  \<open>allocate_from\<close> is the loop that hands out the remainder one unit at a
  time, with its termination proof; the theorems show that the parts add up
  to the whole, how far a part can be from its proportional share, and that
  rendering and currency normalisation mean what they say.
\<close>

record amount =
  minor :: int
  currency :: string

definition INR :: string where
  "INR = ''INR''"

definition default_exponent :: nat where
  "default_exponent = 2"

text \<open>The map \<open>exponents\<close>.\<close>

definition exponents :: "(string \<times> nat) list" where
  "exponents = [(''JPY'', 0), (''KWD'', 3), (''BHD'', 3)]"

definition exponent :: "string \<Rightarrow> nat" where
  "exponent c = (case map_of exponents c of Some e \<Rightarrow> e | None \<Rightarrow> default_exponent)"

text \<open>The white space \<open>strings.TrimSpace\<close> removes, and \<open>strings.ToUpper\<close>, on ASCII.\<close>

definition is_space :: "char \<Rightarrow> bool" where
  "is_space c \<longleftrightarrow> of_char c \<in> {9, 10, 11, 12, 13, 32 :: nat}"

definition trim_space :: "string \<Rightarrow> string" where
  "trim_space s = rev (dropWhile is_space (rev (dropWhile is_space s)))"

definition upper_char :: "char \<Rightarrow> char" where
  "upper_char c = (if (97 :: nat) \<le> of_char c \<and> of_char c \<le> (122 :: nat)
     then char_of (of_char c - 32 :: nat) else c)"

definition is_upper :: "char \<Rightarrow> bool" where
  "is_upper c \<longleftrightarrow> (65 :: nat) \<le> of_char c \<and> of_char c \<le> (90 :: nat)"

definition normalize_currency :: "string \<Rightarrow> string option" where
  "normalize_currency s =
     (let c = map upper_char (trim_space s)
      in if length c \<noteq> 3 then None
         else if \<not> list_all is_upper c then None
         else Some c)"

definition new_amount :: "int \<Rightarrow> string \<Rightarrow> amount option" where
  "new_amount m s = (case normalize_currency s of
     None \<Rightarrow> None | Some c \<Rightarrow> Some \<lparr>minor = m, currency = c\<rparr>)"

definition zero_amount :: "string \<Rightarrow> amount option" where
  "zero_amount s = new_amount 0 s"

definition is_zero :: "amount \<Rightarrow> bool" where "is_zero a \<longleftrightarrow> minor a = 0"

definition is_negative :: "amount \<Rightarrow> bool" where "is_negative a \<longleftrightarrow> minor a < 0"

definition is_positive :: "amount \<Rightarrow> bool" where "is_positive a \<longleftrightarrow> 0 < minor a"

definition same_currency :: "amount \<Rightarrow> amount \<Rightarrow> bool" where
  "same_currency a b \<longleftrightarrow> currency a = currency b"

definition add_amount :: "amount \<Rightarrow> amount \<Rightarrow> amount option" where
  "add_amount a b = (if \<not> same_currency a b then None
     else Some \<lparr>minor = wrap64 (minor a + minor b), currency = currency a\<rparr>)"

definition sub_amount :: "amount \<Rightarrow> amount \<Rightarrow> amount option" where
  "sub_amount a b = (if \<not> same_currency a b then None
     else Some \<lparr>minor = wrap64 (minor a - minor b), currency = currency a\<rparr>)"

definition mul_amount :: "amount \<Rightarrow> int \<Rightarrow> amount" where
  "mul_amount a n = \<lparr>minor = wrap64 (minor a * n), currency = currency a\<rparr>"

definition neg_amount :: "amount \<Rightarrow> amount" where
  "neg_amount a = \<lparr>minor = wrap64 (- minor a), currency = currency a\<rparr>"

definition cmp_amount :: "amount \<Rightarrow> amount \<Rightarrow> int option" where
  "cmp_amount a b = (if \<not> same_currency a b then None
     else if minor a < minor b then Some (- 1)
     else if minor a > minor b then Some 1
     else Some 0)"

definition equal_amount :: "amount \<Rightarrow> amount \<Rightarrow> bool" where
  "equal_amount a b \<longleftrightarrow> currency a = currency b \<and> minor a = minor b"

fun add_all :: "amount \<Rightarrow> amount list \<Rightarrow> amount option" where
  "add_all acc [] = Some acc"
| "add_all acc (a # rest) = (case add_amount acc a of
     None \<Rightarrow> None | Some acc' \<Rightarrow> add_all acc' rest)"

fun sum_amounts :: "amount list \<Rightarrow> amount option" where
  "sum_amounts [] = None"
| "sum_amounts (a # rest) = add_all a rest"

section \<open>Allocate\<close>

text \<open>The first loop: refuse a negative ratio, add up the rest.\<close>

fun ratio_total :: "int \<Rightarrow> int list \<Rightarrow> int option" where
  "ratio_total acc [] = Some acc"
| "ratio_total acc (r # rs) = (if r < 0 then None else ratio_total (wrap64 (acc + r)) rs)"

definition share_of :: "int \<Rightarrow> int \<Rightarrow> int \<Rightarrow> int" where
  "share_of m whole r = wrap64 (wrap64 (m * r) sdiv whole)"

fun remainder_after :: "int \<Rightarrow> int list \<Rightarrow> int" where
  "remainder_after rest [] = rest"
| "remainder_after rest (s # ss) = remainder_after (wrap64 (rest - s)) ss"

text \<open>The second loop: one unit to each share in turn until nothing remains.\<close>

function distribute :: "int list \<Rightarrow> nat \<Rightarrow> int \<Rightarrow> int list" where
  "distribute shares i rest =
     (if rest = 0 then shares
      else if 0 < rest
      then distribute (shares[i := wrap64 (shares ! i + 1)]) (Suc i mod length shares) (rest - 1)
      else distribute (shares[i := wrap64 (shares ! i - 1)]) (Suc i mod length shares) (rest + 1))"
  by pat_completeness auto
termination
  by (relation "measure (\<lambda>(_, _, rest). nat \<bar>rest\<bar>)") auto

declare distribute.simps [simp del]

definition allocate :: "amount \<Rightarrow> int list \<Rightarrow> amount list option" where
  "allocate a ratios =
     (if ratios = [] then None
      else case ratio_total 0 ratios of
        None \<Rightarrow> None
      | Some whole \<Rightarrow>
          if whole = 0 then None
          else let shares = map (share_of (minor a) whole) ratios;
                   rest = remainder_after (minor a) shares
               in Some (map (\<lambda>m. \<lparr>minor = m, currency = currency a\<rparr>) (distribute shares 0 rest)))"

section \<open>Rendering\<close>

fun nat_digits :: "nat \<Rightarrow> string" where
  "nat_digits n = (if n < 10 then [char_of (48 + n)] else nat_digits (n div 10) @ [char_of (48 + n mod 10)])"

declare nat_digits.simps [simp del]

text \<open>\<open>%d\<close> and \<open>%0*d\<close> of an int64.\<close>

definition int_digits :: "int \<Rightarrow> string" where
  "int_digits x = (if x < 0 then ''-'' @ nat_digits (nat (- x)) else nat_digits (nat x))"

definition pad_digits :: "nat \<Rightarrow> int \<Rightarrow> string" where
  "pad_digits w x =
     (if x < 0
      then ''-'' @ replicate (w - 1 - length (nat_digits (nat (- x)))) (CHR ''0'') @ nat_digits (nat (- x))
      else replicate (w - length (nat_digits (nat x))) (CHR ''0'') @ nat_digits (nat x))"

definition decimal :: "amount \<Rightarrow> string" where
  "decimal a =
     (let e = exponent (currency a)
      in if e = 0 then int_digits (minor a)
         else let sign = (if minor a < 0 then ''-'' else '''');
                  m = (if minor a < 0 then wrap64 (- minor a) else minor a);
                  d = 10 ^ e
              in sign @ int_digits (m sdiv d) @ ''.'' @ pad_digits e (m smod d))"

definition amount_string :: "amount \<Rightarrow> string" where
  "amount_string a = (if currency a = '''' then ''<uninitialized amount>''
     else currency a @ '' '' @ decimal a)"

section \<open>The parts add up to the whole\<close>

lemma distribute_0 [simp]: "distribute shares i 0 = shares"
  by (subst distribute.simps) simp

lemma length_distribute [simp]: "length (distribute shares i rest) = length shares"
  by (induction shares i rest rule: distribute.induct) (simp add: distribute.simps)

lemma distribute_sum:
  "i < length shares \<Longrightarrow> wrap64 (sum_list (distribute shares i rest)) = wrap64 (sum_list shares + rest)"
proof (induction shares i rest rule: distribute.induct)
  case (1 shares i rest)
  have bump: "wrap64 (sum_list (shares[i := wrap64 (shares ! i + d)]) + e) = wrap64 (sum_list shares + d + e)" for d e
    using 1(3) wrap64_add_right [of "sum_list shares - shares ! i + e" "shares ! i + d"]
    by (simp add: sum_list_update_int algebra_simps)
  have nxt: "Suc i mod length shares < length shares" using 1(3) by (intro mod_less_divisor) linarith
  show ?case
    using 1 nxt bump [of 1 "rest - 1"] bump [of "- 1" "rest + 1"]
    by (subst distribute.simps) (simp add: algebra_simps)
qed

lemma remainder_after_sum: "in64 m \<Longrightarrow> remainder_after m shares = wrap64 (m - sum_list shares)"
proof (induction shares arbitrary: m)
  case Nil
  then show ?case by (simp add: wrap64_id)
next
  case (Cons s ss)
  then show ?case by (simp add: algebra_simps)
qed

lemma allocate_cases:
  assumes "allocate a ratios = Some parts"
  obtains whole where "ratios \<noteq> []" "ratio_total 0 ratios = Some whole" "whole \<noteq> 0"
    "parts = map (\<lambda>m. \<lparr>minor = m, currency = currency a\<rparr>)
      (distribute (map (share_of (minor a) whole) ratios) 0
        (remainder_after (minor a) (map (share_of (minor a) whole) ratios)))"
  using assms by (auto simp: allocate_def Let_def split: if_splits option.splits)

text \<open>
  \<open>Amount.Allocate\<close> conserves the amount: whenever it returns, the parts, one
  for each ratio and all in the amount's currency, add up (on int64) to exactly
  the amount that was split. This holds for every amount and every ratio list,
  also where the products inside overflow.
\<close>

theorem allocate_conserves:
  assumes "allocate a ratios = Some parts" "in64 (minor a)"
  shows "length parts = length ratios \<and> (\<forall>p\<in>set parts. currency p = currency a) \<and>
    wrap64 (sum_list (map minor parts)) = minor a"
proof -
  obtain whole where w: "ratios \<noteq> []" and parts: "parts = map (\<lambda>m. \<lparr>minor = m, currency = currency a\<rparr>)
      (distribute (map (share_of (minor a) whole) ratios) 0
        (remainder_after (minor a) (map (share_of (minor a) whole) ratios)))"
    using assms(1) by (rule allocate_cases)
  have "wrap64 (sum_list (map minor parts)) = minor a"
    using w assms(2) by (simp add: parts comp_def distribute_sum remainder_after_sum wrap64_id)
  then show ?thesis by (auto simp: parts)
qed

lemma allocate_conserves_witness:
  "length [\<lparr>minor = 334, currency = ''INR''\<rparr>, \<lparr>minor = 333, currency = ''INR''\<rparr>, \<lparr>minor = 333, currency = ''INR''\<rparr>] = 3 \<and>
   wrap64 (sum_list (map minor [\<lparr>minor = 334, currency = ''INR''\<rparr>, \<lparr>minor = 333, currency = ''INR''\<rparr>, \<lparr>minor = 333, currency = ''INR''\<rparr>])) = 1000"
  using allocate_conserves [of "\<lparr>minor = 1000, currency = ''INR''\<rparr>" "[1, 1, 1]"
    "[\<lparr>minor = 334, currency = ''INR''\<rparr>, \<lparr>minor = 333, currency = ''INR''\<rparr>, \<lparr>minor = 333, currency = ''INR''\<rparr>]"]
  by (simp add: allocate_def share_of_def wrap64_def in64_def distribute.simps sdiv_int_numeral_numeral)

section \<open>How the parts compare with the ratios\<close>

lemma distribute_run:
  assumes "\<sigma> = 1 \<or> \<sigma> = - 1"
  shows "i + k \<le> length shares \<Longrightarrow> (\<And>j. i \<le> j \<Longrightarrow> j < i + k \<Longrightarrow> in64 (shares ! j + \<sigma>)) \<Longrightarrow>
    distribute shares i (\<sigma> * int k) =
      map (\<lambda>j. shares ! j + (if i \<le> j \<and> j < i + k then \<sigma> else 0)) [0..<length shares]"
proof (induction k arbitrary: i shares)
  case 0
  then show ?case by (subst distribute.simps) (auto intro: nth_equalityI)
next
  case (Suc k)
  let ?s = "shares[i := shares ! i + \<sigma>]"
  have i: "i < length shares" and ok: "in64 (shares ! i + \<sigma>)" using Suc.prems by auto
  have head: "distribute shares i (\<sigma> * int (Suc k)) = distribute ?s (Suc i mod length shares) (\<sigma> * int k)"
    using assms ok by (subst distribute.simps) (auto simp: wrap64_id)
  show ?case
  proof (cases "Suc i = length shares")
    case True
    then have "k = 0" using Suc.prems(1) by simp
    then show ?thesis using True i
      unfolding head by (intro nth_equalityI) (auto simp: nth_list_update)
  next
    case False
    then have i': "Suc i mod length shares = Suc i" "Suc i + k \<le> length ?s" using i Suc.prems(1) by auto
    have "distribute ?s (Suc i) (\<sigma> * int k) =
        map (\<lambda>j. ?s ! j + (if Suc i \<le> j \<and> j < Suc i + k then \<sigma> else 0)) [0..<length ?s]"
      using i'(2) Suc.prems by (intro Suc.IH) auto
    then show ?thesis using i
      by (simp only: head i'(1)) (rule nth_equalityI, auto simp: nth_list_update not_less_eq_eq)
  qed
qed

lemma ratio_total_exact:
  "ratio_total acc ratios = Some whole \<Longrightarrow> 0 \<le> acc \<Longrightarrow> acc + sum_list ratios < 2 ^ 63 \<Longrightarrow>
   whole = acc + sum_list ratios \<and> (\<forall>r\<in>set ratios. 0 \<le> r)"
proof (induction ratios arbitrary: acc)
  case Nil
  then show ?case by simp
next
  case (Cons r rs)
  have r: "0 \<le> r" using Cons.prems(1) by (simp split: if_splits)
  have rs: "ratio_total (wrap64 (acc + r)) rs = Some whole" using Cons.prems(1) r by simp
  show ?case
  proof (cases "in64 (acc + r)")
    case True
    then show ?thesis using Cons.IH [of "acc + r"] rs r Cons.prems by (simp add: wrap64_id)
  next
    case False
    then have big: "2 ^ 63 \<le> acc + r" using r Cons.prems(2) by (simp add: in64_def)
    have "\<And>a. ratio_total a rs = Some whole \<Longrightarrow> 0 \<le> sum_list rs"
      by (induction rs) (auto split: if_splits)
    then show ?thesis using big rs Cons.prems(3) by force
  qed
qed

text \<open>The exact arithmetic of the shares: \<open>q\<close> is the truncated share of the size of the amount.\<close>

lemma shares_exact:
  fixes n whole :: int
  assumes "0 \<le> n" "0 < whole" "whole = sum_list ratios" "\<forall>r\<in>set ratios. 0 \<le> r"
  defines "q \<equiv> \<lambda>r. n * r div whole"
  shows "0 \<le> n - sum_list (map q ratios)" "n - sum_list (map q ratios) < int (length ratios)"
proof -
  have "n * r = whole * q r + (n * r) mod whole" for r by (simp add: q_def)
  then have "sum_list (map (\<lambda>r. n * r) ratios) =
      whole * sum_list (map q ratios) + sum_list (map (\<lambda>r. (n * r) mod whole) ratios)"
    by (induction ratios) (auto simp: algebra_simps)
  then have total: "whole * (n - sum_list (map q ratios)) = sum_list (map (\<lambda>r. (n * r) mod whole) ratios)"
    using assms(3) by (simp add: sum_list_const_mult right_diff_distrib mult.commute [of _ n])
  have lo: "0 \<le> sum_list (map (\<lambda>r. (n * r) mod whole) ratios)"
    using assms(2) by (intro sum_list_nonneg) auto
  have ne: "ratios \<noteq> []" using assms(2,3) by auto
  then have hi: "sum_list (map (\<lambda>r. (n * r) mod whole) ratios) < whole * int (length ratios)"
  proof (induction ratios rule: list_nonempty_induct)
    case (single r)
    then show ?case using assms(2) by simp
  next
    case (cons r rs)
    have "(n * r) mod whole < whole" using assms(2) by simp
    with cons.IH show ?case by (simp add: algebra_simps)
  qed
  show "0 \<le> n - sum_list (map q ratios)" using total lo assms(2) by (metis zero_le_mult_iff not_less)
  show "n - sum_list (map q ratios) < int (length ratios)"
    using total hi assms(2) by (metis mult_less_cancel_left_pos)
qed

lemma share_of_exact:
  assumes "\<bar>m\<bar> * r < 2 ^ 63" "0 \<le> r" "0 < whole" "r \<le> whole"
  shows "share_of m whole r = (if m < 0 then - (\<bar>m\<bar> * r div whole) else \<bar>m\<bar> * r div whole)"
    "0 \<le> \<bar>m\<bar> * r div whole" "\<bar>m\<bar> * r div whole \<le> \<bar>m\<bar>"
proof -
  show lo: "0 \<le> \<bar>m\<bar> * r div whole" using assms by (simp add: pos_imp_zdiv_nonneg_iff)
  have "\<bar>m\<bar> * r \<le> \<bar>m\<bar> * whole" using assms by (simp add: mult_left_mono)
  then show hi: "\<bar>m\<bar> * r div whole \<le> \<bar>m\<bar>"
    using zdiv_mono1 [of "\<bar>m\<bar> * r" "\<bar>m\<bar> * whole" whole] assms(3) by simp
  have "\<bar>m * r\<bar> = \<bar>m\<bar> * r" using assms(2) by (simp add: abs_mult)
  moreover have "\<bar>m * r\<bar> div whole \<le> \<bar>m * r\<bar>"
    using zdiv_mono2 [of "\<bar>m * r\<bar>" 1 whole] assms by simp
  ultimately have q: "in64 (m * r)" "\<bar>m * r\<bar> div whole < 2 ^ 63"
    using assms(1) unfolding in64_def by linarith+
  have sdiv: "(m * r) sdiv whole = (if m < 0 then - (\<bar>m * r\<bar> div whole) else \<bar>m * r\<bar> div whole)"
    using assms(2,3) by (cases "r = 0") (auto simp: signed_divide_int_def sgn_if zero_less_mult_iff mult_less_0_iff)
  have "in64 ((m * r) sdiv whole)"
    using q(2) lo \<open>\<bar>m * r\<bar> = \<bar>m\<bar> * r\<close> unfolding sdiv in64_def by (smt (verit))
  then show "share_of m whole r = (if m < 0 then - (\<bar>m\<bar> * r div whole) else \<bar>m\<bar> * r div whole)"
    using q(1) sdiv \<open>\<bar>m * r\<bar> = \<bar>m\<bar> * r\<close> by (simp add: share_of_def wrap64_id)
qed

lemma near_share:
  fixes n whole :: int
  assumes "\<sigma> = 1 \<or> \<sigma> = - 1" "b = 0 \<or> b = 1" "0 < whole"
  shows "\<bar>\<sigma> * (n div whole + b) * whole - \<sigma> * n\<bar> \<le> whole"
proof -
  have "\<sigma> * (n div whole + b) * whole - \<sigma> * n = \<sigma> * (b * whole - n mod whole)"
    using assms(1) by (auto simp: algebra_simps)
  moreover have "0 \<le> n mod whole" "n mod whole < whole" using assms(3) by simp_all
  ultimately show ?thesis using assms(1,2) by auto
qed

text \<open>What \<open>allocate\<close> computes when nothing overflows: truncated shares, then one unit each.\<close>

lemma allocate_exact:
  assumes "allocate a ratios = Some parts" "\<bar>minor a\<bar> < max_int64"
    "sum_list ratios < 2 ^ 63" "\<forall>r\<in>set ratios. \<bar>minor a\<bar> * r < 2 ^ 63"
  defines "\<sigma> \<equiv> if minor a < 0 then - 1 else 1 :: int"
  defines "q \<equiv> \<lambda>r. \<bar>minor a\<bar> * r div sum_list ratios"
  shows "0 < sum_list ratios \<and> (\<forall>r\<in>set ratios. 0 \<le> r \<and> 0 \<le> q r \<and> q r \<le> \<bar>minor a\<bar>) \<and>
    (\<exists>k \<le> length ratios. int k = \<bar>minor a\<bar> - sum_list (map q ratios) \<and>
     parts = map (\<lambda>m. \<lparr>minor = m, currency = currency a\<rparr>) (distribute (map (\<lambda>r. \<sigma> * q r) ratios) 0 (\<sigma> * int k)))"
proof -
  obtain whole where w: "ratios \<noteq> []" "ratio_total 0 ratios = Some whole" "whole \<noteq> 0"
    and parts: "parts = map (\<lambda>m. \<lparr>minor = m, currency = currency a\<rparr>)
      (distribute (map (share_of (minor a) whole) ratios) 0
        (remainder_after (minor a) (map (share_of (minor a) whole) ratios)))"
    using assms(1) by (rule allocate_cases)
  have whole: "whole = sum_list ratios" and nn: "\<forall>r\<in>set ratios. 0 \<le> r"
    using ratio_total_exact [OF w(2)] assms(3) by auto
  then have pos: "0 < whole" using w(3) sum_list_nonneg [of ratios] by (metis le_less)
  have le: "r \<le> whole" if "r \<in> set ratios" for r
    using member_le_sum_list_int [OF nn that] by (simp add: whole)
  have shares: "share_of (minor a) whole r = \<sigma> * q r" "0 \<le> q r" "q r \<le> \<bar>minor a\<bar>" if "r \<in> set ratios" for r
    using share_of_exact [of "minor a" r whole] assms(4) nn pos le that by (auto simp: \<sigma>_def q_def whole)
  have map: "map (share_of (minor a) whole) ratios = map (\<lambda>r. \<sigma> * q r) ratios"
    using shares(1) by (intro map_cong) auto
  let ?k = "nat (\<bar>minor a\<bar> - sum_list (map q ratios))"
  have bound: "0 \<le> \<bar>minor a\<bar> - sum_list (map q ratios)" "\<bar>minor a\<bar> - sum_list (map q ratios) < int (length ratios)"
    using shares_exact [of "\<bar>minor a\<bar>" whole ratios] pos nn by (simp_all add: q_def whole)
  have nnq: "0 \<le> sum_list (map q ratios)" using shares(2) by (intro sum_list_nonneg) auto
  have m64: "in64 (minor a)" using assms(2) by (auto simp: max_int64_def in64_def)
  have "minor a - sum_list (map (\<lambda>r. \<sigma> * q r) ratios) = \<sigma> * int ?k"
    using bound(1) by (simp add: sum_list_const_mult \<sigma>_def)
  moreover have "in64 (\<sigma> * int ?k)"
    using bound(1) nnq assms(2) unfolding in64_def max_int64_def \<sigma>_def by auto
  ultimately have "remainder_after (minor a) (map (\<lambda>r. \<sigma> * q r) ratios) = \<sigma> * int ?k"
    by (simp add: remainder_after_sum m64 wrap64_id)
  then have "parts = map (\<lambda>m. \<lparr>minor = m, currency = currency a\<rparr>) (distribute (map (\<lambda>r. \<sigma> * q r) ratios) 0 (\<sigma> * int ?k))"
    by (simp add: parts map)
  moreover have "?k \<le> length ratios" "int ?k = \<bar>minor a\<bar> - sum_list (map q ratios)" using bound by auto
  ultimately show ?thesis using pos nn shares(2,3) whole by blast
qed

text \<open>
  \<open>Amount.Allocate\<close> is fair: while the products and the ratio total fit in an
  int64, the parts add up exactly and every part \<open>p\<close> for a ratio \<open>r\<close> differs
  from the proportional share by less than one minor unit in either direction
  or exactly one, \<open>|p * total - amount * r| \<le> total\<close>.
\<close>

theorem allocate_fair:
  assumes "allocate a ratios = Some parts" "\<bar>minor a\<bar> < max_int64"
    "sum_list ratios < 2 ^ 63" "\<forall>r\<in>set ratios. \<bar>minor a\<bar> * r < 2 ^ 63"
  shows "sum_list (map minor parts) = minor a \<and> (\<forall>i < length ratios.
    \<bar>minor (parts ! i) * sum_list ratios - minor a * ratios ! i\<bar> \<le> sum_list ratios)"
proof -
  let ?\<sigma> = "if minor a < 0 then - 1 else 1 :: int"
  let ?q = "\<lambda>r. \<bar>minor a\<bar> * r div sum_list ratios"
  obtain k where pos: "0 < sum_list ratios" and q: "\<forall>r\<in>set ratios. 0 \<le> r \<and> 0 \<le> ?q r \<and> ?q r \<le> \<bar>minor a\<bar>"
    and k: "k \<le> length ratios" "int k = \<bar>minor a\<bar> - sum_list (map ?q ratios)"
    and parts: "parts = map (\<lambda>m. \<lparr>minor = m, currency = currency a\<rparr>) (distribute (map (\<lambda>r. ?\<sigma> * ?q r) ratios) 0 (?\<sigma> * int k))"
    using allocate_exact [OF assms] by blast
  let ?s = "map (\<lambda>r. ?\<sigma> * ?q r) ratios"
  have s: "\<bar>?s ! j\<bar> \<le> \<bar>minor a\<bar>" "?s ! j = ?\<sigma> * ?q (ratios ! j)" if "j < length ratios" for j
    using q that nth_mem [OF that] by (auto simp: abs_mult)
  have ok: "in64 (?s ! j + ?\<sigma>)" if "j < k" for j
    using s(1) [of j] that k(1) assms(2) unfolding in64_def max_int64_def by (smt (verit) order_less_le_trans)
  have "distribute ?s 0 (?\<sigma> * int k) = map (\<lambda>j. ?s ! j + (if j < k then ?\<sigma> else 0)) [0..<length ratios]"
    using distribute_run [of ?\<sigma> 0 k ?s] ok k(1) by auto
  then have run: "map minor parts = map (\<lambda>j. ?s ! j + (if j < k then ?\<sigma> else 0)) [0..<length ratios]"
    by (simp add: parts comp_def)
  have "sum_list (map (\<lambda>j. ?s ! j + (if j < k then ?\<sigma> else 0)) [0..<length ratios]) = sum_list ?s + ?\<sigma> * int k"
    using sum_list_first_k [OF k(1), of ?\<sigma>] map_nth_sum [of ?s] by (simp only: sum_list_addf length_map)
  moreover have "sum_list ?s + ?\<sigma> * int k = minor a" using k(2) by (simp add: sum_list_const_mult)
  moreover have "\<bar>minor (parts ! i) * sum_list ratios - minor a * ratios ! i\<bar> \<le> sum_list ratios" if i: "i < length ratios" for i
  proof -
    have "minor (parts ! i) = map minor parts ! i" using i arg_cong [OF run, of length] by simp
    then have "minor (parts ! i) = ?\<sigma> * (?q (ratios ! i) + (if i < k then 1 else 0))"
      using i s(2) [OF i] unfolding run by simp
    moreover have "minor a * ratios ! i = ?\<sigma> * (\<bar>minor a\<bar> * ratios ! i)" by simp
    ultimately show ?thesis
      using near_share [of ?\<sigma> "if i < k then 1 else 0" "sum_list ratios" "\<bar>minor a\<bar> * ratios ! i"] pos by (simp only:) auto
  qed
  ultimately show ?thesis using run by metis
qed

lemma allocate_fair_witness:
  "sum_list (map minor [\<lparr>minor = -4, currency = ''INR''\<rparr>, \<lparr>minor = -6, currency = ''INR''\<rparr>]) = -10 \<and>
   \<bar>(-4) * 5 - (-10) * (2::int)\<bar> \<le> 5"
  using allocate_fair [of "\<lparr>minor = -10, currency = ''INR''\<rparr>" "[2, 3]"
    "[\<lparr>minor = -4, currency = ''INR''\<rparr>, \<lparr>minor = -6, currency = ''INR''\<rparr>]"]
  by (simp add: allocate_def share_of_def wrap64_def in64_def max_int64_def signed_divide_int_def)

section \<open>Rendering reads back\<close>

text \<open>The value of a rendered amount: the digits read as one number, the point skipped.\<close>

definition digit_value :: "char \<Rightarrow> nat" where
  "digit_value c = of_char c - 48"

definition digits_value :: "string \<Rightarrow> nat" where
  "digits_value s = foldl (\<lambda>n c. 10 * n + digit_value c) 0 s"

definition read_decimal :: "string \<Rightarrow> int" where
  "read_decimal s = (case s of
     [] \<Rightarrow> 0
   | c # cs \<Rightarrow> if c = CHR ''-'' then - int (digits_value (filter (\<lambda>c. c \<noteq> CHR ''.'') cs))
       else int (digits_value (filter (\<lambda>c. c \<noteq> CHR ''.'') s)))"

definition is_digit :: "char \<Rightarrow> bool" where
  "is_digit c \<longleftrightarrow> (48 :: nat) \<le> of_char c \<and> of_char c \<le> (57 :: nat)"

lemma digit_char: "n < 10 \<Longrightarrow> digit_value (char_of (48 + n)) = n" "n < 10 \<Longrightarrow> is_digit (char_of (48 + n :: nat))"
  by (simp_all add: digit_value_def is_digit_def)

lemma digits_foldl:
  "foldl (\<lambda>n c. 10 * n + digit_value c) k t = k * 10 ^ length t + digits_value t"
proof (induction t arbitrary: k)
  case Nil
  then show ?case by (simp add: digits_value_def)
next
  case (Cons c t)
  have "digits_value (c # t) = digit_value c * 10 ^ length t + digits_value t"
    using Cons.IH [of "digit_value c"] by (simp only: digits_value_def foldl.simps mult_0_right add_0)
  moreover have "foldl (\<lambda>n c. 10 * n + digit_value c) k (c # t) = (10 * k + digit_value c) * 10 ^ length t + digits_value t"
    using Cons.IH [of "10 * k + digit_value c"] by (simp only: foldl.simps)
  ultimately show ?case by (simp add: algebra_simps)
qed

lemma digits_value_append: "digits_value (s @ t) = digits_value s * 10 ^ length t + digits_value t"
  unfolding digits_value_def [of "s @ t"] foldl_append digits_foldl [of _ t] by (simp add: digits_value_def)

lemma nat_digits_value [simp]: "digits_value (nat_digits n) = n"
proof (induction n rule: nat_digits.induct)
  case (1 n)
  then show ?case
    by (subst nat_digits.simps) (auto simp: digits_value_append digits_value_def digit_char)
qed

lemma nat_digits_digits: "c \<in> set (nat_digits n) \<Longrightarrow> is_digit c"
proof (induction n rule: nat_digits.induct)
  case (1 n)
  then show ?case
    by (subst (asm) (2) nat_digits.simps) (auto simp: digit_char split: if_splits)
qed

lemma nat_digits_nonempty [simp]: "nat_digits n \<noteq> []"
  by (subst nat_digits.simps) simp

lemma nat_digits_length: "0 < w \<Longrightarrow> n < 10 ^ w \<Longrightarrow> length (nat_digits n) \<le> w"
proof (induction n arbitrary: w rule: nat_digits.induct)
  case (1 n)
  show ?case
  proof (cases "n < 10")
    case True
    then show ?thesis using 1 by (subst nat_digits.simps) simp
  next
    case False
    then obtain v where v: "w = Suc v" "0 < v"
      using 1(2,3) by (cases w; cases "w - 1") auto
    then have "n div 10 < 10 ^ v" using 1(3) by (simp add: div_less_iff_less_mult mult.commute)
    then show ?thesis using 1(1) [OF False v(2)] False v(1) by (subst nat_digits.simps) simp
  qed
qed

lemma pad_digits_nonneg:
  assumes "0 \<le> x" "x < 10 ^ w" "0 < w"
  shows "digits_value (pad_digits w x) = nat x" "length (pad_digits w x) = w" "\<forall>c\<in>set (pad_digits w x). is_digit c"
proof -
  have zeros: "digits_value (replicate k (CHR ''0'')) = 0" for k
    by (induction k) (simp_all add: digits_value_def digit_value_def)
  show "digits_value (pad_digits w x) = nat x"
    using assms(1) by (simp add: pad_digits_def digits_value_append zeros)
  have "nat x < 10 ^ w" using assms by (simp add: nat_less_iff)
  then show "length (pad_digits w x) = w"
    using nat_digits_length [OF assms(3)] assms(1) by (simp add: pad_digits_def)
  show "\<forall>c\<in>set (pad_digits w x). is_digit c"
    using assms(1) nat_digits_digits by (auto simp: pad_digits_def is_digit_def set_replicate_conv_if)
qed

lemma not_point: "\<forall>c\<in>set s. is_digit c \<Longrightarrow> filter (\<lambda>c. c \<noteq> CHR ''.'') s = s"
  by (induction s) (auto simp: is_digit_def)

lemma digit_not_minus: "is_digit c \<Longrightarrow> c \<noteq> CHR ''-''"
  by (auto simp: is_digit_def)

lemma sdiv_nonneg: "0 \<le> m \<Longrightarrow> 0 < d \<Longrightarrow> m sdiv d = m div d" for m d :: int
  by (cases "m = 0") (simp_all add: signed_divide_int_def)

lemma smod_nonneg: "0 \<le> m \<Longrightarrow> 0 < d \<Longrightarrow> m smod d = m mod d" for m d :: int
  by (cases "m = 0") (simp_all add: signed_modulo_int_def signed_divide_int_def minus_div_mult_eq_mod)

lemma read_plain:
  assumes "\<forall>c\<in>set s. is_digit c" "s \<noteq> []" "\<forall>c\<in>set t. is_digit c"
  shows "read_decimal (s @ CHR ''.'' # t) = int (digits_value (s @ t))"
    "read_decimal (CHR ''-'' # s @ CHR ''.'' # t) = - int (digits_value (s @ t))"
    "read_decimal s = int (digits_value s)"
    "read_decimal (CHR ''-'' # s) = - int (digits_value s)"
proof -
  obtain c cs where s: "s = c # cs" using assms(2) by (cases s) auto
  have c: "is_digit c" "c \<noteq> CHR ''-''" "c \<noteq> CHR ''.''" using assms(1) by (auto simp: s is_digit_def)
  show "read_decimal (s @ CHR ''.'' # t) = int (digits_value (s @ t))"
    using not_point [OF assms(1)] not_point [OF assms(3)] c by (simp add: read_decimal_def s)
  show "read_decimal (CHR ''-'' # s @ CHR ''.'' # t) = - int (digits_value (s @ t))"
    using not_point [OF assms(1)] not_point [OF assms(3)] by (simp add: read_decimal_def)
  show "read_decimal s = int (digits_value s)"
    using not_point [OF assms(1)] c by (simp add: read_decimal_def s)
  show "read_decimal (CHR ''-'' # s) = - int (digits_value s)"
    using not_point [OF assms(1)] by (simp add: read_decimal_def)
qed

text \<open>The rendered form of a size \<open>n\<close>: digits, point, \<open>e\<close> digits.\<close>

lemma fixed_point_value:
  assumes "0 \<le> n" "0 < e"
  defines "s \<equiv> nat_digits (nat (n div 10 ^ e))" and "t \<equiv> pad_digits e (n mod 10 ^ e)"
  shows "int (digits_value (s @ t)) = n" "\<forall>c\<in>set s. is_digit c" "\<forall>c\<in>set t. is_digit c" "s \<noteq> []"
proof -
  have t: "digits_value t = nat (n mod 10 ^ e)" "length t = e" "\<forall>c\<in>set t. is_digit c"
    using pad_digits_nonneg [of "n mod 10 ^ e" e] assms(2) by (simp_all add: t_def)
  have "int (digits_value (s @ t)) = n div 10 ^ e * 10 ^ e + n mod 10 ^ e"
    using assms(1) by (simp add: digits_value_append t s_def pos_imp_zdiv_nonneg_iff)
  then show "int (digits_value (s @ t)) = n" by (simp only: div_mult_mod_eq)
  show "\<forall>c\<in>set s. is_digit c" "\<forall>c\<in>set t. is_digit c" "s \<noteq> []"
    using nat_digits_digits t(3) by (auto simp: s_def)
qed

text \<open>
  \<open>Amount.Decimal\<close> loses nothing: for every currency and every int64 amount
  but the smallest one, reading the rendered digits back gives the minor units.
\<close>

theorem decimal_reads_back:
  assumes "in64 (minor a)" "minor a \<noteq> min_int64"
  shows "read_decimal (decimal a) = minor a"
proof -
  let ?e = "exponent (currency a)" and ?n = "\<bar>minor a\<bar>"
  have neg: "wrap64 (- minor a) = - minor a"
    using assms by (intro wrap64_id) (auto simp: in64_def min_int64_def)
  show ?thesis
  proof (cases "?e = 0")
    case True
    then show ?thesis
      using read_plain(3,4) [of "nat_digits (nat ?n)" "[]"] nat_digits_digits
      by (auto simp: decimal_def int_digits_def Let_def)
  next
    case False
    note fp = fixed_point_value [of ?n ?e]
    have "decimal a = (if minor a < 0 then ''-'' else []) @ nat_digits (nat (?n div 10 ^ ?e)) @ CHR ''.'' # pad_digits ?e (?n mod 10 ^ ?e)"
      using False neg by (simp add: decimal_def Let_def sdiv_nonneg smod_nonneg int_digits_def pos_imp_zdiv_neg_iff)
    then show ?thesis
      using read_plain(1,2) [OF fp(2,4,3)] fp(1) False by (cases "minor a < 0") simp_all
  qed
qed

lemma decimal_reads_back_witness:
  "read_decimal (decimal \<lparr>minor = -105, currency = ''INR''\<rparr>) = -105 \<and>
   decimal \<lparr>minor = -105, currency = ''INR''\<rparr> = ''-1.05''"
proof -
  have "decimal \<lparr>minor = -105, currency = ''INR''\<rparr> = ''-1.05''"
    by code_simp
  moreover have "read_decimal (decimal \<lparr>minor = -105, currency = ''INR''\<rparr>) = -105"
    using decimal_reads_back [of "\<lparr>minor = -105, currency = ''INR''\<rparr>"] by (simp add: in64_def min_int64_def)
  ultimately show ?thesis by simp
qed

text \<open>The smallest int64 is the one amount whose rendering is not a number.\<close>

lemma decimal_of_min_int64:
  "decimal \<lparr>minor = min_int64, currency = ''INR''\<rparr> = ''--92233720368547758.-8''"
  by (simp add: decimal_def exponent_def exponents_def default_exponent_def Let_def min_int64_def wrap64_def
      int_digits_def pad_digits_def signed_divide_int_def signed_modulo_int_def nat_digits.simps char_of_def bit_0)

lemma upper_char_upper: "is_upper c \<Longrightarrow> upper_char c = c \<and> \<not> is_space c"
  by (auto simp: upper_char_def is_upper_def is_space_def)

lemma trim_space_none: "list_all (\<lambda>c. \<not> is_space c) s \<Longrightarrow> trim_space s = s"
proof -
  assume a: "list_all (\<lambda>c. \<not> is_space c) s"
  have dw: "dropWhile is_space t = t" if "list_all (\<lambda>c. \<not> is_space c) t" for t
    using that by (cases t) auto
  show ?thesis using a by (simp add: trim_space_def dw)
qed

lemma normalize_fixed:
  assumes "normalize_currency s = Some c"
  shows "length c = 3 \<and> list_all is_upper c \<and> normalize_currency c = Some c"
proof -
  have c: "length c = 3" "list_all is_upper c"
    using assms by (auto simp: normalize_currency_def Let_def split: if_splits)
  have "list_all (\<lambda>x. \<not> is_space x) c" "map upper_char c = c"
    using c(2) upper_char_upper by (auto simp: list_all_iff intro: map_idI)
  then have "normalize_currency c = Some c"
    using c by (simp add: normalize_currency_def trim_space_none)
  then show ?thesis using c by simp
qed

end
