(* ===== verification/Effects.thy ===== *)
theory Effects
  imports AppErrors
begin

text \<open>
  How the model runs code with effects. An action takes the state and returns
  an outcome (a value, a Go error, or a panic) with the state after it. The
  state at an error is kept: what happens to it is decided by \<open>with_tx\<close>
  and \<open>with_savepoint\<close> (\<open>internal/repository/postgresql/transaction.go\<close>), which
  roll the database back, and by nothing else.

  \<open>env\<close> is what a rollback does not undo and what is not under the program's
  control: the clock, the UUID generator, and the calls made to the outside
  (a payment provider). What an outside call answers is a parameter of the
  engines: a function of the calls made so far and of the call. The tables
  extend this record (\<open>ledger\<close> in DaoLedger and those that extend it), so a
  repository function is an action on any state that has its tables. \<open>ctx\<close> is the part of Go's context the repositories read.

  The clock does not move while one operation runs; one transaction runs at a
  time, so taking a row lock has no effect of its own. A commit succeeds.

  \<open>okp I m\<close> says that \<open>m\<close> keeps \<open>I\<close> whenever it returns a value, \<open>safep I m\<close> that
  it keeps \<open>I\<close> however it ends. The rules for both are collected in \<open>keeps\<close>.
\<close>

named_theorems keeps "what keeps an invariant"
named_theorems read_only "actions that leave the state as it is"
named_theorems act_simps "unfolding of the action combinators"

datatype 'a outcome = Ok 'a | Err go_error | Panicked

type_synonym ('s, 'a) action = "'s \<Rightarrow> 'a outcome \<times> 's"

section \<open>Combinators\<close>

definition returnM :: "'a \<Rightarrow> ('s, 'a) action" where
  "returnM a s = (Ok a, s)"

definition errM :: "go_error \<Rightarrow> ('s, 'a) action" where
  "errM e s = (Err e, s)"

definition failM :: "code \<Rightarrow> ('s, 'a) action" where
  "failM c = errM (app_err c)"

definition panicM :: "('s, 'a) action" where
  "panicM s = (Panicked, s)"

definition bindM :: "('s, 'a) action \<Rightarrow> ('a \<Rightarrow> ('s, 'b) action) \<Rightarrow> ('s, 'b) action" where
  "bindM m k s = (case m s of
     (Ok a, s') \<Rightarrow> k a s'
   | (Err e, s') \<Rightarrow> (Err e, s')
   | (Panicked, s') \<Rightarrow> (Panicked, s'))"

definition thenM :: "('s, 'a) action \<Rightarrow> ('s, 'b) action \<Rightarrow> ('s, 'b) action" where
  "thenM m k = bindM m (\<lambda>_. k)"

text \<open>The error of a call as a value, for code that looks at it; a panic goes on.\<close>

definition tryM :: "('s, 'a) action \<Rightarrow> ('s, go_error + 'a) action" where
  "tryM m s = (case m s of
     (Ok a, s') \<Rightarrow> (Ok (Inr a), s')
   | (Err e, s') \<Rightarrow> (Ok (Inl e), s')
   | (Panicked, s') \<Rightarrow> (Panicked, s'))"

definition getM :: "('s \<Rightarrow> 'a) \<Rightarrow> ('s, 'a) action" where
  "getM f s = (Ok (f s), s)"

definition modifyM :: "('s \<Rightarrow> 's) \<Rightarrow> ('s, unit) action" where
  "modifyM f s = (Ok (), f s)"

text \<open>\<open>for _, x := range xs { ... }\<close>, with and without collecting results.\<close>

fun for_each :: "'x list \<Rightarrow> ('x \<Rightarrow> ('s, unit) action) \<Rightarrow> ('s, unit) action" where
  "for_each [] f = returnM ()"
| "for_each (x # xs) f = bindM (f x) (\<lambda>_. for_each xs f)"

fun map_m :: "('x \<Rightarrow> ('s, 'y) action) \<Rightarrow> 'x list \<Rightarrow> ('s, 'y list) action" where
  "map_m f [] = returnM []"
| "map_m f (x # xs) = bindM (f x) (\<lambda>y. bindM (map_m f xs) (\<lambda>ys. returnM (y # ys)))"

fun fold_m :: "('x \<Rightarrow> 'b \<Rightarrow> ('s, 'b) action) \<Rightarrow> 'x list \<Rightarrow> 'b \<Rightarrow> ('s, 'b) action" where
  "fold_m f [] b = returnM b"
| "fold_m f (x # xs) b = bindM (f x b) (\<lambda>b'. fold_m f xs b')"

definition some_or :: "code \<Rightarrow> 'a option \<Rightarrow> ('s, 'a) action" where
  "some_or c x = (case x of Some a \<Rightarrow> returnM a | None \<Rightarrow> failM c)"

lemma return_apply [act_simps]: "returnM a s = (Ok a, s)" by (simp add: returnM_def)
lemma err_apply [act_simps]: "errM e s = (Err e, s)" by (simp add: errM_def)
lemma fail_apply [act_simps]: "failM c s = (Err (app_err c), s)" by (simp add: failM_def errM_def)
lemma panic_apply [act_simps]: "panicM s = (Panicked, s)" by (simp add: panicM_def)
lemma get_apply [act_simps]: "getM f s = (Ok (f s), s)" by (simp add: getM_def)
lemma modify_apply [act_simps]: "modifyM f s = (Ok (), f s)" by (simp add: modifyM_def)

lemma bind_apply_Ok [act_simps]: "m s = (Ok a, s') \<Longrightarrow> bindM m k s = k a s'"
  by (simp add: bindM_def)

lemma bind_apply_Err [act_simps]: "m s = (Err e, s') \<Longrightarrow> bindM m k s = (Err e, s')"
  by (simp add: bindM_def)

lemma bind_apply_Panicked [act_simps]: "m s = (Panicked, s') \<Longrightarrow> bindM m k s = (Panicked, s')"
  by (simp add: bindM_def)

lemma bind_return [simp]: "bindM (returnM a) k = k a"
  by (rule ext) (simp add: bindM_def returnM_def)

lemma bind_fail [simp]: "bindM (failM c) k = failM c"
  by (rule ext) (simp add: bindM_def failM_def errM_def)

lemma bind_assoc: "bindM (bindM m f) g = bindM m (\<lambda>x. bindM (f x) g)"
  by (rule ext) (simp add: bindM_def split: prod.splits outcome.splits)

lemma bind_Ok_iff:
  "bindM m k s = (Ok b, s'') \<longleftrightarrow> (\<exists>a s'. m s = (Ok a, s') \<and> k a s' = (Ok b, s''))"
  by (auto simp: bindM_def split: prod.splits outcome.splits)

lemma bind_cases:
  assumes "bindM m k s = (r, s'')"
  obtains (Ok) a s' where "m s = (Ok a, s')" "k a s' = (r, s'')"
  | (Err) e where "m s = (Err e, s'')" "r = Err e"
  | (Panic) "m s = (Panicked, s'')" "r = Panicked"
  using assms by (auto simp: bindM_def split: prod.splits outcome.splits)

lemma try_apply: "tryM m s = (case m s of
     (Ok a, s') \<Rightarrow> (Ok (Inr a), s') | (Err e, s') \<Rightarrow> (Ok (Inl e), s') | (Panicked, s') \<Rightarrow> (Panicked, s'))"
  by (simp add: tryM_def)

section \<open>The environment\<close>

text \<open>A call to the outside: the operation, the identifiers it names, the amount.\<close>

record call =
  cl_op :: string
  cl_args :: "string list"
  cl_amount :: int

record env =
  clock :: int
  uuid_gen :: "nat \<Rightarrow> string"
  uuid_next :: nat
  calls :: "call list"

record ctx =
  in_tx :: bool

text \<open>What a rollback leaves: the tables of \<open>s\<close> with the environment of \<open>s'\<close>.\<close>

definition rollback :: "'x env_scheme \<Rightarrow> 'x env_scheme \<Rightarrow> 'x env_scheme" where
  "rollback s s' = s\<lparr>clock := clock s', uuid_gen := uuid_gen s', uuid_next := uuid_next s', calls := calls s'\<rparr>"

text \<open>\<open>WithTx\<close>: a transaction already open is joined.\<close>

definition with_tx :: "ctx \<Rightarrow> (ctx \<Rightarrow> ('x env_scheme, 'a) action) \<Rightarrow> ('x env_scheme, 'a) action" where
  "with_tx c fn s =
     (if in_tx c then fn c s
      else case fn (c\<lparr>in_tx := True\<rparr>) s of
        (Ok a, s') \<Rightarrow> (Ok a, s')
      | (Err e, s') \<Rightarrow> (Err e, rollback s s')
      | (Panicked, s') \<Rightarrow> (Panicked, rollback s s'))"

definition with_savepoint :: "ctx \<Rightarrow> (ctx \<Rightarrow> ('x env_scheme, 'a) action) \<Rightarrow> ('x env_scheme, 'a) action" where
  "with_savepoint c fn s =
     (if \<not> in_tx c then (Err (Foreign ''a savepoint needs an enclosing transaction'' None), s)
      else case fn c s of
        (Ok a, s') \<Rightarrow> (Ok a, s')
      | (Err e, s') \<Rightarrow> (Err e, rollback s s')
      | (Panicked, s') \<Rightarrow> (Panicked, rollback s s'))"

text \<open>\<open>withReadSnapshot\<close>: read only, so always rolled back unless it joins.\<close>

definition with_read_snapshot :: "ctx \<Rightarrow> (ctx \<Rightarrow> ('x env_scheme, 'a) action) \<Rightarrow> ('x env_scheme, 'a) action" where
  "with_read_snapshot c fn s =
     (if in_tx c then fn c s
      else case fn (c\<lparr>in_tx := True\<rparr>) s of (r, s') \<Rightarrow> (r, rollback s s'))"

section \<open>Invariants of actions\<close>

definition okp :: "('s \<Rightarrow> bool) \<Rightarrow> ('s, 'a) action \<Rightarrow> bool" where
  "okp I m \<longleftrightarrow> (\<forall>s a s'. I s \<longrightarrow> m s = (Ok a, s') \<longrightarrow> I s')"

definition safep :: "('s \<Rightarrow> bool) \<Rightarrow> ('s, 'a) action \<Rightarrow> bool" where
  "safep I m \<longleftrightarrow> (\<forall>s r s'. I s \<longrightarrow> m s = (r, s') \<longrightarrow> I s')"

text \<open>An invariant of the tables only: a rollback cannot break it.\<close>

definition env_free :: "('x env_scheme \<Rightarrow> bool) \<Rightarrow> bool" where
  "env_free I \<longleftrightarrow> (\<forall>s t. I (rollback s t) = I s)"

lemma okpI: "(\<And>s a s'. I s \<Longrightarrow> m s = (Ok a, s') \<Longrightarrow> I s') \<Longrightarrow> okp I m"
  by (auto simp: okp_def)

lemma okpD: "okp I m \<Longrightarrow> I s \<Longrightarrow> m s = (Ok a, s') \<Longrightarrow> I s'"
  by (auto simp: okp_def)

lemma safepI: "(\<And>s r s'. I s \<Longrightarrow> m s = (r, s') \<Longrightarrow> I s') \<Longrightarrow> safep I m"
  by (auto simp: safep_def)

lemma safepD: "safep I m \<Longrightarrow> I s \<Longrightarrow> m s = (r, s') \<Longrightarrow> I s'"
  by (auto simp: safep_def)

lemma safep_okp: "safep I m \<Longrightarrow> okp I m"
  by (auto simp: safep_def okp_def)

lemma rollback_env_free: "env_free I \<Longrightarrow> I (rollback s s') = I s"
  by (simp add: env_free_def)

lemma rollback_uuid: "rollback s (s\<lparr>uuid_next := n\<rparr>) = s\<lparr>uuid_next := n\<rparr>"
  by (rule env.equality) (simp_all add: rollback_def)

lemma rollback_calls: "rollback s (s\<lparr>calls := k\<rparr>) = s\<lparr>calls := k\<rparr>"
  by (rule env.equality) (simp_all add: rollback_def)

lemma env_free_uuid: "env_free I \<Longrightarrow> I (s\<lparr>uuid_next := n\<rparr>) = I s"
  using rollback_env_free [of I s "s\<lparr>uuid_next := n\<rparr>"] by (simp add: rollback_uuid)

lemma env_free_calls: "env_free I \<Longrightarrow> I (s\<lparr>calls := k\<rparr>) = I s"
  using rollback_env_free [of I s "s\<lparr>calls := k\<rparr>"] by (simp add: rollback_calls)

lemma okp_basic [keeps]:
  "okp I (returnM a)" "okp I (errM e)" "okp I (failM c)" "okp I panicM" "okp I (getM f)"
  by (simp_all add: okp_def act_simps)

lemma safep_basic [keeps]:
  "safep I (returnM a)" "safep I (errM e)" "safep I (failM c)" "safep I panicM" "safep I (getM f)"
  by (simp_all add: safep_def act_simps)

lemma okp_modify: "(\<And>s. I s \<Longrightarrow> I (f s)) \<Longrightarrow> okp I (modifyM f)"
  by (auto simp: okp_def act_simps)

lemma safep_modify: "(\<And>s. I s \<Longrightarrow> I (f s)) \<Longrightarrow> safep I (modifyM f)"
  by (auto simp: safep_def act_simps)

lemma okp_bind [keeps]: "okp I m \<Longrightarrow> (\<And>a. okp I (k a)) \<Longrightarrow> okp I (bindM m k)"
  unfolding okp_def bind_Ok_iff by blast

lemma safep_bind [keeps]:
  assumes "safep I m" "\<And>a. safep I (k a)"
  shows "safep I (bindM m k)"
proof (rule safepI)
  fix s r s'
  assume "I s" "bindM m k s = (r, s')"
  from this(2) show "I s'"
    by (rule bind_cases) (use assms \<open>I s\<close> in \<open>auto dest: safepD\<close>)
qed

lemma okp_then [keeps]: "okp I m \<Longrightarrow> okp I k \<Longrightarrow> okp I (thenM m k)"
  by (simp add: thenM_def okp_bind)

lemma safep_then [keeps]: "safep I m \<Longrightarrow> safep I k \<Longrightarrow> safep I (thenM m k)"
  by (simp add: thenM_def safep_bind)

lemma okp_try [keeps]: "safep I m \<Longrightarrow> okp I (tryM m)"
  by (auto simp: okp_def safep_def try_apply split: prod.splits outcome.splits)

text \<open>A handler that only turns one error into another.\<close>

lemma okp_bind_try:
  assumes m: "okp I m" and err: "\<And>e s a s'. k (Inl e) s \<noteq> (Ok a, s')" and ok: "\<And>a. okp I (k (Inr a))"
  shows "okp I (bindM (tryM m) k)"
proof (rule okpI)
  fix s a s'
  assume I: "I s" and run: "bindM (tryM m) k s = (Ok a, s')"
  obtain r t where r: "m s = (r, t)" by fastforce
  show "I s'"
  proof (cases r)
    case (Ok b)
    have "k (Inr b) t = (Ok a, s')" using run by (simp add: bindM_def try_apply r Ok)
    then show ?thesis using okpD [OF ok okpD [OF m I]] r Ok by blast
  next
    case (Err e)
    have "k (Inl e) t = (Ok a, s')" using run by (simp add: bindM_def try_apply r Err)
    then show ?thesis using err by blast
  next
    case Panicked
    then show ?thesis using run by (simp add: bindM_def try_apply r)
  qed
qed

lemma safep_try [keeps]: "safep I m \<Longrightarrow> safep I (tryM m)"
  by (auto simp: safep_def try_apply split: prod.splits outcome.splits)

lemma okp_if [keeps]: "(b \<Longrightarrow> okp I m) \<Longrightarrow> (\<not> b \<Longrightarrow> okp I n) \<Longrightarrow> okp I (if b then m else n)"
  by simp

lemma safep_if [keeps]: "(b \<Longrightarrow> safep I m) \<Longrightarrow> (\<not> b \<Longrightarrow> safep I n) \<Longrightarrow> safep I (if b then m else n)"
  by simp

lemma okp_option [keeps]: "okp I m \<Longrightarrow> (\<And>y. okp I (k y)) \<Longrightarrow> okp I (case_option m k x)"
  by (cases x) simp_all

lemma safep_option [keeps]: "safep I m \<Longrightarrow> (\<And>y. safep I (k y)) \<Longrightarrow> safep I (case_option m k x)"
  by (cases x) simp_all

lemma okp_sum [keeps]: "(\<And>y. okp I (f y)) \<Longrightarrow> (\<And>y. okp I (g y)) \<Longrightarrow> okp I (case_sum f g x)"
  by (cases x) simp_all

lemma safep_sum [keeps]: "(\<And>y. safep I (f y)) \<Longrightarrow> (\<And>y. safep I (g y)) \<Longrightarrow> safep I (case_sum f g x)"
  by (cases x) simp_all

lemma okp_prod [keeps]: "(\<And>x y. okp I (f x y)) \<Longrightarrow> okp I (case_prod f p)"
  by (cases p) simp

lemma safep_prod [keeps]: "(\<And>x y. safep I (f x y)) \<Longrightarrow> safep I (case_prod f p)"
  by (cases p) simp

lemma okp_list [keeps]: "okp I m \<Longrightarrow> (\<And>y ys. okp I (k y ys)) \<Longrightarrow> okp I (case_list m k x)"
  by (cases x) simp_all

lemma okp_let [keeps]: "(\<And>y. okp I (f y)) \<Longrightarrow> okp I (Let x f)"
  by simp

lemma safep_let [keeps]: "(\<And>y. safep I (f y)) \<Longrightarrow> safep I (Let x f)"
  by simp

lemma okp_for_each [keeps]: "(\<And>x. okp I (f x)) \<Longrightarrow> okp I (for_each xs f)"
  by (induction xs) (auto intro: keeps)

lemma safep_for_each [keeps]: "(\<And>x. safep I (f x)) \<Longrightarrow> safep I (for_each xs f)"
  by (induction xs) (auto intro: keeps)

lemma okp_map_m [keeps]: "(\<And>x. okp I (f x)) \<Longrightarrow> okp I (map_m f xs)"
  by (induction xs) (auto intro!: keeps)

lemma safep_map_m [keeps]: "(\<And>x. safep I (f x)) \<Longrightarrow> safep I (map_m f xs)"
  by (induction xs) (auto intro!: keeps)

lemma okp_fold_m [keeps]: "(\<And>x b. okp I (f x b)) \<Longrightarrow> okp I (fold_m f xs b)"
  by (induction xs arbitrary: b) (auto intro!: keeps)

lemma safep_fold_m [keeps]: "(\<And>x b. safep I (f x b)) \<Longrightarrow> safep I (fold_m f xs b)"
  by (induction xs arbitrary: b) (auto intro!: keeps)

lemma safep_some_or [keeps]: "safep I (some_or c x)"
  by (cases x) (simp_all add: some_or_def keeps)

lemma okp_some_or [keeps]: "okp I (some_or c x)"
  by (rule safep_okp [OF safep_some_or])

lemma with_tx_Ok: "with_tx c fn s = (Ok a, s') \<longleftrightarrow> fn (c\<lparr>in_tx := True\<rparr>) s = (Ok a, s')"
proof (cases "in_tx c")
  case True
  then have "c\<lparr>in_tx := True\<rparr> = c" by (cases c) simp
  then show ?thesis unfolding with_tx_def by (simp only: True if_True)
next
  case False
  then show ?thesis
    by (cases "fn (c\<lparr>in_tx := True\<rparr>) s"; cases "fst (fn (c\<lparr>in_tx := True\<rparr>) s)") (auto simp: with_tx_def)
qed

lemma okp_with_tx [keeps]: "(\<And>c. okp I (fn c)) \<Longrightarrow> okp I (with_tx c fn)"
  by (auto simp: okp_def with_tx_def split: if_splits prod.splits outcome.splits)

text \<open>A transaction of its own keeps an invariant however it ends.\<close>

lemma safep_with_tx:
  assumes "env_free I" "\<not> in_tx c" "\<And>c. okp I (fn c)"
  shows "safep I (with_tx c fn)"
proof (rule safepI)
  fix s r s'
  assume "I s" "with_tx c fn s = (r, s')"
  then show "I s'"
    using assms okpD [OF assms(3) \<open>I s\<close>]
    by (auto simp: with_tx_def rollback_env_free split: prod.splits outcome.splits)
qed

lemma safep_with_savepoint [keeps]:
  assumes "env_free I" "\<And>c. okp I (fn c)"
  shows "safep I (with_savepoint c fn)"
proof (rule safepI)
  fix s r s'
  assume "I s" "with_savepoint c fn s = (r, s')"
  then show "I s'"
    using assms okpD [OF assms(2) \<open>I s\<close>]
    by (auto simp: with_savepoint_def rollback_env_free split: if_splits prod.splits outcome.splits)
qed

lemma okp_with_savepoint [keeps]: "(\<And>c. okp I (fn c)) \<Longrightarrow> okp I (with_savepoint c fn)"
  by (auto simp: okp_def with_savepoint_def split: if_splits prod.splits outcome.splits)

section \<open>Actions that only read\<close>

definition reads :: "('s, 'a) action \<Rightarrow> bool" where
  "reads m \<longleftrightarrow> (\<forall>s r s'. m s = (r, s') \<longrightarrow> s' = s)"

lemma readsD: "reads m \<Longrightarrow> m s = (r, s') \<Longrightarrow> s' = s"
  by (auto simp: reads_def)

lemma reads_run: "reads m \<Longrightarrow> m s = (fst (m s), s)"
  by (metis prod.collapse readsD)

lemma reads_bind [read_only]: "reads m \<Longrightarrow> (\<And>a. reads (k a)) \<Longrightarrow> reads (bindM m k)"
  unfolding reads_def by (intro allI impI, erule bind_cases) blast+

lemma reads_basic [read_only]: "reads (returnM a)" "reads (getM f)" "reads (failM e)" "reads panicM" "reads (errM x)"
  by (simp_all add: reads_def act_simps)

lemma reads_if [read_only]: "reads m \<Longrightarrow> reads n \<Longrightarrow> reads (if b then m else n)"
  by simp

lemma reads_option [read_only]: "reads m \<Longrightarrow> (\<And>y. reads (k y)) \<Longrightarrow> reads (case_option m k x)"
  by (cases x) simp_all

lemma reads_prod [read_only]: "(\<And>x y. reads (f x y)) \<Longrightarrow> reads (case_prod f p)"
  by (cases p) simp

lemma reads_some_or [read_only]: "reads (some_or c x)"
  unfolding some_or_def by (intro read_only)

section \<open>Outcomes\<close>

fun is_ok :: "'a outcome \<Rightarrow> bool" where
  "is_ok (Ok a) = True"
| "is_ok _ = False"

fun value_of :: "'a outcome \<Rightarrow> 'a option" where
  "value_of (Ok a) = Some a"
| "value_of _ = None"

lemma is_ok_run: "is_ok (fst (m s)) \<Longrightarrow> m s = (Ok (the (value_of (fst (m s)))), snd (m s))"
  by (cases "m s"; cases "fst (m s)") auto

lemma safep_run: "safep I m \<Longrightarrow> I s \<Longrightarrow> I (snd (m s))"
  by (cases "m s") (auto dest: safepD)

lemma okp_run: "okp I m \<Longrightarrow> I s \<Longrightarrow> is_ok (fst (m s)) \<Longrightarrow> I (snd (m s))"
  by (metis is_ok_run okpD)

end
