(* ===== verification/Ids.thy ===== *)
theory Ids
  imports Effects
begin

text \<open>
  \<open>pkg/ids\<close>: prefixed public ids. The body of an id is a UUIDv7 without its
  dashes, which the UUID library makes: the generator is the field \<open>uuid_gen\<close>
  of the environment, and \<open>new_id\<close> takes its next value.
\<close>

datatype id_prefix = CustomerId | ProductId | ServiceCredentialId | WalletTypeId | WalletId
  | LedgerAccountId | LedgerJournalId | LedgerHoldId | LedgerCheckRunId | PaymentId
  | PaymentAttemptId | OrderId | ItemId | RefundId | DisputeId | SettlementId | ReconBreakId
  | PayoutId | BeneficiaryId | IdempotencyId | OutboxEventId | RequestId

fun prefix_string :: "id_prefix \<Rightarrow> string" where
  "prefix_string CustomerId = ''cus''"
| "prefix_string ProductId = ''prd''"
| "prefix_string ServiceCredentialId = ''scr''"
| "prefix_string WalletTypeId = ''wtp''"
| "prefix_string WalletId = ''wlt''"
| "prefix_string LedgerAccountId = ''acc''"
| "prefix_string LedgerJournalId = ''jrn''"
| "prefix_string LedgerHoldId = ''hld''"
| "prefix_string LedgerCheckRunId = ''chk''"
| "prefix_string PaymentId = ''pay''"
| "prefix_string PaymentAttemptId = ''pat''"
| "prefix_string OrderId = ''ord''"
| "prefix_string ItemId = ''itm''"
| "prefix_string RefundId = ''ref''"
| "prefix_string DisputeId = ''dsp''"
| "prefix_string SettlementId = ''stl''"
| "prefix_string ReconBreakId = ''brk''"
| "prefix_string PayoutId = ''pot''"
| "prefix_string BeneficiaryId = ''bnf''"
| "prefix_string IdempotencyId = ''idk''"
| "prefix_string OutboxEventId = ''evt''"
| "prefix_string RequestId = ''req''"

definition separator :: char where
  "separator = CHR ''_''"

definition make_id :: "id_prefix \<Rightarrow> string \<Rightarrow> string" where
  "make_id p body = prefix_string p @ [separator] @ filter (\<lambda>c. c \<noteq> CHR ''-'') body"

definition new_id :: "id_prefix \<Rightarrow> ('x env_scheme, string) action" where
  "new_id p s = (Ok (make_id p (uuid_gen s (uuid_next s))), s\<lparr>uuid_next := Suc (uuid_next s)\<rparr>)"

text \<open>\<open>strings.Cut\<close> at the first separator.\<close>

fun cut :: "char \<Rightarrow> string \<Rightarrow> string \<times> string \<times> bool" where
  "cut c [] = ([], [], False)"
| "cut c (x # xs) = (if x = c then ([], xs, True)
     else (case cut c xs of (before, after, found) \<Rightarrow> (x # before, after, found)))"

text \<open>\<open>Parse\<close>; the two refusals are a malformed id and the wrong prefix.\<close>

datatype parse_error = MalformedId | WrongPrefix

definition parse_id :: "string \<Rightarrow> id_prefix \<Rightarrow> parse_error + string" where
  "parse_id s want = (case cut separator s of (pre, body, found) \<Rightarrow>
     if \<not> found \<or> pre = [] \<or> body = [] then Inl MalformedId
     else if pre \<noteq> prefix_string want then Inl WrongPrefix
     else Inr body)"

definition is_id :: "string \<Rightarrow> id_prefix \<Rightarrow> bool" where
  "is_id s p = (case cut separator s of (pre, body, found) \<Rightarrow>
     found \<and> body \<noteq> [] \<and> pre = prefix_string p)"

section \<open>Lemmas\<close>

lemma prefix_string_inj: "prefix_string p = prefix_string q \<longleftrightarrow> p = q"
  by (cases p; cases q) simp_all

lemma prefix_nonempty: "prefix_string p \<noteq> []"
  by (cases p) simp_all

lemma prefix_no_separator: "separator \<notin> set (prefix_string p)"
  by (cases p) (simp_all add: separator_def)

lemma cut_append: "c \<notin> set s \<Longrightarrow> cut c (s @ c # t) = (s, t, True)"
  by (induction s) auto

lemma cut_found: "cut c s = (b, a, True) \<Longrightarrow> s = b @ c # a \<and> c \<notin> set b"
proof (induction s arbitrary: b)
  case Nil
  then show ?case by simp
next
  case (Cons x xs)
  then show ?case by (cases "x = c") (auto split: prod.splits)
qed

text \<open>
  The ids of \<open>ids.New\<close> parse back under their own prefix and under no
  other: \<open>Parse\<close> of an id made for prefix \<open>p\<close> returns its body when \<open>p\<close> is wanted and refuses
  it as carrying the wrong prefix for every other one, whatever the UUID.
\<close>

theorem parse_make_id:
  assumes "filter (\<lambda>c. c \<noteq> CHR ''-'') body \<noteq> []"
  shows "parse_id (make_id p body) q =
    (if p = q then Inr (filter (\<lambda>c. c \<noteq> CHR ''-'') body) else Inl WrongPrefix)"
  using assms prefix_nonempty [of p]
  by (simp add: parse_id_def make_id_def prefix_string_inj cut_append prefix_no_separator)

lemma parse_make_id_witness:
  "parse_id (make_id WalletId ''0199-c4f2'') WalletId = Inr ''0199c4f2'' \<and>
   parse_id (make_id WalletId ''0199-c4f2'') PaymentId = Inl WrongPrefix"
  using parse_make_id [of "''0199-c4f2''" WalletId WalletId] parse_make_id [of "''0199-c4f2''" WalletId PaymentId]
  by simp

text \<open>
  \<open>Is\<close> and \<open>Parse\<close> agree: an id passes the yes-or-no check exactly when parsing
  it succeeds, and then the id is the prefix, the separator and the parsed body.
\<close>

theorem is_id_iff_parse:
  "is_id s p \<longleftrightarrow> (\<exists>body. parse_id s p = Inr body \<and> s = prefix_string p @ separator # body)"
proof -
  obtain b a f where c: "cut separator s = (b, a, f)" by (cases "cut separator s") auto
  then show ?thesis using prefix_nonempty [of p] cut_found [of separator s b a] by (cases f) (auto simp: is_id_def parse_id_def)
qed

end
