(* ===== verification/DaoLedger.thy ===== *)
theory DaoLedger
  imports Ids
begin

text \<open>
  The rows of the ledger (\<open>internal/models/dao/ledger.go\<close>, \<open>product.go\<close>) and the
  tables that hold them. A table is the list of its rows in insertion order; a
  serial id is the position of the row (\<open>next_id\<close>). A time is a number of
  seconds. The tables extend the environment record, and the tables of the
  other components extend this record, so the ledger's functions work on any
  of them.
\<close>

datatype product_status = ProductActive | ProductSuspended

record product =
  pr_id :: int
  pr_public_id :: string
  pr_code :: string
  pr_name :: string
  pr_status :: product_status
  pr_default_currency :: string
  pr_refund_destination :: string

datatype account_type = AccountAsset | AccountLiability | AccountEquity | AccountIncome | AccountExpense

fun normal_sign :: "account_type \<Rightarrow> int" where
  "normal_sign AccountAsset = 1"
| "normal_sign AccountExpense = 1"
| "normal_sign _ = - 1"

datatype owner_kind = OwnerPlatform | OwnerCustomer | OwnerProvider | OwnerMerchant

datatype account_status = AccountActive | AccountClosed

definition Debit :: int where "Debit = 1"

definition Credit :: int where "Credit = - 1"

definition direction_string :: "int \<Rightarrow> string" where
  "direction_string d = (if d = Debit then ''debit'' else ''credit'')"

record ledger_account =
  la_id :: int
  la_public_id :: string
  la_code :: string
  la_product_id :: "int option"
  la_type :: account_type
  la_currency :: string
  la_owner_kind :: owner_kind
  la_owner_id :: "string option"
  la_allow_negative :: bool
  la_status :: account_status
  la_created_at :: int
  la_updated_at :: int

datatype journal_kind = JournalTopup | JournalPurchase | JournalRefund | JournalTransfer | JournalGrant
  | JournalFee | JournalSettlement | JournalAdjustment | JournalReversal | JournalExpiry

record posting =
  po_id :: int
  po_journal_id :: int
  po_account_id :: int
  po_account_code :: string
  po_account_public_id :: string
  po_direction :: int
  po_amount :: int
  po_currency :: string
  po_seq :: int
  po_balance_after :: int
  po_created_at :: int

record journal =
  jo_id :: int
  jo_public_id :: string
  jo_external_id :: string
  jo_kind :: journal_kind
  jo_product_id :: "int option"
  jo_source_kind :: "string option"
  jo_source_id :: "string option"
  jo_reverses_journal_id :: "int option"
  jo_memo :: string
  jo_reason_code :: "string option"
  jo_posted_at :: int
  jo_postings :: "posting list"
  jo_product_public_id :: "string option"
  jo_reverses_journal_public_id :: "string option"
  jo_created_at :: int

text \<open>\<open>Posting.Signed\<close>: an int64 product.\<close>

definition signed :: "posting \<Rightarrow> int" where
  "signed p = wrap64 (po_direction p * po_amount p)"

record balance =
  ba_account_id :: int
  ba_raw_balance :: int
  ba_held :: int
  ba_version :: int
  ba_updated_at :: int

definition natural :: "balance \<Rightarrow> account_type \<Rightarrow> int" where
  "natural b t = wrap64 (ba_raw_balance b * normal_sign t)"

definition available :: "balance \<Rightarrow> account_type \<Rightarrow> int" where
  "available b t = wrap64 (natural b t - ba_held b)"

datatype hold_status = HoldActive | HoldCaptured | HoldReleased | HoldExpired

record hold =
  ho_id :: int
  ho_public_id :: string
  ho_external_id :: string
  ho_account_id :: int
  ho_amount :: int
  ho_currency :: string
  ho_status :: hold_status
  ho_expires_at :: int
  ho_capture_journal_id :: "int option"
  ho_captured_amount :: "int option"
  ho_resolved_at :: "int option"
  ho_created_at :: int
  ho_updated_at :: int

datatype ledger_check_status = LedgerCheckOK | LedgerCheckDrift | LedgerCheckError

datatype ledger_check_trigger = LedgerCheckScheduled | LedgerCheckManual

record ledger_check_finding =
  cf_invariant :: string
  cf_subject :: string
  cf_expected :: int
  cf_actual :: int

record ledger_check_run =
  cr_id :: int
  cr_public_id :: string
  cr_status :: ledger_check_status
  cr_trigger :: ledger_check_trigger
  cr_triggered_by :: "string option"
  cr_findings :: "ledger_check_finding list"
  cr_truncated :: bool
  cr_error :: "string option"
  cr_started_at :: int
  cr_finished_at :: int

section \<open>The tables\<close>

record ledger = env +
  products :: "product list"
  accounts :: "ledger_account list"
  journals :: "journal list"
  postings :: "posting list"
  balances :: "balance list"
  holds :: "hold list"
  check_runs :: "ledger_check_run list"

lemma normal_sign_cases: "normal_sign t = 1 \<or> normal_sign t = - 1"
  by (cases t) simp_all

lemma normal_sign_square [simp]: "normal_sign t * normal_sign t = 1"
  by (cases t) simp_all

end
