(* ===== verification/Ledger.thy ===== *)
theory Ledger
  imports DaoLedger
begin

text \<open>
  Ledger accounts and the posting engine:
  \<open>internal/repository/postgresql/ledger_account.go\<close> and \<open>ledger.go\<close>.

  A query is modelled by the rows it selects. A database error other than the
  conflicts and missing rows the code handles does not occur: the constraints
  of the schema are the ones the code checks first (a public id is a fresh
  UUID, a row that is referenced exists and is never deleted).
\<close>

section \<open>Accounts (\<open>ledger_account.go\<close>)\<close>

definition account_by_code :: "string \<Rightarrow> 'x ledger_scheme \<Rightarrow> ledger_account option" where
  "account_by_code code s = find_row la_code code (accounts s)"

definition account_by_id :: "int \<Rightarrow> 'x ledger_scheme \<Rightarrow> ledger_account option" where
  "account_by_id i s = find_row la_id i (accounts s)"

definition balance_of :: "int \<Rightarrow> 'x ledger_scheme \<Rightarrow> balance option" where
  "balance_of i s = find_row ba_account_id i (balances s)"

definition get_ledger_account_by_code :: "string \<Rightarrow> ('x ledger_scheme, ledger_account) action" where
  "get_ledger_account_by_code code = bindM (getM (account_by_code code)) (some_or NotFound)"

definition get_ledger_account_by_id :: "int \<Rightarrow> ('x ledger_scheme, ledger_account) action" where
  "get_ledger_account_by_id i = bindM (getM (account_by_id i)) (some_or NotFound)"

definition get_balance :: "int \<Rightarrow> ('x ledger_scheme, balance) action" where
  "get_balance i = bindM (getM (balance_of i)) (some_or NotFound)"

text \<open>The foreign key of \<open>ledger_accounts.product_id\<close>.\<close>

definition product_exists :: "int option \<Rightarrow> 'x ledger_scheme \<Rightarrow> bool" where
  "product_exists p s = (case p of None \<Rightarrow> True | Some i \<Rightarrow> find_row pr_id i (products s) \<noteq> None)"

definition new_balance :: "int \<Rightarrow> int \<Rightarrow> balance" where
  "new_balance i now = \<lparr>ba_account_id = i, ba_raw_balance = 0, ba_held = 0, ba_version = 0, ba_updated_at = now\<rparr>"

definition insert_ledger_account :: "ctx \<Rightarrow> ledger_account \<Rightarrow> ('x ledger_scheme, ledger_account \<times> bool) action" where
  "insert_ledger_account c account = with_tx c (\<lambda>c.
     bindM (getM (account_by_code (la_code account))) (\<lambda>conflict.
     if conflict \<noteq> None then returnM (account, False)
     else bindM (getM (product_exists (la_product_id account))) (\<lambda>fk.
     if \<not> fk then failM NotFound
     else bindM (getM (\<lambda>s. account\<lparr>la_id := next_id (accounts s), la_created_at := clock s, la_updated_at := clock s\<rparr>)) (\<lambda>row.
     bindM (modifyM (\<lambda>s. s\<lparr>accounts := accounts s @ [row]\<rparr>)) (\<lambda>_.
     bindM (modifyM (\<lambda>s. s\<lparr>balances := balances s @ [new_balance (la_id row) (clock s)]\<rparr>)) (\<lambda>_.
     returnM (row, True)))))))"

definition create_ledger_account :: "ctx \<Rightarrow> ledger_account \<Rightarrow> ('x ledger_scheme, ledger_account) action" where
  "create_ledger_account c account = bindM (insert_ledger_account c account) (\<lambda>(row, created).
     if \<not> created then failM AlreadyExists else returnM row)"

definition get_or_create_ledger_account :: "ctx \<Rightarrow> ledger_account \<Rightarrow> ('x ledger_scheme, ledger_account \<times> bool) action" where
  "get_or_create_ledger_account c account = bindM (insert_ledger_account c account) (\<lambda>(row, created).
     if created then returnM (row, True)
     else bindM (get_ledger_account_by_code (la_code account)) (\<lambda>existing. returnM (existing, False)))"

text \<open>A statement: the account's postings, newest first, one page of them.\<close>

definition with_account :: "'x ledger_scheme \<Rightarrow> posting \<Rightarrow> posting" where
  "with_account s p = (case account_by_id (po_account_id p) s of
     Some a \<Rightarrow> p\<lparr>po_account_code := la_code a, po_account_public_id := la_public_id a\<rparr>
   | None \<Rightarrow> p)"

definition list_account_postings :: "int \<Rightarrow> nat \<Rightarrow> nat \<Rightarrow> ('x ledger_scheme, posting list) action" where
  "list_account_postings i limit offset = getM (\<lambda>s.
     map (\<lambda>p. (with_account s p)\<lparr>po_account_public_id := []\<rparr>)
       (take limit (drop offset (rev (filter (\<lambda>p. po_account_id p = i) (postings s))))))"

section \<open>The posting engine (\<open>ledger.go\<close>)\<close>

record hold_release =
  hr_account_id :: int
  hr_amount :: int

record locked_account =
  lk_id :: int
  lk_code :: string
  lk_type :: account_type
  lk_currency :: string
  lk_allow_negative :: bool
  lk_status :: account_status
  lk_raw_balance :: int
  lk_held :: int

subsection \<open>Validation\<close>

text \<open>The map \<open>sums\<close>, on int64.\<close>

fun add_sum :: "string \<Rightarrow> int \<Rightarrow> (string \<times> int) list \<Rightarrow> (string \<times> int) list" where
  "add_sum cur d [] = [(cur, wrap64 d)]"
| "add_sum cur d ((c, x) # rest) = (if c = cur then (c, wrap64 (x + d)) # rest else (c, x) # add_sum cur d rest)"

fun validate_postings :: "posting list \<Rightarrow> (string \<times> int) list \<Rightarrow> (string \<times> int) list option" where
  "validate_postings [] sums = Some sums"
| "validate_postings (p # ps) sums =
     (if po_amount p \<le> 0 then None
      else if po_direction p \<noteq> Debit \<and> po_direction p \<noteq> Credit then None
      else if po_currency p = [] then None
      else validate_postings ps (add_sum (po_currency p) (signed p) sums))"

text \<open>\<open>None\<close> is acceptance; the refusals inside the loops all carry \<open>LedgerImbalance\<close>.\<close>

definition validate_journal :: "journal \<Rightarrow> code option" where
  "validate_journal j =
     (if jo_external_id j = [] then Some Internal
      else if length (jo_postings j) < 2 then Some LedgerImbalance
      else case validate_postings (jo_postings j) [] of
        None \<Rightarrow> Some LedgerImbalance
      | Some sums \<Rightarrow> if \<exists>x\<in>set sums. snd x \<noteq> 0 then Some LedgerImbalance else None)"

subsection \<open>Claiming the external id\<close>

definition journal_by_external_id :: "string \<Rightarrow> 'x ledger_scheme \<Rightarrow> journal option" where
  "journal_by_external_id x s = find_row jo_external_id x (journals s)"

definition list_postings :: "int \<Rightarrow> 'x ledger_scheme \<Rightarrow> posting list" where
  "list_postings i s = map (with_account s) (sort_key po_seq (filter (\<lambda>p. po_journal_id p = i) (postings s)))"

definition get_journal_by_external_id :: "string \<Rightarrow> ('x ledger_scheme, journal) action" where
  "get_journal_by_external_id x = bindM (getM (journal_by_external_id x)) (\<lambda>r. case r of
     None \<Rightarrow> failM NotFound
   | Some j \<Rightarrow> bindM (getM (list_postings (jo_id j))) (\<lambda>ps. returnM (j\<lparr>jo_postings := ps\<rparr>)))"

text \<open>The row stored: the postings are rows of their own table.\<close>

definition journal_row :: "journal \<Rightarrow> journal" where
  "journal_row j = j\<lparr>jo_postings := [], jo_product_public_id := None, jo_reverses_journal_public_id := None\<rparr>"

text \<open>\<open>Inl\<close>: this call won the external id; \<open>Inr\<close>: the journal that owns it.\<close>

definition insert_journal :: "journal \<Rightarrow> ('x ledger_scheme, journal + journal) action" where
  "insert_journal j = bindM (getM (journal_by_external_id (jo_external_id j))) (\<lambda>conflict.
     if conflict = None
     then bindM (getM (\<lambda>s. j\<lparr>jo_id := next_id (journals s), jo_posted_at := clock s, jo_created_at := clock s\<rparr>)) (\<lambda>j'.
          bindM (modifyM (\<lambda>s. s\<lparr>journals := journals s @ [journal_row j']\<rparr>)) (\<lambda>_.
          returnM (Inl j')))
     else bindM (get_journal_by_external_id (jo_external_id j)) (\<lambda>existing. returnM (Inr existing)))"

subsection \<open>Locking\<close>

fun add_absent :: "'k list \<Rightarrow> 'k list \<Rightarrow> 'k list" where
  "add_absent ids [] = ids"
| "add_absent ids (x # xs) = add_absent (if x \<in> set ids then ids else ids @ [x]) xs"

definition lock_ids :: "journal \<Rightarrow> hold_release list \<Rightarrow> int list" where
  "lock_ids j releases =
     sort (add_absent (add_absent [] (map po_account_id (jo_postings j))) (map hr_account_id releases))"

text \<open>The join of an account with its balance row, one row of the locking query.\<close>

definition locked_row :: "int \<Rightarrow> 'x ledger_scheme \<Rightarrow> locked_account option" where
  "locked_row i s = (case (account_by_id i s, balance_of i s) of
     (Some a, Some b) \<Rightarrow> Some \<lparr>lk_id = la_id a, lk_code = la_code a, lk_type = la_type a,
        lk_currency = la_currency a, lk_allow_negative = la_allow_negative a, lk_status = la_status a,
        lk_raw_balance = ba_raw_balance b, lk_held = ba_held b\<rparr>
   | _ \<Rightarrow> None)"

text \<open>\<open>lockAccount\<close>; the posting engine checks each row it locks in the same way.\<close>

definition lock_account :: "int \<Rightarrow> ('x ledger_scheme, locked_account) action" where
  "lock_account i = bindM (getM (locked_row i)) (\<lambda>r. case r of
     None \<Rightarrow> failM NotFound
   | Some a \<Rightarrow> if lk_status a \<noteq> AccountActive then failM FailedPrecondition else returnM a)"

definition lock_accounts_for_posting :: "journal \<Rightarrow> hold_release list \<Rightarrow> ('x ledger_scheme, locked_account list) action" where
  "lock_accounts_for_posting j releases = map_m lock_account (lock_ids j releases)"

subsection \<open>Writing\<close>

text \<open>One hold's reservation freed on the locked accounts.\<close>

definition free_release :: "hold_release \<Rightarrow> locked_account list \<Rightarrow> ('x ledger_scheme, locked_account list) action" where
  "free_release r accts = (case find_row lk_id (hr_account_id r) accts of
     None \<Rightarrow> panicM
   | Some a \<Rightarrow> if lk_held a < hr_amount r then failM Internal
       else returnM (update_rows lk_id (hr_account_id r) (\<lambda>a. a\<lparr>lk_held := wrap64 (lk_held a - hr_amount r)\<rparr>) accts))"

text \<open>The overdraft rule for a leg that has just been added to the account.\<close>

definition overdrawn :: "locked_account \<Rightarrow> posting \<Rightarrow> bool" where
  "overdrawn a p \<longleftrightarrow> \<not> lk_allow_negative a \<and> wrap64 (signed p * normal_sign (lk_type a)) < 0 \<and>
     wrap64 (wrap64 (lk_raw_balance a * normal_sign (lk_type a)) - lk_held a) < 0"

definition add_leg :: "posting \<Rightarrow> locked_account \<Rightarrow> locked_account" where
  "add_leg p a = a\<lparr>lk_raw_balance := wrap64 (lk_raw_balance a + signed p)\<rparr>"

definition write_posting :: "int \<Rightarrow> posting \<Rightarrow> locked_account list \<times> posting list \<Rightarrow>
    ('x ledger_scheme, locked_account list \<times> posting list) action" where
  "write_posting jid p st = (case st of (accts, written) \<Rightarrow>
     (case find_row lk_id (po_account_id p) accts of
        None \<Rightarrow> panicM
      | Some a \<Rightarrow>
          if po_currency p \<noteq> lk_currency a then failM CurrencyMismatch
          else if overdrawn (add_leg p a) p then failM InsufficientBalance
          else bindM (getM (\<lambda>s. p\<lparr>po_id := next_id (postings s), po_journal_id := jid,
                 po_seq := int (length written), po_balance_after := lk_raw_balance (add_leg p a),
                 po_created_at := clock s\<rparr>)) (\<lambda>row.
               bindM (modifyM (\<lambda>s. s\<lparr>postings := postings s @ [row]\<rparr>)) (\<lambda>_.
               returnM (update_rows lk_id (po_account_id p) (add_leg p) accts, written @ [row])))))"

definition update_balance :: "locked_account \<Rightarrow> ('x ledger_scheme, unit) action" where
  "update_balance a = modifyM (\<lambda>s. s\<lparr>balances := update_rows ba_account_id (lk_id a)
     (\<lambda>b. b\<lparr>ba_raw_balance := lk_raw_balance a, ba_held := lk_held a,
        ba_version := ba_version b + 1, ba_updated_at := clock s\<rparr>) (balances s)\<rparr>)"

definition write_postings :: "journal \<Rightarrow> locked_account list \<Rightarrow> ('x ledger_scheme, journal) action" where
  "write_postings j accts = bindM (fold_m (write_posting (jo_id j)) (jo_postings j) (accts, [])) (\<lambda>(accts', written).
     bindM (for_each accts' update_balance) (\<lambda>_. returnM (j\<lparr>jo_postings := written\<rparr>)))"

text \<open>
  \<open>postJournal\<close>. \<open>check\<close> is \<open>postOptions.check\<close>; the value is the caller's journal
  after the call and \<open>posted\<close>.
\<close>

definition post_journal_opts :: "ctx \<Rightarrow> journal \<Rightarrow> hold_release list \<Rightarrow> (ctx \<Rightarrow> ('x ledger_scheme, unit) action) option \<Rightarrow>
    ('x ledger_scheme, journal \<times> bool) action" where
  "post_journal_opts c j releases check =
     (if \<not> in_tx c then failM Internal
      else case validate_journal j of
        Some e \<Rightarrow> failM e
      | None \<Rightarrow> bindM (insert_journal j) (\<lambda>claim. case claim of
          Inr existing \<Rightarrow> returnM (existing, False)
        | Inl j1 \<Rightarrow>
            bindM (lock_accounts_for_posting j1 releases) (\<lambda>accts.
            bindM (fold_m free_release releases accts) (\<lambda>accts1.
            bindM (write_postings j1 accts1) (\<lambda>j2.
            bindM (case check of None \<Rightarrow> returnM () | Some f \<Rightarrow> f c) (\<lambda>_.
            returnM (j2, True)))))))"

definition post_journal :: "ctx \<Rightarrow> journal \<Rightarrow> ('x ledger_scheme, journal) action" where
  "post_journal c j = bindM (post_journal_opts c j [] None) (\<lambda>(j', _). returnM j')"

definition post_journal_checked :: "ctx \<Rightarrow> journal \<Rightarrow> (ctx \<Rightarrow> ('x ledger_scheme, unit) action) \<Rightarrow>
    ('x ledger_scheme, journal \<times> bool) action" where
  "post_journal_checked c j check = post_journal_opts c j [] (Some check)"

end
