(* ===== verification/LedgerInv.thy ===== *)
theory LedgerInv
  imports Ledger
begin

text \<open>
  The invariant of the ledger tables, and that the posting engine keeps it.

  \<open>ledger_inv\<close> collects what must be true of the tables between operations. Sums
  over Go's int64 can wrap, so the parts about sums are stated modulo the wrap
  and hold without any bound; the rule that a restricted account is never
  overdrawn needs the total volume posted to fit in an int64.

  \<open>flight\<close> is the state of the locked accounts while the legs of one journal
  are written: one lemma per step of \<open>postJournal\<close> moves it along, and
  \<open>post_effect\<close> is what the whole call does to the tables.
\<close>

named_theorems inv_defs "the parts of the ledger invariant"

section \<open>Sums\<close>

definition leg :: "posting \<Rightarrow> int" where
  "leg p = po_direction p * po_amount p"

definition acct_sum :: "int \<Rightarrow> posting list \<Rightarrow> int" where
  "acct_sum i ps = sum_by leg (\<lambda>p. po_account_id p = i) ps"

definition volume :: "posting list \<Rightarrow> int" where
  "volume ps = sum_by po_amount (\<lambda>_. True) ps"

definition journal_sum :: "int \<Rightarrow> string \<Rightarrow> posting list \<Rightarrow> int" where
  "journal_sum j cur ps = sum_by leg (\<lambda>p. po_journal_id p = j \<and> po_currency p = cur) ps"

definition active_sum :: "int \<Rightarrow> hold list \<Rightarrow> int" where
  "active_sum i hs = sum_by ho_amount (\<lambda>h. ho_account_id h = i \<and> ho_status h = HoldActive) hs"

definition valid_leg :: "posting \<Rightarrow> bool" where
  "valid_leg p \<longleftrightarrow> (po_direction p = 1 \<or> po_direction p = - 1) \<and> 0 < po_amount p"

lemma acct_sum_append [simp]: "acct_sum i (ps @ qs) = acct_sum i ps + acct_sum i qs"
  by (simp add: acct_sum_def)

lemma acct_sum_Cons [simp]: "acct_sum i (p # ps) = (if po_account_id p = i then leg p else 0) + acct_sum i ps"
  by (simp add: acct_sum_def)

lemma acct_sum_Nil [simp]: "acct_sum i [] = 0"
  by (simp add: acct_sum_def)

lemma volume_append [simp]: "volume (ps @ qs) = volume ps + volume qs"
  by (simp add: volume_def)

lemma volume_Cons [simp]: "volume (p # ps) = po_amount p + volume ps"
  by (simp add: volume_def)

lemma volume_Nil [simp]: "volume [] = 0"
  by (simp add: volume_def)

lemma journal_sum_append [simp]: "journal_sum j c (ps @ qs) = journal_sum j c ps + journal_sum j c qs"
  by (simp add: journal_sum_def)

lemma journal_sum_Cons [simp]: "journal_sum j c (p # ps) =
    (if po_journal_id p = j \<and> po_currency p = c then leg p else 0) + journal_sum j c ps"
  by (simp add: journal_sum_def)

lemma journal_sum_Nil [simp]: "journal_sum j c [] = 0"
  by (simp add: journal_sum_def)

lemma valid_leg_abs: "valid_leg p \<Longrightarrow> \<bar>leg p\<bar> = po_amount p"
  by (auto simp: valid_leg_def leg_def)

lemma volume_nonneg: "\<forall>p\<in>set ps. valid_leg p \<Longrightarrow> 0 \<le> volume ps"
  unfolding volume_def by (rule sum_by_nonneg) (auto simp: valid_leg_def)

lemma acct_sum_volume: "\<forall>p\<in>set ps. valid_leg p \<Longrightarrow> \<bar>acct_sum i ps\<bar> \<le> volume ps"
  unfolding volume_def acct_sum_def by (rule sum_by_abs_le) (simp add: valid_leg_abs)

lemma journal_sum_volume: "\<forall>p\<in>set ps. valid_leg p \<Longrightarrow> \<bar>journal_sum j c ps\<bar> \<le> volume ps"
  unfolding volume_def journal_sum_def by (rule sum_by_abs_le) (simp add: valid_leg_abs)

lemma signed_leg: "signed p = wrap64 (leg p)"
  by (simp add: signed_def leg_def)

section \<open>The invariant\<close>

definition accounts_inv :: "'x ledger_scheme \<Rightarrow> bool" where
  [inv_defs]: "accounts_inv s \<longleftrightarrow> map la_id (accounts s) = serials (length (accounts s)) \<and>
     distinct (map la_code (accounts s)) \<and>
     map ba_account_id (balances s) = map la_id (accounts s)"

text \<open>A posting is one valid leg on an existing account, in that account's currency, of an existing journal.\<close>

definition posting_inv :: "'x ledger_scheme \<Rightarrow> posting \<Rightarrow> bool" where
  "posting_inv s p \<longleftrightarrow> valid_leg p \<and> po_journal_id p \<in> jo_id ` set (journals s) \<and>
     (\<exists>a\<in>set (accounts s). la_id a = po_account_id p \<and> la_currency a = po_currency p)"

fun running_from :: "posting list \<Rightarrow> posting list \<Rightarrow> bool" where
  "running_from pre [] = True"
| "running_from pre (p # ps) =
     (po_balance_after p = wrap64 (acct_sum (po_account_id p) (pre @ [p])) \<and> running_from (pre @ [p]) ps)"

definition postings_inv :: "'x ledger_scheme \<Rightarrow> bool" where
  [inv_defs]: "postings_inv s \<longleftrightarrow> map po_id (postings s) = serials (length (postings s)) \<and>
     (\<forall>p\<in>set (postings s). posting_inv s p) \<and> running_from [] (postings s)"

text \<open>A journal has at least two legs and balances in each currency, modulo the wrap.\<close>

definition journal_inv :: "'x ledger_scheme \<Rightarrow> journal \<Rightarrow> bool" where
  "journal_inv s j \<longleftrightarrow> jo_external_id j \<noteq> [] \<and>
     2 \<le> length (filter (\<lambda>p. po_journal_id p = jo_id j) (postings s)) \<and>
     (\<forall>c. wrap64 (journal_sum (jo_id j) c (postings s)) = 0)"

definition journals_inv :: "'x ledger_scheme \<Rightarrow> bool" where
  [inv_defs]: "journals_inv s \<longleftrightarrow> map jo_id (journals s) = serials (length (journals s)) \<and>
     distinct (map jo_external_id (journals s)) \<and> (\<forall>j\<in>set (journals s). journal_inv s j)"

definition balances_inv :: "'x ledger_scheme \<Rightarrow> bool" where
  [inv_defs]: "balances_inv s \<longleftrightarrow> (\<forall>b\<in>set (balances s).
     ba_raw_balance b = wrap64 (acct_sum (ba_account_id b) (postings s)) \<and> 0 \<le> ba_held b \<and> ba_held b < 2 ^ 63)"

definition restricted_ok :: "posting list \<Rightarrow> account_type \<Rightarrow> int \<Rightarrow> int \<Rightarrow> bool" where
  "restricted_ok ps t i held \<longleftrightarrow> (volume ps < 2 ^ 63 \<longrightarrow> held \<le> acct_sum i ps * normal_sign t)"

definition overdraft_inv :: "'x ledger_scheme \<Rightarrow> bool" where
  [inv_defs]: "overdraft_inv s \<longleftrightarrow> (\<forall>a\<in>set (accounts s). \<forall>b\<in>set (balances s).
     ba_account_id b = la_id a \<longrightarrow> \<not> la_allow_negative a \<longrightarrow>
     restricted_ok (postings s) (la_type a) (la_id a) (ba_held b))"

definition hold_inv :: "'x ledger_scheme \<Rightarrow> hold \<Rightarrow> bool" where
  "hold_inv s h \<longleftrightarrow> 0 < ho_amount h \<and>
     (\<exists>a\<in>set (accounts s). la_id a = ho_account_id h \<and> la_currency a = ho_currency h) \<and>
     (ho_status h = HoldCaptured \<longleftrightarrow> ho_capture_journal_id h \<noteq> None \<and> ho_captured_amount h \<noteq> None) \<and>
     (ho_status h = HoldActive \<longleftrightarrow> ho_resolved_at h = None) \<and>
     (\<forall>x. ho_captured_amount h = Some x \<longrightarrow> 0 < x \<and> x \<le> ho_amount h) \<and>
     (\<forall>j. ho_capture_journal_id h = Some j \<longrightarrow> j \<in> jo_id ` set (journals s))"

definition holds_inv :: "'x ledger_scheme \<Rightarrow> bool" where
  [inv_defs]: "holds_inv s \<longleftrightarrow> map ho_id (holds s) = serials (length (holds s)) \<and>
     distinct (map ho_external_id (holds s)) \<and> (\<forall>h\<in>set (holds s). hold_inv s h)"

definition held_inv :: "'x ledger_scheme \<Rightarrow> bool" where
  [inv_defs]: "held_inv s \<longleftrightarrow> (\<forall>b\<in>set (balances s). ba_held b = active_sum (ba_account_id b) (holds s))"

text \<open>Everything but the held figures, which a capture changes in two steps.\<close>

definition core_inv :: "'x ledger_scheme \<Rightarrow> bool" where
  "core_inv s \<longleftrightarrow> accounts_inv s \<and> postings_inv s \<and> journals_inv s \<and> balances_inv s \<and> overdraft_inv s \<and> holds_inv s"

definition ledger_inv :: "'x ledger_scheme \<Rightarrow> bool" where
  "ledger_inv s \<longleftrightarrow> core_inv s \<and> held_inv s"

lemma running_from_append: "running_from pre (ps @ qs) \<longleftrightarrow> running_from pre ps \<and> running_from (pre @ ps) qs"
  by (induction ps arbitrary: pre) auto

lemma running_snoc:
  "running_from [] (ps @ [p]) \<longleftrightarrow> running_from [] ps \<and> po_balance_after p = wrap64 (acct_sum (po_account_id p) ps + leg p)"
  by (simp add: running_from_append)

lemma env_free_ledger_inv [simp, intro]: "env_free ledger_inv"
  by (simp add: env_free_def rollback_def ledger_inv_def core_inv_def inv_defs posting_inv_def journal_inv_def hold_inv_def)

end
