(* ===== verification/Posting.thy ===== *)
theory Posting
  imports LedgerInv
begin

text \<open>
  The posting engine keeps the ledger invariant, and what one call of
  \<open>postJournal\<close> does to the tables. Each step of the call has a lemma on its
  result: locking reads the joined rows, freeing subtracts from the held
  figures, writing appends one row per leg, the last loop stores the balances.
\<close>

section \<open>Locking\<close>

lemma set_add_absent [simp]: "set (add_absent ids xs) = set ids \<union> set xs"
  by (induction xs arbitrary: ids) auto

lemma distinct_add_absent [simp]: "distinct ids \<Longrightarrow> distinct (add_absent ids xs)"
  by (induction xs arbitrary: ids) auto

lemma set_lock_ids: "set (lock_ids j rels) = po_account_id ` set (jo_postings j) \<union> hr_account_id ` set rels"
  by (simp add: lock_ids_def)

lemma distinct_lock_ids [simp]: "distinct (lock_ids j rels)" "sorted (lock_ids j rels)"
  by (simp_all add: lock_ids_def)

lemma lock_account_Ok: "lock_account i s = (Ok a, s') \<Longrightarrow> s' = s \<and> locked_row i s = Some a \<and> lk_status a = AccountActive"
  by (auto simp: lock_account_def bind_Ok_iff act_simps split: option.splits if_splits)

lemma lock_all_Ok:
  "map_m lock_account ids s = (Ok accts, s') \<Longrightarrow>
   s' = s \<and> list_all2 (\<lambda>i a. locked_row i s = Some a \<and> lk_status a = AccountActive) ids accts"
proof (induction ids arbitrary: accts)
  case Nil
  then show ?case by (simp add: act_simps)
next
  case (Cons i ids)
  then obtain a s1 rest s2 where "lock_account i s = (Ok a, s1)" "map_m lock_account ids s1 = (Ok rest, s2)"
    "accts = a # rest" "s' = s2"
    by (auto simp: bind_Ok_iff act_simps)
  then show ?case using lock_account_Ok [of i s a s1] Cons.IH [of rest] by auto
qed

lemma locked_row_Some:
  assumes "locked_row i s = Some a"
  obtains acc b where "find_row la_id i (accounts s) = Some acc" "find_row ba_account_id i (balances s) = Some b"
    "a = \<lparr>lk_id = la_id acc, lk_code = la_code acc, lk_type = la_type acc, lk_currency = la_currency acc,
       lk_allow_negative = la_allow_negative acc, lk_status = la_status acc,
       lk_raw_balance = ba_raw_balance b, lk_held = ba_held b\<rparr>" "lk_id a = i" "la_id acc = i" "ba_account_id b = i"
  using assms find_row_Some [of la_id i "accounts s"] find_row_Some [of ba_account_id i "balances s"]
  by (auto simp: locked_row_def account_by_id_def balance_of_def split: option.splits)

lemma lock_all_ids: "list_all2 (\<lambda>i a. locked_row i s = Some a \<and> lk_status a = AccountActive) ids accts \<Longrightarrow> map lk_id accts = ids"
  by (induction rule: list_all2_induct) (auto elim: locked_row_Some)

section \<open>Freeing reservations\<close>

definition freed :: "int \<Rightarrow> hold_release list \<Rightarrow> int" where
  "freed i rels = sum_by hr_amount (\<lambda>r. hr_account_id r = i) rels"

definition free_held :: "hold_release list \<Rightarrow> locked_account \<Rightarrow> locked_account" where
  "free_held rels a = a\<lparr>lk_held := lk_held a - freed (lk_id a) rels\<rparr>"

lemma free_held_simps [simp]:
  "lk_id (free_held rels a) = lk_id a" "lk_type (free_held rels a) = lk_type a"
  "lk_currency (free_held rels a) = lk_currency a" "lk_allow_negative (free_held rels a) = lk_allow_negative a"
  "lk_raw_balance (free_held rels a) = lk_raw_balance a" "lk_held (free_held rels a) = lk_held a - freed (lk_id a) rels"
  by (simp_all add: free_held_def)

lemma freed_Nil [simp]: "freed i [] = 0"
  by (simp add: freed_def)

lemma free_held_Nil [simp]: "free_held [] = (\<lambda>a. a)"
  by (rule ext) (simp add: free_held_def)

lemma free_releases_Ok:
  assumes "fold_m free_release rels accts s = (Ok accts', s')"
    "\<forall>a\<in>set accts. 0 \<le> lk_held a \<and> lk_held a < 2 ^ 63" "\<forall>r\<in>set rels. 0 < hr_amount r" "distinct (map lk_id accts)"
  shows "s' = s \<and> accts' = map (free_held rels) accts \<and> (\<forall>a\<in>set accts'. 0 \<le> lk_held a \<and> lk_held a < 2 ^ 63)"
  using assms
proof (induction rels arbitrary: accts)
  case Nil
  then show ?case by (simp add: act_simps)
next
  case (Cons r rels)
  obtain accts1 s1 where step: "free_release r accts s = (Ok accts1, s1)"
    and rest: "fold_m free_release rels accts1 s1 = (Ok accts', s')"
    using Cons.prems(1) by (auto simp: bind_Ok_iff)
  obtain a where a: "find_row lk_id (hr_account_id r) accts = Some a" "hr_amount r \<le> lk_held a" "s1 = s"
    "accts1 = update_rows lk_id (hr_account_id r) (\<lambda>a. a\<lparr>lk_held := wrap64 (lk_held a - hr_amount r)\<rparr>) accts"
    using step by (auto simp: free_release_def act_simps split: option.splits if_splits)
  have only: "x = a" if "x \<in> set accts" "lk_id x = hr_account_id r" for x
    using that a(1) Cons.prems(4) find_row_distinct [of lk_id accts] by (metis option.inject)
  have pos: "0 < hr_amount r" using Cons.prems(3) by simp
  have accts1: "accts1 = map (\<lambda>x. if lk_id x = hr_account_id r then x\<lparr>lk_held := lk_held x - hr_amount r\<rparr> else x) accts"
    unfolding a(4) update_rows_def
  proof (rule map_cong [OF refl])
    fix x
    assume "x \<in> set accts"
    then show "(if lk_id x = hr_account_id r then x\<lparr>lk_held := wrap64 (lk_held x - hr_amount r)\<rparr> else x) =
      (if lk_id x = hr_account_id r then x\<lparr>lk_held := lk_held x - hr_amount r\<rparr> else x)"
      using only [of x] a(2) pos Cons.prems(2) by (auto simp: wrap64_id in64_def)
  qed
  have "\<forall>x\<in>set accts1. 0 \<le> lk_held x \<and> lk_held x < 2 ^ 63"
    using only a(2) pos Cons.prems(2) by (auto simp: accts1)
  moreover have "distinct (map lk_id accts1)"
    using Cons.prems(4) by (simp add: accts1 comp_def if_distrib cong: if_cong)
  ultimately have "s' = s \<and> accts' = map (free_held rels) accts1 \<and> (\<forall>a\<in>set accts'. 0 \<le> lk_held a \<and> lk_held a < 2 ^ 63)"
    using Cons.IH [OF rest [unfolded a(3)]] Cons.prems(3) by simp
  moreover have "map (free_held rels) accts1 = map (free_held (r # rels)) accts"
    by (simp add: accts1 free_held_def freed_def)
  ultimately show ?case by simp
qed

section \<open>Writing the legs\<close>

definition leg_of :: "posting \<Rightarrow> int \<times> int \<times> int \<times> string" where
  "leg_of p = (po_account_id p, po_direction p, po_amount p, po_currency p)"

definition add_legs :: "posting list \<Rightarrow> locked_account \<Rightarrow> locked_account" where
  "add_legs ps a = a\<lparr>lk_raw_balance := wrap64 (lk_raw_balance a + acct_sum (lk_id a) ps)\<rparr>"

lemma add_legs_simps [simp]:
  "lk_id (add_legs ps a) = lk_id a" "lk_type (add_legs ps a) = lk_type a"
  "lk_currency (add_legs ps a) = lk_currency a" "lk_allow_negative (add_legs ps a) = lk_allow_negative a"
  "lk_held (add_legs ps a) = lk_held a"
  "lk_raw_balance (add_legs ps a) = wrap64 (lk_raw_balance a + acct_sum (lk_id a) ps)"
  by (simp_all add: add_legs_def)

lemma leg_of_cong:
  "leg_of p = leg_of q \<Longrightarrow> leg p = leg q \<and> signed p = signed q \<and> valid_leg p = valid_leg q \<and>
    po_account_id p = po_account_id q \<and> po_currency p = po_currency q \<and> po_amount p = po_amount q"
  by (simp add: leg_of_def leg_def signed_def valid_leg_def)

text \<open>What is known of the locked accounts before the first leg.\<close>

definition locked_inv :: "posting list \<Rightarrow> locked_account list \<Rightarrow> bool" where
  "locked_inv ps accts \<longleftrightarrow> distinct (map lk_id accts) \<and> (\<forall>p\<in>set ps. valid_leg p) \<and>
     (\<forall>a\<in>set accts. lk_raw_balance a = wrap64 (acct_sum (lk_id a) ps) \<and> 0 \<le> lk_held a \<and> lk_held a < 2 ^ 63 \<and>
        (\<not> lk_allow_negative a \<longrightarrow> restricted_ok ps (lk_type a) (lk_id a) (lk_held a)))"

text \<open>The rows written so far for the journal \<open>jid\<close>, on top of the postings \<open>ps\<close>.\<close>

definition rows_inv :: "int \<Rightarrow> posting list \<Rightarrow> locked_account list \<Rightarrow> posting list \<Rightarrow> posting list \<Rightarrow> bool" where
  "rows_inv jid ps accts legs rows \<longleftrightarrow> map leg_of rows = map leg_of legs \<and>
     (\<forall>p\<in>set rows. po_journal_id p = jid \<and> valid_leg p \<and>
        (\<exists>a\<in>set accts. lk_id a = po_account_id p \<and> lk_currency a = po_currency p)) \<and>
     map po_id (ps @ rows) = serials (length (ps @ rows)) \<and> running_from [] (ps @ rows)"

lemma restricted_step:
  assumes "restricted_ok ps t i held" "0 \<le> held" "\<forall>q\<in>set (ps @ [p]). valid_leg q" "po_account_id p = i"
    and raw: "raw = wrap64 (acct_sum i ps + leg p)"
    and nod: "\<not> (wrap64 (signed p * normal_sign t) < 0 \<and> wrap64 (wrap64 (raw * normal_sign t) - held) < 0)"
  shows "restricted_ok (ps @ [p]) t i held"
  unfolding restricted_ok_def
proof
  assume v: "volume (ps @ [p]) < 2 ^ 63"
  have valid: "valid_leg p" "\<forall>q\<in>set ps. valid_leg q" using assms(3) by auto
  have amt: "0 < po_amount p" "\<bar>leg p\<bar> = po_amount p" using valid by (auto simp: valid_leg_abs) (simp add: valid_leg_def)
  have vps: "0 \<le> volume ps" by (rule volume_nonneg [OF valid(2)])
  have old: "held \<le> acct_sum i ps * normal_sign t" using assms(1) v amt by (simp add: restricted_ok_def)
  have sum: "\<bar>acct_sum i ps + leg p\<bar> < 2 ^ 63"
    using acct_sum_volume [OF assms(3), of i] v assms(4) by simp
  have ex: "raw = acct_sum i ps + leg p" "signed p = leg p"
    using sum v amt vps by (simp_all add: raw signed_leg wrap64_abs)
  have sg: "\<bar>x * normal_sign t\<bar> = \<bar>x\<bar>" for x using normal_sign_cases [of t] by auto
  have "held \<le> (acct_sum i ps + leg p) * normal_sign t"
  proof (cases "leg p * normal_sign t < 0")
    case False
    then show ?thesis using old by (simp add: algebra_simps)
  next
    case True
    have "wrap64 (leg p * normal_sign t) = leg p * normal_sign t"
      using sg [of "leg p"] amt v vps by (intro wrap64_abs) simp
    then have nn: "0 \<le> wrap64 (wrap64 (raw * normal_sign t) - held)" using nod True ex(2) by auto
    have n: "wrap64 (raw * normal_sign t) = (acct_sum i ps + leg p) * normal_sign t"
      unfolding ex(1) using sg [of "acct_sum i ps + leg p"] sum by (intro wrap64_abs) simp
    have lo: "held - po_amount p \<le> (acct_sum i ps + leg p) * normal_sign t"
      using old sg [of "leg p"] amt by (simp add: distrib_right)
    have "in64 ((acct_sum i ps + leg p) * normal_sign t - held)"
      using lo amt v vps assms(2) sg [of "acct_sum i ps + leg p"] sum by (auto simp: in64_def)
    then show ?thesis using nn by (simp add: n wrap64_id)
  qed
  then show "held \<le> acct_sum i (ps @ [p]) * normal_sign t" using assms(4) by simp
qed

lemma write_posting_Ok:
  assumes "write_posting jid p (accts, rows) s = (Ok st, s')"
  obtains a row where "find_row lk_id (po_account_id p) accts = Some a" "po_currency p = lk_currency a"
    "\<not> overdrawn (add_leg p a) p"
    "row = p\<lparr>po_id := next_id (postings s), po_journal_id := jid, po_seq := int (length rows),
       po_balance_after := wrap64 (lk_raw_balance a + signed p), po_created_at := clock s\<rparr>"
    "st = (update_rows lk_id (po_account_id p) (add_leg p) accts, rows @ [row])"
    "s' = s\<lparr>postings := postings s @ [row]\<rparr>"
  using assms by (auto simp: write_posting_def bind_Ok_iff act_simps add_leg_def split: option.splits if_splits)

lemma add_legs_snoc:
  assumes "leg_of row = leg_of p"
  shows "update_rows lk_id (po_account_id p) (add_leg p) (map (add_legs rows) accts) = map (add_legs (rows @ [row])) accts"
  using leg_of_cong [OF assms] by (simp add: update_rows_def add_leg_def add_legs_def signed_leg comp_def algebra_simps)

lemma write_step:
  assumes inv: "locked_inv ps accts" and rows: "rows_inv jid ps accts legs rows"
    and restr: "\<forall>a\<in>set accts. \<not> lk_allow_negative a \<longrightarrow> restricted_ok (ps @ rows) (lk_type a) (lk_id a) (lk_held a)"
    and valid: "valid_leg p" and s: "postings s = ps @ rows"
    and run: "write_posting jid p (map (add_legs rows) accts, rows) s = (Ok st, s')"
  obtains row where "st = (map (add_legs (rows @ [row])) accts, rows @ [row])"
    "s' = s\<lparr>postings := ps @ rows @ [row]\<rparr>" "rows_inv jid ps accts (legs @ [p]) (rows @ [row])"
    "\<forall>a\<in>set accts. \<not> lk_allow_negative a \<longrightarrow> restricted_ok (ps @ rows @ [row]) (lk_type a) (lk_id a) (lk_held a)"
proof -
  obtain b row where b: "find_row lk_id (po_account_id p) (map (add_legs rows) accts) = Some b" "po_currency p = lk_currency b"
    "\<not> overdrawn (add_leg p b) p"
    and row: "row = p\<lparr>po_id := next_id (postings s), po_journal_id := jid, po_seq := int (length rows),
       po_balance_after := wrap64 (lk_raw_balance b + signed p), po_created_at := clock s\<rparr>"
    and st: "st = (update_rows lk_id (po_account_id p) (add_leg p) (map (add_legs rows) accts), rows @ [row])"
    and s': "s' = s\<lparr>postings := postings s @ [row]\<rparr>"
    using run by (rule write_posting_Ok)
  obtain a where a: "a \<in> set accts" "b = add_legs rows a" "lk_id a = po_account_id p"
    using find_row_Some [OF b(1)] by auto
  have lg: "leg_of row = leg_of p" by (simp add: row leg_of_def)
  note eqs = leg_of_cong [OF lg]
  have raw: "lk_raw_balance b = wrap64 (acct_sum (po_account_id p) (ps @ rows))"
    using inv a by (simp add: locked_inv_def)
  have bal: "po_balance_after row = wrap64 (acct_sum (po_account_id row) (ps @ rows) + leg row)"
    using eqs by (simp add: raw row signed_leg)
  have rinv: "rows_inv jid ps accts (legs @ [p]) (rows @ [row])"
    using rows lg eqs valid a b(2) bal running_snoc [of "ps @ rows" row] s
    by (auto simp: rows_inv_def row next_id_def intro!: bexI [of _ a])
  have all_valid: "\<forall>q\<in>set ((ps @ rows) @ [row]). valid_leg q"
    using inv rinv by (auto simp: locked_inv_def rows_inv_def)
  have "restricted_ok (ps @ rows @ [row]) (lk_type x) (lk_id x) (lk_held x)" if x: "x \<in> set accts" "\<not> lk_allow_negative x" for x
  proof (cases "lk_id x = po_account_id p")
    case True
    have "x = a" using True a x(1) inv by (auto simp: locked_inv_def distinct_map inj_on_def)
    have "restricted_ok ((ps @ rows) @ [row]) (lk_type x) (lk_id x) (lk_held x)"
    proof (rule restricted_step [where raw = "lk_raw_balance (add_leg p b)"])
      show "restricted_ok (ps @ rows) (lk_type x) (lk_id x) (lk_held x)" using restr x by simp
      show "0 \<le> lk_held x" using inv x(1) by (simp add: locked_inv_def)
      show "\<forall>q\<in>set ((ps @ rows) @ [row]). valid_leg q" by (rule all_valid)
      show "po_account_id row = lk_id x" using eqs True by simp
      show "lk_raw_balance (add_leg p b) = wrap64 (acct_sum (lk_id x) (ps @ rows) + leg row)"
        using raw True eqs by (simp add: add_leg_def signed_leg)
      show "\<not> (wrap64 (signed row * normal_sign (lk_type x)) < 0 \<and>
          wrap64 (wrap64 (lk_raw_balance (add_leg p b) * normal_sign (lk_type x)) - lk_held x) < 0)"
        using b(3) x(2) eqs by (simp add: overdrawn_def a(2) \<open>x = a\<close> add_leg_def)
    qed
    then show ?thesis by simp
  next
    case False
    have "0 < po_amount row" using all_valid by (auto simp: valid_leg_def)
    then have "volume (ps @ rows) \<le> volume (ps @ rows @ [row])" by simp
    then show ?thesis using False restr x eqs by (auto simp: restricted_ok_def)
  qed
  then show ?thesis using that [of row] st s' s rinv add_legs_snoc [OF lg] by simp
qed

lemma write_all:
  assumes inv: "locked_inv ps accts"
  shows "fold_m (write_posting jid) legs (map (add_legs rows) accts, rows) s = (Ok (accts', rows'), s') \<Longrightarrow>
    \<forall>p\<in>set legs. valid_leg p \<Longrightarrow> postings s = ps @ rows \<Longrightarrow> rows_inv jid ps accts dn rows \<Longrightarrow>
    \<forall>a\<in>set accts. \<not> lk_allow_negative a \<longrightarrow> restricted_ok (ps @ rows) (lk_type a) (lk_id a) (lk_held a) \<Longrightarrow>
    accts' = map (add_legs rows') accts \<and> s' = s\<lparr>postings := ps @ rows'\<rparr> \<and> rows_inv jid ps accts (dn @ legs) rows' \<and>
    (\<forall>a\<in>set accts. \<not> lk_allow_negative a \<longrightarrow> restricted_ok (ps @ rows') (lk_type a) (lk_id a) (lk_held a))"
proof (induction legs arbitrary: rows dn s)
  case Nil
  then show ?case by (auto simp: act_simps)
next
  case (Cons p legs)
  obtain st s1 where step: "write_posting jid p (map (add_legs rows) accts, rows) s = (Ok st, s1)"
    and rest: "fold_m (write_posting jid) legs st s1 = (Ok (accts', rows'), s')"
    using Cons.prems(1) by (auto simp: bind_Ok_iff)
  obtain row where "st = (map (add_legs (rows @ [row])) accts, rows @ [row])"
    "s1 = s\<lparr>postings := ps @ rows @ [row]\<rparr>" "rows_inv jid ps accts (dn @ [p]) (rows @ [row])"
    "\<forall>a\<in>set accts. \<not> lk_allow_negative a \<longrightarrow> restricted_ok (ps @ rows @ [row]) (lk_type a) (lk_id a) (lk_held a)"
    using write_step [OF inv Cons.prems(4) Cons.prems(5) _ Cons.prems(3) step] Cons.prems(2) by auto
  then show ?case using Cons.IH [of "rows @ [row]" s1 "dn @ [p]"] rest Cons.prems(2) by simp
qed

section \<open>Storing the balances\<close>

text \<open>A balance row after the loop over the locked accounts.\<close>

definition settle_balance :: "int \<Rightarrow> locked_account list \<Rightarrow> balance \<Rightarrow> balance" where
  "settle_balance now accts b = (case find_row lk_id (ba_account_id b) accts of
     None \<Rightarrow> b
   | Some a \<Rightarrow> b\<lparr>ba_raw_balance := lk_raw_balance a, ba_held := lk_held a,
       ba_version := ba_version b + 1, ba_updated_at := now\<rparr>)"

lemma settle_balance_id [simp]: "ba_account_id (settle_balance now accts b) = ba_account_id b"
  by (simp add: settle_balance_def split: option.splits)

lemma update_balances_run:
  "distinct (map lk_id accts) \<Longrightarrow>
   for_each accts update_balance s = (Ok (), s\<lparr>balances := map (settle_balance (clock s) accts) (balances s)\<rparr>)"
proof (induction accts arbitrary: s)
  case Nil
  have "settle_balance (clock s) [] = (\<lambda>b. b)" by (rule ext) (simp add: settle_balance_def)
  then show ?case by (simp add: act_simps)
next
  case (Cons a accts)
  let ?s = "s\<lparr>balances := update_rows ba_account_id (lk_id a) (\<lambda>b. b\<lparr>ba_raw_balance := lk_raw_balance a, ba_held := lk_held a,
        ba_version := ba_version b + 1, ba_updated_at := clock s\<rparr>) (balances s)\<rparr>"
  have none: "find_row lk_id (lk_id a) accts = None" using Cons.prems by (simp add: find_row_None)
  have "for_each (a # accts) update_balance s = for_each accts update_balance ?s"
    by (simp add: bindM_def update_balance_def act_simps)
  also have "\<dots> = (Ok (), ?s\<lparr>balances := map (settle_balance (clock s) accts) (balances ?s)\<rparr>)"
    using Cons.IH [of ?s] Cons.prems by simp
  also have "map (settle_balance (clock s) accts) (balances ?s) = map (settle_balance (clock s) (a # accts)) (balances s)"
    using none by (simp add: update_rows_def settle_balance_def)
  finally show ?case by simp
qed

section \<open>The whole call\<close>

definition legs_valid :: "journal \<Rightarrow> bool" where
  "legs_valid j \<longleftrightarrow> jo_external_id j \<noteq> [] \<and> 2 \<le> length (jo_postings j) \<and> (\<forall>p\<in>set (jo_postings j). valid_leg p) \<and>
     (\<forall>c. wrap64 (sum_by leg (\<lambda>p. po_currency p = c) (jo_postings j)) = 0)"

lemma add_sum_lookup:
  "map_of (add_sum cur d sums) c = (if c = cur then Some (wrap64 ((case map_of sums cur of None \<Rightarrow> 0 | Some x \<Rightarrow> x) + d)) else map_of sums c)"
  by (induction sums) auto

lemma add_sum_keys: "fst ` set (add_sum cur d sums) = insert cur (fst ` set sums)"
  by (induction cur d sums rule: add_sum.induct) force+

lemma add_sum_distinct: "distinct (map fst sums) \<Longrightarrow> distinct (map fst (add_sum cur d sums))"
proof (induction sums)
  case (Cons x sums)
  have "fst ` set (add_sum cur d sums) = insert cur (fst ` set sums)" by (rule add_sum_keys)
  then show ?case using Cons by (cases x) auto
qed simp

lemma validate_postings_sums:
  "validate_postings ps sums = Some res \<Longrightarrow> distinct (map fst sums) \<Longrightarrow>
   (\<forall>p\<in>set ps. valid_leg p \<and> po_currency p \<noteq> []) \<and> distinct (map fst res) \<and>
   (\<forall>c. wrap64 (case map_of res c of None \<Rightarrow> 0 | Some x \<Rightarrow> x) =
      wrap64 ((case map_of sums c of None \<Rightarrow> 0 | Some x \<Rightarrow> x) + sum_by leg (\<lambda>p. po_currency p = c) ps))"
proof (induction ps arbitrary: sums)
  case Nil
  then show ?case by simp
next
  case (Cons p ps)
  have p: "0 < po_amount p" "po_direction p = 1 \<or> po_direction p = - 1" "po_currency p \<noteq> []"
    "validate_postings ps (add_sum (po_currency p) (signed p) sums) = Some res"
    using Cons.prems(1) by (auto simp: Debit_def Credit_def split: if_splits)
  have IH: "(\<forall>p\<in>set ps. valid_leg p \<and> po_currency p \<noteq> []) \<and> distinct (map fst res) \<and>
   (\<forall>c. wrap64 (case map_of res c of None \<Rightarrow> 0 | Some x \<Rightarrow> x) =
      wrap64 ((case map_of (add_sum (po_currency p) (signed p) sums) c of None \<Rightarrow> 0 | Some x \<Rightarrow> x) + sum_by leg (\<lambda>p. po_currency p = c) ps))"
    by (rule Cons.IH [OF p(4) add_sum_distinct [OF Cons.prems(2)]])
  moreover have "wrap64 ((case map_of (add_sum (po_currency p) (signed p) sums) c of None \<Rightarrow> 0 | Some x \<Rightarrow> x) + sum_by leg (\<lambda>p. po_currency p = c) ps)
     = wrap64 ((case map_of sums c of None \<Rightarrow> 0 | Some x \<Rightarrow> x) + sum_by leg (\<lambda>p. po_currency p = c) (p # ps))" for c
    by (auto simp: add_sum_lookup signed_leg algebra_simps split: option.splits)
  ultimately show ?case using p(1,2,3) by (auto simp: valid_leg_def)
qed

text \<open>Acceptance by \<open>validateJournal\<close> says exactly this, in exact arithmetic up to the wrap.\<close>

lemma validate_journal_valid: "validate_journal j = None \<Longrightarrow> legs_valid j"
proof -
  assume v: "validate_journal j = None"
  then obtain sums where sums: "validate_postings (jo_postings j) [] = Some sums" "\<forall>x\<in>set sums. snd x = 0"
    and len: "2 \<le> length (jo_postings j)" "jo_external_id j \<noteq> []"
    by (auto simp: validate_journal_def split: if_splits option.splits)
  have all: "(\<forall>p\<in>set (jo_postings j). valid_leg p) \<and>
    (\<forall>c. wrap64 (case map_of sums c of None \<Rightarrow> 0 | Some x \<Rightarrow> x) = wrap64 (sum_by leg (\<lambda>p. po_currency p = c) (jo_postings j)))"
    using validate_postings_sums [OF sums(1)] by simp
  have "(case map_of sums c of None \<Rightarrow> 0 | Some x \<Rightarrow> x) = 0" for c
    using sums(2) map_of_SomeD [of sums c] by (fastforce split: option.splits)
  then have "wrap64 (sum_by leg (\<lambda>p. po_currency p = c) (jo_postings j)) = 0" for c using all by (metis wrap64_0)
  then show ?thesis using all len by (simp add: legs_valid_def)
qed

lemma insert_journal_Ok:
  assumes "insert_journal j s = (Ok claim, s1)"
  obtains (won) "find_row jo_external_id (jo_external_id j) (journals s) = None"
      "claim = Inl (j\<lparr>jo_id := next_id (journals s), jo_posted_at := clock s, jo_created_at := clock s\<rparr>)"
      "s1 = s\<lparr>journals := journals s @ [journal_row (j\<lparr>jo_id := next_id (journals s), jo_posted_at := clock s, jo_created_at := clock s\<rparr>)]\<rparr>"
    | (lost) row where "find_row jo_external_id (jo_external_id j) (journals s) = Some row"
      "claim = Inr (row\<lparr>jo_postings := list_postings (jo_id row) s\<rparr>)" "s1 = s"
proof (cases "find_row jo_external_id (jo_external_id j) (journals s)")
  case None
  then show ?thesis using assms
    by (intro won) (simp_all add: insert_journal_def journal_by_external_id_def bindM_def act_simps)
next
  case (Some row)
  then show ?thesis using assms
    by (intro lost) (auto simp add: insert_journal_def get_journal_by_external_id_def journal_by_external_id_def bindM_def act_simps)
qed

text \<open>The locked accounts satisfy what writing the legs needs.\<close>

lemma locked_accounts_inv:
  assumes core: "core_inv s"
    and lock: "list_all2 (\<lambda>i a. locked_row i s = Some a \<and> lk_status a = AccountActive) ids accts" "distinct ids"
  shows "locked_inv (postings s) accts"
proof -
  have ids: "map lk_id accts = ids" by (rule lock_all_ids [OF lock(1)])
  have "lk_raw_balance a = wrap64 (acct_sum (lk_id a) (postings s)) \<and> 0 \<le> lk_held a \<and> lk_held a < 2 ^ 63 \<and>
      (\<not> lk_allow_negative a \<longrightarrow> restricted_ok (postings s) (lk_type a) (lk_id a) (lk_held a))" if a: "a \<in> set accts" for a
  proof -
    obtain i where "locked_row i s = Some a" using list_all2_right [OF lock(1) a] by blast
    then obtain acc b where row: "find_row la_id i (accounts s) = Some acc" "find_row ba_account_id i (balances s) = Some b"
      "a = \<lparr>lk_id = la_id acc, lk_code = la_code acc, lk_type = la_type acc, lk_currency = la_currency acc,
       lk_allow_negative = la_allow_negative acc, lk_status = la_status acc,
       lk_raw_balance = ba_raw_balance b, lk_held = ba_held b\<rparr>" "la_id acc = i" "ba_account_id b = i"
      by (rule locked_row_Some)
    then show ?thesis using core find_row_Some [OF row(1)] find_row_Some [OF row(2)]
      by (auto simp: core_inv_def balances_inv_def overdraft_inv_def)
  qed
  moreover have "\<forall>p\<in>set (postings s). valid_leg p" using core by (auto simp: core_inv_def postings_inv_def posting_inv_def)
  ultimately show ?thesis using ids lock(2) by (simp add: locked_inv_def)
qed

lemma locked_account_row:
  assumes "list_all2 (\<lambda>i a. locked_row i s = Some a \<and> lk_status a = AccountActive) ids accts" "a \<in> set accts"
  obtains acc b where "acc \<in> set (accounts s)" "b \<in> set (balances s)" "la_id acc = lk_id a" "ba_account_id b = lk_id a"
    "la_currency acc = lk_currency a" "la_type acc = lk_type a" "la_allow_negative acc = lk_allow_negative a"
    "lk_held a = ba_held b" "lk_raw_balance a = ba_raw_balance b" "la_status acc = AccountActive" "lk_code a = la_code acc"
proof -
  obtain i where i: "locked_row i s = Some a" "lk_status a = AccountActive"
    using list_all2_right [OF assms] by blast
  from i(1) obtain acc b where row: "find_row la_id i (accounts s) = Some acc" "find_row ba_account_id i (balances s) = Some b"
    "a = \<lparr>lk_id = la_id acc, lk_code = la_code acc, lk_type = la_type acc, lk_currency = la_currency acc,
       lk_allow_negative = la_allow_negative acc, lk_status = la_status acc,
       lk_raw_balance = ba_raw_balance b, lk_held = ba_held b\<rparr>" "la_id acc = i" "ba_account_id b = i"
    by (rule locked_row_Some)
  show ?thesis
    by (rule that [of acc b]) (use row i(2) find_row_Some [OF row(1)] find_row_Some [OF row(2)] in auto)
qed

lemma free_keeps_locked:
  assumes "locked_inv ps accts" "\<forall>r\<in>set rels. 0 < hr_amount r"
    "\<forall>a\<in>set (map (free_held rels) accts). 0 \<le> lk_held a \<and> lk_held a < 2 ^ 63"
  shows "locked_inv ps (map (free_held rels) accts)"
proof -
  have "0 \<le> freed i rels" for i unfolding freed_def using assms(2) by (intro sum_by_nonneg) auto
  then have "restricted_ok ps t i (h - freed k rels)" if "restricted_ok ps t i h" for t i h k
    using that
    by (smt (verit) restricted_ok_def)
  then show ?thesis using assms by (auto simp: locked_inv_def comp_def)
qed

text \<open>The state after the postings and the balances of a journal have been written.\<close>

definition booked :: "'x ledger_scheme \<Rightarrow> journal \<Rightarrow> posting list \<Rightarrow> locked_account list \<Rightarrow> 'x ledger_scheme" where
  "booked s row rows accts = s\<lparr>journals := journals s @ [row], postings := postings s @ rows,
     balances := map (settle_balance (clock s) (map (add_legs rows) accts)) (balances s)\<rparr>"

text \<open>What holds of the legs written and of the accounts locked by a call that posted.\<close>

definition booking :: "'x ledger_scheme \<Rightarrow> journal \<Rightarrow> hold_release list \<Rightarrow> posting list \<Rightarrow> locked_account list \<Rightarrow> bool" where
  "booking s j rels rows accts \<longleftrightarrow> legs_valid j \<and>
     find_row jo_external_id (jo_external_id j) (journals s) = None \<and>
     locked_inv (postings s) accts \<and> map lk_id accts = lock_ids j rels \<and>
     rows_inv (next_id (journals s)) (postings s) accts (jo_postings j) rows \<and>
     (\<forall>a\<in>set accts. (\<not> lk_allow_negative a \<longrightarrow> restricted_ok (postings s @ rows) (lk_type a) (lk_id a) (lk_held a)) \<and>
        (\<exists>acc\<in>set (accounts s). \<exists>b\<in>set (balances s). la_id acc = lk_id a \<and> ba_account_id b = lk_id a \<and>
           la_currency acc = lk_currency a \<and> la_type acc = lk_type a \<and> la_allow_negative acc = lk_allow_negative a \<and>
           la_status acc = AccountActive \<and> lk_held a = ba_held b - freed (lk_id a) rels \<and> lk_raw_balance a = ba_raw_balance b))"

definition stamped :: "'x ledger_scheme \<Rightarrow> journal \<Rightarrow> journal" where
  "stamped s j = j\<lparr>jo_id := next_id (journals s), jo_posted_at := clock s, jo_created_at := clock s\<rparr>"

lemma post_journal_opts_Ok:
  assumes core: "core_inv s" and rels: "\<forall>r\<in>set rels. 0 < hr_amount r"
    and run: "post_journal_opts c j rels check s = (Ok (j', posted), s')"
  obtains (replayed) row where "\<not> posted" "s' = s" "find_row jo_external_id (jo_external_id j) (journals s) = Some row"
      "j' = row\<lparr>jo_postings := list_postings (jo_id row) s\<rparr>" "in_tx c"
    | (booked) rows accts where "posted" "in_tx c" "booking s j rels rows accts" "j' = (stamped s j)\<lparr>jo_postings := rows\<rparr>"
      "(case check of None \<Rightarrow> returnM () | Some f \<Rightarrow> f c) (booked s (journal_row (stamped s j)) rows accts) = (Ok (), s')"
proof -
  have tx: "in_tx c" "validate_journal j = None"
    using run by (auto simp: post_journal_opts_def act_simps split: if_splits option.splits)
  obtain claim s1 where claim: "insert_journal j s = (Ok claim, s1)"
    and rest: "(case claim of Inr existing \<Rightarrow> returnM (existing, False)
        | Inl j1 \<Rightarrow> bindM (lock_accounts_for_posting j1 rels) (\<lambda>accts. bindM (fold_m free_release rels accts) (\<lambda>accts1.
            bindM (write_postings j1 accts1) (\<lambda>j2.
            bindM (case check of None \<Rightarrow> returnM () | Some f \<Rightarrow> f c) (\<lambda>_. returnM (j2, True)))))) s1 = (Ok (j', posted), s')"
    using run tx by (auto simp: post_journal_opts_def bind_Ok_iff)
  from claim show ?thesis
  proof (cases rule: insert_journal_Ok)
    case (lost row)
    then show ?thesis using rest tx by (intro replayed [of row]) (auto simp: act_simps)
  next
    case won
    let ?j = "stamped s j" and ?row = "journal_row (stamped s j)"
    have j1: "claim = Inl ?j" "s1 = s\<lparr>journals := journals s @ [?row]\<rparr>" using won by (simp_all add: stamped_def)
    have jp: "jo_postings ?j = jo_postings j" "lock_ids ?j rels = lock_ids j rels" "jo_id ?j = next_id (journals s)"
      by (simp_all add: stamped_def lock_ids_def)
    obtain accts0 s2 accts1 s3 j2 s4 where lock: "map_m lock_account (lock_ids ?j rels) s1 = (Ok accts0, s2)"
      and free: "fold_m free_release rels accts0 s2 = (Ok accts1, s3)" and wr: "write_postings ?j accts1 s3 = (Ok j2, s4)"
      and chk: "(case check of None \<Rightarrow> returnM () | Some f \<Rightarrow> f c) s4 = (Ok (), s')" and out: "j' = j2" "posted"
      using rest by (auto simp: j1 bind_Ok_iff lock_accounts_for_posting_def act_simps)
    have locked: "s2 = s1" "list_all2 (\<lambda>i a. locked_row i s = Some a \<and> lk_status a = AccountActive) (lock_ids j rels) accts0"
      using lock_all_Ok [OF lock] unfolding jp by (simp_all add: j1 locked_row_def account_by_id_def balance_of_def)
    have li0: "locked_inv (postings s) accts0" by (rule locked_accounts_inv [OF core locked(2)]) simp
    have freed: "s3 = s1" "accts1 = map (free_held rels) accts0" "\<forall>a\<in>set accts1. 0 \<le> lk_held a \<and> lk_held a < 2 ^ 63"
      using free_releases_Ok [OF free _ rels] li0 locked(1) by (auto simp: locked_inv_def)
    have li: "locked_inv (postings s) accts1" using free_keeps_locked [OF li0 rels] freed by simp
    obtain accts2 rows s5 where fold: "fold_m (write_posting (next_id (journals s))) (jo_postings j) (accts1, []) s1 = (Ok (accts2, rows), s5)"
      and upd: "for_each accts2 update_balance s5 = (Ok (), s4)" and j2: "j2 = ?j\<lparr>jo_postings := rows\<rparr>"
      using wr by (auto simp: write_postings_def bind_Ok_iff act_simps jp freed(1))
    have valid: "legs_valid j" by (rule validate_journal_valid [OF tx(2)])
    have id0: "map (add_legs []) accts1 = accts1"
      using li by (intro map_idI) (auto simp: add_legs_def locked_inv_def)
    have r0: "rows_inv (next_id (journals s)) (postings s) accts1 [] []"
      using core by (simp add: rows_inv_def core_inv_def postings_inv_def)
    have all: "accts2 = map (add_legs rows) accts1 \<and> s5 = s1\<lparr>postings := postings s @ rows\<rparr> \<and>
        rows_inv (next_id (journals s)) (postings s) accts1 (jo_postings j) rows \<and>
        (\<forall>a\<in>set accts1. \<not> lk_allow_negative a \<longrightarrow> restricted_ok (postings s @ rows) (lk_type a) (lk_id a) (lk_held a))"
      using write_all [OF li, of _ _ "[]" s1 accts2 rows s5 "[]"] fold id0 r0 valid li j1(2)
      by (simp add: legs_valid_def locked_inv_def)
    have dist: "distinct (map lk_id accts2)" using all li by (simp add: locked_inv_def comp_def)
    have s4: "s4 = booked s ?row rows accts1"
      using upd update_balances_run [OF dist, of s5] all j1(2) by (simp add: booked_def)
    have accs: "\<exists>acc\<in>set (accounts s). \<exists>b\<in>set (balances s). la_id acc = lk_id a \<and> ba_account_id b = lk_id a \<and>
           la_currency acc = lk_currency a \<and> la_type acc = lk_type a \<and> la_allow_negative acc = lk_allow_negative a \<and>
           la_status acc = AccountActive \<and> lk_held a = ba_held b - freed (lk_id a) rels \<and> lk_raw_balance a = ba_raw_balance b"
      if a: "a \<in> set accts1" for a
    proof -
      obtain a0 where a0: "a0 \<in> set accts0" "a = free_held rels a0" using a freed(2) by auto
      show ?thesis by (rule locked_account_row [OF locked(2) a0(1)]) (auto simp: a0(2))
    qed
    have "booking s j rels rows accts1"
      using valid won(1) li lock_all_ids [OF locked(2)] all accs by (simp add: booking_def freed(2) comp_def)
    then show ?thesis using out j2 chk s4 tx by (intro booked [of rows accts1]) simp_all
  qed
qed

section \<open>A booking keeps the invariant\<close>

lemma same_legs_sum:
  "map leg_of ps = map leg_of qs \<Longrightarrow> sum_by leg (\<lambda>p. po_currency p = c) ps = sum_by leg (\<lambda>p. po_currency p = c) qs"
proof (induction ps arbitrary: qs)
  case (Cons p ps)
  then obtain q rest where "qs = q # rest" "leg_of p = leg_of q" "map leg_of ps = map leg_of rest" by (cases qs) auto
  then show ?case using Cons.IH [of rest] leg_of_cong [of p q] by simp
qed simp

lemma booking_rows:
  assumes "booking s j rels rows accts"
  shows "map leg_of rows = map leg_of (jo_postings j)" "length rows = length (jo_postings j)"
    "\<And>p. p \<in> set rows \<Longrightarrow> po_journal_id p = next_id (journals s) \<and> valid_leg p"
    "\<And>p. p \<in> set rows \<Longrightarrow> \<exists>a\<in>set accts. lk_id a = po_account_id p \<and> lk_currency a = po_currency p"
    "\<And>i. i \<notin> lk_id ` set accts \<Longrightarrow> acct_sum i rows = 0" "0 \<le> volume rows"
proof -
  have ri: "rows_inv (next_id (journals s)) (postings s) accts (jo_postings j) rows" using assms by (simp add: booking_def)
  show legs: "map leg_of rows = map leg_of (jo_postings j)" using ri by (simp add: rows_inv_def)
  from arg_cong [OF this, of length] show "length rows = length (jo_postings j)" by simp
  show p: "\<And>p. p \<in> set rows \<Longrightarrow> po_journal_id p = next_id (journals s) \<and> valid_leg p" using ri by (simp add: rows_inv_def)
  show a: "\<And>p. p \<in> set rows \<Longrightarrow> \<exists>a\<in>set accts. lk_id a = po_account_id p \<and> lk_currency a = po_currency p"
    using ri by (simp add: rows_inv_def)
  show "acct_sum i rows = 0" if "i \<notin> lk_id ` set accts" for i
    unfolding acct_sum_def by (rule sum_by_none) (use a that in force)
  show "0 \<le> volume rows" using p by (intro volume_nonneg) auto
qed

lemma jo_id_stamped [simp]: "jo_id (journal_row (stamped s j)) = next_id (journals s)"
  "jo_external_id (journal_row (stamped s j)) = jo_external_id j"
  by (simp_all add: journal_row_def stamped_def)

lemma booked_accounts_inv: "accounts_inv s \<Longrightarrow> accounts_inv (booked s row rows accts)"
  by (simp add: accounts_inv_def booked_def comp_def)

lemma booked_postings_inv:
  assumes "core_inv s" "booking s j rels rows accts"
  shows "postings_inv (booked s (journal_row (stamped s j)) rows accts)"
proof -
  note br = booking_rows [OF assms(2)]
  have "\<exists>a\<in>set (accounts s). la_id a = po_account_id p \<and> la_currency a = po_currency p" if "p \<in> set rows" for p
    using br(4) [OF that] assms(2) unfolding booking_def by (metis (no_types, lifting))
  then show ?thesis
    using assms br(3) by (auto simp: postings_inv_def booked_def posting_inv_def core_inv_def booking_def rows_inv_def)
qed

lemma booked_journals_inv:
  assumes core: "core_inv s" and bk: "booking s j rels rows accts"
  shows "journals_inv (booked s (journal_row (stamped s j)) rows accts)"
proof -
  note br = booking_rows [OF bk]
  let ?jid = "next_id (journals s)" and ?s = "booked s (journal_row (stamped s j)) rows accts"
  have ji: "map jo_id (journals s) = serials (length (journals s))" "distinct (map jo_external_id (journals s))"
    "\<forall>x\<in>set (journals s). journal_inv s x" using core by (auto simp: core_inv_def journals_inv_def)
  have fresh: "?jid \<notin> jo_id ` set (journals s)" by (rule next_id_fresh [OF ji(1)])
  have old: "po_journal_id p \<noteq> ?jid" if "p \<in> set (postings s)" for p
  proof -
    have "po_journal_id p \<in> jo_id ` set (journals s)"
      using core that by (simp add: core_inv_def postings_inv_def posting_inv_def)
    then show ?thesis using fresh by metis
  qed
  have lv: "jo_external_id j \<noteq> []" "2 \<le> length rows" "\<And>c. wrap64 (sum_by leg (\<lambda>p. po_currency p = c) rows) = 0"
    using bk br(2) same_legs_sum [OF br(1)] by (auto simp: booking_def legs_valid_def)
  have other: "journal_inv ?s x" if "x \<in> set (journals s)" for x
  proof -
    have "jo_id x \<noteq> ?jid" using fresh that by (metis imageI)
    then have "journal_sum (jo_id x) c rows = 0" for c
      unfolding journal_sum_def by (intro sum_by_none) (use br(3) in auto)
    then show ?thesis using ji(3) that by (auto simp: journal_inv_def booked_def)
  qed
  have "journal_sum ?jid c (postings s) = 0" for c
    unfolding journal_sum_def by (intro sum_by_none) (use old in auto)
  moreover have "journal_sum ?jid c rows = sum_by leg (\<lambda>p. po_currency p = c) rows" for c
    unfolding journal_sum_def by (intro sum_by_cong) (use br(3) in auto)
  moreover have "filter (\<lambda>p. po_journal_id p = ?jid) rows = rows" using br(3) by (simp add: filter_id_conv)
  moreover have "filter (\<lambda>p. po_journal_id p = ?jid) (postings s) = []" using old by (simp add: filter_empty_conv)
  ultimately have "journal_inv ?s (journal_row (stamped s j))"
    using lv by (simp add: journal_inv_def booked_def)
  moreover have "jo_external_id j \<notin> jo_external_id ` set (journals s)"
    using bk by (simp add: booking_def find_row_None [symmetric])
  ultimately show ?thesis using ji(1,2) other by (simp add: journals_inv_def booked_def next_id_def)
qed

lemma settle_booked:
  assumes "core_inv s" "booking s j rels rows accts" "b \<in> set (balances s)"
  defines "b' \<equiv> settle_balance (clock s) (map (add_legs rows) accts) b"
  shows "ba_raw_balance b' = wrap64 (acct_sum (ba_account_id b) (postings s @ rows))"
    "ba_held b' = ba_held b - (if ba_account_id b \<in> lk_id ` set accts then freed (ba_account_id b) rels else 0)"
    "0 \<le> ba_held b'" "ba_held b' < 2 ^ 63"
proof -
  have b: "ba_raw_balance b = wrap64 (acct_sum (ba_account_id b) (postings s))" "0 \<le> ba_held b" "ba_held b < 2 ^ 63"
    using assms(1,3) by (auto simp: core_inv_def balances_inv_def)
  have bal_ids: "distinct (map ba_account_id (balances s))"
    using assms(1) by (metis core_inv_def accounts_inv_def distinct_serials)
  have "ba_raw_balance b' = wrap64 (acct_sum (ba_account_id b) (postings s @ rows)) \<and>
    ba_held b' = ba_held b - (if ba_account_id b \<in> lk_id ` set accts then freed (ba_account_id b) rels else 0) \<and>
    0 \<le> ba_held b' \<and> ba_held b' < 2 ^ 63"
  proof (cases "find_row lk_id (ba_account_id b) (map (add_legs rows) accts)")
    case None
    then have "ba_account_id b \<notin> lk_id ` set accts" by (auto simp: find_row_None image_image)
    then show ?thesis using None b booking_rows(5) [OF assms(2)] by (simp add: b'_def settle_balance_def)
  next
    case (Some x)
    obtain a where a: "a \<in> set accts" "x = add_legs rows a" "lk_id a = ba_account_id b"
      using find_row_Some [OF Some] by auto
    have li: "lk_raw_balance a = wrap64 (acct_sum (lk_id a) (postings s))" "0 \<le> lk_held a" "lk_held a < 2 ^ 63"
      using a assms(2) by (auto simp: booking_def locked_inv_def)
    obtain b2 where b2: "b2 \<in> set (balances s)" "ba_account_id b2 = lk_id a" "lk_held a = ba_held b2 - freed (lk_id a) rels"
      using a(1) assms(2) unfolding booking_def by blast
    have "b2 = b" using b2(1,2) a(3) assms(3) bal_ids by (metis distinct_map inj_onD)
    moreover have "ba_account_id b \<in> lk_id ` set accts" using a(1,3) by (metis imageI)
    ultimately show ?thesis using Some a li b2 by (auto simp: b'_def settle_balance_def)
  qed
  then show "ba_raw_balance b' = wrap64 (acct_sum (ba_account_id b) (postings s @ rows))"
    "ba_held b' = ba_held b - (if ba_account_id b \<in> lk_id ` set accts then freed (ba_account_id b) rels else 0)"
    "0 \<le> ba_held b'" "ba_held b' < 2 ^ 63" by auto
qed

lemma booked_balances_inv:
  assumes "core_inv s" "booking s j rels rows accts"
  shows "balances_inv (booked s row rows accts)"
  using settle_booked [OF assms] by (auto simp: balances_inv_def booked_def)

lemma booked_overdraft_inv:
  assumes core: "core_inv s" and bk: "booking s j rels rows accts"
  shows "overdraft_inv (booked s row rows accts)"
proof -
  have "restricted_ok (postings s @ rows) (la_type acc) (la_id acc) (ba_held (settle_balance (clock s) (map (add_legs rows) accts) b))"
    if acc: "acc \<in> set (accounts s)" "\<not> la_allow_negative acc" and b: "b \<in> set (balances s)" "ba_account_id b = la_id acc" for acc b
  proof (cases "ba_account_id b \<in> lk_id ` set accts")
    case True
    then obtain a where a: "a \<in> set accts" "lk_id a = la_id acc" using b(2) by auto
    obtain acc2 b2 where x: "acc2 \<in> set (accounts s)" "la_id acc2 = lk_id a" "b2 \<in> set (balances s)" "ba_account_id b2 = lk_id a"
      "la_type acc2 = lk_type a" "la_allow_negative acc2 = lk_allow_negative a" "lk_held a = ba_held b2 - freed (lk_id a) rels"
      using a(1) bk unfolding booking_def by blast
    have ids: "distinct (map la_id (accounts s))" "distinct (map ba_account_id (balances s))"
      using core by (metis core_inv_def accounts_inv_def distinct_serials)+
    have same: "acc2 = acc" "b2 = b"
      using x(1-4) a(2) acc(1) b ids by (metis distinct_map inj_onD)+
    have "restricted_ok (postings s @ rows) (lk_type a) (lk_id a) (lk_held a)"
      using a(1) bk x(6) acc(2) same(1) by (simp add: booking_def)
    then show ?thesis using settle_booked(2) [OF core bk b(1)] True x same a(2) b(2) by simp
  next
    case False
    have "restricted_ok (postings s) (la_type acc) (la_id acc) (ba_held b)"
      using core acc b by (auto simp: core_inv_def overdraft_inv_def)
    then show ?thesis
      using settle_booked(2) [OF core bk b(1)] False booking_rows(5,6) [OF bk] b(2) by (auto simp: restricted_ok_def)
  qed
  then show ?thesis by (auto simp: overdraft_inv_def booked_def)
qed

lemma booked_core_inv:
  assumes "core_inv s" "booking s j rels rows accts"
  shows "core_inv (booked s (journal_row (stamped s j)) rows accts)"
proof -
  have "holds_inv (booked s (journal_row (stamped s j)) rows accts)"
    using assms(1) by (auto simp: core_inv_def holds_inv_def hold_inv_def booked_def)
  moreover have "accounts_inv (booked s (journal_row (stamped s j)) rows accts)"
    using assms(1) by (simp add: core_inv_def booked_accounts_inv)
  ultimately show ?thesis
    unfolding core_inv_def [of "booked s (journal_row (stamped s j)) rows accts"]
    using booked_postings_inv [OF assms] booked_journals_inv [OF assms] booked_balances_inv [OF assms]
      booked_overdraft_inv [OF assms] by blast
qed

lemma freed_none [simp]: "freed i [] = 0"
  by (simp add: freed_def)

lemma booked_ledger_inv:
  assumes "ledger_inv s" "booking s j [] rows accts"
  shows "ledger_inv (booked s (journal_row (stamped s j)) rows accts)"
proof -
  have core: "core_inv s" using assms(1) by (simp add: ledger_inv_def)
  have "held_inv (booked s (journal_row (stamped s j)) rows accts)"
    using settle_booked(2) [OF core assms(2)] assms(1) by (auto simp: ledger_inv_def held_inv_def booked_def)
  then show ?thesis using booked_core_inv [OF core assms(2)] by (simp add: ledger_inv_def)
qed

text \<open>\<open>PostJournal\<close> and \<open>PostJournalChecked\<close> keep the ledger's invariant.\<close>

lemma okp_post_journal_opts:
  assumes "\<And>f c. check = Some f \<Longrightarrow> okp ledger_inv (f c)"
  shows "okp ledger_inv (post_journal_opts c j [] check)"
proof (rule okpI)
  fix s r s'
  assume inv: "ledger_inv s" and run: "post_journal_opts c j [] check s = (Ok r, s')"
  obtain j' posted where r: "r = (j', posted)" by (cases r)
  have core: "core_inv s" using inv by (simp add: ledger_inv_def)
  from core _ run [unfolded r] show "ledger_inv s'"
  proof (rule post_journal_opts_Ok)
    fix row
    assume "s' = s"
    then show "ledger_inv s'" using inv by simp
  next
    fix rows accts
    assume bk: "booking s j [] rows accts"
      and chk: "(case check of None \<Rightarrow> returnM () | Some f \<Rightarrow> f c) (booked s (journal_row (stamped s j)) rows accts) = (Ok (), s')"
    have "okp ledger_inv (case check of None \<Rightarrow> returnM () | Some f \<Rightarrow> f c)"
      using assms by (cases check) (auto intro: keeps)
    then show "ledger_inv s'" using chk booked_ledger_inv [OF inv bk] by (auto dest: okpD)
  qed simp
qed

lemma okp_post_journal [keeps]: "okp ledger_inv (post_journal c j)"
  unfolding post_journal_def by (intro keeps okp_post_journal_opts) simp

lemma okp_post_journal_checked [keeps]:
  "(\<And>c. okp ledger_inv (check c)) \<Longrightarrow> okp ledger_inv (post_journal_checked c j check)"
  unfolding post_journal_checked_def by (intro okp_post_journal_opts) auto

section \<open>Accounts\<close>

lemma okp_insert_ledger_account [keeps]: "okp ledger_inv (insert_ledger_account c account)"
  unfolding insert_ledger_account_def
proof (intro okp_with_tx okpI)
  fix c :: ctx and s :: "'x ledger_scheme" and r s'
  assume inv: "ledger_inv s"
    and run: "bindM (getM (account_by_code (la_code account))) (\<lambda>conflict.
     if conflict \<noteq> None then returnM (account, False)
     else bindM (getM (product_exists (la_product_id account))) (\<lambda>fk.
     if \<not> fk then failM NotFound
     else bindM (getM (\<lambda>s. account\<lparr>la_id := next_id (accounts s), la_created_at := clock s, la_updated_at := clock s\<rparr>)) (\<lambda>row.
     bindM (modifyM (\<lambda>s. s\<lparr>accounts := accounts s @ [row]\<rparr>)) (\<lambda>_.
     bindM (modifyM (\<lambda>s. s\<lparr>balances := balances s @ [new_balance (la_id row) (clock s)]\<rparr>)) (\<lambda>_.
     returnM (row, True)))))) s = (Ok r, s')"
  show "ledger_inv s'"
  proof (cases "account_by_code (la_code account) s")
    case (Some a)
    then show ?thesis using run inv by (auto simp: bind_Ok_iff act_simps)
  next
    case None
    let ?i = "next_id (accounts s)"
    let ?row = "account\<lparr>la_id := ?i, la_created_at := clock s, la_updated_at := clock s\<rparr>"
    have s': "s' = s\<lparr>accounts := accounts s @ [?row], balances := balances s @ [new_balance ?i (clock s)]\<rparr>"
      using run None by (auto simp: bind_Ok_iff act_simps split: if_splits)
    have ids: "map la_id (accounts s) = serials (length (accounts s))" "map ba_account_id (balances s) = map la_id (accounts s)"
      using inv by (auto simp: ledger_inv_def core_inv_def accounts_inv_def)
    have fresh: "?i \<notin> la_id ` set (accounts s)" by (rule next_id_fresh [OF ids(1)])
    have bal: "ba_account_id ` set (balances s) = la_id ` set (accounts s)"
      using arg_cong [OF ids(2), of set] by simp
    have noleg: "acct_sum ?i (postings s) = 0"
      unfolding acct_sum_def using inv fresh
      by (intro sum_by_none) (force simp: ledger_inv_def core_inv_def postings_inv_def posting_inv_def)
    have nohold: "active_sum ?i (holds s) = 0"
      unfolding active_sum_def using inv fresh
      by (intro sum_by_none) (force simp: ledger_inv_def core_inv_def holds_inv_def hold_inv_def)
    have "la_code account \<notin> la_code ` set (accounts s)"
      using None by (simp add: account_by_code_def find_row_None)
    moreover have "b \<in> set (balances s) \<Longrightarrow> ba_account_id b \<noteq> ?i" "a \<in> set (accounts s) \<Longrightarrow> la_id a \<noteq> ?i" for a b
      using fresh bal by (metis imageI)+
    ultimately show ?thesis
      using inv ids noleg nohold
      by (auto simp: s' ledger_inv_def core_inv_def inv_defs posting_inv_def journal_inv_def hold_inv_def new_balance_def
          restricted_ok_def next_id_def) blast
  qed
qed

lemma safep_get_account [keeps]:
  "safep I (get_ledger_account_by_code code)" "safep I (get_ledger_account_by_id i)" "safep I (get_balance i)"
  by (simp_all add: get_ledger_account_by_code_def get_ledger_account_by_id_def get_balance_def keeps)

lemma okp_get_or_create_ledger_account [keeps]: "okp ledger_inv (get_or_create_ledger_account c account)"
  unfolding get_or_create_ledger_account_def by (intro keeps safep_okp [OF safep_get_account(1)])

end
