(* ===== verification/Holds.thy ===== *)
theory Holds
  imports Posting
begin

text \<open>
  Holds: reservations of a balance (\<open>internal/repository/postgresql/ledger_hold.go\<close>),
  and that placing, capturing, releasing and expiring one keeps the ledger's
  invariant: what an account holds is always the sum of its active holds.

  The trigger of the schema that refuses to change a resolved hold is part of
  the update (\<open>update_active_hold\<close>), and so is the range check PostgreSQL makes
  on \<open>held + $2\<close>.
\<close>

section \<open>Operations\<close>

definition hold_by_external_id :: "string \<Rightarrow> 'x ledger_scheme \<Rightarrow> hold option" where
  "hold_by_external_id x s = find_row ho_external_id x (holds s)"

text \<open>\<open>GetHoldByExternalID\<close> and \<open>lockHold\<close>, which select the same row.\<close>

definition get_hold :: "string \<Rightarrow> ('x ledger_scheme, hold) action" where
  "get_hold x = bindM (getM (hold_by_external_id x)) (some_or NotFound)"

definition replay_hold :: "hold \<Rightarrow> ('x ledger_scheme, hold) action" where
  "replay_hold h = bindM (get_hold (ho_external_id h)) (\<lambda>existing.
     if ho_account_id existing \<noteq> ho_account_id h \<or> ho_amount existing \<noteq> ho_amount h \<or> ho_currency existing \<noteq> ho_currency h
     then failM AlreadyExists
     else returnM existing)"

definition new_hold_row :: "hold \<Rightarrow> 'x ledger_scheme \<Rightarrow> hold" where
  "new_hold_row h s = h\<lparr>ho_id := next_id (holds s), ho_status := HoldActive, ho_capture_journal_id := None,
     ho_captured_amount := None, ho_resolved_at := None, ho_created_at := clock s, ho_updated_at := clock s\<rparr>"

text \<open>\<open>UPDATE ledger_balances SET held = held + $2\<close>, refused outside of bigint.\<close>

definition add_held :: "int \<Rightarrow> int \<Rightarrow> ('x ledger_scheme, unit) action" where
  "add_held i d = bindM (getM (balance_of i)) (\<lambda>b. case b of
     None \<Rightarrow> returnM ()
   | Some b \<Rightarrow> if \<not> in64 (ba_held b + d) then failM Internal
       else modifyM (\<lambda>s. s\<lparr>balances := update_rows ba_account_id i
         (\<lambda>b. b\<lparr>ba_held := ba_held b + d, ba_version := ba_version b + 1, ba_updated_at := clock s\<rparr>) (balances s)\<rparr>))"

definition short_of :: "locked_account \<Rightarrow> int \<Rightarrow> bool" where
  "short_of a amount \<longleftrightarrow> \<not> lk_allow_negative a \<and>
     wrap64 (wrap64 (lk_raw_balance a * normal_sign (lk_type a)) - lk_held a) < amount"

definition place_hold :: "ctx \<Rightarrow> hold \<Rightarrow> ('x ledger_scheme, hold) action" where
  "place_hold c h =
     (if \<not> in_tx c then failM Internal
      else if ho_external_id h = [] then failM Internal
      else if ho_amount h \<le> 0 then failM InvalidArgument
      else bindM (getM clock) (\<lambda>now.
      if \<not> now < ho_expires_at h then failM InvalidArgument
      else bindM (getM (hold_by_external_id (ho_external_id h))) (\<lambda>conflict.
      if conflict \<noteq> None then replay_hold h
      else bindM (getM (account_by_id (ho_account_id h))) (\<lambda>fk.
      if fk = None then failM NotFound
      else bindM (getM (new_hold_row h)) (\<lambda>row.
      bindM (modifyM (\<lambda>s. s\<lparr>holds := holds s @ [row]\<rparr>)) (\<lambda>_.
      bindM (lock_account (ho_account_id h)) (\<lambda>a.
      if lk_currency a \<noteq> ho_currency h then failM CurrencyMismatch
      else if short_of a (ho_amount h) then failM InsufficientBalance
      else bindM (add_held (lk_id a) (ho_amount h)) (\<lambda>_. returnM row))))))))"

text \<open>\<open>netNaturalChange\<close>: an int64 sum.\<close>

fun raw_change :: "int \<Rightarrow> posting list \<Rightarrow> int \<Rightarrow> int" where
  "raw_change i [] acc = acc"
| "raw_change i (p # ps) acc = raw_change i ps (if po_account_id p = i then wrap64 (acc + signed p) else acc)"

definition net_natural_change :: "journal \<Rightarrow> ledger_account \<Rightarrow> int" where
  "net_natural_change j a = wrap64 (raw_change (la_id a) (jo_postings j) 0 * normal_sign (la_type a))"

text \<open>The update of a hold row, with the trigger on resolved holds.\<close>

definition update_active_hold :: "int \<Rightarrow> (hold \<Rightarrow> hold) \<Rightarrow> ('x ledger_scheme, hold) action" where
  "update_active_hold i f = bindM (getM (\<lambda>s. find_row ho_id i (holds s))) (\<lambda>r. case r of
     None \<Rightarrow> failM NotFound
   | Some row \<Rightarrow> if ho_status row \<noteq> HoldActive then failM Internal
       else bindM (getM clock) (\<lambda>now.
            bindM (modifyM (\<lambda>s. s\<lparr>holds := update_rows ho_id i (\<lambda>h. (f h)\<lparr>ho_resolved_at := Some now, ho_updated_at := now\<rparr>) (holds s)\<rparr>)) (\<lambda>_.
            returnM ((f row)\<lparr>ho_resolved_at := Some now, ho_updated_at := now\<rparr>))))"

text \<open>The switch on the statuses: how many were captured before.\<close>

fun captured_before :: "hold list \<Rightarrow> nat \<Rightarrow> nat option" where
  "captured_before [] n = Some n"
| "captured_before (h # hs) n = (case ho_status h of
     HoldCaptured \<Rightarrow> captured_before hs (Suc n)
   | HoldActive \<Rightarrow> captured_before hs n
   | _ \<Rightarrow> None)"

text \<open>What the journal takes from a hold's account, within the hold or refused.\<close>

definition take_from :: "journal \<Rightarrow> hold \<Rightarrow> ('x ledger_scheme, int) action" where
  "take_from j h = bindM (get_ledger_account_by_id (ho_account_id h)) (\<lambda>a.
     let taken = wrap64 (- net_natural_change j a)
     in if taken \<le> 0 \<or> ho_amount h < taken then failM InvalidArgument else returnM taken)"

definition mark_captured :: "int \<Rightarrow> hold \<times> int \<Rightarrow> ('x ledger_scheme, hold) action" where
  "mark_captured jid ht = (case ht of (h, taken) \<Rightarrow> update_active_hold (ho_id h)
     (\<lambda>h. h\<lparr>ho_status := HoldCaptured, ho_capture_journal_id := Some jid, ho_captured_amount := Some taken\<rparr>))"

definition release_of :: "hold \<Rightarrow> hold_release" where
  "release_of h = \<lparr>hr_account_id = ho_account_id h, hr_amount = ho_amount h\<rparr>"

text \<open>\<open>CaptureHolds\<close> once the holds are locked: a replay, or the journal and the marks.\<close>

definition capture_replay :: "journal \<Rightarrow> nat \<Rightarrow> hold list \<Rightarrow> ('x ledger_scheme, hold list \<times> bool \<times> journal) action" where
  "capture_replay j n hs =
     bindM (tryM (get_journal_by_external_id (jo_external_id j))) (\<lambda>r. case r of
       Inl e \<Rightarrow> failM FailedPrecondition
     | Inr existing \<Rightarrow>
         if n \<noteq> length hs then failM FailedPrecondition
         else if \<exists>h\<in>set hs. ho_capture_journal_id h \<noteq> Some (jo_id existing) then failM FailedPrecondition
         else returnM (hs, False, existing))"

definition capture_active :: "ctx \<Rightarrow> journal \<Rightarrow> hold list \<Rightarrow> ('x ledger_scheme, hold list \<times> bool \<times> journal) action" where
  "capture_active c j hs =
     bindM (map_m (take_from j) hs) (\<lambda>taken.
     bindM (post_journal_opts c j (map release_of hs) None) (\<lambda>(j', posted).
     if \<not> posted then failM AlreadyExists
     else bindM (map_m (mark_captured (jo_id j')) (zip hs taken)) (\<lambda>hs'.
     returnM (hs', True, j'))))"

text \<open>\<open>CaptureHolds\<close>: the holds, whether this call captured them, and the caller's journal afterwards.\<close>

definition capture_holds :: "ctx \<Rightarrow> string list \<Rightarrow> journal \<Rightarrow> ('x ledger_scheme, hold list \<times> bool \<times> journal) action" where
  "capture_holds c xs j =
     (if \<not> in_tx c then failM Internal
      else bindM (map_m get_hold (sort xs)) (\<lambda>locked.
      let hs = sort_key ho_id locked in
      case captured_before hs 0 of
        None \<Rightarrow> failM FailedPrecondition
      | Some n \<Rightarrow> if 0 < n then capture_replay j n hs else capture_active c j hs))"

definition capture_hold :: "ctx \<Rightarrow> string \<Rightarrow> journal \<Rightarrow> ('x ledger_scheme, hold \<times> bool \<times> journal) action" where
  "capture_hold c x j = bindM (capture_holds c [x] j) (\<lambda>(hs, captured, j'). case hs of
     [] \<Rightarrow> panicM | h # _ \<Rightarrow> returnM (h, captured, j'))"

definition resolve_hold :: "ctx \<Rightarrow> string \<Rightarrow> hold_status \<Rightarrow> ('x ledger_scheme, hold) action" where
  "resolve_hold c x to =
     (if \<not> in_tx c then failM Internal
      else bindM (get_hold x) (\<lambda>h.
      bindM (getM clock) (\<lambda>now.
      if ho_status h = to then returnM h
      else if ho_status h \<noteq> HoldActive then failM FailedPrecondition
      else if to = HoldExpired \<and> now < ho_expires_at h then failM FailedPrecondition
      else bindM (lock_account (ho_account_id h)) (\<lambda>a.
      if lk_held a < ho_amount h then failM Internal
      else bindM (add_held (lk_id a) (- ho_amount h)) (\<lambda>_.
      update_active_hold (ho_id h) (\<lambda>h. h\<lparr>ho_status := to\<rparr>))))))"

definition release_hold :: "ctx \<Rightarrow> string \<Rightarrow> ('x ledger_scheme, hold) action" where
  "release_hold c x = resolve_hold c x HoldReleased"

definition expire_hold :: "ctx \<Rightarrow> string \<Rightarrow> ('x ledger_scheme, hold) action" where
  "expire_hold c x = resolve_hold c x HoldExpired"

definition list_expired_holds :: "int \<Rightarrow> nat \<Rightarrow> ('x ledger_scheme, string list) action" where
  "list_expired_holds now limit = getM (\<lambda>s. map ho_external_id (take limit (sort_key ho_expires_at
     (filter (\<lambda>h. ho_status h = HoldActive \<and> ho_expires_at h \<le> now) (holds s)))))"

section \<open>Invariant\<close>

lemma safep_get_hold [keeps]: "safep I (get_hold x)"
  by (simp add: get_hold_def keeps)

lemma get_hold_Ok: "get_hold x s = (Ok h, s') \<longleftrightarrow> s' = s \<and> find_row ho_external_id x (holds s) = Some h"
  by (auto simp: get_hold_def bind_Ok_iff act_simps some_or_def hold_by_external_id_def split: option.splits)

lemma active_sum_Nil [simp]: "active_sum i [] = 0"
  by (simp add: active_sum_def)

lemma active_sum_append [simp]: "active_sum i (hs @ ks) = active_sum i hs + active_sum i ks"
  by (simp add: active_sum_def)

lemma active_sum_Cons [simp]:
  "active_sum i (h # hs) = (if ho_account_id h = i \<and> ho_status h = HoldActive then ho_amount h else 0) + active_sum i hs"
  by (simp add: active_sum_def)

lemma active_sum_resolve:
  assumes "\<And>h. ho_account_id (f h) = ho_account_id h" "\<And>h. ho_status (f h) \<noteq> HoldActive" "ho_status row = HoldActive"
  shows "distinct (map ho_id hs) \<Longrightarrow> find_row ho_id i hs = Some row \<Longrightarrow>
    active_sum k (update_rows ho_id i f hs) = active_sum k hs - (if ho_account_id row = k then ho_amount row else 0)"
proof (induction hs)
  case Nil
  then show ?case by simp
next
  case (Cons h hs)
  show ?case
  proof (cases "ho_id h = i")
    case True
    then have "update_rows ho_id i f hs = hs" using Cons.prems(1) by (intro update_rows_absent) auto
    then show ?thesis using True Cons.prems(2) assms by simp
  next
    case False
    then show ?thesis using Cons by simp
  qed
qed

definition bump_held :: "int \<Rightarrow> int \<Rightarrow> 'x ledger_scheme \<Rightarrow> 'x ledger_scheme" where
  "bump_held i d s = s\<lparr>balances := update_rows ba_account_id i
     (\<lambda>b. b\<lparr>ba_held := ba_held b + d, ba_version := ba_version b + 1, ba_updated_at := clock s\<rparr>) (balances s)\<rparr>"

lemma add_held_Ok:
  assumes "add_held i d s = (Ok u, s')" "find_row ba_account_id i (balances s) = Some b"
  shows "s' = bump_held i d s" "in64 (ba_held b + d)"
  using assms by (auto simp: add_held_def bind_Ok_iff act_simps balance_of_def bump_held_def split: if_splits)

lemma bump_held_simps [simp]:
  "accounts (bump_held i d s) = accounts s" "postings (bump_held i d s) = postings s"
  "journals (bump_held i d s) = journals s" "holds (bump_held i d s) = holds s"
  by (simp_all add: bump_held_def)

lemma balance_unique:
  assumes "core_inv s" "b \<in> set (balances s)" "b' \<in> set (balances s)" "ba_account_id b = ba_account_id b'"
  shows "b = b'"
proof -
  have "distinct (map ba_account_id (balances s))"
    using assms(1) by (metis core_inv_def accounts_inv_def distinct_serials)
  then show ?thesis using assms(2-4) by (metis distinct_map inj_onD)
qed

lemma account_unique:
  assumes "core_inv s" "a \<in> set (accounts s)" "a' \<in> set (accounts s)" "la_id a = la_id a'"
  shows "a = a'"
proof -
  have "distinct (map la_id (accounts s))"
    using assms(1) by (metis core_inv_def accounts_inv_def distinct_serials)
  then show ?thesis using assms(2-4) by (metis distinct_map inj_onD)
qed

lemma bump_core:
  assumes core: "core_inv s" and b: "b \<in> set (balances s)" "ba_account_id b = i" "0 \<le> ba_held b + d" "ba_held b + d < 2 ^ 63"
    and r: "\<And>a. a \<in> set (accounts s) \<Longrightarrow> la_id a = i \<Longrightarrow> \<not> la_allow_negative a \<Longrightarrow>
      restricted_ok (postings s) (la_type a) i (ba_held b + d)"
  shows "core_inv (bump_held i d s)"
proof -
  have rows: "\<exists>y\<in>set (balances s). ba_account_id y = ba_account_id x \<and> ba_raw_balance y = ba_raw_balance x \<and>
      ba_held x = (if ba_account_id x = i then ba_held b + d else ba_held y)" if x: "x \<in> set (balances (bump_held i d s))" for x
  proof -
    obtain y where y: "y \<in> set (balances s)" "x = (if ba_account_id y = i then y\<lparr>ba_held := ba_held y + d,
        ba_version := ba_version y + 1, ba_updated_at := clock s\<rparr> else y)"
      using x by (auto simp: bump_held_def set_update_rows)
    then show ?thesis using balance_unique [OF core y(1) b(1)] b(2) by (intro bexI [OF _ y(1)]) auto
  qed
  have "accounts_inv (bump_held i d s)"
    using core by (simp add: core_inv_def accounts_inv_def bump_held_def map_update_rows)
  moreover have "balances_inv (bump_held i d s)"
    unfolding balances_inv_def
  proof
    fix x
    assume "x \<in> set (balances (bump_held i d s))"
    from rows [OF this] obtain y where "y \<in> set (balances s)" "ba_account_id y = ba_account_id x" "ba_raw_balance y = ba_raw_balance x"
      "ba_held x = (if ba_account_id x = i then ba_held b + d else ba_held y)" by blast
    then show "ba_raw_balance x = wrap64 (acct_sum (ba_account_id x) (postings (bump_held i d s))) \<and> 0 \<le> ba_held x \<and> ba_held x < 2 ^ 63"
      using core b(3,4) by (simp add: core_inv_def balances_inv_def)
  qed
  moreover have "overdraft_inv (bump_held i d s)"
    unfolding overdraft_inv_def
  proof (intro ballI impI)
    fix a x
    assume a: "a \<in> set (accounts (bump_held i d s))" "x \<in> set (balances (bump_held i d s))"
      "ba_account_id x = la_id a" "\<not> la_allow_negative a"
    from rows [OF a(2)] obtain y where "y \<in> set (balances s)" "ba_account_id y = ba_account_id x"
      "ba_held x = (if ba_account_id x = i then ba_held b + d else ba_held y)" by blast
    then show "restricted_ok (postings (bump_held i d s)) (la_type a) (la_id a) (ba_held x)"
      using core a r [of a] by (cases "la_id a = i") (simp_all add: core_inv_def overdraft_inv_def)
  qed
  ultimately show ?thesis
    using core by (simp add: core_inv_def inv_defs posting_inv_def journal_inv_def hold_inv_def)
qed

lemma core_inv_holds:
  "core_inv s \<Longrightarrow> holds_inv (s\<lparr>holds := hs\<rparr>) \<Longrightarrow> core_inv (s\<lparr>holds := hs\<rparr>)"
  by (simp add: core_inv_def inv_defs posting_inv_def journal_inv_def)

lemma held_inv_bump:
  assumes "core_inv s" "b \<in> set (balances s)" "ba_account_id b = i"
    "\<And>b'. b' \<in> set (balances s) \<Longrightarrow> ba_account_id b' \<noteq> i \<Longrightarrow> ba_held b' = active_sum (ba_account_id b') (holds s)"
    "ba_held b + d = active_sum i (holds s)"
  shows "held_inv (bump_held i d s)"
  using assms balance_unique [OF assms(1)] by (fastforce simp: held_inv_def bump_held_def set_update_rows)

lemma lock_account_rows:
  assumes "lock_account i s = (Ok a, s')"
  obtains acc b where "s' = s" "acc \<in> set (accounts s)" "la_id acc = i" "find_row ba_account_id i (balances s) = Some b"
    "b \<in> set (balances s)" "ba_account_id b = i" "lk_id a = i" "lk_held a = ba_held b" "lk_raw_balance a = ba_raw_balance b"
    "lk_type a = la_type acc" "lk_currency a = la_currency acc" "lk_allow_negative a = la_allow_negative acc"
proof -
  have a: "s' = s" "locked_row i s = Some a" using lock_account_Ok [OF assms] by simp_all
  obtain acc b where row: "find_row la_id i (accounts s) = Some acc" "find_row ba_account_id i (balances s) = Some b"
    "a = \<lparr>lk_id = la_id acc, lk_code = la_code acc, lk_type = la_type acc, lk_currency = la_currency acc,
       lk_allow_negative = la_allow_negative acc, lk_status = la_status acc,
       lk_raw_balance = ba_raw_balance b, lk_held = ba_held b\<rparr>" "la_id acc = i" "ba_account_id b = i"
    using a(2) by (rule locked_row_Some)
  show ?thesis
    by (rule that [of acc b]) (use a row find_row_Some [OF row(1)] find_row_Some [OF row(2)] in auto)
qed

subsection \<open>Placing\<close>

lemma not_short_room:
  assumes "core_inv s" "acc \<in> set (accounts s)" "b \<in> set (balances s)" "ba_account_id b = la_id acc"
    "lk_held a = ba_held b" "lk_raw_balance a = ba_raw_balance b" "lk_type a = la_type acc"
    "lk_allow_negative a = la_allow_negative acc" "\<not> la_allow_negative acc" "\<not> short_of a amount"
  shows "restricted_ok (postings s) (la_type acc) (la_id acc) (ba_held b + amount)"
  unfolding restricted_ok_def
proof
  assume v: "volume (postings s) < 2 ^ 63"
  have held: "ba_held b \<le> acct_sum (la_id acc) (postings s) * normal_sign (la_type acc)" "0 \<le> ba_held b"
    and raw: "ba_raw_balance b = wrap64 (acct_sum (la_id acc) (postings s))"
    using assms(1-4,9) v by (auto simp: core_inv_def overdraft_inv_def balances_inv_def restricted_ok_def)
  have valid: "\<forall>p\<in>set (postings s). valid_leg p"
    using assms(1) by (auto simp: core_inv_def postings_inv_def posting_inv_def)
  have sum: "\<bar>acct_sum (la_id acc) (postings s)\<bar> < 2 ^ 63" using acct_sum_volume [OF valid] v by (meson le_less_trans)
  have nat: "\<bar>acct_sum (la_id acc) (postings s) * normal_sign (la_type acc)\<bar> < 2 ^ 63"
    using sum normal_sign_cases [of "la_type acc"] by auto
  have "wrap64 (wrap64 (lk_raw_balance a * normal_sign (lk_type a)) - lk_held a) =
      acct_sum (la_id acc) (postings s) * normal_sign (la_type acc) - ba_held b"
    using nat held sum by (simp add: assms(5-7) raw wrap64_abs)
  then show "ba_held b + amount \<le> acct_sum (la_id acc) (postings s) * normal_sign (la_type acc)"
    using assms(8,9,10) by (simp add: short_of_def)
qed

lemma place_hold_Ok:
  assumes "place_hold c h s = (Ok r, s')"
  obtains (replayed) "find_row ho_external_id (ho_external_id h) (holds s) = Some r" "s' = s" "in_tx c"
      "ho_account_id r = ho_account_id h" "ho_amount r = ho_amount h" "ho_currency r = ho_currency h"
    | (placed) acc b a where "in_tx c" "ho_external_id h \<noteq> []" "0 < ho_amount h" "clock s < ho_expires_at h"
      "find_row ho_external_id (ho_external_id h) (holds s) = None" "r = new_hold_row h s"
      "acc \<in> set (accounts s)" "la_id acc = ho_account_id h" "la_currency acc = ho_currency h"
      "b \<in> set (balances s)" "ba_account_id b = ho_account_id h" "in64 (ba_held b + ho_amount h)"
      "lk_held a = ba_held b" "lk_raw_balance a = ba_raw_balance b" "lk_type a = la_type acc"
      "lk_allow_negative a = la_allow_negative acc" "\<not> short_of a (ho_amount h)"
      "s' = bump_held (ho_account_id h) (ho_amount h) (s\<lparr>holds := holds s @ [r]\<rparr>)"
proof (cases "find_row ho_external_id (ho_external_id h) (holds s)")
  case (Some row)
  then show ?thesis using assms
    by (intro replayed) (auto simp: place_hold_def replay_hold_def hold_by_external_id_def get_hold_Ok bind_Ok_iff act_simps split: if_splits)
next
  case None
  let ?row = "new_hold_row h s"
  obtain a s2 where ok: "in_tx c" "ho_external_id h \<noteq> []" "0 < ho_amount h" "clock s < ho_expires_at h"
    and lock: "lock_account (ho_account_id h) (s\<lparr>holds := holds s @ [?row]\<rparr>) = (Ok a, s2)"
    and cur: "lk_currency a = ho_currency h" "\<not> short_of a (ho_amount h)" "r = ?row"
    and add: "add_held (lk_id a) (ho_amount h) s2 = (Ok (), s')"
    using assms None
    by (auto simp: place_hold_def hold_by_external_id_def bind_Ok_iff act_simps split: if_splits)
  from lock obtain acc b where row: "s2 = s\<lparr>holds := holds s @ [?row]\<rparr>" "acc \<in> set (accounts s)" "la_id acc = ho_account_id h"
    "find_row ba_account_id (ho_account_id h) (balances s) = Some b" "b \<in> set (balances s)" "ba_account_id b = ho_account_id h"
    "lk_id a = ho_account_id h" "lk_held a = ba_held b" "lk_raw_balance a = ba_raw_balance b"
    "lk_type a = la_type acc" "lk_currency a = la_currency acc" "lk_allow_negative a = la_allow_negative acc"
    by (rule lock_account_rows) auto
  note held = add_held_Ok [OF add [unfolded row(1,7)], of b]
  show ?thesis
    by (rule placed [of acc b a]) (use ok None cur row held in simp_all)
qed

lemma okp_place_hold [keeps]: "okp ledger_inv (place_hold c h)"
proof (rule okpI)
  fix s r s'
  assume inv: "ledger_inv s" and run: "place_hold c h s = (Ok r, s')"
  have core: "core_inv s" and held: "held_inv s" using inv by (auto simp: ledger_inv_def)
  from run show "ledger_inv s'"
  proof (cases rule: place_hold_Ok)
    case replayed
    then show ?thesis using inv by simp
  next
    case (placed acc b a)
    let ?s = "s\<lparr>holds := holds s @ [r]\<rparr>" and ?i = "ho_account_id h"
    have hi: "map ho_id (holds s) = serials (length (holds s))" using core by (auto simp: core_inv_def holds_inv_def)
    have row: "ho_account_id r = ?i" "ho_amount r = ho_amount h" "ho_status r = HoldActive" "ho_external_id r = ho_external_id h"
      by (simp_all add: placed(6) new_hold_row_def)
    have "ho_external_id h \<notin> ho_external_id ` set (holds s)"
      using placed(5) by (simp add: find_row_None [symmetric])
    moreover have "hold_inv ?s r" using placed by (auto simp: hold_inv_def new_hold_row_def)
    moreover have "\<forall>k\<in>set (holds s). hold_inv ?s k" using core by (simp add: core_inv_def holds_inv_def hold_inv_def)
    ultimately have "holds_inv ?s"
      using core serials_snoc [OF hi, of r] row by (simp add: core_inv_def holds_inv_def placed(6) new_hold_row_def)
    then have core': "core_inv ?s" by (rule core_inv_holds [OF core])
    have bh: "0 \<le> ba_held b" using core placed(10) by (auto simp: core_inv_def balances_inv_def)
    have room: "restricted_ok (postings s) (la_type a') ?i (ba_held b + ho_amount h)"
      if "a' \<in> set (accounts s)" "la_id a' = ?i" "\<not> la_allow_negative a'" for a'
    proof -
      have "a' = acc" using account_unique [OF core that(1) placed(7)] that(2) placed(8) by simp
      then show ?thesis
        using not_short_room [OF core placed(7,10) _ placed(13,14,15,16) _ placed(17)] placed(8,11) that(3) by simp
    qed
    have "core_inv s'"
      unfolding placed(18) by (rule bump_core [OF core', of b]) (use placed bh room in \<open>auto simp: in64_def\<close>)
    moreover have "held_inv s'"
      unfolding placed(18)
    proof (rule held_inv_bump [OF core', of b])
      show "ba_held b + ho_amount h = active_sum ?i (holds ?s)"
        using held placed(10,11) row by (simp add: held_inv_def)
    qed (use placed held row in \<open>auto simp: held_inv_def\<close>)
    ultimately show ?thesis by (simp add: ledger_inv_def)
  qed
qed

subsection \<open>Releasing and expiring\<close>

definition resolved_row :: "'x ledger_scheme \<Rightarrow> (hold \<Rightarrow> hold) \<Rightarrow> hold \<Rightarrow> hold" where
  "resolved_row s f h = (f h)\<lparr>ho_resolved_at := Some (clock s), ho_updated_at := clock s\<rparr>"

definition resolve_in :: "int \<Rightarrow> (hold \<Rightarrow> hold) \<Rightarrow> 'x ledger_scheme \<Rightarrow> 'x ledger_scheme" where
  "resolve_in i f s = s\<lparr>holds := update_rows ho_id i (resolved_row s f) (holds s)\<rparr>"

lemma resolve_in_simps [simp]:
  "accounts (resolve_in i f s) = accounts s" "postings (resolve_in i f s) = postings s"
  "journals (resolve_in i f s) = journals s" "balances (resolve_in i f s) = balances s" "clock (resolve_in i f s) = clock s"
  by (simp_all add: resolve_in_def)

lemma update_active_hold_Ok:
  assumes "update_active_hold i f s = (Ok r, s')"
  obtains row where "find_row ho_id i (holds s) = Some row" "ho_status row = HoldActive"
    "r = resolved_row s f row" "s' = resolve_in i f s"
proof -
  have r: "resolved_row s f = (\<lambda>h. (f h)\<lparr>ho_resolved_at := Some (clock s), ho_updated_at := clock s\<rparr>)"
    by (rule ext) (simp add: resolved_row_def)
  show ?thesis using assms that
    by (auto simp: update_active_hold_def bind_Ok_iff act_simps resolve_in_def r split: option.splits if_splits)
qed

text \<open>What the two updates of a hold have in common: identity kept, status resolved, row still sound.\<close>

definition resolves :: "'x ledger_scheme \<Rightarrow> (hold \<Rightarrow> hold) \<Rightarrow> hold \<Rightarrow> bool" where
  "resolves s f row \<longleftrightarrow> (\<forall>h. ho_id (f h) = ho_id h \<and> ho_external_id (f h) = ho_external_id h \<and>
     ho_account_id (f h) = ho_account_id h \<and> ho_status (f h) \<noteq> HoldActive) \<and> hold_inv s (resolved_row s f row)"

lemma resolve_in_core:
  assumes core: "core_inv s" and row: "find_row ho_id i (holds s) = Some row" and f: "resolves s f row"
  shows "core_inv (resolve_in i f s)"
proof -
  have hs: "map ho_id (holds s) = serials (length (holds s))" "distinct (map ho_external_id (holds s))" "\<forall>h\<in>set (holds s). hold_inv s h"
    using core by (auto simp: core_inv_def holds_inv_def)
  have "distinct (map ho_id (holds s))" using hs(1) by (metis distinct_serials)
  then have only: "h = row" if "h \<in> set (holds s)" "ho_id h = i" for h
    using that row find_row_distinct [of ho_id "holds s" i] by (metis option.inject)
  have same: "ho_id (resolved_row s f h) = ho_id h" "ho_external_id (resolved_row s f h) = ho_external_id h" for h
    using f by (simp_all add: resolves_def resolved_row_def)
  have each: "hold_inv s (if ho_id h = i then resolved_row s f h else h)" if "h \<in> set (holds s)" for h
    using that only [OF that] hs(3) f by (auto simp: resolves_def)
  have "hold_inv (resolve_in i f s) k" if k: "k \<in> set (holds (resolve_in i f s))" for k
  proof -
    obtain h where "h \<in> set (holds s)" "k = (if ho_id h = i then resolved_row s f h else h)"
      using k by (auto simp: resolve_in_def set_update_rows)
    then have "hold_inv s k" using each by blast
    then show ?thesis by (simp add: hold_inv_def)
  qed
  then have "holds_inv (resolve_in i f s)"
    using hs(1,2) same by (simp add: holds_inv_def resolve_in_def map_update_rows)
  then show ?thesis using core_inv_holds [OF core] by (simp add: resolve_in_def)
qed

lemma resolve_in_active:
  assumes "core_inv s" "find_row ho_id i (holds s) = Some row" "ho_status row = HoldActive" "resolves s f row"
  shows "active_sum k (holds (resolve_in i f s)) = active_sum k (holds s) - (if ho_account_id row = k then ho_amount row else 0)"
proof -
  have d: "distinct (map ho_id (holds s))" using assms(1) by (metis core_inv_def holds_inv_def distinct_serials)
  have "active_sum k (update_rows ho_id i (resolved_row s f) (holds s)) =
      active_sum k (holds s) - (if ho_account_id row = k then ho_amount row else 0)"
    by (rule active_sum_resolve [OF _ _ assms(3) d assms(2)]) (use assms(4) in \<open>simp_all add: resolves_def resolved_row_def\<close>)
  then show ?thesis by (simp add: resolve_in_def)
qed

lemma okp_resolve_hold:
  assumes "to = HoldReleased \<or> to = HoldExpired"
  shows "okp ledger_inv (resolve_hold c x to)"
proof (rule okpI)
  fix s r s'
  assume inv: "ledger_inv s" and run: "resolve_hold c x to s = (Ok r, s')"
  have core: "core_inv s" and held: "held_inv s" using inv by (auto simp: ledger_inv_def)
  obtain h where h: "find_row ho_external_id x (holds s) = Some h"
    and rest: "(if ho_status h = to then returnM h
      else if ho_status h \<noteq> HoldActive then failM FailedPrecondition
      else if to = HoldExpired \<and> clock s < ho_expires_at h then failM FailedPrecondition
      else bindM (lock_account (ho_account_id h)) (\<lambda>a.
      if lk_held a < ho_amount h then failM Internal
      else bindM (add_held (lk_id a) (- ho_amount h)) (\<lambda>_.
      update_active_hold (ho_id h) (\<lambda>h. h\<lparr>ho_status := to\<rparr>)))) s = (Ok r, s')"
    using run by (auto simp: resolve_hold_def bind_Ok_iff get_hold_Ok act_simps split: if_splits)
  have hin: "h \<in> set (holds s)" "hold_inv s h" using find_row_Some [OF h] core by (auto simp: core_inv_def holds_inv_def)
  show "ledger_inv s'"
  proof (cases "ho_status h = to")
    case True
    then show ?thesis using rest inv by (simp add: act_simps)
  next
    case False
    obtain a s1 s2 where active: "ho_status h = HoldActive" and lock: "lock_account (ho_account_id h) s = (Ok a, s1)"
      and enough: "ho_amount h \<le> lk_held a" and add: "add_held (lk_id a) (- ho_amount h) s1 = (Ok (), s2)"
      and upd: "update_active_hold (ho_id h) (\<lambda>h. h\<lparr>ho_status := to\<rparr>) s2 = (Ok r, s')"
      using rest False by (auto simp: bind_Ok_iff act_simps split: if_splits)
    from lock obtain acc b where row: "s1 = s" "acc \<in> set (accounts s)" "la_id acc = ho_account_id h"
      "find_row ba_account_id (ho_account_id h) (balances s) = Some b" "b \<in> set (balances s)" "ba_account_id b = ho_account_id h"
      "lk_id a = ho_account_id h" "lk_held a = ba_held b"
      by (rule lock_account_rows) auto
    let ?i = "ho_account_id h" and ?f = "\<lambda>h. h\<lparr>ho_status := to\<rparr>"
    have s2: "s2 = bump_held ?i (- ho_amount h) s" using add_held_Ok(1) [OF add [unfolded row(1,7)] row(4)] .
    have pos: "0 < ho_amount h" "ba_held b < 2 ^ 63" using hin core row(5) by (auto simp: hold_inv_def core_inv_def balances_inv_def)
    have restr: "restricted_ok (postings s) (la_type a') ?i (ba_held b + - ho_amount h)"
      if "a' \<in> set (accounts s)" "la_id a' = ?i" "\<not> la_allow_negative a'" for a'
      using core that row(5,6) pos by (fastforce simp: core_inv_def overdraft_inv_def restricted_ok_def)
    have core2: "core_inv s2"
      unfolding s2 by (rule bump_core [OF core row(5,6)]) (use enough row(8) pos restr in auto)
    have ids: "map ho_id (holds s) = serials (length (holds s))" using core by (auto simp: core_inv_def holds_inv_def)
    have hrow: "find_row ho_id (ho_id h) (holds s2) = Some h"
      using find_row_serial [OF ids hin(1)] by (simp add: s2)
    have s': "s' = resolve_in (ho_id h) ?f s2" using upd by (auto elim: update_active_hold_Ok)
    have res: "resolves s2 ?f h"
      using assms hin(2) active by (auto simp: resolves_def resolved_row_def hold_inv_def s2)
    have "core_inv s'" unfolding s' by (rule resolve_in_core [OF core2 hrow res])
    moreover have "held_inv s'"
      unfolding held_inv_def s'
    proof
      fix b'
      assume "b' \<in> set (balances (resolve_in (ho_id h) ?f s2))"
      then obtain y where y: "y \<in> set (balances s)" "ba_account_id b' = ba_account_id y"
        "ba_held b' = (if ba_account_id y = ?i then ba_held y - ho_amount h else ba_held y)"
        by (auto simp: s2 bump_held_def set_update_rows split: if_splits)
      then show "ba_held b' = active_sum (ba_account_id b') (holds (resolve_in (ho_id h) ?f s2))"
        using held resolve_in_active [OF core2 hrow active res, of "ba_account_id b'"] by (auto simp: held_inv_def s2)
    qed
    ultimately show ?thesis by (simp add: ledger_inv_def)
  qed
qed

lemma okp_release_hold [keeps]: "okp ledger_inv (release_hold c x)"
  by (simp add: release_hold_def okp_resolve_hold)

lemma okp_expire_hold [keeps]: "okp ledger_inv (expire_hold c x)"
  by (simp add: expire_hold_def okp_resolve_hold)

subsection \<open>Capturing\<close>

lemma map_m_reads:
  assumes "\<And>x s r s'. f x s = (r, s') \<Longrightarrow> s' = s"
  shows "map_m f xs s = (Ok ys, s') \<Longrightarrow> s' = s \<and> list_all2 (\<lambda>x y. f x s = (Ok y, s)) xs ys"
proof (induction xs arbitrary: ys)
  case Nil
  then show ?case by (simp add: act_simps)
next
  case (Cons x xs)
  then obtain y s1 rest s2 where "f x s = (Ok y, s1)" "map_m f xs s1 = (Ok rest, s2)" "ys = y # rest" "s' = s2"
    by (auto simp: bind_Ok_iff act_simps)
  then show ?case using assms [of x s "Ok y" s1] Cons.IH [of rest] by auto
qed

lemma get_hold_reads: "get_hold x s = (r, s') \<Longrightarrow> s' = s"
  by (auto simp: get_hold_def bindM_def act_simps some_or_def split: option.splits)

lemma take_from_reads: "take_from j h s = (r, s') \<Longrightarrow> s' = s"
  by (auto simp: take_from_def get_ledger_account_by_id_def bindM_def act_simps some_or_def Let_def
      split: option.splits if_splits prod.splits outcome.splits)

lemma take_from_Ok: "take_from j h s = (Ok t, s') \<Longrightarrow> 0 < t \<and> t \<le> ho_amount h"
  by (auto simp: take_from_def bind_Ok_iff act_simps Let_def split: if_splits)

lemma captured_before_0: "captured_before hs n = Some n \<Longrightarrow> \<forall>h\<in>set hs. ho_status h = HoldActive"
proof (induction hs arbitrary: n)
  case (Cons h hs)
  have mono: "captured_before ks m = Some k \<Longrightarrow> m \<le> k" for ks m k
    by (induction ks arbitrary: m) (fastforce split: hold_status.splits)+
  from Cons show ?case
    using mono [of hs "Suc n" n] by (auto split: hold_status.splits)
qed simp

text \<open>The holds still to be marked: their reservations are gone, their rows are still active or already refused.\<close>

definition pending :: "'x ledger_scheme \<Rightarrow> hold list \<Rightarrow> bool" where
  "pending s hs \<longleftrightarrow> (\<forall>b\<in>set (balances s).
     ba_held b = active_sum (ba_account_id b) (holds s) - freed (ba_account_id b) (map release_of hs)) \<and>
     (\<forall>h\<in>set hs. \<exists>k\<in>set (holds s). ho_id k = ho_id h \<and> ho_account_id k = ho_account_id h \<and> ho_amount k = ho_amount h)"

lemma mark_captured_step:
  assumes core: "core_inv s" and pend: "pending s (h # hs)" and jid: "jid \<in> jo_id ` set (journals s)"
    and taken: "0 < t" "t \<le> ho_amount h" and run: "mark_captured jid (h, t) s = (Ok r, s')"
  shows "core_inv s' \<and> pending s' hs \<and> journals s' = journals s"
proof -
  let ?f = "\<lambda>h. h\<lparr>ho_status := HoldCaptured, ho_capture_journal_id := Some jid, ho_captured_amount := Some t\<rparr>"
  have run': "update_active_hold (ho_id h) ?f s = (Ok r, s')" using run by (simp add: mark_captured_def)
  then obtain row where row: "find_row ho_id (ho_id h) (holds s) = Some row" "ho_status row = HoldActive" "s' = resolve_in (ho_id h) ?f s"
    by (rule update_active_hold_Ok)
  have ids: "distinct (map ho_id (holds s))" using core by (metis core_inv_def holds_inv_def distinct_serials)
  obtain k where "k \<in> set (holds s)" "ho_id k = ho_id h" "ho_account_id k = ho_account_id h" "ho_amount k = ho_amount h"
    using pend by (auto simp: pending_def)
  then have same: "ho_account_id row = ho_account_id h" "ho_amount row = ho_amount h"
    using row(1) find_row_distinct [OF ids, of "ho_id h"] by (metis option.inject)+
  have inv: "hold_inv s row" using find_row_Some [OF row(1)] core by (simp add: core_inv_def holds_inv_def)
  have res: "resolves s ?f row"
    using inv jid taken same by (auto simp: resolves_def resolved_row_def hold_inv_def)
  have "core_inv s'" unfolding row(3) by (rule resolve_in_core [OF core row(1) res])
  moreover have "pending s' hs"
    unfolding pending_def
  proof (intro conjI ballI)
    fix b
    assume "b \<in> set (balances s')"
    then show "ba_held b = active_sum (ba_account_id b) (holds s') - freed (ba_account_id b) (map release_of hs)"
      using pend resolve_in_active [OF core row(1,2) res, of "ba_account_id b"] same
      by (auto simp: row(3) pending_def freed_def release_of_def)
  next
    fix x
    assume "x \<in> set hs"
    then obtain y where "y \<in> set (holds s)" "ho_id y = ho_id x" "ho_account_id y = ho_account_id x" "ho_amount y = ho_amount x"
      using pend by (auto simp: pending_def)
    then show "\<exists>k\<in>set (holds s'). ho_id k = ho_id x \<and> ho_account_id k = ho_account_id x \<and> ho_amount k = ho_amount x"
      by (intro bexI [of _ "if ho_id y = ho_id h then resolved_row s ?f y else y"])
        (auto simp: row(3) resolve_in_def set_update_rows resolved_row_def)
  qed
  ultimately show ?thesis by (simp add: row(3))
qed

lemma mark_captured_all:
  "map_m (mark_captured jid) (zip hs ts) s = (Ok rs, s') \<Longrightarrow> list_all2 (\<lambda>h t. 0 < t \<and> t \<le> ho_amount h) hs ts \<Longrightarrow>
   core_inv s \<Longrightarrow> pending s hs \<Longrightarrow> jid \<in> jo_id ` set (journals s) \<Longrightarrow> core_inv s' \<and> pending s' []"
proof (induction hs arbitrary: ts s rs)
  case Nil
  then show ?case by (simp add: act_simps)
next
  case (Cons h hs)
  obtain t us where ts: "ts = t # us" "0 < t" "t \<le> ho_amount h" "list_all2 (\<lambda>h t. 0 < t \<and> t \<le> ho_amount h) hs us"
    using Cons.prems(2) by (cases ts) auto
  obtain r s1 rest where step: "mark_captured jid (h, t) s = (Ok r, s1)"
    and rest: "map_m (mark_captured jid) (zip hs us) s1 = (Ok rest, s')"
    using Cons.prems(1) by (auto simp: ts(1) bind_Ok_iff act_simps)
  have s1: "core_inv s1 \<and> pending s1 hs \<and> journals s1 = journals s"
    using mark_captured_step [OF Cons.prems(3,4,5) ts(2,3) step] .
  then show ?case using Cons.IH [OF rest ts(4)] Cons.prems(5) by simp
qed

lemma booked_simps [simp]:
  "holds (booked s row rows accts) = holds s" "accounts (booked s row rows accts) = accounts s"
  "postings (booked s row rows accts) = postings s @ rows" "journals (booked s row rows accts) = journals s @ [row]"
  by (simp_all add: booked_def)

lemma booked_pending:
  assumes inv: "ledger_inv s" and bk: "booking s j (map release_of hs) rows accts" and hs: "set hs \<subseteq> set (holds s)"
  shows "pending (booked s row rows accts) hs"
proof -
  let ?rels = "map release_of hs"
  have core: "core_inv s" using inv by (simp add: ledger_inv_def)
  have locked: "lk_id ` set accts = po_account_id ` set (jo_postings j) \<union> hr_account_id ` set ?rels"
    using bk set_lock_ids [of j ?rels] unfolding booking_def by (metis list.set_map)
  have nf: "freed i ?rels = 0" if "i \<notin> lk_id ` set accts" for i
    unfolding freed_def by (rule sum_by_none) (use that locked in auto)
  have "ba_held (settle_balance (clock s) (map (add_legs rows) accts) b) =
      active_sum (ba_account_id b) (holds s) - freed (ba_account_id b) ?rels" if "b \<in> set (balances s)" for b
    using settle_booked(2) [OF core bk that] nf [of "ba_account_id b"] inv that
    by (auto simp: ledger_inv_def held_inv_def)
  then show ?thesis using hs by (auto simp: pending_def booked_def)
qed

lemma captured_before_bound:
  "captured_before hs m = Some k \<Longrightarrow> k \<le> m + length hs \<and> (k = m + length hs \<longrightarrow> (\<forall>h\<in>set hs. ho_status h = HoldCaptured))"
  by (induction hs arbitrary: m) (fastforce split: hold_status.splits)+

lemma locked_holds:
  assumes "map_m get_hold xs s = (Ok locked, s')"
  shows "s' = s" "set locked \<subseteq> set (holds s)" "map ho_external_id locked = xs"
proof -
  have all: "s' = s \<and> list_all2 (\<lambda>x h. find_row ho_external_id x (holds s) = Some h) xs locked"
    using map_m_reads [OF get_hold_reads assms] by (auto simp: get_hold_Ok)
  then show "s' = s" by simp
  from all have "list_all2 (\<lambda>x h. find_row ho_external_id x (holds s) = Some h) xs locked" by simp
  then show "set locked \<subseteq> set (holds s)" "map ho_external_id locked = xs"
    by (induction rule: list_all2_induct) (auto dest: find_row_Some)
qed

lemma capture_replay_Ok:
  "capture_replay j n hs s = (Ok r, s') \<Longrightarrow>
   \<exists>existing. n = length hs \<and> (\<forall>h\<in>set hs. ho_capture_journal_id h = Some (jo_id existing)) \<and>
     r = (hs, False, existing) \<and> s' = s"
proof -
  assume run: "capture_replay j n hs s = (Ok r, s')"
  have reads: "get_journal_by_external_id (jo_external_id j) s = (o1, s1) \<Longrightarrow> s1 = s" for o1 s1
    by (auto simp: get_journal_by_external_id_def bindM_def act_simps split: option.splits)
  show ?thesis
    using run by (auto simp: capture_replay_def bind_Ok_iff try_apply act_simps dest: reads
        split: if_splits prod.splits outcome.splits sum.splits)
qed

lemma capture_active_Ok:
  assumes core: "core_inv s" and hs: "set hs \<subseteq> set (holds s)" and run: "capture_active c j hs s = (Ok r, s')"
  obtains ts rs rows accts where "list_all2 (\<lambda>h t. 0 < t \<and> t \<le> ho_amount h) hs ts" "booking s j (map release_of hs) rows accts"
    "map_m (mark_captured (next_id (journals s))) (zip hs ts) (booked s (journal_row (stamped s j)) rows accts) = (Ok rs, s')"
    "r = (rs, True, (stamped s j)\<lparr>jo_postings := rows\<rparr>)"
proof -
  obtain ts s1 j' s2 rs where take: "map_m (take_from j) hs s = (Ok ts, s1)"
    and post: "post_journal_opts c j (map release_of hs) None s1 = (Ok (j', True), s2)"
    and mark: "map_m (mark_captured (jo_id j')) (zip hs ts) s2 = (Ok rs, s')" and r: "r = (rs, True, j')"
    using run by (auto simp: capture_active_def bind_Ok_iff act_simps split: if_splits)
  have "s1 = s \<and> list_all2 (\<lambda>h t. take_from j h s = (Ok t, s)) hs ts"
    by (rule map_m_reads [OF _ take]) (rule take_from_reads)
  then have ts: "s1 = s" "list_all2 (\<lambda>h t. 0 < t \<and> t \<le> ho_amount h) hs ts"
    by (auto elim!: list_all2_mono dest: take_from_Ok)
  have pos: "\<forall>r\<in>set (map release_of hs). 0 < hr_amount r"
    using hs core by (auto simp: release_of_def core_inv_def holds_inv_def hold_inv_def)
  from core pos post [unfolded ts(1)] show ?thesis
  proof (rule post_journal_opts_Ok)
    fix rows accts
    assume bk: "booking s j (map release_of hs) rows accts" and j': "j' = (stamped s j)\<lparr>jo_postings := rows\<rparr>"
      and chk: "(case None of None \<Rightarrow> returnM () | Some f \<Rightarrow> f c) (booked s (journal_row (stamped s j)) rows accts) = (Ok (), s2)"
    have "jo_id j' = next_id (journals s)" by (simp add: j' stamped_def)
    then show ?thesis
      using ts(2) bk mark chk r j' by (intro that [of ts rows accts rs]) (auto simp: act_simps)
  qed simp
qed

lemma capture_holds_Ok:
  assumes core: "core_inv s" and run: "capture_holds c xs j s = (Ok r, s')"
  obtains (replayed) hs existing where "r = (hs, False, existing)" "s' = s" "in_tx c"
      "\<forall>h\<in>set hs. ho_status h = HoldCaptured \<and> ho_capture_journal_id h = Some (jo_id existing)"
    | (captured) hs ts rs rows accts where "in_tx c" "set hs \<subseteq> set (holds s)" "\<forall>h\<in>set hs. ho_status h = HoldActive"
      "mset (map ho_external_id hs) = mset xs"
      "list_all2 (\<lambda>h t. 0 < t \<and> t \<le> ho_amount h) hs ts" "booking s j (map release_of hs) rows accts"
      "map_m (mark_captured (next_id (journals s))) (zip hs ts) (booked s (journal_row (stamped s j)) rows accts) = (Ok rs, s')"
      "r = (rs, True, (stamped s j)\<lparr>jo_postings := rows\<rparr>)"
proof -
  obtain locked n s1 where tx: "in_tx c" and lock: "map_m get_hold (sort xs) s = (Ok locked, s1)"
    and n: "captured_before (sort_key ho_id locked) 0 = Some n"
    and rest: "(if 0 < n then capture_replay j n (sort_key ho_id locked) else capture_active c j (sort_key ho_id locked)) s1 = (Ok r, s')"
    using run by (auto simp: capture_holds_def bind_Ok_iff Let_def act_simps split: if_splits option.splits)
  let ?hs = "sort_key ho_id locked"
  have sub: "s1 = s" "set ?hs \<subseteq> set (holds s)" "mset (map ho_external_id ?hs) = mset xs"
    using locked_holds [OF lock] by (simp_all add: mset_map) (metis mset_map mset_sort)
  show ?thesis
  proof (cases "0 < n")
    case True
    then obtain existing where e: "n = length ?hs" "\<forall>h\<in>set ?hs. ho_capture_journal_id h = Some (jo_id existing)"
      "r = (?hs, False, existing)" "s' = s"
      using rest sub(1) by (auto dest: capture_replay_Ok)
    then show ?thesis using captured_before_bound [OF n] tx by (intro replayed [of ?hs existing]) auto
  next
    case False
    then have run: "capture_active c j ?hs s = (Ok r, s')" and n0: "captured_before ?hs 0 = Some 0" using rest n sub(1) by simp_all
    show ?thesis
      by (rule capture_active_Ok [OF core sub(2) run])
        (use captured [of ?hs] tx sub captured_before_0 [OF n0] in blast)
  qed
qed

lemma okp_capture_holds [keeps]: "okp ledger_inv (capture_holds c xs j)"
proof (rule okpI)
  fix s r s'
  assume inv: "ledger_inv s" and run: "capture_holds c xs j s = (Ok r, s')"
  have core: "core_inv s" using inv by (simp add: ledger_inv_def)
  from core run show "ledger_inv s'"
  proof (cases rule: capture_holds_Ok)
    case (replayed hs existing)
    then show ?thesis using inv by simp
  next
    case (captured hs ts rs rows accts)
    let ?s = "booked s (journal_row (stamped s j)) rows accts"
    have "core_inv s' \<and> pending s' []"
      using captured(7,5) booked_core_inv [OF core captured(6)] booked_pending [OF inv captured(6,2)]
      by (rule mark_captured_all) simp
    then show ?thesis by (simp add: ledger_inv_def held_inv_def pending_def freed_def)
  qed
qed

lemma okp_capture_hold [keeps]: "okp ledger_inv (capture_hold c x j)"
  unfolding capture_hold_def by (intro keeps)

end
