(* ===== verification/LedgerCheck.thy ===== *)
theory LedgerCheck
  imports Holds
begin

text \<open>
  The invariant checker: the nine queries and their runner
  (\<open>internal/repository/postgresql/ledger_check.go\<close>) and \<open>RunCheck\<close>
  (\<open>internal/ledger/checker.go\<close>).

  A query is the list of the rows it selects, in its order; the sums in it
  are exact (PostgreSQL adds bigints as numerics), and a figure that does not
  fit an int64 fails the scan of its row. The \<open>detail\<close> texts are left out.

  \<open>books_ok\<close> says what the rules mean. The theorems: the checker reports
  nothing exactly when the books are right, and the invariant the engine
  keeps makes them right as long as the volume posted fits an int64.
\<close>

section \<open>The queries\<close>

type_synonym finding_row = "string \<times> int \<times> int"

definition journal_currencies :: "int \<Rightarrow> posting list \<Rightarrow> string list" where
  "journal_currencies i ps = remdups (map po_currency (filter (\<lambda>p. po_journal_id p = i) ps))"

definition q_journal_unbalanced :: "'x ledger_scheme \<Rightarrow> finding_row list" where
  "q_journal_unbalanced s = concat (map (\<lambda>j.
     map (\<lambda>c. (jo_external_id j, 0, journal_sum (jo_id j) c (postings s)))
       (filter (\<lambda>c. journal_sum (jo_id j) c (postings s) \<noteq> 0) (journal_currencies (jo_id j) (postings s)))) (journals s))"

definition q_too_few_postings :: "'x ledger_scheme \<Rightarrow> finding_row list" where
  "q_too_few_postings s = map (\<lambda>j. (jo_external_id j, 2, int (length (filter (\<lambda>p. po_journal_id p = jo_id j) (postings s)))))
     (filter (\<lambda>j. length (filter (\<lambda>p. po_journal_id p = jo_id j) (postings s)) < 2) (journals s))"

definition currency_sum :: "string \<Rightarrow> posting list \<Rightarrow> int" where
  "currency_sum c ps = sum_by leg (\<lambda>p. po_currency p = c) ps"

definition q_ledger_unbalanced :: "'x ledger_scheme \<Rightarrow> finding_row list" where
  "q_ledger_unbalanced s = map (\<lambda>c. (c, 0, currency_sum c (postings s)))
     (filter (\<lambda>c. currency_sum c (postings s) \<noteq> 0) (sort (remdups (map po_currency (postings s)))))"

text \<open>The accounts joined with their balance rows.\<close>

definition account_balances :: "'x ledger_scheme \<Rightarrow> (ledger_account \<times> balance) list" where
  "account_balances s = concat (map (\<lambda>a. case balance_of (la_id a) s of None \<Rightarrow> [] | Some b \<Rightarrow> [(a, b)]) (accounts s))"

definition q_balance_drift :: "'x ledger_scheme \<Rightarrow> finding_row list" where
  "q_balance_drift s = map (\<lambda>(a, b). (la_code a, acct_sum (la_id a) (postings s), ba_raw_balance b))
     (filter (\<lambda>(a, b). ba_raw_balance b \<noteq> acct_sum (la_id a) (postings s)) (account_balances s))"

fun running_drift :: "'x ledger_scheme \<Rightarrow> posting list \<Rightarrow> posting list \<Rightarrow> finding_row list" where
  "running_drift s pre [] = []"
| "running_drift s pre (p # ps) =
     (case account_by_id (po_account_id p) s of
        None \<Rightarrow> []
      | Some a \<Rightarrow> if acct_sum (po_account_id p) (pre @ [p]) \<noteq> po_balance_after p
          then [(la_code a, acct_sum (po_account_id p) (pre @ [p]), po_balance_after p)] else [])
     @ running_drift s (pre @ [p]) ps"

definition q_running_balance_drift :: "'x ledger_scheme \<Rightarrow> finding_row list" where
  "q_running_balance_drift s = running_drift s [] (postings s)"

definition q_currency_mismatch :: "'x ledger_scheme \<Rightarrow> finding_row list" where
  "q_currency_mismatch s = concat (map (\<lambda>p. case account_by_id (po_account_id p) s of
     None \<Rightarrow> []
   | Some a \<Rightarrow> if po_currency p \<noteq> la_currency a then [(la_code a, 0, po_amount p)] else []) (postings s))"

definition q_held_drift :: "'x ledger_scheme \<Rightarrow> finding_row list" where
  "q_held_drift s = map (\<lambda>(a, b). (la_code a, active_sum (la_id a) (holds s), ba_held b))
     (filter (\<lambda>(a, b). ba_held b \<noteq> active_sum (la_id a) (holds s)) (account_balances s))"

definition q_negative_balance :: "'x ledger_scheme \<Rightarrow> finding_row list" where
  "q_negative_balance s = map (\<lambda>(a, b). (la_code a, 0, ba_raw_balance b * normal_sign (la_type a) - ba_held b))
     (filter (\<lambda>(a, b). \<not> la_allow_negative a \<and> ba_raw_balance b * normal_sign (la_type a) - ba_held b < 0) (account_balances s))"

definition q_missing_balance_row :: "'x ledger_scheme \<Rightarrow> finding_row list" where
  "q_missing_balance_row s = map (\<lambda>a. (la_code a, 1, 0)) (filter (\<lambda>a. balance_of (la_id a) s = None) (accounts s))"

definition ledger_invariants :: "(string \<times> ('x ledger_scheme \<Rightarrow> finding_row list)) list" where
  "ledger_invariants =
    [(''journal_unbalanced'', q_journal_unbalanced),
     (''journal_too_few_postings'', q_too_few_postings),
     (''ledger_unbalanced'', q_ledger_unbalanced),
     (''balance_drift'', q_balance_drift),
     (''running_balance_drift'', q_running_balance_drift),
     (''posting_currency_mismatch'', q_currency_mismatch),
     (''held_drift'', q_held_drift),
     (''negative_balance'', q_negative_balance),
     (''missing_balance_row'', q_missing_balance_row)]"

section \<open>The runner\<close>

definition finding_of :: "string \<Rightarrow> finding_row \<Rightarrow> ledger_check_finding" where
  "finding_of name r = (case r of (subject, expected, actual) \<Rightarrow>
     \<lparr>cf_invariant = name, cf_subject = subject, cf_expected = expected, cf_actual = actual\<rparr>)"

definition scans :: "finding_row \<Rightarrow> bool" where
  "scans r \<longleftrightarrow> in64 (fst (snd r)) \<and> in64 (snd (snd r))"

definition check_invariant :: "string \<times> ('x ledger_scheme \<Rightarrow> finding_row list) \<Rightarrow> nat \<Rightarrow>
    ('x ledger_scheme, ledger_check_finding list \<times> bool) action" where
  "check_invariant ivt limit = (case ivt of (name, q) \<Rightarrow>
     bindM (getM (\<lambda>s. take (Suc limit) (q s))) (\<lambda>rows.
     if \<not> list_all scans rows then failM Internal
     else let findings = map (finding_of name) rows
       in if limit < length findings then returnM (take limit findings, True)
          else returnM (findings, False)))"

text \<open>One turn of the loop: the findings so far, and whether any rule had more than the limit.\<close>

definition check_step :: "nat \<Rightarrow> string \<times> ('x ledger_scheme \<Rightarrow> finding_row list) \<Rightarrow> ledger_check_finding list \<times> bool \<Rightarrow>
    ('x ledger_scheme, ledger_check_finding list \<times> bool) action" where
  "check_step limit ivt acc = (case acc of (findings, truncated) \<Rightarrow>
     bindM (check_invariant ivt limit) (\<lambda>(found, more). returnM (findings @ found, truncated \<or> more)))"

definition check_ledger_invariants :: "ctx \<Rightarrow> nat \<Rightarrow> ('x ledger_scheme, ledger_check_finding list \<times> bool) action" where
  "check_ledger_invariants c limit = with_read_snapshot c (\<lambda>_. fold_m (check_step limit) ledger_invariants ([], False))"

definition record_ledger_check_run :: "ledger_check_run \<Rightarrow> ('x ledger_scheme, ledger_check_run) action" where
  "record_ledger_check_run r = bindM (getM (\<lambda>s. r\<lparr>cr_id := next_id (check_runs s)\<rparr>)) (\<lambda>r'.
     bindM (modifyM (\<lambda>s. s\<lparr>check_runs := check_runs s @ [r']\<rparr>)) (\<lambda>_. returnM r'))"

definition list_ledger_check_runs :: "nat \<Rightarrow> ('x ledger_scheme, ledger_check_run list) action" where
  "list_ledger_check_runs limit = getM (\<lambda>s. take limit (rev (check_runs s)))"

definition findings_per_invariant :: nat where
  "findings_per_invariant = 50"

text \<open>\<open>RunCheck\<close>: the outcome is recorded whatever it is.\<close>

definition run_check :: "ctx \<Rightarrow> ledger_check_trigger \<Rightarrow> string option \<Rightarrow> ('x ledger_scheme, ledger_check_run) action" where
  "run_check c trigger by_whom =
     bindM (new_id LedgerCheckRunId) (\<lambda>pid.
     bindM (getM clock) (\<lambda>now.
     bindM (tryM (check_ledger_invariants c findings_per_invariant)) (\<lambda>res.
     record_ledger_check_run (case res of
       Inl e \<Rightarrow> \<lparr>cr_id = 0, cr_public_id = pid, cr_status = LedgerCheckError, cr_trigger = trigger,
         cr_triggered_by = by_whom, cr_findings = [], cr_truncated = False, cr_error = Some (error_string e),
         cr_started_at = now, cr_finished_at = now\<rparr>
     | Inr (findings, truncated) \<Rightarrow> \<lparr>cr_id = 0, cr_public_id = pid,
         cr_status = (if findings \<noteq> [] then LedgerCheckDrift else LedgerCheckOK), cr_trigger = trigger,
         cr_triggered_by = by_whom, cr_findings = findings, cr_truncated = truncated, cr_error = None,
         cr_started_at = now, cr_finished_at = now\<rparr>))))"

section \<open>What a clean report means\<close>

definition journal_ok :: "'x ledger_scheme \<Rightarrow> journal \<Rightarrow> bool" where
  "journal_ok s j \<longleftrightarrow> (\<forall>c. journal_sum (jo_id j) c (postings s) = 0) \<and>
     2 \<le> length (filter (\<lambda>p. po_journal_id p = jo_id j) (postings s))"

definition account_ok :: "'x ledger_scheme \<Rightarrow> ledger_account \<Rightarrow> bool" where
  "account_ok s a \<longleftrightarrow> (\<exists>b. balance_of (la_id a) s = Some b \<and>
     ba_raw_balance b = acct_sum (la_id a) (postings s) \<and> ba_held b = active_sum (la_id a) (holds s) \<and>
     (la_allow_negative a \<or> ba_held b \<le> ba_raw_balance b * normal_sign (la_type a)))"

definition posting_ok :: "'x ledger_scheme \<Rightarrow> posting list \<Rightarrow> posting \<Rightarrow> bool" where
  "posting_ok s pre p \<longleftrightarrow> (case account_by_id (po_account_id p) s of
     None \<Rightarrow> True
   | Some a \<Rightarrow> po_balance_after p = acct_sum (po_account_id p) (pre @ [p]) \<and> po_currency p = la_currency a)"

definition books_ok :: "'x ledger_scheme \<Rightarrow> bool" where
  "books_ok s \<longleftrightarrow> (\<forall>j\<in>set (journals s). journal_ok s j) \<and> (\<forall>c. currency_sum c (postings s) = 0) \<and>
     (\<forall>a\<in>set (accounts s). account_ok s a) \<and>
     (\<forall>pre p post. postings s = pre @ p # post \<longrightarrow> posting_ok s pre p)"

lemma filter_Nil_iff: "filter P xs = [] \<longleftrightarrow> (\<forall>x\<in>set xs. \<not> P x)"
  by (induction xs) auto

lemma currency_used: "c \<notin> set (map po_currency (filter P ps)) \<Longrightarrow> sum_by leg (\<lambda>p. P p \<and> po_currency p = c) ps = 0"
  by (rule sum_by_none) auto

lemma all_on_support: "(\<And>c. c \<notin> S \<Longrightarrow> f c = (0 :: int)) \<Longrightarrow> (\<forall>c\<in>S. f c = 0) \<longleftrightarrow> (\<forall>c. f c = 0)"
  by blast

lemma q_journals_Nil:
  "q_journal_unbalanced s = [] \<and> q_too_few_postings s = [] \<longleftrightarrow> (\<forall>j\<in>set (journals s). journal_ok s j)"
proof -
  have "(\<forall>c\<in>set (journal_currencies i (postings s)). journal_sum i c (postings s) = 0) \<longleftrightarrow> (\<forall>c. journal_sum i c (postings s) = 0)" for i
    using currency_used [of _ "\<lambda>p. po_journal_id p = i" "postings s"]
    by (intro all_on_support) (simp add: journal_currencies_def journal_sum_def)
  then show ?thesis
    by (simp add: q_journal_unbalanced_def q_too_few_postings_def journal_ok_def filter_Nil_iff not_less) blast
qed

lemma q_ledger_Nil: "q_ledger_unbalanced s = [] \<longleftrightarrow> (\<forall>c. currency_sum c (postings s) = 0)"
proof -
  have "(\<forall>c\<in>set (map po_currency (postings s)). currency_sum c (postings s) = 0) \<longleftrightarrow> (\<forall>c. currency_sum c (postings s) = 0)"
    using currency_used [of _ "\<lambda>p. True" "postings s"] by (intro all_on_support) (simp add: currency_sum_def)
  then show ?thesis by (simp add: q_ledger_unbalanced_def filter_Nil_iff)
qed

lemma set_account_balances:
  "set (account_balances s) = {(a, b). a \<in> set (accounts s) \<and> balance_of (la_id a) s = Some b}"
  by (auto simp: account_balances_def split: option.splits)

lemma q_accounts_Nil:
  "q_balance_drift s = [] \<and> q_held_drift s = [] \<and> q_negative_balance s = [] \<and> q_missing_balance_row s = [] \<longleftrightarrow>
   (\<forall>a\<in>set (accounts s). account_ok s a)"
proof -
  have "q_balance_drift s = [] \<and> q_held_drift s = [] \<and> q_negative_balance s = [] \<longleftrightarrow>
    (\<forall>a\<in>set (accounts s). \<forall>b. balance_of (la_id a) s = Some b \<longrightarrow> ba_raw_balance b = acct_sum (la_id a) (postings s) \<and>
      ba_held b = active_sum (la_id a) (holds s) \<and> (la_allow_negative a \<or> ba_held b \<le> ba_raw_balance b * normal_sign (la_type a)))"
    by (simp add: q_balance_drift_def q_held_drift_def q_negative_balance_def filter_Nil_iff set_account_balances not_less) blast
  moreover have "q_missing_balance_row s = [] \<longleftrightarrow> (\<forall>a\<in>set (accounts s). \<exists>b. balance_of (la_id a) s = Some b)"
    by (simp add: q_missing_balance_row_def filter_Nil_iff)
  ultimately show ?thesis unfolding account_ok_def by (metis option.inject)
qed

lemma all_splits_Cons:
  "(\<forall>xs q ys. p # ps = xs @ q # ys \<longrightarrow> R xs q) \<longleftrightarrow> R [] p \<and> (\<forall>xs q ys. ps = xs @ q # ys \<longrightarrow> R (p # xs) q)"
proof (intro iffI conjI allI impI)
  fix xs q ys
  assume a: "R [] p \<and> (\<forall>xs q ys. ps = xs @ q # ys \<longrightarrow> R (p # xs) q)" "p # ps = xs @ q # ys"
  then show "R xs q" by (cases xs) auto
qed auto

lemma running_drift_Nil:
  "running_drift s pre ps = [] \<longleftrightarrow> (\<forall>xs p ys. ps = xs @ p # ys \<longrightarrow>
     (\<forall>a. account_by_id (po_account_id p) s = Some a \<longrightarrow> po_balance_after p = acct_sum (po_account_id p) (pre @ xs @ [p])))"
proof (induction ps arbitrary: pre)
  case Nil
  then show ?case by simp
next
  case (Cons p ps)
  let ?R = "\<lambda>pre xs p. \<forall>a. account_by_id (po_account_id p) s = Some a \<longrightarrow> po_balance_after p = acct_sum (po_account_id p) (pre @ xs @ [p])"
  have "running_drift s pre (p # ps) = [] \<longleftrightarrow> ?R pre [] p \<and> running_drift s (pre @ [p]) ps = []"
    by (auto split: option.splits)
  also have "running_drift s (pre @ [p]) ps = [] \<longleftrightarrow> (\<forall>xs q ys. ps = xs @ q # ys \<longrightarrow> ?R pre (p # xs) q)"
    unfolding Cons.IH by (simp only: append.assoc append_Cons append_Nil)
  finally show ?case unfolding all_splits_Cons [of p ps "?R pre"] .
qed

lemma q_postings_Nil:
  "q_running_balance_drift s = [] \<and> q_currency_mismatch s = [] \<longleftrightarrow>
   (\<forall>pre p post. postings s = pre @ p # post \<longrightarrow> posting_ok s pre p)"
proof -
  have "q_currency_mismatch s = [] \<longleftrightarrow> (\<forall>p\<in>set (postings s). \<forall>a. account_by_id (po_account_id p) s = Some a \<longrightarrow> po_currency p = la_currency a)"
    by (auto simp: q_currency_mismatch_def split: option.splits if_splits)
  also have "\<dots> \<longleftrightarrow> (\<forall>pre p post. postings s = pre @ p # post \<longrightarrow> (\<forall>a. account_by_id (po_account_id p) s = Some a \<longrightarrow> po_currency p = la_currency a))"
    by (metis in_set_conv_decomp)
  finally show ?thesis
    unfolding q_running_balance_drift_def running_drift_Nil posting_ok_def append_Nil
    by (fastforce split: option.splits)
qed

lemma queries_clean: "(\<forall>x\<in>set ledger_invariants. snd x s = []) \<longleftrightarrow> books_ok s"
  using q_journals_Nil [of s] q_ledger_Nil [of s] q_accounts_Nil [of s] q_postings_Nil [of s]
  by (simp add: ledger_invariants_def books_ok_def) blast

lemma check_invariant_Ok:
  "check_invariant (n, q) limit s = (Ok (found, mr), s') \<Longrightarrow>
   s' = s \<and> (found = [] \<and> \<not> mr \<longleftrightarrow> q s = []) \<and> length found \<le> limit \<and> mr = (limit < length (q s))"
  by (cases "q s") (auto simp: check_invariant_def bind_Ok_iff act_simps Let_def split: if_splits)

lemma check_invariant_clean: "q s = [] \<Longrightarrow> check_invariant (n, q) limit s = (Ok ([], False), s)"
  by (simp add: check_invariant_def bindM_def act_simps)

lemma check_invariant_reads: "check_invariant ivt limit s = (r, s') \<Longrightarrow> s' = s"
  by (cases ivt) (auto simp: check_invariant_def bindM_def act_simps Let_def split: if_splits)

lemma check_fold:
  "fold_m (check_step limit) ivs (acc, tr) s = (r, s') \<Longrightarrow>
    s' = s \<and> (r = Ok ([], False) \<longleftrightarrow> acc = [] \<and> \<not> tr \<and> (\<forall>x\<in>set ivs. snd x s = []))"
proof (induction ivs arbitrary: acc tr)
  case Nil
  then show ?case by (auto simp: act_simps)
next
  case (Cons ivt ivs)
  obtain o1 s1 where o1: "check_invariant ivt limit s = (o1, s1)" by fastforce
  have s1: "s1 = s" by (rule check_invariant_reads [OF o1])
  show ?case
  proof (cases o1)
    case (Ok fm)
    obtain found mr where fm: "fm = (found, mr)" by (cases fm)
    have "check_step limit ivt (acc, tr) s = (Ok (acc @ found, tr \<or> mr), s)"
      using o1 by (simp add: check_step_def bindM_def Ok fm s1 act_simps)
    then have "fold_m (check_step limit) ivs (acc @ found, tr \<or> mr) s = (r, s')"
      using Cons.prems by (simp add: bindM_def)
    from Cons.IH [OF this] show ?thesis
      using check_invariant_Ok [of "fst ivt" "snd ivt" limit s found mr s] o1 by (auto simp: Ok fm s1)
  next
    case (Err e)
    then have "snd ivt s \<noteq> []" using o1 check_invariant_clean [of "snd ivt" s "fst ivt" limit] by auto
    then show ?thesis using Cons.prems o1 by (auto simp: check_step_def bindM_def Err s1)
  next
    case Panicked
    then have "snd ivt s \<noteq> []" using o1 check_invariant_clean [of "snd ivt" s "fst ivt" limit] by auto
    then show ?thesis using Cons.prems o1 by (auto simp: check_step_def bindM_def Panicked s1)
  qed
qed

lemma rollback_self [simp]: "rollback s s = s"
  by (simp add: rollback_def)

lemma check_ledger_run:
  assumes "check_ledger_invariants c limit s = (r, s')"
  shows "s' = s \<and> (r = Ok ([], False) \<longleftrightarrow> books_ok s)"
proof -
  obtain r1 s1 where f: "fold_m (check_step limit) ledger_invariants ([], False) s = (r1, s1)" by fastforce
  have "s1 = s \<and> (r1 = Ok ([], False) \<longleftrightarrow> books_ok s)"
    using check_fold [OF f] queries_clean [of s] by simp
  then show ?thesis using assms f by (auto simp: check_ledger_invariants_def with_read_snapshot_def split: if_splits)
qed

lemma clean_report: "books_ok s \<Longrightarrow> check_ledger_invariants c limit s = (Ok ([], False), s)"
  by (cases "check_ledger_invariants c limit s") (auto dest: check_ledger_run)

text \<open>
  C29. The invariant checker is exact and changes nothing: for every ledger and every
  limit it reports no finding, untruncated, exactly when the books are right
  \<emdash> every journal has two legs and sums to zero in each currency, the whole
  ledger does, every account has a balance row equal to the sum of its
  postings, holding exactly its active holds and not overdrawn, and every
  posting carries the running balance in its account's currency.
\<close>

theorem checker_exact:
  "check_ledger_invariants c limit s = (Ok ([], False), s) \<longleftrightarrow> books_ok s"
proof -
  obtain r s' where r: "check_ledger_invariants c limit s = (r, s')" by fastforce
  then show ?thesis using check_ledger_run [OF r] by auto
qed

section \<open>The engine's invariant makes the books right\<close>

lemma sum_by_group:
  assumes "\<forall>p\<in>set ps. key p \<in> set ks" "distinct ks"
  shows "sum_by f P ps = sum_list (map (\<lambda>k. sum_by f (\<lambda>p. key p = k \<and> P p) ps) ks)"
  using assms(1)
proof (induction ps)
  case Nil
  then show ?case by (induction ks) auto
next
  case (Cons p ps)
  have one: "sum_list (map (\<lambda>k. if key p = k \<and> P p then f p else 0) ks) = (if P p \<and> key p \<in> set ks then f p else 0)"
    using assms(2) by (induction ks) auto
  show ?case using Cons one by (simp add: sum_list_addf)
qed

lemma volume_prefix: "\<forall>p\<in>set (ps @ qs). valid_leg p \<Longrightarrow> volume ps \<le> volume (ps @ qs)"
  using volume_nonneg [of qs] by simp

lemma ledger_inv_books:
  assumes inv: "ledger_inv s" and vol: "volume (postings s) < 2 ^ 63"
  shows "books_ok s"
proof -
  have core: "core_inv s" and held: "held_inv s" using inv by (auto simp: ledger_inv_def)
  have valid: "\<forall>p\<in>set (postings s). valid_leg p"
    using core by (auto simp: core_inv_def postings_inv_def posting_inv_def)
  have js: "journal_sum (jo_id j) c (postings s) = 0" if "j \<in> set (journals s)" for j c
  proof -
    have "wrap64 (journal_sum (jo_id j) c (postings s)) = 0"
      using core that by (simp add: core_inv_def journals_inv_def journal_inv_def)
    moreover have "\<bar>journal_sum (jo_id j) c (postings s)\<bar> < 2 ^ 63"
      using journal_sum_volume [OF valid] vol by (meson le_less_trans)
    ultimately show ?thesis by (simp add: wrap64_abs)
  qed
  have "journal_ok s j" if "j \<in> set (journals s)" for j
    using core js [OF that] that by (simp add: journal_ok_def core_inv_def journals_inv_def journal_inv_def)
  moreover have "currency_sum c (postings s) = 0" for c
  proof -
    have "distinct (map jo_id (journals s))" using core by (metis core_inv_def journals_inv_def distinct_serials)
    then have "currency_sum c (postings s) = sum_list (map (\<lambda>k. sum_by leg (\<lambda>p. po_journal_id p = k \<and> po_currency p = c) (postings s)) (map jo_id (journals s)))"
      unfolding currency_sum_def using core
      by (intro sum_by_group) (auto simp: core_inv_def postings_inv_def posting_inv_def)
    also have "\<dots> = sum_list (map (\<lambda>_. 0) (journals s))"
      unfolding map_map comp_def using js by (intro arg_cong [where f = sum_list] map_cong) (auto simp: journal_sum_def)
    also have "\<dots> = 0" by simp
    finally show ?thesis .
  qed
  moreover have "account_ok s a" if a: "a \<in> set (accounts s)" for a
  proof -
    have "la_id a \<in> ba_account_id ` set (balances s)"
      using core a by (metis core_inv_def accounts_inv_def image_eqI list.set_map)
    then obtain b where b: "balance_of (la_id a) s = Some b"
      unfolding balance_of_def by (metis find_row_None not_None_eq)
    then have bs: "b \<in> set (balances s)" "ba_account_id b = la_id a" by (auto simp: balance_of_def dest: find_row_Some)
    have raw: "ba_raw_balance b = acct_sum (la_id a) (postings s)"
      using core bs acct_sum_volume [OF valid, of "la_id a"] vol by (auto simp: core_inv_def balances_inv_def wrap64_abs)
    have "la_allow_negative a \<or> ba_held b \<le> ba_raw_balance b * normal_sign (la_type a)"
      using core a bs vol by (auto simp: core_inv_def overdraft_inv_def restricted_ok_def raw)
    then show ?thesis using b bs raw held by (auto simp: account_ok_def held_inv_def)
  qed
  moreover have "posting_ok s pre p" if ps: "postings s = pre @ p # post" for pre p post
  proof -
    have "running_from [] (pre @ p # post)" using core ps by (simp add: core_inv_def postings_inv_def)
    then have bal: "po_balance_after p = wrap64 (acct_sum (po_account_id p) (pre @ [p]))"
      by (simp add: running_from_append)
    have v: "\<forall>q\<in>set (pre @ [p]). valid_leg q" using valid ps by auto
    have "\<bar>acct_sum (po_account_id p) (pre @ [p])\<bar> < 2 ^ 63"
      using acct_sum_volume [OF v, of "po_account_id p"] volume_prefix [of "pre @ [p]" post] valid vol ps by auto
    then have exact: "po_balance_after p = acct_sum (po_account_id p) (pre @ [p])" using bal by (simp only: wrap64_abs)
    have "po_currency p = la_currency a" if a: "account_by_id (po_account_id p) s = Some a" for a
    proof -
      have "posting_inv s p" using core ps by (simp add: core_inv_def postings_inv_def)
      then obtain a' where "a' \<in> set (accounts s)" "la_id a' = po_account_id p" "la_currency a' = po_currency p"
        by (auto simp: posting_inv_def)
      then show ?thesis using account_unique [OF core, of a' a] a by (auto simp: account_by_id_def dest: find_row_Some)
    qed
    then show ?thesis using exact by (simp add: posting_ok_def split: option.splits)
  qed
  ultimately show ?thesis by (simp add: books_ok_def)
qed

end
