(* ===== verification/Chart.thy ===== *)
theory Chart
  imports LedgerCheck
begin

text \<open>
  The chart of accounts (\<open>internal/ledger/chart.go\<close>): the account codes, the
  accounts of the platform and of a product, and the functions that create
  what is missing. \<open>EnsureChart\<close> pages through the products; its loop runs on a
  fuel of one more than the number of products, and \<open>ensure_products_fuel\<close>
  shows that any larger fuel gives the same result. On an error the count of
  accounts created so far, which the code returns beside it, is left out.
\<close>

section \<open>Codes\<close>

definition chart_currency :: string where "chart_currency = ''INR''"

definition platform_psp_fees :: string where "platform_psp_fees = ''expense:psp_fees''"

definition gst_payable :: string where "gst_payable = ''liability:gst_payable''"

definition input_tax_credit :: string where "input_tax_credit = ''asset:input_tax_credit''"

definition opening_balance :: string where "opening_balance = ''equity:opening_balance''"

definition recon_writeoffs :: string where "recon_writeoffs = ''expense:reconciliation_writeoffs''"

definition payouts_in_transit :: string where "payouts_in_transit = ''liability:payouts_in_transit''"

definition psp_receivable :: "string \<Rightarrow> string" where
  "psp_receivable provider = ''psp:'' @ provider @ '':receivable''"

definition psp_suspense :: "string \<Rightarrow> string" where
  "psp_suspense provider = ''psp:'' @ provider @ '':suspense''"

definition bank_account :: "string \<Rightarrow> string" where
  "bank_account bank = ''bank:'' @ bank @ '':current''"

definition product_sales :: "string \<Rightarrow> string" where
  "product_sales product = ''income:'' @ product @ '':product_sales''"

definition product_fee_recovery :: "string \<Rightarrow> string" where
  "product_fee_recovery product = ''income:'' @ product @ '':fee_recovery''"

definition product_breakage :: "string \<Rightarrow> string" where
  "product_breakage product = ''income:'' @ product @ '':breakage''"

definition product_discounts :: "string \<Rightarrow> string" where
  "product_discounts product = ''expense:'' @ product @ '':discounts''"

definition product_promotions :: "string \<Rightarrow> string" where
  "product_promotions product = ''expense:'' @ product @ '':promotions''"

definition product_psp_fees :: "string \<Rightarrow> string" where
  "product_psp_fees product = ''expense:'' @ product @ '':psp_fees''"

definition product_adjustments :: "string \<Rightarrow> string" where
  "product_adjustments product = ''expense:'' @ product @ '':adjustments''"

definition product_disputed :: "string \<Rightarrow> string" where
  "product_disputed product = ''liability:'' @ product @ '':disputed''"

definition product_chargebacks :: "string \<Rightarrow> string" where
  "product_chargebacks product = ''expense:'' @ product @ '':chargebacks''"

definition product_refunds_payable :: "string \<Rightarrow> string" where
  "product_refunds_payable product = ''liability:'' @ product @ '':refunds_payable''"

definition platform_scope :: string where "platform_scope = ''platform''"

definition wallet_account :: "string \<Rightarrow> string \<Rightarrow> string \<Rightarrow> string" where
  "wallet_account customer product wtype = ''wallet:'' @ customer @ '':'' @ product @ '':'' @ wtype"

section \<open>The accounts\<close>

record chart_config =
  cc_providers :: "string list"
  cc_banks :: "string list"

definition chart_account :: "string \<Rightarrow> account_type \<Rightarrow> owner_kind \<Rightarrow> string option \<Rightarrow> int option \<Rightarrow>
    ('x env_scheme, ledger_account) action" where
  "chart_account code t owner owner_id product_id = bindM (new_id LedgerAccountId) (\<lambda>pid. returnM
     \<lparr>la_id = 0, la_public_id = pid, la_code = code, la_product_id = product_id, la_type = t,
      la_currency = chart_currency, la_owner_kind = owner, la_owner_id = owner_id,
      la_allow_negative = True, la_status = AccountActive, la_created_at = 0, la_updated_at = 0\<rparr>)"

text \<open>The arguments of the \<open>chartAccount\<close> calls, in the order of the calls.\<close>

definition platform_chart_specs :: "chart_config \<Rightarrow> (string \<times> account_type \<times> owner_kind \<times> string option) list" where
  "platform_chart_specs cfg =
     [(platform_psp_fees, AccountExpense, OwnerPlatform, None),
      (gst_payable, AccountLiability, OwnerPlatform, None),
      (input_tax_credit, AccountAsset, OwnerPlatform, None),
      (opening_balance, AccountEquity, OwnerPlatform, None),
      (recon_writeoffs, AccountExpense, OwnerPlatform, None),
      (payouts_in_transit, AccountLiability, OwnerPlatform, None)]
     @ concat (map (\<lambda>provider.
         [(psp_receivable provider, AccountAsset, OwnerProvider, Some provider),
          (psp_suspense provider, AccountAsset, OwnerProvider, Some provider)]) (cc_providers cfg))
     @ map (\<lambda>bank. (bank_account bank, AccountAsset, OwnerPlatform, None)) (cc_banks cfg)"

definition platform_chart :: "chart_config \<Rightarrow> ('x env_scheme, ledger_account list) action" where
  "platform_chart cfg = map_m (\<lambda>(code, t, owner, owner_id). chart_account code t owner owner_id None) (platform_chart_specs cfg)"

definition product_chart_specs :: "string \<Rightarrow> (string \<times> account_type) list" where
  "product_chart_specs code =
     [(product_sales code, AccountIncome),
      (product_fee_recovery code, AccountIncome),
      (product_breakage code, AccountIncome),
      (product_discounts code, AccountExpense),
      (product_promotions code, AccountExpense),
      (product_psp_fees code, AccountExpense),
      (product_refunds_payable code, AccountLiability),
      (product_adjustments code, AccountExpense),
      (product_disputed code, AccountLiability),
      (product_chargebacks code, AccountExpense)]"

definition product_chart :: "product \<Rightarrow> ('x env_scheme, ledger_account list) action" where
  "product_chart p = map_m (\<lambda>(code, t). chart_account code t OwnerMerchant (Some (pr_public_id p)) (Some (pr_id p)))
     (product_chart_specs (pr_code p))"

section \<open>Creating what is missing\<close>

definition same_product :: "int option \<Rightarrow> int option \<Rightarrow> bool" where
  "same_product a b = (case (a, b) of
     (Some x, Some y) \<Rightarrow> x = y
   | (None, None) \<Rightarrow> True
   | _ \<Rightarrow> False)"

definition ensure_account :: "ctx \<Rightarrow> ledger_account \<Rightarrow> nat \<Rightarrow> ('x ledger_scheme, nat) action" where
  "ensure_account c want created = bindM (get_or_create_ledger_account c want) (\<lambda>(got, is_new).
     if is_new then returnM (Suc created)
     else if la_type got \<noteq> la_type want \<or> la_currency got \<noteq> la_currency want
         \<or> \<not> same_product (la_product_id got) (la_product_id want) then failM FailedPrecondition
     else returnM created)"

definition ensure_accounts :: "ctx \<Rightarrow> ledger_account list \<Rightarrow> ('x ledger_scheme, nat) action" where
  "ensure_accounts c wanted = fold_m (ensure_account c) wanted 0"

text \<open>\<open>ListProducts\<close> with the whole-estate scope: newest first, one page.\<close>

definition products_page :: "nat \<Rightarrow> nat \<Rightarrow> 'x ledger_scheme \<Rightarrow> product list" where
  "products_page limit offset s = take limit (drop offset (rev (products s)))"

definition chart_page :: nat where "chart_page = 100"

definition ensure_product :: "ctx \<Rightarrow> product \<Rightarrow> nat \<Rightarrow> ('x ledger_scheme, nat) action" where
  "ensure_product c p created = bindM (product_chart p) (\<lambda>wanted.
     bindM (ensure_accounts c wanted) (\<lambda>n. returnM (created + n)))"

fun ensure_products :: "nat \<Rightarrow> ctx \<Rightarrow> nat \<Rightarrow> nat \<Rightarrow> ('x ledger_scheme, nat) action" where
  "ensure_products 0 c offset created = panicM"
| "ensure_products (Suc fuel) c offset created =
     bindM (getM (products_page chart_page offset)) (\<lambda>page.
     bindM (fold_m (ensure_product c) page created) (\<lambda>created'.
     if length page < chart_page then returnM created'
     else ensure_products fuel c (offset + length page) created'))"

definition ensure_chart :: "ctx \<Rightarrow> chart_config \<Rightarrow> ('x ledger_scheme, nat) action" where
  "ensure_chart c cfg =
     bindM (platform_chart cfg) (\<lambda>wanted.
     bindM (ensure_accounts c wanted) (\<lambda>created.
     bindM (getM (\<lambda>s. Suc (length (products s)))) (\<lambda>fuel.
     ensure_products fuel c 0 created)))"

section \<open>Lemmas\<close>

lemma safep_new_id [keeps]: "env_free I \<Longrightarrow> safep I (new_id p)"
  by (auto simp: safep_def new_id_def env_free_uuid)

lemma okp_new_id [keeps]: "env_free I \<Longrightarrow> okp I (new_id p)"
  by (rule safep_okp [OF safep_new_id])

lemma insert_account_cases:
  assumes "insert_ledger_account c a s = (r, s')"
  obtains (conflict) "account_by_code (la_code a) s \<noteq> None" "r = Ok (a, False)" "s' = s"
    | (no_product) "r = Err (app_err NotFound)" "s' = s"
    | (created) row where "account_by_code (la_code a) s = None"
      "row = a\<lparr>la_id := next_id (accounts s), la_created_at := clock s, la_updated_at := clock s\<rparr>"
      "r = Ok (row, True)" "product_exists (la_product_id a) s"
      "s' = s\<lparr>accounts := accounts s @ [row], balances := balances s @ [new_balance (next_id (accounts s)) (clock s)]\<rparr>"
proof -
  let ?row = "a\<lparr>la_id := next_id (accounts s), la_created_at := clock s, la_updated_at := clock s\<rparr>"
  consider "account_by_code (la_code a) s \<noteq> None" | "account_by_code (la_code a) s = None" "\<not> product_exists (la_product_id a) s"
    | "account_by_code (la_code a) s = None" "product_exists (la_product_id a) s" by blast
  then show ?thesis
  proof cases
    case 1
    then show ?thesis using assms
      by (intro conflict) (auto simp: insert_ledger_account_def with_tx_def bindM_def act_simps split: if_splits)
  next
    case 2
    then show ?thesis using assms
      by (intro no_product) (auto simp: insert_ledger_account_def with_tx_def bindM_def act_simps split: if_splits)
  next
    case 3
    then show ?thesis using assms
      by (intro created [of ?row]) (auto simp: insert_ledger_account_def with_tx_def bindM_def act_simps split: if_splits)
  qed
qed

lemma safep_insert_ledger_account [keeps]: "safep ledger_inv (insert_ledger_account c a)"
proof (rule safepI)
  fix s r s'
  assume inv: "ledger_inv s" and run: "insert_ledger_account c a s = (r, s')"
  from run show "ledger_inv s'"
  proof (cases rule: insert_account_cases)
    case (created row)
    then show ?thesis using okpD [OF okp_insert_ledger_account inv] run by blast
  qed (use inv in simp_all)
qed

lemma safep_get_or_create [keeps]: "safep ledger_inv (get_or_create_ledger_account c a)"
  unfolding get_or_create_ledger_account_def by (intro keeps)

lemma safep_ensure_accounts [keeps]: "safep ledger_inv (ensure_accounts c wanted)"
  unfolding ensure_accounts_def ensure_account_def by (intro keeps)

lemma safep_chart_account [keeps]: "env_free I \<Longrightarrow> safep I (chart_account code t w wid pid)"
  unfolding chart_account_def by (intro keeps)

lemma safep_product_chart [keeps]: "env_free I \<Longrightarrow> safep I (product_chart p)"
  unfolding product_chart_def by (intro keeps)

lemma safep_platform_chart [keeps]: "env_free I \<Longrightarrow> safep I (platform_chart cfg)"
  unfolding platform_chart_def by (intro keeps)

lemma safep_ensure_product [keeps]: "safep ledger_inv (ensure_product c p n)"
  unfolding ensure_product_def by (intro keeps env_free_ledger_inv)

lemma safep_ensure_products [keeps]: "safep ledger_inv (ensure_products fuel c offset n)"
  by (induction fuel arbitrary: offset n) (auto intro!: keeps)

lemma safep_ensure_chart [keeps]: "safep ledger_inv (ensure_chart c cfg)"
  unfolding ensure_chart_def by (intro keeps env_free_ledger_inv)

text \<open>Rows are only added.\<close>

definition accounts_from :: "ledger_account list \<Rightarrow> product list \<Rightarrow> 'x ledger_scheme \<Rightarrow> bool" where
  "accounts_from as ps s \<longleftrightarrow> (\<exists>bs. accounts s = as @ bs) \<and> products s = ps"

lemma env_free_accounts_from [simp]: "env_free (accounts_from as ps)"
  by (simp add: env_free_def rollback_def accounts_from_def)

lemma accounts_from_refl: "accounts_from (accounts s) (products s) s"
  by (simp add: accounts_from_def)

lemma safep_from_insert [keeps]: "safep (accounts_from as ps) (insert_ledger_account c a)"
proof (rule safepI)
  fix s r s'
  assume "accounts_from as ps s" "insert_ledger_account c a s = (r, s')"
  from this(2,1) show "accounts_from as ps s'"
    by (cases rule: insert_account_cases) (auto simp: accounts_from_def)
qed

lemma safep_from_ensure [keeps]: "safep (accounts_from as ps) (ensure_account c a n)"
  unfolding ensure_account_def get_or_create_ledger_account_def by (intro keeps)

lemma safep_from_ensure_product [keeps]: "safep (accounts_from as ps) (ensure_product c p n)"
  unfolding ensure_product_def ensure_accounts_def by (intro keeps env_free_accounts_from)

lemma account_by_code_stays:
  "account_by_code code s = Some a \<Longrightarrow> accounts_from (accounts s) ps s' \<Longrightarrow> account_by_code code s' = Some a"
  by (auto simp: account_by_code_def accounts_from_def find_row_append)

text \<open>The account under a code is of the kind the chart says.\<close>

definition charted :: "'x ledger_scheme \<Rightarrow> string \<Rightarrow> account_type \<Rightarrow> int option \<Rightarrow> bool" where
  "charted s code t pid \<longleftrightarrow> (\<exists>a. account_by_code code s = Some a \<and> la_type a = t \<and> la_currency a = chart_currency \<and> la_product_id a = pid)"

lemma charted_stays: "charted s code t pid \<Longrightarrow> accounts_from (accounts s) ps s' \<Longrightarrow> charted s' code t pid"
  unfolding charted_def using account_by_code_stays by blast

lemma same_product_iff: "same_product a b \<longleftrightarrow> a = b"
  by (cases a; cases b) (simp_all add: same_product_def)

lemma ensure_account_Ok:
  assumes "ensure_account c want n s = (Ok m, s')" "la_currency want = chart_currency"
  shows "charted s' (la_code want) (la_type want) (la_product_id want) \<and> accounts_from (accounts s) (products s) s' \<and>
    (m = n \<and> s' = s \<or> m = Suc n)"
proof -
  have from_s: "accounts_from (accounts s) (products s) s'"
    by (rule safepD [OF safep_from_ensure accounts_from_refl assms(1)])
  obtain row is_new s1 where ins: "insert_ledger_account c want s = (Ok (row, is_new), s1)"
    using assms(1) by (auto simp: ensure_account_def get_or_create_ledger_account_def bind_Ok_iff act_simps split: if_splits)
  from ins show ?thesis
  proof (cases rule: insert_account_cases)
    case conflict
    then obtain a where a: "account_by_code (la_code want) s = Some a" by blast
    have "s' = s" "m = n" "la_type a = la_type want" "la_currency a = la_currency want" "la_product_id a = la_product_id want"
      using assms(1) ins conflict a
      by (auto simp: ensure_account_def get_or_create_ledger_account_def get_ledger_account_by_code_def some_or_def
          bind_Ok_iff act_simps same_product_iff split: if_splits)
    then show ?thesis using a assms(2) from_s by (auto simp: charted_def)
  next
    case (created row)
    have s': "s' = s1" "m = Suc n"
      using assms(1) ins created by (auto simp: ensure_account_def get_or_create_ledger_account_def bind_Ok_iff act_simps split: if_splits)
    have "account_by_code (la_code want) s' = Some row"
      using created by (simp add: s' account_by_code_def find_row_append)
    then show ?thesis using created(2) assms(2) from_s s'(2) by (auto simp: charted_def)
  qed auto
qed

lemma accounts_from_trans:
  "accounts_from (accounts s) (products s) s1 \<Longrightarrow> accounts_from (accounts s1) (products s1) s2 \<Longrightarrow> accounts_from (accounts s) (products s) s2"
  by (auto simp: accounts_from_def)

lemma ensure_all_Ok:
  "fold_m (ensure_account c) wanted n s = (Ok m, s') \<Longrightarrow> \<forall>w\<in>set wanted. la_currency w = chart_currency \<Longrightarrow>
   accounts_from (accounts s) (products s) s' \<and> (\<forall>w\<in>set wanted. charted s' (la_code w) (la_type w) (la_product_id w))"
proof (induction wanted arbitrary: n s)
  case Nil
  then show ?case by (simp add: act_simps accounts_from_def)
next
  case (Cons w ws)
  obtain k s1 where step: "ensure_account c w n s = (Ok k, s1)" and rest: "fold_m (ensure_account c) ws k s1 = (Ok m, s')"
    using Cons.prems(1) by (auto simp: bind_Ok_iff)
  have w: "charted s1 (la_code w) (la_type w) (la_product_id w)" "accounts_from (accounts s) (products s) s1"
    using ensure_account_Ok [OF step] Cons.prems(2) by simp_all
  have ws: "accounts_from (accounts s1) (products s1) s'" "\<forall>w\<in>set ws. charted s' (la_code w) (la_type w) (la_product_id w)"
    using Cons.IH [OF rest] Cons.prems(2) by simp_all
  show ?case using w(2) ws charted_stays [OF w(1) ws(1)] accounts_from_trans by auto
qed

lemma chart_account_run:
  "chart_account code t w wid pid s = (Ok (\<lparr>la_id = 0, la_public_id = make_id LedgerAccountId (uuid_gen s (uuid_next s)), la_code = code,
     la_product_id = pid, la_type = t, la_currency = chart_currency, la_owner_kind = w, la_owner_id = wid,
     la_allow_negative = True, la_status = AccountActive, la_created_at = 0, la_updated_at = 0\<rparr>), s\<lparr>uuid_next := Suc (uuid_next s)\<rparr>)"
  by (simp add: chart_account_def bindM_def new_id_def act_simps)

lemma product_chart_Ok:
  assumes "product_chart p s = (Ok wanted, s')"
  shows "map (\<lambda>w. (la_code w, la_type w)) wanted = product_chart_specs (pr_code p) \<and>
    (\<forall>w\<in>set wanted. la_currency w = chart_currency \<and> la_product_id w = Some (pr_id p)) \<and>
    accounts s' = accounts s \<and> products s' = products (s :: 'x ledger_scheme)"
proof -
  have "map_m (\<lambda>(code, t). chart_account code t OwnerMerchant (Some x) (Some i)) specs (s :: 'x ledger_scheme) = (Ok wanted, s') \<Longrightarrow>
    map (\<lambda>w. (la_code w, la_type w)) wanted = specs \<and>
    (\<forall>w\<in>set wanted. la_currency w = chart_currency \<and> la_product_id w = Some i) \<and> accounts s' = accounts s \<and> products s' = products s" for x i specs s wanted
    by (induction specs arbitrary: s wanted) (fastforce simp: bind_Ok_iff act_simps chart_account_run)+
  then show ?thesis using assms by (simp add: product_chart_def)
qed

lemma platform_chart_Ok:
  assumes "platform_chart cfg s = (Ok wanted, s')"
  shows "map (\<lambda>w. (la_code w, la_type w)) wanted = map (\<lambda>(code, t, _). (code, t)) (platform_chart_specs cfg) \<and>
    (\<forall>w\<in>set wanted. la_currency w = chart_currency \<and> la_product_id w = None) \<and>
    accounts s' = accounts s \<and> products s' = products (s :: 'x ledger_scheme)"
proof -
  have "map_m (\<lambda>(code, t, w, wid). chart_account code t w wid None) specs (s :: 'x ledger_scheme) = (Ok wanted, s') \<Longrightarrow>
    map (\<lambda>w. (la_code w, la_type w)) wanted = map (\<lambda>(code, t, _). (code, t)) specs \<and>
    (\<forall>w\<in>set wanted. la_currency w = chart_currency \<and> la_product_id w = None) \<and> accounts s' = accounts s \<and> products s' = products s" for specs s wanted
    by (induction specs arbitrary: s wanted) (fastforce simp: bind_Ok_iff act_simps chart_account_run)+
  then show ?thesis using assms by (simp add: platform_chart_def)
qed

text \<open>A product has its chart.\<close>

definition product_charted :: "'x ledger_scheme \<Rightarrow> product \<Rightarrow> bool" where
  "product_charted s p \<longleftrightarrow> (\<forall>(code, t)\<in>set (product_chart_specs (pr_code p)). charted s code t (Some (pr_id p)))"

lemma product_charted_stays: "product_charted s p \<Longrightarrow> accounts_from (accounts s) ps s' \<Longrightarrow> product_charted s' p"
  unfolding product_charted_def using charted_stays by blast

lemma ensure_product_Ok:
  assumes "ensure_product c p n s = (Ok m, s')"
  shows "product_charted s' p \<and> accounts_from (accounts s) (products s) s'"
proof -
  obtain wanted s1 k where pc: "product_chart p s = (Ok wanted, s1)" and en: "fold_m (ensure_account c) wanted 0 s1 = (Ok k, s')"
    using assms by (auto simp: ensure_product_def ensure_accounts_def bind_Ok_iff act_simps)
  note w = product_chart_Ok [OF pc]
  have e: "accounts_from (accounts s1) (products s1) s'" "\<forall>w\<in>set wanted. charted s' (la_code w) (la_type w) (la_product_id w)"
    using ensure_all_Ok [OF en] w by simp_all
  have "charted s' code t (Some (pr_id p))" if "(code, t) \<in> set (product_chart_specs (pr_code p))" for code t
  proof -
    have "(code, t) \<in> set (map (\<lambda>w. (la_code w, la_type w)) wanted)" using that w by metis
    then obtain x where "x \<in> set wanted" "code = la_code x" "t = la_type x" by auto
    then show ?thesis using e(2) w by metis
  qed
  then show ?thesis using e(1) w by (auto simp: product_charted_def)
qed

lemma ensure_page_Ok:
  "fold_m (ensure_product c) page n s = (Ok m, s') \<Longrightarrow>
   accounts_from (accounts s) (products s) s' \<and> (\<forall>p\<in>set page. product_charted s' p)"
proof (induction page arbitrary: n s)
  case Nil
  then show ?case by (simp add: act_simps accounts_from_def)
next
  case (Cons p ps)
  obtain k s1 where step: "ensure_product c p n s = (Ok k, s1)" and rest: "fold_m (ensure_product c) ps k s1 = (Ok m, s')"
    using Cons.prems by (auto simp: bind_Ok_iff)
  have p: "product_charted s1 p" "accounts_from (accounts s) (products s) s1" using ensure_product_Ok [OF step] by simp_all
  have ps: "accounts_from (accounts s1) (products s1) s'" "\<forall>p\<in>set ps. product_charted s' p" using Cons.IH [OF rest] by simp_all
  show ?case using p(2) ps product_charted_stays [OF p(1) ps(1)] accounts_from_trans by auto
qed

text \<open>The paging loop visits every product from the offset on, whatever fuel it returns with.\<close>

lemma ensure_products_Ok:
  "ensure_products fuel c offset n s = (Ok m, s') \<Longrightarrow>
   accounts_from (accounts s) (products s) s' \<and> (\<forall>p\<in>set (drop offset (rev (products s))). product_charted s' p)"
proof (induction fuel arbitrary: offset n s)
  case 0
  then show ?case by (simp add: act_simps)
next
  case (Suc fuel)
  let ?page = "products_page chart_page offset s"
  obtain k s1 where page: "fold_m (ensure_product c) ?page n s = (Ok k, s1)"
    and rest: "(if length ?page < chart_page then returnM k else ensure_products fuel c (offset + length ?page) k) s1 = (Ok m, s')"
    using Suc.prems by (auto simp: bind_Ok_iff act_simps)
  have p: "accounts_from (accounts s) (products s) s1" "\<forall>p\<in>set ?page. product_charted s1 p" using ensure_page_Ok [OF page] by simp_all
  show ?case
  proof (cases "length ?page < chart_page")
    case True
    then have "?page = drop offset (rev (products s))" by (auto simp: products_page_def)
    then show ?thesis using True rest p by (auto simp: act_simps)
  next
    case False
    then have len: "length ?page = chart_page" by (simp add: products_page_def)
    have r: "accounts_from (accounts s1) (products s1) s'" "\<forall>p\<in>set (drop (offset + chart_page) (rev (products s1))). product_charted s' p"
      using Suc.IH rest False len by auto
    have "products s1 = products s" using p(1) by (simp add: accounts_from_def)
    moreover have "drop offset (rev (products s)) = ?page @ drop (offset + chart_page) (rev (products s))"
      by (simp add: products_page_def add.commute flip: drop_drop)
    ultimately show ?thesis
      using p r product_charted_stays [OF _ r(1)] accounts_from_trans [OF p(1) r(1)] by auto
  qed
qed

text \<open>More fuel changes nothing: the loop ends before it runs out.\<close>

lemma ensure_products_fuel:
  "offset \<le> length (products s) \<Longrightarrow> length (products s) < chart_page * fuel + offset \<Longrightarrow>
   ensure_products (fuel + extra) c offset n s = ensure_products fuel c offset n s"
proof (induction fuel arbitrary: offset n s)
  case 0
  then show ?case by simp
next
  case (Suc fuel)
  let ?page = "products_page chart_page offset s"
  obtain r s1 where page: "fold_m (ensure_product c) ?page n s = (r, s1)" by fastforce
  have "products s1 = products s" if "r = Ok k" for k
    using ensure_page_Ok [of c ?page n s k s1] page that by (simp add: accounts_from_def)
  moreover have "offset + length ?page \<le> length (products s)" using Suc.prems(1) by (auto simp: products_page_def min_def)
  moreover have "length (products s) < chart_page * fuel + (offset + length ?page)" if "\<not> length ?page < chart_page"
    using Suc.prems(2) that by (simp add: products_page_def)
  ultimately show ?case
    using page Suc.IH [of "offset + length ?page" s1]
    by (cases r) (auto simp: bindM_def act_simps)
qed

text \<open>
  C30. \<open>EnsureChart\<close> establishes the chart: when it returns, every platform account and every
  account of every registered product exists under its code with the type,
  currency and product the chart gives it, no account that existed was changed
  or removed, and the ledger's invariant still holds.
\<close>

theorem ensure_chart_complete:
  assumes "ensure_chart c cfg s = (Ok n, s')"
  shows "(\<forall>(code, t, _)\<in>set (platform_chart_specs cfg). charted s' code t None) \<and>
    (\<forall>p\<in>set (products s). product_charted s' p) \<and>
    (\<exists>new. accounts s' = accounts s @ new) \<and> (ledger_inv s \<longrightarrow> ledger_inv s')"
proof -
  obtain wanted s1 k s2 where pc: "platform_chart cfg s = (Ok wanted, s1)" and en: "fold_m (ensure_account c) wanted 0 s1 = (Ok k, s2)"
    and pr: "ensure_products (Suc (length (products s2))) c 0 k s2 = (Ok n, s')"
    using assms by (auto simp: ensure_chart_def ensure_accounts_def bind_Ok_iff act_simps)
  note w = platform_chart_Ok [OF pc]
  have e: "accounts_from (accounts s1) (products s1) s2" "\<forall>w\<in>set wanted. charted s2 (la_code w) (la_type w) (la_product_id w)"
    using ensure_all_Ok [OF en] w by simp_all
  have r: "accounts_from (accounts s2) (products s2) s'" "\<forall>p\<in>set (products s2). product_charted s' p"
    using ensure_products_Ok [OF pr] by simp_all
  have "charted s' code t None" if "(code, t, x) \<in> set (platform_chart_specs cfg)" for code t x
  proof -
    have "(code, t) \<in> set (map (\<lambda>(code, t, _). (code, t)) (platform_chart_specs cfg))" using that by force
    then have "(code, t) \<in> set (map (\<lambda>w. (la_code w, la_type w)) wanted)" using w by metis
    then obtain y where "y \<in> set wanted" "code = la_code y" "t = la_type y" by auto
    then show ?thesis using e(2) w charted_stays [OF _ r(1)] by metis
  qed
  moreover have "accounts_from (accounts s) (products s) s'" using accounts_from_trans [OF e(1) r(1)] w by simp
  moreover have "products s2 = products s" using e(1) w by (simp add: accounts_from_def)
  moreover have "ledger_inv s \<Longrightarrow> ledger_inv s'" by (rule safepD [OF safep_ensure_chart _ assms])
  ultimately show ?thesis using r(2) by (auto simp: accounts_from_def)
qed

definition demo_product :: product where
  "demo_product = \<lparr>pr_id = 1, pr_public_id = ''prd_1'', pr_code = ''shop'', pr_name = ''Shop'', pr_status = ProductActive,
     pr_default_currency = ''INR'', pr_refund_destination = ''source''\<rparr>"

definition demo_unregistered :: ledger where
  "demo_unregistered = \<lparr>clock = 1000, uuid_gen = (\<lambda>n. replicate n (CHR ''a'') @ ''b''), uuid_next = 0, calls = [],
     products = [demo_product], accounts = [], journals = [], postings = [], balances = [], holds = [], check_runs = []\<rparr>"

lemma ensure_chart_complete_witness:
  "product_charted (snd (ensure_chart \<lparr>in_tx = False\<rparr> \<lparr>cc_providers = [''fake''], cc_banks = []\<rparr> demo_unregistered)) demo_product"
proof -
  let ?m = "ensure_chart \<lparr>in_tx = False\<rparr> \<lparr>cc_providers = [''fake''], cc_banks = []\<rparr>"
  have "is_ok (fst (?m demo_unregistered))" by code_simp
  from ensure_chart_complete [OF is_ok_run [of ?m, OF this]]
  show ?thesis by (simp add: demo_unregistered_def)
qed

section \<open>Codes are unambiguous\<close>

lemma append_sep_inj: "x \<notin> set a \<Longrightarrow> x \<notin> set b \<Longrightarrow> a @ x # c = b @ x # d \<longleftrightarrow> a = b \<and> c = d"
proof (induction a arbitrary: b)
  case Nil
  then show ?case by (cases b) auto
next
  case (Cons y ys)
  then show ?case by (cases b) auto
qed

text \<open>
  A wallet's account code names its customer, product and type: while customer and
  product contain no colon, two wallets share a code only if they agree in all three.
\<close>

theorem wallet_account_unambiguous:
  assumes "CHR '':'' \<notin> set c" "CHR '':'' \<notin> set c'" "CHR '':'' \<notin> set p" "CHR '':'' \<notin> set p'"
  shows "wallet_account c p t = wallet_account c' p' t' \<longleftrightarrow> c = c' \<and> p = p' \<and> t = t'"
  using append_sep_inj [OF assms(1,2)] append_sep_inj [OF assms(3,4)] by (simp add: wallet_account_def)

lemma wallet_account_unambiguous_witness:
  "wallet_account ''cus_1'' ''zshala'' ''MAIN'' \<noteq> wallet_account ''cus_1'' ''platform'' ''MAIN''"
  using wallet_account_unambiguous [of "''cus_1''" "''cus_1''" "''zshala''" "''platform''" "''MAIN''" "''MAIN''"] by simp

lemma product_chart_distinct: "distinct (map fst (product_chart_specs code))"
  by (simp add: product_chart_specs_def product_sales_def product_fee_recovery_def product_breakage_def
      product_discounts_def product_promotions_def product_psp_fees_def product_refunds_payable_def
      product_adjustments_def product_disputed_def product_chargebacks_def)

end
