(* ===== verification/LedgerSafety.thy ===== *)
theory LedgerSafety
  imports Chart
begin

text \<open>
  What the ledger promises its clients.

  \<open>ledger_step\<close> is one committed change of the ledger tables; the reachable
  ledgers are those some sequence of steps leads to from empty tables. Every
  reachable ledger satisfies the invariant, the checker reports nothing on
  it, and nothing that was posted or resolved is ever changed.

  The locale \<open>ledger_ops\<close> is the interface the engines above the ledger rely on: a
  predicate that every ledger operation keeps. \<open>ledger_keeper\<close> are the predicates
  of the ledger tables alone, interpreted with the invariant and with
  \<open>extends\<close>, the append-only property; \<open>ledger_blind\<close> those of other tables.
\<close>

section \<open>Predicates of the ledger tables\<close>

definition same_ledger :: "'x ledger_scheme \<Rightarrow> 'x ledger_scheme \<Rightarrow> bool" where
  "same_ledger s t \<longleftrightarrow> products s = products t \<and> accounts s = accounts t \<and> journals s = journals t \<and>
     postings s = postings t \<and> balances s = balances t \<and> holds s = holds t"

definition ledger_only :: "('x ledger_scheme \<Rightarrow> bool) \<Rightarrow> bool" where
  "ledger_only I \<longleftrightarrow> (\<forall>s t. same_ledger s t \<longrightarrow> I s = I t)"

lemma ledger_onlyD: "ledger_only I \<Longrightarrow> same_ledger s t \<Longrightarrow> I s \<Longrightarrow> I t"
  by (auto simp: ledger_only_def)

lemma ledger_only_env_free:
  fixes I :: "'x ledger_scheme \<Rightarrow> bool"
  shows "ledger_only I \<Longrightarrow> env_free I"
  unfolding env_free_def
proof (intro allI)
  fix s t :: "'x ledger_scheme"
  assume I: "ledger_only I"
  have "same_ledger (rollback s t) s" by (simp add: same_ledger_def rollback_def)
  then show "I (rollback s t) = I s" using I unfolding ledger_only_def by blast
qed

lemma ledger_only_inv [simp, intro]: "ledger_only ledger_inv"
  unfolding ledger_only_def
proof (intro allI impI)
  fix s t :: "'x ledger_scheme"
  assume "same_ledger s t"
  then have eqs: "products s = products t" "accounts s = accounts t" "journals s = journals t"
    "postings s = postings t" "balances s = balances t" "holds s = holds t"
    by (simp_all add: same_ledger_def)
  show "ledger_inv s = ledger_inv t"
    unfolding ledger_inv_def core_inv_def inv_defs posting_inv_def journal_inv_def hold_inv_def eqs ..
qed

section \<open>Append only\<close>

text \<open>The later ledger \<open>t\<close> contains all that was final in \<open>s\<close>.\<close>

definition extends :: "'x ledger_scheme \<Rightarrow> 'x ledger_scheme \<Rightarrow> bool" where
  "extends s t \<longleftrightarrow> prefix (postings s) (postings t) \<and> prefix (journals s) (journals t) \<and> prefix (accounts s) (accounts t) \<and>
     map ho_id (holds t) = serials (length (holds t)) \<and>
     (\<forall>h\<in>set (holds s). (ho_status h \<noteq> HoldActive \<longrightarrow> h \<in> set (holds t)) \<and>
        (\<exists>k\<in>set (holds t). ho_id k = ho_id h \<and> ho_external_id k = ho_external_id h \<and>
           ho_account_id k = ho_account_id h \<and> ho_amount k = ho_amount h))"

lemma ledger_only_extends [simp, intro]: "ledger_only (extends s)"
  by (auto simp: ledger_only_def same_ledger_def extends_def)

lemma extends_refl: "map ho_id (holds s) = serials (length (holds s)) \<Longrightarrow> extends s s"
  by (auto simp: extends_def)

lemma extends_same_holds:
  assumes "extends s t" "holds u = holds t" "prefix (postings t) (postings u)" "prefix (journals t) (journals u)"
    "prefix (accounts t) (accounts u)"
  shows "extends s u"
  using assms by (auto simp: extends_def intro: prefix_order.trans)

lemma write_posting_grows:
  "write_posting jid p st t = (r, u) \<Longrightarrow> holds u = holds t \<and> journals u = journals t \<and> accounts u = accounts t \<and>
    products u = products t \<and> balances u = balances t \<and> prefix (postings t) (postings u)"
  by (auto simp: write_posting_def bindM_def act_simps split: prod.splits option.splits if_splits)

lemma write_fold_grows:
  "fold_m (write_posting jid) ps st t = (r, u) \<Longrightarrow> holds u = holds t \<and> journals u = journals t \<and> accounts u = accounts t \<and>
    products u = products t \<and> balances u = balances t \<and> prefix (postings t) (postings u)"
proof (induction ps arbitrary: st t)
  case Nil
  then show ?case by (simp add: act_simps)
next
  case (Cons p ps)
  from Cons.prems have "bindM (write_posting jid p st) (\<lambda>st'. fold_m (write_posting jid) ps st') t = (r, u)" by simp
  then show ?case
    by (cases rule: bind_cases) (auto dest!: write_posting_grows Cons.IH intro: prefix_order.trans)
qed

lemma update_balances_grows:
  "for_each accts update_balance t = (r, u) \<Longrightarrow> holds u = holds t \<and> journals u = journals t \<and> accounts u = accounts t \<and>
    products u = products t \<and> postings u = postings t"
proof (induction accts arbitrary: t)
  case Nil
  then show ?case by (simp add: act_simps)
next
  case (Cons a accts)
  then show ?case by (auto simp: update_balance_def bindM_def act_simps dest!: Cons.IH)
qed

lemma safep_lock_account [keeps]: "safep I (lock_account i)"
  unfolding lock_account_def by (intro keeps)

lemma safep_free_release [keeps]: "safep I (free_release r accts)"
  unfolding free_release_def by (intro keeps)

lemma safep_extends_write [keeps]: "safep (extends s) (write_postings j accts)"
  unfolding write_postings_def
proof (intro safep_bind safep_prod safep_basic)
  show "safep (extends s) (fold_m (write_posting (jo_id j)) (jo_postings j) (accts, []))"
    by (rule safepI) (auto dest!: write_fold_grows intro: extends_same_holds)
  show "safep (extends s) (for_each x update_balance)" for x :: "locked_account list"
    by (rule safepI) (auto dest!: update_balances_grows intro: extends_same_holds)
qed

lemma safep_reads: "(\<And>s r s'. m s = (r, s') \<Longrightarrow> s' = s) \<Longrightarrow> safep I m"
  by (auto simp: safep_def)

lemma safep_get_journal [keeps]: "safep I (get_journal_by_external_id x)"
  unfolding get_journal_by_external_id_def by (intro keeps)

lemma safep_extends_insert_journal [keeps]: "safep (extends s) (insert_journal j)"
  unfolding insert_journal_def
  by (intro keeps safep_modify) (auto intro: extends_same_holds)

lemma safep_extends_post [keeps]:
  assumes "\<And>f c. check = Some f \<Longrightarrow> safep (extends s) (f c)"
  shows "safep (extends s) (post_journal_opts c j rels check)"
proof (cases check)
  case None
  show ?thesis
    unfolding post_journal_opts_def lock_accounts_for_posting_def None option.case by (intro keeps)
next
  case (Some f)
  have f: "safep (extends s) (f c)" by (rule assms [OF Some])
  show ?thesis
    unfolding post_journal_opts_def lock_accounts_for_posting_def Some option.case by (intro keeps f)
qed

lemma safep_extends_add_held [keeps]: "safep (extends s) (add_held i d)"
  unfolding add_held_def by (intro keeps safep_modify) (auto intro: extends_same_holds)

lemma extends_resolve:
  assumes "extends s t" "find_row ho_id i (holds t) = Some row" "ho_status row = HoldActive"
    "\<And>h. ho_id (f h) = ho_id h \<and> ho_external_id (f h) = ho_external_id h \<and> ho_account_id (f h) = ho_account_id h \<and> ho_amount (f h) = ho_amount h"
  shows "extends s (resolve_in i f t)"
proof -
  have ids: "map ho_id (holds t) = serials (length (holds t))" using assms(1) by (simp add: extends_def)
  then have d: "distinct (map ho_id (holds t))" by (metis distinct_serials)
  have keep: "h \<in> set (holds (resolve_in i f t))" if "h \<in> set (holds t)" "ho_status h \<noteq> HoldActive" for h
  proof -
    have "ho_id h \<noteq> i" using that assms(2,3) find_row_distinct [OF d, of i] by (metis option.inject)
    then have "h = (if ho_id h = i then resolved_row t f h else h)" by simp
    then show ?thesis using that(1) unfolding resolve_in_def by (force simp: set_update_rows)
  qed
  have same: "\<exists>k\<in>set (holds (resolve_in i f t)). ho_id k = ho_id h \<and> ho_external_id k = ho_external_id h \<and> ho_account_id k = ho_account_id h \<and> ho_amount k = ho_amount h"
    if "h \<in> set (holds t)" for h
    using that assms(4) by (intro bexI [of _ "if ho_id h = i then resolved_row t f h else h"])
      (auto simp: resolve_in_def set_update_rows resolved_row_def)
  have "map ho_id (holds (resolve_in i f t)) = map ho_id (holds t)"
    using assms(4) by (simp add: resolve_in_def map_update_rows resolved_row_def)
  then show ?thesis
    using assms(1) ids keep same unfolding extends_def
    by (simp add: resolve_in_def) metis
qed

lemma safep_extends_update_hold [keeps]:
  assumes "\<And>h. ho_id (f h) = ho_id h \<and> ho_external_id (f h) = ho_external_id h \<and> ho_account_id (f h) = ho_account_id h \<and> ho_amount (f h) = ho_amount h"
  shows "safep (extends s) (update_active_hold i f)"
proof (rule safepI)
  fix t r u
  assume e: "extends s t" and run: "update_active_hold i f t = (r, u)"
  have "u = t \<or> (\<exists>row. find_row ho_id i (holds t) = Some row \<and> ho_status row = HoldActive \<and> u = resolve_in i f t)"
  proof (cases "\<exists>v. r = Ok v")
    case True
    then show ?thesis using run by (auto elim: update_active_hold_Ok)
  next
    case False
    then show ?thesis using run by (auto simp: update_active_hold_def bindM_def act_simps split: option.splits if_splits)
  qed
  then show "extends s u" using e extends_resolve [OF e _ _ assms] by auto
qed

lemma extends_new_hold:
  assumes "extends s t"
  shows "extends s (t\<lparr>holds := holds t @ [new_hold_row h t]\<rparr>)"
proof -
  have ids: "map ho_id (holds t) = serials (length (holds t))" using assms by (simp add: extends_def)
  have "map ho_id (holds t @ [new_hold_row h t]) = serials (length (holds t @ [new_hold_row h t]))"
    using serials_snoc [OF ids, of "new_hold_row h t"] by (simp add: new_hold_row_def)
  then show ?thesis using assms by (auto simp: extends_def)
qed

lemma safep_extends_place [keeps]:
  fixes s :: "'x ledger_scheme"
  shows "safep (extends s) (place_hold c h)"
proof -
  have add: "safep (extends s) (bindM (getM (new_hold_row h)) (\<lambda>row. bindM (modifyM (\<lambda>s. s\<lparr>holds := holds s @ [row]\<rparr>)) (k row)))"
    if "\<And>row u. safep (extends s) (k row u)" for k :: "hold \<Rightarrow> unit \<Rightarrow> ('x ledger_scheme, hold) action"
  proof (rule safepI)
    fix t r u
    assume "extends s t" "bindM (getM (new_hold_row h)) (\<lambda>row. bindM (modifyM (\<lambda>s. s\<lparr>holds := holds s @ [row]\<rparr>)) (k row)) t = (r, u)"
    then show "extends s u"
      using extends_new_hold [of s t h] that [of "new_hold_row h t" "()"] by (auto simp: bindM_def act_simps dest: safepD)
  qed
  show ?thesis
    unfolding place_hold_def replay_hold_def by (intro keeps add)
qed

lemma safep_extends_capture [keeps]: "safep (extends s) (capture_holds c xs j)"
  unfolding capture_holds_def capture_replay_def capture_active_def take_from_def mark_captured_def
  by (intro keeps) simp_all

lemma safep_extends_resolve [keeps]: "safep (extends s) (resolve_hold c x to)"
  unfolding resolve_hold_def by (intro keeps) simp_all

lemma safep_extends_account [keeps]: "safep (extends s) (insert_ledger_account c a)"
proof (rule safepI)
  fix t r u
  assume "extends s t" "insert_ledger_account c a t = (r, u)"
  from this(2,1) show "extends s u"
    by (cases rule: insert_account_cases) (auto intro: extends_same_holds)
qed

lemma okp_extends_post [keeps]:
  assumes "\<And>f c. check = Some f \<Longrightarrow> okp (extends s) (f c)"
  shows "okp (extends s) (post_journal_opts c j rels check)"
proof (cases check)
  case None
  then show ?thesis by (intro safep_okp [OF safep_extends_post]) simp
next
  case (Some f)
  have f: "okp (extends s) (f c)" by (rule assms [OF Some])
  show ?thesis
    unfolding post_journal_opts_def lock_accounts_for_posting_def Some option.case
    by (intro keeps f safep_okp [OF safep_lock_account] safep_okp [OF safep_free_release]
        safep_okp [OF safep_extends_write] safep_okp [OF safep_extends_insert_journal])
qed

section \<open>The interface of the engines\<close>

locale ledger_ops =
  fixes I :: "'x ledger_scheme \<Rightarrow> bool"
  assumes free: "env_free I"
    and keeps_post: "okp I (post_journal c j)"
    and keeps_post_checked: "(\<And>c. okp I (check c)) \<Longrightarrow> okp I (post_journal_checked c j check)"
    and keeps_place: "okp I (place_hold c h)"
    and keeps_capture: "okp I (capture_holds c xs j)"
    and keeps_release: "okp I (release_hold c x)"
    and keeps_expire: "okp I (expire_hold c x)"
    and keeps_account: "safep I (insert_ledger_account c a)"
begin

lemma keeps_capture_one: "okp I (capture_hold c x j)"
  unfolding capture_hold_def by (intro keeps keeps_capture)

lemma keeps_get_or_create: "safep I (get_or_create_ledger_account c a)"
  unfolding get_or_create_ledger_account_def by (intro keeps keeps_account)

lemma keeps_create: "safep I (create_ledger_account c a)"
  unfolding create_ledger_account_def by (intro keeps keeps_account)

lemma keeps_ensure: "safep I (ensure_accounts c wanted)"
  unfolding ensure_accounts_def ensure_account_def by (intro keeps keeps_get_or_create)

lemmas ledger_keeps = keeps_post keeps_post_checked keeps_place keeps_capture keeps_capture_one keeps_release
  keeps_expire keeps_account safep_okp [OF keeps_account] keeps_get_or_create safep_okp [OF keeps_get_or_create]
  keeps_create safep_okp [OF keeps_create] free

end

text \<open>A predicate of the ledger tables alone is also kept by whatever leaves them alone.\<close>

locale ledger_keeper = ledger_ops +
  assumes only_ledger: "ledger_only I"
begin

lemma keeps_tables: "(\<And>s. same_ledger s (f s)) \<Longrightarrow> safep I (modifyM f)"
  by (rule safep_modify) (rule ledger_onlyD [OF only_ledger])

lemma keeps_tables_ok: "(\<And>s. same_ledger s (f s)) \<Longrightarrow> okp I (modifyM f)"
  by (rule safep_okp [OF keeps_tables])

end

interpretation books: ledger_keeper ledger_inv
  by unfold_locales (auto intro: keeps ledger_only_env_free)

interpretation trail: ledger_keeper "extends s" for s
  by unfold_locales
    (auto simp: post_journal_def post_journal_checked_def release_hold_def expire_hold_def
      intro!: keeps intro: safep_okp ledger_only_env_free)

text \<open>A predicate that does not look at the ledger's own tables is kept too.\<close>

lemma safep_joined_tx: "env_free I \<Longrightarrow> (\<And>c. safep I (fn c)) \<Longrightarrow> safep I (with_tx c fn)"
  by (cases "in_tx c") (auto simp: safep_def with_tx_def rollback_env_free split: prod.splits outcome.splits)

locale ledger_blind =
  fixes I :: "'x ledger_scheme \<Rightarrow> bool"
  assumes blind_env: "env_free I"
    and blind: "I s \<Longrightarrow> I (s\<lparr>accounts := a\<rparr>)" "I s \<Longrightarrow> I (s\<lparr>journals := j\<rparr>)" "I s \<Longrightarrow> I (s\<lparr>postings := p\<rparr>)"
      "I s \<Longrightarrow> I (s\<lparr>balances := b\<rparr>)" "I s \<Longrightarrow> I (s\<lparr>holds := h\<rparr>)"
begin

lemma blind_helpers:
  "safep I (write_postings jn accts)" "safep I (insert_journal jn)" "safep I (add_held i d)" "safep I (update_active_hold i f)"
  "safep I (insert_ledger_account c acc)"
  unfolding write_postings_def write_posting_def update_balance_def insert_journal_def add_held_def update_active_hold_def
    insert_ledger_account_def
  by (auto intro!: keeps safep_modify blind safep_joined_tx [OF blind_env])

lemma blind_lookups: "okp I (get_hold x)" "okp I (get_ledger_account_by_id i)" "okp I (lock_account i)"
  "okp I (free_release r accts)" "okp I (get_journal_by_external_id x)"
  unfolding get_hold_def get_ledger_account_by_id_def
  by (intro keeps safep_okp [OF safep_lock_account] safep_okp [OF safep_free_release] safep_okp [OF safep_get_journal])+

lemmas blind_okp = blind_helpers [THEN safep_okp] blind_lookups

lemma blind_post:
  assumes "\<And>f c. check = Some f \<Longrightarrow> okp I (f c)"
  shows "okp I (post_journal_opts c jn rels check)"
proof (cases check)
  case None
  show ?thesis unfolding post_journal_opts_def lock_accounts_for_posting_def None option.case by (intro keeps blind_okp)
next
  case (Some f)
  have f: "okp I (f c)" for c by (rule assms [OF Some])
  show ?thesis unfolding post_journal_opts_def lock_accounts_for_posting_def Some option.case by (intro keeps f blind_okp)
qed

lemma blind_post_plain: "okp I (post_journal c jn)"
  unfolding post_journal_def by (intro keeps blind_post) simp

lemma blind_place: "okp I (place_hold c hld)"
  unfolding place_hold_def replay_hold_def by (intro keeps blind_okp okp_modify blind)

lemma blind_capture: "okp I (capture_holds c xs jn)"
  unfolding capture_holds_def capture_replay_def capture_active_def take_from_def mark_captured_def
  by (intro keeps blind_post blind_okp) simp_all

lemma blind_resolve: "okp I (resolve_hold c x to)"
  unfolding resolve_hold_def by (intro keeps blind_okp)

end

sublocale ledger_blind \<subseteq> ledger_ops I
  by unfold_locales
    (auto simp: post_journal_checked_def release_hold_def expire_hold_def
      intro!: keeps blind_post intro: blind_env blind_post_plain blind_place blind_capture blind_resolve blind_helpers)

section \<open>Reachable ledgers\<close>

text \<open>One committed change of the ledger tables. A check only reads.\<close>

inductive ledger_step :: "'x ledger_scheme \<Rightarrow> 'x ledger_scheme \<Rightarrow> bool" where
  step_post: "post_journal c j s = (Ok r, t) \<Longrightarrow> ledger_step s t"
| step_post_checked: "(\<And>c u r v. check c u = (r, v) \<Longrightarrow> v = u) \<Longrightarrow>
    post_journal_checked c j check s = (Ok r, t) \<Longrightarrow> ledger_step s t"
| step_place: "place_hold c h s = (Ok r, t) \<Longrightarrow> ledger_step s t"
| step_capture: "capture_holds c xs j s = (Ok r, t) \<Longrightarrow> ledger_step s t"
| step_release: "release_hold c x s = (Ok r, t) \<Longrightarrow> ledger_step s t"
| step_expire: "expire_hold c x s = (Ok r, t) \<Longrightarrow> ledger_step s t"
| step_account: "insert_ledger_account c a s = (Ok r, t) \<Longrightarrow> ledger_step s t"
| step_elsewhere: "same_ledger s t \<Longrightarrow> ledger_step s t"

definition ledger_start :: "'x ledger_scheme \<Rightarrow> bool" where
  "ledger_start s \<longleftrightarrow> accounts s = [] \<and> journals s = [] \<and> postings s = [] \<and> balances s = [] \<and> holds s = []"

inductive_cases ledger_stepE: "ledger_step s t"

lemma ledger_start_inv: "ledger_start s \<Longrightarrow> ledger_inv s"
  by (simp add: ledger_start_def ledger_inv_def core_inv_def inv_defs)

context ledger_keeper
begin

text \<open>Every step keeps what the interface keeps.\<close>

lemma step_keeps: "ledger_step s t \<Longrightarrow> I s \<Longrightarrow> I t"
proof (induction rule: ledger_step.induct)
  case (step_post_checked check c j s r t)
  have "okp I (check c)" for c by (rule safep_okp [OF safep_reads]) (rule step_post_checked.hyps(1))
  then show ?case using step_post_checked okpD [OF keeps_post_checked] by blast
qed (auto dest: okpD [OF keeps_post] okpD [OF keeps_place] okpD [OF keeps_capture] okpD [OF keeps_release]
    okpD [OF keeps_expire] safepD [OF keeps_account] ledger_onlyD [OF only_ledger])

lemma steps_keep: "ledger_step\<^sup>*\<^sup>* s t \<Longrightarrow> I s \<Longrightarrow> I t"
  by (induction rule: rtranclp_induct) (auto intro: step_keeps)

end

section \<open>An example ledger\<close>

text \<open>Two customer wallets and a promotions account, with the postings the witnesses use.\<close>

definition demo_account :: "string \<Rightarrow> account_type \<Rightarrow> bool \<Rightarrow> ledger_account" where
  "demo_account code t allow = \<lparr>la_id = 0, la_public_id = ''acc_'' @ code, la_code = code, la_product_id = None, la_type = t,
     la_currency = ''INR'', la_owner_kind = OwnerPlatform, la_owner_id = None, la_allow_negative = allow,
     la_status = AccountActive, la_created_at = 0, la_updated_at = 0\<rparr>"

definition demo_leg :: "int \<Rightarrow> int \<Rightarrow> int \<Rightarrow> posting" where
  "demo_leg account dir amount = \<lparr>po_id = 0, po_journal_id = 0, po_account_id = account, po_account_code = [],
     po_account_public_id = [], po_direction = dir, po_amount = amount, po_currency = ''INR'', po_seq = 0,
     po_balance_after = 0, po_created_at = 0\<rparr>"

definition demo_journal :: "string \<Rightarrow> posting list \<Rightarrow> journal" where
  "demo_journal ext legs = \<lparr>jo_id = 0, jo_public_id = ''jrn'', jo_external_id = ext, jo_kind = JournalGrant, jo_product_id = None,
     jo_source_kind = None, jo_source_id = None, jo_reverses_journal_id = None, jo_memo = [], jo_reason_code = None,
     jo_posted_at = 0, jo_postings = legs, jo_product_public_id = None, jo_reverses_journal_public_id = None, jo_created_at = 0\<rparr>"

definition demo_hold :: "int \<Rightarrow> hold" where
  "demo_hold amount = \<lparr>ho_id = 0, ho_public_id = ''hld'', ho_external_id = ''h1'', ho_account_id = 2, ho_amount = amount,
     ho_currency = ''INR'', ho_status = HoldActive, ho_expires_at = 9000, ho_capture_journal_id = None,
     ho_captured_amount = None, ho_resolved_at = None, ho_created_at = 0, ho_updated_at = 0\<rparr>"

definition tx :: ctx where "tx = \<lparr>in_tx = True\<rparr>"

definition no_tx :: ctx where "no_tx = \<lparr>in_tx = False\<rparr>"

definition demo_start :: ledger where
  "demo_start = \<lparr>clock = 1000, uuid_gen = (\<lambda>n. replicate n (CHR ''a'') @ ''b''), uuid_next = 0, calls = [], products = [], accounts = [],
     journals = [], postings = [], balances = [], holds = [], check_runs = []\<rparr>"

definition demo_one :: ledger where
  "demo_one = snd (insert_ledger_account tx (demo_account ''promo'' AccountExpense True) demo_start)"

definition demo_two :: ledger where
  "demo_two = snd (insert_ledger_account tx (demo_account ''w1'' AccountLiability False) demo_one)"

definition demo_open :: ledger where
  "demo_open = snd (insert_ledger_account tx (demo_account ''w2'' AccountLiability False) demo_two)"

definition demo_grant :: journal where
  "demo_grant = demo_journal ''grant:1'' [demo_leg 1 1 500, demo_leg 2 (- 1) 500]"

definition demo_funded :: ledger where
  "demo_funded = snd (post_journal tx demo_grant demo_open)"

definition demo_spend :: journal where
  "demo_spend = demo_journal ''spend:1'' [demo_leg 2 1 200, demo_leg 3 (- 1) 200]"

definition demo_held :: ledger where
  "demo_held = snd (place_hold tx (demo_hold 300) demo_funded)"

lemma demo_runs:
  "is_ok (fst (post_journal tx demo_grant demo_open))"
  "is_ok (fst (post_journal tx demo_spend demo_funded))"
  "is_ok (fst (place_hold tx (demo_hold 300) demo_funded))"
  "is_ok (fst (capture_holds tx [''h1''] demo_spend demo_held))"
  "is_ok (fst (release_hold tx ''h1'' demo_held))"
  by code_simp+

lemma demo_invs: "ledger_inv demo_start" "ledger_inv demo_open" "ledger_inv demo_funded" "ledger_inv demo_held"
proof -
  show s: "ledger_inv demo_start" by (rule ledger_start_inv) (simp add: ledger_start_def demo_start_def)
  then show o: "ledger_inv demo_open" unfolding demo_open_def demo_two_def demo_one_def by (intro safep_run [OF safep_insert_ledger_account])
  then show f: "ledger_inv demo_funded" unfolding demo_funded_def by (intro okp_run [OF okp_post_journal] demo_runs)
  then show "ledger_inv demo_held" unfolding demo_held_def by (intro okp_run [OF okp_place_hold] demo_runs)
qed

section \<open>Properties\<close>

lemma start_reaches_inv: "ledger_start s0 \<Longrightarrow> ledger_step\<^sup>*\<^sup>* s0 s \<Longrightarrow> ledger_inv s"
  using books.steps_keep ledger_start_inv by blast

text \<open>
  C1. On every ledger that any sequence of postings, holds, captures, releases, expiries and
  account openings leads to, the invariant checker reports nothing, as long as
  the total volume ever posted fits an int64.
\<close>

theorem reachable_ledger_is_clean:
  assumes "ledger_start s0" "ledger_step\<^sup>*\<^sup>* s0 s" "volume (postings s) < 2 ^ 63"
  shows "check_ledger_invariants c limit s = (Ok ([], False), s)"
  by (rule clean_report [OF ledger_inv_books [OF start_reaches_inv [OF assms(1,2)] assms(3)]])

lemma demo_steps: "ledger_start demo_start" "ledger_step\<^sup>*\<^sup>* demo_start demo_funded" "ledger_step\<^sup>*\<^sup>* demo_start demo_held"
proof -
  show "ledger_start demo_start" by (simp add: ledger_start_def demo_start_def)
  have 1: "ledger_step demo_start demo_one" unfolding demo_one_def by (rule step_account, rule is_ok_run) code_simp
  have 2: "ledger_step demo_one demo_two" unfolding demo_two_def by (rule step_account, rule is_ok_run) code_simp
  have 3: "ledger_step demo_two demo_open" unfolding demo_open_def by (rule step_account, rule is_ok_run) code_simp
  have 4: "ledger_step demo_open demo_funded" unfolding demo_funded_def by (rule step_post, rule is_ok_run, rule demo_runs)
  have 5: "ledger_step demo_funded demo_held" unfolding demo_held_def by (rule step_place, rule is_ok_run, rule demo_runs)
  show f: "ledger_step\<^sup>*\<^sup>* demo_start demo_funded"
    using 1 2 3 4 by (simp add: rtranclp.rtrancl_into_rtrancl)
  show "ledger_step\<^sup>*\<^sup>* demo_start demo_held" using f 5 by (rule rtranclp.rtrancl_into_rtrancl)
qed

lemma reachable_ledger_is_clean_witness:
  "check_ledger_invariants no_tx 50 demo_held = (Ok ([], False), demo_held) \<and> length (postings demo_held) = 2"
proof -
  have "volume (postings demo_held) = 1000" by code_simp
  moreover have "length (postings demo_held) = 2" by code_simp
  ultimately show ?thesis using reachable_ledger_is_clean [OF demo_steps(1,3), of no_tx 50] by simp
qed

text \<open>
  C4. The ledger is append-only: whatever steps follow, the journals, postings and accounts
  of a reachable ledger stay where and as they were, and a hold that was
  captured, released or expired never changes again.
\<close>

theorem ledger_append_only:
  assumes "ledger_start s0" "ledger_step\<^sup>*\<^sup>* s0 s" "ledger_step\<^sup>*\<^sup>* s t"
  shows "prefix (postings s) (postings t) \<and> prefix (journals s) (journals t) \<and> prefix (accounts s) (accounts t) \<and>
    (\<forall>h\<in>set (holds s). ho_status h \<noteq> HoldActive \<longrightarrow> h \<in> set (holds t))"
proof -
  have "map ho_id (holds s) = serials (length (holds s))"
    using start_reaches_inv [OF assms(1,2)] by (auto simp: ledger_inv_def core_inv_def holds_inv_def)
  then have "extends s t" using trail.steps_keep [OF assms(3) extends_refl] by simp
  then show ?thesis by (simp add: extends_def)
qed

lemma ledger_append_only_witness:
  "prefix (postings demo_funded) (postings demo_held) \<and> length (postings demo_funded) = 2"
proof -
  have "ledger_step demo_funded demo_held" unfolding demo_held_def by (rule step_place, rule is_ok_run, rule demo_runs)
  then have "ledger_step\<^sup>*\<^sup>* demo_funded demo_held" by blast
  moreover have "length (postings demo_funded) = 2" by code_simp
  ultimately show ?thesis using ledger_append_only [OF demo_steps(1,2), of demo_held] by blast
qed

text \<open>
  C2. No overdraft: on every reachable ledger whose total volume fits an int64, an account that may not go
  negative has, by the code's own \<open>Available\<close>, nothing less than zero left after what is held.
\<close>

theorem restricted_account_never_overdrawn:
  assumes "ledger_start s0" "ledger_step\<^sup>*\<^sup>* s0 s" "volume (postings s) < 2 ^ 63"
    "a \<in> set (accounts s)" "\<not> la_allow_negative a" "balance_of (la_id a) s = Some b"
  shows "0 \<le> available b (la_type a)"
proof -
  have "account_ok s a"
    using ledger_inv_books [OF start_reaches_inv [OF assms(1,2)] assms(3)] assms(4) by (simp add: books_ok_def)
  then have b: "ba_held b \<le> ba_raw_balance b * normal_sign (la_type a)" "ba_raw_balance b = acct_sum (la_id a) (postings s)"
    using assms(5,6) by (auto simp: account_ok_def)
  have inv: "core_inv s" using start_reaches_inv [OF assms(1,2)] by (simp add: ledger_inv_def)
  then have held: "0 \<le> ba_held b"
    using assms(6) by (auto simp: core_inv_def balances_inv_def balance_of_def dest: find_row_Some)
  have "\<forall>p\<in>set (postings s). valid_leg p" using inv by (auto simp: core_inv_def postings_inv_def posting_inv_def)
  then have "\<bar>ba_raw_balance b\<bar> < 2 ^ 63" using acct_sum_volume [of "postings s" "la_id a"] assms(3) b(2) by simp
  then have "\<bar>ba_raw_balance b * normal_sign (la_type a)\<bar> < 2 ^ 63" using normal_sign_cases [of "la_type a"] by auto
  then show ?thesis using b(1) held by (simp add: available_def natural_def wrap64_abs)
qed

lemma restricted_account_never_overdrawn_witness:
  "0 \<le> available (the (balance_of 2 demo_held)) AccountLiability \<and> available (the (balance_of 2 demo_held)) AccountLiability = 200"
proof -
  let ?a = "accounts demo_held ! 1"
  have "?a \<in> set (accounts demo_held) \<and> \<not> la_allow_negative ?a \<and> la_id ?a = 2 \<and> la_type ?a = AccountLiability" by code_simp
  moreover have "volume (postings demo_held) = 1000" "balance_of 2 demo_held = Some (the (balance_of 2 demo_held))" by code_simp+
  moreover have "available (the (balance_of 2 demo_held)) AccountLiability = 200" by code_simp
  ultimately show ?thesis using restricted_account_never_overdrawn [OF demo_steps(1,3), of ?a] by simp
qed

end
