(* ===== verification/LedgerProps.thy ===== *)
theory LedgerProps
  imports LedgerSafety
begin

text \<open>
  What single ledger operations do: validation, posting, replaying, holding,
  capturing and releasing, and the atomicity of transactions.
\<close>

section \<open>Transactions\<close>

text \<open>
  \<open>WithTx\<close> is atomic: outside a transaction, when the function returns an error or panics every
  table is as before, and when it returns a value the tables are what it left; inside a transaction
  the function joins it and nothing is rolled back on its own.
\<close>

theorem with_tx_atomic:
  "env.more (snd (with_tx c fn s)) =
     (if in_tx c then env.more (snd (fn c s))
      else if is_ok (fst (fn (c\<lparr>in_tx := True\<rparr>) s)) then env.more (snd (fn (c\<lparr>in_tx := True\<rparr>) s))
      else env.more s)
   \<and> fst (with_tx c fn s) = fst (fn (c\<lparr>in_tx := True\<rparr>) s)"
proof (cases "in_tx c")
  case True
  then have "c\<lparr>in_tx := True\<rparr> = c" by (cases c) simp
  then show ?thesis unfolding with_tx_def by (simp only: True if_True simp_thms)
next
  case False
  then show ?thesis
    by (cases "fn (c\<lparr>in_tx := True\<rparr>) s"; cases "fst (fn (c\<lparr>in_tx := True\<rparr>) s)") (simp_all add: with_tx_def rollback_def)
qed

section \<open>Validation\<close>

lemma validate_postings_accepts:
  "\<forall>p\<in>set ps. valid_leg p \<and> po_currency p \<noteq> [] \<Longrightarrow> \<exists>res. validate_postings ps sums = Some res"
  by (induction ps arbitrary: sums) (auto simp: valid_leg_def Debit_def Credit_def)

lemma sums_zero_iff:
  assumes "distinct (map fst res)" "\<forall>x\<in>set res. in64 (snd x)"
  shows "(\<forall>x\<in>set res. snd x = 0) \<longleftrightarrow> (\<forall>c. wrap64 (case map_of res c of None \<Rightarrow> 0 | Some x \<Rightarrow> x) = 0)"
proof
  assume "\<forall>x\<in>set res. snd x = 0"
  then have "(case map_of res c of None \<Rightarrow> 0 | Some x \<Rightarrow> x) = 0" for c
    by (force dest: map_of_SomeD split: option.splits)
  then show "\<forall>c. wrap64 (case map_of res c of None \<Rightarrow> 0 | Some x \<Rightarrow> x) = 0" by simp
next
  assume z: "\<forall>c. wrap64 (case map_of res c of None \<Rightarrow> 0 | Some x \<Rightarrow> x) = 0"
  show "\<forall>x\<in>set res. snd x = 0"
  proof
    fix x
    assume x: "x \<in> set res"
    then have "map_of res (fst x) = Some (snd x)" using map_of_is_SomeI [OF assms(1), of "fst x" "snd x"] by simp
    then have "wrap64 (snd x) = 0" using z [rule_format, of "fst x"] by simp
    then show "snd x = 0" using assms(2) x by (simp add: wrap64_id)
  qed
qed

lemma add_sum_in64: "\<forall>x\<in>set sums. in64 (snd x) \<Longrightarrow> \<forall>x\<in>set (add_sum cur d sums). in64 (snd x)"
  by (induction cur d sums rule: add_sum.induct) auto

lemma validate_postings_in64:
  "validate_postings ps sums = Some res \<Longrightarrow> \<forall>x\<in>set sums. in64 (snd x) \<Longrightarrow> \<forall>x\<in>set res. in64 (snd x)"
proof (induction ps arbitrary: sums)
  case (Cons p ps)
  then show ?case using add_sum_in64 by (auto split: if_splits)
qed simp

text \<open>
  \<open>validateJournal\<close> accepts exactly the journals with an external id, at least two postings, every
  posting a positive amount in one of the two directions with a currency, and in every currency debits minus
  credits zero \<emdash> as an int64, so modulo the wrap.
\<close>

theorem validate_journal_iff:
  "validate_journal j = None \<longleftrightarrow>
     jo_external_id j \<noteq> [] \<and> 2 \<le> length (jo_postings j) \<and>
     list_all (\<lambda>p. valid_leg p \<and> po_currency p \<noteq> []) (jo_postings j) \<and>
     (\<forall>c. wrap64 (sum_by leg (\<lambda>p. po_currency p = c) (jo_postings j)) = 0)"
proof (cases "\<forall>p\<in>set (jo_postings j). valid_leg p \<and> po_currency p \<noteq> []")
  case False
  then have "validate_postings (jo_postings j) [] = None"
    using validate_postings_sums [of "jo_postings j" "[]"] by (cases "validate_postings (jo_postings j) []") auto
  then show ?thesis using False by (simp add: validate_journal_def list_all_iff)
next
  case True
  then obtain res where res: "validate_postings (jo_postings j) [] = Some res"
    using validate_postings_accepts by blast
  have r: "distinct (map fst res)" "\<forall>x\<in>set res. in64 (snd x)"
    "\<And>c. wrap64 (case map_of res c of None \<Rightarrow> 0 | Some x \<Rightarrow> x) = wrap64 (sum_by leg (\<lambda>p. po_currency p = c) (jo_postings j))"
    using validate_postings_sums [OF res] validate_postings_in64 [OF res] by auto
  show ?thesis using True res sums_zero_iff [OF r(1,2)] by (auto simp: validate_journal_def r(3) list_all_iff)
qed

text \<open>
  Because the sum is an int64, four debits of two to the sixty-two and no credit pass
  validation: the check for balance is only exact while the amounts add up below the wrap.
\<close>

theorem validate_accepts_overflowing_debits:
  "validate_journal (demo_journal ''x'' (replicate 4 (demo_leg 1 1 (2 ^ 62)))) = None \<and>
   sum_by leg (\<lambda>p. po_currency p = ''INR'') (replicate 4 (demo_leg 1 1 (2 ^ 62))) = 2 ^ 64"
proof -
  have four: "replicate 4 x = [x, x, x, x]" for x :: posting by (simp add: eval_nat_numeral)
  show ?thesis
    by (simp add: four validate_journal_def demo_journal_def demo_leg_def Debit_def Credit_def signed_def leg_def wrap64_def)
qed

section \<open>Posting\<close>

lemma balance_of_booked:
  "balance_of i (booked s row rows accts) = map_option (settle_balance (clock s) (map (add_legs rows) accts)) (balance_of i s)"
proof -
  have "find_row ba_account_id i (map (settle_balance n as) bs) = map_option (settle_balance n as) (find_row ba_account_id i bs)" for n as bs
    by (induction bs) auto
  then show ?thesis by (simp add: balance_of_def booked_def)
qed

lemma acct_sum_same_legs: "map leg_of ps = map leg_of qs \<Longrightarrow> acct_sum i ps = acct_sum i qs"
proof (induction ps arbitrary: qs)
  case (Cons p ps)
  then obtain q rest where "qs = q # rest" "leg_of p = leg_of q" "map leg_of ps = map leg_of rest" by (cases qs) auto
  then show ?case using Cons.IH [of rest] leg_of_cong [of p q] by simp
qed simp

lemma booked_balance:
  assumes core: "core_inv s" and bk: "booking s j rels rows accts" and b: "balance_of i s = Some b"
  shows "\<exists>b'. balance_of i (booked s row rows accts) = Some b' \<and>
    ba_raw_balance b' = wrap64 (ba_raw_balance b + acct_sum i (jo_postings j)) \<and>
    ba_held b' = ba_held b - freed i rels"
proof -
  have bs: "b \<in> set (balances s)" "ba_account_id b = i" using b by (auto simp: balance_of_def dest: find_row_Some)
  have raw: "ba_raw_balance b = wrap64 (acct_sum i (postings s))" using core bs by (auto simp: core_inv_def balances_inv_def)
  have locked: "lk_id ` set accts = po_account_id ` set (jo_postings j) \<union> hr_account_id ` set rels"
    using bk set_lock_ids [of j rels] unfolding booking_def by (metis list.set_map)
  have "freed i rels = 0" if "i \<notin> lk_id ` set accts"
    unfolding freed_def by (rule sum_by_none) (use that locked in auto)
  then show ?thesis
    using settle_booked(1,2) [OF core bk bs(1)] acct_sum_same_legs [OF booking_rows(1) [OF bk], of i] b bs(2) raw
    by (auto simp: balance_of_booked)
qed

text \<open>
  C3. Posting a journal books exactly its legs: on a ledger in good order a call that posts adds one
  journal and the journal's legs in order under its id, moves each account's raw balance by the sum of
  its legs (on int64), and touches no hold, no held figure and no account.
\<close>

theorem post_journal_books_legs:
  assumes "ledger_inv s" "post_journal_opts c j [] None s = (Ok (j', True), s')"
  shows "journals s' = journals s @ [journal_row (stamped s j)] \<and>
    (\<exists>rows. postings s' = postings s @ rows \<and> jo_postings j' = rows \<and> map leg_of rows = map leg_of (jo_postings j) \<and>
      (\<forall>p\<in>set rows. po_journal_id p = jo_id j')) \<and>
    (\<forall>i b. balance_of i s = Some b \<longrightarrow> (\<exists>b'. balance_of i s' = Some b' \<and>
      ba_raw_balance b' = wrap64 (ba_raw_balance b + acct_sum i (jo_postings j)) \<and> ba_held b' = ba_held b)) \<and>
    accounts s' = accounts s \<and> holds s' = holds s"
proof -
  have core: "core_inv s" using assms(1) by (simp add: ledger_inv_def)
  from core _ assms(2) show ?thesis
  proof (rule post_journal_opts_Ok)
    fix rows accts
    assume bk: "booking s j [] rows accts" and j': "j' = (stamped s j)\<lparr>jo_postings := rows\<rparr>"
      and chk: "(case None of None \<Rightarrow> returnM () | Some f \<Rightarrow> f c) (booked s (journal_row (stamped s j)) rows accts) = (Ok (), s')"
    have s': "s' = booked s (journal_row (stamped s j)) rows accts" using chk by (simp add: act_simps)
    show ?thesis
      using booking_rows(1,3) [OF bk] booked_balance [OF core bk, of _ _ "journal_row (stamped s j)"]
      by (auto simp: s' j' stamped_def)
  qed simp_all
qed

lemma post_journal_snd: "snd (post_journal c j s) = snd (post_journal_opts c j [] None s)"
  by (simp add: post_journal_def bindM_def act_simps split: prod.splits outcome.splits)

lemma post_journal_books_legs_witness:
  "ba_raw_balance (the (balance_of 2 demo_funded)) = - 500 \<and> length (journals demo_funded) = 1"
proof -
  let ?m = "post_journal_opts tx demo_grant [] None"
  have snd: "snd (?m demo_open) = demo_funded" by (simp add: demo_funded_def post_journal_snd)
  have run: "?m demo_open = (Ok (the (value_of (fst (?m demo_open)))), snd (?m demo_open))" by (rule is_ok_run) code_simp
  have true: "snd (the (value_of (fst (?m demo_open)))) = True" by code_simp
  obtain j' where "?m demo_open = (Ok (j', True), demo_funded)"
    using run snd true by (metis prod.collapse)
  note books = post_journal_books_legs [OF demo_invs(2) this]
  have b: "balance_of 2 demo_open = Some (the (balance_of 2 demo_open))" "ba_raw_balance (the (balance_of 2 demo_open)) = 0" by code_simp+
  have leg: "acct_sum 2 (jo_postings demo_grant) = - 500" "length (journals demo_open) = 0" by code_simp+
  have w: "wrap64 (- 500) = - 500" by (simp add: wrap64_def)
  from books b(1) obtain b' where "balance_of 2 demo_funded = Some b'"
      "ba_raw_balance b' = wrap64 (ba_raw_balance (the (balance_of 2 demo_open)) + acct_sum 2 (jo_postings demo_grant))" by blast
  then show ?thesis using books b(2) leg w by simp
qed

text \<open>
  A journal's external id makes posting idempotent: once a call has posted it, any later
  well-formed journal under the same external id is answered with the journal already posted, its
  legs read back from the table, and nothing changes.
\<close>

theorem post_journal_replays:
  assumes "ledger_inv s" "post_journal c j s = (Ok j', s')"
    "jo_external_id k = jo_external_id j" "validate_journal k = None"
  shows "\<exists>r. post_journal c k s' = (Ok r, s') \<and> jo_id r = jo_id j' \<and> jo_external_id r = jo_external_id j"
proof -
  obtain posted where run: "post_journal_opts c j [] None s = (Ok (j', posted), s')"
    using assms(2) by (auto simp: post_journal_def bind_Ok_iff act_simps)
  have core: "core_inv s" using assms(1) by (simp add: ledger_inv_def)
  have "in_tx c \<and> (\<exists>row. journal_by_external_id (jo_external_id j) s' = Some row \<and> jo_id row = jo_id j' \<and> jo_external_id row = jo_external_id j)"
    using core _ run
  proof (rule post_journal_opts_Ok)
    fix row
    assume "s' = s" "find_row jo_external_id (jo_external_id j) (journals s) = Some row"
      "j' = row\<lparr>jo_postings := list_postings (jo_id row) s\<rparr>" "in_tx c"
    then show ?thesis using find_row_Some [of jo_external_id "jo_external_id j" "journals s" row] by (simp add: journal_by_external_id_def)
  next
    fix rows accts
    assume tx: "in_tx c" and bk: "booking s j [] rows accts" and j': "j' = (stamped s j)\<lparr>jo_postings := rows\<rparr>"
      and chk: "(case None of None \<Rightarrow> returnM () | Some f \<Rightarrow> f c) (booked s (journal_row (stamped s j)) rows accts) = (Ok (), s')"
    have "find_row jo_external_id (jo_external_id j) (journals s) = None" using bk by (simp add: booking_def)
    moreover have "s' = booked s (journal_row (stamped s j)) rows accts" using chk by (simp add: act_simps)
    ultimately show ?thesis
      using tx j' by (simp add: journal_by_external_id_def find_row_append journal_row_def stamped_def)
  qed simp_all
  then show ?thesis
    using assms(3,4)
    by (auto simp: post_journal_def post_journal_opts_def insert_journal_def get_journal_by_external_id_def bindM_def act_simps)
qed

lemma post_journal_replays_witness:
  "\<exists>r. post_journal tx (demo_grant\<lparr>jo_memo := ''again''\<rparr>) demo_funded = (Ok r, demo_funded) \<and> jo_id r = 1"
proof -
  obtain j' where run: "post_journal tx demo_grant demo_open = (Ok j', demo_funded)"
    unfolding demo_funded_def using is_ok_run [of "post_journal tx demo_grant" demo_open, OF demo_runs(1)] by blast
  have "jo_id (the (value_of (fst (post_journal tx demo_grant demo_open)))) = 1" by code_simp
  then have one: "jo_id j' = 1" by (simp add: run)
  have "validate_journal (demo_grant\<lparr>jo_memo := ''again''\<rparr>) = None" by code_simp
  then show ?thesis using post_journal_replays [OF demo_invs(2) run, of "demo_grant\<lparr>jo_memo := ''again''\<rparr>"] one by auto
qed

section \<open>Holds\<close>

lemma mark_one:
  assumes "mark_captured jid (h, t) s = (Ok r, s')"
  shows "balances s' = balances s" "ho_id r = ho_id h" "ho_status r = HoldCaptured" "ho_capture_journal_id r = Some jid"
    "ho_captured_amount r = Some t" "r \<in> set (holds s')"
proof -
  obtain row where row: "find_row ho_id (ho_id h) (holds s) = Some row"
    "r = resolved_row s (\<lambda>h. h\<lparr>ho_status := HoldCaptured, ho_capture_journal_id := Some jid, ho_captured_amount := Some t\<rparr>) row"
    "s' = resolve_in (ho_id h) (\<lambda>h. h\<lparr>ho_status := HoldCaptured, ho_capture_journal_id := Some jid, ho_captured_amount := Some t\<rparr>) s"
    using assms unfolding mark_captured_def case_prod_conv by (rule update_active_hold_Ok)
  show "balances s' = balances s" "ho_id r = ho_id h" "ho_status r = HoldCaptured" "ho_capture_journal_id r = Some jid"
    "ho_captured_amount r = Some t" "r \<in> set (holds s')"
    using find_row_Some [OF row(1)] by (auto simp: row(2,3) resolved_row_def resolve_in_def set_update_rows)
qed

lemma marks:
  "map_m (mark_captured jid) (zip hs ts) s = (Ok rs, s') \<Longrightarrow> length hs = length ts \<Longrightarrow> map ho_id (holds s) = serials (length (holds s)) \<Longrightarrow>
   balances s' = balances s \<and> set rs \<subseteq> set (holds s') \<and> map ho_id rs = map ho_id hs \<and> map ho_captured_amount rs = map Some ts \<and>
   (\<forall>r\<in>set rs. ho_status r = HoldCaptured \<and> ho_capture_journal_id r = Some jid)"
proof (induction hs arbitrary: ts s rs)
  case Nil
  then show ?case by (simp add: act_simps)
next
  case (Cons h hs)
  obtain t us where ts: "ts = t # us" using Cons.prems(2) by (cases ts) auto
  obtain r s1 rest where step: "mark_captured jid (h, t) s = (Ok r, s1)"
    and more: "map_m (mark_captured jid) (zip hs us) s1 = (Ok rest, s')" and rs: "rs = r # rest"
    using Cons.prems(1) by (auto simp: ts bind_Ok_iff act_simps)
  have upd: "safep (extends u) (mark_captured jid x)" for u x
    by (cases x) (auto simp: mark_captured_def intro!: safep_extends_update_hold)
  have "extends s s1" by (rule safepD [OF upd extends_refl [OF Cons.prems(3)] step])
  then have ids: "map ho_id (holds s1) = serials (length (holds s1))" by (simp add: extends_def)
  have "extends s1 s'" by (rule safepD [OF safep_map_m [OF upd] extends_refl [OF ids] more])
  then have "r \<in> set (holds s')" using mark_one [OF step] by (auto simp: extends_def)
  then show ?case using Cons.IH [OF more _ ids] Cons.prems(2) mark_one [OF step] by (simp add: ts rs)
qed

lemma freed_release_of: "freed i (map release_of hs) = sum_by ho_amount (\<lambda>h. ho_account_id h = i) hs"
  by (induction hs) (auto simp: freed_def release_of_def)

text \<open>
  C5. Capturing spends what was reserved: when \<open>CaptureHolds\<close> captures, every named hold
  was active and is now captured by this journal for an amount within the hold; each account's held
  figure falls by the whole of its captured holds, whatever part of them was taken, and its raw
  balance moves by the journal's legs.
\<close>

theorem capture_holds_spends_reservation:
  assumes "ledger_inv s" "capture_holds c xs j s = (Ok (hs', True, j'), s')"
  shows "\<exists>hs ts. mset (map ho_external_id hs) = mset xs \<and> set hs \<subseteq> set (holds s) \<and> (\<forall>h\<in>set hs. ho_status h = HoldActive) \<and>
    set hs' \<subseteq> set (holds s') \<and> map ho_id hs' = map ho_id hs \<and> map ho_captured_amount hs' = map Some ts \<and>
    list_all2 (\<lambda>h t. 0 < t \<and> t \<le> ho_amount h) hs ts \<and>
    (\<forall>h\<in>set hs'. ho_status h = HoldCaptured \<and> ho_capture_journal_id h = Some (jo_id j')) \<and>
    (\<forall>i b. balance_of i s = Some b \<longrightarrow> (\<exists>b'. balance_of i s' = Some b' \<and>
      ba_raw_balance b' = wrap64 (ba_raw_balance b + acct_sum i (jo_postings j)) \<and>
      ba_held b' = ba_held b - sum_by ho_amount (\<lambda>h. ho_account_id h = i) hs))"
proof -
  have core: "core_inv s" using assms(1) by (simp add: ledger_inv_def)
  from core assms(2) show ?thesis
  proof (cases rule: capture_holds_Ok)
    case (captured hs ts rs rows accts)
    let ?s = "booked s (journal_row (stamped s j)) rows accts"
    have ids: "map ho_id (holds ?s) = serials (length (holds ?s))" using core by (simp add: core_inv_def holds_inv_def)
    have m: "balances s' = balances ?s \<and> set rs \<subseteq> set (holds s') \<and> map ho_id rs = map ho_id hs \<and> map ho_captured_amount rs = map Some ts \<and>
       (\<forall>r\<in>set rs. ho_status r = HoldCaptured \<and> ho_capture_journal_id r = Some (next_id (journals s)))"
      by (rule marks [OF captured(7) _ ids]) (use captured(5) in \<open>rule list_all2_lengthD\<close>)
    have "hs' = rs" "jo_id j' = next_id (journals s)" using captured(8) by (simp_all add: stamped_def)
    moreover have "balance_of i s' = balance_of i ?s" for i using m by (simp add: balance_of_def)
    ultimately show ?thesis
      using m captured(2-5) booked_balance [OF core captured(6)] by (intro exI [of _ hs] exI [of _ ts]) (simp add: freed_release_of)
  qed simp
qed

lemma capture_holds_spends_reservation_witness:
  "ba_held (the (balance_of 2 (snd (capture_holds tx [''h1''] demo_spend demo_held)))) = 0 \<and>
   ba_held (the (balance_of 2 demo_held)) = 300 \<and> ba_raw_balance (the (balance_of 2 demo_held)) = - 500"
proof -
  let ?m = "capture_holds tx [''h1''] demo_spend demo_held"
  have run: "?m = (Ok (the (value_of (fst ?m))), snd ?m)" by (rule is_ok_run) (rule demo_runs)
  have "fst (snd (the (value_of (fst ?m)))) = True" by code_simp
  then obtain hs' j' where cap: "?m = (Ok (hs', True, j'), snd ?m)" using run by (metis prod.collapse)
  have b: "balance_of 2 demo_held = Some (the (balance_of 2 demo_held))" "ba_held (the (balance_of 2 demo_held)) = 300"
    "ba_raw_balance (the (balance_of 2 demo_held)) = - 500" by code_simp+
  have one: "map (\<lambda>h. (ho_external_id h, ho_account_id h, ho_amount h)) (holds demo_held) = [(''h1'', 2, 300)]" by code_simp
  obtain hs b' where hs: "mset (map ho_external_id hs) = mset [''h1'']" "set hs \<subseteq> set (holds demo_held)"
    and b': "balance_of 2 (snd ?m) = Some b'" "ba_held b' = 300 - sum_by ho_amount (\<lambda>h. ho_account_id h = 2) hs"
    using capture_holds_spends_reservation [OF demo_invs(4) cap] b by fastforce
  have "length hs = 1" using hs(1) by (metis length_map One_nat_def list.size(3,4) size_mset add_0)
  then obtain h where "hs = [h]" by (cases hs) auto
  then have "ho_account_id h = 2" "ho_amount h = 300" using hs(2) one by auto
  then show ?thesis using b b' \<open>hs = [h]\<close> by simp
qed

lemma lock_account_run:
  assumes "lock_account i s = (Ok a, s')" "accounts t = accounts s" "balance_of i t = map_option g (balance_of i s)"
    "\<And>b. ba_account_id (g b) = ba_account_id b"
  shows "\<exists>a'. lock_account i t = (Ok a', t) \<and> lk_id a' = i \<and>
    lk_held a' = ba_held (g (the (balance_of i s)))"
proof -
  have "locked_row i s = Some a" "lk_status a = AccountActive" using lock_account_Ok [OF assms(1)] by simp_all
  then obtain acc b where "account_by_id i s = Some acc" "balance_of i s = Some b" "la_status acc = AccountActive"
    by (auto simp: locked_row_def split: option.splits)
  moreover from this have "la_id acc = i" by (auto simp: account_by_id_def dest: find_row_Some)
  ultimately show ?thesis
    using assms(2,3) by (simp add: lock_account_def locked_row_def account_by_id_def bindM_def act_simps)
qed

lemma bump_balance: "balance_of k (bump_held i d s) = map_option (\<lambda>b. if ba_account_id b = i
    then b\<lparr>ba_held := ba_held b + d, ba_version := ba_version b + 1, ba_updated_at := clock s\<rparr> else b) (balance_of k s)"
  by (simp add: balance_of_def bump_held_def find_row_update)

lemma add_held_run: "balance_of i s = Some b \<Longrightarrow> in64 (ba_held b + d) \<Longrightarrow> add_held i d s = (Ok (), bump_held i d s)"
  by (simp add: add_held_def bump_held_def bindM_def act_simps)

text \<open>
  Releasing undoes placing: a hold that was placed can be released, and then every account's raw
  balance and held figure are what they were before, no posting was written, and the hold is kept as
  released.
\<close>

theorem place_then_release_restores:
  assumes "ledger_inv s" "hold_by_external_id (ho_external_id h) s = None" "place_hold c h s = (Ok r, s1)"
  shows "\<exists>r' s2. release_hold c (ho_external_id h) s1 = (Ok r', s2) \<and>
    ho_status r' = HoldReleased \<and> r' \<in> set (holds s2) \<and> postings s2 = postings s \<and>
    (\<forall>i b. balance_of i s = Some b \<longrightarrow>
      (\<exists>b'. balance_of i s2 = Some b' \<and> ba_raw_balance b' = ba_raw_balance b \<and> ba_held b' = ba_held b))"
proof -
  have core: "core_inv s" using assms(1) by (simp add: ledger_inv_def)
  have fresh: "find_row ho_external_id (ho_external_id h) (holds s) = None" using assms(2) by (simp add: hold_by_external_id_def)
  let ?i = "ho_account_id h" and ?x = "ho_external_id h" and ?r = "new_hold_row h s"
  from assms(3) show ?thesis
  proof (cases rule: place_hold_Ok)
    case replayed
    then show ?thesis using fresh by simp
  next
    case (placed acc b a)
    have bal: "balance_of ?i s = Some b"
      using find_row_distinct [of ba_account_id "balances s" ?i b] core placed(10,11)
      unfolding balance_of_def core_inv_def accounts_inv_def by (metis distinct_serials)
    have bh: "0 \<le> ba_held b" "in64 (ba_held b)" using core placed(10) by (auto simp: core_inv_def balances_inv_def in64_def)
    have s1: "s1 = bump_held ?i (ho_amount h) (s\<lparr>holds := holds s @ [?r]\<rparr>)" using placed by simp
    have bal1: "balance_of k s1 = map_option (\<lambda>b. if ba_account_id b = ?i then b\<lparr>ba_held := ba_held b + ho_amount h,
        ba_version := ba_version b + 1, ba_updated_at := clock s\<rparr> else b) (balance_of k s)" for k
      unfolding s1 bump_balance by (cases "balance_of k s") (simp_all add: balance_of_def)
    have get: "get_hold ?x s1 = (Ok ?r, s1)"
      using fresh by (simp add: get_hold_Ok s1 find_row_append new_hold_row_def)
    have "ho_id ?r \<notin> ho_id ` set (holds s)"
      using next_id_fresh [of ho_id "holds s"] core by (simp add: core_inv_def holds_inv_def new_hold_row_def)
    then have row: "find_row ho_id (ho_id ?r) (holds s1) = Some ?r"
      by (simp add: s1 find_row_append find_row_None [THEN iffD2])
    have st: "ho_status ?r = HoldActive" "ho_account_id ?r = ?i" "ho_amount ?r = ho_amount h" by (simp_all add: new_hold_row_def)
    let ?g = "\<lambda>b. if ba_account_id b = ?i then b\<lparr>ba_held := ba_held b + ho_amount h,
        ba_version := ba_version b + 1, ba_updated_at := clock s\<rparr> else b"
    let ?s0 = "s\<lparr>holds := holds s @ [?r]\<rparr>"
    obtain a0 s0 where locked: "lock_account ?i ?s0 = (Ok a0, s0)"
      using assms(3) fresh by (auto simp: place_hold_def hold_by_external_id_def bind_Ok_iff act_simps split: if_splits)
    have g: "ba_account_id (?g b) = ba_account_id b" for b by simp
    have "balance_of k ?s0 = balance_of k s" for k by (simp add: balance_of_def)
    then have "accounts s1 = accounts ?s0" "balance_of ?i s1 = map_option ?g (balance_of ?i ?s0)" "the (balance_of ?i ?s0) = b"
      using bal bal1 [of ?i] by (simp_all add: s1)
    from lock_account_run [OF locked this(1,2) g] this(3)
    obtain a' where lock: "lock_account ?i s1 = (Ok a', s1)" "lk_id a' = ?i" "lk_held a' = ba_held b + ho_amount h"
      using placed(11) by auto
    define s2 where "s2 = bump_held ?i (- ho_amount h) s1"
    let ?f = "\<lambda>h. h\<lparr>ho_status := HoldReleased\<rparr>"
    have add: "add_held ?i (- ho_amount h) s1 = (Ok (), s2)"
      unfolding s2_def using bal bal1 [of ?i] placed(11) bh by (intro add_held_run [of _ _ "b\<lparr>ba_held := ba_held b + ho_amount h,
        ba_version := ba_version b + 1, ba_updated_at := clock s\<rparr>"]) simp_all
    have row2: "find_row ho_id (ho_id ?r) (holds s2) = Some ?r" using row by (simp add: s2_def)
    have res: "resolved_row s2 ?f = (\<lambda>h. h\<lparr>ho_status := HoldReleased, ho_resolved_at := Some (clock s2), ho_updated_at := clock s2\<rparr>)"
      by (rule ext) (simp add: resolved_row_def)
    have upd: "update_active_hold (ho_id ?r) ?f s2 = (Ok (resolved_row s2 ?f ?r), resolve_in (ho_id ?r) ?f s2)"
      using row2 st by (simp add: update_active_hold_def resolve_in_def res bindM_def act_simps)
    have run: "release_hold c ?x s1 = (Ok (resolved_row s2 ?f ?r), resolve_in (ho_id ?r) ?f s2)"
      using placed(1) get lock add upd bh st by (simp add: release_hold_def resolve_hold_def bindM_def act_simps)
    have "balance_of k (resolve_in (ho_id ?r) ?f s2) = balance_of k s2" for k by (simp add: balance_of_def)
    moreover have "resolved_row s2 ?f ?r \<in> set (holds (resolve_in (ho_id ?r) ?f s2))"
      using find_row_Some [OF row2] by (auto simp: resolve_in_def set_update_rows)
    moreover have "ho_status (resolved_row s2 ?f ?r) = HoldReleased" by (simp add: resolved_row_def)
    moreover have "\<exists>b'. balance_of k s2 = Some b' \<and> ba_raw_balance b' = ba_raw_balance x \<and> ba_held b' = ba_held x"
      if "balance_of k s = Some x" for k x
      using that by (simp add: s2_def bump_balance bal1)
    moreover have "postings (resolve_in (ho_id ?r) ?f s2) = postings s" by (simp add: s2_def s1)
    ultimately show ?thesis using run by auto
  qed
qed

lemma place_then_release_restores_witness:
  "\<exists>r s2. release_hold tx ''h1'' demo_held = (Ok r, s2) \<and> ho_status r = HoldReleased"
proof -
  have fresh: "hold_by_external_id (ho_external_id (demo_hold 300)) demo_funded = None" by code_simp
  have placed: "place_hold tx (demo_hold 300) demo_funded = (Ok (the (value_of (fst (place_hold tx (demo_hold 300) demo_funded)))), demo_held)"
    unfolding demo_held_def by (rule is_ok_run [of "place_hold tx (demo_hold 300)" demo_funded, OF demo_runs(3)])
  have "ho_external_id (demo_hold 300) = ''h1''" by (simp add: demo_hold_def)
  then show ?thesis using place_then_release_restores [OF demo_invs(3) fresh placed] by auto
qed

section \<open>Recorded checks\<close>

lemma check_invariant_shape:
  "check_invariant ivt limit s = (r, s') \<Longrightarrow> r \<noteq> Panicked \<and> (0 < limit \<longrightarrow> (\<forall>found. r = Ok (found, True) \<longrightarrow> found \<noteq> []))"
  by (cases ivt; cases "snd ivt s") (auto simp: check_invariant_def bindM_def act_simps Let_def split: if_splits)

lemma check_fold_shape:
  "fold_m (check_step limit) ivs (acc, tr) s = (r, s') \<Longrightarrow> 0 < limit \<Longrightarrow> (tr \<Longrightarrow> acc \<noteq> []) \<Longrightarrow>
    r \<noteq> Panicked \<and> (\<forall>found. r = Ok (found, True) \<longrightarrow> found \<noteq> [])"
proof (induction ivs arbitrary: acc tr s)
  case Nil
  then show ?case by (auto simp: act_simps)
next
  case (Cons ivt ivs)
  obtain o1 s1 where o1: "check_invariant ivt limit s = (o1, s1)" by fastforce
  note shape = check_invariant_shape [OF o1]
  show ?case
  proof (cases o1)
    case (Ok fm)
    obtain found mr where fm: "fm = (found, mr)" by (cases fm)
    have "check_step limit ivt (acc, tr) s = (Ok (acc @ found, tr \<or> mr), s1)"
      using o1 by (simp add: check_step_def bindM_def Ok fm act_simps)
    then have "fold_m (check_step limit) ivs (acc @ found, tr \<or> mr) s1 = (r, s')"
      using Cons.prems(1) by (simp add: bindM_def)
    then show ?thesis by (rule Cons.IH) (use Cons.prems(2,3) shape in \<open>auto simp: Ok fm\<close>)
  next
    case (Err e)
    then show ?thesis using Cons.prems(1) o1 by (auto simp: check_step_def bindM_def)
  next
    case Panicked
    then show ?thesis using shape by simp
  qed
qed

text \<open>
  Every run of the checker is recorded with its outcome and repairs nothing: \<open>RunCheck\<close> always
  returns, appends exactly one run to the history, leaves every ledger table as it was, and the run's
  status is ok exactly when the books are right.
\<close>

theorem run_check_records:
  "\<exists>run s'. run_check c trigger by_whom s = (Ok run, s') \<and> same_ledger s s' \<and> check_runs s' = check_runs s @ [run] \<and>
    (cr_status run = LedgerCheckOK \<longleftrightarrow> books_ok s) \<and> cr_trigger run = trigger \<and> cr_triggered_by run = by_whom"
proof -
  let ?s = "s\<lparr>uuid_next := Suc (uuid_next s)\<rparr>"
  obtain r s1 where run: "check_ledger_invariants c findings_per_invariant ?s = (r, s1)" by fastforce
  have s1: "s1 = ?s" and ok: "r = Ok ([], False) \<longleftrightarrow> books_ok ?s" using check_ledger_run [OF run] by simp_all
  have books: "books_ok ?s = books_ok s"
    by (simp add: books_ok_def journal_ok_def account_ok_def posting_ok_def balance_of_def account_by_id_def)
  obtain r0 s0 where f: "fold_m (check_step findings_per_invariant) ledger_invariants ([], False) ?s = (r0, s0)" by fastforce
  have "r = r0" using run f by (auto simp: check_ledger_invariants_def with_read_snapshot_def split: if_splits)
  then have shape: "r \<noteq> Panicked" "\<And>found. r = Ok (found, True) \<Longrightarrow> found \<noteq> []"
    using check_fold_shape [OF f] by (auto simp: findings_per_invariant_def)
  show ?thesis
  proof (cases r)
    case (Ok ft)
    obtain found tr where ft: "ft = (found, tr)" by (cases ft)
    have "found = [] \<longleftrightarrow> books_ok s" using ok books shape(2) [of found] by (cases tr) (auto simp: Ok ft)
    then show ?thesis
      using run by (auto simp: Ok ft s1 run_check_def record_ledger_check_run_def new_id_def bindM_def tryM_def act_simps same_ledger_def)
  next
    case (Err e)
    then show ?thesis
      using run ok books by (auto simp: s1 run_check_def record_ledger_check_run_def new_id_def bindM_def tryM_def act_simps same_ledger_def)
  next
    case Panicked
    then show ?thesis using shape(1) by simp
  qed
qed

end
