(* ===== verification/DaoWallet.thy ===== *)
theory DaoWallet
  imports LedgerProps
begin

text \<open>
  Customers, wallet types, wallets and outbox events
  (\<open>internal/models/dao/wallet.go\<close>, \<open>wallet_type.go\<close>, \<open>outbox.go\<close>), the tables
  that hold them, and the queries on them
  (\<open>internal/repository/postgresql/wallet.go\<close>, \<open>wallet_type.go\<close>, \<open>customer.go\<close>,
  \<open>product.go\<close>, \<open>outbox.go\<close>).

  The payload of an event is the JSON object that is written, as its fields in
  order. Reading a row through a join fills the columns of the other table.
\<close>

section \<open>Rows\<close>

datatype wallet_status = WalletActive | WalletFrozen

record wallet =
  wa_id :: int
  wa_public_id :: string
  wa_customer_id :: int
  wa_wallet_type_id :: int
  wa_customer_public_id :: string
  wa_product_id :: "int option"
  wa_ledger_account_id :: int
  wa_status :: wallet_status
  wa_created_at :: int
  wa_updated_at :: int

record expiry_candidate =
  xc_wallet_public_id :: string
  xc_last_posting_id :: int
  xc_balance :: int

record float_line =
  fl_product_id :: "int option"
  fl_product_public_id :: "string option"
  fl_currency :: string
  fl_amount :: int
  fl_wallets :: nat

datatype wallet_scope = WalletScopeProduct | WalletScopePlatform

datatype expiry_policy = ExpiryNone | ExpiryFixed | ExpiryRolling

datatype wallet_type_status = WalletTypeActive | WalletTypeArchived

record wallet_type =
  wt_id :: int
  wt_public_id :: string
  wt_product_id :: "int option"
  wt_product_public_id :: "string option"
  wt_scope :: wallet_scope
  wt_code :: string
  wt_name :: string
  wt_currency :: string
  wt_fundable :: bool
  wt_grantable :: bool
  wt_withdrawable :: bool
  wt_transferable :: bool
  wt_refundable_to_source :: bool
  wt_allow_negative :: bool
  wt_expiry_policy :: expiry_policy
  wt_expiry_days :: "int option"
  wt_max_balance :: "int option"
  wt_max_txn_amount :: "int option"
  wt_daily_load_limit :: "int option"
  wt_min_withdrawal_amount :: "int option"
  wt_withdrawal_approval_threshold :: "int option"
  wt_daily_withdrawal_limit :: "int option"
  wt_status :: wallet_type_status
  wt_withdrawable_approved_by :: "string option"
  wt_withdrawable_approved_at :: "int option"
  wt_withdrawable_approval_ref :: "string option"
  wt_created_at :: int
  wt_updated_at :: int

datatype customer_status = CustomerActive | CustomerBlocked | CustomerMerged

record customer =
  cu_id :: int
  cu_public_id :: string
  cu_external_ref :: string
  cu_status :: customer_status
  cu_merged_into :: "int option"
  cu_created_at :: int
  cu_updated_at :: int

definition is_merged :: "customer \<Rightarrow> bool" where
  "is_merged c \<longleftrightarrow> cu_status c = CustomerMerged"

datatype json = JStr string | JInt int | JBool bool

type_synonym payload = "(string \<times> json) list"

record outbox_event =
  ev_id :: int
  ev_event_id :: string
  ev_topic :: string
  ev_aggregate_type :: string
  ev_aggregate_id :: string
  ev_payload :: payload
  ev_created_at :: int
  ev_published_at :: "int option"
  ev_attempts :: int
  ev_last_error :: "string option"

record estate = ledger +
  customers :: "customer list"
  wallet_types :: "wallet_type list"
  wallets :: "wallet list"
  outbox :: "outbox_event list"

section \<open>Products (\<open>product.go\<close>)\<close>

definition get_product_by_id :: "int \<Rightarrow> ('x ledger_scheme, product) action" where
  "get_product_by_id i = bindM (getM (\<lambda>s. find_row pr_id i (products s))) (some_or NotFound)"

definition get_product_by_public_id :: "string \<Rightarrow> ('x ledger_scheme, product) action" where
  "get_product_by_public_id x = bindM (getM (\<lambda>s. find_row pr_public_id x (products s))) (some_or NotFound)"

definition get_product_by_code :: "string \<Rightarrow> ('x ledger_scheme, product) action" where
  "get_product_by_code x = bindM (getM (\<lambda>s. find_row pr_code x (products s))) (some_or NotFound)"

text \<open>
  The INSERT leaves out the refund destination, which the column defaults to \<open>source\<close>; the product
  handed back keeps the one it was given.
\<close>

definition create_product :: "product \<Rightarrow> ('x ledger_scheme, product) action" where
  "create_product p = bindM (getM (\<lambda>s. find_row pr_code (pr_code p) (products s))) (\<lambda>taken.
     if taken \<noteq> None then failM AlreadyExists
     else bindM (getM (\<lambda>s. p\<lparr>pr_id := next_id (products s)\<rparr>)) (\<lambda>row.
     bindM (modifyM (\<lambda>s. s\<lparr>products := products s @ [row\<lparr>pr_refund_destination := ''source''\<rparr>]\<rparr>)) (\<lambda>_. returnM row)))"

text \<open>Only the name, the status and a non-empty refund destination change; the table's CHECK knows two destinations.\<close>

definition update_product :: "product \<Rightarrow> ('x ledger_scheme, product) action" where
  "update_product p = bindM (get_product_by_public_id (pr_public_id p)) (\<lambda>row.
     let row' = row\<lparr>pr_name := pr_name p, pr_status := pr_status p,
       pr_refund_destination := (if pr_refund_destination p = [] then pr_refund_destination row else pr_refund_destination p)\<rparr>
     in if pr_refund_destination row' \<notin> {''source'', ''wallet''} then failM Internal
        else bindM (modifyM (\<lambda>s. s\<lparr>products := update_rows pr_public_id (pr_public_id p) (\<lambda>_. row') (products s)\<rparr>)) (\<lambda>_.
        returnM row'))"

section \<open>Customers (\<open>customer.go\<close>)\<close>

definition merge_hops :: nat where "merge_hops = 8"

fun follow_merge :: "nat \<Rightarrow> customer \<Rightarrow> ('x estate_scheme, customer) action" where
  "follow_merge 0 c = failM Internal"
| "follow_merge (Suc n) c =
     (if \<not> is_merged c then returnM c
      else case cu_merged_into c of
        None \<Rightarrow> panicM
      | Some i \<Rightarrow> bindM (getM (\<lambda>s. find_row cu_id i (customers s))) (\<lambda>r. case r of
          None \<Rightarrow> failM Internal
        | Some nxt \<Rightarrow> follow_merge n nxt))"

definition resolve_merge :: "customer \<Rightarrow> ('x estate_scheme, customer) action" where
  "resolve_merge = follow_merge merge_hops"

definition get_customer_by_external_ref :: "string \<Rightarrow> ('x estate_scheme, customer) action" where
  "get_customer_by_external_ref x = bindM (getM (\<lambda>s. find_row cu_external_ref x (customers s))) (\<lambda>r. case r of
     None \<Rightarrow> failM NotFound
   | Some c \<Rightarrow> if is_merged c then resolve_merge c else returnM c)"

definition get_customer_by_public_id :: "string \<Rightarrow> ('x estate_scheme, customer) action" where
  "get_customer_by_public_id x = bindM (getM (\<lambda>s. find_row cu_public_id x (customers s))) (\<lambda>r. case r of
     None \<Rightarrow> failM NotFound
   | Some c \<Rightarrow> if is_merged c then resolve_merge c else returnM c)"

definition upsert_customer :: "customer \<Rightarrow> ('x estate_scheme, customer \<times> bool) action" where
  "upsert_customer c = bindM (getM (\<lambda>s. find_row cu_external_ref (cu_external_ref c) (customers s))) (\<lambda>conflict.
     if conflict = None
     then bindM (getM (\<lambda>s. c\<lparr>cu_id := next_id (customers s), cu_status := CustomerActive, cu_merged_into := None,
            cu_created_at := clock s, cu_updated_at := clock s\<rparr>)) (\<lambda>row.
          bindM (modifyM (\<lambda>s. s\<lparr>customers := customers s @ [row]\<rparr>)) (\<lambda>_. returnM (row, True)))
     else bindM (get_customer_by_external_ref (cu_external_ref c)) (\<lambda>existing. returnM (existing, False)))"

text \<open>\<open>SELECT ... FOR UPDATE\<close> on the row.\<close>

definition lock_customer :: "int \<Rightarrow> ('x estate_scheme, unit) action" where
  "lock_customer i = bindM (getM (\<lambda>s. find_row cu_id i (customers s))) (\<lambda>r. case r of
     None \<Rightarrow> failM Internal | Some _ \<Rightarrow> returnM ())"

section \<open>Wallet types (\<open>wallet_type.go\<close>)\<close>

definition read_wallet_type :: "'x ledger_scheme \<Rightarrow> wallet_type \<Rightarrow> wallet_type" where
  "read_wallet_type s w = w\<lparr>wt_product_public_id := (case wt_product_id w of None \<Rightarrow> None
     | Some i \<Rightarrow> map_option pr_public_id (find_row pr_id i (products s)))\<rparr>"

definition get_wallet_type_by_public_id :: "string \<Rightarrow> ('x estate_scheme, wallet_type) action" where
  "get_wallet_type_by_public_id x = bindM (getM (\<lambda>s. map_option (read_wallet_type s) (find_row wt_public_id x (wallet_types s))))
     (some_or NotFound)"

definition get_wallet_type_by_id :: "int \<Rightarrow> ('x estate_scheme, wallet_type) action" where
  "get_wallet_type_by_id i = bindM (getM (\<lambda>s. map_option (read_wallet_type s) (find_row wt_id i (wallet_types s))))
     (some_or NotFound)"

text \<open>The CHECK constraints on a wallet type (migrations 4, 15 and 17).\<close>

definition above_zero :: "int option \<Rightarrow> bool" where
  "above_zero x = (case x of None \<Rightarrow> True | Some v \<Rightarrow> 0 < v)"

definition wallet_type_checks :: "wallet_type \<Rightarrow> bool" where
  "wallet_type_checks w \<longleftrightarrow>
     (wt_scope w = WalletScopePlatform \<longleftrightarrow> wt_product_id w = None) \<and>
     (wt_withdrawable w \<longrightarrow> wt_fundable w) \<and>
     (wt_withdrawable w \<longrightarrow> wt_withdrawable_approved_by w \<noteq> None \<and> wt_withdrawable_approved_at w \<noteq> None) \<and>
     (wt_fundable w \<or> wt_grantable w) \<and>
     (if wt_expiry_policy w = ExpiryNone then wt_expiry_days w = None
      else case wt_expiry_days w of None \<Rightarrow> False | Some d \<Rightarrow> 0 < d) \<and>
     above_zero (wt_max_balance w) \<and> above_zero (wt_max_txn_amount w) \<and> above_zero (wt_daily_load_limit w) \<and>
     above_zero (wt_min_withdrawal_amount w) \<and> above_zero (wt_withdrawal_approval_threshold w) \<and>
     above_zero (wt_daily_withdrawal_limit w) \<and>
     (wt_withdrawable w \<or> (wt_min_withdrawal_amount w = None \<and> wt_withdrawal_approval_threshold w = None \<and>
        wt_daily_withdrawal_limit w = None))"

definition create_wallet_type :: "wallet_type \<Rightarrow> ('x estate_scheme, wallet_type) action" where
  "create_wallet_type w = bindM (getM (\<lambda>s. find_row (\<lambda>v. (wt_product_id v, wt_code v)) (wt_product_id w, wt_code w) (wallet_types s))) (\<lambda>taken.
     if \<not> wallet_type_checks w then failM Internal
     else if taken \<noteq> None then failM AlreadyExists
     else bindM (getM (product_exists (wt_product_id w))) (\<lambda>fk.
     if \<not> fk then failM NotFound
     else bindM (getM (\<lambda>s. w\<lparr>wt_id := next_id (wallet_types s), wt_created_at := clock s, wt_updated_at := clock s\<rparr>)) (\<lambda>row.
     bindM (modifyM (\<lambda>s. s\<lparr>wallet_types := wallet_types s @ [row]\<rparr>)) (\<lambda>_. returnM row))))"

definition list_wallet_types :: "int \<Rightarrow> ('x estate_scheme, wallet_type list) action" where
  "list_wallet_types p = getM (\<lambda>s. map (read_wallet_type s)
     (sort_key (\<lambda>w. if wt_product_id w = None then 1 else 0 :: nat) (sort_key wt_code
       (filter (\<lambda>w. wt_product_id w = Some p \<or> wt_product_id w = None) (wallet_types s)))))"

text \<open>What an update may change; everything else of the row stays.\<close>

definition retune :: "wallet_type \<Rightarrow> int \<Rightarrow> wallet_type \<Rightarrow> wallet_type" where
  "retune w now row = row\<lparr>wt_name := wt_name w, wt_status := wt_status w, wt_max_balance := wt_max_balance w,
     wt_max_txn_amount := wt_max_txn_amount w, wt_daily_load_limit := wt_daily_load_limit w,
     wt_min_withdrawal_amount := wt_min_withdrawal_amount w,
     wt_withdrawal_approval_threshold := wt_withdrawal_approval_threshold w,
     wt_daily_withdrawal_limit := wt_daily_withdrawal_limit w, wt_updated_at := now\<rparr>"

definition update_wallet_type :: "wallet_type \<Rightarrow> ('x estate_scheme, wallet_type) action" where
  "update_wallet_type w = bindM (getM (\<lambda>s. find_row wt_public_id (wt_public_id w) (wallet_types s))) (\<lambda>r. case r of
     None \<Rightarrow> failM NotFound
   | Some row \<Rightarrow> bindM (getM clock) (\<lambda>now.
       if \<not> wallet_type_checks (retune w now row) then failM Internal
       else bindM (modifyM (\<lambda>s. s\<lparr>wallet_types := update_rows wt_public_id (wt_public_id w) (retune w now) (wallet_types s)\<rparr>)) (\<lambda>_.
       get_wallet_type_by_public_id (wt_public_id w))))"

section \<open>Wallets (\<open>wallet.go\<close>)\<close>

text \<open>The inner join with the customer.\<close>

definition read_wallet :: "'x estate_scheme \<Rightarrow> wallet \<Rightarrow> wallet option" where
  "read_wallet s w = map_option (\<lambda>c. w\<lparr>wa_customer_public_id := cu_public_id c\<rparr>) (find_row cu_id (wa_customer_id w) (customers s))"

definition wallet_of :: "int \<Rightarrow> int \<Rightarrow> 'x estate_scheme \<Rightarrow> wallet option" where
  "wallet_of customer wtype s = find_row (\<lambda>w. (wa_customer_id w, wa_wallet_type_id w)) (customer, wtype) (wallets s)"

definition get_wallet :: "int \<Rightarrow> int \<Rightarrow> ('x estate_scheme, wallet) action" where
  "get_wallet customer wtype = bindM (getM (\<lambda>s. Option.bind (wallet_of customer wtype s) (read_wallet s))) (some_or NotFound)"

definition get_wallet_by_public_id :: "string \<Rightarrow> ('x estate_scheme, wallet) action" where
  "get_wallet_by_public_id x = bindM (getM (\<lambda>s. Option.bind (find_row wa_public_id x (wallets s)) (read_wallet s))) (some_or NotFound)"

definition wallet_refs :: "wallet \<Rightarrow> 'x estate_scheme \<Rightarrow> bool" where
  "wallet_refs w s \<longleftrightarrow> find_row cu_id (wa_customer_id w) (customers s) \<noteq> None \<and>
     find_row wt_id (wa_wallet_type_id w) (wallet_types s) \<noteq> None \<and> product_exists (wa_product_id w) s \<and>
     account_by_id (wa_ledger_account_id w) s \<noteq> None"

text \<open>The ledger account of another wallet is refused by the unique constraint on it.\<close>

definition get_or_create_wallet :: "wallet \<Rightarrow> ('x estate_scheme, wallet \<times> bool) action" where
  "get_or_create_wallet w = bindM (getM (wallet_of (wa_customer_id w) (wa_wallet_type_id w))) (\<lambda>conflict.
     if conflict \<noteq> None
     then bindM (get_wallet (wa_customer_id w) (wa_wallet_type_id w)) (\<lambda>existing. returnM (existing, False))
     else bindM (getM (\<lambda>s. find_row wa_ledger_account_id (wa_ledger_account_id w) (wallets s))) (\<lambda>backs.
     if backs \<noteq> None then failM Internal
     else bindM (getM (wallet_refs w)) (\<lambda>fk.
     if \<not> fk then failM NotFound
     else bindM (getM (\<lambda>s. w\<lparr>wa_id := next_id (wallets s), wa_created_at := clock s, wa_updated_at := clock s\<rparr>)) (\<lambda>row.
     bindM (modifyM (\<lambda>s. s\<lparr>wallets := wallets s @ [row]\<rparr>)) (\<lambda>_. returnM (row, True))))))"

subsection \<open>Totals\<close>

text \<open>PostgreSQL sums exactly; a total outside of bigint fails the scan.\<close>

definition scan_sum :: "('s \<Rightarrow> int) \<Rightarrow> ('s, int) action" where
  "scan_sum f = bindM (getM f) (\<lambda>n. if in64 n then returnM n else failM Internal)"

definition load_kinds :: "journal_kind list" where
  "load_kinds = [JournalTopup, JournalGrant, JournalTransfer]"

text \<open>A posting that loads its account: a credit since then by one of the loading kinds.\<close>

definition is_load :: "'x ledger_scheme \<Rightarrow> int \<Rightarrow> posting \<Rightarrow> bool" where
  "is_load s since p \<longleftrightarrow> po_direction p = Credit \<and> since \<le> po_created_at p \<and>
     (case find_row jo_id (po_journal_id p) (journals s) of None \<Rightarrow> False | Some j \<Rightarrow> jo_kind j \<in> set load_kinds)"

definition loads_of :: "'x ledger_scheme \<Rightarrow> int \<Rightarrow> int \<Rightarrow> int" where
  "loads_of s account since = sum_by po_amount (\<lambda>p. po_account_id p = account \<and> is_load s since p) (postings s)"

definition sum_wallet_loads_since :: "int \<Rightarrow> int \<Rightarrow> ('x ledger_scheme, int) action" where
  "sum_wallet_loads_since account since = scan_sum (\<lambda>s. loads_of s account since)"

definition fundable_type :: "'x estate_scheme \<Rightarrow> int \<Rightarrow> bool" where
  "fundable_type s i = (case find_row wt_id i (wallet_types s) of None \<Rightarrow> False | Some t \<Rightarrow> wt_fundable t)"

definition funded_wallets :: "'x estate_scheme \<Rightarrow> int \<Rightarrow> wallet list" where
  "funded_wallets s customer = filter (\<lambda>w. wa_customer_id w = customer \<and> fundable_type s (wa_wallet_type_id w)) (wallets s)"

definition owed :: "'x ledger_scheme \<Rightarrow> wallet \<Rightarrow> int" where
  "owed s w = (case balance_of (wa_ledger_account_id w) s of None \<Rightarrow> 0 | Some b \<Rightarrow> - ba_raw_balance b)"

definition customer_funded_balance :: "int \<Rightarrow> ('x estate_scheme, int) action" where
  "customer_funded_balance customer = scan_sum (\<lambda>s. sum_list (map (owed s) (funded_wallets s customer)))"

definition customer_funded_loads_since :: "int \<Rightarrow> int \<Rightarrow> ('x estate_scheme, int) action" where
  "customer_funded_loads_since customer since =
     scan_sum (\<lambda>s. sum_list (map (\<lambda>w. loads_of s (wa_ledger_account_id w) since) (funded_wallets s customer)))"

subsection \<open>Expiry\<close>

definition last_posting :: "'x ledger_scheme \<Rightarrow> int \<Rightarrow> posting option" where
  "last_posting s account = (case rev (filter (\<lambda>p. po_account_id p = account) (postings s)) of [] \<Rightarrow> None | p # _ \<Rightarrow> Some p)"

definition day_seconds :: int where "day_seconds = 86400"

text \<open>One candidate row with the time it is sorted by.\<close>

definition expiring :: "'x estate_scheme \<Rightarrow> int \<Rightarrow> wallet \<Rightarrow> (int \<times> expiry_candidate) option" where
  "expiring s now w =
     (case (find_row wt_id (wa_wallet_type_id w) (wallet_types s), balance_of (wa_ledger_account_id w) s, last_posting s (wa_ledger_account_id w)) of
        (Some t, Some b, Some p) \<Rightarrow>
          if wt_expiry_policy t = ExpiryRolling \<and> wa_product_id w \<noteq> None \<and> ba_raw_balance b < 0 \<and> ba_held b = 0 \<and>
             (case wt_expiry_days t of None \<Rightarrow> False | Some d \<Rightarrow> po_created_at p < now - d * day_seconds)
          then Some (po_created_at p, \<lparr>xc_wallet_public_id = wa_public_id w, xc_last_posting_id = po_id p, xc_balance = - ba_raw_balance b\<rparr>)
          else None
      | _ \<Rightarrow> None)"

definition list_rolling_expiry_candidates :: "int \<Rightarrow> nat \<Rightarrow> ('x estate_scheme, expiry_candidate list) action" where
  "list_rolling_expiry_candidates now limit = getM (\<lambda>s. take limit (map snd (sort_key fst (List.map_filter (expiring s now) (wallets s)))))"

fun max_id :: "int list \<Rightarrow> int" where
  "max_id [] = 0"
| "max_id (i # is) = max i (max_id is)"

definition latest_posting_id :: "int \<Rightarrow> int \<Rightarrow> ('x ledger_scheme, int) action" where
  "latest_posting_id account excluding = getM (\<lambda>s. max_id (map po_id
     (filter (\<lambda>p. po_account_id p = account \<and> po_journal_id p \<noteq> excluding) (postings s))))"

section \<open>The outbox (\<open>outbox.go\<close>)\<close>

definition save_outbox_event :: "outbox_event \<Rightarrow> ('x estate_scheme, outbox_event) action" where
  "save_outbox_event e = bindM (getM (\<lambda>s. e\<lparr>ev_id := next_id (outbox s), ev_created_at := clock s, ev_published_at := None,
       ev_attempts := 0, ev_last_error := None\<rparr>)) (\<lambda>row.
     bindM (modifyM (\<lambda>s. s\<lparr>outbox := outbox s @ [row]\<rparr>)) (\<lambda>_. returnM row))"

definition claim_unpublished_outbox_events :: "ctx \<Rightarrow> nat \<Rightarrow> ('x estate_scheme, outbox_event list) action" where
  "claim_unpublished_outbox_events c limit =
     (if \<not> in_tx c then failM Internal
      else getM (\<lambda>s. take limit (filter (\<lambda>e. ev_published_at e = None) (outbox s))))"

definition mark_outbox_event_published :: "int \<Rightarrow> ('x estate_scheme, unit) action" where
  "mark_outbox_event_published i = modifyM (\<lambda>s. s\<lparr>outbox := update_rows ev_id i
     (\<lambda>e. e\<lparr>ev_published_at := Some (clock s), ev_attempts := ev_attempts e + 1, ev_last_error := None\<rparr>) (outbox s)\<rparr>)"

definition mark_outbox_event_failed :: "int \<Rightarrow> string \<Rightarrow> ('x estate_scheme, unit) action" where
  "mark_outbox_event_failed i cause = modifyM (\<lambda>s. s\<lparr>outbox := update_rows ev_id i
     (\<lambda>e. e\<lparr>ev_attempts := ev_attempts e + 1, ev_last_error := Some cause\<rparr>) (outbox s)\<rparr>)"

end
