(* ===== verification/Wallet.thy ===== *)
theory Wallet
  imports DaoWallet Money
begin

text \<open>
  The wallet engine: \<open>internal/wallet/policy.go\<close> and \<open>internal/wallet/engine.go\<close>.

  An operation runs in a transaction: it loads the wallet's type, asks the
  policy, builds a journal and posts it, with the limits that depend on the
  balance checked in the posting's own transaction. Each wallet moved gets an
  event in the outbox.

  Go's clock and the database's are the same one. \<open>journal_id_of\<close> reads the id the
  posting engine has stored in the journal by the time the hook of \<open>Expire\<close> runs.
\<close>

section \<open>Policy (\<open>policy.go\<close>)\<close>

datatype operation = OpFund | OpGrant | OpSpend | OpHold | OpTransferOut | OpTransferIn | OpWithdraw
  | OpRefundIn | OpRefundOut | OpRestore | OpChargeback | OpAdjust

definition op_credits :: "operation \<Rightarrow> bool" where
  "op_credits op = (case op of OpFund \<Rightarrow> True | OpGrant \<Rightarrow> True | OpTransferIn \<Rightarrow> True | OpRefundIn \<Rightarrow> True | _ \<Rightarrow> False)"

definition op_loads :: "operation \<Rightarrow> bool" where
  "op_loads op = (case op of OpFund \<Rightarrow> True | OpGrant \<Rightarrow> True | OpTransferIn \<Rightarrow> True | _ \<Rightarrow> False)"

text \<open>The switch on the capabilities; the operations it does not list never reach it.\<close>

definition capable :: "wallet_type \<Rightarrow> operation \<Rightarrow> bool" where
  "capable t op = (case op of
     OpFund \<Rightarrow> wt_fundable t
   | OpGrant \<Rightarrow> wt_grantable t
   | OpWithdraw \<Rightarrow> wt_withdrawable t
   | OpTransferOut \<Rightarrow> wt_transferable t
   | OpTransferIn \<Rightarrow> wt_transferable t
   | OpRefundIn \<Rightarrow> wt_refundable_to_source t
   | _ \<Rightarrow> True)"

definition below :: "int \<Rightarrow> int option \<Rightarrow> bool" where
  "below amount bound = (case bound of None \<Rightarrow> False | Some b \<Rightarrow> amount < b)"

definition above :: "int \<Rightarrow> int option \<Rightarrow> bool" where
  "above amount bound = (case bound of None \<Rightarrow> False | Some b \<Rightarrow> b < amount)"

text \<open>\<open>None\<close> when the operation is allowed.\<close>

definition assert_allowed :: "wallet_type \<Rightarrow> wallet \<Rightarrow> operation \<Rightarrow> int \<Rightarrow> code option" where
  "assert_allowed t w op amount =
     (if amount \<le> 0 then Some InvalidArgument
      else if op = OpAdjust \<or> op = OpRestore \<or> op = OpChargeback then None
      else if wa_status w \<noteq> WalletActive then Some WalletOperationDenied
      else if \<not> capable t op then Some WalletOperationDenied
      else if op = OpWithdraw \<and> below amount (wt_min_withdrawal_amount t) then Some WalletOperationDenied
      else if op \<noteq> OpRefundOut \<and> op \<noteq> OpRefundIn \<and> above amount (wt_max_txn_amount t) then Some WalletOperationDenied
      else None)"

definition needs_approval :: "wallet_type \<Rightarrow> int \<Rightarrow> bool" where
  "needs_approval t amount = above amount (wt_withdrawal_approval_threshold t)"

definition guardM :: "code option \<Rightarrow> ('s, unit) action" where
  "guardM r = (case r of None \<Rightarrow> returnM () | Some e \<Rightarrow> failM e)"

section \<open>The engine (\<open>engine.go\<close>)\<close>

definition grant_reasons :: "string list" where
  "grant_reasons = [''promotion'', ''referral'', ''cashback'', ''loyalty'', ''compensation'']"

definition adjust_reasons :: "string list" where
  "adjust_reasons = [''goodwill'', ''error_correction'', ''fraud_recovery'', ''migration'']"

record limits =
  max_customer_balance :: int
  max_customer_daily_load :: int

text \<open>Midnight of the current day in the fixed zone of five and a half hours.\<close>

definition ist_offset :: int where "ist_offset = 5 * 60 * 60 + 30 * 60"

definition start_of_day :: "int \<Rightarrow> int" where
  "start_of_day now = ((now + ist_offset) div day_seconds) * day_seconds - ist_offset"

subsection \<open>Opening\<close>

definition product_segment :: "wallet_type \<Rightarrow> ('x ledger_scheme, string) action" where
  "product_segment t = (case wt_product_id t of
     None \<Rightarrow> returnM platform_scope
   | Some i \<Rightarrow> bindM (get_product_by_id i) (\<lambda>p. returnM (pr_code p)))"

definition wallet_ledger_account :: "customer \<Rightarrow> wallet_type \<Rightarrow> string \<Rightarrow> string \<Rightarrow> ledger_account" where
  "wallet_ledger_account cust t segment pid =
     \<lparr>la_id = 0, la_public_id = pid, la_code = wallet_account (cu_public_id cust) segment (wt_code t), la_product_id = wt_product_id t,
      la_type = AccountLiability, la_currency = wt_currency t, la_owner_kind = OwnerCustomer, la_owner_id = Some (cu_public_id cust),
      la_allow_negative = wt_allow_negative t, la_status = AccountActive, la_created_at = 0, la_updated_at = 0\<rparr>"

definition open_wallet :: "ctx \<Rightarrow> customer \<Rightarrow> wallet_type \<Rightarrow> ('x estate_scheme, wallet \<times> bool) action" where
  "open_wallet c cust t =
     (if cu_status cust \<noteq> CustomerActive then failM WalletOperationDenied
      else with_tx c (\<lambda>c.
        bindM (product_segment t) (\<lambda>segment.
        bindM (new_id LedgerAccountId) (\<lambda>apid.
        bindM (get_or_create_ledger_account c (wallet_ledger_account cust t segment apid)) (\<lambda>(account, _).
        bindM (new_id WalletId) (\<lambda>wpid.
        bindM (get_or_create_wallet \<lparr>wa_id = 0, wa_public_id = wpid, wa_customer_id = cu_id cust, wa_wallet_type_id = wt_id t,
            wa_customer_public_id = cu_public_id cust, wa_product_id = wt_product_id t, wa_ledger_account_id = la_id account,
            wa_status = WalletActive, wa_created_at = 0, wa_updated_at = 0\<rparr>) (\<lambda>(wallet, created).
        if created \<and> wt_status t \<noteq> WalletTypeActive then failM WalletOperationDenied
        else returnM (wallet, created))))))))"

subsection \<open>Journals and their events\<close>

definition new_journal :: "string \<Rightarrow> journal_kind \<Rightarrow> int option \<Rightarrow> wallet \<Rightarrow> ('x env_scheme, journal) action" where
  "new_journal ext kind product w = bindM (new_id LedgerJournalId) (\<lambda>pid. returnM
     \<lparr>jo_id = 0, jo_public_id = pid, jo_external_id = ext, jo_kind = kind, jo_product_id = product,
      jo_source_kind = Some ''wallet'', jo_source_id = Some (wa_public_id w), jo_reverses_journal_id = None,
      jo_memo = [], jo_reason_code = None, jo_posted_at = 0, jo_postings = [], jo_product_public_id = None,
      jo_reverses_journal_public_id = None, jo_created_at = 0\<rparr>)"

definition new_leg :: "int \<Rightarrow> int \<Rightarrow> int \<Rightarrow> string \<Rightarrow> posting" where
  "new_leg account dir amount cur = \<lparr>po_id = 0, po_journal_id = 0, po_account_id = account, po_account_code = [],
     po_account_public_id = [], po_direction = dir, po_amount = amount, po_currency = cur, po_seq = 0,
     po_balance_after = 0, po_created_at = 0\<rparr>"

fun journal_kind_string :: "journal_kind \<Rightarrow> string" where
  "journal_kind_string JournalTopup = ''topup''"
| "journal_kind_string JournalPurchase = ''purchase''"
| "journal_kind_string JournalRefund = ''refund''"
| "journal_kind_string JournalTransfer = ''transfer''"
| "journal_kind_string JournalGrant = ''grant''"
| "journal_kind_string JournalFee = ''fee''"
| "journal_kind_string JournalSettlement = ''settlement''"
| "journal_kind_string JournalAdjustment = ''adjustment''"
| "journal_kind_string JournalReversal = ''reversal''"
| "journal_kind_string JournalExpiry = ''expiry''"

definition topic_wallet_credited :: string where "topic_wallet_credited = ''wallet.credited''"

definition topic_wallet_debited :: string where "topic_wallet_debited = ''wallet.debited''"

text \<open>An optional string field with \<open>omitempty\<close>.\<close>

definition opt_field :: "string \<Rightarrow> string option \<Rightarrow> payload" where
  "opt_field key v = (case v of None \<Rightarrow> [] | Some x \<Rightarrow> [(key, JStr x)])"

definition wallet_movement :: "journal \<Rightarrow> wallet \<Rightarrow> posting \<Rightarrow> payload" where
  "wallet_movement j w p =
     [(''wallet_id'', JStr (wa_public_id w)), (''customer_id'', JStr (wa_customer_public_id w)),
      (''amount'', JInt (po_amount p)), (''currency'', JStr (po_currency p)),
      (''balance_after'', JInt (wrap64 (po_balance_after p * normal_sign AccountLiability))),
      (''journal_id'', JStr (jo_public_id j)), (''journal_kind'', JStr (journal_kind_string (jo_kind j))),
      (''external_id'', JStr (jo_external_id j))] @ opt_field ''reason_code'' (jo_reason_code j)"

text \<open>An event row as a component hands it over; the outbox fills in the rest.\<close>

definition new_event :: "string \<Rightarrow> string \<Rightarrow> string \<Rightarrow> string \<Rightarrow> payload \<Rightarrow> outbox_event" where
  "new_event pid topic kind agg payload = \<lparr>ev_id = 0, ev_event_id = pid, ev_topic = topic, ev_aggregate_type = kind,
     ev_aggregate_id = agg, ev_payload = payload, ev_created_at = 0, ev_published_at = None, ev_attempts = 0, ev_last_error = None\<rparr>"

definition emit_movement :: "journal \<Rightarrow> wallet \<Rightarrow> posting \<Rightarrow> ('x estate_scheme, unit) action" where
  "emit_movement j w p =
     (if po_account_id p \<noteq> wa_ledger_account_id w then returnM ()
      else bindM (new_id OutboxEventId) (\<lambda>pid.
        bindM (save_outbox_event (new_event pid
          (if po_direction p = Debit then topic_wallet_debited else topic_wallet_credited)
          ''wallet'' (wa_public_id w) (wallet_movement j w p))) (\<lambda>_. returnM ())))"

definition emit_movements :: "journal \<Rightarrow> wallet list \<Rightarrow> ('x estate_scheme, unit) action" where
  "emit_movements j ws = for_each ws (\<lambda>w. for_each (jo_postings j) (emit_movement j w))"

subsection \<open>Limits\<close>

type_synonym limit_check = "(wallet \<times> wallet_type \<times> operation) option"

definition check_customer_limits :: "limits \<Rightarrow> wallet \<Rightarrow> wallet_type \<Rightarrow> operation \<Rightarrow> int \<Rightarrow> ('x estate_scheme, unit) action" where
  "check_customer_limits lim w t op since =
     (if \<not> wt_fundable t \<or> (max_customer_balance lim = 0 \<and> max_customer_daily_load lim = 0) then returnM ()
      else bindM (lock_customer (wa_customer_id w)) (\<lambda>_.
      bindM (if 0 < max_customer_balance lim
             then bindM (customer_funded_balance (wa_customer_id w)) (\<lambda>held.
                    if max_customer_balance lim < held then failM WalletOperationDenied else returnM ())
             else returnM ()) (\<lambda>_.
      if 0 < max_customer_daily_load lim \<and> op_loads op
      then bindM (customer_funded_loads_since (wa_customer_id w) since) (\<lambda>loaded.
             if max_customer_daily_load lim < loaded then failM WalletOperationDenied else returnM ())
      else returnM ())))"

definition check_max_balance :: "wallet \<Rightarrow> wallet_type \<Rightarrow> ('x estate_scheme, unit) action" where
  "check_max_balance w t = (case wt_max_balance t of
     None \<Rightarrow> returnM ()
   | Some m \<Rightarrow> bindM (get_balance (wa_ledger_account_id w)) (\<lambda>b.
       if m < natural b AccountLiability then failM WalletOperationDenied else returnM ()))"

definition check_daily_load :: "wallet \<Rightarrow> wallet_type \<Rightarrow> operation \<Rightarrow> int \<Rightarrow> ('x estate_scheme, unit) action" where
  "check_daily_load w t op since = (case wt_daily_load_limit t of
     None \<Rightarrow> returnM ()
   | Some m \<Rightarrow> if \<not> op_loads op then returnM ()
       else bindM (sum_wallet_loads_since (wa_ledger_account_id w) since) (\<lambda>loaded.
         if m < loaded then failM WalletOperationDenied else returnM ()))"

definition check_limits_after_posting :: "limits \<Rightarrow> limit_check \<Rightarrow> ('x estate_scheme, unit) action" where
  "check_limits_after_posting lim lc = (case lc of
     None \<Rightarrow> returnM ()
   | Some (w, t, op) \<Rightarrow>
       if \<not> op_credits op then returnM ()
       else bindM (check_max_balance w t) (\<lambda>_.
         bindM (getM (\<lambda>s. start_of_day (clock s))) (\<lambda>since.
         bindM (check_daily_load w t op since) (\<lambda>_.
         check_customer_limits lim w t op since))))"

subsection \<open>Posting\<close>

definition post :: "limits \<Rightarrow> ctx \<Rightarrow> journal \<Rightarrow> wallet \<Rightarrow> int \<Rightarrow> int \<Rightarrow> limit_check \<Rightarrow> wallet list \<Rightarrow> ('x estate_scheme, journal) action" where
  "post lim c j w dir amount lc others =
     bindM (post_journal_checked c j (\<lambda>_. check_limits_after_posting lim lc)) (\<lambda>(j', posted).
     if posted then bindM (emit_movements j' (w # others)) (\<lambda>_. returnM j')
     else if \<exists>p\<in>set (jo_postings j'). po_account_id p = wa_ledger_account_id w \<and> po_direction p = dir \<and> po_amount p = amount
     then returnM j'
     else failM AlreadyExists)"

record grant_request =
  gr_wallet :: wallet
  gr_amount :: int
  gr_funding_product_id :: int
  gr_reason_code :: string
  gr_memo :: string
  gr_reference :: string

definition grant :: "limits \<Rightarrow> ctx \<Rightarrow> grant_request \<Rightarrow> ('x estate_scheme, journal) action" where
  "grant lim c r = (let w = gr_wallet r in
     if gr_reason_code r \<notin> set grant_reasons then failM InvalidArgument
     else if wa_product_id w \<noteq> None \<and> wa_product_id w \<noteq> Some (gr_funding_product_id r) then failM WalletOperationDenied
     else with_tx c (\<lambda>c.
       bindM (get_wallet_type_by_id (wa_wallet_type_id w)) (\<lambda>t.
       bindM (guardM (assert_allowed t w OpGrant (gr_amount r))) (\<lambda>_.
       bindM (get_product_by_id (gr_funding_product_id r)) (\<lambda>product.
       bindM (get_ledger_account_by_code (product_promotions (pr_code product))) (\<lambda>promotions.
       bindM (new_journal (''grant:'' @ wa_public_id w @ '':'' @ gr_reference r) JournalGrant (Some (pr_id product)) w) (\<lambda>j.
       post lim c (j\<lparr>jo_reason_code := Some (gr_reason_code r), jo_memo := gr_memo r,
           jo_postings := [new_leg (la_id promotions) Debit (gr_amount r) (wt_currency t),
                           new_leg (wa_ledger_account_id w) Credit (gr_amount r) (wt_currency t)]\<rparr>)
         w Credit (gr_amount r) (Some (w, t, OpGrant)) [])))))))"

record fund_request =
  fr_wallet :: wallet
  fr_amount :: int
  fr_provider :: string
  fr_product_id :: int
  fr_external_id :: string

definition fund :: "limits \<Rightarrow> ctx \<Rightarrow> fund_request \<Rightarrow> ('x estate_scheme, journal) action" where
  "fund lim c r = (let w = fr_wallet r in with_tx c (\<lambda>c.
     bindM (get_wallet_type_by_id (wa_wallet_type_id w)) (\<lambda>t.
     bindM (guardM (assert_allowed t w OpFund (fr_amount r))) (\<lambda>_.
     bindM (get_ledger_account_by_code (psp_receivable (fr_provider r))) (\<lambda>receivable.
     bindM (new_journal (fr_external_id r) JournalTopup (Some (fr_product_id r)) w) (\<lambda>j.
     post lim c (j\<lparr>jo_postings := [new_leg (la_id receivable) Debit (fr_amount r) (wt_currency t),
                                   new_leg (wa_ledger_account_id w) Credit (fr_amount r) (wt_currency t)]\<rparr>)
       w Credit (fr_amount r) (Some (w, t, OpFund)) []))))))"

record spend_request =
  sr_wallet :: wallet
  sr_amount :: int
  sr_counter_account_code :: string
  sr_product_id :: int
  sr_kind :: journal_kind
  sr_external_id :: string

definition spend :: "limits \<Rightarrow> ctx \<Rightarrow> spend_request \<Rightarrow> ('x estate_scheme, journal) action" where
  "spend lim c r = (let w = sr_wallet r in with_tx c (\<lambda>c.
     bindM (get_wallet_type_by_id (wa_wallet_type_id w)) (\<lambda>t.
     bindM (guardM (assert_allowed t w OpSpend (sr_amount r))) (\<lambda>_.
     bindM (get_ledger_account_by_code (sr_counter_account_code r)) (\<lambda>counter.
     bindM (new_journal (sr_external_id r) (sr_kind r) (Some (sr_product_id r)) w) (\<lambda>j.
     post lim c (j\<lparr>jo_postings := [new_leg (wa_ledger_account_id w) Debit (sr_amount r) (wt_currency t),
                                   new_leg (la_id counter) Credit (sr_amount r) (wt_currency t)]\<rparr>)
       w Debit (sr_amount r) None []))))))"

record transfer_request =
  tr_from :: wallet
  tr_to :: wallet
  tr_amount :: int
  tr_reference :: string

definition transfer :: "limits \<Rightarrow> ctx \<Rightarrow> transfer_request \<Rightarrow> ('x estate_scheme, journal) action" where
  "transfer lim c r = (let w = tr_from r; v = tr_to r in
     if wa_wallet_type_id w \<noteq> wa_wallet_type_id v then failM WalletOperationDenied
     else if wa_id w = wa_id v then failM InvalidArgument
     else with_tx c (\<lambda>c.
       bindM (get_wallet_type_by_id (wa_wallet_type_id w)) (\<lambda>t.
       bindM (guardM (assert_allowed t w OpTransferOut (tr_amount r))) (\<lambda>_.
       bindM (guardM (assert_allowed t v OpTransferIn (tr_amount r))) (\<lambda>_.
       bindM (new_journal (''transfer:'' @ wa_public_id w @ '':'' @ tr_reference r) JournalTransfer (wa_product_id w) w) (\<lambda>j.
       post lim c (j\<lparr>jo_postings := [new_leg (wa_ledger_account_id w) Debit (tr_amount r) (wt_currency t),
                                     new_leg (wa_ledger_account_id v) Credit (tr_amount r) (wt_currency t)]\<rparr>)
         w Debit (tr_amount r) (Some (v, t, OpTransferIn)) [v]))))))"

record adjust_request =
  ar_wallet :: wallet
  ar_amount :: int
  ar_direction :: int
  ar_product_id :: int
  ar_reason_code :: string
  ar_memo :: string
  ar_reference :: string

definition adjust :: "limits \<Rightarrow> ctx \<Rightarrow> adjust_request \<Rightarrow> ('x estate_scheme, journal) action" where
  "adjust lim c r = (let w = ar_wallet r in
     if ar_reason_code r \<notin> set adjust_reasons then failM InvalidArgument
     else if ar_direction r \<noteq> Credit \<and> ar_direction r \<noteq> Debit then failM InvalidArgument
     else if wa_product_id w \<noteq> None \<and> wa_product_id w \<noteq> Some (ar_product_id r) then failM InvalidArgument
     else with_tx c (\<lambda>c.
       bindM (get_wallet_type_by_id (wa_wallet_type_id w)) (\<lambda>t.
       bindM (guardM (assert_allowed t w OpAdjust (ar_amount r))) (\<lambda>_.
       bindM (get_product_by_id (ar_product_id r)) (\<lambda>product.
       bindM (get_ledger_account_by_code (product_adjustments (pr_code product))) (\<lambda>adjustments.
       bindM (new_journal (''adjust:'' @ wa_public_id w @ '':'' @ ar_reference r) JournalAdjustment (Some (pr_id product)) w) (\<lambda>j.
       post lim c (j\<lparr>jo_reason_code := Some (ar_reason_code r), jo_memo := ar_memo r,
           jo_postings := [new_leg (la_id adjustments) (- ar_direction r) (ar_amount r) (wt_currency t),
                           new_leg (wa_ledger_account_id w) (ar_direction r) (ar_amount r) (wt_currency t)]\<rparr>)
         w (ar_direction r) (ar_amount r) None [])))))))"

subsection \<open>Holds\<close>

definition hold_external_id :: "wallet \<Rightarrow> string \<Rightarrow> string" where
  "hold_external_id w reference = ''hold:'' @ wa_public_id w @ '':'' @ reference"

record hold_request =
  hq_wallet :: wallet
  hq_amount :: int
  hq_reference :: string
  hq_expires_at :: int

definition hold_wallet :: "ctx \<Rightarrow> hold_request \<Rightarrow> ('x estate_scheme, hold) action" where
  "hold_wallet c r = (let w = hq_wallet r in
     bindM (new_id LedgerHoldId) (\<lambda>pid.
     with_tx c (\<lambda>c.
       bindM (get_wallet_type_by_id (wa_wallet_type_id w)) (\<lambda>t.
       bindM (guardM (assert_allowed t w OpHold (hq_amount r))) (\<lambda>_.
       place_hold c \<lparr>ho_id = 0, ho_public_id = pid, ho_external_id = hold_external_id w (hq_reference r),
         ho_account_id = wa_ledger_account_id w, ho_amount = hq_amount r, ho_currency = wt_currency t,
         ho_status = HoldActive, ho_expires_at = hq_expires_at r, ho_capture_journal_id = None,
         ho_captured_amount = None, ho_resolved_at = None, ho_created_at = 0, ho_updated_at = 0\<rparr>)))))"

definition capture_wallet_hold :: "ctx \<Rightarrow> spend_request \<Rightarrow> string \<Rightarrow> ('x estate_scheme, journal) action" where
  "capture_wallet_hold c r reference = (let w = sr_wallet r in with_tx c (\<lambda>c.
     bindM (get_wallet_type_by_id (wa_wallet_type_id w)) (\<lambda>t.
     bindM (get_ledger_account_by_code (sr_counter_account_code r)) (\<lambda>counter.
     bindM (new_journal (sr_external_id r) (sr_kind r) (Some (sr_product_id r)) w) (\<lambda>j.
     bindM (capture_hold c (hold_external_id w reference)
         (j\<lparr>jo_postings := [new_leg (wa_ledger_account_id w) Debit (sr_amount r) (wt_currency t),
                            new_leg (la_id counter) Credit (sr_amount r) (wt_currency t)]\<rparr>)) (\<lambda>(_, captured, j').
     if \<not> captured then returnM j'
     else bindM (emit_movements j' [w]) (\<lambda>_. returnM j')))))))"

definition release_wallet_hold :: "ctx \<Rightarrow> wallet \<Rightarrow> string \<Rightarrow> ('x estate_scheme, hold) action" where
  "release_wallet_hold c w reference = with_tx c (\<lambda>c. release_hold c (hold_external_id w reference))"

subsection \<open>Expiry\<close>

definition journal_id_of :: "string \<Rightarrow> 'x ledger_scheme \<Rightarrow> int" where
  "journal_id_of ext s = (case journal_by_external_id ext s of None \<Rightarrow> 0 | Some j \<Rightarrow> jo_id j)"

definition still_dormant :: "wallet \<Rightarrow> expiry_candidate \<Rightarrow> string \<Rightarrow> ('x estate_scheme, unit) action" where
  "still_dormant w x ext =
     bindM (getM (journal_id_of ext)) (\<lambda>jid.
     bindM (latest_posting_id (wa_ledger_account_id w) jid) (\<lambda>latest.
     bindM (get_balance (wa_ledger_account_id w)) (\<lambda>b.
     if latest \<noteq> xc_last_posting_id x \<or> ba_raw_balance b \<noteq> 0 \<or> ba_held b \<noteq> 0 then failM FailedPrecondition else returnM ())))"

definition expiry_memo :: "wallet_type \<Rightarrow> string" where
  "expiry_memo t = ''rolling expiry after '' @ int_digits (case wt_expiry_days t of None \<Rightarrow> 0 | Some d \<Rightarrow> d)
     @ '' days without activity''"

text \<open>The journal of the lapse, once the wallet, its type and the counter account are known.\<close>

definition lapse :: "ctx \<Rightarrow> expiry_candidate \<Rightarrow> wallet \<Rightarrow> wallet_type \<Rightarrow> ledger_account \<Rightarrow> ('x estate_scheme, journal) action" where
  "lapse c x w t counter =
     bindM (new_journal (''expiry:'' @ wa_public_id w @ '':'' @ int_digits (xc_last_posting_id x)) JournalExpiry (wa_product_id w) w) (\<lambda>j.
     bindM (tryM (post_journal_checked c
         (j\<lparr>jo_memo := expiry_memo t,
            jo_postings := [new_leg (wa_ledger_account_id w) Debit (xc_balance x) (wt_currency t),
                            new_leg (la_id counter) Credit (xc_balance x) (wt_currency t)]\<rparr>)
         (\<lambda>_. still_dormant w x (jo_external_id j)))) (\<lambda>r. case r of
       Inl e \<Rightarrow> if is_code e InsufficientBalance then failM FailedPrecondition else errM e
     | Inr (j', posted) \<Rightarrow> if \<not> posted then returnM j'
         else bindM (emit_movements j' [w]) (\<lambda>_. returnM j')))"

definition expire :: "ctx \<Rightarrow> expiry_candidate \<Rightarrow> ('x estate_scheme, journal) action" where
  "expire c x = with_tx c (\<lambda>c.
     bindM (get_wallet_by_public_id (xc_wallet_public_id x)) (\<lambda>w.
     case wa_product_id w of None \<Rightarrow> failM FailedPrecondition
     | Some pid \<Rightarrow>
     bindM (get_wallet_type_by_id (wa_wallet_type_id w)) (\<lambda>t.
     bindM (get_product_by_id pid) (\<lambda>product.
     bindM (get_ledger_account_by_code (if wt_fundable t then product_breakage (pr_code product)
         else product_promotions (pr_code product))) (\<lambda>counter.
     lapse c x w t counter)))))"

subsection \<open>Moves against one counter account\<close>

definition move :: "limits \<Rightarrow> ctx \<Rightarrow> spend_request \<Rightarrow> operation \<Rightarrow> int \<Rightarrow> int option \<Rightarrow> ('x estate_scheme, journal) action" where
  "move lim c r op dir reverses = (let w = sr_wallet r in with_tx c (\<lambda>c.
     bindM (get_wallet_type_by_id (wa_wallet_type_id w)) (\<lambda>t.
     bindM (guardM (assert_allowed t w op (sr_amount r))) (\<lambda>_.
     bindM (get_ledger_account_by_code (sr_counter_account_code r)) (\<lambda>counter.
     bindM (new_journal (sr_external_id r) (sr_kind r) (if sr_product_id r \<noteq> 0 then Some (sr_product_id r) else None) w) (\<lambda>j.
     post lim c (j\<lparr>jo_reverses_journal_id := reverses,
         jo_postings := [new_leg (wa_ledger_account_id w) dir (sr_amount r) (wt_currency t),
                         new_leg (la_id counter) (- dir) (sr_amount r) (wt_currency t)]\<rparr>)
       w dir (sr_amount r) None []))))))"

definition refund_out :: "limits \<Rightarrow> ctx \<Rightarrow> spend_request \<Rightarrow> ('x estate_scheme, journal) action" where
  "refund_out lim c r = move lim c r OpRefundOut Debit None"

definition restore :: "limits \<Rightarrow> ctx \<Rightarrow> spend_request \<Rightarrow> journal \<Rightarrow> ('x estate_scheme, journal) action" where
  "restore lim c r reverses = move lim c r OpRestore Credit (Some (jo_id reverses))"

definition chargeback_out :: "limits \<Rightarrow> ctx \<Rightarrow> spend_request \<Rightarrow> ('x estate_scheme, journal) action" where
  "chargeback_out lim c r = move lim c r OpChargeback Debit None"

definition withdraw_out :: "limits \<Rightarrow> ctx \<Rightarrow> spend_request \<Rightarrow> ('x estate_scheme, journal) action" where
  "withdraw_out lim c r = move lim c r OpWithdraw Debit None"

subsection \<open>Questions asked ahead of the money\<close>

definition check_op :: "operation \<Rightarrow> wallet \<Rightarrow> int \<Rightarrow> ('x estate_scheme, unit) action" where
  "check_op op w amount = bindM (get_wallet_type_by_id (wa_wallet_type_id w)) (\<lambda>t. guardM (assert_allowed t w op amount))"

definition check_fund :: "wallet \<Rightarrow> int \<Rightarrow> ('x estate_scheme, unit) action" where
  "check_fund = check_op OpFund"

definition check_spend :: "wallet \<Rightarrow> int \<Rightarrow> ('x estate_scheme, unit) action" where
  "check_spend = check_op OpSpend"

definition check_refund_in :: "wallet \<Rightarrow> int \<Rightarrow> ('x estate_scheme, unit) action" where
  "check_refund_in = check_op OpRefundIn"

definition wallet_type_for :: "wallet \<Rightarrow> ('x estate_scheme, wallet_type) action" where
  "wallet_type_for w = get_wallet_type_by_id (wa_wallet_type_id w)"

end
