(* ===== verification/WalletSafety.thy ===== *)
theory WalletSafety
  imports Wallet
begin

text \<open>
  The wallet engine keeps whatever the ledger's interface keeps: its
  operations change the ledger tables only through the posting engine.

  \<open>estate_ops\<close> is the ledger's interface on states that have the wallet
  tables, with the two writes outside the ledger; predicates of the ledger alone
  (\<open>estate_keeper\<close>) and those of other tables (\<open>estate_blind\<close>) satisfy it.
  \<open>wallet_step\<close> is one call of the engine, however it ends.
\<close>

locale estate_ops = ledger_ops I for I :: "'x estate_scheme \<Rightarrow> bool" +
  assumes keeps_event: "okp I (save_outbox_event e)"
    and keeps_new_wallet: "okp I (get_or_create_wallet w)"
begin

lemma keeps_emit_movements: "okp I (emit_movements j ws)"
  unfolding emit_movements_def emit_movement_def by (intro keeps free keeps_event)

lemma keeps_reads:
  "okp I (get_wallet_type_by_id i)" "okp I (get_product_by_id i)" "okp I (get_ledger_account_by_code x)"
  "okp I (get_wallet_by_public_id x)" "okp I (get_balance i)" "okp I (guardM g)" "okp I (scan_sum f)"
  "okp I (lock_customer i)" "okp I (latest_posting_id i k)" "okp I (sum_wallet_loads_since i k)"
  "okp I (customer_funded_balance i)" "okp I (customer_funded_loads_since i k)"
  "okp I (get_wallet i k)" "okp I (product_segment t)"
  by (auto simp: get_wallet_type_by_id_def get_product_by_id_def get_ledger_account_by_code_def get_wallet_by_public_id_def
      get_balance_def guardM_def scan_sum_def lock_customer_def latest_posting_id_def sum_wallet_loads_since_def
      customer_funded_balance_def customer_funded_loads_since_def get_wallet_def product_segment_def intro!: keeps split: option.splits)

lemma keeps_limits: "okp I (check_limits_after_posting lim lc)"
  unfolding check_limits_after_posting_def check_max_balance_def check_daily_load_def check_customer_limits_def
  by (intro keeps keeps_reads)

lemma keeps_wallet_post: "okp I (post lim c j w dir amount lc others)"
  unfolding post_def by (intro keeps keeps_post_checked keeps_limits keeps_emit_movements)

lemma keeps_new_journal: "okp I (new_journal ext kind p w)"
  unfolding new_journal_def by (intro keeps free)

lemmas engine_keeps = keeps keeps_reads keeps_wallet_post keeps_new_journal keeps_new_wallet keeps_emit_movements free
  safep_okp [OF keeps_get_or_create] keeps_place keeps_capture_one keeps_release

lemma keeps_open: "okp I (open_wallet c cust t)"
  unfolding open_wallet_def by (intro engine_keeps)

lemma keeps_grant: "okp I (grant lim c r)"
  unfolding grant_def Let_def by (intro engine_keeps)

lemma keeps_fund: "okp I (fund lim c r)"
  unfolding fund_def Let_def by (intro engine_keeps)

lemma keeps_spend: "okp I (spend lim c r)"
  unfolding spend_def Let_def by (intro engine_keeps)

lemma keeps_transfer: "okp I (transfer lim c r)"
  unfolding transfer_def Let_def by (intro engine_keeps)

lemma keeps_adjust: "okp I (adjust lim c a)"
  unfolding adjust_def Let_def by (intro engine_keeps)

lemma keeps_hold: "okp I (hold_wallet c h)"
  unfolding hold_wallet_def Let_def by (intro engine_keeps)

lemma keeps_capture_hold: "okp I (capture_wallet_hold c r x)"
  unfolding capture_wallet_hold_def Let_def by (intro engine_keeps)

lemma keeps_release_hold: "okp I (release_wallet_hold c w x)"
  unfolding release_wallet_hold_def by (intro engine_keeps)

lemma keeps_move: "okp I (move lim c r op dir reverses)"
  unfolding move_def Let_def by (intro engine_keeps)

lemma keeps_moves: "okp I (refund_out lim c r)" "okp I (restore lim c r j)" "okp I (chargeback_out lim c r)" "okp I (withdraw_out lim c r)"
  by (simp_all add: refund_out_def restore_def chargeback_out_def withdraw_out_def keeps_move)

lemma keeps_dormant: "okp I (still_dormant w x ext)"
  unfolding still_dormant_def by (intro keeps keeps_reads)

lemma keeps_lapse: "okp I (lapse c x w t counter)"
  unfolding lapse_def
  by (intro engine_keeps okp_bind_try keeps_post_checked keeps_dormant) (auto simp: act_simps intro!: engine_keeps split: if_splits)

lemma keeps_expire_wallet: "okp I (expire c x)"
  unfolding expire_def by (intro engine_keeps keeps_lapse)

text \<open>Outside of a transaction they keep it however they end.\<close>

lemma ended:
  "okp I m \<Longrightarrow> m s = (r, u) \<Longrightarrow> in_tx c \<longrightarrow> is_ok r \<Longrightarrow> I s \<Longrightarrow> (\<not> in_tx c \<Longrightarrow> safep I m) \<Longrightarrow> I u"
  by (cases "in_tx c"; cases r) (auto dest: okpD safepD)

lemmas safe_rules = safep_if safep_basic safep_with_tx [OF free] safep_bind safep_new_id [OF free] okp_bind_try keeps_post_checked

lemma safe_open: "\<not> in_tx c \<Longrightarrow> safep I (open_wallet c cust t)"
  unfolding open_wallet_def Let_def by (intro safe_rules engine_keeps)

lemma safe_grant: "\<not> in_tx c \<Longrightarrow> safep I (grant lim c r)"
  unfolding grant_def Let_def by (intro safe_rules engine_keeps)

lemma safe_fund: "\<not> in_tx c \<Longrightarrow> safep I (fund lim c r)"
  unfolding fund_def Let_def by (intro safe_rules engine_keeps)

lemma safe_spend: "\<not> in_tx c \<Longrightarrow> safep I (spend lim c r)"
  unfolding spend_def Let_def by (intro safe_rules engine_keeps)

lemma safe_transfer: "\<not> in_tx c \<Longrightarrow> safep I (transfer lim c r)"
  unfolding transfer_def Let_def by (intro safe_rules engine_keeps)

lemma safe_adjust: "\<not> in_tx c \<Longrightarrow> safep I (adjust lim c r)"
  unfolding adjust_def Let_def by (intro safe_rules engine_keeps)

lemma safe_hold: "\<not> in_tx c \<Longrightarrow> safep I (hold_wallet c h)"
  unfolding hold_wallet_def Let_def by (intro safe_rules engine_keeps)

lemma safe_capture_hold: "\<not> in_tx c \<Longrightarrow> safep I (capture_wallet_hold c r x)"
  unfolding capture_wallet_hold_def Let_def by (intro safe_rules engine_keeps)

lemma safe_release_hold: "\<not> in_tx c \<Longrightarrow> safep I (release_wallet_hold c w x)"
  unfolding release_wallet_hold_def Let_def by (intro safe_rules engine_keeps)

lemma safe_move: "\<not> in_tx c \<Longrightarrow> safep I (move lim c r op dir reverses)"
  unfolding move_def Let_def by (intro safe_rules engine_keeps)

lemma safe_expire: "\<not> in_tx c \<Longrightarrow> safep I (expire c x)"
  unfolding expire_def by (intro safe_rules engine_keeps keeps_lapse)

lemmas wallet_keeps = keeps_open keeps_grant keeps_fund keeps_spend keeps_transfer keeps_adjust keeps_hold
  keeps_capture_hold keeps_release_hold keeps_moves keeps_expire_wallet

end

locale estate_keeper = ledger_keeper I for I :: "'x estate_scheme \<Rightarrow> bool"

sublocale estate_keeper \<subseteq> estate_ops I
proof unfold_locales
  show "okp I (save_outbox_event e)" for e
    unfolding save_outbox_event_def by (intro keeps keeps_tables_ok) (simp add: same_ledger_def)
  show "okp I (get_or_create_wallet w)" for w
    unfolding get_or_create_wallet_def get_wallet_def by (intro keeps keeps_tables_ok) (simp add: same_ledger_def)
qed

locale estate_blind = ledger_blind I for I :: "'x estate_scheme \<Rightarrow> bool" +
  assumes blind_estate: "I s \<Longrightarrow> I (s\<lparr>outbox := o'\<rparr>)" "I s \<Longrightarrow> I (s\<lparr>wallets := ws\<rparr>)"

sublocale estate_blind \<subseteq> estate_ops I
proof unfold_locales
  show "okp I (save_outbox_event e)" for e
    unfolding save_outbox_event_def by (intro keeps okp_modify blind_estate)
  show "okp I (get_or_create_wallet w)" for w
    unfolding get_or_create_wallet_def get_wallet_def by (intro keeps okp_modify blind_estate)
qed

interpretation estate_books: estate_keeper ledger_inv
  by unfold_locales

interpretation estate_trail: estate_keeper "extends s" for s
  by unfold_locales

section \<open>Reachable estates\<close>

text \<open>
  One call of the engine, however it ends outside of a transaction; inside of one only a call that
  returned counts, since the transaction goes on with what it left only then.
\<close>

inductive wallet_step :: "'x estate_scheme \<Rightarrow> 'x estate_scheme \<Rightarrow> bool" where
  wallet_open: "open_wallet c cust t s = (r, u) \<Longrightarrow> in_tx c \<longrightarrow> is_ok r \<Longrightarrow> wallet_step s u"
| wallet_grant: "grant lim c g s = (r, u) \<Longrightarrow> in_tx c \<longrightarrow> is_ok r \<Longrightarrow> wallet_step s u"
| wallet_fund: "fund lim c f s = (r, u) \<Longrightarrow> in_tx c \<longrightarrow> is_ok r \<Longrightarrow> wallet_step s u"
| wallet_spend: "spend lim c x s = (r, u) \<Longrightarrow> in_tx c \<longrightarrow> is_ok r \<Longrightarrow> wallet_step s u"
| wallet_transfer: "transfer lim c x s = (r, u) \<Longrightarrow> in_tx c \<longrightarrow> is_ok r \<Longrightarrow> wallet_step s u"
| wallet_adjust: "adjust lim c x s = (r, u) \<Longrightarrow> in_tx c \<longrightarrow> is_ok r \<Longrightarrow> wallet_step s u"
| wallet_hold: "hold_wallet c h s = (r, u) \<Longrightarrow> in_tx c \<longrightarrow> is_ok r \<Longrightarrow> wallet_step s u"
| wallet_capture: "capture_wallet_hold c x ref s = (r, u) \<Longrightarrow> in_tx c \<longrightarrow> is_ok r \<Longrightarrow> wallet_step s u"
| wallet_release: "release_wallet_hold c w ref s = (r, u) \<Longrightarrow> in_tx c \<longrightarrow> is_ok r \<Longrightarrow> wallet_step s u"
| wallet_move: "move lim c x op dir reverses s = (r, u) \<Longrightarrow> in_tx c \<longrightarrow> is_ok r \<Longrightarrow> wallet_step s u"
| wallet_expire: "expire c x s = (r, u) \<Longrightarrow> in_tx c \<longrightarrow> is_ok r \<Longrightarrow> wallet_step s u"

context estate_ops
begin

lemma wallet_step_keeps: "wallet_step s u \<Longrightarrow> I s \<Longrightarrow> I u"
proof (induction rule: wallet_step.induct)
  case wallet_open
  then show ?case by (rule ended [OF keeps_open]) (rule safe_open)
next
  case wallet_grant
  then show ?case by (rule ended [OF keeps_grant]) (rule safe_grant)
next
  case wallet_fund
  then show ?case by (rule ended [OF keeps_fund]) (rule safe_fund)
next
  case wallet_spend
  then show ?case by (rule ended [OF keeps_spend]) (rule safe_spend)
next
  case wallet_transfer
  then show ?case by (rule ended [OF keeps_transfer]) (rule safe_transfer)
next
  case wallet_adjust
  then show ?case by (rule ended [OF keeps_adjust]) (rule safe_adjust)
next
  case wallet_hold
  then show ?case by (rule ended [OF keeps_hold]) (rule safe_hold)
next
  case wallet_capture
  then show ?case by (rule ended [OF keeps_capture_hold]) (rule safe_capture_hold)
next
  case wallet_release
  then show ?case by (rule ended [OF keeps_release_hold]) (rule safe_release_hold)
next
  case wallet_move
  then show ?case by (rule ended [OF keeps_move]) (rule safe_move)
next
  case wallet_expire
  then show ?case by (rule ended [OF keeps_expire_wallet]) (rule safe_expire)
qed

end

section \<open>An example estate\<close>

text \<open>One product with its accounts, a fundable and withdrawable wallet type, three customers and a funded wallet.\<close>

definition demo_type :: wallet_type where
  "demo_type = \<lparr>wt_id = 1, wt_public_id = ''wlt_t1'', wt_product_id = Some 1, wt_product_public_id = None, wt_scope = WalletScopeProduct,
     wt_code = ''MAIN'', wt_name = ''Main'', wt_currency = ''INR'', wt_fundable = True, wt_grantable = False, wt_withdrawable = True,
     wt_transferable = True, wt_refundable_to_source = True, wt_allow_negative = False, wt_expiry_policy = ExpiryRolling,
     wt_expiry_days = Some 30, wt_max_balance = Some 1000, wt_max_txn_amount = Some 800, wt_daily_load_limit = Some 900,
     wt_min_withdrawal_amount = Some 100, wt_withdrawal_approval_threshold = Some 500, wt_daily_withdrawal_limit = Some 600,
     wt_status = WalletTypeActive, wt_withdrawable_approved_by = Some ''u'', wt_withdrawable_approved_at = Some 0,
     wt_withdrawable_approval_ref = Some ''r'', wt_created_at = 0, wt_updated_at = 0\<rparr>"

definition demo_customer :: "int \<Rightarrow> string \<Rightarrow> customer" where
  "demo_customer i x = \<lparr>cu_id = i, cu_public_id = x, cu_external_ref = x, cu_status = CustomerActive, cu_merged_into = None,
     cu_created_at = 0, cu_updated_at = 0\<rparr>"

definition demo_shop :: estate where
  "demo_shop = \<lparr>clock = 100000, uuid_gen = (\<lambda>n. replicate n (CHR ''a'') @ ''b''), uuid_next = 0, calls = [], products = [demo_product],
     accounts = [], journals = [], postings = [], balances = [], holds = [], check_runs = [],
     customers = [demo_customer 1 ''c1'', demo_customer 2 ''c2'', demo_customer 3 ''c3''], wallet_types = [demo_type], wallets = [], outbox = []\<rparr>"

definition with_accounts :: "(string \<times> account_type) list \<Rightarrow> 'x ledger_scheme \<Rightarrow> 'x ledger_scheme" where
  "with_accounts xs s = foldl (\<lambda>s (code, t). snd (insert_ledger_account tx (demo_account code t True) s)) s xs"

definition demo_stocked :: estate where
  "demo_stocked = with_accounts [(psp_receivable ''fake'', AccountAsset), (product_breakage ''shop'', AccountIncome),
     (payouts_in_transit, AccountLiability)] demo_shop"

definition demo_opened :: estate where
  "demo_opened = snd (open_wallet no_tx (demo_customer 3 ''c3'') demo_type (snd (open_wallet no_tx (demo_customer 2 ''c2'') demo_type
     (snd (open_wallet no_tx (demo_customer 1 ''c1'') demo_type demo_stocked)))))"

definition demo_wallet :: "nat \<Rightarrow> wallet" where
  "demo_wallet k = wallets demo_opened ! k"

definition demo_limits :: limits where
  "demo_limits = \<lparr>max_customer_balance = 2000, max_customer_daily_load = 1500\<rparr>"

definition demo_fund :: fund_request where
  "demo_fund = \<lparr>fr_wallet = demo_wallet 0, fr_amount = 500, fr_provider = ''fake'', fr_product_id = 1, fr_external_id = ''topup:1''\<rparr>"

definition demo_loaded :: estate where
  "demo_loaded = snd (fund demo_limits no_tx demo_fund demo_opened)"

lemma ledger_inv_with_accounts: "ledger_inv s \<Longrightarrow> ledger_inv (with_accounts xs s)"
proof (induction xs arbitrary: s)
  case (Cons x xs)
  have "ledger_inv (snd (insert_ledger_account tx a s))" for a
    by (rule safep_run [OF books.keeps_account Cons.prems])
  then show ?case using Cons.IH by (simp add: with_accounts_def split: prod.splits)
qed (simp add: with_accounts_def)

lemma demo_wallet_runs:
  "is_ok (fst (open_wallet no_tx (demo_customer 1 ''c1'') demo_type demo_stocked))"
  "is_ok (fst (fund demo_limits no_tx demo_fund demo_opened))"
  by code_simp+

lemma demo_shop_inv: "ledger_inv demo_shop" "ledger_inv demo_stocked" "ledger_inv demo_opened" "ledger_inv demo_loaded"
proof -
  show s: "ledger_inv demo_shop" by (rule ledger_start_inv) (simp add: ledger_start_def demo_shop_def)
  then show t: "ledger_inv demo_stocked" unfolding demo_stocked_def by (rule ledger_inv_with_accounts)
  then show o: "ledger_inv demo_opened"
    unfolding demo_opened_def by (intro safep_run [OF estate_books.safe_open]) (simp_all add: no_tx_def)
  then show "ledger_inv demo_loaded"
    unfolding demo_loaded_def by (intro safep_run [OF estate_books.safe_fund]) (simp_all add: no_tx_def)
qed

end
