(* ===== verification/WalletProps.thy ===== *)
theory WalletProps
  imports WalletSafety
begin

text \<open>
  What single wallet operations do: posting with its events and limits, cashing
  out, expiry, transfers, opening a wallet, and following merged customers.
\<close>

section \<open>Reading\<close>

lemma reads_queries [read_only]:
  "reads (get_wallet_type_by_id i)" "reads (get_product_by_id i)" "reads (get_ledger_account_by_code x)"
  "reads (get_wallet_by_public_id x)" "reads (get_balance i)" "reads (guardM g)" "reads (scan_sum f)" "reads (lock_customer i)"
  unfolding get_wallet_type_by_id_def get_product_by_id_def get_ledger_account_by_code_def get_wallet_by_public_id_def
    get_balance_def guardM_def scan_sum_def lock_customer_def by (intro read_only)+

lemma reads_limits: "reads (check_limits_after_posting lim lc)"
  unfolding check_limits_after_posting_def check_max_balance_def check_daily_load_def check_customer_limits_def
    sum_wallet_loads_since_def customer_funded_balance_def customer_funded_loads_since_def
  by (intro read_only)

lemma reads_dormant: "reads (still_dormant w x ext)"
  unfolding still_dormant_def latest_posting_id_def by (intro read_only)

section \<open>Events\<close>

text \<open>The legs of a journal that move a wallet, wallet by wallet.\<close>

definition movements :: "journal \<Rightarrow> wallet list \<Rightarrow> (wallet \<times> posting) list" where
  "movements j ws = concat (map (\<lambda>w. map (Pair w) (filter (\<lambda>p. po_account_id p = wa_ledger_account_id w) (jo_postings j))) ws)"

definition movement_event :: "journal \<Rightarrow> wallet \<times> posting \<Rightarrow> string \<times> string \<times> payload" where
  "movement_event j wp = (case wp of (w, p) \<Rightarrow>
     (if po_direction p = Debit then topic_wallet_debited else topic_wallet_credited, wa_public_id w, wallet_movement j w p))"

definition told :: "outbox_event \<Rightarrow> string \<times> string \<times> payload" where
  "told e = (ev_topic e, ev_aggregate_id e, ev_payload e)"

text \<open>\<open>t\<close> differs from \<open>s\<close> by these events only (and by fresh identifiers).\<close>

definition tells :: "'x estate_scheme \<Rightarrow> (string \<times> string \<times> payload) list \<Rightarrow> 'x estate_scheme \<Rightarrow> bool" where
  "tells s evs t \<longleftrightarrow> same_ledger s t \<and> clock t = clock s \<and> customers t = customers s \<and> wallet_types t = wallet_types s \<and>
     wallets t = wallets s \<and> (\<exists>new. outbox t = outbox s @ new \<and> map told new = evs \<and> (\<forall>e\<in>set new. ev_published_at e = None))"

lemma tells_refl: "tells s [] s"
  by (simp add: tells_def same_ledger_def)

lemma tells_trans: "tells s xs t \<Longrightarrow> tells t ys u \<Longrightarrow> tells s (xs @ ys) u"
  unfolding tells_def same_ledger_def by fastforce

lemma emit_movement_run:
  "\<exists>t. emit_movement j w p s = (Ok (), t) \<and>
     tells s (if po_account_id p = wa_ledger_account_id w then [movement_event j (w, p)] else []) t"
  by (simp add: emit_movement_def save_outbox_event_def new_id_def bindM_def act_simps tells_def same_ledger_def told_def
      movement_event_def new_event_def)

lemma emit_legs_run:
  "\<exists>t. for_each ps (emit_movement j w) s = (Ok (), t) \<and>
     tells s (map (movement_event j) (map (Pair w) (filter (\<lambda>p. po_account_id p = wa_ledger_account_id w) ps))) t"
proof (induction ps arbitrary: s)
  case Nil
  then show ?case by (simp add: act_simps tells_refl)
next
  case (Cons p ps)
  obtain t where t: "emit_movement j w p s = (Ok (), t)"
    "tells s (if po_account_id p = wa_ledger_account_id w then [movement_event j (w, p)] else []) t" using emit_movement_run by blast
  obtain u where u: "for_each ps (emit_movement j w) t = (Ok (), u)"
    "tells t (map (movement_event j) (map (Pair w) (filter (\<lambda>p. po_account_id p = wa_ledger_account_id w) ps))) u" using Cons.IH by blast
  then show ?case using tells_trans [OF t(2) u(2)] t(1)
    by (cases "po_account_id p = wa_ledger_account_id w") (simp_all add: bindM_def)
qed

lemma emit_movements_run: "\<exists>t. emit_movements j ws s = (Ok (), t) \<and> tells s (map (movement_event j) (movements j ws)) t"
  unfolding emit_movements_def
proof (induction ws arbitrary: s)
  case Nil
  then show ?case by (simp add: act_simps tells_refl movements_def)
next
  case (Cons w ws)
  obtain t where t: "for_each (jo_postings j) (emit_movement j w) s = (Ok (), t)"
    "tells s (map (movement_event j) (map (Pair w) (filter (\<lambda>p. po_account_id p = wa_ledger_account_id w) (jo_postings j)))) t"
    using emit_legs_run by blast
  obtain u where u: "for_each ws (\<lambda>w. for_each (jo_postings j) (emit_movement j w)) t = (Ok (), u)"
    "tells t (map (movement_event j) (movements j ws)) u" using Cons.IH by blast
  show ?case using tells_trans [OF t(2) u(2)] t(1) u(1) by (simp add: bindM_def movements_def)
qed

section \<open>Posting\<close>

lemma post_journal_checked_Ok:
  assumes core: "core_inv s" and run: "post_journal_checked c j check s = (Ok (j', posted), s')" and pure: "reads (check c)"
  obtains (replayed) row where "\<not> posted" "s' = s" "journal_by_external_id (jo_external_id j) s = Some row"
      "j' = row\<lparr>jo_postings := list_postings (jo_id row) s\<rparr>"
    | (booked) rows accts where "posted" "booking s j [] rows accts" "j' = (stamped s j)\<lparr>jo_postings := rows\<rparr>"
      "s' = booked s (journal_row (stamped s j)) rows accts" "check c s' = (Ok (), s')"
proof -
  have run': "post_journal_opts c j [] (Some check) s = (Ok (j', posted), s')" using run by (simp add: post_journal_checked_def)
  from core _ run' show ?thesis
  proof (rule post_journal_opts_Ok)
    fix rows accts
    assume "posted" "booking s j [] rows accts" "j' = (stamped s j)\<lparr>jo_postings := rows\<rparr>"
      and chk: "(case Some check of None \<Rightarrow> returnM () | Some f \<Rightarrow> f c) (booked s (journal_row (stamped s j)) rows accts) = (Ok (), s')"
    moreover have "s' = booked s (journal_row (stamped s j)) rows accts" using readsD [OF pure, of "booked s (journal_row (stamped s j)) rows accts"] chk by simp
    ultimately show ?thesis using booked [of rows accts] by simp
  qed (use replayed in \<open>auto simp: journal_by_external_id_def\<close>)
qed

lemma post_Ok:
  assumes core: "core_inv s" and run: "post lim c j w dir amount lc others s = (Ok j', s')"
  obtains (replayed) row where "s' = s" "journal_by_external_id (jo_external_id j) s = Some row"
      "j' = row\<lparr>jo_postings := list_postings (jo_id row) s\<rparr>"
      "\<exists>p\<in>set (jo_postings j'). po_account_id p = wa_ledger_account_id w \<and> po_direction p = dir \<and> po_amount p = amount"
    | (booked) rows accts t where "booking s j [] rows accts" "j' = (stamped s j)\<lparr>jo_postings := rows\<rparr>"
      "t = booked s (journal_row (stamped s j)) rows accts" "check_limits_after_posting lim lc t = (Ok (), t)"
      "tells t (map (movement_event j') (movements j' (w # others))) s'"
proof -
  obtain j1 posted t where pj: "post_journal_checked c j (\<lambda>_. check_limits_after_posting lim lc) s = (Ok (j1, posted), t)"
    and rest: "(if posted then bindM (emit_movements j1 (w # others)) (\<lambda>_. returnM j1)
       else if \<exists>p\<in>set (jo_postings j1). po_account_id p = wa_ledger_account_id w \<and> po_direction p = dir \<and> po_amount p = amount
       then returnM j1 else failM AlreadyExists) t = (Ok j', s')"
    using run by (auto simp: post_def bind_Ok_iff)
  from core pj reads_limits show ?thesis
  proof (cases rule: post_journal_checked_Ok)
    case (replayed row)
    then show ?thesis using rest that(1) [of row] by (auto simp: act_simps split: if_splits)
  next
    case (booked rows accts)
    obtain u where u: "emit_movements j1 (w # others) t = (Ok (), u)" "tells t (map (movement_event j1) (movements j1 (w # others))) u"
      using emit_movements_run by blast
    then have "j' = j1" "s' = u" using rest booked(1) by (simp_all add: bindM_def act_simps)
    then show ?thesis using that(2) [of rows accts t] booked u(2) by simp
  qed
qed

lemma tells_balance: "tells s evs t \<Longrightarrow> balance_of i t = balance_of i s"
  by (simp add: tells_def same_ledger_def balance_of_def)

lemma post_books:
  assumes "ledger_inv s" "post lim c j w dir amount lc others s = (Ok j', s')" "journal_by_external_id (jo_external_id j) s = None"
  shows "journals s' = journals s @ [journal_row (stamped s j)] \<and>
    map leg_of (jo_postings j') = map leg_of (jo_postings j) \<and> postings s' = postings s @ jo_postings j' \<and>
    (\<forall>i b. balance_of i s = Some b \<longrightarrow> (\<exists>b'. balance_of i s' = Some b' \<and> ba_held b' = ba_held b \<and>
       ba_raw_balance b' = wrap64 (ba_raw_balance b + acct_sum i (jo_postings j)))) \<and>
    (\<exists>evs. outbox s' = outbox s @ evs \<and> map told evs = map (movement_event j') (movements j' (w # others)))"
proof -
  have core: "core_inv s" using assms(1) by (simp add: ledger_inv_def)
  from core assms(2) show ?thesis
  proof (cases rule: post_Ok)
    case (replayed row)
    then show ?thesis using assms(3) by simp
  next
    case (booked rows accts t)
    have bal: "\<exists>b'. balance_of i s' = Some b' \<and> ba_held b' = ba_held b \<and>
        ba_raw_balance b' = wrap64 (ba_raw_balance b + acct_sum i (jo_postings j))" if "balance_of i s = Some b" for i b
      using booked_balance [OF core booked(1) that, of "journal_row (stamped s j)"] tells_balance [OF booked(5)] booked(3) by auto
    have "journals s' = journals t" "postings s' = postings t" "outbox t = outbox s"
      using booked(5) booked(3) by (simp_all add: tells_def same_ledger_def booked_def)
    moreover have "\<exists>evs. outbox s' = outbox t @ evs \<and> map told evs = map (movement_event j') (movements j' (w # others))"
      using booked(5) by (auto simp: tells_def)
    ultimately show ?thesis using bal booked(2,3) booking_rows(1) [OF booked(1)] by simp
  qed
qed

text \<open>
  C21. Posting for a wallet moves money and tells about it, or does neither: a call that returns either
  found the external id taken by a journal with the wallet's own leg, and changed nothing, or it booked
  the journal's legs and wrote one event per leg of a wallet it names, in order, in the same transaction.
\<close>

theorem post_moves_and_tells:
  assumes "ledger_inv s" "post lim c j w dir amount lc others s = (Ok j', s')"
  shows "(\<exists>row. journal_by_external_id (jo_external_id j) s = Some row \<and> jo_id j' = jo_id row \<and> s' = s \<and>
       (\<exists>p\<in>set (jo_postings j'). po_account_id p = wa_ledger_account_id w \<and> po_direction p = dir \<and> po_amount p = amount))
    \<or> (journal_by_external_id (jo_external_id j) s = None \<and> journals s' = journals s @ [journal_row (stamped s j)] \<and>
       map leg_of (jo_postings j') = map leg_of (jo_postings j) \<and> postings s' = postings s @ jo_postings j' \<and>
       (\<forall>i b. balance_of i s = Some b \<longrightarrow> (\<exists>b'. balance_of i s' = Some b' \<and> ba_held b' = ba_held b \<and>
          ba_raw_balance b' = wrap64 (ba_raw_balance b + acct_sum i (jo_postings j)))) \<and>
       (\<exists>evs. outbox s' = outbox s @ evs \<and> map told evs = map (movement_event j') (movements j' (w # others))))"
proof (cases "journal_by_external_id (jo_external_id j) s")
  case None
  with post_books [OF assms this] show ?thesis by blast
next
  case (Some row)
  have "core_inv s" using assms(1) by (simp add: ledger_inv_def)
  from this assms(2) show ?thesis
  proof (cases rule: post_Ok)
    case (booked rows accts t)
    then show ?thesis using Some by (simp add: booking_def journal_by_external_id_def)
  qed simp
qed

text \<open>A top-up of 500 posted for the first wallet.\<close>

definition demo_topup :: journal where
  "demo_topup = demo_journal ''t1'' [demo_leg 1 1 500, demo_leg 4 (- 1) 500]"

definition demo_post :: "estate \<Rightarrow> journal outcome \<times> estate" where
  "demo_post = post demo_limits tx demo_topup (demo_wallet 0) Credit 500 (Some (demo_wallet 0, demo_type, OpFund)) []"

lemma demo_post_run: "post demo_limits tx demo_topup (demo_wallet 0) Credit 500 (Some (demo_wallet 0, demo_type, OpFund)) [] demo_opened
    = (Ok (the (value_of (fst (demo_post demo_opened)))), snd (demo_post demo_opened))"
  unfolding demo_post_def by (rule is_ok_run) code_simp

lemma demo_topup_new: "journal_by_external_id (jo_external_id demo_topup) demo_opened = None"
  by code_simp

lemma post_moves_and_tells_witness:
  "ba_raw_balance (the (balance_of 4 (snd (demo_post demo_opened)))) = - 500 \<and> journals (snd (demo_post demo_opened)) \<noteq> []"
proof -
  have b: "balance_of 4 demo_opened = Some (the (balance_of 4 demo_opened))" "ba_raw_balance (the (balance_of 4 demo_opened)) = 0" by code_simp+
  have sum: "acct_sum 4 (jo_postings demo_topup) = - 500" by code_simp
  have w: "wrap64 (- 500) = - 500" by (simp add: wrap64_def)
  from post_moves_and_tells [OF demo_shop_inv(3) demo_post_run] demo_topup_new
  have new: "journals (snd (demo_post demo_opened)) = journals demo_opened @ [journal_row (stamped demo_opened demo_topup)]"
    and moved: "\<And>i b. balance_of i demo_opened = Some b \<Longrightarrow> \<exists>b'. balance_of i (snd (demo_post demo_opened)) = Some b' \<and>
      ba_raw_balance b' = wrap64 (ba_raw_balance b + acct_sum i (jo_postings demo_topup))"
    by fastforce+
  show ?thesis using moved [OF b(1)] b(2) sum w new by auto
qed

section \<open>Limits\<close>

lemma scan_sum_Ok: "scan_sum f s = (Ok n, s') \<longleftrightarrow> n = f s \<and> in64 n \<and> s' = s"
  by (auto simp: scan_sum_def bind_Ok_iff act_simps)

lemma limits_Ok:
  assumes "check_limits_after_posting lim (Some (w, t, op)) s = (Ok (), s')" "op_credits op"
  shows "(\<forall>m. wt_max_balance t = Some m \<longrightarrow> (\<exists>b. balance_of (wa_ledger_account_id w) s = Some b \<and> natural b AccountLiability \<le> m))"
    "(\<forall>m. wt_daily_load_limit t = Some m \<and> op_loads op \<longrightarrow> loads_of s (wa_ledger_account_id w) (start_of_day (clock s)) \<le> m)"
    "wt_fundable t \<Longrightarrow> 0 < max_customer_balance lim \<Longrightarrow>
       sum_list (map (owed s) (funded_wallets s (wa_customer_id w))) \<le> max_customer_balance lim"
    "wt_fundable t \<Longrightarrow> 0 < max_customer_daily_load lim \<Longrightarrow> op_loads op \<Longrightarrow>
       sum_list (map (\<lambda>v. loads_of s (wa_ledger_account_id v) (start_of_day (clock s))) (funded_wallets s (wa_customer_id w)))
         \<le> max_customer_daily_load lim"
proof -
  obtain s1 s2 s3 where max: "check_max_balance w t s = (Ok (), s1)"
    and day: "check_daily_load w t op (start_of_day (clock s1)) s1 = (Ok (), s2)"
    and cust: "check_customer_limits lim w t op (start_of_day (clock s1)) s2 = (Ok (), s')"
    using assms by (auto simp: check_limits_after_posting_def bind_Ok_iff act_simps)
  have s1: "s1 = s" using max by (auto simp: check_max_balance_def get_balance_def some_or_def bind_Ok_iff act_simps split: option.splits if_splits)
  have s2: "s2 = s" using day by (auto simp: s1 check_daily_load_def sum_wallet_loads_since_def bind_Ok_iff scan_sum_Ok act_simps split: option.splits if_splits)
  show "\<forall>m. wt_max_balance t = Some m \<longrightarrow> (\<exists>b. balance_of (wa_ledger_account_id w) s = Some b \<and> natural b AccountLiability \<le> m)"
    using max by (auto simp: check_max_balance_def get_balance_def some_or_def bind_Ok_iff act_simps split: option.splits if_splits)
  show "\<forall>m. wt_daily_load_limit t = Some m \<and> op_loads op \<longrightarrow> loads_of s (wa_ledger_account_id w) (start_of_day (clock s)) \<le> m"
    using day by (auto simp: s1 check_daily_load_def sum_wallet_loads_since_def bind_Ok_iff scan_sum_Ok act_simps split: if_splits)
  note cust = cust [unfolded s1 s2 check_customer_limits_def lock_customer_def customer_funded_balance_def customer_funded_loads_since_def]
  show "wt_fundable t \<Longrightarrow> 0 < max_customer_balance lim \<Longrightarrow>
       sum_list (map (owed s) (funded_wallets s (wa_customer_id w))) \<le> max_customer_balance lim"
    using cust by (auto simp: bind_Ok_iff scan_sum_Ok act_simps split: if_splits option.splits)
  show "wt_fundable t \<Longrightarrow> 0 < max_customer_daily_load lim \<Longrightarrow> op_loads op \<Longrightarrow>
       sum_list (map (\<lambda>v. loads_of s (wa_ledger_account_id v) (start_of_day (clock s))) (funded_wallets s (wa_customer_id w)))
         \<le> max_customer_daily_load lim"
    using cust by (auto simp: bind_Ok_iff scan_sum_Ok act_simps split: if_splits option.splits)
qed

lemma loads_same: "same_ledger s t \<Longrightarrow> loads_of t i since = loads_of s i since"
  by (simp add: loads_of_def is_load_def same_ledger_def)

lemma tells_wallets:
  assumes "tells s evs t"
  shows "funded_wallets t cust = funded_wallets s cust"
    "map (owed t) (funded_wallets s cust) = map (owed s) (funded_wallets s cust)"
    "map (\<lambda>v. loads_of t (wa_ledger_account_id v) since) (funded_wallets s cust) =
     map (\<lambda>v. loads_of s (wa_ledger_account_id v) since) (funded_wallets s cust)"
proof -
  show "funded_wallets t cust = funded_wallets s cust"
    using assms by (simp add: funded_wallets_def fundable_type_def tells_def)
  show "map (owed t) (funded_wallets s cust) = map (owed s) (funded_wallets s cust)"
    using tells_balance [OF assms] by (simp add: owed_def)
  have "same_ledger s t" using assms by (simp add: tells_def)
  then show "map (\<lambda>v. loads_of t (wa_ledger_account_id v) since) (funded_wallets s cust) =
     map (\<lambda>v. loads_of s (wa_ledger_account_id v) since) (funded_wallets s cust)"
    by (simp add: loads_same)
qed

text \<open>
  C22. Limits hold on what is committed: when a credit that had not been posted before returns, the wallet's balance
  after it is within the type's maximum, the loads of the Indian day within the daily limit, and across
  all fundable wallets of the customer the balance and the day's loads are within the personal caps.
\<close>

theorem limits_hold_after_credit:
  assumes "ledger_inv s" "post lim c j w dir amount (Some (w, t, op)) others s = (Ok j', s')" "op_credits op"
    "journal_by_external_id (jo_external_id j) s = None"
  shows "(\<forall>m. wt_max_balance t = Some m \<longrightarrow> (\<exists>b. balance_of (wa_ledger_account_id w) s' = Some b \<and> natural b AccountLiability \<le> m)) \<and>
    (\<forall>m. wt_daily_load_limit t = Some m \<and> op_loads op \<longrightarrow> loads_of s' (wa_ledger_account_id w) (start_of_day (clock s')) \<le> m) \<and>
    (wt_fundable t \<and> 0 < max_customer_balance lim \<longrightarrow>
       sum_list (map (owed s') (funded_wallets s' (wa_customer_id w))) \<le> max_customer_balance lim) \<and>
    (wt_fundable t \<and> 0 < max_customer_daily_load lim \<and> op_loads op \<longrightarrow>
       sum_list (map (\<lambda>v. loads_of s' (wa_ledger_account_id v) (start_of_day (clock s'))) (funded_wallets s' (wa_customer_id w)))
         \<le> max_customer_daily_load lim)"
proof -
  have core: "core_inv s" using assms(1) by (simp add: ledger_inv_def)
  from core assms(2) show ?thesis
  proof (cases rule: post_Ok)
    case (replayed row)
    then show ?thesis using assms(4) by simp
  next
    case (booked rows accts u)
    have "clock s' = clock u" "same_ledger u s'" using booked(5) by (simp_all add: tells_def)
    then show ?thesis
      using limits_Ok [OF booked(4) assms(3)] tells_balance [OF booked(5)]
      by (simp add: tells_wallets [OF booked(5)] loads_same)
  qed
qed

lemma limits_hold_after_credit_witness:
  "\<exists>b. balance_of 4 (snd (demo_post demo_opened)) = Some b \<and> natural b AccountLiability \<le> 1000"
proof -
  have "wt_max_balance demo_type = Some 1000" "wa_ledger_account_id (demo_wallet 0) = 4" by code_simp+
  then show ?thesis
    using limits_hold_after_credit [OF demo_shop_inv(3) demo_post_run _ demo_topup_new] by (auto simp: op_credits_def)
qed

section \<open>Cashing out\<close>

lemma guard_Ok: "guardM g s = (Ok (), s') \<longleftrightarrow> g = None \<and> s' = s"
  by (auto simp: guardM_def act_simps split: option.splits)

lemma get_type_Ok: "get_wallet_type_by_id i s = (Ok t, s') \<longleftrightarrow>
    s' = s \<and> (\<exists>row. find_row wt_id i (wallet_types s) = Some row \<and> t = read_wallet_type s row)"
  by (auto simp: get_wallet_type_by_id_def some_or_def bind_Ok_iff act_simps split: option.splits)

lemma read_type_simps [simp]:
  "wt_fundable (read_wallet_type s t) = wt_fundable t" "wt_grantable (read_wallet_type s t) = wt_grantable t"
  "wt_withdrawable (read_wallet_type s t) = wt_withdrawable t" "wt_transferable (read_wallet_type s t) = wt_transferable t"
  "wt_min_withdrawal_amount (read_wallet_type s t) = wt_min_withdrawal_amount t" "wt_id (read_wallet_type s t) = wt_id t"
  "wt_max_txn_amount (read_wallet_type s t) = wt_max_txn_amount t" "wt_currency (read_wallet_type s t) = wt_currency t"
  "wt_status (read_wallet_type s t) = wt_status t"
  by (simp_all add: read_wallet_type_def)

lemma get_code_Ok: "get_ledger_account_by_code x s = (Ok a, s') \<longleftrightarrow> s' = s \<and> account_by_code x s = Some a"
  by (auto simp: get_ledger_account_by_code_def some_or_def bind_Ok_iff act_simps split: option.splits)

lemma new_journal_run: "new_journal ext kind p w s = (Ok j, s') \<longleftrightarrow>
    s' = s\<lparr>uuid_next := Suc (uuid_next s)\<rparr> \<and> j = \<lparr>jo_id = 0, jo_public_id = make_id LedgerJournalId (uuid_gen s (uuid_next s)),
      jo_external_id = ext, jo_kind = kind, jo_product_id = p,
      jo_source_kind = Some ''wallet'', jo_source_id = Some (wa_public_id w), jo_reverses_journal_id = None,
      jo_memo = [], jo_reason_code = None, jo_posted_at = 0, jo_postings = [], jo_product_public_id = None,
      jo_reverses_journal_public_id = None, jo_created_at = 0\<rparr>"
  by (auto simp: new_journal_def new_id_def bind_Ok_iff act_simps)

lemma move_Ok:
  assumes "move lim c r op dir reverses s = (Ok j', s')"
  obtains row counter j where "find_row wt_id (wa_wallet_type_id (sr_wallet r)) (wallet_types s) = Some row"
    "assert_allowed (read_wallet_type s row) (sr_wallet r) op (sr_amount r) = None"
    "account_by_code (sr_counter_account_code r) s = Some counter"
    "jo_external_id j = sr_external_id r"
    "jo_postings j = [new_leg (wa_ledger_account_id (sr_wallet r)) dir (sr_amount r) (wt_currency row),
                      new_leg (la_id counter) (- dir) (sr_amount r) (wt_currency row)]"
    "post lim (c\<lparr>in_tx := True\<rparr>) j (sr_wallet r) dir (sr_amount r) None [] (s\<lparr>uuid_next := Suc (uuid_next s)\<rparr>) = (Ok j', s')"
proof -
  obtain row counter j0 s1 where a: "find_row wt_id (wa_wallet_type_id (sr_wallet r)) (wallet_types s) = Some row"
    "assert_allowed (read_wallet_type s row) (sr_wallet r) op (sr_amount r) = None"
    "account_by_code (sr_counter_account_code r) s = Some counter"
    and new: "new_journal (sr_external_id r) (sr_kind r) (if sr_product_id r \<noteq> 0 then Some (sr_product_id r) else None) (sr_wallet r) s = (Ok j0, s1)"
    and post: "post lim (c\<lparr>in_tx := True\<rparr>) (j0\<lparr>jo_reverses_journal_id := reverses,
         jo_postings := [new_leg (wa_ledger_account_id (sr_wallet r)) dir (sr_amount r) (wt_currency row),
                         new_leg (la_id counter) (- dir) (sr_amount r) (wt_currency row)]\<rparr>)
       (sr_wallet r) dir (sr_amount r) None [] s1 = (Ok j', s')"
    using assms unfolding move_def Let_def with_tx_Ok
    by (auto simp: bind_Ok_iff get_type_Ok guard_Ok get_code_Ok)
  show ?thesis
    by (rule that [OF a, of "j0\<lparr>jo_reverses_journal_id := reverses,
         jo_postings := [new_leg (wa_ledger_account_id (sr_wallet r)) dir (sr_amount r) (wt_currency row),
                         new_leg (la_id counter) (- dir) (sr_amount r) (wt_currency row)]\<rparr>"])
      (use new post in \<open>auto simp: new_journal_run\<close>)
qed

lemma uuid_ledger_inv [simp]: "ledger_inv (s\<lparr>uuid_next := n\<rparr>) = ledger_inv s"
  by (rule env_free_uuid) (rule ledger_only_env_free, rule ledger_only_inv)

lemma uuid_simps [simp]:
  "balance_of i (s\<lparr>uuid_next := n\<rparr>) = balance_of i s"
  "journal_by_external_id x (s\<lparr>uuid_next := n\<rparr>) = journal_by_external_id x s"
  by (simp_all add: balance_of_def journal_by_external_id_def)

text \<open>
  C23. Cashing out: a withdrawal leaves a wallet only if its type is withdrawable, the wallet is active and
  the amount is positive, at least the type's minimum and at most its limit per transaction; when its external id
  is new the wallet's account is debited by exactly the amount and the counter account credited with it,
  and exactly one wallet.debited event says so.
\<close>

theorem withdraw_out_gated:
  assumes "ledger_inv s" "withdraw_out lim c r s = (Ok j', s')"
    "journal_by_external_id (sr_external_id r) s = None"
    "\<forall>a. account_by_code (sr_counter_account_code r) s = Some a \<longrightarrow> la_id a \<noteq> wa_ledger_account_id (sr_wallet r)"
  shows "\<exists>t. find_row wt_id (wa_wallet_type_id (sr_wallet r)) (wallet_types s) = Some t \<and> wt_withdrawable t \<and>
    wa_status (sr_wallet r) = WalletActive \<and> 0 < sr_amount r \<and>
    \<not> below (sr_amount r) (wt_min_withdrawal_amount t) \<and> \<not> above (sr_amount r) (wt_max_txn_amount t) \<and>
    (\<forall>b. balance_of (wa_ledger_account_id (sr_wallet r)) s = Some b \<longrightarrow>
      (\<exists>b'. balance_of (wa_ledger_account_id (sr_wallet r)) s' = Some b' \<and>
         ba_raw_balance b' = wrap64 (ba_raw_balance b + sr_amount r))) \<and>
    (\<exists>e. outbox s' = outbox s @ [e] \<and> ev_topic e = topic_wallet_debited \<and> ev_aggregate_id e = wa_public_id (sr_wallet r))"
proof -
  let ?w = "sr_wallet r"
  have run: "move lim c r OpWithdraw Debit None s = (Ok j', s')" using assms(2) by (simp add: withdraw_out_def)
  then obtain t counter j where t: "find_row wt_id (wa_wallet_type_id ?w) (wallet_types s) = Some t"
    and allowed: "assert_allowed (read_wallet_type s t) ?w OpWithdraw (sr_amount r) = None"
    and counter: "account_by_code (sr_counter_account_code r) s = Some counter" and ext: "jo_external_id j = sr_external_id r"
    and legs: "jo_postings j = [new_leg (wa_ledger_account_id ?w) Debit (sr_amount r) (wt_currency t),
                      new_leg (la_id counter) (- Debit) (sr_amount r) (wt_currency t)]"
    and post: "post lim (c\<lparr>in_tx := True\<rparr>) j ?w Debit (sr_amount r) None [] (s\<lparr>uuid_next := Suc (uuid_next s)\<rparr>) = (Ok j', s')"
    by (rule move_Ok)
  have gate: "wt_withdrawable t \<and> wa_status ?w = WalletActive \<and> 0 < sr_amount r \<and>
    \<not> below (sr_amount r) (wt_min_withdrawal_amount t) \<and> \<not> above (sr_amount r) (wt_max_txn_amount t)"
    using allowed by (auto simp: assert_allowed_def capable_def split: if_splits)
  have other: "la_id counter \<noteq> wa_ledger_account_id ?w" using assms(4) counter by simp
  have sum: "acct_sum (wa_ledger_account_id ?w) (jo_postings j) = sr_amount r"
    using other by (simp add: legs new_leg_def leg_def Debit_def)
  from post_books [OF _ post] assms(1,3) ext
  have booked: "map leg_of (jo_postings j') = map leg_of (jo_postings j)"
    "\<And>i b. balance_of i s = Some b \<Longrightarrow> \<exists>b'. balance_of i s' = Some b' \<and> ba_raw_balance b' = wrap64 (ba_raw_balance b + acct_sum i (jo_postings j))"
    "\<exists>evs. outbox s' = outbox s @ evs \<and> map told evs = map (movement_event j') (movements j' [?w])"
    by fastforce+
  obtain p q where pq: "jo_postings j' = [p, q]" "leg_of p = leg_of (new_leg (wa_ledger_account_id ?w) Debit (sr_amount r) (wt_currency t))"
    "leg_of q = leg_of (new_leg (la_id counter) (- Debit) (sr_amount r) (wt_currency t))"
    using booked(1) legs by (auto simp: map_eq_Cons_conv)
  then have "movements j' [?w] = [(?w, p)]" "po_direction p = Debit"
    using other by (auto simp: movements_def leg_of_def new_leg_def)
  then obtain e where "outbox s' = outbox s @ [e]" "told e = movement_event j' (?w, p)" using booked(3) by (auto simp: map_eq_Cons_conv)
  then have "outbox s' = outbox s @ [e]" "ev_topic e = topic_wallet_debited" "ev_aggregate_id e = wa_public_id ?w"
    using \<open>po_direction p = Debit\<close> by (auto simp: told_def movement_event_def)
  then show ?thesis using t gate booked(2) [of "wa_ledger_account_id ?w"] sum by auto
qed

definition demo_payout :: spend_request where
  "demo_payout = \<lparr>sr_wallet = demo_wallet 0, sr_amount = 200, sr_counter_account_code = payouts_in_transit, sr_product_id = 1,
     sr_kind = JournalSettlement, sr_external_id = ''wd:1''\<rparr>"

lemma withdraw_out_gated_witness:
  "ba_raw_balance (the (balance_of 4 (snd (withdraw_out demo_limits no_tx demo_payout demo_loaded)))) = - 300"
proof -
  let ?m = "withdraw_out demo_limits no_tx demo_payout"
  have run: "?m demo_loaded = (Ok (the (value_of (fst (?m demo_loaded)))), snd (?m demo_loaded))" by (rule is_ok_run) code_simp
  have b: "balance_of 4 demo_loaded = Some (the (balance_of 4 demo_loaded))" "ba_raw_balance (the (balance_of 4 demo_loaded)) = - 500" by code_simp+
  have new: "journal_by_external_id (sr_external_id demo_payout) demo_loaded = None" by code_simp
  have w: "wa_ledger_account_id (sr_wallet demo_payout) = 4" "sr_amount demo_payout = 200" by code_simp+
  have "map_option la_id (account_by_code (sr_counter_account_code demo_payout) demo_loaded) = Some 3" by code_simp
  then have counter: "\<forall>a. account_by_code (sr_counter_account_code demo_payout) demo_loaded = Some a \<longrightarrow> la_id a \<noteq> wa_ledger_account_id (sr_wallet demo_payout)"
    by (auto simp: w)
  have "wrap64 (- 300) = - 300" by (simp add: wrap64_def)
  then show ?thesis using withdraw_out_gated [OF demo_shop_inv(4) run new counter] b w by auto
qed

section \<open>Expiry\<close>

lemma get_wallet_public_Ok: "get_wallet_by_public_id x s = (Ok w, s') \<longleftrightarrow>
    s' = s \<and> (\<exists>row. find_row wa_public_id x (wallets s) = Some row \<and> read_wallet s row = Some w)"
  by (auto simp: get_wallet_by_public_id_def some_or_def bind_Ok_iff act_simps split: option.splits bind_splits)

lemma get_product_Ok: "get_product_by_id i s = (Ok p, s') \<longleftrightarrow> s' = s \<and> find_row pr_id i (products s) = Some p"
  by (auto simp: get_product_by_id_def some_or_def bind_Ok_iff act_simps split: option.splits)

lemma dormant_Ok:
  assumes "still_dormant w x ext s = (Ok (), s')"
  shows "\<exists>b. balance_of (wa_ledger_account_id w) s = Some b \<and> ba_raw_balance b = 0 \<and> ba_held b = 0"
    "max_id (map po_id (filter (\<lambda>p. po_account_id p = wa_ledger_account_id w \<and> po_journal_id p \<noteq> journal_id_of ext s) (postings s)))
       = xc_last_posting_id x"
  using assms by (auto simp: still_dormant_def latest_posting_id_def get_balance_def some_or_def bind_Ok_iff act_simps split: if_splits option.splits)

lemma expire_Ok:
  assumes core: "core_inv s" and run: "expire c x s = (Ok j', s')"
  obtains (replayed) "same_ledger s s'" "outbox s' = outbox s"
    | (lapsed) w row ps t where "find_row wa_public_id (xc_wallet_public_id x) (wallets s) = Some row" "read_wallet s row = Some w"
      "wa_product_id w \<noteq> None" "jo_id j' = next_id (journals s)" "postings t = postings s @ ps" "\<forall>p\<in>set ps. po_journal_id p = next_id (journals s)"
      "still_dormant w x (jo_external_id j') t = (Ok (), t)" "journal_id_of (jo_external_id j') t = next_id (journals s)"
      "tells t (map (movement_event j') (movements j' [w])) s'"
proof -
  obtain w pid row counter t where w: "find_row wa_public_id (xc_wallet_public_id x) (wallets s) = Some row" "read_wallet s row = Some w"
      "wa_product_id w = Some pid" and lapse: "lapse (c\<lparr>in_tx := True\<rparr>) x w t counter s = (Ok j', s')"
    using run unfolding expire_def with_tx_Ok
    by (auto simp: bind_Ok_iff get_wallet_public_Ok get_type_Ok get_product_Ok get_code_Ok act_simps split: option.splits)
  obtain j0 s1 a s2 where new: "new_journal (''expiry:'' @ wa_public_id w @ '':'' @ int_digits (xc_last_posting_id x)) JournalExpiry (wa_product_id w) w s = (Ok j0, s1)"
    and tried: "tryM (post_journal_checked (c\<lparr>in_tx := True\<rparr>)
         (j0\<lparr>jo_memo := expiry_memo t,
            jo_postings := [new_leg (wa_ledger_account_id w) Debit (xc_balance x) (wt_currency t),
                            new_leg (la_id counter) Credit (xc_balance x) (wt_currency t)]\<rparr>)
         (\<lambda>_. still_dormant w x (jo_external_id j0))) s1 = (Ok a, s2)"
    and rest: "(case a of
       Inl e \<Rightarrow> if is_code e InsufficientBalance then failM FailedPrecondition else errM e
     | Inr (j', posted) \<Rightarrow> if \<not> posted then returnM j'
         else bindM (emit_movements j' [w]) (\<lambda>_. returnM j')) s2 = (Ok j', s')"
    using lapse unfolding lapse_def bind_Ok_iff by blast
  let ?j = "j0\<lparr>jo_memo := expiry_memo t,
            jo_postings := [new_leg (wa_ledger_account_id w) Debit (xc_balance x) (wt_currency t),
                            new_leg (la_id counter) Credit (xc_balance x) (wt_currency t)]\<rparr>"
  have s1: "s1 = s\<lparr>uuid_next := Suc (uuid_next s)\<rparr>" using new by (simp add: new_journal_run)
  have same: "same_ledger s s1" "outbox s1 = outbox s" by (simp_all add: s1 same_ledger_def)
  have core1: "core_inv s1" using core by (simp add: s1 core_inv_def inv_defs posting_inv_def journal_inv_def hold_inv_def)
  obtain j1 posted u where pj: "post_journal_checked (c\<lparr>in_tx := True\<rparr>) ?j (\<lambda>_. still_dormant w x (jo_external_id j0)) s1 = (Ok (j1, posted), u)"
    and fin: "(if \<not> posted then returnM j1 else bindM (emit_movements j1 [w]) (\<lambda>_. returnM j1)) u = (Ok j', s')"
    using tried rest by (auto simp: try_apply act_simps split: prod.splits outcome.splits if_splits)
  from core1 pj reads_dormant show ?thesis
  proof (cases rule: post_journal_checked_Ok)
    case (replayed r)
    then show ?thesis using that(1) fin same by (simp add: act_simps)
  next
    case (booked ps accts)
    obtain v where v: "emit_movements j1 [w] u = (Ok (), v)" "tells u (map (movement_event j1) (movements j1 [w])) v"
      using emit_movements_run by blast
    have j1: "j' = j1" "s' = v" using fin v booked(1) by (simp_all add: bindM_def act_simps)
    have u: "postings u = postings s @ ps" "journals u = journals s @ [journal_row (stamped s1 ?j)]"
      using booked(4) by (simp_all add: booked_def s1)
    have ext: "jo_external_id j1 = jo_external_id j0" "jo_id j1 = next_id (journals s)" using booked(3) by (simp_all add: stamped_def s1)
    have "find_row jo_external_id (jo_external_id j0) (journals s) = None" using booked(2) by (simp add: booking_def s1)
    then have jid: "journal_id_of (jo_external_id j0) u = next_id (journals s)"
      by (simp add: journal_id_of_def journal_by_external_id_def u find_row_append journal_row_def stamped_def s1)
    show ?thesis
      by (rule that(2) [OF w(1,2), where ps = ps and t = u])
        (use w(3) booked booking_rows(3) [OF booked(2)] v(2) ext j1 jid u in \<open>auto simp: s1\<close>)
  qed
qed

text \<open>
  C24. Expiry lapses a dormant balance once and whole: a call that returns either found the period already
  lapsed and changed no balance, or the wallet belongs to a product, had no posting after the
  one the sweep saw, and now has a balance of exactly zero with nothing held.
\<close>

theorem expire_empties_dormant_wallet:
  assumes "ledger_inv s" "expire c x s = (Ok j', s')"
  shows "(same_ledger s s' \<and> outbox s' = outbox s) \<or>
    (\<exists>row w b. find_row wa_public_id (xc_wallet_public_id x) (wallets s) = Some row \<and> read_wallet s row = Some w \<and>
      wa_product_id w \<noteq> None \<and> max_id (map po_id (filter (\<lambda>p. po_account_id p = wa_ledger_account_id w) (postings s))) = xc_last_posting_id x \<and>
      balance_of (wa_ledger_account_id w) s' = Some b \<and> ba_raw_balance b = 0 \<and> ba_held b = 0)"
proof -
  have core: "core_inv s" using assms(1) by (simp add: ledger_inv_def)
  from core assms(2) show ?thesis
  proof (cases rule: expire_Ok)
    case (lapsed w row ps t)
    have fresh: "next_id (journals s) \<notin> jo_id ` set (journals s)"
      using core by (intro next_id_fresh) (simp add: core_inv_def journals_inv_def)
    have "\<forall>p\<in>set (postings s). po_journal_id p \<in> jo_id ` set (journals s)"
      using core by (simp add: core_inv_def postings_inv_def posting_inv_def)
    then have old: "\<forall>p\<in>set (postings s). po_journal_id p \<noteq> next_id (journals s)" using fresh by metis
    have "filter (\<lambda>p. po_account_id p = wa_ledger_account_id w \<and> po_journal_id p \<noteq> next_id (journals s)) (postings t) =
        filter (\<lambda>p. po_account_id p = wa_ledger_account_id w) (postings s)"
      using old lapsed(5,6) by (auto simp: filter_empty_conv intro: filter_cong)
    then show ?thesis
      using dormant_Ok [OF lapsed(7)] lapsed(1-3,8) tells_balance [OF lapsed(9)] by auto
  qed simp
qed

text \<open>The funded wallet of the example after forty quiet days, found by the sweep.\<close>

definition demo_quiet :: estate where
  "demo_quiet = demo_loaded\<lparr>clock := 100000 + 40 * day_seconds\<rparr>"

definition demo_candidate :: expiry_candidate where
  "demo_candidate = \<lparr>xc_wallet_public_id = wa_public_id (demo_wallet 0), xc_last_posting_id = 2, xc_balance = 500\<rparr>"

lemma demo_candidate_found: "value_of (fst (list_rolling_expiry_candidates (clock demo_quiet) 10 demo_quiet)) = Some [demo_candidate]"
  by code_simp

lemma expire_empties_dormant_wallet_witness:
  "\<exists>b. balance_of 4 (snd (expire no_tx demo_candidate demo_quiet)) = Some b \<and> ba_raw_balance b = 0 \<and> ba_held b = 0"
proof -
  let ?m = "expire no_tx demo_candidate"
  have inv: "ledger_inv demo_quiet"
    using ledger_onlyD [OF ledger_only_inv, of demo_loaded demo_quiet] demo_shop_inv(4) by (simp add: same_ledger_def demo_quiet_def)
  have run: "?m demo_quiet = (Ok (the (value_of (fst (?m demo_quiet)))), snd (?m demo_quiet))" by (rule is_ok_run) code_simp
  have new: "length (outbox (snd (?m demo_quiet))) = 2" "length (outbox demo_quiet) = 1" by code_simp+
  have acct: "map_option wa_ledger_account_id (find_row wa_public_id (xc_wallet_public_id demo_candidate) (wallets demo_quiet)) = Some 4" by code_simp
  from expire_empties_dormant_wallet [OF inv run] new obtain row w b where
    "find_row wa_public_id (xc_wallet_public_id demo_candidate) (wallets demo_quiet) = Some row" "read_wallet demo_quiet row = Some w"
    "balance_of (wa_ledger_account_id w) (snd (?m demo_quiet)) = Some b" "ba_raw_balance b = 0" "ba_held b = 0" by auto
  moreover from this(1,2) acct have "wa_ledger_account_id w = 4" by (auto simp: read_wallet_def)
  ultimately show ?thesis by auto
qed

section \<open>Transfers\<close>




section \<open>Opening a wallet\<close>

definition same_customers :: "'x estate_scheme \<Rightarrow> 'x estate_scheme \<Rightarrow> bool" where
  "same_customers s t \<longleftrightarrow> customers t = customers s \<and> wallet_types t = wallet_types s \<and> products t = products s"

lemma get_or_create_account_Ok:
  assumes "get_or_create_ledger_account c a s = (Ok (acc, new), s')"
  shows "\<exists>row. account_by_code (la_code a) s' = Some row \<and> la_id row = la_id acc" "same_customers s s'" "wallets s' = wallets s"
proof -
  obtain r t where ins: "insert_ledger_account c a s = (Ok r, t)"
    and rest: "(case r of (row, created) \<Rightarrow> if created then returnM (row, True)
       else bindM (get_ledger_account_by_code (la_code a)) (\<lambda>existing. returnM (existing, False))) t = (Ok (acc, new), s')"
    using assms by (auto simp: get_or_create_ledger_account_def bind_Ok_iff)
  from ins have all: "(\<exists>row. account_by_code (la_code a) s' = Some row \<and> la_id row = la_id acc) \<and> same_customers s s' \<and> wallets s' = wallets s"
  proof (cases rule: insert_account_cases)
    case (created row)
    then show ?thesis using rest
      by (auto simp: act_simps account_by_code_def find_row_append same_customers_def)
  qed (use rest in \<open>auto simp: act_simps bind_Ok_iff get_code_Ok same_customers_def\<close>)
  then show "\<exists>row. account_by_code (la_code a) s' = Some row \<and> la_id row = la_id acc" "same_customers s s'" "wallets s' = wallets s" by auto
qed

lemma get_or_create_account_again:
  assumes "account_by_code (la_code a) s = Some row"
  shows "get_or_create_ledger_account c a s = (Ok (row, False), s)"
proof -
  obtain r t where ins: "insert_ledger_account c a s = (r, t)" by fastforce
  from this show ?thesis
  proof (cases rule: insert_account_cases)
    case conflict
    then show ?thesis
      using ins assms by (simp add: get_or_create_ledger_account_def bindM_def act_simps get_ledger_account_by_code_def some_or_def)
  next
    case no_product
    then show ?thesis
      using ins assms by (auto simp: insert_ledger_account_def with_tx_def bindM_def act_simps split: if_splits)
  qed (use assms in simp)
qed

lemma get_or_create_wallet_Ok:
  assumes "get_or_create_wallet w s = (Ok (v, created), s')"
  shows "\<exists>row u. wallet_of (wa_customer_id w) (wa_wallet_type_id w) s' = Some row \<and> read_wallet s' row = Some u \<and> wa_id u = wa_id v"
    "same_customers s s'" "same_ledger s s'"
proof -
  have all: "(\<exists>row u. wallet_of (wa_customer_id w) (wa_wallet_type_id w) s' = Some row \<and> read_wallet s' row = Some u \<and> wa_id u = wa_id v) \<and>
      same_customers s s' \<and> same_ledger s s'"
  proof (cases "wallet_of (wa_customer_id w) (wa_wallet_type_id w) s")
    case None
    then show ?thesis using assms
      by (auto simp: get_or_create_wallet_def bind_Ok_iff act_simps wallet_of_def find_row_append read_wallet_def wallet_refs_def
          same_customers_def same_ledger_def split: if_splits)
  next
    case (Some row)
    then show ?thesis using assms
      by (auto simp: get_or_create_wallet_def get_wallet_def bind_Ok_iff act_simps some_or_def same_customers_def same_ledger_def
          split: option.splits)
  qed
  then show "\<exists>row u. wallet_of (wa_customer_id w) (wa_wallet_type_id w) s' = Some row \<and> read_wallet s' row = Some u \<and> wa_id u = wa_id v"
    "same_customers s s'" "same_ledger s s'" by auto
qed

lemma get_or_create_wallet_again:
  assumes "wallet_of (wa_customer_id w) (wa_wallet_type_id w) s = Some row" "read_wallet s row = Some u"
  shows "get_or_create_wallet w s = (Ok (u, False), s)"
  using assms by (simp add: get_or_create_wallet_def get_wallet_def bindM_def act_simps some_or_def)

lemma product_segment_Ok:
  assumes "product_segment t s = (Ok x, s')"
  shows "s' = s" "products u = products s \<Longrightarrow> product_segment t u = (Ok x, u)"
  using assms by (auto simp: product_segment_def get_product_by_id_def some_or_def bindM_def act_simps split: option.splits)

text \<open>
  Opening a wallet is safe to repeat: after a call that returned, opening the same type for the same
  customer again returns the same wallet, reports that it was not created, and adds no account, no
  wallet and no posting.
\<close>

theorem open_wallet_idempotent:
  assumes "open_wallet c cust t s = (Ok (w, created), s')"
  shows "\<exists>v s''. open_wallet c cust t s' = (Ok (v, False), s'') \<and> wa_id v = wa_id w \<and> same_ledger s' s'' \<and> wallets s'' = wallets s'"
proof -
  let ?c = "c\<lparr>in_tx := True\<rparr>"
  let ?a = "\<lambda>seg u. wallet_ledger_account cust t seg (make_id LedgerAccountId (uuid_gen u (uuid_next u)))"
  let ?w = "\<lambda>acc u. \<lparr>wa_id = 0, wa_public_id = make_id WalletId (uuid_gen u (uuid_next u)), wa_customer_id = cu_id cust, wa_wallet_type_id = wt_id t,
            wa_customer_public_id = cu_public_id cust, wa_product_id = wt_product_id t, wa_ledger_account_id = acc,
            wa_status = WalletActive, wa_created_at = 0, wa_updated_at = 0\<rparr>"
  let ?tick = "\<lambda>u. u\<lparr>uuid_next := Suc (uuid_next u)\<rparr>"
  have active: "cu_status cust = CustomerActive" using assms by (auto simp: open_wallet_def act_simps split: if_splits)
  obtain seg acc new s1 where seg: "product_segment t s = (Ok seg, s)"
    and acc: "get_or_create_ledger_account ?c (?a seg s) (?tick s) = (Ok (acc, new), s1)"
    and wal: "get_or_create_wallet (?w (la_id acc) s1) (?tick s1) = (Ok (w, created), s')"
    using assms active product_segment_Ok(1) [of t s]
    by (fastforce simp: open_wallet_def with_tx_Ok bind_Ok_iff new_id_def act_simps split: if_splits)
  note a = get_or_create_account_Ok [OF acc] and v = get_or_create_wallet_Ok [OF wal]
  obtain row where row: "account_by_code (wallet_account (cu_public_id cust) seg (wt_code t)) s1 = Some row"
    using a(1) by (auto simp: wallet_ledger_account_def)
  obtain wrow u where wrow: "wallet_of (cu_id cust) (wt_id t) s' = Some wrow" "read_wallet s' wrow = Some u" "wa_id u = wa_id w"
    using v(1) by auto
  have ledger: "products s' = products s" "accounts s' = accounts s1"
    using a(2) v(2,3) by (simp_all add: same_customers_def same_ledger_def)
  have seg2: "product_segment t s' = (Ok seg, s')" by (rule product_segment_Ok(2) [OF seg ledger(1)])
  have acc2: "get_or_create_ledger_account ?c (?a seg s') (?tick s') = (Ok (row, False), ?tick s')"
    by (rule get_or_create_account_again) (use row ledger in \<open>simp add: wallet_ledger_account_def account_by_code_def\<close>)
  have wal2: "get_or_create_wallet (?w (la_id row) (?tick s')) (?tick (?tick s')) = (Ok (u, False), ?tick (?tick s'))"
    by (rule get_or_create_wallet_again) (use wrow in \<open>simp_all add: wallet_of_def read_wallet_def\<close>)
  have "open_wallet c cust t s' = (Ok (u, False), ?tick (?tick s'))"
    unfolding open_wallet_def using active seg2 acc2 wal2 by (simp add: with_tx_Ok bindM_def new_id_def act_simps)
  then show ?thesis using wrow(3) by (auto simp: same_ledger_def)
qed

lemma open_wallet_idempotent_witness:
  "\<exists>v u. open_wallet no_tx (demo_customer 1 ''c1'') demo_type (snd (open_wallet no_tx (demo_customer 1 ''c1'') demo_type demo_stocked)) = (Ok (v, False), u)"
proof -
  let ?m = "open_wallet no_tx (demo_customer 1 ''c1'') demo_type"
  have "?m demo_stocked = (Ok (the (value_of (fst (?m demo_stocked)))), snd (?m demo_stocked))" by (rule is_ok_run) (rule demo_wallet_runs)
  then obtain w created where "?m demo_stocked = (Ok (w, created), snd (?m demo_stocked))" by (metis prod.collapse)
  from open_wallet_idempotent [OF this] show ?thesis by blast
qed

section \<open>Merged customers\<close>

definition merged_to :: "'x estate_scheme \<Rightarrow> customer \<Rightarrow> customer \<Rightarrow> bool" where
  "merged_to s c d \<longleftrightarrow> is_merged c \<and> (\<exists>i. cu_merged_into c = Some i \<and> find_row cu_id i (customers s) = Some d)"

lemma follow_merge_iff:
  "follow_merge n c s = (Ok d, s) \<longleftrightarrow> (\<exists>k<n. (merged_to s ^^ k) c d) \<and> \<not> is_merged d"
proof (induction n arbitrary: c)
  case 0
  then show ?case by (simp add: act_simps)
next
  case (Suc n)
  show ?case
  proof (cases "is_merged c")
    case False
    then have "\<not> (merged_to s ^^ Suc k) c d" for k using relpowp_Suc_D2 [of k "merged_to s" c d] by (auto simp: merged_to_def)
    then have "(merged_to s ^^ k) c d \<longleftrightarrow> k = 0 \<and> c = d" for k by (cases k) simp_all
    then show ?thesis using False by (auto simp: act_simps)
  next
    case True
    show ?thesis
    proof (cases "\<exists>e. merged_to s c e")
      case False
      then have "\<not> (merged_to s ^^ Suc k) c d" for k using relpowp_Suc_D2 [of k "merged_to s" c d] by blast
      then have "(\<exists>k<Suc n. (merged_to s ^^ k) c d) \<longleftrightarrow> c = d" by (metis relpowp_0_E relpowp_0_I less_Suc_eq_0_disj old.nat.exhaust)
      moreover have "follow_merge (Suc n) c s \<noteq> (Ok d, s)"
        using True False by (auto simp: merged_to_def bindM_def act_simps split: option.splits)
      ultimately show ?thesis using True by metis
    next
      case True
      then obtain e where e: "merged_to s c e" ..
      have only: "merged_to s c e' \<longleftrightarrow> e' = e" for e' using e by (auto simp: merged_to_def)
      have "follow_merge (Suc n) c s = follow_merge n e s" using e by (auto simp: merged_to_def bindM_def act_simps)
      moreover have "(\<exists>k<Suc n. (merged_to s ^^ k) c d) \<and> \<not> is_merged d \<longleftrightarrow> (\<exists>k<n. (merged_to s ^^ k) e d) \<and> \<not> is_merged d"
      proof -
        have "(merged_to s ^^ Suc k) c d \<longleftrightarrow> (merged_to s ^^ k) e d" for k
          using only by (metis relpowp_Suc_D2 relpowp_Suc_I2)
        moreover have "\<not> is_merged d \<Longrightarrow> \<not> (merged_to s ^^ 0) c d" using e by (auto simp: merged_to_def)
        ultimately show ?thesis by (metis Suc_less_eq less_Suc_eq_0_disj)
      qed
      ultimately show ?thesis using Suc.IH by simp
    qed
  qed
qed

text \<open>
  C25. Following merges ends at the survivor, within seven hops: \<open>resolveMerge\<close> returns a customer exactly when
  it is not merged itself and fewer than eight merges lead to it \<emdash> a chain of exactly eight, which is
  not longer than the bound of eight hops, is refused.
\<close>

theorem resolve_merge_survivor:
  "resolve_merge c s = (Ok d, s) \<longleftrightarrow> (\<exists>k<8. (merged_to s ^^ k) c d) \<and> \<not> is_merged d"
  by (simp add: resolve_merge_def merge_hops_def follow_merge_iff)

end
