(* ===== verification/Secrets.thy ===== *)
theory Secrets
  imports Effects
begin

text \<open>
  Service credential secrets (\<open>pkg/secrets\<close>): the stored form of a secret, tagged with its
  algorithm, and its verification. A string is its bytes. SHA-256 is the
  argument \<open>sha\<close>; the raw standard base64 of Go's \<open>encoding/base64\<close> is written out.

  The theorem: a stored hash verifies exactly the secrets with the digest it was made from.
\<close>

section \<open>Base64 without padding\<close>

fun byte_bits :: "char \<Rightarrow> bool list" where
  "byte_bits (Char b0 b1 b2 b3 b4 b5 b6 b7) = [b7, b6, b5, b4, b3, b2, b1, b0]"

fun bits_nat :: "bool list \<Rightarrow> nat" where
  "bits_nat [] = 0"
| "bits_nat (b # bs) = (if b then 2 ^ length bs else 0) + bits_nat bs"

fun nat_bits :: "nat \<Rightarrow> nat \<Rightarrow> bool list" where
  "nat_bits 0 n = []"
| "nat_bits (Suc k) n = (2 ^ k \<le> n) # nat_bits k (if 2 ^ k \<le> n then n - 2 ^ k else n)"

definition base64_alphabet :: string where
  "base64_alphabet = ''ABCDEFGHIJKLMNOPQRSTUVWXYZabcdefghijklmnopqrstuvwxyz0123456789+/''"

fun index_of :: "char \<Rightarrow> string \<Rightarrow> nat option" where
  "index_of c [] = None"
| "index_of c (d # ds) = (if c = d then Some 0 else map_option Suc (index_of c ds))"

text \<open>Six bits to a letter, the last group filled with zeros.\<close>

fun encode_bits :: "bool list \<Rightarrow> string" where
  "encode_bits [] = []"
| "encode_bits (a # b # c # d # e # f # bs) = base64_alphabet ! bits_nat [a, b, c, d, e, f] # encode_bits bs"
| "encode_bits bs = [base64_alphabet ! bits_nat (take 6 (bs @ replicate 5 False))]"

definition base64_encode :: "string \<Rightarrow> string" where
  "base64_encode s = encode_bits (concat (map byte_bits s))"

text \<open>Eight bits to a byte; fewer bits than that at the end are dropped.\<close>

fun bits_bytes :: "bool list \<Rightarrow> string" where
  "bits_bytes (b7 # b6 # b5 # b4 # b3 # b2 # b1 # b0 # bs) = Char b0 b1 b2 b3 b4 b5 b6 b7 # bits_bytes bs"
| "bits_bytes bs = []"

fun decode_bits :: "string \<Rightarrow> bool list option" where
  "decode_bits [] = Some []"
| "decode_bits (c # cs) = (case index_of c base64_alphabet of
     None \<Rightarrow> None
   | Some i \<Rightarrow> map_option (\<lambda>bs. nat_bits 6 i @ bs) (decode_bits cs))"

text \<open>Line ends are skipped; a lone letter at the end carries no byte and is corrupt.\<close>

definition base64_decode :: "string \<Rightarrow> string option" where
  "base64_decode s = (let t = filter (\<lambda>c. c \<noteq> CHR 0x0A \<and> c \<noteq> CHR 0x0D) s
     in if length t mod 4 = 1 then None else map_option bits_bytes (decode_bits t))"

section \<open>The secrets\<close>

text \<open>\<open>strings.Split\<close> on one character.\<close>

fun split_on :: "char \<Rightarrow> string \<Rightarrow> string list" where
  "split_on c [] = [[]]"
| "split_on c (x # xs) = (if x = c then [] # split_on c xs
     else (case split_on c xs of [] \<Rightarrow> [[x]] | p # ps \<Rightarrow> (x # p) # ps))"

definition algo_sha256 :: string where
  "algo_sha256 = ''sha256''"

definition hash_secret :: "(string \<Rightarrow> string) \<Rightarrow> string \<Rightarrow> string" where
  "hash_secret sha secret = ''$'' @ algo_sha256 @ ''$'' @ base64_encode (sha secret)"

definition verify_secret :: "(string \<Rightarrow> string) \<Rightarrow> string \<Rightarrow> string \<Rightarrow> code + bool" where
  "verify_secret sha secret encoded = (case split_on (CHR ''$'') encoded of
     [p0, algo, digest] \<Rightarrow>
       if p0 \<noteq> [] then Inl Internal
       else if algo = algo_sha256
       then (case base64_decode digest of None \<Rightarrow> Inl Internal | Some expected \<Rightarrow> Inr (sha secret = expected))
       else Inl Internal
   | _ \<Rightarrow> Inl Internal)"

section \<open>Round trips\<close>

lemma index_of_nth: "i < length xs \<Longrightarrow> distinct xs \<Longrightarrow> index_of (xs ! i) xs = Some i"
  by (induction xs arbitrary: i) (auto simp: less_Suc_eq_0_disj)

lemma alphabet_index: "i < 64 \<Longrightarrow> index_of (base64_alphabet ! i) base64_alphabet = Some i"
  by (rule index_of_nth) (simp_all add: base64_alphabet_def)

lemma bits_nat_less: "bits_nat bs < 2 ^ length bs"
  by (induction bs) auto

lemma nat_bits_bits_nat: "nat_bits (length bs) (bits_nat bs) = bs"
proof (induction bs)
  case (Cons b bs)
  show ?case using bits_nat_less [of bs] Cons.IH by (cases b) auto
qed simp

lemma six_bits: "length bs = 6 \<Longrightarrow> bits_nat bs < 64 \<and> nat_bits 6 (bits_nat bs) = bs"
  using bits_nat_less [of bs] nat_bits_bits_nat [of bs] by simp

lemma decode_letter: "length bs = 6 \<Longrightarrow>
   decode_bits ((base64_alphabet ! bits_nat bs) # cs) = map_option (\<lambda>xs. bs @ xs) (decode_bits cs)"
  using six_bits [of bs] alphabet_index [of "bits_nat bs"] by simp

lemma encode_short:
  assumes "bs \<noteq> []" "length bs < 6"
  shows "encode_bits bs = [base64_alphabet ! bits_nat (bs @ replicate (6 - length bs) False)]"
  using assms by (cases bs rule: encode_bits.cases) (simp_all add: numeral_eq_Suc del: bits_nat.simps)

text \<open>Decoding gives the bits back with fewer than six zeros behind them.\<close>

definition padded :: "bool list \<Rightarrow> bool" where
  "padded bs \<longleftrightarrow> (\<exists>z<6. decode_bits (encode_bits bs) = Some (bs @ replicate z False) \<and>
     6 * length (encode_bits bs) = length bs + z)"

lemma padded_short: "bs \<noteq> [] \<Longrightarrow> length bs < 6 \<Longrightarrow> padded bs"
  unfolding padded_def by (intro exI [of _ "6 - length bs"]) (simp add: encode_short decode_letter del: decode_bits.simps(2))

lemma padded_all: "padded bs"
proof (induction bs rule: encode_bits.induct)
  case 1
  show ?case unfolding padded_def by (intro exI [of _ 0]) simp
next
  case (2 a b c d e f bs)
  then obtain z where "decode_bits (encode_bits bs) = Some (bs @ replicate z False)" "z < 6"
    "6 * length (encode_bits bs) = length bs + z" by (auto simp: padded_def)
  then show ?case unfolding padded_def
    using decode_letter [of "[a, b, c, d, e, f]"] by (intro exI [of _ z]) (simp del: decode_bits.simps bits_nat.simps)
qed (rule padded_short; simp)+

lemma bits_bytes_bits: "z < 8 \<Longrightarrow> bits_bytes (concat (map byte_bits s) @ replicate z False) = s"
proof (induction s)
  case Nil
  then have "bits_bytes (replicate z False) = []"
    by (cases z rule: nat.exhaust) (auto simp: less_Suc_eq numeral_eq_Suc)
  then show ?case by simp
next
  case (Cons c s)
  then show ?case by (cases c) simp
qed

lemma length_bits: "length (concat (map byte_bits s)) = 8 * length s"
proof (induction s)
  case (Cons c s)
  then show ?case by (cases c) simp
qed simp

lemma index_alphabet_Some: "index_of c xs = Some i \<Longrightarrow> c \<in> set xs"
  by (induction xs arbitrary: i) (auto split: if_splits)

lemma decode_bits_letters: "decode_bits cs = Some bs \<Longrightarrow> set cs \<subseteq> set base64_alphabet"
  by (induction cs arbitrary: bs) (auto split: option.splits dest: index_alphabet_Some)

lemma no_lone_letter: "6 * n = 8 * k + z \<Longrightarrow> z < 6 \<Longrightarrow> n mod 4 \<noteq> (1 :: nat)"
proof
  assume n: "6 * n = 8 * k + z" "z < 6" "n mod 4 = 1"
  then have "n = 4 * (n div 4) + 1" by presburger
  then have "8 * k + z = 24 * (n div 4) + 6" using n(1) by linarith
  then have "(8 * k + z) mod 8 = (24 * (n div 4) + 6) mod 8" by simp
  moreover have "(24 * (n div 4) + 6) mod 8 = 6" by presburger
  ultimately show False using n(2) by simp
qed

lemma base64_round: "base64_decode (base64_encode s) = Some s"
proof -
  let ?bs = "concat (map byte_bits s)"
  obtain z where z: "z < 6" "decode_bits (base64_encode s) = Some (?bs @ replicate z False)"
    "6 * length (base64_encode s) = 8 * length s + z"
    using padded_all [of ?bs] by (auto simp: padded_def base64_encode_def length_bits)
  have "CHR 0x0A \<notin> set base64_alphabet \<and> CHR 0x0D \<notin> set base64_alphabet" by (simp add: base64_alphabet_def)
  then have plain: "filter (\<lambda>c. c \<noteq> CHR 0x0A \<and> c \<noteq> CHR 0x0D) (base64_encode s) = base64_encode s"
    using decode_bits_letters [OF z(2)] by (intro filter_True) blast
  have "length (base64_encode s) mod 4 \<noteq> 1" by (rule no_lone_letter [OF z(3,1)])
  then show ?thesis using z(1,2) by (simp add: base64_decode_def plain bits_bytes_bits)
qed

lemma split_on_plain: "c \<notin> set xs \<Longrightarrow> split_on c xs = [xs]"
  by (induction xs) auto

lemma split_on_append: "c \<notin> set xs \<Longrightarrow> split_on c (xs @ c # ys) = xs # split_on c ys"
  by (induction xs) auto

lemma base64_letters: "CHR ''$'' \<notin> set (base64_encode s)"
proof -
  have "decode_bits (base64_encode s) \<noteq> None"
    using padded_all [of "concat (map byte_bits s)"] by (auto simp: padded_def base64_encode_def)
  moreover have "CHR ''$'' \<notin> set base64_alphabet" by (simp add: base64_alphabet_def)
  ultimately show ?thesis using decode_bits_letters by fastforce
qed

text \<open>
  A stored credential hash verifies exactly the secrets with the digest it was made from, whatever the digest
  function: \<open>Verify\<close> of \<open>Hash\<close> never fails, accepts the secret itself, and accepts another secret only on a
  digest collision.
\<close>

lemma verify_hash:
  "verify_secret sha other (hash_secret sha secret) = Inr (sha other = sha secret)"
proof -
  have "split_on (CHR ''$'') (hash_secret sha secret) = [[], algo_sha256, base64_encode (sha secret)]"
    using split_on_append [of "CHR ''$''" algo_sha256 "base64_encode (sha secret)"]
    by (simp add: hash_secret_def algo_sha256_def split_on_plain base64_letters)
  then show ?thesis by (simp add: verify_secret_def base64_round)
qed

end
