(* ===== verification/Access.thy ===== *)
theory Access
  imports WalletProps Secrets
begin

text \<open>
  Who may do what: the caller behind a request (\<open>internal/appcontext\<close>), its
  authentication (\<open>internal/auth/auth.go\<close>), permissions (\<open>permissions.go\<close>), the product scope
  (\<open>internal/models/filter/scope.go\<close>, \<open>repository/postgresql/scope.go\<close>, \<open>service/scope.go\<close>), the
  stored credentials (\<open>repository/postgresql/credential.go\<close>) and the float report, the listing
  that reads through a scope.

  Headers are looked up by name in an association list; \<open>trim_space\<close> cuts ASCII
  white space. The table of credentials and that of idempotency keys extend the
  estate as \<open>office\<close>.
\<close>

section \<open>Product scope\<close>

record product_scope =
  sc_all :: bool
  sc_ids :: "int list"

definition all_products :: product_scope where
  "all_products = \<lparr>sc_all = True, sc_ids = []\<rparr>"

definition only_products :: "int list \<Rightarrow> product_scope" where
  "only_products xs = \<lparr>sc_all = False, sc_ids = xs\<rparr>"

definition allows :: "product_scope \<Rightarrow> int option \<Rightarrow> bool" where
  "allows s pid = (if sc_all s then True else case pid of None \<Rightarrow> False | Some i \<Rightarrow> i \<in> set (sc_ids s))"

definition allows_product :: "product_scope \<Rightarrow> int \<Rightarrow> bool" where
  "allows_product s i = allows s (Some i)"

text \<open>
  \<open>scopeCondition\<close>: the condition added to a query, on the product of a row. In SQL a comparison with
  \<open>NULL\<close> is not true.
\<close>

definition scope_condition :: "product_scope option \<Rightarrow> code + (int option \<Rightarrow> bool)" where
  "scope_condition scope = (case scope of
     None \<Rightarrow> Inl Internal
   | Some s \<Rightarrow>
       if sc_all s then Inr (\<lambda>_. True)
       else if sc_ids s = [] then Inr (\<lambda>_. False)
       else Inr (\<lambda>pid. case pid of None \<Rightarrow> False | Some i \<Rightarrow> i \<in> set (sc_ids s)))"

definition default_page_size :: int where "default_page_size = 10"

definition max_page_size :: int where "max_page_size = 100"

text \<open>\<open>WithDefaults\<close> of a listing's filter: the limit and the offset.\<close>

definition page :: "int \<Rightarrow> int \<Rightarrow> nat \<times> nat" where
  "page limit offset = (let l = if limit \<le> 0 then default_page_size else limit;
     l' = if max_page_size < l then max_page_size else l
     in (nat l', nat (max offset 0)))"

section \<open>The caller\<close>

datatype caller_kind = KindAnonymous | KindOperator | KindService

record caller =
  ca_kind :: caller_kind
  ca_product_id :: int
  ca_product_code :: string
  ca_credential_id :: string
  ca_user_id :: string
  ca_permissions :: "string list"
  ca_request_id :: string
  ca_idempotency_key :: string

definition is_space :: "char \<Rightarrow> bool" where
  "is_space c \<longleftrightarrow> c \<in> set [CHR '' '', CHR 0x09, CHR 0x0A, CHR 0x0B, CHR 0x0C, CHR 0x0D]"

definition trim_space :: "string \<Rightarrow> string" where
  "trim_space s = rev (dropWhile is_space (rev (dropWhile is_space s)))"

type_synonym headers = "(string \<times> string) list"

definition header :: "headers \<Rightarrow> string \<Rightarrow> string" where
  "header hs k = (case map_of hs k of None \<Rightarrow> [] | Some v \<Rightarrow> v)"

definition parse_permissions :: "string \<Rightarrow> string list" where
  "parse_permissions raw = (if trim_space raw = [] then []
     else filter (\<lambda>p. p \<noteq> []) (map trim_space (split_on (CHR '','') raw)))"

definition has_permission :: "caller \<Rightarrow> string \<Rightarrow> bool" where
  "has_permission c p \<longleftrightarrow> p \<in> set (ca_permissions c)"

definition caller_from_values :: "headers \<Rightarrow> ('x env_scheme, caller) action" where
  "caller_from_values hs = (let given = trim_space (header hs ''x-request-id''); user = trim_space (header hs ''x-user-id'')
     in bindM (if given = [] then new_id RequestId else returnM given) (\<lambda>rid.
     returnM \<lparr>ca_kind = (if user = [] then KindAnonymous else KindOperator), ca_product_id = 0, ca_product_code = [],
       ca_credential_id = [], ca_user_id = user, ca_permissions = parse_permissions (header hs ''x-user-perms''),
       ca_request_id = rid, ca_idempotency_key = trim_space (header hs ''idempotency-key'')\<rparr>))"

section \<open>Credentials\<close>

datatype credential_status = CredentialActive | CredentialRevoked

record service_credential =
  sv_id :: int
  sv_public_id :: string
  sv_product_id :: int
  sv_name :: string
  sv_key_id :: string
  sv_secret_hash :: string
  sv_status :: credential_status
  sv_last_used_at :: "int option"
  sv_revoked_at :: "int option"
  sv_created_at :: int
  sv_updated_at :: int

definition credential_active :: "service_credential \<Rightarrow> bool" where
  "credential_active c \<longleftrightarrow> sv_status c = CredentialActive"

datatype idempotency_status = IdemInProgress | IdemCompleted

record idempotency_key =
  ik_id :: int
  ik_scope :: string
  ik_key :: string
  ik_fingerprint :: string
  ik_status :: idempotency_status
  ik_response_body :: string
  ik_created_at :: int
  ik_updated_at :: int
  ik_expires_at :: int

record office = estate +
  credentials :: "service_credential list"
  idempotency_keys :: "idempotency_key list"

definition create_credential :: "service_credential \<Rightarrow> ('x office_scheme, service_credential) action" where
  "create_credential c = bindM (getM (product_exists (Some (sv_product_id c)))) (\<lambda>fk.
     bindM (getM (\<lambda>s. sv_key_id c \<in> sv_key_id ` set (credentials s))) (\<lambda>taken.
     if taken then failM Internal
     else if \<not> fk then failM NotFound
     else bindM (getM (\<lambda>s. c\<lparr>sv_id := next_id (credentials s), sv_last_used_at := None, sv_revoked_at := None,
            sv_created_at := clock s, sv_updated_at := clock s\<rparr>)) (\<lambda>row.
          bindM (modifyM (\<lambda>s. s\<lparr>credentials := credentials s @ [row]\<rparr>)) (\<lambda>_. returnM row))))"

definition get_credential_by_key_id :: "string \<Rightarrow> ('x office_scheme, service_credential \<times> product) action" where
  "get_credential_by_key_id k = bindM (getM (\<lambda>s. find_row sv_key_id k (credentials s))) (\<lambda>r. case r of
     None \<Rightarrow> failM Unauthenticated
   | Some c \<Rightarrow> bindM (getM (\<lambda>s. find_row pr_id (sv_product_id c) (products s))) (\<lambda>q. case q of
       None \<Rightarrow> failM Unauthenticated | Some p \<Rightarrow> returnM (c, p)))"

definition list_credentials :: "int \<Rightarrow> ('x office_scheme, service_credential list) action" where
  "list_credentials pid = getM (\<lambda>s. rev (filter (\<lambda>c. sv_product_id c = pid) (credentials s)))"

definition revoke_credential :: "string \<Rightarrow> ('x office_scheme, unit) action" where
  "revoke_credential x = bindM (getM (\<lambda>s. find_row sv_public_id x (credentials s))) (\<lambda>r.
     if r = None then failM NotFound
     else modifyM (\<lambda>s. s\<lparr>credentials := update_rows sv_public_id x (\<lambda>c. c\<lparr>sv_status := CredentialRevoked,
       sv_revoked_at := (case sv_revoked_at c of None \<Rightarrow> Some (clock s) | Some t \<Rightarrow> Some t), sv_updated_at := clock s\<rparr>) (credentials s)\<rparr>))"

definition touch_credential_used :: "int \<Rightarrow> ('x office_scheme, unit) action" where
  "touch_credential_used i = modifyM (\<lambda>s. s\<lparr>credentials := update_rows sv_id i
     (\<lambda>c. c\<lparr>sv_last_used_at := Some (clock s), sv_updated_at := clock s\<rparr>) (credentials s)\<rparr>)"

section \<open>Authentication (\<open>auth.go\<close>)\<close>

definition lower :: "char \<Rightarrow> char" where
  "lower c = (if 65 \<le> (of_char c :: nat) \<and> (of_char c :: nat) \<le> 90 then char_of ((of_char c :: nat) + 32) else c)"

definition parse_bearer :: "string \<Rightarrow> code + (string \<times> string)" where
  "parse_bearer authorization = (case cut (CHR '' '') authorization of (scheme, token, found) \<Rightarrow>
     if \<not> found \<or> map lower scheme \<noteq> ''bearer'' then Inl Unauthenticated
     else (case cut (CHR ''.'') (trim_space token) of (key, secret, found) \<Rightarrow>
       if \<not> found \<or> key = [] \<or> secret = [] then Inl Unauthenticated else Inr (key, secret)))"

text \<open>\<open>Authenticate\<close> with the digest function of the secrets. A failure to record the use is only logged.\<close>

definition authenticate :: "(string \<Rightarrow> string) \<Rightarrow> headers \<Rightarrow> ('x office_scheme, caller) action" where
  "authenticate sha hs =
     bindM (caller_from_values hs) (\<lambda>caller.
     let authorization = trim_space (header hs ''authorization'')
     in if authorization = [] then returnM caller
     else case parse_bearer authorization of
       Inl e \<Rightarrow> failM e
     | Inr (key, secret) \<Rightarrow>
         bindM (get_credential_by_key_id key) (\<lambda>(credential, product).
         case verify_secret sha secret (sv_secret_hash credential) of
           Inl e \<Rightarrow> failM e
         | Inr ok \<Rightarrow>
             if \<not> ok then failM Unauthenticated
             else if \<not> credential_active credential then failM Unauthenticated
             else if pr_status product \<noteq> ProductActive then failM Unauthenticated
             else bindM (touch_credential_used (sv_id credential)) (\<lambda>_.
               returnM (caller\<lparr>ca_kind := KindService, ca_product_id := pr_id product, ca_product_code := pr_code product,
                 ca_credential_id := sv_public_id credential, ca_user_id := [], ca_permissions := []\<rparr>))))"

section \<open>Permissions (\<open>permissions.go\<close>)\<close>

definition perm_scope_all :: string where
  "perm_scope_all = ''openpay:scope:all''"

definition perm_scope_product_prefix :: string where
  "perm_scope_product_prefix = ''openpay:scope:product:''"

text \<open>A context with no caller never passed an edge.\<close>

definition require_operator :: "caller option \<Rightarrow> string \<Rightarrow> code option" where
  "require_operator ctx permission = (case ctx of
     None \<Rightarrow> Some Unauthenticated
   | Some c \<Rightarrow> (case ca_kind c of
       KindOperator \<Rightarrow> if \<not> has_permission c permission then Some PermissionDenied else None
     | KindService \<Rightarrow> Some PermissionDenied
     | KindAnonymous \<Rightarrow> Some Unauthenticated))"

definition require_service :: "caller option \<Rightarrow> code + int" where
  "require_service ctx = (case ctx of
     None \<Rightarrow> Inl Unauthenticated
   | Some c \<Rightarrow>
       if ca_kind c = KindAnonymous then Inl Unauthenticated
       else if ca_kind c \<noteq> KindService then Inl PermissionDenied
       else Inr (ca_product_id c))"

definition cut_prefix :: "string \<Rightarrow> string \<Rightarrow> string option" where
  "cut_prefix p s = (if take (length p) s = p then Some (drop (length p) s) else None)"

fun operator_scope_loop :: "string list \<Rightarrow> string list \<Rightarrow> bool \<times> string list" where
  "operator_scope_loop [] codes = (False, codes)"
| "operator_scope_loop (p # ps) codes =
     (if p = perm_scope_all then (True, [])
      else operator_scope_loop ps (case cut_prefix perm_scope_product_prefix p of
        None \<Rightarrow> codes | Some code \<Rightarrow> if code \<noteq> [] then codes @ [code] else codes))"

definition operator_scope :: "caller \<Rightarrow> bool \<times> string list" where
  "operator_scope c = operator_scope_loop (ca_permissions c) []"

definition require_platform_operator :: "caller option \<Rightarrow> string \<Rightarrow> code option" where
  "require_platform_operator ctx permission = (case require_operator ctx permission of
     Some e \<Rightarrow> Some e
   | None \<Rightarrow> (case ctx of
       None \<Rightarrow> Some PermissionDenied
     | Some c \<Rightarrow> if \<not> fst (operator_scope c) then Some PermissionDenied else None))"

section \<open>The caller's scope (\<open>service/scope.go\<close>)\<close>

text \<open>A grant for a product that does not exist grants nothing.\<close>

fun granted_ids :: "string list \<Rightarrow> int list \<Rightarrow> ('x ledger_scheme, int list) action" where
  "granted_ids [] found = returnM found"
| "granted_ids (code # codes) found = bindM (tryM (get_product_by_code code)) (\<lambda>r. case r of
     Inl e \<Rightarrow> if is_code e NotFound then granted_ids codes found else errM e
   | Inr p \<Rightarrow> granted_ids codes (found @ [pr_id p]))"

definition caller_scope :: "caller option \<Rightarrow> ('x ledger_scheme, product_scope) action" where
  "caller_scope ctx = (case ctx of
     None \<Rightarrow> returnM (only_products [])
   | Some c \<Rightarrow> (case ca_kind c of
       KindService \<Rightarrow> returnM (only_products [ca_product_id c])
     | KindOperator \<Rightarrow> (case operator_scope c of (everything, codes) \<Rightarrow>
         if everything then returnM all_products
         else bindM (granted_ids codes []) (\<lambda>is. returnM (only_products is)))
     | KindAnonymous \<Rightarrow> returnM (only_products [])))"

definition require_visible :: "product_scope \<Rightarrow> int option \<Rightarrow> code option" where
  "require_visible s pid = (if \<not> allows s pid then Some NotFound else None)"

definition require_product_in_scope :: "product_scope \<Rightarrow> int \<Rightarrow> code option" where
  "require_product_in_scope s i = (if \<not> allows_product s i then Some PermissionDenied else None)"

section \<open>Listings within a scope\<close>

text \<open>\<open>ORDER BY key NULLS LAST\<close>, keeping the order of equal keys.\<close>

definition nulls_last :: "('r \<Rightarrow> int option) \<Rightarrow> 'r list \<Rightarrow> 'r list" where
  "nulls_last key rs = sort_key (\<lambda>r. the (key r)) (filter (\<lambda>r. key r \<noteq> None) rs) @ filter (\<lambda>r. key r = None) rs"

definition list_customer_wallets :: "int \<Rightarrow> product_scope option \<Rightarrow> bool \<Rightarrow> ('x estate_scheme, wallet list) action" where
  "list_customer_wallets cid scope include_platform = (case scope_condition scope of
     Inl e \<Rightarrow> failM e
   | Inr cond \<Rightarrow> getM (\<lambda>s. nulls_last wa_product_id (List.map_filter (read_wallet s)
       (filter (\<lambda>w. wa_customer_id w = cid \<and> (cond (wa_product_id w) \<or> (include_platform \<and> wa_product_id w = None)))
         (wallets s)))))"

text \<open>The wallets of the float report, each with its currency and what is owed on it.\<close>

definition float_rows :: "'x estate_scheme \<Rightarrow> (int option \<Rightarrow> bool) \<Rightarrow> ((int option \<times> string) \<times> int) list" where
  "float_rows s cond = List.map_filter (\<lambda>w.
     case (find_row wt_id (wa_wallet_type_id w) (wallet_types s), balance_of (wa_ledger_account_id w) s) of
       (Some t, Some b) \<Rightarrow> if wt_fundable t \<and> cond (wa_product_id w)
         then Some ((wa_product_id w, wt_currency t), - ba_raw_balance b) else None
     | _ \<Rightarrow> None) (wallets s)"

definition float_line_of :: "'x estate_scheme \<Rightarrow> ((int option \<times> string) \<times> int) list \<Rightarrow> int option \<times> string \<Rightarrow> float_line" where
  "float_line_of s rows k = \<lparr>fl_product_id = fst k,
     fl_product_public_id = (case fst k of None \<Rightarrow> None | Some i \<Rightarrow> map_option pr_public_id (find_row pr_id i (products s))),
     fl_currency = snd k, fl_amount = sum_by snd (\<lambda>r. fst r = k) rows,
     fl_wallets = length (filter (\<lambda>r. fst r = k) rows)\<rparr>"

definition float_held :: "product_scope option \<Rightarrow> ('x estate_scheme, float_line list) action" where
  "float_held scope = (case scope_condition scope of
     Inl e \<Rightarrow> failM e
   | Inr cond \<Rightarrow> bindM (getM (\<lambda>s. let rows = float_rows s cond
       in map (float_line_of s rows) (nulls_last fst (sort_key snd (remdups (map fst rows)))))) (\<lambda>lines.
       if list_all (\<lambda>l. in64 (fl_amount l)) lines then returnM lines else failM Internal))"

text \<open>\<open>LIKE\<close>: \<open>%\<close> matches any run, \<open>_\<close> any one character.\<close>

fun like :: "string \<Rightarrow> string \<Rightarrow> bool" where
  "like [] xs \<longleftrightarrow> xs = []"
| "like (p # ps) xs \<longleftrightarrow>
     (if p = CHR ''%'' then list_ex (\<lambda>n. like ps (drop n xs)) [0..<Suc (length xs)]
      else case xs of [] \<Rightarrow> False | x # xs' \<Rightarrow> (p = CHR ''_'' \<or> p = x) \<and> like ps xs')"

record product_filter =
  pl_limit :: int
  pl_offset :: int
  pl_search :: string
  pl_status :: "product_status option"
  pl_scope :: "product_scope option"

definition list_products :: "product_filter \<Rightarrow> ('x ledger_scheme, product list \<times> nat) action" where
  "list_products f = (case scope_condition (pl_scope f) of
     Inl e \<Rightarrow> failM e
   | Inr cond \<Rightarrow> getM (\<lambda>s. let pattern = ''%'' @ map lower (pl_search f) @ ''%'';
       hits = filter (\<lambda>p. (pl_search f = [] \<or> like pattern (map lower (pr_code p)) \<or> like pattern (map lower (pr_name p))) \<and>
         (case pl_status f of None \<Rightarrow> True | Some st \<Rightarrow> pr_status p = st) \<and> cond (Some (pr_id p))) (products s)
       in case page (pl_limit f) (pl_offset f) of (limit, offset) \<Rightarrow> (take limit (drop offset (rev hits)), length hits)))"

section \<open>Lemmas\<close>

lemma set_nulls_last [simp]: "set (nulls_last key rs) = set rs"
  by (auto simp: nulls_last_def)

lemma scope_condition_None: "scope_condition None = Inl Internal"
  by (simp add: scope_condition_def)

lemma scope_condition_allows: "scope_condition (Some sc) = Inr (allows sc)"
  by (auto simp: scope_condition_def allows_def split: option.splits)

lemma operator_scope_loop_spec:
  "operator_scope_loop ps codes = (if perm_scope_all \<in> set ps then (True, [])
     else (False, codes @ List.map_filter (\<lambda>p. case cut_prefix perm_scope_product_prefix p of
        None \<Rightarrow> None | Some code \<Rightarrow> if code \<noteq> [] then Some code else None) ps))"
  by (induction ps arbitrary: codes) (auto simp: List.map_filter_def split: option.splits)

lemma cut_prefix_iff: "cut_prefix p s = Some x \<longleftrightarrow> s = p @ x"
  by (auto simp: cut_prefix_def) (metis append_take_drop_id)

lemma operator_scope_all: "fst (operator_scope c) \<longleftrightarrow> has_permission c perm_scope_all"
  by (simp add: operator_scope_def operator_scope_loop_spec has_permission_def)

lemma grant_code:
  "(case cut_prefix perm_scope_product_prefix p of None \<Rightarrow> None | Some code \<Rightarrow> if code \<noteq> [] then Some code else None) = Some x \<longleftrightarrow>
   x \<noteq> [] \<and> p = perm_scope_product_prefix @ x"
  using cut_prefix_iff [of perm_scope_product_prefix p x] by (cases "cut_prefix perm_scope_product_prefix p") auto

lemma set_map_filter_iff: "x \<in> set (List.map_filter f ps) \<longleftrightarrow> (\<exists>p\<in>set ps. f p = Some x)"
  by (auto simp: List.map_filter_def intro!: rev_image_eqI)

lemma operator_scope_codes:
  "\<not> fst (operator_scope c) \<Longrightarrow> code \<in> set (snd (operator_scope c)) \<longleftrightarrow>
     code \<noteq> [] \<and> has_permission c (perm_scope_product_prefix @ code)"
  by (auto simp: operator_scope_def operator_scope_loop_spec has_permission_def set_map_filter_iff grant_code split: if_splits)

lemmas operator_scope_spec = operator_scope_all operator_scope_codes

lemma granted_ids_Ok:
  "granted_ids codes found s = (Ok is, u) \<Longrightarrow> u = s \<and>
   set is = set found \<union> {i. \<exists>code\<in>set codes. \<exists>p. find_row pr_code code (products s) = Some p \<and> pr_id p = i}"
proof (induction codes arbitrary: found)
  case Nil
  then show ?case by (simp add: act_simps)
next
  case (Cons code codes)
  show ?case
  proof (cases "find_row pr_code code (products s)")
    case None
    then have "granted_ids codes found s = (Ok is, u)"
      using Cons.prems by (simp add: bindM_def try_apply get_product_by_code_def act_simps some_or_def)
    then show ?thesis using Cons.IH None by fastforce
  next
    case (Some p)
    then have "granted_ids codes (found @ [pr_id p]) s = (Ok is, u)"
      using Cons.prems by (simp add: bindM_def try_apply get_product_by_code_def act_simps some_or_def)
    then show ?thesis using Cons.IH Some by fastforce
  qed
qed

text \<open>What a caller is granted: the products whose rows it may see; \<open>None\<close> is a platform row.\<close>

definition granted :: "'x ledger_scheme \<Rightarrow> caller option \<Rightarrow> int option \<Rightarrow> bool" where
  "granted s ctx pid = (case ctx of
     None \<Rightarrow> False
   | Some c \<Rightarrow> (case ca_kind c of
       KindAnonymous \<Rightarrow> False
     | KindService \<Rightarrow> pid = Some (ca_product_id c)
     | KindOperator \<Rightarrow> has_permission c perm_scope_all \<or>
         (\<exists>p code. find_row pr_code code (products s) = Some p \<and> pid = Some (pr_id p) \<and> code \<noteq> [] \<and>
           has_permission c (perm_scope_product_prefix @ code))))"

lemma caller_scope_Ok:
  assumes "caller_scope ctx s = (Ok sc, u)"
  shows "u = s \<and> allows sc = granted s ctx"
proof (cases ctx)
  case None
  then show ?thesis using assms by (auto simp: caller_scope_def act_simps allows_def only_products_def granted_def fun_eq_iff split: option.splits)
next
  case (Some c)
  show ?thesis
  proof (cases "ca_kind c")
    case KindAnonymous
    then show ?thesis using assms Some
      by (auto simp: caller_scope_def act_simps allows_def only_products_def granted_def fun_eq_iff split: option.splits)
  next
    case KindService
    then show ?thesis using assms Some
      by (auto simp: caller_scope_def act_simps allows_def only_products_def granted_def fun_eq_iff split: option.splits)
  next
    case KindOperator
    obtain everything codes where sc: "operator_scope c = (everything, codes)" by fastforce
    show ?thesis
    proof (cases everything)
      case True
      then show ?thesis using assms Some KindOperator sc operator_scope_spec(1) [of c]
        by (auto simp: caller_scope_def act_simps allows_def all_products_def granted_def fun_eq_iff)
    next
      case False
      then obtain "is" where g: "granted_ids codes [] s = (Ok is, u)" "sc = only_products is"
        using assms Some KindOperator sc by (auto simp: caller_scope_def bind_Ok_iff act_simps)
      have codes: "code \<in> set codes \<longleftrightarrow> code \<noteq> [] \<and> has_permission c (perm_scope_product_prefix @ code)" for code
        using operator_scope_spec(2) [of c code] sc False by simp
      have "\<not> has_permission c perm_scope_all" using operator_scope_spec(1) [of c] sc False by simp
      then show ?thesis using granted_ids_Ok [OF g(1)] g(2) codes Some KindOperator
        by (auto simp: allows_def only_products_def granted_def fun_eq_iff split: option.splits)
    qed
  qed
qed

section \<open>Theorems\<close>

text \<open>
  C35. No product's rows leak: what a caller sees of a customer's wallets are exactly the wallets of the products its
  credential or its permissions grant (and the platform's when asked for), and the float report and every other
  scoped query filter by the same condition; a caller granted nothing sees nothing, a query without a scope is refused.
\<close>

theorem scoped_rows_are_granted:
  assumes "caller_scope ctx s = (Ok sc, u)" "list_customer_wallets cid (Some sc) plat s = (Ok ws, v)"
  shows "scope_condition (Some sc) = Inr (granted s ctx) \<and> scope_condition None = Inl Internal \<and>
    (\<forall>w. w \<in> set ws \<longleftrightarrow> (\<exists>row. row \<in> set (wallets s) \<and> read_wallet s row = Some w \<and> wa_customer_id row = cid \<and>
       (granted s ctx (wa_product_id row) \<or> (plat \<and> wa_product_id row = None)))) \<and> u = s \<and> v = s"
  using assms(2) caller_scope_Ok [OF assms(1)]
  by (auto simp: list_customer_wallets_def scope_condition_allows scope_condition_None act_simps set_map_filter_iff)

text \<open>A product backend asks for a customer's wallets and gets its own; the other customer has none there.\<close>

definition demo_backend :: caller where
  "demo_backend = \<lparr>ca_kind = KindService, ca_product_id = 1, ca_product_code = ''shop'', ca_credential_id = ''scr_1'',
     ca_user_id = [], ca_permissions = [], ca_request_id = ''r'', ca_idempotency_key = ''k''\<rparr>"

theorem scoped_rows_are_granted_witness:
  "\<exists>w. fst (list_customer_wallets 1 (Some (only_products [1])) False demo_opened) = Ok [w] \<and>
     granted demo_opened (Some demo_backend) (wa_product_id w)"
proof -
  have sc: "caller_scope (Some demo_backend) demo_opened = (Ok (only_products [1]), demo_opened)"
    by (simp add: caller_scope_def demo_backend_def act_simps)
  obtain ws v where run: "list_customer_wallets 1 (Some (only_products [1])) False demo_opened = (Ok ws, v)"
    by (simp add: list_customer_wallets_def scope_condition_allows act_simps)
  have one: "length ws = 1"
  proof -
    have "map_option length (value_of (fst (list_customer_wallets 1 (Some (only_products [1])) False demo_opened))) = Some 1"
      by code_simp
    then show ?thesis using run by simp
  qed
  then obtain w where w: "ws = [w]" by (auto simp: length_Suc_conv)
  have "\<exists>row. read_wallet demo_opened row = Some w \<and> granted demo_opened (Some demo_backend) (wa_product_id row)"
    using scoped_rows_are_granted [OF sc run] w by auto
  then show ?thesis using run w by (auto simp: read_wallet_def split: option.splits)
qed

lemma cut_at: "c \<notin> set xs \<Longrightarrow> cut c (xs @ c # ys) = (xs, ys, True)"
  by (induction xs) auto

lemma parse_bearer_ok:
  assumes "CHR ''.'' \<notin> set k" "k \<noteq> []" "x \<noteq> []" "trim_space (k @ CHR ''.'' # x) = k @ CHR ''.'' # x"
  shows "parse_bearer (''Bearer '' @ k @ CHR ''.'' # x) = Inr (k, x)"
proof -
  have "cut (CHR '' '') (''Bearer'' @ CHR '' '' # (k @ CHR ''.'' # x)) = (''Bearer'', k @ CHR ''.'' # x, True)"
    by (rule cut_at) simp
  moreover have "map lower ''Bearer'' = ''bearer''" by code_simp
  ultimately show ?thesis using assms by (simp add: parse_bearer_def cut_at)
qed

lemma caller_from_values_Ok:
  "\<exists>c0 s1. caller_from_values hs s = (Ok c0, s1) \<and> credentials s1 = credentials s \<and> products s1 = products s"
  by (auto simp: caller_from_values_def Let_def bindM_def new_id_def act_simps)

text \<open>
  C36. A bearer credential authenticates exactly its product: for the key of a stored credential the request is let in
  iff the secret has the stored digest, the credential is not revoked and its product is active; the caller is then
  that product and carries no operator identity or permission, whatever headers came along. Wrong secret, revoked
  key, suspended product and unknown key are refused with the same error.
\<close>

theorem authenticate_exactly:
  assumes "trim_space (header hs ''authorization'') = ''Bearer '' @ k @ CHR ''.'' # x"
    "CHR ''.'' \<notin> set k" "k \<noteq> []" "x \<noteq> []" "trim_space (k @ CHR ''.'' # x) = k @ CHR ''.'' # x"
    "find_row sv_key_id k (credentials s) = Some cr" "sv_secret_hash cr = hash_secret sha secret"
    "find_row pr_id (sv_product_id cr) (products s) = Some p"
  shows "if sha x = sha secret \<and> credential_active cr \<and> pr_status p = ProductActive
    then \<exists>c. fst (authenticate sha hs s) = Ok c \<and> ca_kind c = KindService \<and> ca_product_id c = pr_id p \<and>
      ca_credential_id c = sv_public_id cr \<and> ca_user_id c = [] \<and> ca_permissions c = []
    else fst (authenticate sha hs s) = Err (app_err Unauthenticated)"
proof -
  obtain c0 s1 where c0: "caller_from_values hs s = (Ok c0, s1)" and s1: "credentials s1 = credentials s" "products s1 = products s"
    using caller_from_values_Ok by blast
  have found: "get_credential_by_key_id k s1 = (Ok (cr, p), s1)"
    using assms(6,8) s1 by (simp add: get_credential_by_key_id_def bindM_def act_simps)
  show ?thesis
    using c0 found verify_hash [of sha x secret] assms(1,7) parse_bearer_ok [OF assms(2-5)]
    by (auto simp: authenticate_def bindM_def Let_def act_simps touch_credential_used_def)
qed

definition demo_credential :: service_credential where
  "demo_credential = \<lparr>sv_id = 1, sv_public_id = ''scr_1'', sv_product_id = 1, sv_name = ''backend'', sv_key_id = ''opk_k'',
     sv_secret_hash = hash_secret rev ''abc'', sv_status = CredentialActive, sv_last_used_at = None, sv_revoked_at = None,
     sv_created_at = 0, sv_updated_at = 0\<rparr>"

definition demo_office :: office where
  "demo_office = estate.extend demo_shop \<lparr>credentials = [demo_credential], idempotency_keys = []\<rparr>"

definition demo_headers :: headers where
  "demo_headers = [(''x-user-id'', ''mallory''), (''x-user-perms'', ''openpay:scope:all''), (''authorization'', ''Bearer opk_k.abc'')]"

theorem authenticate_exactly_witness:
  "\<exists>c. fst (authenticate rev demo_headers demo_office) = Ok c \<and> ca_product_id c = 1 \<and> ca_permissions c = []"
proof -
  have "trim_space (header demo_headers ''authorization'') = ''Bearer '' @ ''opk_k'' @ CHR ''.'' # ''abc''"
    "trim_space (''opk_k'' @ CHR ''.'' # ''abc'') = ''opk_k'' @ CHR ''.'' # ''abc''"
    by code_simp+
  moreover have "find_row sv_key_id ''opk_k'' (credentials demo_office) = Some demo_credential"
    "sv_secret_hash demo_credential = hash_secret rev ''abc''" "credential_active demo_credential"
    by (simp_all add: demo_office_def demo_credential_def estate.defs credential_active_def)
  moreover have "find_row pr_id (sv_product_id demo_credential) (products demo_office) = Some demo_product"
    "pr_status demo_product = ProductActive" "pr_id demo_product = 1"
    by (simp_all add: demo_office_def demo_credential_def estate.defs demo_shop_def demo_product_def)
  ultimately show ?thesis
    using authenticate_exactly [of demo_headers "''opk_k''" "''abc''" demo_office demo_credential rev "''abc''" demo_product] by auto
qed

end
