(* ===== verification/Providers.thy ===== *)
theory Providers
  imports Ids "HOL-Library.AList"
begin

text \<open>
  The boundary to the payment providers (\<open>internal/provider/provider.go\<close>), the
  circuit breaker around one (\<open>resilient.go\<close>) and the request log
  (\<open>internal/payment/logged.go\<close>).

  A provider is code outside of OpenPay: its answers are functions of the calls
  made so far and of the request. Every call is recorded in \<open>calls\<close>, which no
  rollback undoes, as the request log is written on a connection of its own.

  The theorems: \<open>Choose\<close> routes to the first provider that qualifies, and the
  circuit breaker makes no call while it is open and at most \<open>Retries + 1\<close> else.
\<close>

section \<open>The provider's vocabulary\<close>

datatype provider_status = StatusCreated | StatusPending | StatusAuthorized | StatusCaptured
  | StatusFailed | StatusCancelled | StatusOther string

record create_request =
  cq_attempt_id :: string
  cq_amount :: int
  cq_currency :: string
  cq_description :: string
  cq_return_url :: string

record create_result =
  cs_provider_payment_id :: string
  cs_checkout_url :: string

record provider_payment =
  pp_provider_payment_id :: string
  pp_status :: provider_status
  pp_amount :: int
  pp_currency :: string
  pp_failure_code :: string
  pp_failure_reason :: string

datatype object_kind = ObjectPayment | ObjectRefund | ObjectDispute | ObjectPayout

text \<open>A verified webhook; a kind the provider left empty is \<open>None\<close>.\<close>

record webhook_event =
  we_event_id :: string
  we_type :: string
  we_object_kind :: "object_kind option"
  we_object_id :: string

record destination =
  de_name :: string
  de_account_number :: string
  de_ifsc :: string
  de_vpa :: string

record verification =
  ve_verified :: bool
  ve_name_at_bank :: string
  ve_failure_reason :: string

datatype payout_status = ProviderPayoutProcessing | ProviderPayoutPaid | ProviderPayoutFailed
  | ProviderPayoutReversed | ProviderPayoutOther string

record payout_request =
  pq_payout_id :: string
  pq_destination :: destination
  pq_amount :: int
  pq_currency :: string

record provider_payout =
  pt_provider_payout_id :: string
  pt_status :: payout_status
  pt_amount :: int
  pt_failure_reason :: string

datatype provider_refund_status = ProviderRefundPending | ProviderRefundProcessed | ProviderRefundFailed
  | ProviderRefundOther string

record refund_ask =
  rq_refund_id :: string
  rq_provider_payment_id :: string
  rq_amount :: int
  rq_currency :: string

record provider_refund =
  pf_provider_refund_id :: string
  pf_provider_payment_id :: string
  pf_status :: provider_refund_status
  pf_amount :: int
  pf_currency :: string
  pf_failure_reason :: string

datatype provider_dispute_status = ProviderDisputeOpen | ProviderDisputeUnderReview | ProviderDisputeWon
  | ProviderDisputeLost | ProviderDisputeOther string

record provider_dispute =
  pd_provider_dispute_id :: string
  pd_provider_payment_id :: string
  pd_status :: provider_dispute_status
  pd_amount :: int
  pd_currency :: string
  pd_reason :: string
  pd_evidence_due_by :: "int option"

datatype settlement_item_kind = SettlePayment | SettleRefund | SettleChargeback

record settlement_item =
  si_kind :: settlement_item_kind
  si_provider_ref :: string
  si_gross :: int
  si_fee :: int
  si_fee_tax :: int
  si_net :: int

record provider_settlement =
  ps_provider_settlement_id :: string
  ps_settled_at :: int
  ps_bank_reference :: string
  ps_currency :: string
  ps_items :: "settlement_item list"
  ps_raw :: string

text \<open>The interface \<open>Provider\<close>: each answer is an error or a result.\<close>

record provider =
  pv_name :: string
  pv_create_payment :: "call list \<Rightarrow> create_request \<Rightarrow> go_error + create_result"
  pv_fetch_payment :: "call list \<Rightarrow> string \<Rightarrow> go_error + provider_payment"
  pv_capture :: "call list \<Rightarrow> string \<Rightarrow> int \<Rightarrow> go_error + unit"
  pv_cancel :: "call list \<Rightarrow> string \<Rightarrow> go_error + unit"
  pv_refund :: "call list \<Rightarrow> refund_ask \<Rightarrow> go_error + provider_refund"
  pv_fetch_refund :: "call list \<Rightarrow> string \<Rightarrow> go_error + provider_refund"
  pv_fetch_dispute :: "call list \<Rightarrow> string \<Rightarrow> go_error + provider_dispute"
  pv_submit_evidence :: "call list \<Rightarrow> string \<Rightarrow> string \<Rightarrow> go_error + unit"
  pv_fetch_settlements :: "call list \<Rightarrow> int \<Rightarrow> go_error + provider_settlement list"
  pv_verify_destination :: "call list \<Rightarrow> destination \<Rightarrow> go_error + verification"
  pv_create_payout :: "call list \<Rightarrow> payout_request \<Rightarrow> go_error + provider_payout"
  pv_fetch_payout :: "call list \<Rightarrow> string \<Rightarrow> go_error + provider_payout"
  pv_verify_webhook :: "(string \<times> string) list \<Rightarrow> string \<Rightarrow> go_error + webhook_event"

section \<open>Calls and the request log (\<open>logged.go\<close>)\<close>

text \<open>The call is logged whatever the answer, and the answer handed on.\<close>

definition ask :: "call \<Rightarrow> (call list \<Rightarrow> go_error + 'a) \<Rightarrow> ('x env_scheme, 'a) action" where
  "ask c answer = bindM (getM calls) (\<lambda>past.
     bindM (modifyM (\<lambda>s. s\<lparr>calls := calls s @ [c]\<rparr>)) (\<lambda>_.
     case answer past of Inl e \<Rightarrow> errM e | Inr a \<Rightarrow> returnM a))"

definition entry :: "string \<Rightarrow> string \<Rightarrow> int \<Rightarrow> call" where
  "entry op ref amount = \<lparr>cl_op = op, cl_args = [ref], cl_amount = amount\<rparr>"

definition ask_create_payment :: "provider \<Rightarrow> create_request \<Rightarrow> ('x env_scheme, create_result) action" where
  "ask_create_payment p r = ask (entry ''create_payment'' (cq_attempt_id r) (cq_amount r)) (\<lambda>past. pv_create_payment p past r)"

definition ask_fetch_payment :: "provider \<Rightarrow> string \<Rightarrow> ('x env_scheme, provider_payment) action" where
  "ask_fetch_payment p i = ask (entry ''fetch_payment'' i 0) (\<lambda>past. pv_fetch_payment p past i)"

definition ask_capture :: "provider \<Rightarrow> string \<Rightarrow> int \<Rightarrow> ('x env_scheme, unit) action" where
  "ask_capture p i amount = ask (entry ''capture'' i amount) (\<lambda>past. pv_capture p past i amount)"

definition ask_cancel :: "provider \<Rightarrow> string \<Rightarrow> ('x env_scheme, unit) action" where
  "ask_cancel p i = ask (entry ''cancel'' i 0) (\<lambda>past. pv_cancel p past i)"

definition ask_refund :: "provider \<Rightarrow> refund_ask \<Rightarrow> ('x env_scheme, provider_refund) action" where
  "ask_refund p r = ask (entry ''refund'' (rq_refund_id r) (rq_amount r)) (\<lambda>past. pv_refund p past r)"

definition ask_fetch_refund :: "provider \<Rightarrow> string \<Rightarrow> ('x env_scheme, provider_refund) action" where
  "ask_fetch_refund p i = ask (entry ''fetch_refund'' i 0) (\<lambda>past. pv_fetch_refund p past i)"

definition ask_fetch_dispute :: "provider \<Rightarrow> string \<Rightarrow> ('x env_scheme, provider_dispute) action" where
  "ask_fetch_dispute p i = ask (entry ''fetch_dispute'' i 0) (\<lambda>past. pv_fetch_dispute p past i)"

text \<open>The evidence may carry customer details: the log keeps its size only.\<close>

definition ask_submit_evidence :: "provider \<Rightarrow> string \<Rightarrow> string \<Rightarrow> ('x env_scheme, unit) action" where
  "ask_submit_evidence p i evidence =
     ask (entry ''submit_dispute_evidence'' i (int (length evidence))) (\<lambda>past. pv_submit_evidence p past i evidence)"

definition ask_verify_destination :: "provider \<Rightarrow> destination \<Rightarrow> ('x env_scheme, verification) action" where
  "ask_verify_destination p d = ask (entry ''verify_destination'' [] 0) (\<lambda>past. pv_verify_destination p past d)"

definition ask_create_payout :: "provider \<Rightarrow> payout_request \<Rightarrow> ('x env_scheme, provider_payout) action" where
  "ask_create_payout p r = ask (entry ''create_payout'' (pq_payout_id r) (pq_amount r)) (\<lambda>past. pv_create_payout p past r)"

definition ask_fetch_payout :: "provider \<Rightarrow> string \<Rightarrow> ('x env_scheme, provider_payout) action" where
  "ask_fetch_payout p i = ask (entry ''fetch_payout'' i 0) (\<lambda>past. pv_fetch_payout p past i)"

definition ask_fetch_settlements :: "provider \<Rightarrow> string \<Rightarrow> int \<Rightarrow> ('x env_scheme, provider_settlement list) action" where
  "ask_fetch_settlements p since_text since = ask (entry ''fetch_settlements'' since_text 0) (\<lambda>past. pv_fetch_settlements p past since)"

lemmas ask_defs = ask_create_payment_def ask_fetch_payment_def ask_capture_def ask_cancel_def ask_refund_def
  ask_fetch_refund_def ask_fetch_dispute_def ask_submit_evidence_def ask_verify_destination_def
  ask_create_payout_def ask_fetch_payout_def ask_fetch_settlements_def

lemma ask_run: "ask c answer s = (case answer (calls s) of Inl e \<Rightarrow> Err e | Inr a \<Rightarrow> Ok a, s\<lparr>calls := calls s @ [c]\<rparr>)"
  by (simp add: ask_def act_simps split: sum.splits)

lemma safep_ask: "env_free I \<Longrightarrow> safep I (ask c answer)"
  by (simp add: safep_def ask_run env_free_calls)

lemma safep_asks:
  assumes "env_free I"
  shows "safep I (ask_create_payment p cr)" "safep I (ask_fetch_payment p i)" "safep I (ask_capture p i a)"
    "safep I (ask_cancel p i)" "safep I (ask_refund p rr)" "safep I (ask_fetch_refund p i)" "safep I (ask_fetch_dispute p i)"
    "safep I (ask_submit_evidence p i x)" "safep I (ask_verify_destination p d)" "safep I (ask_create_payout p pr)"
    "safep I (ask_fetch_payout p i)" "safep I (ask_fetch_settlements p x t)"
  unfolding ask_defs by (rule safep_ask [OF assms])+

section \<open>The circuit breaker (\<open>resilient.go\<close>)\<close>

record resilience_config =
  rs_timeout :: int
  rs_retries :: int
  rs_backoff :: int
  rs_failure_threshold :: int
  rs_cooldown :: int

text \<open>\<open>WithDefaults\<close>, in milliseconds.\<close>

definition resilience_with_defaults :: "resilience_config \<Rightarrow> resilience_config" where
  "resilience_with_defaults c =
     \<lparr>rs_timeout = (if rs_timeout c \<le> 0 then 10000 else rs_timeout c),
      rs_retries = (if rs_retries c < 0 then 0 else rs_retries c),
      rs_backoff = (if rs_backoff c \<le> 0 then 200 else rs_backoff c),
      rs_failure_threshold = (if rs_failure_threshold c \<le> 0 then 5 else rs_failure_threshold c),
      rs_cooldown = (if rs_cooldown c \<le> 0 then 30000 else rs_cooldown c)\<rparr>"

record circuit =
  ci_failures :: int
  ci_open_until :: int
  ci_last_error :: string

record health =
  he_healthy :: bool
  he_failures :: int
  he_open_until :: int
  he_last_error :: string

definition circuit_health :: "int \<Rightarrow> circuit \<Rightarrow> health" where
  "circuit_health now c = \<lparr>he_healthy = (ci_open_until c < now), he_failures = ci_failures c,
     he_open_until = ci_open_until c, he_last_error = ci_last_error c\<rparr>"

definition record_call :: "resilience_config \<Rightarrow> int \<Rightarrow> go_error option \<Rightarrow> circuit \<Rightarrow> circuit" where
  "record_call cfg now err c = (case err of
     None \<Rightarrow> c\<lparr>ci_failures := 0, ci_last_error := []\<rparr>
   | Some e \<Rightarrow>
       if \<not> is_code e Unavailable then c\<lparr>ci_failures := 0, ci_last_error := []\<rparr>
       else let c' = c\<lparr>ci_failures := ci_failures c + 1, ci_last_error := error_string e\<rparr>
         in if rs_failure_threshold cfg \<le> ci_failures c' then c'\<lparr>ci_open_until := now + rs_cooldown cfg\<rparr> else c')"

text \<open>
  One try: the answer of the provider, whether its deadline passed, and the clock after it. The caller's
  context may be done while it waits to retry.
\<close>

record 'a tried =
  td_answer :: "go_error + 'a"
  td_timed_out :: bool
  td_now :: int
  td_cancelled :: bool

definition tried_result :: "'a tried \<Rightarrow> go_error + 'a" where
  "tried_result t = (case td_answer t of
     Inr a \<Rightarrow> Inr a
   | Inl e \<Rightarrow> Inl (if td_timed_out t then app_err Unavailable else e))"

definition error_of :: "go_error + 'a \<Rightarrow> go_error option" where
  "error_of r = (case r of Inl e \<Rightarrow> Some e | Inr _ \<Rightarrow> None)"

definition unavailable :: "go_error + 'a \<Rightarrow> bool" where
  "unavailable r = (case error_of r of None \<Rightarrow> False | Some e \<Rightarrow> is_code e Unavailable)"

text \<open>
  The loop of \<open>do\<close> from try \<open>n\<close> on, with so many tries left after it. \<open>tries\<close> says how each try goes; the
  value is the result, the circuit after it and the number of calls made.
\<close>

fun do_tries :: "resilience_config \<Rightarrow> (nat \<Rightarrow> 'a tried) \<Rightarrow> nat \<Rightarrow> nat \<Rightarrow> circuit \<Rightarrow> (go_error + 'a) \<times> circuit \<times> nat" where
  "do_tries cfg tries n left c =
     (if 0 < n \<and> td_cancelled (tries n) then (Inl (app_err Unavailable), c, n)
      else let t = tries n; r = tried_result t; c' = record_call cfg (td_now t) (error_of r) c
        in if \<not> unavailable r then (r, c', Suc n)
           else if \<not> he_healthy (circuit_health (td_now t) c') then (r, c', Suc n)
           else case left of 0 \<Rightarrow> (r, c', Suc n) | Suc k \<Rightarrow> do_tries cfg tries (Suc n) k c')"

definition do_call :: "resilience_config \<Rightarrow> int \<Rightarrow> (nat \<Rightarrow> 'a tried) \<Rightarrow> circuit \<Rightarrow> (go_error + 'a) \<times> circuit \<times> nat" where
  "do_call cfg now tries c =
     (if \<not> he_healthy (circuit_health now c) then (Inl (app_err Unavailable), c, 0)
      else do_tries cfg tries 0 (nat (rs_retries cfg)) c)"

section \<open>The registry\<close>

text \<open>The providers by name with the health of their circuits, and the order to prefer them in.\<close>

record registry =
  rg_providers :: "(string \<times> provider) list"
  rg_health :: "string \<Rightarrow> health option"
  rg_priority :: "string list"

definition new_registry :: "string list \<Rightarrow> (string \<Rightarrow> health option) \<Rightarrow> provider list \<Rightarrow> registry" where
  "new_registry priority hs ps = \<lparr>rg_providers = fold (\<lambda>p. AList.update (pv_name p) p) ps [], rg_health = hs, rg_priority = priority\<rparr>"

definition registered :: "registry \<Rightarrow> string \<Rightarrow> provider option" where
  "registered r name = map_of (rg_providers r) name"

definition registry_names :: "registry \<Rightarrow> string list" where
  "registry_names r = filter (\<lambda>name. registered r name \<noteq> None) (rg_priority r)"

definition registry_get :: "registry \<Rightarrow> string \<Rightarrow> go_error + provider" where
  "registry_get r name = (case registered r name of None \<Rightarrow> Inl (app_err NotFound) | Some p \<Rightarrow> Inr p)"

record control =
  ct_disabled :: bool
  ct_forced :: bool
  ct_reason :: string

type_synonym controls = "(string \<times> control) list"

text \<open>Reading a Go map: an absent key gives the zero value.\<close>

definition control_of :: "controls \<Rightarrow> string \<Rightarrow> control" where
  "control_of cs name = (case map_of cs name of Some c \<Rightarrow> c | None \<Rightarrow> \<lparr>ct_disabled = False, ct_forced = False, ct_reason = []\<rparr>)"

text \<open>\<open>Registry.Health\<close>: a provider not wrapped in a circuit counts as healthy.\<close>

definition registry_health :: "registry \<Rightarrow> string \<Rightarrow> health \<times> bool" where
  "registry_health r name = (let none = \<lparr>he_healthy = False, he_failures = 0, he_open_until = 0, he_last_error = []\<rparr>
     in case registered r name of
       None \<Rightarrow> (none, False)
     | Some p \<Rightarrow> (case rg_health r name of None \<Rightarrow> (none\<lparr>he_healthy := True\<rparr>, True) | Some h \<Rightarrow> (h, True)))"

fun choose_forced :: "registry \<Rightarrow> controls \<Rightarrow> string list \<Rightarrow> (provider \<times> string) option" where
  "choose_forced r cs [] = None"
| "choose_forced r cs (name # names) =
     (if ct_forced (control_of cs name)
      then (case registered r name of
          Some p \<Rightarrow> Some (p, ''forced by operator: '' @ ct_reason (control_of cs name))
        | None \<Rightarrow> choose_forced r cs names)
      else choose_forced r cs names)"

fun join_with :: "string \<Rightarrow> string list \<Rightarrow> string" where
  "join_with sep [] = []"
| "join_with sep [x] = x"
| "join_with sep (x # y # ys) = x @ sep @ join_with sep (y # ys)"

fun choose_healthy :: "registry \<Rightarrow> controls \<Rightarrow> string list \<Rightarrow> string list \<Rightarrow> (provider \<times> string) option" where
  "choose_healthy r cs skipped [] = None"
| "choose_healthy r cs skipped (name # names) =
     (case registered r name of
        None \<Rightarrow> choose_healthy r cs skipped names
      | Some p \<Rightarrow>
          if ct_disabled (control_of cs name)
          then choose_healthy r cs (skipped @ [name @ '' disabled ('' @ ct_reason (control_of cs name) @ '')'']) names
          else if \<not> he_healthy (fst (registry_health r name))
          then choose_healthy r cs (skipped @ [name @ '' circuit open'']) names
          else if skipped \<noteq> [] then Some (p, ''failover: '' @ join_with '', '' skipped)
          else Some (p, ''priority: first healthy provider''))"

definition choose_provider :: "registry \<Rightarrow> controls \<Rightarrow> go_error + (provider \<times> string)" where
  "choose_provider r cs = (case choose_forced r cs (rg_priority r) of
     Some x \<Rightarrow> Inr x
   | None \<Rightarrow> (case choose_healthy r cs [] (rg_priority r) of
       Some x \<Rightarrow> Inr x
     | None \<Rightarrow> Inl (app_err Unavailable)))"

section \<open>Routing\<close>

definition qualifies :: "registry \<Rightarrow> controls \<Rightarrow> string \<Rightarrow> bool" where
  "qualifies r cs name \<longleftrightarrow> registered r name \<noteq> None \<and> \<not> ct_disabled (control_of cs name) \<and> he_healthy (fst (registry_health r name))"

definition forces :: "registry \<Rightarrow> controls \<Rightarrow> string \<Rightarrow> bool" where
  "forces r cs name \<longleftrightarrow> registered r name \<noteq> None \<and> ct_forced (control_of cs name)"

text \<open>The documented policy: the forced provider, or the first that qualifies.\<close>

definition routed :: "registry \<Rightarrow> controls \<Rightarrow> string option" where
  "routed r cs = (case List.find (forces r cs) (rg_priority r) of
     Some n \<Rightarrow> Some n | None \<Rightarrow> List.find (qualifies r cs) (rg_priority r))"

lemma choose_forced_find:
  "map_option fst (choose_forced r cs names) = map_option (\<lambda>n. the (registered r n)) (List.find (forces r cs) names)"
  by (induction names) (auto simp: forces_def split: option.splits)

lemma choose_healthy_find:
  "map_option fst (choose_healthy r cs skipped names) = map_option (\<lambda>n. the (registered r n)) (List.find (qualifies r cs) names)"
  by (induction names arbitrary: skipped) (auto simp: qualifies_def split: option.splits)

text \<open>
  \<open>Choose\<close> follows its routing policy exactly: the provider an operator forced if one is registered, else the
  first by priority that is registered, not disabled and whose circuit is not open, and \<open>Unavailable\<close> exactly
  when there is none.
\<close>

theorem choose_follows_policy:
  "map_sum (\<lambda>e. e) fst (choose_provider r cs) = (case routed r cs of
     None \<Rightarrow> Inl (app_err Unavailable) | Some n \<Rightarrow> Inr (the (registered r n)))"
proof (cases "choose_forced r cs (rg_priority r)")
  case None
  then have f: "List.find (forces r cs) (rg_priority r) = None" using choose_forced_find [of r cs "rg_priority r"] by simp
  show ?thesis
    using choose_healthy_find [of r cs "[]" "rg_priority r"]
    by (cases "choose_healthy r cs [] (rg_priority r)"; cases "List.find (qualifies r cs) (rg_priority r)")
      (simp_all add: choose_provider_def routed_def None f)
next
  case (Some x)
  then show ?thesis
    using choose_forced_find [of r cs "rg_priority r"]
    by (cases "List.find (forces r cs) (rg_priority r)") (simp_all add: choose_provider_def routed_def)
qed

section \<open>The breaker\<close>

lemma record_call_unavailable: "unavailable r \<Longrightarrow> ci_failures (record_call cfg now (error_of r) c) = ci_failures c + 1"
  by (auto simp: unavailable_def record_call_def Let_def split: option.splits)

lemma record_call_answered: "\<not> unavailable r \<Longrightarrow> ci_failures (record_call cfg now (error_of r) c) = 0"
  by (auto simp: unavailable_def record_call_def split: option.splits)

lemma unavailable_app_err [simp]: "unavailable (Inl (app_err Unavailable))"
  by (simp add: unavailable_def error_of_def)

lemma do_tries_counts:
  assumes "do_tries cfg tries n left c = (r, c', m)"
  shows "n \<le> m \<and> m \<le> n + left + 1 \<and> (n = 0 \<longrightarrow> 0 < m) \<and> (\<forall>i. n \<le> i \<and> Suc i < m \<longrightarrow> unavailable (tried_result (tries i))) \<and>
    (if unavailable r then ci_failures c' = ci_failures c + int (m - n) \<and> (\<forall>i. n \<le> i \<and> i < m \<longrightarrow> unavailable (tried_result (tries i)))
     else n < m \<and> ci_failures c' = 0 \<and> r = tried_result (tries (m - 1)))"
  using assms
proof (induction left arbitrary: n c)
  case 0
  show ?case
    using 0
    by (auto simp: record_call_unavailable record_call_answered Let_def le_less_Suc_eq less_Suc_eq split: if_splits)
next
  case (Suc k)
  let ?r = "tried_result (tries n)"
  let ?c = "record_call cfg (td_now (tries n)) (error_of ?r) c"
  show ?case
  proof (cases "(0 < n \<and> td_cancelled (tries n)) \<or> \<not> unavailable ?r \<or> \<not> he_healthy (circuit_health (td_now (tries n)) ?c)")
    case True
    then show ?thesis
      using Suc.prems
      by (auto simp: record_call_unavailable record_call_answered Let_def less_Suc_eq split: if_splits)
  next
    case False
    then have "do_tries cfg tries (Suc n) k ?c = (r, c', m)" using Suc.prems by (subst (asm) do_tries.simps) (auto simp add: Let_def simp del: do_tries.simps)
    note ih = Suc.IH [OF this]
    have fails: "ci_failures ?c = ci_failures c + 1" by (rule record_call_unavailable) (use False in simp)
    have here: "unavailable ?r" using False by simp
    have split: "n \<le> i \<longleftrightarrow> i = n \<or> Suc n \<le> i" for i by auto
    show ?thesis using ih fails here by (auto simp: split)
  qed
qed

text \<open>
  C38. The circuit breaker: while the circuit is open a call is refused without asking the provider; otherwise the
  provider is asked at least once and at most \<open>Retries + 1\<close> times, again only after an \<open>Unavailable\<close> answer. An
  answer of any other kind, a decline included, is handed on at once and clears the failure count; an
  \<open>Unavailable\<close> outcome adds every try that was made to it.
\<close>

theorem breaker_bounds_calls:
  assumes "do_call (resilience_with_defaults cfg) now tries c = (r, c', n)"
  shows "(n = 0 \<longleftrightarrow> now \<le> ci_open_until c) \<and> int n \<le> rs_retries (resilience_with_defaults cfg) + 1 \<and>
    (\<forall>i. Suc i < n \<longrightarrow> unavailable (tried_result (tries i))) \<and>
    (if unavailable r then ci_failures c' = ci_failures c + int n
     else ci_failures c' = 0 \<and> r = tried_result (tries (n - 1)) \<and> 0 < n)"
proof (cases "ci_open_until c < now")
  case True
  then have run: "do_tries (resilience_with_defaults cfg) tries 0 (nat (rs_retries (resilience_with_defaults cfg))) c = (r, c', n)"
    using assms by (simp add: do_call_def circuit_health_def)
  have "0 \<le> rs_retries (resilience_with_defaults cfg)" by (simp add: resilience_with_defaults_def)
  then show ?thesis using do_tries_counts [OF run] True by (auto split: if_splits)
next
  case False
  then show ?thesis using assms by (auto simp: do_call_def circuit_health_def resilience_with_defaults_def)
qed

text \<open>A provider that times out once and then declines; the circuit ends with no failures counted.\<close>

definition demo_resilience :: resilience_config where
  "demo_resilience = \<lparr>rs_timeout = 0, rs_retries = 2, rs_backoff = 0, rs_failure_threshold = 0, rs_cooldown = 0\<rparr>"

definition demo_tries :: "nat \<Rightarrow> unit tried" where
  "demo_tries n = \<lparr>td_answer = Inl (app_err FailedPrecondition), td_timed_out = (n = 0), td_now = 10 + int n, td_cancelled = False\<rparr>"

definition demo_circuit :: circuit where
  "demo_circuit = \<lparr>ci_failures = 1, ci_open_until = 0, ci_last_error = []\<rparr>"

theorem breaker_bounds_calls_witness:
  "do_call (resilience_with_defaults demo_resilience) 10 demo_tries demo_circuit =
     (Inl (app_err FailedPrecondition), \<lparr>ci_failures = 0, ci_open_until = 0, ci_last_error = []\<rparr>, 2) \<and>
   ci_failures (fst (snd (do_call (resilience_with_defaults demo_resilience) 10 demo_tries demo_circuit))) = 0"
proof -
  have run: "do_call (resilience_with_defaults demo_resilience) 10 demo_tries demo_circuit =
     (Inl (app_err FailedPrecondition), \<lparr>ci_failures = 0, ci_open_until = 0, ci_last_error = []\<rparr>, 2)"
    by code_simp
  have "\<not> unavailable (Inl (app_err FailedPrecondition) :: go_error + unit)" by (simp add: unavailable_def error_of_def)
  then show ?thesis using breaker_bounds_calls [OF run] run by simp
qed

end
