(* ===== verification/DaoPayment.thy ===== *)
theory DaoPayment
  imports Access Providers
begin

text \<open>
  Payments, attempts, transitions, refunds, disputes and provider events
  (\<open>internal/models/dao/payment.go\<close>), the tables that hold them, and the queries on them
  (\<open>internal/repository/postgresql/payment.go\<close>, \<open>refund.go\<close>, \<open>dispute.go\<close>, \<open>provider_control.go\<close>).

  The CHECK constraints of the migrations are predicates that an insert or an
  update has to meet. The columns a query reads through a join are filled in
  when a row is read. An unset time is \<open>zero_time\<close>. The order a payment belongs
  to is a row its caller has just written; that foreign key is not checked again.
\<close>

section \<open>Rows\<close>

datatype payment_status = PaymentCreated | PaymentPending | PaymentAuthorized | PaymentCaptured | PaymentSettled
  | PaymentFailed | PaymentExpired | PaymentCancelled | PaymentPartiallyRefunded | PaymentRefunded
  | PaymentDisputed | PaymentDisputeWon | PaymentDisputeLost

definition is_open :: "payment_status \<Rightarrow> bool" where
  "is_open s \<longleftrightarrow> s = PaymentCreated \<or> s = PaymentPending \<or> s = PaymentAuthorized"

datatype payment_purpose = PurposeWalletTopup | PurposeOrder

datatype payment_application = ApplicationPending | ApplicationApplied | ApplicationUnapplied | ApplicationSuspense

definition zero_time :: int where "zero_time = - 62135596800"

record payment =
  pm_id :: int
  pm_public_id :: string
  pm_product_id :: int
  pm_customer_id :: "int option"
  pm_purpose :: payment_purpose
  pm_wallet_id :: "int option"
  pm_order_id :: "int option"
  pm_amount :: int
  pm_currency :: string
  pm_status :: payment_status
  pm_application :: payment_application
  pm_provider :: "string option"
  pm_captured_amount :: "int option"
  pm_captured_at :: "int option"
  pm_settled_at :: "int option"
  pm_refunded_amount :: int
  pm_failure_code :: "string option"
  pm_failure_reason :: "string option"
  pm_description :: string
  pm_return_url :: string
  pm_expires_at :: int
  pm_product_public_id :: string
  pm_customer_public_id :: "string option"
  pm_wallet_public_id :: "string option"
  pm_created_at :: int
  pm_updated_at :: int

record payment_attempt =
  pa_id :: int
  pa_public_id :: string
  pa_payment_id :: int
  pa_provider :: string
  pa_routing_reason :: string
  pa_provider_payment_id :: "string option"
  pa_status :: provider_status
  pa_checkout_url :: "string option"
  pa_failure_code :: "string option"
  pa_failure_reason :: "string option"
  pa_created_at :: int
  pa_updated_at :: int

record payment_transition =
  px_id :: int
  px_payment_id :: int
  px_from :: payment_status
  px_to :: payment_status
  px_source :: string
  px_reference :: "string option"
  px_detail :: "string option"
  px_created_at :: int

record provider_event =
  pe_id :: int
  pe_provider :: string
  pe_event_id :: string
  pe_event_type :: string
  pe_object_kind :: object_kind
  pe_object_id :: "string option"
  pe_payload :: string
  pe_received_at :: int
  pe_processed_at :: "int option"
  pe_attempts :: int
  pe_next_attempt_at :: int
  pe_last_error :: "string option"

datatype refund_status = RefundInitiated | RefundPending | RefundProcessed | RefundFailed

definition refund_final :: "refund_status \<Rightarrow> bool" where
  "refund_final s \<longleftrightarrow> s = RefundProcessed \<or> s = RefundFailed"

datatype refund_source = RefundFromWallet | RefundFromUnapplied | RefundFromOrder

record refund =
  rf_id :: int
  rf_public_id :: string
  rf_payment_id :: int
  rf_product_id :: int
  rf_amount :: int
  rf_currency :: string
  rf_status :: refund_status
  rf_source :: refund_source
  rf_reason_code :: string
  rf_memo :: string
  rf_provider :: string
  rf_provider_refund_id :: "string option"
  rf_failure_code :: "string option"
  rf_failure_reason :: "string option"
  rf_requested_by :: string
  rf_processed_at :: "int option"
  rf_payment_public_id :: string
  rf_created_at :: int
  rf_updated_at :: int

datatype dispute_status = DisputeOpen | DisputeUnderReview | DisputeWon | DisputeLost

definition is_resolved :: "dispute_status \<Rightarrow> bool" where
  "is_resolved s \<longleftrightarrow> s = DisputeWon \<or> s = DisputeLost"

record dispute =
  di_id :: int
  di_public_id :: string
  di_payment_id :: int
  di_product_id :: int
  di_provider :: string
  di_provider_dispute_id :: string
  di_amount :: int
  di_currency :: string
  di_reason :: string
  di_status :: dispute_status
  di_from_wallet :: int
  di_from_unapplied :: int
  di_from_expense :: int
  di_evidence_due_by :: "int option"
  di_evidence :: "string option"
  di_evidence_submitted_by :: "string option"
  di_evidence_submitted_at :: "int option"
  di_resolved_at :: "int option"
  di_payment_public_id :: string
  di_created_at :: int
  di_updated_at :: int

record till = office +
  payments :: "payment list"
  attempts :: "payment_attempt list"
  transitions :: "payment_transition list"
  provider_events :: "provider_event list"
  refunds :: "refund list"
  disputes :: "dispute list"
  provider_controls :: controls

section \<open>Payments\<close>

text \<open>The constraints \<open>ck_payments_captured\<close>, \<open>ck_payments_refunded\<close> and \<open>ck_payments_target\<close>.\<close>

definition captured_status :: "payment_status \<Rightarrow> bool" where
  "captured_status s \<longleftrightarrow> s \<in> set [PaymentCaptured, PaymentSettled, PaymentPartiallyRefunded, PaymentRefunded,
     PaymentDisputed, PaymentDisputeWon, PaymentDisputeLost]"

definition ck_payments_captured :: "payment \<Rightarrow> bool" where
  "ck_payments_captured p \<longleftrightarrow> captured_status (pm_status p) = (pm_captured_amount p \<noteq> None)"

definition ck_payments_refunded :: "payment \<Rightarrow> bool" where
  "ck_payments_refunded p \<longleftrightarrow> 0 \<le> pm_refunded_amount p \<and>
     pm_refunded_amount p \<le> (case pm_captured_amount p of None \<Rightarrow> 0 | Some a \<Rightarrow> a)"

definition ck_payments_target :: "payment \<Rightarrow> bool" where
  "ck_payments_target p \<longleftrightarrow> (pm_purpose p \<noteq> PurposeWalletTopup \<or> (pm_wallet_id p \<noteq> None \<and> pm_customer_id p \<noteq> None)) \<and>
     (pm_purpose p \<noteq> PurposeOrder \<or> pm_order_id p \<noteq> None)"

definition payment_checks :: "payment \<Rightarrow> bool" where
  "payment_checks p \<longleftrightarrow> 0 < pm_amount p \<and> ck_payments_captured p \<and> ck_payments_refunded p \<and> ck_payments_target p"

definition payment_refs :: "payment \<Rightarrow> 'x estate_scheme \<Rightarrow> bool" where
  "payment_refs p s \<longleftrightarrow> product_exists (Some (pm_product_id p)) s \<and>
     (case pm_customer_id p of None \<Rightarrow> True | Some i \<Rightarrow> find_row cu_id i (customers s) \<noteq> None) \<and>
     (case pm_wallet_id p of None \<Rightarrow> True | Some i \<Rightarrow> find_row wa_id i (wallets s) \<noteq> None)"

text \<open>The columns read through the joins.\<close>

definition read_payment :: "'x estate_scheme \<Rightarrow> payment \<Rightarrow> payment option" where
  "read_payment s p = (case find_row pr_id (pm_product_id p) (products s) of
     None \<Rightarrow> None
   | Some pr \<Rightarrow> Some (p\<lparr>pm_product_public_id := pr_public_id pr,
       pm_customer_public_id := (case pm_customer_id p of None \<Rightarrow> None
         | Some i \<Rightarrow> map_option cu_public_id (find_row cu_id i (customers s))),
       pm_wallet_public_id := (case pm_wallet_id p of None \<Rightarrow> None
         | Some i \<Rightarrow> map_option wa_public_id (find_row wa_id i (wallets s)))\<rparr>))"

definition create_payment_row :: "payment \<Rightarrow> ('x till_scheme, payment) action" where
  "create_payment_row p =
     bindM (getM (\<lambda>s. p\<lparr>pm_id := next_id (payments s), pm_captured_amount := None, pm_captured_at := None,
        pm_settled_at := None, pm_refunded_amount := 0, pm_failure_code := None, pm_failure_reason := None,
        pm_created_at := clock s, pm_updated_at := clock s\<rparr>)) (\<lambda>row.
     bindM (getM (payment_refs p)) (\<lambda>fk.
     if \<not> payment_checks row \<or> \<not> fk then failM Internal
     else bindM (modifyM (\<lambda>s. s\<lparr>payments := payments s @ [row]\<rparr>)) (\<lambda>_.
       returnM (p\<lparr>pm_id := pm_id row, pm_created_at := pm_created_at row, pm_updated_at := pm_updated_at row\<rparr>))))"

definition find_payment :: "int \<Rightarrow> 'x till_scheme \<Rightarrow> payment option" where
  "find_payment i s = find_row pm_id i (payments s)"

definition get_payment_by_id :: "int \<Rightarrow> ('x till_scheme, payment) action" where
  "get_payment_by_id i = bindM (getM (\<lambda>s. Option.bind (find_payment i s) (read_payment s))) (some_or NotFound)"

definition get_payment_by_public_id :: "string \<Rightarrow> ('x till_scheme, payment) action" where
  "get_payment_by_public_id x = bindM (getM (\<lambda>s. Option.bind (find_row pm_public_id x (payments s)) (read_payment s))) (some_or NotFound)"

definition lock_payment :: "ctx \<Rightarrow> int \<Rightarrow> ('x till_scheme, payment) action" where
  "lock_payment c i = (if \<not> in_tx c then failM Internal else get_payment_by_id i)"

text \<open>
  Only the fields that change as a payment progresses are written. PostgreSQL looks at the constraints in
  the order of their names.
\<close>

definition write_payment :: "payment \<Rightarrow> int \<Rightarrow> payment \<Rightarrow> payment" where
  "write_payment p now row = row\<lparr>pm_status := pm_status p, pm_application := pm_application p, pm_provider := pm_provider p,
     pm_captured_amount := pm_captured_amount p, pm_captured_at := pm_captured_at p, pm_failure_code := pm_failure_code p,
     pm_failure_reason := pm_failure_reason p, pm_refunded_amount := pm_refunded_amount p, pm_settled_at := pm_settled_at p,
     pm_updated_at := now\<rparr>"

definition update_payment :: "payment \<Rightarrow> ('x till_scheme, payment) action" where
  "update_payment p = bindM (getM (find_payment (pm_id p))) (\<lambda>r. case r of
     None \<Rightarrow> failM Internal
   | Some row \<Rightarrow> bindM (getM (\<lambda>s. write_payment p (clock s) row)) (\<lambda>row'.
       if \<not> ck_payments_captured row' then failM Internal
       else if \<not> ck_payments_refunded row' then failM FailedPrecondition
       else if \<not> payment_checks row' then failM Internal
       else bindM (modifyM (\<lambda>s. s\<lparr>payments := update_rows pm_id (pm_id p) (\<lambda>_. row') (payments s)\<rparr>)) (\<lambda>_.
         returnM (p\<lparr>pm_updated_at := pm_updated_at row'\<rparr>))))"

record payment_filter =
  pml_limit :: int
  pml_offset :: int
  pml_product_id :: "int option"
  pml_customer_id :: "int option"
  pml_status :: "payment_status option"
  pml_scope :: "product_scope option"

definition list_payments :: "payment_filter \<Rightarrow> ('x till_scheme, payment list \<times> nat) action" where
  "list_payments f = (case scope_condition (pml_scope f) of
     Inl e \<Rightarrow> failM e
   | Inr cond \<Rightarrow> getM (\<lambda>s. let hits = filter (\<lambda>p. cond (Some (pm_product_id p)) \<and>
         (case pml_product_id f of None \<Rightarrow> True | Some i \<Rightarrow> pm_product_id p = i) \<and>
         (case pml_customer_id f of None \<Rightarrow> True | Some i \<Rightarrow> pm_customer_id p = Some i) \<and>
         (case pml_status f of None \<Rightarrow> True | Some st \<Rightarrow> pm_status p = st)) (payments s)
       in case page (pml_limit f) (pml_offset f) of (limit, offset) \<Rightarrow>
         (take limit (drop offset (List.map_filter (read_payment s) (rev hits))), length hits)))"

definition list_stale_payments :: "int \<Rightarrow> nat \<Rightarrow> ('x till_scheme, payment list) action" where
  "list_stale_payments before limit = getM (\<lambda>s. take limit (List.map_filter (read_payment s) (sort_key pm_updated_at
     (filter (\<lambda>p. pm_status p \<in> set [PaymentPending, PaymentAuthorized] \<and> pm_updated_at p < before) (payments s)))))"

definition list_expired_payments :: "int \<Rightarrow> nat \<Rightarrow> ('x till_scheme, payment list) action" where
  "list_expired_payments now limit = getM (\<lambda>s. take limit (List.map_filter (read_payment s) (sort_key pm_expires_at
     (filter (\<lambda>p. pm_status p \<in> set [PaymentCreated, PaymentPending, PaymentAuthorized] \<and> pm_expires_at p \<le> now) (payments s)))))"

section \<open>Attempts and transitions\<close>

definition attempt_status_ok :: "provider_status \<Rightarrow> bool" where
  "attempt_status_ok st \<longleftrightarrow> (case st of StatusOther x \<Rightarrow> x = ''expired'' | _ \<Rightarrow> True)"

definition attempt_live :: "payment_attempt \<Rightarrow> bool" where
  "attempt_live a \<longleftrightarrow> pa_status a \<in> set [StatusCreated, StatusPending, StatusAuthorized]"

text \<open>The two unique indexes, against the other rows: one live attempt of a payment, one attempt of a provider's id.\<close>

definition attempt_clash :: "payment_attempt \<Rightarrow> payment_attempt list \<Rightarrow> bool" where
  "attempt_clash a rows \<longleftrightarrow> list_ex (\<lambda>b. pa_id b \<noteq> pa_id a \<and>
     ((attempt_live a \<and> attempt_live b \<and> pa_payment_id b = pa_payment_id a) \<or>
      (pa_provider_payment_id a \<noteq> None \<and> pa_provider b = pa_provider a \<and> pa_provider_payment_id b = pa_provider_payment_id a))) rows"

definition create_payment_attempt :: "payment_attempt \<Rightarrow> ('x till_scheme, payment_attempt) action" where
  "create_payment_attempt a =
     bindM (getM (\<lambda>s. a\<lparr>pa_id := next_id (attempts s), pa_provider_payment_id := None, pa_checkout_url := None,
        pa_failure_code := None, pa_failure_reason := None, pa_created_at := clock s, pa_updated_at := clock s\<rparr>)) (\<lambda>row.
     bindM (getM (\<lambda>s. attempt_clash row (attempts s))) (\<lambda>clash.
     bindM (getM (find_payment (pa_payment_id a))) (\<lambda>fk.
     if \<not> attempt_status_ok (pa_status a) then failM Internal
     else if clash then failM FailedPrecondition
     else if fk = None then failM Internal
     else bindM (modifyM (\<lambda>s. s\<lparr>attempts := attempts s @ [row]\<rparr>)) (\<lambda>_.
       returnM (a\<lparr>pa_id := pa_id row, pa_created_at := pa_created_at row, pa_updated_at := pa_updated_at row\<rparr>)))))"

definition write_attempt :: "payment_attempt \<Rightarrow> int \<Rightarrow> payment_attempt \<Rightarrow> payment_attempt" where
  "write_attempt a now row = row\<lparr>pa_provider_payment_id := pa_provider_payment_id a, pa_status := pa_status a,
     pa_checkout_url := pa_checkout_url a, pa_failure_code := pa_failure_code a, pa_failure_reason := pa_failure_reason a,
     pa_updated_at := now\<rparr>"

definition update_payment_attempt :: "payment_attempt \<Rightarrow> ('x till_scheme, payment_attempt) action" where
  "update_payment_attempt a = bindM (getM (\<lambda>s. find_row pa_id (pa_id a) (attempts s))) (\<lambda>r. case r of
     None \<Rightarrow> failM Internal
   | Some row \<Rightarrow> bindM (getM (\<lambda>s. write_attempt a (clock s) row)) (\<lambda>row'.
       bindM (getM (\<lambda>s. attempt_clash row' (attempts s))) (\<lambda>clash.
       if \<not> attempt_status_ok (pa_status row') \<or> clash then failM Internal
       else bindM (modifyM (\<lambda>s. s\<lparr>attempts := update_rows pa_id (pa_id a) (\<lambda>_. row') (attempts s)\<rparr>)) (\<lambda>_.
         returnM (a\<lparr>pa_updated_at := pa_updated_at row'\<rparr>)))))"

definition get_attempt_by_provider_ref :: "string \<Rightarrow> string \<Rightarrow> ('x till_scheme, payment_attempt) action" where
  "get_attempt_by_provider_ref name ref =
     bindM (getM (\<lambda>s. find_row (\<lambda>a. (pa_provider a, pa_provider_payment_id a)) (name, Some ref) (attempts s))) (some_or NotFound)"

definition list_payment_attempts :: "int \<Rightarrow> ('x till_scheme, payment_attempt list) action" where
  "list_payment_attempts i = getM (\<lambda>s. filter (\<lambda>a. pa_payment_id a = i) (attempts s))"

definition record_payment_transition :: "payment_transition \<Rightarrow> ('x till_scheme, payment_transition) action" where
  "record_payment_transition t = bindM (getM (find_payment (px_payment_id t))) (\<lambda>fk.
     if fk = None then failM Internal
     else bindM (getM (\<lambda>s. t\<lparr>px_id := next_id (transitions s), px_created_at := clock s\<rparr>)) (\<lambda>row.
       bindM (modifyM (\<lambda>s. s\<lparr>transitions := transitions s @ [row]\<rparr>)) (\<lambda>_. returnM row)))"

definition list_payment_transitions :: "int \<Rightarrow> ('x till_scheme, payment_transition list) action" where
  "list_payment_transitions i = getM (\<lambda>s. filter (\<lambda>t. px_payment_id t = i) (transitions s))"

section \<open>Provider events\<close>

definition save_provider_event :: "provider_event \<Rightarrow> ('x till_scheme, provider_event \<times> bool) action" where
  "save_provider_event e =
     bindM (getM (\<lambda>s. find_row (\<lambda>x. (pe_provider x, pe_event_id x)) (pe_provider e, pe_event_id e) (provider_events s))) (\<lambda>seen.
     if seen \<noteq> None then returnM (e, False)
     else bindM (getM (\<lambda>s. e\<lparr>pe_id := next_id (provider_events s), pe_received_at := clock s, pe_processed_at := None,
            pe_attempts := 0, pe_next_attempt_at := clock s, pe_last_error := None\<rparr>)) (\<lambda>row.
          bindM (modifyM (\<lambda>s. s\<lparr>provider_events := provider_events s @ [row]\<rparr>)) (\<lambda>_.
          returnM (e\<lparr>pe_id := pe_id row, pe_received_at := pe_received_at row\<rparr>, True))))"

definition claim_provider_event :: "ctx \<Rightarrow> int \<Rightarrow> ('x till_scheme, provider_event option) action" where
  "claim_provider_event c now = (if \<not> in_tx c then failM Internal
     else getM (\<lambda>s. List.find (\<lambda>e. pe_processed_at e = None \<and> pe_next_attempt_at e \<le> now) (provider_events s)))"

definition mark_provider_event_processed :: "int \<Rightarrow> ('x till_scheme, unit) action" where
  "mark_provider_event_processed i = modifyM (\<lambda>s. s\<lparr>provider_events := update_rows pe_id i
     (\<lambda>e. e\<lparr>pe_processed_at := Some (clock s), pe_attempts := pe_attempts e + 1, pe_last_error := None\<rparr>) (provider_events s)\<rparr>)"

definition mark_provider_event_failed :: "int \<Rightarrow> string \<Rightarrow> int \<Rightarrow> ('x till_scheme, unit) action" where
  "mark_provider_event_failed i cause retry_at = modifyM (\<lambda>s. s\<lparr>provider_events := update_rows pe_id i
     (\<lambda>e. e\<lparr>pe_attempts := pe_attempts e + 1, pe_last_error := Some cause, pe_next_attempt_at := retry_at\<rparr>) (provider_events s)\<rparr>)"

section \<open>Refunds (\<open>refund.go\<close>)\<close>

definition read_refund :: "'x till_scheme \<Rightarrow> refund \<Rightarrow> refund option" where
  "read_refund s r = map_option (\<lambda>p. r\<lparr>rf_payment_public_id := pm_public_id p\<rparr>) (find_payment (rf_payment_id r) s)"

definition refund_clash :: "refund \<Rightarrow> refund list \<Rightarrow> bool" where
  "refund_clash r rows \<longleftrightarrow> rf_provider_refund_id r \<noteq> None \<and> list_ex (\<lambda>x. rf_id x \<noteq> rf_id r \<and>
     rf_provider x = rf_provider r \<and> rf_provider_refund_id x = rf_provider_refund_id r) rows"

definition create_refund_row :: "refund \<Rightarrow> ('x till_scheme, refund) action" where
  "create_refund_row r =
     bindM (getM (\<lambda>s. find_payment (rf_payment_id r) s \<noteq> None \<and> product_exists (Some (rf_product_id r)) s)) (\<lambda>fk.
     if \<not> 0 < rf_amount r \<or> \<not> fk then failM Internal
     else bindM (getM (\<lambda>s. r\<lparr>rf_id := next_id (refunds s), rf_provider_refund_id := None, rf_failure_code := None,
            rf_failure_reason := None, rf_processed_at := None, rf_created_at := clock s, rf_updated_at := clock s\<rparr>)) (\<lambda>row.
          bindM (modifyM (\<lambda>s. s\<lparr>refunds := refunds s @ [row]\<rparr>)) (\<lambda>_.
          returnM (r\<lparr>rf_id := rf_id row, rf_created_at := rf_created_at row, rf_updated_at := rf_updated_at row\<rparr>))))"

definition write_refund :: "refund \<Rightarrow> int \<Rightarrow> refund \<Rightarrow> refund" where
  "write_refund r now row = row\<lparr>rf_status := rf_status r, rf_provider_refund_id := rf_provider_refund_id r,
     rf_failure_code := rf_failure_code r, rf_failure_reason := rf_failure_reason r, rf_processed_at := rf_processed_at r,
     rf_updated_at := now\<rparr>"

text \<open>A trigger refuses any change of a final refund.\<close>

definition update_refund :: "refund \<Rightarrow> ('x till_scheme, refund) action" where
  "update_refund r = bindM (getM (\<lambda>s. find_row rf_id (rf_id r) (refunds s))) (\<lambda>q. case q of
     None \<Rightarrow> failM Internal
   | Some row \<Rightarrow> bindM (getM (\<lambda>s. write_refund r (clock s) row)) (\<lambda>row'.
       bindM (getM (\<lambda>s. refund_clash row' (refunds s))) (\<lambda>clash.
       if refund_final (rf_status row) \<or> clash then failM Internal
       else bindM (modifyM (\<lambda>s. s\<lparr>refunds := update_rows rf_id (rf_id r) (\<lambda>_. row') (refunds s)\<rparr>)) (\<lambda>_.
         returnM (r\<lparr>rf_updated_at := rf_updated_at row'\<rparr>)))))"

definition get_refund_by_public_id :: "string \<Rightarrow> ('x till_scheme, refund) action" where
  "get_refund_by_public_id x = bindM (getM (\<lambda>s. Option.bind (find_row rf_public_id x (refunds s)) (read_refund s))) (some_or NotFound)"

definition get_refund_by_provider_ref :: "string \<Rightarrow> string \<Rightarrow> ('x till_scheme, refund) action" where
  "get_refund_by_provider_ref name ref = bindM (getM (\<lambda>s.
     Option.bind (find_row (\<lambda>r. (rf_provider r, rf_provider_refund_id r)) (name, Some ref) (refunds s)) (read_refund s))) (some_or NotFound)"

definition lock_refund :: "ctx \<Rightarrow> int \<Rightarrow> ('x till_scheme, refund) action" where
  "lock_refund c i = (if \<not> in_tx c then failM Internal
     else bindM (getM (\<lambda>s. Option.bind (find_row rf_id i (refunds s)) (read_refund s))) (some_or NotFound))"

definition list_payment_refunds :: "int \<Rightarrow> ('x till_scheme, refund list) action" where
  "list_payment_refunds i = getM (\<lambda>s. List.map_filter (read_refund s) (filter (\<lambda>r. rf_payment_id r = i) (refunds s)))"

definition list_open_refunds :: "int \<Rightarrow> nat \<Rightarrow> ('x till_scheme, refund list) action" where
  "list_open_refunds before limit = getM (\<lambda>s. take limit (List.map_filter (read_refund s) (sort_key rf_updated_at
     (filter (\<lambda>r. \<not> refund_final (rf_status r) \<and> rf_updated_at r < before) (refunds s)))))"

definition sum_processed_refunds :: "int \<Rightarrow> ('x till_scheme, int) action" where
  "sum_processed_refunds i = scan_sum (\<lambda>s. sum_by rf_amount (\<lambda>r. rf_payment_id r = i \<and> rf_status r = RefundProcessed) (refunds s))"

section \<open>Disputes (\<open>dispute.go\<close>)\<close>

definition dispute_checks :: "dispute \<Rightarrow> bool" where
  "dispute_checks d \<longleftrightarrow> 0 < di_amount d \<and> 0 \<le> di_from_wallet d \<and> 0 \<le> di_from_unapplied d \<and> 0 \<le> di_from_expense d \<and>
     di_from_wallet d + di_from_unapplied d + di_from_expense d = di_amount d"

definition read_dispute :: "'x till_scheme \<Rightarrow> dispute \<Rightarrow> dispute option" where
  "read_dispute s d = map_option (\<lambda>p. d\<lparr>di_payment_public_id := pm_public_id p\<rparr>) (find_payment (di_payment_id d) s)"

definition create_dispute :: "dispute \<Rightarrow> ('x till_scheme, dispute) action" where
  "create_dispute d =
     bindM (getM (\<lambda>s. find_row (\<lambda>x. (di_provider x, di_provider_dispute_id x)) (di_provider d, di_provider_dispute_id d) (disputes s))) (\<lambda>known.
     bindM (getM (\<lambda>s. find_payment (di_payment_id d) s \<noteq> None \<and> product_exists (Some (di_product_id d)) s)) (\<lambda>fk.
     if \<not> dispute_checks d then failM Internal
     else if known \<noteq> None then failM AlreadyExists
     else if \<not> fk then failM Internal
     else bindM (getM (\<lambda>s. d\<lparr>di_id := next_id (disputes s), di_evidence := None, di_evidence_submitted_by := None,
            di_evidence_submitted_at := None, di_resolved_at := None, di_created_at := clock s, di_updated_at := clock s\<rparr>)) (\<lambda>row.
          bindM (modifyM (\<lambda>s. s\<lparr>disputes := disputes s @ [row]\<rparr>)) (\<lambda>_.
          returnM (d\<lparr>di_id := di_id row, di_created_at := di_created_at row, di_updated_at := di_updated_at row\<rparr>)))))"

definition write_dispute :: "dispute \<Rightarrow> int \<Rightarrow> dispute \<Rightarrow> dispute" where
  "write_dispute d now row = row\<lparr>di_status := di_status d, di_evidence := di_evidence d,
     di_evidence_submitted_by := di_evidence_submitted_by d, di_evidence_submitted_at := di_evidence_submitted_at d,
     di_resolved_at := di_resolved_at d, di_updated_at := now\<rparr>"

definition update_dispute :: "dispute \<Rightarrow> ('x till_scheme, dispute) action" where
  "update_dispute d = bindM (getM (\<lambda>s. find_row di_id (di_id d) (disputes s))) (\<lambda>q. case q of
     None \<Rightarrow> failM Internal
   | Some row \<Rightarrow> bindM (getM (\<lambda>s. write_dispute d (clock s) row)) (\<lambda>row'.
       if is_resolved (di_status row) then failM Internal
       else bindM (modifyM (\<lambda>s. s\<lparr>disputes := update_rows di_id (di_id d) (\<lambda>_. row') (disputes s)\<rparr>)) (\<lambda>_.
         returnM (d\<lparr>di_updated_at := di_updated_at row'\<rparr>))))"

definition get_dispute_by_public_id :: "string \<Rightarrow> ('x till_scheme, dispute) action" where
  "get_dispute_by_public_id x = bindM (getM (\<lambda>s. Option.bind (find_row di_public_id x (disputes s)) (read_dispute s))) (some_or NotFound)"

definition get_dispute_by_provider_ref :: "string \<Rightarrow> string \<Rightarrow> ('x till_scheme, dispute) action" where
  "get_dispute_by_provider_ref name ref = bindM (getM (\<lambda>s.
     Option.bind (find_row (\<lambda>d. (di_provider d, di_provider_dispute_id d)) (name, ref) (disputes s)) (read_dispute s))) (some_or NotFound)"

definition lock_dispute :: "ctx \<Rightarrow> int \<Rightarrow> ('x till_scheme, dispute) action" where
  "lock_dispute c i = (if \<not> in_tx c then failM Internal
     else bindM (getM (\<lambda>s. Option.bind (find_row di_id i (disputes s)) (read_dispute s))) (some_or NotFound))"

definition list_disputes :: "product_scope option \<Rightarrow> dispute_status option \<Rightarrow> nat \<Rightarrow> ('x till_scheme, dispute list) action" where
  "list_disputes scope status limit = (case scope_condition scope of
     Inl e \<Rightarrow> failM e
   | Inr cond \<Rightarrow> getM (\<lambda>s. take limit (List.map_filter (read_dispute s) (nulls_last di_evidence_due_by
       (filter (\<lambda>d. cond (Some (di_product_id d)) \<and> (case status of None \<Rightarrow> True | Some st \<Rightarrow> di_status d = st)) (disputes s))))))"

definition list_open_disputes :: "int \<Rightarrow> nat \<Rightarrow> ('x till_scheme, dispute list) action" where
  "list_open_disputes before limit = getM (\<lambda>s. take limit (List.map_filter (read_dispute s) (sort_key di_updated_at
     (filter (\<lambda>d. di_status d \<in> set [DisputeOpen, DisputeUnderReview] \<and> di_updated_at d < before) (disputes s)))))"

section \<open>Provider controls (\<open>provider_control.go\<close>)\<close>

definition list_provider_controls :: "('x till_scheme, controls) action" where
  "list_provider_controls = getM provider_controls"

text \<open>The constraint \<open>ck_provider_controls_one\<close>, and at most one forced provider by the unique index.\<close>

definition set_provider_control :: "ctx \<Rightarrow> string \<Rightarrow> control \<Rightarrow> ('x till_scheme, unit) action" where
  "set_provider_control c name ct = with_tx c (\<lambda>_.
     bindM (if ct_forced ct then modifyM (\<lambda>s. s\<lparr>provider_controls :=
         map (\<lambda>(n, x). if n \<noteq> name then (n, x\<lparr>ct_forced := False\<rparr>) else (n, x)) (provider_controls s)\<rparr>)
       else returnM ()) (\<lambda>_.
     if ct_disabled ct \<and> ct_forced ct then failM Internal
     else modifyM (\<lambda>s. s\<lparr>provider_controls := AList.update name ct (provider_controls s)\<rparr>)))"

end
