(* ===== verification/Payment.thy ===== *)
theory Payment
  imports DaoPayment
begin

text \<open>
  The payment engine (\<open>internal/payment\<close>): the state machine (\<open>state.go\<close>), opening and syncing payments
  (\<open>engine.go\<close>), settlement marks (\<open>settle.go\<close>), refunds (\<open>refund.go\<close>), chargebacks (\<open>dispute.go\<close>)
  and the recovery from lost webhooks (\<open>recovery.go\<close>).

  The engine value holds what the Go struct holds: the provider registry with
  the health of its circuits at the time of the call, the limits of the wallet
  engine, the configuration, the hooks of the order and withdrawal engines, and
  how a time is printed. Go passes payments and attempts by pointer and
  updates them in place; here an operation returns the updated value.
\<close>

section \<open>The state machine (\<open>state.go\<close>)\<close>

fun allowed_from :: "payment_status \<Rightarrow> payment_status list" where
  "allowed_from PaymentCreated = [PaymentPending, PaymentAuthorized, PaymentCaptured, PaymentFailed, PaymentExpired, PaymentCancelled]"
| "allowed_from PaymentPending = [PaymentAuthorized, PaymentCaptured, PaymentFailed, PaymentExpired, PaymentCancelled]"
| "allowed_from PaymentAuthorized = [PaymentCaptured, PaymentFailed, PaymentExpired, PaymentCancelled]"
| "allowed_from PaymentCaptured = [PaymentSettled, PaymentPartiallyRefunded, PaymentRefunded, PaymentDisputed]"
| "allowed_from PaymentSettled = [PaymentPartiallyRefunded, PaymentRefunded, PaymentDisputed]"
| "allowed_from PaymentPartiallyRefunded = [PaymentRefunded, PaymentDisputed]"
| "allowed_from PaymentRefunded = [PaymentDisputed]"
| "allowed_from PaymentDisputed = [PaymentDisputeWon, PaymentDisputeLost]"
| "allowed_from PaymentFailed = [PaymentCaptured]"
| "allowed_from PaymentExpired = [PaymentCaptured]"
| "allowed_from PaymentCancelled = [PaymentCaptured]"
| "allowed_from PaymentDisputeWon = []"
| "allowed_from PaymentDisputeLost = []"

definition can_transition :: "payment_status \<Rightarrow> payment_status \<Rightarrow> bool" where
  "can_transition from to \<longleftrightarrow> to \<in> set (allowed_from from)"

fun from_provider :: "provider_status \<Rightarrow> payment_status" where
  "from_provider StatusPending = PaymentPending"
| "from_provider StatusAuthorized = PaymentAuthorized"
| "from_provider StatusCaptured = PaymentCaptured"
| "from_provider StatusFailed = PaymentFailed"
| "from_provider StatusCancelled = PaymentCancelled"
| "from_provider _ = PaymentCreated"

section \<open>The engine (\<open>engine.go\<close>)\<close>

record payment_config =
  pcf_ttl :: int
  pcf_poll_after :: int

text \<open>In seconds.\<close>

definition payment_with_defaults :: "payment_config \<Rightarrow> payment_config" where
  "payment_with_defaults c = \<lparr>pcf_ttl = (if pcf_ttl c \<le> 0 then 30 * 60 else pcf_ttl c),
     pcf_poll_after = (if pcf_poll_after c \<le> 0 then 2 * 60 else pcf_poll_after c)\<rparr>"

record 's order_hook =
  hk_capture_order :: "ctx \<Rightarrow> payment \<Rightarrow> string \<Rightarrow> ('s, bool) action"
  hk_payment_ended :: "ctx \<Rightarrow> payment \<Rightarrow> ('s, unit) action"

record 's payment_engine =
  pen_registry :: registry
  pen_limits :: limits
  pen_config :: payment_config
  pen_orders :: "'s order_hook option"
  pen_payouts :: "(ctx \<Rightarrow> string \<Rightarrow> string \<Rightarrow> ('s, unit) action) option"
  pen_rfc3339 :: "int \<Rightarrow> string"

definition engine_provider :: "'x till_scheme payment_engine \<Rightarrow> string \<Rightarrow> ('x till_scheme, provider) action" where
  "engine_provider e name = (case registry_get (pen_registry e) name of Inl err \<Rightarrow> errM err | Inr p \<Rightarrow> returnM p)"

subsection \<open>Transitions and their events\<close>

fun payment_status_string :: "payment_status \<Rightarrow> string" where
  "payment_status_string PaymentCreated = ''created''"
| "payment_status_string PaymentPending = ''pending''"
| "payment_status_string PaymentAuthorized = ''authorized''"
| "payment_status_string PaymentCaptured = ''captured''"
| "payment_status_string PaymentSettled = ''settled''"
| "payment_status_string PaymentFailed = ''failed''"
| "payment_status_string PaymentExpired = ''expired''"
| "payment_status_string PaymentCancelled = ''cancelled''"
| "payment_status_string PaymentPartiallyRefunded = ''partially_refunded''"
| "payment_status_string PaymentRefunded = ''refunded''"
| "payment_status_string PaymentDisputed = ''disputed''"
| "payment_status_string PaymentDisputeWon = ''dispute_won''"
| "payment_status_string PaymentDisputeLost = ''dispute_lost''"

fun purpose_string :: "payment_purpose \<Rightarrow> string" where
  "purpose_string PurposeWalletTopup = ''wallet_topup''"
| "purpose_string PurposeOrder = ''order''"

fun application_string :: "payment_application \<Rightarrow> string" where
  "application_string ApplicationPending = ''pending''"
| "application_string ApplicationApplied = ''applied''"
| "application_string ApplicationUnapplied = ''unapplied''"
| "application_string ApplicationSuspense = ''suspense''"

fun terminal_topic :: "payment_status \<Rightarrow> string option" where
  "terminal_topic PaymentCaptured = Some ''payment.succeeded''"
| "terminal_topic PaymentFailed = Some ''payment.failed''"
| "terminal_topic PaymentExpired = Some ''payment.expired''"
| "terminal_topic PaymentCancelled = Some ''payment.cancelled''"
| "terminal_topic _ = None"

definition opt_int_field :: "string \<Rightarrow> int option \<Rightarrow> payload" where
  "opt_int_field key v = (case v of None \<Rightarrow> [] | Some x \<Rightarrow> [(key, JInt x)])"

definition payment_event :: "payment \<Rightarrow> payment_status \<Rightarrow> payload" where
  "payment_event p to = [(''payment_id'', JStr (pm_public_id p)), (''product_id'', JStr (pm_product_public_id p))] @
     opt_field ''customer_id'' (pm_customer_public_id p) @ opt_field ''wallet_id'' (pm_wallet_public_id p) @
     [(''purpose'', JStr (purpose_string (pm_purpose p))), (''status'', JStr (payment_status_string to)),
      (''amount'', JInt (pm_amount p))] @ opt_int_field ''captured_amount'' (pm_captured_amount p) @
     [(''currency'', JStr (pm_currency p)), (''application'', JStr (application_string (pm_application p)))] @
     opt_field ''failure_code'' (pm_failure_code p)"

definition unless_empty :: "string \<Rightarrow> string option" where
  "unless_empty x = (if x = [] then None else Some x)"

definition ended_status :: "payment_status \<Rightarrow> bool" where
  "ended_status s \<longleftrightarrow> s = PaymentFailed \<or> s = PaymentExpired \<or> s = PaymentCancelled"

definition tell_order :: "'x till_scheme payment_engine \<Rightarrow> ctx \<Rightarrow> payment \<Rightarrow> ('x till_scheme, unit) action" where
  "tell_order e c p = (case pen_orders e of
     None \<Rightarrow> returnM ()
   | Some h \<Rightarrow> if pm_purpose p = PurposeOrder \<and> ended_status (pm_status p) then hk_payment_ended h c p else returnM ())"

definition emit_payment :: "payment \<Rightarrow> ('x till_scheme, unit) action" where
  "emit_payment p = (case terminal_topic (pm_status p) of
     None \<Rightarrow> returnM ()
   | Some topic \<Rightarrow> bindM (new_id OutboxEventId) (\<lambda>pid.
       bindM (save_outbox_event (new_event pid topic ''payment'' (pm_public_id p) (payment_event p (pm_status p)))) (\<lambda>_. returnM ())))"

definition transition :: "'x till_scheme payment_engine \<Rightarrow> ctx \<Rightarrow> payment \<Rightarrow> payment_status \<Rightarrow> string \<Rightarrow> string \<Rightarrow> string \<Rightarrow>
    ('x till_scheme, payment) action" where
  "transition e c p to source reference detail =
     (if pm_status p \<noteq> to \<and> \<not> can_transition (pm_status p) to then failM FailedPrecondition
      else bindM (update_payment (p\<lparr>pm_status := to\<rparr>)) (\<lambda>p'.
        bindM (record_payment_transition \<lparr>px_id = 0, px_payment_id = pm_id p, px_from = pm_status p, px_to = to,
          px_source = source, px_reference = unless_empty reference, px_detail = unless_empty detail, px_created_at = 0\<rparr>) (\<lambda>_.
        bindM (tell_order e c p') (\<lambda>_.
        bindM (emit_payment p') (\<lambda>_. returnM p')))))"

subsection \<open>Opening\<close>

definition new_payment :: "string \<Rightarrow> int \<Rightarrow> product \<Rightarrow> customer option \<Rightarrow> payment_purpose \<Rightarrow> wallet option \<Rightarrow> int option \<Rightarrow>
    int \<Rightarrow> string \<Rightarrow> string \<Rightarrow> string \<Rightarrow> int \<Rightarrow> payment" where
  "new_payment pid product_id product cust purpose w order_id amount cur desc url expires =
     \<lparr>pm_id = 0, pm_public_id = pid, pm_product_id = product_id, pm_customer_id = map_option cu_id cust, pm_purpose = purpose,
      pm_wallet_id = map_option wa_id w, pm_order_id = order_id, pm_amount = amount, pm_currency = cur,
      pm_status = PaymentCreated, pm_application = ApplicationPending, pm_provider = None, pm_captured_amount = None,
      pm_captured_at = None, pm_settled_at = None, pm_refunded_amount = 0, pm_failure_code = None, pm_failure_reason = None,
      pm_description = desc, pm_return_url = url, pm_expires_at = expires, pm_product_public_id = pr_public_id product,
      pm_customer_public_id = map_option cu_public_id cust, pm_wallet_public_id = map_option wa_public_id w,
      pm_created_at = 0, pm_updated_at = 0\<rparr>"

text \<open>The provider refused or timed out: the payment is recorded as failed, with why.\<close>

definition open_failed :: "'x till_scheme payment_engine \<Rightarrow> ctx \<Rightarrow> payment \<Rightarrow> payment_attempt \<Rightarrow> go_error \<Rightarrow>
    ('x till_scheme, payment \<times> payment_attempt) action" where
  "open_failed e c p a err = (let code = (if is_code err WalletOperationDenied \<or> is_code err FailedPrecondition
       then ''declined'' else ''technical''); detail = error_string err in
     bindM (update_payment_attempt (a\<lparr>pa_status := StatusFailed, pa_failure_code := Some code, pa_failure_reason := Some detail\<rparr>)) (\<lambda>a'.
     bindM (transition e c (p\<lparr>pm_failure_code := Some code, pm_failure_reason := Some detail\<rparr>) PaymentFailed ''api''
        (pa_public_id a) detail) (\<lambda>p'. returnM (p', a'))))"

definition open_pending :: "'x till_scheme payment_engine \<Rightarrow> ctx \<Rightarrow> payment \<Rightarrow> payment_attempt \<Rightarrow> create_result \<Rightarrow>
    ('x till_scheme, payment \<times> payment_attempt) action" where
  "open_pending e c p a res =
     bindM (update_payment_attempt (a\<lparr>pa_provider_payment_id := Some (cs_provider_payment_id res),
        pa_checkout_url := Some (cs_checkout_url res), pa_status := StatusPending\<rparr>)) (\<lambda>a'.
     bindM (transition e c p PaymentPending ''api'' (pa_public_id a) []) (\<lambda>p'. returnM (p', a')))"

definition new_attempt :: "string \<Rightarrow> int \<Rightarrow> string \<Rightarrow> string \<Rightarrow> payment_attempt" where
  "new_attempt pid payment_id name reason = \<lparr>pa_id = 0, pa_public_id = pid, pa_payment_id = payment_id, pa_provider = name,
     pa_routing_reason = reason, pa_provider_payment_id = None, pa_status = StatusCreated, pa_checkout_url = None,
     pa_failure_code = None, pa_failure_reason = None, pa_created_at = 0, pa_updated_at = 0\<rparr>"

definition open_at :: "'x till_scheme payment_engine \<Rightarrow> ctx \<Rightarrow> provider \<Rightarrow> string \<Rightarrow> payment \<Rightarrow>
    ('x till_scheme, payment \<times> payment_attempt) action" where
  "open_at e c prov reason p = with_tx c (\<lambda>c.
     bindM (create_payment_row p) (\<lambda>p1.
     bindM (new_id PaymentAttemptId) (\<lambda>pid.
     bindM (create_payment_attempt (new_attempt pid (pm_id p1) (pv_name prov) reason)) (\<lambda>a.
     bindM (tryM (ask_create_payment prov \<lparr>cq_attempt_id = pa_public_id a, cq_amount = pm_amount p1,
        cq_currency = pm_currency p1, cq_description = pm_description p1, cq_return_url = pm_return_url p1\<rparr>)) (\<lambda>r. case r of
       Inl err \<Rightarrow> open_failed e c p1 a err
     | Inr res \<Rightarrow> open_pending e c p1 a res)))))"

definition open_payment :: "'x till_scheme payment_engine \<Rightarrow> ctx \<Rightarrow> payment \<Rightarrow> ('x till_scheme, payment \<times> payment_attempt) action" where
  "open_payment e c p =
     bindM list_provider_controls (\<lambda>ctls.
     case choose_provider (pen_registry e) ctls of
       Inl err \<Rightarrow> errM err
     | Inr (chosen, reason) \<Rightarrow>
         bindM (engine_provider e (pv_name chosen)) (\<lambda>prov.
         bindM (getM clock) (\<lambda>now.
         open_at e c prov reason (p\<lparr>pm_status := PaymentCreated, pm_application := ApplicationPending,
           pm_provider := Some (pv_name chosen),
           pm_expires_at := (if pm_expires_at p = zero_time then now + pcf_ttl (pen_config e) else pm_expires_at p)\<rparr>))))"

record topup_request =
  tq_product_id :: int
  tq_customer :: customer
  tq_wallet :: wallet
  tq_amount :: int
  tq_currency :: string
  tq_description :: string
  tq_return_url :: string

definition create_topup :: "'x till_scheme payment_engine \<Rightarrow> ctx \<Rightarrow> topup_request \<Rightarrow> ('x till_scheme, payment \<times> payment_attempt) action" where
  "create_topup e c r =
     (if wa_customer_id (tq_wallet r) \<noteq> cu_id (tq_customer r) then failM InvalidArgument
      else bindM (check_fund (tq_wallet r) (tq_amount r)) (\<lambda>_.
        bindM (get_product_by_id (tq_product_id r)) (\<lambda>product.
        bindM (new_id PaymentId) (\<lambda>pid.
        open_payment e c (new_payment pid (tq_product_id r) product (Some (tq_customer r)) PurposeWalletTopup (Some (tq_wallet r)) None
          (tq_amount r) (tq_currency r) (tq_description r) (tq_return_url r) zero_time)))))"

record order_payment_request =
  oq_product_id :: int
  oq_customer :: "customer option"
  oq_order_id :: int
  oq_amount :: int
  oq_currency :: string
  oq_description :: string
  oq_return_url :: string
  oq_expires_at :: int

definition create_order_payment :: "'x till_scheme payment_engine \<Rightarrow> ctx \<Rightarrow> order_payment_request \<Rightarrow>
    ('x till_scheme, payment \<times> payment_attempt) action" where
  "create_order_payment e c r =
     bindM (get_product_by_id (oq_product_id r)) (\<lambda>product.
     bindM (new_id PaymentId) (\<lambda>pid.
     open_payment e c (new_payment pid (oq_product_id r) product (oq_customer r) PurposeOrder None (Some (oq_order_id r))
       (oq_amount r) (oq_currency r) (oq_description r) (oq_return_url r) (oq_expires_at r))))"

subsection \<open>Captured money\<close>

definition payment_journal :: "string \<Rightarrow> string \<Rightarrow> journal_kind \<Rightarrow> payment \<Rightarrow> int option \<Rightarrow> string \<Rightarrow> posting list \<Rightarrow> journal" where
  "payment_journal pid ext kind p reverses memo legs =
     \<lparr>jo_id = 0, jo_public_id = pid, jo_external_id = ext, jo_kind = kind, jo_product_id = Some (pm_product_id p),
      jo_source_kind = Some ''payment'', jo_source_id = Some (pm_public_id p), jo_reverses_journal_id = reverses,
      jo_memo = memo, jo_reason_code = None, jo_posted_at = 0, jo_postings = legs, jo_product_public_id = None,
      jo_reverses_journal_public_id = None, jo_created_at = 0\<rparr>"

text \<open>\<open>postBetween\<close>: the first account is debited, the second credited.\<close>

definition post_between :: "ctx \<Rightarrow> string \<Rightarrow> journal_kind \<Rightarrow> payment \<Rightarrow> string \<Rightarrow> string \<Rightarrow> int \<Rightarrow> string \<Rightarrow> string \<Rightarrow> int option \<Rightarrow>
    ('x till_scheme, unit) action" where
  "post_between c ext kind p debit_code credit_code amount cur memo reverses =
     bindM (get_ledger_account_by_code debit_code) (\<lambda>debit.
     bindM (get_ledger_account_by_code credit_code) (\<lambda>credit.
     bindM (new_id LedgerJournalId) (\<lambda>pid.
     bindM (post_journal c (payment_journal pid ext kind p reverses memo
        [new_leg (la_id debit) Debit amount cur, new_leg (la_id credit) Credit amount cur])) (\<lambda>_. returnM ()))))"

text \<open>\<open>post\<close>: a capture that could not be applied waits on the account of the code.\<close>

definition post_capture :: "ctx \<Rightarrow> string \<Rightarrow> payment \<Rightarrow> string \<Rightarrow> string \<Rightarrow> int \<Rightarrow> string \<Rightarrow> string \<Rightarrow> ('x till_scheme, unit) action" where
  "post_capture c ext p name credit_code amount cur memo =
     post_between c ext JournalTopup p (psp_receivable name) credit_code amount cur memo None"

definition capture_external_id :: "payment \<Rightarrow> string" where
  "capture_external_id p = ''payment:'' @ pm_public_id p @ '':capture''"

definition apply_order_capture :: "'x till_scheme payment_engine \<Rightarrow> ctx \<Rightarrow> payment \<Rightarrow> payment_attempt \<Rightarrow> product \<Rightarrow> string \<Rightarrow> int \<Rightarrow> string \<Rightarrow>
    ('x till_scheme, payment) action" where
  "apply_order_capture e c p a product ext captured cur = (case pen_orders e of
     None \<Rightarrow> failM Internal
   | Some h \<Rightarrow> bindM (hk_capture_order h c p (pa_provider a)) (\<lambda>applied.
       if applied then returnM (p\<lparr>pm_application := ApplicationApplied\<rparr>)
       else bindM (post_capture c ext p (pa_provider a) (product_refunds_payable (pr_code product)) captured cur
           ''order could not take the payment'') (\<lambda>_.
         returnM (p\<lparr>pm_application := ApplicationUnapplied\<rparr>))))"

definition apply_topup_capture :: "'x till_scheme payment_engine \<Rightarrow> ctx \<Rightarrow> payment \<Rightarrow> payment_attempt \<Rightarrow> product \<Rightarrow> string \<Rightarrow> int \<Rightarrow> string \<Rightarrow>
    ('x till_scheme, payment) action" where
  "apply_topup_capture e c p a product ext captured cur = (case pm_wallet_public_id p of
     None \<Rightarrow> panicM
   | Some ref \<Rightarrow>
       bindM (get_wallet_by_public_id ref) (\<lambda>w.
       bindM (tryM (with_savepoint c (\<lambda>c. fund (pen_limits e) c
          \<lparr>fr_wallet = w, fr_amount = captured, fr_provider = pa_provider a, fr_product_id = pm_product_id p, fr_external_id = ext\<rparr>))) (\<lambda>r.
       case r of
         Inr _ \<Rightarrow> returnM (p\<lparr>pm_application := ApplicationApplied\<rparr>)
       | Inl err \<Rightarrow> if is_code err WalletOperationDenied
           then bindM (post_capture c ext p (pa_provider a) (product_refunds_payable (pr_code product)) captured cur
               (''wallet refused the credit: '' @ error_string err)) (\<lambda>_.
             returnM (p\<lparr>pm_application := ApplicationUnapplied\<rparr>))
           else errM err)))"

definition apply_capture :: "'x till_scheme payment_engine \<Rightarrow> ctx \<Rightarrow> payment \<Rightarrow> payment_attempt \<Rightarrow> provider_payment \<Rightarrow>
    ('x till_scheme, payment) action" where
  "apply_capture e c p0 a pp =
     bindM (getM clock) (\<lambda>now.
     let p = p0\<lparr>pm_captured_amount := Some (pp_amount pp), pm_captured_at := Some now, pm_failure_code := None, pm_failure_reason := None\<rparr>;
       ext = capture_external_id p in
     bindM (get_product_by_id (pm_product_id p)) (\<lambda>product.
     if pp_amount pp \<noteq> pm_amount p \<or> pp_currency pp \<noteq> pm_currency p
     then bindM (post_capture c ext p (pa_provider a) (psp_suspense (pa_provider a)) (pp_amount pp) (pp_currency pp)
         ''provider amount differs from the payment's'') (\<lambda>_.
       returnM (p\<lparr>pm_application := ApplicationSuspense\<rparr>))
     else if pm_purpose p = PurposeOrder then apply_order_capture e c p a product ext (pp_amount pp) (pp_currency pp)
     else apply_topup_capture e c p a product ext (pp_amount pp) (pp_currency pp)))"

subsection \<open>Syncing with the provider\<close>

definition attempt_news :: "payment_attempt \<Rightarrow> provider_payment \<Rightarrow> payment_attempt" where
  "attempt_news a pp = (let a' = a\<lparr>pa_status := pp_status pp\<rparr> in
     if pp_failure_code pp \<noteq> [] then a'\<lparr>pa_failure_code := Some (pp_failure_code pp), pa_failure_reason := Some (pp_failure_reason pp)\<rparr> else a')"

text \<open>What a legal move does before it is recorded.\<close>

definition before_move :: "'x till_scheme payment_engine \<Rightarrow> ctx \<Rightarrow> payment \<Rightarrow> payment_attempt \<Rightarrow> provider_payment \<Rightarrow> ('x till_scheme, payment) action" where
  "before_move e c p a pp = (case from_provider (pp_status pp) of
     PaymentCaptured \<Rightarrow> apply_capture e c p a pp
   | PaymentFailed \<Rightarrow> returnM (if pp_failure_code pp \<noteq> [] then p\<lparr>pm_failure_code := Some (pp_failure_code pp), pm_failure_reason := Some (pp_failure_reason pp)\<rparr> else p)
   | PaymentCancelled \<Rightarrow> returnM (if pp_failure_code pp \<noteq> [] then p\<lparr>pm_failure_code := Some (pp_failure_code pp), pm_failure_reason := Some (pp_failure_reason pp)\<rparr> else p)
   | _ \<Rightarrow> returnM p)"

definition move_detail :: "payment \<Rightarrow> provider_payment \<Rightarrow> string" where
  "move_detail p pp = (if from_provider (pp_status pp) = PaymentCaptured \<and> \<not> is_open (pm_status p)
     then ''late capture after '' @ payment_status_string (pm_status p) else [])"

text \<open>\<open>Sync\<close>: the payment and the attempt after it.\<close>

definition sync :: "'x till_scheme payment_engine \<Rightarrow> ctx \<Rightarrow> payment_attempt \<Rightarrow> provider_payment \<Rightarrow> string \<Rightarrow> string \<Rightarrow>
    ('x till_scheme, payment \<times> payment_attempt) action" where
  "sync e c a pp source reference = with_tx c (\<lambda>c.
     bindM (lock_payment c (pa_payment_id a)) (\<lambda>p.
     bindM (update_payment_attempt (attempt_news a pp)) (\<lambda>a'.
     let target = from_provider (pp_status pp) in
     if target = pm_status p \<or> \<not> can_transition (pm_status p) target then returnM (p, a')
     else bindM (before_move e c p a' pp) (\<lambda>p'.
       bindM (transition e c p' target source reference (move_detail p pp)) (\<lambda>p''. returnM (p'', a'))))))"

section \<open>Settlement (\<open>settle.go\<close>)\<close>

definition mark_settled :: "'x till_scheme payment_engine \<Rightarrow> ctx \<Rightarrow> int \<Rightarrow> string \<Rightarrow> ('x till_scheme, payment) action" where
  "mark_settled e c i settlement_ref = with_tx c (\<lambda>c.
     bindM (lock_payment c i) (\<lambda>p.
     if pm_settled_at p \<noteq> None then returnM p
     else bindM (getM clock) (\<lambda>now. let p' = p\<lparr>pm_settled_at := Some now\<rparr> in
       if pm_status p = PaymentCaptured then transition e c p' PaymentSettled ''settlement'' settlement_ref []
       else update_payment p')))"

end
