(* ===== verification/Refunds.thy ===== *)
theory Refunds
  imports Payment
begin

text \<open>
  Refunds of payments (\<open>internal/payment/refund.go\<close>), chargebacks (\<open>dispute.go\<close>) and what recovers
  from lost webhooks (\<open>recovery.go\<close>): the webhook handler, the event processor, the poller,
  expiry and cancellation.
\<close>

section \<open>Refunds (\<open>refund.go\<close>)\<close>

definition refund_reasons :: "string list" where
  "refund_reasons = [''customer_request'', ''duplicate_payment'', ''fraud'', ''service_issue'', ''unapplied_payment'']"

definition deref :: "string option \<Rightarrow> string" where
  "deref x = (case x of None \<Rightarrow> [] | Some s \<Rightarrow> s)"

definition reserve_id :: "refund \<Rightarrow> string" where
  "reserve_id r = ''refund:'' @ rf_public_id r @ '':reserve''"

definition processed_id :: "refund \<Rightarrow> string" where
  "processed_id r = ''refund:'' @ rf_public_id r @ '':processed''"

definition restore_id :: "refund \<Rightarrow> string" where
  "restore_id r = ''refund:'' @ rf_public_id r @ '':restore''"

fun refund_status_string :: "refund_status \<Rightarrow> string" where
  "refund_status_string RefundInitiated = ''initiated''"
| "refund_status_string RefundPending = ''pending''"
| "refund_status_string RefundProcessed = ''processed''"
| "refund_status_string RefundFailed = ''failed''"

definition refund_event :: "refund \<Rightarrow> payload" where
  "refund_event r = [(''refund_id'', JStr (rf_public_id r)), (''payment_id'', JStr (rf_payment_public_id r)),
     (''amount'', JInt (rf_amount r)), (''currency'', JStr (rf_currency r)), (''status'', JStr (refund_status_string (rf_status r))),
     (''reason_code'', JStr (rf_reason_code r))] @ opt_field ''failure_reason'' (rf_failure_reason r)"

definition emit_refund :: "refund \<Rightarrow> string \<Rightarrow> ('x till_scheme, unit) action" where
  "emit_refund r topic = bindM (new_id OutboxEventId) (\<lambda>pid.
     bindM (save_outbox_event (new_event pid topic ''refund'' (rf_public_id r) (refund_event r))) (\<lambda>_. returnM ()))"

text \<open>The wallet of a payment; Go dereferences the pointer to its public id.\<close>

definition payment_wallet :: "payment \<Rightarrow> ('x till_scheme, wallet) action" where
  "payment_wallet p = (case pm_wallet_public_id p of None \<Rightarrow> panicM | Some ref \<Rightarrow> get_wallet_by_public_id ref)"

definition reserve_from_wallet :: "'x till_scheme payment_engine \<Rightarrow> ctx \<Rightarrow> payment \<Rightarrow> refund \<Rightarrow> ('x till_scheme, unit) action" where
  "reserve_from_wallet e c p r =
     bindM (payment_wallet p) (\<lambda>w.
     bindM (get_product_by_id (pm_product_id p)) (\<lambda>product.
     bindM (refund_out (pen_limits e) c \<lparr>sr_wallet = w, sr_amount = rf_amount r,
        sr_counter_account_code = product_refunds_payable (pr_code product), sr_product_id = pm_product_id p,
        sr_kind = JournalRefund, sr_external_id = reserve_id r\<rparr>) (\<lambda>_. returnM ())))"

definition latest_attempt :: "payment \<Rightarrow> ('x till_scheme, payment_attempt option) action" where
  "latest_attempt p = bindM (list_payment_attempts (pm_id p)) (\<lambda>xs. returnM (if xs = [] then None else Some (last xs)))"

text \<open>The refund is final in our books once the provider says so.\<close>

definition complete_refund :: "'x till_scheme payment_engine \<Rightarrow> ctx \<Rightarrow> refund \<Rightarrow> provider_refund \<Rightarrow> string \<Rightarrow> ('x till_scheme, refund) action" where
  "complete_refund e c r pr source =
     (if pf_amount pr \<noteq> rf_amount r \<or> pf_currency pr \<noteq> rf_currency r then failM FailedPrecondition
      else bindM (lock_payment c (rf_payment_id r)) (\<lambda>p.
        bindM (get_product_by_id (rf_product_id r)) (\<lambda>product.
        bindM (post_between c (processed_id r) JournalRefund p (product_refunds_payable (pr_code product))
           (psp_receivable (rf_provider r)) (rf_amount r) (rf_currency r) (''refund processed by '' @ rf_provider r) None) (\<lambda>_.
        bindM (getM clock) (\<lambda>now.
        bindM (update_refund (r\<lparr>rf_status := RefundProcessed, rf_processed_at := Some now\<rparr>)) (\<lambda>r'.
        bindM (sum_processed_refunds (pm_id p)) (\<lambda>processed.
        let to = (case pm_captured_amount p of None \<Rightarrow> PaymentPartiallyRefunded
          | Some captured \<Rightarrow> if captured \<le> processed then PaymentRefunded else PaymentPartiallyRefunded) in
        bindM (transition e c p to source (rf_public_id r) ''refund processed'') (\<lambda>_.
        bindM (emit_refund r' ''refund.processed'') (\<lambda>_. returnM r')))))))))"

definition return_reserve :: "'x till_scheme payment_engine \<Rightarrow> ctx \<Rightarrow> payment \<Rightarrow> refund \<Rightarrow> ('x till_scheme, unit) action" where
  "return_reserve e c p r =
     bindM (get_journal_by_external_id (reserve_id r)) (\<lambda>reserve.
     bindM (payment_wallet p) (\<lambda>w.
     bindM (get_product_by_id (pm_product_id p)) (\<lambda>product.
     bindM (restore (pen_limits e) c \<lparr>sr_wallet = w, sr_amount = rf_amount r,
        sr_counter_account_code = product_refunds_payable (pr_code product), sr_product_id = pm_product_id p,
        sr_kind = JournalReversal, sr_external_id = restore_id r\<rparr> reserve) (\<lambda>_. returnM ()))))"

definition fail_refund :: "'x till_scheme payment_engine \<Rightarrow> ctx \<Rightarrow> refund \<Rightarrow> string \<Rightarrow> ('x till_scheme, refund) action" where
  "fail_refund e c r reason =
     bindM (lock_payment c (rf_payment_id r)) (\<lambda>p.
     bindM (if rf_source r = RefundFromWallet then return_reserve e c p r else returnM ()) (\<lambda>_.
     bindM (update_payment (p\<lparr>pm_refunded_amount := wrap64 (pm_refunded_amount p - rf_amount r)\<rparr>)) (\<lambda>_.
     bindM (update_refund (r\<lparr>rf_status := RefundFailed, rf_failure_code := Some ''provider_failed'', rf_failure_reason := Some reason\<rparr>)) (\<lambda>r'.
     bindM (emit_refund r' ''refund.failed'') (\<lambda>_. returnM r')))))"

definition apply_refund :: "'x till_scheme payment_engine \<Rightarrow> ctx \<Rightarrow> refund \<Rightarrow> provider_refund \<Rightarrow> string \<Rightarrow> ('x till_scheme, refund) action" where
  "apply_refund e c r pr source =
     (if refund_final (rf_status r) then returnM r
      else let r' = r\<lparr>rf_provider_refund_id := Some (pf_provider_refund_id pr)\<rparr> in
        (case pf_status pr of
           ProviderRefundPending \<Rightarrow> update_refund (r'\<lparr>rf_status := RefundPending\<rparr>)
         | ProviderRefundProcessed \<Rightarrow> complete_refund e c r' pr source
         | ProviderRefundFailed \<Rightarrow> fail_refund e c r' (pf_failure_reason pr)
         | ProviderRefundOther _ \<Rightarrow> failM Internal))"

text \<open>A provider that cannot be reached leaves the refund initiated, for the poller.\<close>

definition submit_refund :: "'x till_scheme payment_engine \<Rightarrow> ctx \<Rightarrow> payment \<Rightarrow> refund \<Rightarrow> ('x till_scheme, refund) action" where
  "submit_refund e c p r =
     bindM (latest_attempt p) (\<lambda>a.
     case Option.bind a pa_provider_payment_id of
       None \<Rightarrow> failM FailedPrecondition
     | Some ref \<Rightarrow>
         bindM (engine_provider e (rf_provider r)) (\<lambda>prov.
         bindM (tryM (ask_refund prov \<lparr>rq_refund_id = rf_public_id r, rq_provider_payment_id = ref,
            rq_amount = rf_amount r, rq_currency = rf_currency r\<rparr>)) (\<lambda>res. case res of
           Inl err \<Rightarrow> if is_code err Unavailable then returnM r else errM err
         | Inr pr \<Rightarrow> apply_refund e c r pr ''api'')))"

record refund_request =
  rr_payment_id :: int
  rr_amount :: int
  rr_reason_code :: string
  rr_memo :: string
  rr_requested_by :: string

text \<open>Where a refund's money comes from, or nothing when a person has to resolve the payment first.\<close>

definition refund_source_of :: "payment \<Rightarrow> refund_source option" where
  "refund_source_of p = (case pm_application p of
     ApplicationApplied \<Rightarrow> Some (if pm_purpose p = PurposeOrder then RefundFromOrder else RefundFromWallet)
   | ApplicationUnapplied \<Rightarrow> Some RefundFromUnapplied
   | _ \<Rightarrow> None)"

definition refundable :: "payment_status \<Rightarrow> bool" where
  "refundable s \<longleftrightarrow> s = PaymentCaptured \<or> s = PaymentSettled \<or> s = PaymentPartiallyRefunded"

definition start_refund :: "'x till_scheme payment_engine \<Rightarrow> ctx \<Rightarrow> refund_request \<Rightarrow> payment \<Rightarrow> refund_source \<Rightarrow> ('x till_scheme, refund) action" where
  "start_refund e c q p source =
     bindM (new_id RefundId) (\<lambda>pid.
     bindM (create_refund_row \<lparr>rf_id = 0, rf_public_id = pid, rf_payment_id = pm_id p, rf_product_id = pm_product_id p,
        rf_amount = rr_amount q, rf_currency = pm_currency p, rf_status = RefundInitiated, rf_source = source,
        rf_reason_code = rr_reason_code q, rf_memo = rr_memo q, rf_provider = deref (pm_provider p), rf_provider_refund_id = None,
        rf_failure_code = None, rf_failure_reason = None, rf_requested_by = rr_requested_by q, rf_processed_at = None,
        rf_payment_public_id = pm_public_id p, rf_created_at = 0, rf_updated_at = 0\<rparr>) (\<lambda>r.
     bindM (update_payment (p\<lparr>pm_refunded_amount := wrap64 (pm_refunded_amount p + rr_amount q)\<rparr>)) (\<lambda>p'.
     bindM (if source = RefundFromWallet then reserve_from_wallet e c p' r else returnM ()) (\<lambda>_.
     submit_refund e c p' r))))"

definition create_refund :: "'x till_scheme payment_engine \<Rightarrow> ctx \<Rightarrow> refund_request \<Rightarrow> ('x till_scheme, refund) action" where
  "create_refund e c q =
     (if rr_reason_code q \<notin> set refund_reasons then failM InvalidArgument
      else with_tx c (\<lambda>c.
        bindM (lock_payment c (rr_payment_id q)) (\<lambda>p.
        if \<not> refundable (pm_status p) then failM FailedPrecondition
        else case refund_source_of p of
          None \<Rightarrow> failM FailedPrecondition
        | Some source \<Rightarrow> start_refund e c q p source)))"

definition sync_refund :: "'x till_scheme payment_engine \<Rightarrow> ctx \<Rightarrow> int \<Rightarrow> provider_refund \<Rightarrow> string \<Rightarrow> ('x till_scheme, refund) action" where
  "sync_refund e c i pr source = with_tx c (\<lambda>c. bindM (lock_refund c i) (\<lambda>r. apply_refund e c r pr source))"

definition process_refund_event :: "'x till_scheme payment_engine \<Rightarrow> ctx \<Rightarrow> string \<Rightarrow> string \<Rightarrow> ('x till_scheme, unit) action" where
  "process_refund_event e c name ref =
     bindM (tryM (get_refund_by_provider_ref name ref)) (\<lambda>found. case found of
       Inl err \<Rightarrow> if is_code err NotFound then failM Unavailable else errM err
     | Inr r \<Rightarrow>
         bindM (engine_provider e name) (\<lambda>prov.
         bindM (ask_fetch_refund prov ref) (\<lambda>pr.
         bindM (sync_refund e c (rf_id r) pr ''webhook'') (\<lambda>_. returnM ()))))"

definition poll_refund :: "'x till_scheme payment_engine \<Rightarrow> ctx \<Rightarrow> refund \<Rightarrow> ('x till_scheme, refund) action" where
  "poll_refund e c r =
     (if rf_status r = RefundInitiated
      then with_tx c (\<lambda>c.
        bindM (lock_refund c (rf_id r)) (\<lambda>locked.
        if rf_status locked \<noteq> RefundInitiated then returnM r
        else bindM (get_payment_by_id (rf_payment_id locked)) (\<lambda>p. submit_refund e c p locked)))
      else bindM (engine_provider e (rf_provider r)) (\<lambda>prov.
        case rf_provider_refund_id r of
          None \<Rightarrow> panicM
        | Some ref \<Rightarrow> bindM (ask_fetch_refund prov ref) (\<lambda>pr. sync_refund e c (rf_id r) pr ''poller'')))"

section \<open>Chargebacks (\<open>dispute.go\<close>)\<close>

definition dispute_leg :: "dispute \<Rightarrow> string \<Rightarrow> string" where
  "dispute_leg d part = ''dispute:'' @ di_public_id d @ '':'' @ part"

fun dispute_status_string :: "dispute_status \<Rightarrow> string" where
  "dispute_status_string DisputeOpen = ''open''"
| "dispute_status_string DisputeUnderReview = ''under_review''"
| "dispute_status_string DisputeWon = ''won''"
| "dispute_status_string DisputeLost = ''lost''"

definition dispute_event :: "'s payment_engine \<Rightarrow> dispute \<Rightarrow> payload" where
  "dispute_event e d = [(''dispute_id'', JStr (di_public_id d)), (''payment_id'', JStr (di_payment_public_id d)),
     (''amount'', JInt (di_amount d)), (''currency'', JStr (di_currency d)), (''reason'', JStr (di_reason d)),
     (''status'', JStr (dispute_status_string (di_status d)))] @
     opt_field ''evidence_due_by'' (map_option (pen_rfc3339 e) (di_evidence_due_by d))"

definition emit_dispute :: "'x till_scheme payment_engine \<Rightarrow> dispute \<Rightarrow> string \<Rightarrow> ('x till_scheme, unit) action" where
  "emit_dispute e d topic = bindM (new_id OutboxEventId) (\<lambda>pid.
     bindM (save_outbox_event (new_event pid topic ''dispute'' (di_public_id d) (dispute_event e d))) (\<lambda>_. returnM ()))"

definition attempt_for :: "string \<Rightarrow> string \<Rightarrow> ('x till_scheme, payment_attempt) action" where
  "attempt_for name ref = bindM (tryM (get_attempt_by_provider_ref name ref)) (\<lambda>found. case found of
     Inl err \<Rightarrow> if is_code err NotFound then failM Unavailable else errM err
   | Inr a \<Rightarrow> returnM a)"

text \<open>The part of the contested money that is still in the wallet, and the wallet, for an applied payment.\<close>

definition wallet_part :: "payment \<Rightarrow> int \<Rightarrow> int \<Rightarrow> ('x till_scheme, wallet \<times> int) action" where
  "wallet_part p remaining outstanding =
     bindM (payment_wallet p) (\<lambda>w.
     bindM (get_balance (wa_ledger_account_id w)) (\<lambda>b.
     returnM (w, min (min remaining outstanding) (max (available b AccountLiability) 0))))"

text \<open>The sources of the contested money: the wallet part with its wallet, and the unapplied part.\<close>

definition contested_sources :: "payment \<Rightarrow> int \<Rightarrow> int \<Rightarrow> ('x till_scheme, wallet option \<times> int \<times> int) action" where
  "contested_sources p remaining outstanding = (case pm_application p of
     ApplicationApplied \<Rightarrow> bindM (wallet_part p remaining outstanding) (\<lambda>(w, n). returnM (Some w, n, 0))
   | ApplicationUnapplied \<Rightarrow> returnM (None, 0, min remaining outstanding)
   | _ \<Rightarrow> returnM (None, 0, 0))"

definition hold_wallet_part :: "'x till_scheme payment_engine \<Rightarrow> ctx \<Rightarrow> payment \<Rightarrow> wallet option \<Rightarrow> dispute \<Rightarrow> string \<Rightarrow> ('x till_scheme, unit) action" where
  "hold_wallet_part e c p w d disputed = (if 0 < di_from_wallet d
     then (case w of None \<Rightarrow> panicM | Some w \<Rightarrow>
       bindM (chargeback_out (pen_limits e) c \<lparr>sr_wallet = w, sr_amount = di_from_wallet d, sr_counter_account_code = disputed,
         sr_product_id = pm_product_id p, sr_kind = JournalAdjustment, sr_external_id = dispute_leg d ''wallet''\<rparr>) (\<lambda>_. returnM ()))
     else returnM ())"

definition hold_unapplied_part :: "ctx \<Rightarrow> payment \<Rightarrow> product \<Rightarrow> dispute \<Rightarrow> string \<Rightarrow> ('x till_scheme, unit) action" where
  "hold_unapplied_part c p product d disputed = (if 0 < di_from_unapplied d
     then post_between c (dispute_leg d ''unapplied'') JournalAdjustment p (product_refunds_payable (pr_code product)) disputed
       (di_from_unapplied d) (di_currency d) ''chargeback opened: owed-back money held'' None
     else returnM ())"

definition hold_expense_part :: "ctx \<Rightarrow> payment \<Rightarrow> product \<Rightarrow> dispute \<Rightarrow> string \<Rightarrow> ('x till_scheme, unit) action" where
  "hold_expense_part c p product d disputed = (if 0 < di_from_expense d
     then post_between c (dispute_leg d ''expense'') JournalAdjustment p (product_chargebacks (pr_code product)) disputed
       (di_from_expense d) (di_currency d) ''chargeback opened: customer had already spent this'' None
     else returnM ())"

definition hold_contested :: "'x till_scheme payment_engine \<Rightarrow> ctx \<Rightarrow> payment \<Rightarrow> product \<Rightarrow> wallet option \<Rightarrow> dispute \<Rightarrow> ('x till_scheme, unit) action" where
  "hold_contested e c p product w d = (let disputed = product_disputed (pr_code product) in
     bindM (hold_wallet_part e c p w d disputed) (\<lambda>_.
     bindM (hold_unapplied_part c p product d disputed) (\<lambda>_.
     hold_expense_part c p product d disputed)))"

definition record_dispute :: "'x till_scheme payment_engine \<Rightarrow> ctx \<Rightarrow> string \<Rightarrow> provider_dispute \<Rightarrow> payment \<Rightarrow> product \<Rightarrow> ('x till_scheme, dispute) action" where
  "record_dispute e c name pd p product = (case pm_captured_amount p of
     None \<Rightarrow> panicM
   | Some captured \<Rightarrow>
       bindM (new_id DisputeId) (\<lambda>pid.
       bindM (contested_sources p (pd_amount pd) (max (wrap64 (captured - pm_refunded_amount p)) 0)) (\<lambda>(w, from_wallet, from_unapplied).
       bindM (create_dispute \<lparr>di_id = 0, di_public_id = pid, di_payment_id = pm_id p, di_product_id = pm_product_id p,
          di_provider = name, di_provider_dispute_id = pd_provider_dispute_id pd, di_amount = pd_amount pd,
          di_currency = pd_currency pd, di_reason = pd_reason pd, di_status = DisputeOpen, di_from_wallet = from_wallet,
          di_from_unapplied = from_unapplied, di_from_expense = wrap64 (pd_amount pd - wrap64 (from_wallet + from_unapplied)),
          di_evidence_due_by = pd_evidence_due_by pd, di_evidence = None, di_evidence_submitted_by = None,
          di_evidence_submitted_at = None, di_resolved_at = None, di_payment_public_id = pm_public_id p,
          di_created_at = 0, di_updated_at = 0\<rparr>) (\<lambda>d.
       bindM (hold_contested e c p product w d) (\<lambda>_.
       bindM (transition e c p PaymentDisputed ''webhook'' (di_public_id d) (''chargeback: '' @ pd_reason pd)) (\<lambda>_.
       bindM (emit_dispute e d ''dispute.opened'') (\<lambda>_. returnM d)))))))"

definition open_dispute :: "'x till_scheme payment_engine \<Rightarrow> ctx \<Rightarrow> string \<Rightarrow> provider_dispute \<Rightarrow> ('x till_scheme, dispute) action" where
  "open_dispute e c name pd = with_tx c (\<lambda>c.
     bindM (attempt_for name (pd_provider_payment_id pd)) (\<lambda>a.
     bindM (lock_payment c (pa_payment_id a)) (\<lambda>p.
     if \<not> can_transition (pm_status p) PaymentDisputed then failM FailedPrecondition
     else bindM (get_product_by_id (pm_product_id p)) (\<lambda>product. record_dispute e c name pd p product))))"

definition give_back :: "ctx \<Rightarrow> dispute \<Rightarrow> payment \<Rightarrow> string \<Rightarrow> string \<Rightarrow> string \<Rightarrow> int \<Rightarrow> ('x till_scheme, unit) action" where
  "give_back c d p disputed part code amount =
     (if amount = 0 then returnM ()
      else bindM (get_journal_by_external_id (dispute_leg d part)) (\<lambda>taken.
        post_between c (dispute_leg d (''won:'' @ part)) JournalReversal p disputed code amount (di_currency d)
          ''chargeback won'' (Some (jo_id taken))))"

definition give_back_wallet :: "'x till_scheme payment_engine \<Rightarrow> ctx \<Rightarrow> dispute \<Rightarrow> payment \<Rightarrow> string \<Rightarrow> ('x till_scheme, unit) action" where
  "give_back_wallet e c d p disputed = (if 0 < di_from_wallet d
     then bindM (get_journal_by_external_id (dispute_leg d ''wallet'')) (\<lambda>taken.
       bindM (payment_wallet p) (\<lambda>w.
       bindM (restore (pen_limits e) c \<lparr>sr_wallet = w, sr_amount = di_from_wallet d, sr_counter_account_code = disputed,
         sr_product_id = pm_product_id p, sr_kind = JournalReversal, sr_external_id = dispute_leg d ''won:wallet''\<rparr> taken) (\<lambda>_.
       returnM ())))
     else returnM ())"

definition return_disputed_funds :: "'x till_scheme payment_engine \<Rightarrow> ctx \<Rightarrow> dispute \<Rightarrow> payment \<Rightarrow> string \<Rightarrow> ('x till_scheme, unit) action" where
  "return_disputed_funds e c d p disputed =
     bindM (give_back_wallet e c d p disputed) (\<lambda>_.
     bindM (get_product_by_id (di_product_id d)) (\<lambda>product.
     bindM (give_back c d p disputed ''unapplied'' (product_refunds_payable (pr_code product)) (di_from_unapplied d)) (\<lambda>_.
     give_back c d p disputed ''expense'' (product_chargebacks (pr_code product)) (di_from_expense d))))"

definition settle_dispute_money :: "'x till_scheme payment_engine \<Rightarrow> ctx \<Rightarrow> dispute \<Rightarrow> payment \<Rightarrow> string \<Rightarrow> bool \<Rightarrow> ('x till_scheme, unit) action" where
  "settle_dispute_money e c d p disputed won =
     (if won then return_disputed_funds e c d p disputed
      else post_between c (dispute_leg d ''lost'') JournalAdjustment p disputed (psp_receivable (di_provider d))
        (di_amount d) (di_currency d) ''chargeback lost'' None)"

definition resolve_dispute :: "'x till_scheme payment_engine \<Rightarrow> ctx \<Rightarrow> dispute \<Rightarrow> bool \<Rightarrow> string \<Rightarrow> ('x till_scheme, dispute) action" where
  "resolve_dispute e c d won source =
     bindM (lock_payment c (di_payment_id d)) (\<lambda>p.
     bindM (get_product_by_id (di_product_id d)) (\<lambda>product.
     bindM (settle_dispute_money e c d p (product_disputed (pr_code product)) won) (\<lambda>_.
     bindM (getM clock) (\<lambda>now.
     bindM (update_dispute (d\<lparr>di_status := (if won then DisputeWon else DisputeLost), di_resolved_at := Some now\<rparr>)) (\<lambda>d'.
     bindM (transition e c p (if won then PaymentDisputeWon else PaymentDisputeLost) source (di_public_id d) []) (\<lambda>_.
     bindM (emit_dispute e d' (if won then ''dispute.won'' else ''dispute.lost'')) (\<lambda>_. returnM d')))))))"

definition sync_dispute :: "'x till_scheme payment_engine \<Rightarrow> ctx \<Rightarrow> int \<Rightarrow> provider_dispute \<Rightarrow> string \<Rightarrow> ('x till_scheme, dispute) action" where
  "sync_dispute e c i pd source = with_tx c (\<lambda>c.
     bindM (lock_dispute c i) (\<lambda>d.
     if is_resolved (di_status d) then returnM d
     else case pd_status pd of
       ProviderDisputeOpen \<Rightarrow> if di_status d \<noteq> DisputeOpen then update_dispute (d\<lparr>di_status := DisputeOpen\<rparr>) else returnM d
     | ProviderDisputeUnderReview \<Rightarrow> if di_status d \<noteq> DisputeUnderReview then update_dispute (d\<lparr>di_status := DisputeUnderReview\<rparr>) else returnM d
     | ProviderDisputeWon \<Rightarrow> resolve_dispute e c d True source
     | ProviderDisputeLost \<Rightarrow> resolve_dispute e c d False source
     | ProviderDisputeOther _ \<Rightarrow> failM Internal))"

definition process_dispute_event :: "'x till_scheme payment_engine \<Rightarrow> ctx \<Rightarrow> string \<Rightarrow> string \<Rightarrow> ('x till_scheme, unit) action" where
  "process_dispute_event e c name ref =
     bindM (engine_provider e name) (\<lambda>prov.
     bindM (ask_fetch_dispute prov ref) (\<lambda>pd.
     bindM (tryM (get_dispute_by_provider_ref name ref)) (\<lambda>found.
     bindM (case found of
         Inr d \<Rightarrow> returnM d
       | Inl err \<Rightarrow> if is_code err NotFound then open_dispute e c name pd else errM err) (\<lambda>d.
     bindM (sync_dispute e c (di_id d) pd ''webhook'') (\<lambda>_. returnM ())))))"

definition submit_dispute_evidence :: "'x till_scheme payment_engine \<Rightarrow> ctx \<Rightarrow> int \<Rightarrow> string \<Rightarrow> string \<Rightarrow> ('x till_scheme, dispute) action" where
  "submit_dispute_evidence e c i evidence submitted_by = with_tx c (\<lambda>c.
     bindM (lock_dispute c i) (\<lambda>d.
     if di_status d \<noteq> DisputeOpen then failM FailedPrecondition
     else bindM (engine_provider e (di_provider d)) (\<lambda>prov.
       bindM (ask_submit_evidence prov (di_provider_dispute_id d) evidence) (\<lambda>_.
       bindM (getM clock) (\<lambda>now.
       update_dispute (d\<lparr>di_evidence := Some evidence, di_evidence_submitted_by := Some submitted_by,
         di_evidence_submitted_at := Some now, di_status := DisputeUnderReview\<rparr>))))))"

definition poll_dispute :: "'x till_scheme payment_engine \<Rightarrow> ctx \<Rightarrow> dispute \<Rightarrow> ('x till_scheme, dispute) action" where
  "poll_dispute e c d =
     bindM (engine_provider e (di_provider d)) (\<lambda>prov.
     bindM (ask_fetch_dispute prov (di_provider_dispute_id d)) (\<lambda>pd.
     sync_dispute e c (di_id d) pd ''poller''))"

section \<open>Recovery (\<open>recovery.go\<close>)\<close>

text \<open>Capturing first when the provider stopped at authorized.\<close>

definition fetch_captured :: "provider \<Rightarrow> provider_payment \<Rightarrow> ('x till_scheme, provider_payment) action" where
  "fetch_captured prov pp =
     (if pp_status pp = StatusAuthorized
      then bindM (ask_capture prov (pp_provider_payment_id pp) (pp_amount pp)) (\<lambda>_. ask_fetch_payment prov (pp_provider_payment_id pp))
      else returnM pp)"

definition sync_from_provider :: "'x till_scheme payment_engine \<Rightarrow> ctx \<Rightarrow> payment_attempt \<Rightarrow> string \<Rightarrow> string \<Rightarrow>
    ('x till_scheme, payment \<times> payment_attempt) action" where
  "sync_from_provider e c a source reference =
     bindM (engine_provider e (pa_provider a)) (\<lambda>prov.
     case pa_provider_payment_id a of
       None \<Rightarrow> panicM
     | Some ref \<Rightarrow>
         bindM (ask_fetch_payment prov ref) (\<lambda>pp0.
         bindM (fetch_captured prov pp0) (\<lambda>pp. sync e c a pp source reference)))"

definition process_event :: "'x till_scheme payment_engine \<Rightarrow> ctx \<Rightarrow> provider_event \<Rightarrow> ('x till_scheme, unit) action" where
  "process_event e c ev = (case pe_object_id ev of
     None \<Rightarrow> returnM ()
   | Some ref \<Rightarrow> (case pe_object_kind ev of
       ObjectRefund \<Rightarrow> process_refund_event e c (pe_provider ev) ref
     | ObjectDispute \<Rightarrow> process_dispute_event e c (pe_provider ev) ref
     | ObjectPayout \<Rightarrow> (case pen_payouts e of None \<Rightarrow> failM Internal | Some hook \<Rightarrow> hook c (pe_provider ev) ref)
     | ObjectPayment \<Rightarrow>
         bindM (attempt_for (pe_provider ev) ref) (\<lambda>a.
         bindM (sync_from_provider e c a ''webhook'' (pe_provider ev @ '':'' @ pe_event_id ev)) (\<lambda>_. returnM ()))))"

text \<open>Seconds: 5, 10, 20 and so on, at most ten minutes.\<close>

definition event_backoff :: "int \<Rightarrow> int" where
  "event_backoff tries = min (5 * 2 ^ nat (min tries 7)) (10 * 60)"

definition process_next_event :: "'x till_scheme payment_engine \<Rightarrow> ctx \<Rightarrow> ('x till_scheme, bool) action" where
  "process_next_event e c = with_tx c (\<lambda>c.
     bindM (getM clock) (\<lambda>now.
     bindM (claim_provider_event c now) (\<lambda>claimed. case claimed of
       None \<Rightarrow> returnM False
     | Some ev \<Rightarrow>
         bindM (tryM (with_savepoint c (\<lambda>c. process_event e c ev))) (\<lambda>r. case r of
           Inr _ \<Rightarrow> bindM (mark_provider_event_processed (pe_id ev)) (\<lambda>_. returnM True)
         | Inl err \<Rightarrow> bindM (mark_provider_event_failed (pe_id ev) (error_string err)
             (now + event_backoff (pe_attempts ev))) (\<lambda>_. returnM True)))))"

definition poll :: "'x till_scheme payment_engine \<Rightarrow> ctx \<Rightarrow> payment \<Rightarrow> string \<Rightarrow> ('x till_scheme, payment) action" where
  "poll e c p source =
     bindM (latest_attempt p) (\<lambda>a. case a of
       None \<Rightarrow> returnM p
     | Some a \<Rightarrow> if pa_provider_payment_id a = None then returnM p
         else bindM (sync_from_provider e c a source []) (\<lambda>(p', _). returnM p'))"

definition close_locally :: "'x till_scheme payment_engine \<Rightarrow> ctx \<Rightarrow> payment \<Rightarrow> payment_attempt option \<Rightarrow> payment_status \<Rightarrow> string \<Rightarrow> string \<Rightarrow>
    ('x till_scheme, payment) action" where
  "close_locally e c p a to source detail = with_tx c (\<lambda>c.
     bindM (lock_payment c (pm_id p)) (\<lambda>locked.
     if \<not> is_open (pm_status locked) then returnM locked
     else bindM (case a of None \<Rightarrow> returnM () | Some a \<Rightarrow>
         bindM (update_payment_attempt (a\<lparr>pa_status := StatusCancelled\<rparr>)) (\<lambda>_. returnM ())) (\<lambda>_.
       transition e c locked to source [] detail)))"

definition close_at_provider :: "'x till_scheme payment_engine \<Rightarrow> payment_attempt \<Rightarrow> ('x till_scheme, unit) action" where
  "close_at_provider e a =
     bindM (engine_provider e (pa_provider a)) (\<lambda>prov.
     case pa_provider_payment_id a of None \<Rightarrow> panicM | Some ref \<Rightarrow> ask_cancel prov ref)"

definition close_payment :: "'x till_scheme payment_engine \<Rightarrow> ctx \<Rightarrow> payment \<Rightarrow> payment_status \<Rightarrow> string \<Rightarrow> string \<Rightarrow> ('x till_scheme, payment) action" where
  "close_payment e c p to source detail =
     bindM (latest_attempt p) (\<lambda>a. case a of
       None \<Rightarrow> close_locally e c p None to source detail
     | Some a \<Rightarrow>
         if pa_provider_payment_id a = None then close_locally e c p (Some a) to source detail
         else bindM (sync_from_provider e c a source (payment_status_string to @ '' check'')) (\<lambda>(synced, a').
           if \<not> is_open (pm_status synced) then returnM synced
           else bindM (close_at_provider e a') (\<lambda>_. close_locally e c p (Some a') to source detail)))"

definition expire_payment :: "'x till_scheme payment_engine \<Rightarrow> ctx \<Rightarrow> payment \<Rightarrow> ('x till_scheme, payment) action" where
  "expire_payment e c p = close_payment e c p PaymentExpired ''sweeper'' (''not paid before '' @ pen_rfc3339 e (pm_expires_at p))"

definition cancel_payment :: "'x till_scheme payment_engine \<Rightarrow> ctx \<Rightarrow> payment \<Rightarrow> string \<Rightarrow> ('x till_scheme, payment) action" where
  "cancel_payment e c p reason = close_payment e c p PaymentCancelled ''api'' reason"

subsection \<open>The webhook endpoint\<close>

definition max_webhook_body :: nat where "max_webhook_body = 2 ^ 20"

text \<open>The HTTP status of the answer. A body that could not be read is \<open>None\<close>.\<close>

definition webhook_handler :: "'x till_scheme payment_engine \<Rightarrow> bool \<Rightarrow> string \<Rightarrow> headers \<Rightarrow> string option \<Rightarrow> ('x till_scheme, int) action" where
  "webhook_handler e is_post name hs body =
     (if \<not> is_post then returnM 405
      else case registry_get (pen_registry e) name of
        Inl _ \<Rightarrow> returnM 404
      | Inr p \<Rightarrow> (case body of
          None \<Rightarrow> returnM 400
        | Some b \<Rightarrow>
            if max_webhook_body < length b then returnM 400
            else case pv_verify_webhook p hs b of
              Inl err \<Rightarrow> returnM (if is_code err Unauthenticated then 401 else 400)
            | Inr ev \<Rightarrow>
                bindM (tryM (save_provider_event \<lparr>pe_id = 0, pe_provider = name, pe_event_id = we_event_id ev, pe_event_type = we_type ev,
                   pe_object_kind = (case we_object_kind ev of None \<Rightarrow> ObjectPayment | Some k \<Rightarrow> k),
                   pe_object_id = unless_empty (we_object_id ev), pe_payload = b, pe_received_at = 0, pe_processed_at = None,
                   pe_attempts = 0, pe_next_attempt_at = 0, pe_last_error = None\<rparr>)) (\<lambda>r. case r of
                  Inl _ \<Rightarrow> returnM 503
                | Inr _ \<Rightarrow> returnM 200)))"

end
