(* ===== verification/PaymentSafety.thy ===== *)
theory PaymentSafety
  imports Refunds
begin

text \<open>
  The payment engine keeps what the ledger's interface keeps: its operations change
  the ledger and the wallets only through the posting and the wallet engine.

  \<open>till_ops\<close> is the interface on states that have the payment tables: what \<open>estate_ops\<close> promises and the
  writes of those tables. Predicates of the ledger (\<open>till_keeper\<close>) and predicates of tables that
  extend the payment tables (\<open>till_blind\<close>) satisfy it. \<open>hooks_keep\<close> is what the payment engine
  needs of the order engine and the withdrawal engine it calls back. \<open>payment_step\<close> is one call of
  the engine, however it ends.
\<close>

section \<open>What recovers rests on what syncs\<close>

text \<open>A transaction of its own that keeps a predicate when it commits keeps it however it ends.\<close>

lemma safep_own_tx:
  assumes "env_free I" "\<And>c. okp I (with_tx c fn)" "\<not> in_tx c"
  shows "safep I (with_tx c fn)"
proof -
  have "okp I (fn (c\<lparr>in_tx := True\<rparr>))"
    using assms(2) [of "c\<lparr>in_tx := True\<rparr>"] by (simp add: with_tx_def okp_def)
  then show ?thesis
    using assms(1,3) by (auto simp: safep_def okp_def with_tx_def rollback_env_free split: prod.splits outcome.splits)
qed

lemma safep_attempt_for: "safep I (attempt_for n x)"
  by (auto simp: attempt_for_def get_attempt_by_provider_ref_def intro!: keeps)

lemma safep_check_fund: "safep I (check_fund w amount)"
  by (auto simp: check_fund_def check_op_def get_wallet_type_by_id_def guardM_def intro!: keeps split: option.splits)

lemma safep_till_lookups:
  "safep I (engine_provider e n)" "safep I (list_provider_controls)" "safep I (latest_attempt p)"
  "safep I (get_product_by_id i)" "safep I (get_refund_by_provider_ref n x)" "safep I (get_dispute_by_provider_ref n x)"
  "safep I (claim_provider_event c i)"
  by (auto simp: engine_provider_def list_provider_controls_def latest_attempt_def list_payment_attempts_def get_product_by_id_def
      get_refund_by_provider_ref_def get_dispute_by_provider_ref_def claim_provider_event_def
      intro!: keeps split: sum.splits option.splits)

definition fresh_payment :: "payment \<Rightarrow> bool" where
  "fresh_payment p \<longleftrightarrow> pm_status p = PaymentCreated \<and> pm_refunded_amount p = 0"

text \<open>\<open>good\<close> is what is asked of the engine value: that its hooks keep the predicate in turn.\<close>

locale payment_calls =
  fixes I :: "'x till_scheme \<Rightarrow> bool" and good :: "'x till_scheme payment_engine \<Rightarrow> bool"
  assumes calls_free: "env_free I"
    and core_open: "good e \<Longrightarrow> fresh_payment p \<Longrightarrow> okp I (open_at e c prov reason p)"
    and core_sync: "good e \<Longrightarrow> okp I (sync e c a pp source reference)"
    and core_settled: "good e \<Longrightarrow> okp I (mark_settled e c i ref)"
    and core_refund: "good e \<Longrightarrow> in64 (rr_amount q) \<Longrightarrow> okp I (create_refund e c q)"
    and core_sync_refund: "good e \<Longrightarrow> okp I (sync_refund e c i pr source)"
    and core_resubmit: "good e \<Longrightarrow> rf_status r = RefundInitiated \<Longrightarrow> okp I (poll_refund e c r)"
    and core_open_dispute: "good e \<Longrightarrow> okp I (open_dispute e c name pd)"
    and core_sync_dispute: "good e \<Longrightarrow> okp I (sync_dispute e c i pd source)"
    and core_evidence: "good e \<Longrightarrow> okp I (submit_dispute_evidence e c i x y)"
    and core_close: "good e \<Longrightarrow> okp I (close_locally e c p a' to source detail)"
    and core_payout: "good e \<Longrightarrow> pen_payouts e = Some g \<Longrightarrow> okp I (g c name ref)"
    and core_events: "safep I (save_provider_event v)" "okp I (mark_provider_event_processed i)" "okp I (mark_provider_event_failed i x k)"
begin

lemmas call_keeps = keeps calls_free safep_new_id [OF calls_free] safep_new_id [OF calls_free, THEN safep_okp]
  safep_asks [OF calls_free] safep_asks [OF calls_free, THEN safep_okp] safep_attempt_for safep_okp [OF safep_attempt_for]
  safep_check_fund safep_okp [OF safep_check_fund] safep_till_lookups safep_till_lookups [THEN safep_okp]

lemmas own_tx = safep_own_tx [OF calls_free]

lemma calls_open: "good e \<Longrightarrow> pm_refunded_amount p = 0 \<Longrightarrow> okp I (open_payment e c p)"
  unfolding open_payment_def by (intro call_keeps core_open) (simp_all add: fresh_payment_def)

lemma calls_open_safe: "good e \<Longrightarrow> pm_refunded_amount p = 0 \<Longrightarrow> \<not> in_tx c \<Longrightarrow> safep I (open_payment e c p)"
proof -
  assume e: "good e" and p: "pm_refunded_amount p = 0" and c: "\<not> in_tx c"
  have "safep I (open_at e c prov reason q)" if "fresh_payment q" for prov reason q
    using core_open [OF e that] unfolding open_at_def by (rule own_tx) (rule c)
  then show ?thesis unfolding open_payment_def by (intro call_keeps) (simp_all add: fresh_payment_def p)
qed

lemma calls_create_topup:
  "good e \<Longrightarrow> okp I (create_topup e c tq)" "good e \<Longrightarrow> \<not> in_tx c \<Longrightarrow> safep I (create_topup e c tq)"
  unfolding create_topup_def by (intro call_keeps calls_open calls_open_safe; simp add: new_payment_def)+

lemma calls_create_order_payment:
  "good e \<Longrightarrow> okp I (create_order_payment e c oq)" "good e \<Longrightarrow> \<not> in_tx c \<Longrightarrow> safep I (create_order_payment e c oq)"
  unfolding create_order_payment_def by (intro call_keeps calls_open calls_open_safe; simp add: new_payment_def)+

lemma calls_safe:
  assumes "good e" "\<not> in_tx c"
  shows "safep I (sync e c a pp source reference)" "safep I (mark_settled e c i ref)"
    "in64 (rr_amount q) \<Longrightarrow> safep I (create_refund e c q)" "safep I (sync_refund e c i pr source)"
    "safep I (open_dispute e c name pd)" "safep I (sync_dispute e c i pd source)" "safep I (submit_dispute_evidence e c i x y)"
    "safep I (close_locally e c p a' to source detail)"
proof -
  show "safep I (sync e c a pp source reference)"
    using core_sync [OF assms(1)] unfolding sync_def by (rule own_tx) (rule assms(2))
  show "safep I (mark_settled e c i ref)"
    using core_settled [OF assms(1)] unfolding mark_settled_def by (rule own_tx) (rule assms(2))
  show "safep I (create_refund e c q)" if "in64 (rr_amount q)"
  proof (cases "rr_reason_code q \<in> set refund_reasons")
    case True
    then have "okp I (with_tx c (\<lambda>c. bindM (lock_payment c (rr_payment_id q)) (\<lambda>p.
        if \<not> refundable (pm_status p) then failM FailedPrecondition
        else case refund_source_of p of None \<Rightarrow> failM FailedPrecondition | Some source \<Rightarrow> start_refund e c q p source)))" for c
      using core_refund [OF assms(1) that, of c] by (simp add: create_refund_def)
    from own_tx [OF this assms(2)] True show ?thesis by (simp add: create_refund_def)
  qed (simp add: create_refund_def keeps)
  show "safep I (sync_refund e c i pr source)"
    using core_sync_refund [OF assms(1)] unfolding sync_refund_def by (rule own_tx) (rule assms(2))
  show "safep I (open_dispute e c name pd)"
    using core_open_dispute [OF assms(1)] unfolding open_dispute_def by (rule own_tx) (rule assms(2))
  show "safep I (sync_dispute e c i pd source)"
    using core_sync_dispute [OF assms(1)] unfolding sync_dispute_def by (rule own_tx) (rule assms(2))
  show "safep I (submit_dispute_evidence e c i x y)"
    using core_evidence [OF assms(1)] unfolding submit_dispute_evidence_def by (rule own_tx) (rule assms(2))
  show "safep I (close_locally e c p a' to source detail)"
    using core_close [OF assms(1)] unfolding close_locally_def by (rule own_tx) (rule assms(2))
qed

lemma calls_poll_refund:
  "good e \<Longrightarrow> okp I (poll_refund e c r)" "good e \<Longrightarrow> \<not> in_tx c \<Longrightarrow> safep I (poll_refund e c r)"
proof -
  assume e: "good e"
  have later: "okp I (poll_refund e c r)" "\<not> in_tx c \<Longrightarrow> safep I (poll_refund e c r)" if "rf_status r \<noteq> RefundInitiated"
    using that unfolding poll_refund_def by (auto intro!: call_keeps core_sync_refund e calls_safe(4))
  then show "okp I (poll_refund e c r)" using core_resubmit [OF e] by (cases "rf_status r = RefundInitiated") simp_all
  assume c: "\<not> in_tx c"
  show "safep I (poll_refund e c r)"
  proof (cases "rf_status r = RefundInitiated")
    case True
    then have "okp I (with_tx c (\<lambda>c. bindM (lock_refund c (rf_id r)) (\<lambda>locked. if rf_status locked \<noteq> RefundInitiated then returnM r
        else bindM (get_payment_by_id (rf_payment_id locked)) (\<lambda>p. submit_refund e c p locked))))" for c
      using core_resubmit [OF e, of r c] by (simp add: poll_refund_def)
    from own_tx [OF this c] True show ?thesis by (simp add: poll_refund_def)
  qed (rule later(2) [OF _ c])
qed

lemma calls_process_refund_event: "good e \<Longrightarrow> okp I (process_refund_event e c name ref)"
  unfolding process_refund_event_def by (intro call_keeps core_sync_refund)

lemma calls_process_dispute_event: "good e \<Longrightarrow> okp I (process_dispute_event e c name ref)"
  unfolding process_dispute_event_def by (intro call_keeps core_open_dispute core_sync_dispute)

lemma calls_poll_dispute:
  "good e \<Longrightarrow> okp I (poll_dispute e c d)" "good e \<Longrightarrow> \<not> in_tx c \<Longrightarrow> safep I (poll_dispute e c d)"
  unfolding poll_dispute_def by (intro call_keeps core_sync_dispute calls_safe(6); assumption)+

lemma calls_sync_from_provider:
  "good e \<Longrightarrow> okp I (sync_from_provider e c a source reference)"
  "good e \<Longrightarrow> \<not> in_tx c \<Longrightarrow> safep I (sync_from_provider e c a source reference)"
  unfolding sync_from_provider_def fetch_captured_def by (intro call_keeps core_sync calls_safe(1); assumption)+

lemma calls_process_event: "good e \<Longrightarrow> okp I (process_event e c v)"
proof (cases "pe_object_kind v")
  assume e: "good e"
  case ObjectPayout
  have "okp I (case pen_payouts e of None \<Rightarrow> failM Internal | Some hook \<Rightarrow> hook c (pe_provider v) ref)" for ref
    by (cases "pen_payouts e") (simp_all add: keeps core_payout [OF e])
  then show ?thesis unfolding process_event_def ObjectPayout object_kind.case
    by (cases "pe_object_id v") (simp_all add: keeps)
qed (auto simp: process_event_def intro!: call_keeps calls_process_refund_event calls_process_dispute_event calls_sync_from_provider)

lemma calls_process_next_event:
  "good e \<Longrightarrow> okp I (process_next_event e c)" "good e \<Longrightarrow> \<not> in_tx c \<Longrightarrow> safep I (process_next_event e c)"
proof -
  assume "good e"
  then show *: "okp I (process_next_event e c)" for c
    unfolding process_next_event_def by (intro call_keeps calls_process_event core_events)
  assume "\<not> in_tx c"
  with * show "safep I (process_next_event e c)" unfolding process_next_event_def by (intro own_tx)
qed

lemma calls_poll:
  "good e \<Longrightarrow> okp I (poll e c p source)" "good e \<Longrightarrow> \<not> in_tx c \<Longrightarrow> safep I (poll e c p source)"
  unfolding poll_def by (intro call_keeps calls_sync_from_provider; assumption)+

lemma calls_close_payment:
  "good e \<Longrightarrow> okp I (close_payment e c p to source detail)"
  "good e \<Longrightarrow> \<not> in_tx c \<Longrightarrow> safep I (close_payment e c p to source detail)"
  unfolding close_payment_def close_at_provider_def
  by (intro call_keeps calls_sync_from_provider core_close calls_safe(8); assumption)+

lemma calls_webhook: "safep I (webhook_handler e is_post name hs body)"
  unfolding webhook_handler_def Let_def by (intro call_keeps core_events)

end

section \<open>Steps\<close>

text \<open>
  One call of the engine, however it ends outside of a transaction; inside of one only a call that
  returned counts. \<open>E\<close> are the engine values the program runs with.
\<close>

inductive payment_step :: "('x till_scheme payment_engine \<Rightarrow> bool) \<Rightarrow> 'x till_scheme \<Rightarrow> 'x till_scheme \<Rightarrow> bool" for E where
  pay_topup: "E e \<Longrightarrow> create_topup e c q s = (r, u) \<Longrightarrow> in_tx c \<longrightarrow> is_ok r \<Longrightarrow> payment_step E s u"
| pay_order: "E e \<Longrightarrow> create_order_payment e c oq s = (r, u) \<Longrightarrow> in_tx c \<longrightarrow> is_ok r \<Longrightarrow> payment_step E s u"
| pay_sync: "E e \<Longrightarrow> sync e c a pp source reference s = (r, u) \<Longrightarrow> in_tx c \<longrightarrow> is_ok r \<Longrightarrow> payment_step E s u"
| pay_settled: "E e \<Longrightarrow> mark_settled e c i ref s = (r, u) \<Longrightarrow> in_tx c \<longrightarrow> is_ok r \<Longrightarrow> payment_step E s u"
| pay_refund: "E e \<Longrightarrow> in64 (rr_amount rq) \<Longrightarrow> create_refund e c rq s = (r, u) \<Longrightarrow> in_tx c \<longrightarrow> is_ok r \<Longrightarrow> payment_step E s u"
| pay_sync_refund: "E e \<Longrightarrow> sync_refund e c i pr source s = (r, u) \<Longrightarrow> in_tx c \<longrightarrow> is_ok r \<Longrightarrow> payment_step E s u"
| pay_poll_refund: "E e \<Longrightarrow> poll_refund e c r0 s = (r, u) \<Longrightarrow> in_tx c \<longrightarrow> is_ok r \<Longrightarrow> payment_step E s u"
| pay_open_dispute: "E e \<Longrightarrow> open_dispute e c name pd s = (r, u) \<Longrightarrow> in_tx c \<longrightarrow> is_ok r \<Longrightarrow> payment_step E s u"
| pay_sync_dispute: "E e \<Longrightarrow> sync_dispute e c i pd source s = (r, u) \<Longrightarrow> in_tx c \<longrightarrow> is_ok r \<Longrightarrow> payment_step E s u"
| pay_evidence: "E e \<Longrightarrow> submit_dispute_evidence e c i x y s = (r, u) \<Longrightarrow> in_tx c \<longrightarrow> is_ok r \<Longrightarrow> payment_step E s u"
| pay_poll_dispute: "E e \<Longrightarrow> poll_dispute e c d s = (r, u) \<Longrightarrow> in_tx c \<longrightarrow> is_ok r \<Longrightarrow> payment_step E s u"
| pay_event: "E e \<Longrightarrow> process_next_event e c s = (r, u) \<Longrightarrow> in_tx c \<longrightarrow> is_ok r \<Longrightarrow> payment_step E s u"
| pay_poll: "E e \<Longrightarrow> poll e c p source s = (r, u) \<Longrightarrow> in_tx c \<longrightarrow> is_ok r \<Longrightarrow> payment_step E s u"
| pay_close: "E e \<Longrightarrow> close_payment e c p to source detail s = (r, u) \<Longrightarrow> in_tx c \<longrightarrow> is_ok r \<Longrightarrow> payment_step E s u"
| pay_webhook: "webhook_handler e is_post name hs body s = (r, u) \<Longrightarrow> payment_step E s u"

context payment_calls
begin

lemma calls_ended:
  "okp I m \<Longrightarrow> m s = (r, u) \<Longrightarrow> in_tx c \<longrightarrow> is_ok r \<Longrightarrow> I s \<Longrightarrow> (\<not> in_tx c \<Longrightarrow> safep I m) \<Longrightarrow> I u"
  by (cases "in_tx c"; cases r) (auto dest: okpD safepD)

lemma payment_step_keeps:
  assumes "\<And>e. E e \<Longrightarrow> good e"
  shows "payment_step E s u \<Longrightarrow> I s \<Longrightarrow> I u"
proof (induction rule: payment_step.induct)
  case pay_topup
  show ?case
    by (rule calls_ended [OF calls_create_topup(1) [OF assms [OF pay_topup(1)]] pay_topup(2,3,4)]) (rule calls_create_topup(2) [OF assms [OF pay_topup(1)]])
next
  case pay_order
  show ?case
    by (rule calls_ended [OF calls_create_order_payment(1) [OF assms [OF pay_order(1)]] pay_order(2,3,4)]) (rule calls_create_order_payment(2) [OF assms [OF pay_order(1)]])
next
  case pay_sync
  show ?case
    by (rule calls_ended [OF core_sync [OF assms [OF pay_sync(1)]] pay_sync(2,3,4)]) (rule calls_safe(1) [OF assms [OF pay_sync(1)]])
next
  case pay_settled
  show ?case
    by (rule calls_ended [OF core_settled [OF assms [OF pay_settled(1)]] pay_settled(2,3,4)]) (rule calls_safe(2) [OF assms [OF pay_settled(1)]])
next
  case pay_refund
  show ?case
    by (rule calls_ended [OF core_refund [OF assms [OF pay_refund(1)] pay_refund(2)] pay_refund(3,4,5)])
      (rule calls_safe(3) [OF assms [OF pay_refund(1)] _ pay_refund(2)])
next
  case pay_sync_refund
  show ?case
    by (rule calls_ended [OF core_sync_refund [OF assms [OF pay_sync_refund(1)]] pay_sync_refund(2,3,4)]) (rule calls_safe(4) [OF assms [OF pay_sync_refund(1)]])
next
  case pay_poll_refund
  show ?case
    by (rule calls_ended [OF calls_poll_refund(1) [OF assms [OF pay_poll_refund(1)]] pay_poll_refund(2,3,4)]) (rule calls_poll_refund(2) [OF assms [OF pay_poll_refund(1)]])
next
  case pay_open_dispute
  show ?case
    by (rule calls_ended [OF core_open_dispute [OF assms [OF pay_open_dispute(1)]] pay_open_dispute(2,3,4)]) (rule calls_safe(5) [OF assms [OF pay_open_dispute(1)]])
next
  case pay_sync_dispute
  show ?case
    by (rule calls_ended [OF core_sync_dispute [OF assms [OF pay_sync_dispute(1)]] pay_sync_dispute(2,3,4)]) (rule calls_safe(6) [OF assms [OF pay_sync_dispute(1)]])
next
  case pay_evidence
  show ?case
    by (rule calls_ended [OF core_evidence [OF assms [OF pay_evidence(1)]] pay_evidence(2,3,4)]) (rule calls_safe(7) [OF assms [OF pay_evidence(1)]])
next
  case pay_poll_dispute
  show ?case
    by (rule calls_ended [OF calls_poll_dispute(1) [OF assms [OF pay_poll_dispute(1)]] pay_poll_dispute(2,3,4)]) (rule calls_poll_dispute(2) [OF assms [OF pay_poll_dispute(1)]])
next
  case pay_event
  show ?case
    by (rule calls_ended [OF calls_process_next_event(1) [OF assms [OF pay_event(1)]] pay_event(2,3,4)]) (rule calls_process_next_event(2) [OF assms [OF pay_event(1)]])
next
  case pay_poll
  show ?case
    by (rule calls_ended [OF calls_poll(1) [OF assms [OF pay_poll(1)]] pay_poll(2,3,4)]) (rule calls_poll(2) [OF assms [OF pay_poll(1)]])
next
  case pay_close
  show ?case
    by (rule calls_ended [OF calls_close_payment(1) [OF assms [OF pay_close(1)]] pay_close(2,3,4)]) (rule calls_close_payment(2) [OF assms [OF pay_close(1)]])
next
  case pay_webhook
  then show ?case using safepD [OF calls_webhook] by blast
qed

lemma payment_steps_keep:
  assumes "\<And>e. E e \<Longrightarrow> good e"
  shows "(payment_step E)\<^sup>*\<^sup>* s u \<Longrightarrow> I s \<Longrightarrow> I u"
  by (induction rule: rtranclp_induct) (auto intro: payment_step_keeps [OF assms])

end

section \<open>The interface\<close>

definition hooks_keep :: "('x till_scheme \<Rightarrow> bool) \<Rightarrow> 'x till_scheme payment_engine \<Rightarrow> bool" where
  "hooks_keep I e \<longleftrightarrow>
     (\<forall>h. pen_orders e = Some h \<longrightarrow> (\<forall>c p name. okp I (hk_capture_order h c p name)) \<and> (\<forall>c p. okp I (hk_payment_ended h c p))) \<and>
     (\<forall>g. pen_payouts e = Some g \<longrightarrow> (\<forall>c name ref. okp I (g c name ref)))"

locale till_ops = estate_ops I for I :: "'x till_scheme \<Rightarrow> bool" +
  assumes keeps_payment_rows: "okp I (create_payment_row p)" "okp I (update_payment p)"
      "okp I (create_payment_attempt a)" "okp I (update_payment_attempt a)" "okp I (record_payment_transition t)"
    and keeps_refund_rows: "okp I (create_refund_row r)" "okp I (update_refund r)"
    and keeps_dispute_rows: "okp I (create_dispute d)" "okp I (update_dispute d)"
    and keeps_event_rows: "safep I (save_provider_event v)" "okp I (mark_provider_event_processed i)" "okp I (mark_provider_event_failed i x k)"
begin

lemma keeps_till_reads:
  "okp I (get_payment_by_id i)" "okp I (lock_payment c i)" "okp I (get_attempt_by_provider_ref n x)" "okp I (list_payment_attempts i)"
  "okp I (claim_provider_event c i)" "okp I (get_refund_by_provider_ref n x)" "okp I (lock_refund c i)" "okp I (sum_processed_refunds i)"
  "okp I (get_dispute_by_provider_ref n x)" "okp I (lock_dispute c i)" "okp I (list_provider_controls)" "okp I (engine_provider e n)"
  "okp I (latest_attempt p)" "okp I (payment_wallet p)" "okp I (get_journal_by_external_id x)"
  by (auto simp: get_payment_by_id_def lock_payment_def get_attempt_by_provider_ref_def list_payment_attempts_def claim_provider_event_def
      get_refund_by_provider_ref_def lock_refund_def sum_processed_refunds_def scan_sum_def get_dispute_by_provider_ref_def
      lock_dispute_def list_provider_controls_def engine_provider_def latest_attempt_def payment_wallet_def
      get_wallet_by_public_id_def get_journal_by_external_id_def intro!: keeps split: option.splits sum.splits)

lemmas asks_keep = safep_asks [OF free]

lemmas till_keeps = engine_keeps keeps_payment_rows keeps_refund_rows keeps_dispute_rows keeps_event_rows
  safep_okp [OF keeps_event_rows(1)] keeps_till_reads asks_keep asks_keep [THEN safep_okp] keeps_event keeps_fund keeps_moves

section \<open>Payments\<close>

lemma keeps_tell_order: "hooks_keep I e \<Longrightarrow> okp I (tell_order e c p)"
  unfolding tell_order_def hooks_keep_def by (auto intro!: keeps split: option.splits)

lemma keeps_emit_payment: "okp I (emit_payment p)"
  unfolding emit_payment_def by (intro till_keeps)

lemma keeps_transition: "hooks_keep I e \<Longrightarrow> okp I (transition e c p to source reference detail)"
  unfolding transition_def by (intro till_keeps keeps_tell_order keeps_emit_payment)

lemma keeps_open_at: "hooks_keep I e \<Longrightarrow> okp I (open_at e c prov reason p)"
  unfolding open_at_def open_failed_def open_pending_def Let_def by (intro till_keeps keeps_transition)

lemma keeps_post_between: "okp I (post_between c ext kind p debit credit amount cur memo reverses)"
  unfolding post_between_def by (intro till_keeps keeps_post)

lemma keeps_order_capture: "hooks_keep I e \<Longrightarrow> okp I (apply_order_capture e c p a product ext amount cur)"
  unfolding apply_order_capture_def post_capture_def
  by (cases "pen_orders e") (auto simp: hooks_keep_def intro!: keeps keeps_post_between)

lemma keeps_topup_capture: "okp I (apply_topup_capture e c p a product ext amount cur)"
  unfolding apply_topup_capture_def post_capture_def by (intro till_keeps keeps_post_between)

lemma keeps_apply_capture: "hooks_keep I e \<Longrightarrow> okp I (apply_capture e c p a pp)"
  unfolding apply_capture_def post_capture_def Let_def
  by (intro till_keeps keeps_post_between keeps_order_capture keeps_topup_capture)

lemma keeps_before_move: "hooks_keep I e \<Longrightarrow> okp I (before_move e c p a pp)"
  unfolding before_move_def by (auto intro!: keeps keeps_apply_capture split: payment_status.splits)

lemma keeps_sync: "hooks_keep I e \<Longrightarrow> okp I (sync e c a pp source reference)"
  unfolding sync_def Let_def by (intro till_keeps keeps_before_move keeps_transition)

lemma keeps_mark_settled: "hooks_keep I e \<Longrightarrow> okp I (mark_settled e c i ref)"
  unfolding mark_settled_def Let_def by (intro till_keeps keeps_transition)

section \<open>Refunds\<close>

lemma keeps_emit_refund: "okp I (emit_refund r topic)"
  unfolding emit_refund_def by (intro till_keeps)

lemma keeps_apply_refund: "hooks_keep I e \<Longrightarrow> okp I (apply_refund e c r pr source)"
  unfolding apply_refund_def complete_refund_def fail_refund_def return_reserve_def Let_def
  by (cases "pf_status pr") (auto intro!: till_keeps keeps_post_between keeps_transition keeps_emit_refund)

lemma keeps_submit_refund: "hooks_keep I e \<Longrightarrow> okp I (submit_refund e c p r)"
  unfolding submit_refund_def by (intro till_keeps keeps_apply_refund)

lemma keeps_create_refund: "hooks_keep I e \<Longrightarrow> okp I (create_refund e c q)"
  unfolding create_refund_def start_refund_def reserve_from_wallet_def by (intro till_keeps keeps_submit_refund)

lemma keeps_sync_refund: "hooks_keep I e \<Longrightarrow> okp I (sync_refund e c i pr source)"
  unfolding sync_refund_def by (intro till_keeps keeps_apply_refund)

lemma keeps_resubmit: "hooks_keep I e \<Longrightarrow> rf_status r = RefundInitiated \<Longrightarrow> okp I (poll_refund e c r)"
  by (simp add: poll_refund_def) (intro till_keeps keeps_submit_refund)

section \<open>Chargebacks\<close>

lemma keeps_emit_dispute: "okp I (emit_dispute e d topic)"
  unfolding emit_dispute_def by (intro till_keeps)

lemma keeps_open_dispute: "hooks_keep I e \<Longrightarrow> okp I (open_dispute e c name pd)"
proof -
  assume h: "hooks_keep I e"
  have "okp I (contested_sources p m n)" for p m n
    unfolding contested_sources_def wallet_part_def by (cases "pm_application p") (auto intro!: till_keeps)
  moreover have "okp I (hold_contested e c p product w d)" for c p product w d
    unfolding hold_contested_def hold_wallet_part_def hold_unapplied_part_def hold_expense_part_def Let_def
    by (intro till_keeps keeps_post_between)
  ultimately show ?thesis
    unfolding open_dispute_def record_dispute_def
    by (intro till_keeps safep_okp [OF safep_attempt_for] keeps_transition [OF h] keeps_emit_dispute)
qed

lemma keeps_resolve_dispute: "hooks_keep I e \<Longrightarrow> okp I (resolve_dispute e c d won source)"
  unfolding resolve_dispute_def settle_dispute_money_def return_disputed_funds_def give_back_wallet_def give_back_def
  by (intro till_keeps keeps_post_between keeps_transition keeps_emit_dispute)

lemma keeps_sync_dispute: "hooks_keep I e \<Longrightarrow> okp I (sync_dispute e c i pd source)"
  unfolding sync_dispute_def
  by (cases "pd_status pd") (auto intro!: till_keeps keeps_resolve_dispute)

lemma keeps_submit_evidence: "okp I (submit_dispute_evidence e c i x y)"
  unfolding submit_dispute_evidence_def by (intro till_keeps)

lemma keeps_close_locally: "hooks_keep I e \<Longrightarrow> okp I (close_locally e c p a to source detail)"
  unfolding close_locally_def by (intro till_keeps keeps_transition)

end

sublocale till_ops \<subseteq> payment_calls I "hooks_keep I"
  by unfold_locales
    (auto intro: free keeps_open_at keeps_sync keeps_mark_settled keeps_create_refund keeps_sync_refund keeps_resubmit
      keeps_open_dispute keeps_sync_dispute keeps_submit_evidence keeps_close_locally keeps_event_rows
      simp: hooks_keep_def)

section \<open>Who satisfies the interface\<close>

lemmas till_writes = create_payment_row_def update_payment_def create_payment_attempt_def update_payment_attempt_def
  record_payment_transition_def create_refund_row_def update_refund_def create_dispute_def update_dispute_def
  save_provider_event_def mark_provider_event_processed_def mark_provider_event_failed_def

locale till_keeper = estate_keeper I for I :: "'x till_scheme \<Rightarrow> bool"

sublocale till_keeper \<subseteq> till_ops I
  unfolding till_ops_def till_ops_axioms_def till_writes
  by (auto simp: same_ledger_def intro!: estate_ops_axioms keeps keeps_tables keeps_tables_ok)

locale till_blind = estate_blind I for I :: "'x till_scheme \<Rightarrow> bool" +
  assumes blind_till: "I s \<Longrightarrow> I (s\<lparr>payments := ps\<rparr>)" "I s \<Longrightarrow> I (s\<lparr>attempts := as\<rparr>)" "I s \<Longrightarrow> I (s\<lparr>transitions := ts\<rparr>)"
      "I s \<Longrightarrow> I (s\<lparr>provider_events := vs\<rparr>)" "I s \<Longrightarrow> I (s\<lparr>refunds := rs\<rparr>)" "I s \<Longrightarrow> I (s\<lparr>disputes := ds\<rparr>)"

sublocale till_blind \<subseteq> till_ops I
  unfolding till_ops_def till_ops_axioms_def till_writes
  by (auto intro!: estate_ops_axioms keeps okp_modify safep_modify blind_till)

interpretation till_books: till_keeper ledger_inv
  by unfold_locales

interpretation till_trail: till_keeper "extends s" for s
  by unfold_locales

end
