(* ===== verification/Triples.thy ===== *)
theory Triples
  imports Effects
begin

text \<open>
  Pre- and postconditions of actions, for proofs that have to say what a call returned and not only what
  it kept: \<open>triple P m Q\<close> is about the runs of \<open>m\<close> that return. One rule per combinator, collected in
  \<open>triples\<close>; an invariant that \<open>okp\<close> speaks of is a triple with itself.
\<close>

named_theorems triples "rules for pre- and postconditions of actions"

definition triple :: "('s \<Rightarrow> bool) \<Rightarrow> ('s, 'a) action \<Rightarrow> ('a \<Rightarrow> 's \<Rightarrow> bool) \<Rightarrow> bool" where
  "triple P m Q \<longleftrightarrow> (\<forall>s a u. P s \<longrightarrow> m s = (Ok a, u) \<longrightarrow> Q a u)"

lemma tripleI: "(\<And>s a u. P s \<Longrightarrow> m s = (Ok a, u) \<Longrightarrow> Q a u) \<Longrightarrow> triple P m Q"
  by (auto simp: triple_def)

lemma tripleD: "triple P m Q \<Longrightarrow> P s \<Longrightarrow> m s = (Ok a, u) \<Longrightarrow> Q a u"
  by (auto simp: triple_def)

lemma triple_okp: "triple I m (\<lambda>_. I) = okp I m"
  by (auto simp: triple_def okp_def)

lemma triple_conseq: "triple P m Q \<Longrightarrow> (\<And>s. P' s \<Longrightarrow> P s) \<Longrightarrow> (\<And>a s. Q a s \<Longrightarrow> Q' a s) \<Longrightarrow> triple P' m Q'"
  unfolding triple_def by blast

lemma triple_pre: "triple P m Q \<Longrightarrow> (\<And>s. P' s \<Longrightarrow> P s) \<Longrightarrow> triple P' m Q"
  by (auto simp: triple_def)

lemma triple_pure: "(b \<Longrightarrow> triple P m Q) \<Longrightarrow> triple (\<lambda>s. b \<and> P s) m Q"
  by (auto simp: triple_def)

lemma triple_return [triples]: "(\<And>s. P s \<Longrightarrow> Q a s) \<Longrightarrow> triple P (returnM a) Q"
  by (simp add: triple_def act_simps)

lemma triple_stop [triples]: "triple P (failM c) Q" "triple P (errM e) Q" "triple P panicM Q"
  by (simp_all add: triple_def act_simps)

lemma triple_get [triples]: "(\<And>s. P s \<Longrightarrow> Q (f s) s) \<Longrightarrow> triple P (getM f) Q"
  by (simp add: triple_def act_simps)

lemma triple_modify [triples]: "(\<And>s. P s \<Longrightarrow> Q () (f s)) \<Longrightarrow> triple P (modifyM f) Q"
  by (simp add: triple_def act_simps)

lemma triple_bind: "triple P m R \<Longrightarrow> (\<And>a. triple (R a) (k a) Q) \<Longrightarrow> triple P (bindM m k) Q"
  unfolding triple_def bind_Ok_iff by blast

text \<open>A step that keeps what is known and returns nothing of interest.\<close>

lemma triple_skip: "okp P m \<Longrightarrow> (\<And>a. triple P (k a) Q) \<Longrightarrow> triple P (bindM m k) Q"
  by (rule triple_bind [of P m "\<lambda>_. P"]) (simp_all add: triple_okp)

text \<open>What is returned, whatever the state.\<close>

lemma triple_any: "(\<And>a. triple (\<lambda>_. True) (k a) Q) \<Longrightarrow> triple (\<lambda>_. True) (bindM m k) Q"
  by (rule triple_bind [of "\<lambda>_. True" m "\<lambda>_ _. True"]) (simp_all add: triple_def)

lemma triple_fact: "(b \<Longrightarrow> triple (\<lambda>_. True) m Q) \<Longrightarrow> triple (\<lambda>_. b) m Q"
  by (auto simp: triple_def)

text \<open>A step that never returns.\<close>

lemma triple_dead: "(\<And>s a u. m s \<noteq> (Ok a, u)) \<Longrightarrow> triple P (bindM m k) Q"
  by (auto simp: triple_def bind_Ok_iff)

lemma triple_if [triples]: "(b \<Longrightarrow> triple P m Q) \<Longrightarrow> (\<not> b \<Longrightarrow> triple P n Q) \<Longrightarrow> triple P (if b then m else n) Q"
  by simp

lemma triple_option [triples]:
  "(x = None \<Longrightarrow> triple P m Q) \<Longrightarrow> (\<And>y. x = Some y \<Longrightarrow> triple P (k y) Q) \<Longrightarrow> triple P (case_option m k x) Q"
  by (cases x) simp_all

lemma triple_sum [triples]:
  "(\<And>y. triple P (f y) Q) \<Longrightarrow> (\<And>y. triple P (g y) Q) \<Longrightarrow> triple P (case_sum f g x) Q"
  by (cases x) simp_all

lemma triple_prod [triples]: "(\<And>x y. p = (x, y) \<Longrightarrow> triple P (f x y) Q) \<Longrightarrow> triple P (case_prod f p) Q"
  by (cases p) simp

lemma triple_with_tx [triples]: "(\<And>c. triple P (fn c) Q) \<Longrightarrow> triple P (with_tx c fn) Q"
  by (auto simp: triple_def with_tx_def split: if_splits prod.splits outcome.splits)

end
