(* ===== verification/PaymentLog.thy ===== *)
theory PaymentLog
  imports PaymentSafety Triples
begin

text \<open>
  What the payment tables say together: the log of transitions of every payment
  is a path of the state machine that ends in its status, and the figure of what was
  refunded is the sum of its refunds that did not fail, never more than was captured.

  \<open>log_inv i d\<close> is the invariant, on the three tables, but for a figure of payment \<open>i\<close> that is off by
  \<open>d\<close> between the two writes of a refund. Predicates of the three tables are kept by every call into
  the ledger and the wallets (\<open>untouched\<close> is an \<open>estate_blind\<close>), so a proof only looks at the writes
  of these tables.
\<close>

section \<open>The invariant\<close>

fun legal_path :: "payment_status \<Rightarrow> payment_transition list \<Rightarrow> payment_status \<Rightarrow> bool" where
  "legal_path st [] to \<longleftrightarrow> st = to"
| "legal_path st (t # ts) to \<longleftrightarrow> px_from t = st \<and> (px_to t = st \<or> can_transition st (px_to t)) \<and> legal_path (px_to t) ts to"

definition log_of :: "int \<Rightarrow> payment_transition list \<Rightarrow> payment_transition list" where
  "log_of i ts = filter (\<lambda>t. px_payment_id t = i) ts"

definition live_sum :: "int \<Rightarrow> refund list \<Rightarrow> int" where
  "live_sum i rs = sum_by rf_amount (\<lambda>r. rf_payment_id r = i \<and> rf_status r \<noteq> RefundFailed) rs"

definition payment_ok :: "payment_transition list \<Rightarrow> refund list \<Rightarrow> int \<Rightarrow> payment \<Rightarrow> bool" where
  "payment_ok ts rs d p \<longleftrightarrow> payment_checks p \<and> in64 (pm_refunded_amount p) \<and>
     legal_path PaymentCreated (log_of (pm_id p) ts) (pm_status p) \<and>
     pm_refunded_amount p = live_sum (pm_id p) rs + d"

definition log_inv :: "int \<Rightarrow> int \<Rightarrow> payment list \<Rightarrow> payment_transition list \<Rightarrow> refund list \<Rightarrow> bool" where
  "log_inv i d ps ts rs \<longleftrightarrow>
     map pm_id ps = serials (length ps) \<and> map rf_id rs = serials (length rs) \<and>
     (\<forall>t\<in>set ts. px_payment_id t \<in> pm_id ` set ps) \<and>
     (\<forall>r\<in>set rs. 0 < rf_amount r \<and> in64 (rf_amount r) \<and> rf_payment_id r \<in> pm_id ` set ps) \<and>
     (\<forall>p\<in>set ps. payment_ok ts rs (if pm_id p = i then d else 0) p)"

definition till_inv :: "int \<Rightarrow> int \<Rightarrow> 'x till_scheme \<Rightarrow> bool" where
  "till_inv i d s \<longleftrightarrow> log_inv i d (payments s) (transitions s) (refunds s)"

lemma legal_path_snoc [simp]:
  "legal_path st (ts @ [t]) to \<longleftrightarrow> legal_path st ts (px_from t) \<and> (px_to t = px_from t \<or> can_transition (px_from t) (px_to t)) \<and> px_to t = to"
  by (induction ts arbitrary: st) auto

lemma log_inv_any: "log_inv i 0 ps ts rs = log_inv j 0 ps ts rs"
  by (simp add: log_inv_def)

lemma log_inv_start: "log_inv i 0 [] [] []"
  by (simp add: log_inv_def)

lemma log_inv_distinct: "log_inv i d ps ts rs \<Longrightarrow> distinct (map pm_id ps)" "log_inv i d ps ts rs \<Longrightarrow> distinct (map rf_id rs)"
  by (metis log_inv_def distinct_serials)+

section \<open>The writes of the three tables\<close>

lemma log_inv_new_payment:
  assumes inv: "log_inv i 0 ps ts rs" and p: "pm_id p = next_id ps" "fresh_payment p" "payment_checks p"
  shows "log_inv j 0 (ps @ [p]) ts rs"
proof -
  have ids: "map pm_id ps = serials (length ps)" using inv by (simp add: log_inv_def)
  have new: "pm_id p \<notin> pm_id ` set ps" using next_id_fresh [OF ids] p(1) by simp
  have "px_payment_id t \<noteq> pm_id p" if "t \<in> set ts" for t using inv new that unfolding log_inv_def by metis
  moreover have "rf_payment_id r \<noteq> pm_id p" if "r \<in> set rs" for r using inv new that unfolding log_inv_def by metis
  ultimately have none: "log_of (pm_id p) ts = []" "live_sum (pm_id p) rs = 0"
    by (auto simp: log_of_def live_sum_def filter_empty_conv intro!: sum_by_none)
  then have "payment_ok ts rs 0 p" using p by (simp add: payment_ok_def fresh_payment_def in64_def)
  then show ?thesis using inv serials_snoc [OF ids p(1)] by (auto simp: log_inv_def)
qed

lemma log_inv_write_payment:
  assumes inv: "log_inv i d ps ts rs" and row: "find_row pm_id i ps = Some row"
    and id: "pm_id row' = i" and ok: "payment_ok ts' rs d' row'"
    and log: "\<And>k. k \<noteq> i \<Longrightarrow> log_of k ts' = log_of k ts" "\<And>t. t \<in> set ts' \<Longrightarrow> t \<in> set ts \<or> px_payment_id t = i"
  shows "log_inv i d' (update_rows pm_id i (\<lambda>_. row') ps) ts' rs"
proof -
  have ids: "map pm_id (update_rows pm_id i (\<lambda>_. row') ps) = map pm_id ps"
    using id by (simp add: update_rows_def)
  have set: "pm_id ` set (update_rows pm_id i (\<lambda>_. row') ps) = pm_id ` set ps"
    using ids by (metis list.set_map)
  have member: "i \<in> pm_id ` set ps" using find_row_Some [OF row] by force
  have "payment_ok ts' rs (if pm_id q = i then d' else 0) q" if q: "q \<in> set (update_rows pm_id i (\<lambda>_. row') ps)" for q
  proof (cases "pm_id q = i")
    case True
    then have "q = row'" using q by (auto simp: set_update_rows split: if_splits)
    then show ?thesis using ok True by simp
  next
    case False
    then have "q \<in> set ps" using q id by (auto simp: set_update_rows split: if_splits)
    then have "payment_ok ts rs 0 q" using inv False by (auto simp: log_inv_def)
    then show ?thesis unfolding payment_ok_def log(1) [OF False] using False by (metis (full_types))
  qed
  moreover have "px_payment_id t \<in> pm_id ` set ps" if "t \<in> set ts'" for t
    using log(2) [OF that] inv member unfolding log_inv_def by auto
  ultimately show ?thesis using inv ids set unfolding log_inv_def by (simp add: length_update_rows)
qed

lemma log_inv_move:
  assumes inv: "log_inv i d ps ts rs" and row: "find_row pm_id i ps = Some row"
    and row': "pm_id row' = i" "pm_refunded_amount row' = pm_refunded_amount row" "payment_checks row'"
    and t: "px_payment_id t = i" "px_from t = pm_status row" "px_to t = pm_status row'"
      "pm_status row' = pm_status row \<or> can_transition (pm_status row) (pm_status row')"
  shows "log_inv i d (update_rows pm_id i (\<lambda>_. row') ps) (ts @ [t]) rs"
proof (rule log_inv_write_payment [OF inv row row'(1)])
  have "payment_ok ts rs d row" "pm_id row = i" using inv find_row_Some [OF row] by (auto simp: log_inv_def)
  then show "payment_ok (ts @ [t]) rs d row'" using row' t by (auto simp: payment_ok_def log_of_def)
qed (use t in \<open>auto simp: log_of_def\<close>)

lemma log_inv_refunded:
  assumes inv: "log_inv i d ps ts rs" and row: "find_row pm_id i ps = Some row"
    and row': "pm_id row' = i" "pm_refunded_amount row' = pm_refunded_amount row + x" "payment_checks row'"
      "pm_status row' = pm_status row" "in64 (pm_refunded_amount row')"
  shows "log_inv i (d + x) (update_rows pm_id i (\<lambda>_. row') ps) ts rs"
proof (rule log_inv_write_payment [OF inv row row'(1)])
  have "payment_ok ts rs d row" "pm_id row = i" using inv find_row_Some [OF row] by (auto simp: log_inv_def)
  then show "payment_ok ts rs (d + x) row'" using row' by (auto simp: payment_ok_def)
qed simp_all

lemma log_inv_new_refund:
  assumes inv: "log_inv i 0 ps ts rs" and r: "rf_id r = next_id rs" "rf_status r \<noteq> RefundFailed" "0 < rf_amount r" "in64 (rf_amount r)"
    "rf_payment_id r \<in> pm_id ` set ps"
  shows "log_inv (rf_payment_id r) (- rf_amount r) ps ts (rs @ [r])"
  using assms serials_snoc [of rf_id rs r] by (auto simp: log_inv_def payment_ok_def live_sum_def)

lemma live_sum_update:
  assumes "distinct (map rf_id rs)" "find_row rf_id k rs = Some row" "rf_id row' = k"
    "rf_payment_id row' = rf_payment_id row" "rf_amount row' = rf_amount row"
  shows "live_sum i (update_rows rf_id k (\<lambda>_. row') rs) = live_sum i rs +
    (if rf_payment_id row \<noteq> i then 0 else (if rf_status row' = RefundFailed then 0 else rf_amount row) -
      (if rf_status row = RefundFailed then 0 else rf_amount row))"
  using assms
proof (induction rs)
  case (Cons r rs)
  show ?case
  proof (cases "rf_id r = k")
    case True
    then have "k \<notin> rf_id ` set rs" using Cons.prems(1) by auto
    then show ?thesis using Cons.prems True by (auto simp: live_sum_def update_rows_absent)
  next
    case False
    then show ?thesis using Cons by (auto simp: live_sum_def)
  qed
qed simp

lemma log_inv_write_refund:
  assumes inv: "log_inv i d ps ts rs" and row: "find_row rf_id k rs = Some row" "rf_status row \<noteq> RefundFailed" "rf_payment_id row = i"
    and row': "rf_id row' = k" "rf_payment_id row' = rf_payment_id row" "rf_amount row' = rf_amount row"
  shows "log_inv i (d + (if rf_status row' = RefundFailed then rf_amount row else 0)) ps ts (update_rows rf_id k (\<lambda>_. row') rs)"
proof -
  note sums = live_sum_update [OF log_inv_distinct(2) [OF inv] row(1) row']
  have ids: "map rf_id (update_rows rf_id k (\<lambda>_. row') rs) = map rf_id rs"
    using row' by (simp add: update_rows_def)
  have mem: "row \<in> set rs" using find_row_Some [OF row(1)] by simp
  have rows: "0 < rf_amount r \<and> in64 (rf_amount r) \<and> rf_payment_id r \<in> pm_id ` set ps"
    if "r \<in> set (update_rows rf_id k (\<lambda>_. row') rs)" for r
    using that inv mem row' by (auto simp: set_update_rows log_inv_def split: if_splits)
  show ?thesis using inv ids rows sums row by (auto simp: log_inv_def payment_ok_def)
qed

section \<open>Assertions on the three tables\<close>

definition viewed :: "(payment list \<Rightarrow> payment_transition list \<Rightarrow> refund list \<Rightarrow> bool) \<Rightarrow> 'x till_scheme \<Rightarrow> bool" where
  "viewed Q s \<longleftrightarrow> Q (payments s) (transitions s) (refunds s)"

interpretation view: estate_blind "viewed Q" for Q
  by unfold_locales (simp_all add: viewed_def env_free_def rollback_def)

definition hooks_blind :: "'x till_scheme payment_engine \<Rightarrow> bool" where
  "hooks_blind e \<longleftrightarrow> (\<forall>Q. hooks_keep (viewed Q) e)"

definition agrees :: "payment \<Rightarrow> payment list \<Rightarrow> bool" where
  "agrees p ps \<longleftrightarrow> (\<exists>row. find_row pm_id (pm_id p) ps = Some row \<and> pm_status row = pm_status p \<and>
     pm_refunded_amount row = pm_refunded_amount p)"

lemma till_inv_viewed: "till_inv i d = viewed (log_inv i d)"
  by (simp add: fun_eq_iff till_inv_def viewed_def)

text \<open>The calls that write none of the three tables.\<close>

lemma keeps_view_writes:
  "okp (viewed Q) (create_payment_attempt a)" "okp (viewed Q) (update_payment_attempt a)"
  "okp (viewed Q) (create_dispute d)" "okp (viewed Q) (update_dispute d)" "safep (viewed Q) (save_provider_event v)"
  "okp (viewed Q) (mark_provider_event_processed i)" "okp (viewed Q) (mark_provider_event_failed i x k)"
  unfolding till_writes by (auto intro!: keeps okp_modify safep_modify simp: viewed_def)

lemma keeps_view_reads:
  "okp (viewed Q) (latest_attempt p)" "okp (viewed Q) (payment_wallet p)" "okp (viewed Q) (get_journal_by_external_id x)"
  "okp (viewed Q) (engine_provider e n)" "okp (viewed Q) (get_product_by_id i)" "okp (viewed Q) (lock_dispute c i)"
  "okp (viewed Q) (sum_processed_refunds i)"
  by (auto simp: latest_attempt_def list_payment_attempts_def payment_wallet_def get_wallet_by_public_id_def
      get_journal_by_external_id_def engine_provider_def get_product_by_id_def lock_dispute_def sum_processed_refunds_def scan_sum_def
      intro!: keeps split: option.splits sum.splits)

lemmas view_asks = safep_asks [OF view.free]

lemmas view_keeps = view.engine_keeps keeps_view_writes(1-4) keeps_view_writes(5) keeps_view_writes(5) [THEN safep_okp] keeps_view_writes(6,7)
  keeps_view_reads view_asks view_asks [THEN safep_okp] view.keeps_event view.keeps_post view.keeps_fund view.keeps_moves
  safep_okp [OF safep_attempt_for] safep_okp [OF safep_till_lookups(1)]

lemma keeps_view_journal: "okp (viewed Q) (post_between c ext kind p debit credit amount cur memo reverses)"
  unfolding post_between_def by (intro view_keeps)

lemma keeps_view_events:
  "okp (viewed Q) (emit_payment p)" "okp (viewed Q) (emit_refund r topic)" "okp (viewed Q) (emit_dispute e d topic)"
  unfolding emit_payment_def emit_refund_def emit_dispute_def by (intro view_keeps)+

lemma keeps_view_order:
  assumes "hooks_blind e"
  shows "okp (viewed Q) (tell_order e c p)" "okp (viewed Q) (before_move e c p a pp)"
proof -
  have h: "hooks_keep (viewed Q) e" using assms by (simp add: hooks_blind_def)
  then show "okp (viewed Q) (tell_order e c p)"
    unfolding tell_order_def hooks_keep_def by (auto intro!: keeps split: option.splits)
  have "okp (viewed Q) (apply_order_capture e c p a product ext amount cur)" for p product ext amount cur
    using h unfolding apply_order_capture_def post_capture_def
    by (cases "pen_orders e") (auto simp: hooks_keep_def intro!: keeps keeps_view_journal)
  moreover have "okp (viewed Q) (apply_topup_capture e c p a product ext amount cur)" for p product ext amount cur
    unfolding apply_topup_capture_def post_capture_def by (intro view_keeps keeps_view_journal)
  ultimately have "okp (viewed Q) (apply_capture e c p a pp)" for p
    unfolding apply_capture_def post_capture_def Let_def by (intro view_keeps keeps_view_journal)
  then show "okp (viewed Q) (before_move e c p a pp)"
    unfolding before_move_def by (auto intro!: keeps split: payment_status.splits)
qed

section \<open>Payments\<close>

lemma read_payment_same:
  "read_payment s row = Some p \<Longrightarrow> pm_id p = pm_id row \<and> pm_status p = pm_status row \<and> pm_refunded_amount p = pm_refunded_amount row"
  by (auto simp: read_payment_def split: option.splits)

lemma triple_get_payment:
  "triple (viewed Q) (get_payment_by_id k) (\<lambda>p. viewed (\<lambda>ps ts rs. Q ps ts rs \<and> agrees p ps \<and> pm_id p = k))"
proof (rule tripleI)
  fix s u :: "'a till_scheme" and p
  assume "viewed Q s" "get_payment_by_id k s = (Ok p, u)"
  then obtain row where "u = s" "find_row pm_id k (payments s) = Some row" "read_payment s row = Some p"
    by (auto simp: get_payment_by_id_def find_payment_def bindM_def act_simps some_or_def bind_eq_Some_conv split: option.splits)
  then show "viewed (\<lambda>ps ts rs. Q ps ts rs \<and> agrees p ps \<and> pm_id p = k) u"
    using \<open>viewed Q s\<close> find_row_Some [of pm_id k "payments s" row] by (auto simp: viewed_def agrees_def dest: read_payment_same)
qed

lemma triple_lock_payment:
  "triple (viewed Q) (lock_payment c k) (\<lambda>p. viewed (\<lambda>ps ts rs. Q ps ts rs \<and> agrees p ps \<and> pm_id p = k))"
  unfolding lock_payment_def by (intro triples triple_get_payment)

lemma update_payment_run:
  assumes "update_payment p s = (Ok p', u)"
  obtains row where "find_row pm_id (pm_id p) (payments s) = Some row" "payment_checks (write_payment p (clock s) row)"
    "u = s\<lparr>payments := update_rows pm_id (pm_id p) (\<lambda>_. write_payment p (clock s) row) (payments s)\<rparr>"
    "p' = p\<lparr>pm_updated_at := clock s\<rparr>"
  using assms by (auto simp: update_payment_def find_payment_def bindM_def act_simps write_payment_def split: option.splits if_splits)

lemma write_payment_simps [simp]:
  "pm_id (write_payment p now row) = pm_id row" "pm_status (write_payment p now row) = pm_status p"
  "pm_refunded_amount (write_payment p now row) = pm_refunded_amount p"
  by (simp_all add: write_payment_def)

lemma wrap64_over: "2 ^ 63 \<le> x \<Longrightarrow> x < 2 ^ 64 \<Longrightarrow> wrap64 x = x - 2 ^ 64"
proof -
  assume "2 ^ 63 \<le> x" "x < 2 ^ 64"
  then have "in64 (x - 2 ^ 64)" by (simp add: in64_def)
  moreover have "wrap64 x = wrap64 (x - 2 ^ 64)" by (simp add: wrap64_eq_iff)
  ultimately show ?thesis by (simp add: wrap64_id)
qed

lemma record_transition_run:
  "record_payment_transition t s = (Ok t', u) \<Longrightarrow>
    u = s\<lparr>transitions := transitions s @ [t\<lparr>px_id := next_id (transitions s), px_created_at := clock s\<rparr>]\<rparr>"
  by (auto simp: record_payment_transition_def bindM_def act_simps split: if_splits)

text \<open>Writing a payment with its status: the figure of what was refunded moves by \<open>x\<close>.\<close>

lemma triple_update_payment:
  assumes "pm_refunded_amount p' = pm_refunded_amount p + x \<or> (\<exists>y. 0 \<le> pm_refunded_amount p \<and> in64 y \<and> 0 < y \<and> x = y \<and>
      pm_refunded_amount p' = wrap64 (pm_refunded_amount p + y))"
    "pm_id p' = pm_id p" "pm_status p' = pm_status p" "in64 (pm_refunded_amount p) \<Longrightarrow> in64 (pm_refunded_amount p')"
  shows "triple (viewed (\<lambda>ps ts rs. log_inv (pm_id p) d ps ts rs \<and> agrees p ps \<and> X rs)) (update_payment p')
    (\<lambda>q. viewed (\<lambda>ps ts rs. log_inv (pm_id p) (d + x) ps ts rs \<and> X rs))"
proof (rule tripleI)
  fix s u :: "'a till_scheme" and q
  assume v: "viewed (\<lambda>ps ts rs. log_inv (pm_id p) d ps ts rs \<and> agrees p ps \<and> X rs) s" and run: "update_payment p' s = (Ok q, u)"
  then obtain row where inv: "log_inv (pm_id p) d (payments s) (transitions s) (refunds s)"
    and row: "find_row pm_id (pm_id p) (payments s) = Some row" "pm_status row = pm_status p" "pm_refunded_amount row = pm_refunded_amount p"
    by (auto simp: viewed_def agrees_def)
  from run obtain row2 where w: "find_row pm_id (pm_id p') (payments s) = Some row2" "payment_checks (write_payment p' (clock s) row2)"
    "u = s\<lparr>payments := update_rows pm_id (pm_id p') (\<lambda>_. write_payment p' (clock s) row2) (payments s)\<rparr>"
    by (rule update_payment_run)
  have same: "row2 = row" using w(1) row(1) assms(2) by simp
  have old: "in64 (pm_refunded_amount p)" "row \<in> set (payments s)" "pm_id row = pm_id p"
    using inv find_row_Some [OF row(1)] row(3) by (auto simp: log_inv_def payment_ok_def)
  have checked: "0 \<le> pm_refunded_amount p'"
    using w(2) by (auto simp: payment_checks_def ck_payments_refunded_def)
  have x: "pm_refunded_amount p' = pm_refunded_amount p + x"
  proof (cases "pm_refunded_amount p' = pm_refunded_amount p + x")
    case False
    then obtain y where y: "0 \<le> pm_refunded_amount p" "in64 y" "0 < y" "x = y" "pm_refunded_amount p' = wrap64 (pm_refunded_amount p + y)"
      using assms(1) by auto
    have "pm_refunded_amount p + y < 2 ^ 63"
    proof (rule ccontr)
      assume "\<not> pm_refunded_amount p + y < 2 ^ 63"
      then have "wrap64 (pm_refunded_amount p + y) = pm_refunded_amount p + y - 2 ^ 64"
        using y(2) old(1) by (intro wrap64_over) (simp_all add: in64_def)
      then show False using checked y old(1) by (simp add: in64_def)
    qed
    then show ?thesis using y by (simp add: wrap64_abs)
  qed
  have "log_inv (pm_id p) (d + x) (payments u) (transitions u) (refunds u)"
    using log_inv_refunded [OF inv row(1), of "write_payment p' (clock s) row" x] w(2,3) same row old x assms by simp
  then show "viewed (\<lambda>ps ts rs. log_inv (pm_id p) (d + x) ps ts rs \<and> X rs) u" using v w(3) by (simp add: viewed_def)
qed

lemma triple_transition:
  assumes e: "hooks_blind e"
  shows "triple (viewed (\<lambda>ps ts rs. log_inv i 0 ps ts rs \<and> agrees p ps)) (transition e c p to source reference detail)
    (\<lambda>_. viewed (log_inv i 0))"
proof (rule tripleI)
  fix s u :: "'a till_scheme" and q
  assume v: "viewed (\<lambda>ps ts rs. log_inv i 0 ps ts rs \<and> agrees p ps) s" and run: "transition e c p to source reference detail s = (Ok q, u)"
  from v obtain row where inv: "log_inv (pm_id p) 0 (payments s) (transitions s) (refunds s)"
    and row: "find_row pm_id (pm_id p) (payments s) = Some row" "pm_status row = pm_status p" "pm_refunded_amount row = pm_refunded_amount p"
    by (auto simp: viewed_def agrees_def log_inv_any [of i _ _ _ "pm_id p"])
  have legal: "pm_status p = to \<or> can_transition (pm_status p) to"
    using run by (auto simp: transition_def act_simps split: if_splits)
  with run obtain p' s1 where w: "update_payment (p\<lparr>pm_status := to\<rparr>) s = (Ok p', s1)"
    and rest: "bindM (record_payment_transition \<lparr>px_id = 0, px_payment_id = pm_id p, px_from = pm_status p, px_to = to,
          px_source = source, px_reference = unless_empty reference, px_detail = unless_empty detail, px_created_at = 0\<rparr>) (\<lambda>_.
        bindM (tell_order e c p') (\<lambda>_. bindM (emit_payment p') (\<lambda>_. returnM p'))) s1 = (Ok q, u)"
    by (auto simp: transition_def bind_Ok_iff split: if_splits)
  from w row obtain w: "payment_checks (write_payment (p\<lparr>pm_status := to\<rparr>) (clock s) row)"
    "s1 = s\<lparr>payments := update_rows pm_id (pm_id p) (\<lambda>_. write_payment (p\<lparr>pm_status := to\<rparr>) (clock s) row) (payments s)\<rparr>"
    by (elim update_payment_run) simp
  from rest obtain t' s2 where rec: "record_payment_transition \<lparr>px_id = 0, px_payment_id = pm_id p, px_from = pm_status p, px_to = to,
      px_source = source, px_reference = unless_empty reference, px_detail = unless_empty detail, px_created_at = 0\<rparr> s1 = (Ok t', s2)"
    and tail: "bindM (tell_order e c p') (\<lambda>_. bindM (emit_payment p') (\<lambda>_. returnM p')) s2 = (Ok q, u)"
    by (rule bind_cases) auto
  obtain t where t: "px_payment_id t = pm_id p" "px_from t = pm_status p" "px_to t = to" "s2 = s1\<lparr>transitions := transitions s1 @ [t]\<rparr>"
    by (rule that [OF _ _ _ record_transition_run [OF rec]]) simp_all
  have "log_inv (pm_id p) 0 (payments s2) (transitions s2) (refunds s2)"
    using log_inv_move [OF inv row(1), of "write_payment (p\<lparr>pm_status := to\<rparr>) (clock s) row" t]
      find_row_Some [OF row(1)] w t row legal by auto
  then have "viewed (log_inv i 0) s2" by (simp add: viewed_def log_inv_any [of i _ _ _ "pm_id p"])
  moreover have "okp (viewed (log_inv i 0)) (bindM (tell_order e c p') (\<lambda>_. bindM (emit_payment p') (\<lambda>_. returnM p')))"
    by (intro keeps keeps_view_order(1) [OF e] keeps_view_events)
  ultimately show "viewed (log_inv i 0) u" using tail by (metis okpD)
qed

text \<open>A call that starts with what another assertion keeps, and a lock that was taken before.\<close>

lemma triple_keep: "okp (viewed Q) m \<Longrightarrow> (\<And>a. triple (viewed Q) (k a) R) \<Longrightarrow> triple (viewed Q) (bindM m k) R"
  by (rule triple_skip)

lemma triple_seq:
  "triple (viewed Q) m (\<lambda>a. viewed (T a)) \<Longrightarrow> (\<And>a. triple (viewed (T a)) (k a) R) \<Longrightarrow> triple (viewed Q) (bindM m k) R"
  by (rule triple_bind)

lemma triple_lock_then:
  assumes "\<And>p. pm_id p = k \<Longrightarrow> triple (viewed (\<lambda>ps ts rs. Q ps ts rs \<and> agrees p ps)) (f p) R"
  shows "triple (viewed Q) (bindM (lock_payment c k) f) R"
proof (rule triple_seq [OF triple_lock_payment])
  show "triple (viewed (\<lambda>ps ts rs. Q ps ts rs \<and> agrees p ps \<and> pm_id p = k)) (f p) R" for p
    using assms [of p] by (cases "pm_id p = k") (auto simp: triple_def viewed_def)
qed

abbreviation intact :: "payment list \<Rightarrow> payment_transition list \<Rightarrow> refund list \<Rightarrow> bool" where
  "intact \<equiv> log_inv 0 0"

lemma triple_moved:
  assumes "hooks_blind e" "pm_id q = pm_id p" "pm_status q = pm_status p" "pm_refunded_amount q = pm_refunded_amount p"
  shows "triple (viewed (\<lambda>ps ts rs. intact ps ts rs \<and> agrees p ps)) (transition e c q to source reference detail) (\<lambda>_. viewed intact)"
  by (rule triple_pre [OF triple_transition [OF assms(1), of 0 q]]) (use assms in \<open>simp add: viewed_def agrees_def\<close>)

lemma triple_done: "okp (viewed Q) m \<Longrightarrow> triple (viewed Q) m (\<lambda>_. viewed Q)"
  by (simp add: triple_okp)

lemma okp_triple: "triple (viewed Q) m (\<lambda>_. viewed Q) \<Longrightarrow> okp (viewed Q) m"
  by (simp add: triple_okp)

section \<open>The calls of the engine\<close>

lemma create_payment_row_run:
  assumes "create_payment_row p s = (Ok p', u)"
  obtains row where "u = s\<lparr>payments := payments s @ [row]\<rparr>" "pm_id row = next_id (payments s)" "pm_id p' = pm_id row" "payment_checks row"
    "pm_status row = pm_status p" "pm_refunded_amount row = 0" "pm_status p' = pm_status p" "pm_refunded_amount p' = pm_refunded_amount p"
proof -
  define row where "row = p\<lparr>pm_id := next_id (payments s), pm_captured_amount := None, pm_captured_at := None,
    pm_settled_at := None, pm_refunded_amount := 0, pm_failure_code := None, pm_failure_reason := None,
    pm_created_at := clock s, pm_updated_at := clock s\<rparr>"
  have "payment_checks row \<and> u = s\<lparr>payments := payments s @ [row]\<rparr> \<and>
      p' = p\<lparr>pm_id := pm_id row, pm_created_at := pm_created_at row, pm_updated_at := pm_updated_at row\<rparr>"
    using assms unfolding create_payment_row_def row_def [symmetric]
    by (simp add: bindM_def act_simps row_def [symmetric] split: if_splits)
  then show thesis by (intro that [of row]) (simp_all add: row_def)
qed

lemma triple_create_payment:
  assumes "fresh_payment p"
  shows "triple (viewed intact) (create_payment_row p) (\<lambda>p'. viewed (\<lambda>ps ts rs. intact ps ts rs \<and> agrees p' ps))"
proof (rule tripleI)
  fix s u :: "'a till_scheme" and p'
  assume inv: "viewed intact s" and run: "create_payment_row p s = (Ok p', u)"
  from run obtain row where row: "u = s\<lparr>payments := payments s @ [row]\<rparr>" "pm_id row = next_id (payments s)" "pm_id p' = pm_id row" "payment_checks row"
    "pm_status row = pm_status p" "pm_refunded_amount row = 0" "pm_status p' = pm_status p" "pm_refunded_amount p' = pm_refunded_amount p"
    by (rule create_payment_row_run)
  have fresh: "fresh_payment row" using row assms by (simp add: fresh_payment_def)
  have "find_row pm_id (pm_id row) (payments s) = None"
    using inv next_id_fresh [of pm_id "payments s"] row(2) by (simp add: viewed_def log_inv_def find_row_None)
  then have "agrees p' (payments s @ [row])"
    using row assms by (simp add: agrees_def row_simps fresh_payment_def)
  then show "viewed (\<lambda>ps ts rs. intact ps ts rs \<and> agrees p' ps) u"
    using log_inv_new_payment [OF _ row(2) fresh row(4)] inv row(1) by (simp add: viewed_def)
qed

lemma view_new_id: "okp (viewed Q) (new_id x)"
  by (rule safep_okp [OF safep_new_id [OF view.free]])

lemma view_get: "okp (viewed Q) (getM f)"
  by (rule keeps)

text \<open>Steps over which an assertion on the three tables stays.\<close>

lemmas view_skips = view_new_id [THEN triple_keep] view_get [THEN triple_keep] keeps_view_writes(1-4) [THEN triple_keep]
  keeps_view_reads [THEN triple_keep] view_asks [THEN safep_okp, THEN triple_keep] view_asks [THEN okp_try, THEN triple_keep]
  keeps_view_events [THEN triple_keep] keeps_view_journal [THEN triple_keep] safep_attempt_for [THEN safep_okp, THEN triple_keep]

lemma log_open_at:
  assumes e: "hooks_blind e" and p: "fresh_payment p"
  shows "okp (viewed intact) (open_at e c prov reason p)"
  unfolding open_at_def open_failed_def open_pending_def Let_def
  by (rule okp_triple)
    (intro triples triple_seq [OF triple_create_payment [OF p]] view_skips triple_bind [OF triple_moved [OF e]]; simp)

definition same_row :: "payment \<Rightarrow> payment \<Rightarrow> bool" where
  "same_row p q \<longleftrightarrow> pm_id q = pm_id p \<and> pm_status q = pm_status p \<and> pm_refunded_amount q = pm_refunded_amount p"

lemma before_move_same: "before_move e c p a pp s = (Ok p', u) \<Longrightarrow> same_row p p'"
proof -
  have order: "triple (\<lambda>_. True) (apply_order_capture e c q a product ext amount cur) (\<lambda>p' _. same_row q p')" for q product ext amount cur
    unfolding apply_order_capture_def by (intro triples triple_any; simp add: same_row_def)
  have topup: "triple (\<lambda>_. True) (apply_topup_capture e c q a product ext amount cur) (\<lambda>p' _. same_row q p')" for q product ext amount cur
    unfolding apply_topup_capture_def by (intro triples triple_any; simp add: same_row_def)
  have "triple (\<lambda>_. True) (apply_capture e c p a pp) (\<lambda>p' _. same_row p p')"
    unfolding apply_capture_def Let_def
    by (intro triples triple_any triple_conseq [OF order] triple_conseq [OF topup]; simp add: same_row_def)
  then have "triple (\<lambda>_. True) (before_move e c p a pp) (\<lambda>p' _. same_row p p')"
    unfolding before_move_def by (auto intro!: triples simp: same_row_def split: payment_status.splits)
  then show "before_move e c p a pp s = (Ok p', u) \<Longrightarrow> same_row p p'" by (auto dest: tripleD)
qed

lemma triple_before_move:
  assumes "hooks_blind e"
  shows "triple (viewed (\<lambda>ps ts rs. Q ps ts rs \<and> agrees p ps)) (before_move e c p a pp) (\<lambda>p'. viewed (\<lambda>ps ts rs. Q ps ts rs \<and> agrees p' ps))"
proof (rule tripleI)
  fix s u :: "'a till_scheme" and p'
  assume v: "viewed (\<lambda>ps ts rs. Q ps ts rs \<and> agrees p ps) s" and run: "before_move e c p a pp s = (Ok p', u)"
  have "viewed (\<lambda>ps ts rs. Q ps ts rs \<and> agrees p ps) u" by (rule okpD [OF keeps_view_order(2) [OF assms] v run])
  then show "viewed (\<lambda>ps ts rs. Q ps ts rs \<and> agrees p' ps) u" using before_move_same [OF run] by (simp add: viewed_def agrees_def same_row_def)
qed

lemma log_sync:
  assumes e: "hooks_blind e"
  shows "okp (viewed intact) (sync e c a pp source reference)"
  unfolding sync_def Let_def
  by (rule okp_triple)
    (intro triples triple_lock_then view_skips triple_seq [OF triple_before_move [OF e]] triple_bind [OF triple_moved [OF e]];
      simp add: viewed_def)

lemma log_close_locally:
  assumes e: "hooks_blind e"
  shows "okp (viewed intact) (close_locally e c p a to source detail)"
proof -
  have attempt: "okp (viewed Q) (case a of None \<Rightarrow> returnM () | Some a \<Rightarrow>
      bindM (update_payment_attempt (a\<lparr>pa_status := StatusCancelled\<rparr>)) (\<lambda>_. returnM ()))" for Q :: "payment list \<Rightarrow> _"
    by (intro keeps keeps_view_writes)
  show ?thesis
    unfolding close_locally_def
    by (rule okp_triple)
      (intro triples triple_lock_then triple_keep [OF attempt] triple_moved [OF e]; simp add: viewed_def)
qed

lemma log_mark_settled:
  assumes e: "hooks_blind e"
  shows "okp (viewed intact) (mark_settled e c i ref)"
proof -
  have stay: "triple (viewed (\<lambda>ps ts rs. intact ps ts rs \<and> agrees p ps)) (update_payment q) (\<lambda>_. viewed intact)"
    if "pm_id q = pm_id p" "pm_status q = pm_status p" "pm_refunded_amount q = pm_refunded_amount p" for p q
    by (rule triple_conseq [OF triple_update_payment [of q p 0 0 "\<lambda>_. True"]])
      (use that in \<open>auto simp: viewed_def log_inv_any [of 0 _ _ _ "pm_id p"]\<close>)
  show ?thesis
    unfolding mark_settled_def Let_def
    by (rule okp_triple)
      (intro triples triple_lock_then view_skips triple_moved [OF e] stay; simp add: viewed_def)
qed

lemma log_resolve_dispute:
  assumes e: "hooks_blind e"
  shows "okp (viewed intact) (resolve_dispute e c d won source)"
proof -
  have money: "okp (viewed Q) (settle_dispute_money e c d p x won)" for Q p x
    unfolding settle_dispute_money_def return_disputed_funds_def give_back_wallet_def give_back_def
    by (intro view_keeps keeps_view_journal)
  show ?thesis
    unfolding resolve_dispute_def
    by (rule okp_triple)
      (intro triples triple_lock_then view_skips triple_keep [OF money] triple_bind [OF triple_moved [OF e]]; simp add: viewed_def)
qed

lemma log_sync_dispute: "hooks_blind e \<Longrightarrow> okp (viewed intact) (sync_dispute e c i pd source)"
  unfolding sync_dispute_def
  by (cases "pd_status pd") (auto intro!: view_keeps log_resolve_dispute)

lemma log_submit_evidence: "okp (viewed Q) (submit_dispute_evidence e c i x y)"
  unfolding submit_dispute_evidence_def by (intro view_keeps)

lemma log_open_dispute:
  assumes e: "hooks_blind e"
  shows "okp (viewed intact) (open_dispute e c name pd)"
proof -
  have sources: "okp (viewed Q) (contested_sources p m n)" for Q p m n
    unfolding contested_sources_def wallet_part_def by (cases "pm_application p") (auto intro!: view_keeps)
  have held: "okp (viewed Q) (hold_contested e c p product w d)" for Q c p product w d
    unfolding hold_contested_def hold_wallet_part_def hold_unapplied_part_def hold_expense_part_def Let_def
    by (intro view_keeps keeps_view_journal)
  show ?thesis
    unfolding open_dispute_def record_dispute_def
    by (rule okp_triple)
      (intro triples triple_lock_then view_skips triple_keep [OF sources] triple_keep [OF held] triple_bind [OF triple_moved [OF e]];
        simp add: viewed_def)
qed

section \<open>Refunds\<close>

definition refund_agrees :: "refund \<Rightarrow> refund list \<Rightarrow> bool" where
  "refund_agrees r rs \<longleftrightarrow> (\<exists>row. find_row rf_id (rf_id r) rs = Some row \<and> rf_amount row = rf_amount r \<and>
     rf_payment_id row = rf_payment_id r \<and> rf_status row = rf_status r)"

lemma find_row_self: "find_row key k rs = Some r \<Longrightarrow> find_row key (key r) rs = Some r"
  using find_row_Some by metis

lemma create_refund_row_run:
  assumes "create_refund_row r s = (Ok r', u)"
  obtains row where "u = s\<lparr>refunds := refunds s @ [row]\<rparr>" "rf_id row = next_id (refunds s)" "rf_id r' = rf_id row"
    "0 < rf_amount r" "rf_amount row = rf_amount r" "rf_payment_id row = rf_payment_id r" "rf_status row = rf_status r"
    "rf_amount r' = rf_amount r" "rf_payment_id r' = rf_payment_id r" "rf_status r' = rf_status r"
proof -
  define row where "row = r\<lparr>rf_id := next_id (refunds s), rf_provider_refund_id := None, rf_failure_code := None,
    rf_failure_reason := None, rf_processed_at := None, rf_created_at := clock s, rf_updated_at := clock s\<rparr>"
  have "0 < rf_amount r \<and> u = s\<lparr>refunds := refunds s @ [row]\<rparr> \<and>
      r' = r\<lparr>rf_id := rf_id row, rf_created_at := rf_created_at row, rf_updated_at := rf_updated_at row\<rparr>"
    using assms unfolding create_refund_row_def by (simp add: bindM_def act_simps row_def [symmetric] split: if_splits)
  then show thesis by (intro that [of row]) (simp_all add: row_def)
qed

lemma triple_create_refund:
  assumes "rf_payment_id r = pm_id p" "rf_status r \<noteq> RefundFailed" "in64 (rf_amount r)"
  shows "triple (viewed (\<lambda>ps ts rs. intact ps ts rs \<and> agrees p ps)) (create_refund_row r)
    (\<lambda>r'. viewed (\<lambda>ps ts rs. log_inv (pm_id p) (- rf_amount r) ps ts rs \<and> agrees p ps \<and>
      (0 < rf_amount r \<and> rf_payment_id r' = rf_payment_id r \<and> refund_agrees r' rs)))"
proof (rule tripleI)
  fix s u :: "'a till_scheme" and r'
  assume v: "viewed (\<lambda>ps ts rs. intact ps ts rs \<and> agrees p ps) s" and run: "create_refund_row r s = (Ok r', u)"
  from run obtain row where row: "u = s\<lparr>refunds := refunds s @ [row]\<rparr>" "rf_id row = next_id (refunds s)" "rf_id r' = rf_id row"
    "0 < rf_amount r" "rf_amount row = rf_amount r" "rf_payment_id row = rf_payment_id r" "rf_status row = rf_status r"
    "rf_amount r' = rf_amount r" "rf_payment_id r' = rf_payment_id r" "rf_status r' = rf_status r"
    by (rule create_refund_row_run)
  have inv: "log_inv (pm_id p) 0 (payments s) (transitions s) (refunds s)" and p: "agrees p (payments s)"
    using v by (simp_all add: viewed_def log_inv_any [of 0 _ _ _ "pm_id p"])
  obtain q where "find_row pm_id (pm_id p) (payments s) = Some q" using p by (auto simp: agrees_def)
  then have "pm_id p \<in> pm_id ` set (payments s)" by (metis find_row_Some image_eqI)
  then have "log_inv (pm_id p) (- rf_amount r) (payments u) (transitions u) (refunds u)"
    using log_inv_new_refund [of "pm_id p" _ _ _ row] inv row assms by simp
  moreover have "find_row rf_id (rf_id row) (refunds s) = None"
    using inv next_id_fresh [of rf_id "refunds s"] row(2) by (simp add: log_inv_def find_row_None)
  then have "refund_agrees r' (refunds u)" using row by (simp add: refund_agrees_def row_simps)
  ultimately show "viewed (\<lambda>ps ts rs. log_inv (pm_id p) (- rf_amount r) ps ts rs \<and> agrees p ps \<and>
      (0 < rf_amount r \<and> rf_payment_id r' = rf_payment_id r \<and> refund_agrees r' rs)) u"
    using p row by (simp add: viewed_def)
qed

lemma write_refund_simps [simp]:
  "rf_id (write_refund r now row) = rf_id row" "rf_payment_id (write_refund r now row) = rf_payment_id row"
  "rf_amount (write_refund r now row) = rf_amount row" "rf_status (write_refund r now row) = rf_status r"
  by (simp_all add: write_refund_def)

lemma update_refund_run:
  assumes "update_refund r s = (Ok r', u)"
  obtains row where "find_row rf_id (rf_id r) (refunds s) = Some row" "\<not> refund_final (rf_status row)"
    "u = s\<lparr>refunds := update_rows rf_id (rf_id r) (\<lambda>_. write_refund r (clock s) row) (refunds s)\<rparr>"
  using assms by (auto simp: update_refund_def bindM_def act_simps split: option.splits if_splits)

lemma triple_update_refund:
  assumes "rf_id r' = rf_id r" "rf_payment_id r = i"
  shows "triple (viewed (\<lambda>ps ts rs. log_inv i d ps ts rs \<and> Y ps \<and> refund_agrees r rs)) (update_refund r')
    (\<lambda>_. viewed (\<lambda>ps ts rs. log_inv i (d + (if rf_status r' = RefundFailed then rf_amount r else 0)) ps ts rs \<and> Y ps))"
proof (rule tripleI)
  fix s u :: "'a till_scheme" and q
  assume v: "viewed (\<lambda>ps ts rs. log_inv i d ps ts rs \<and> Y ps \<and> refund_agrees r rs) s" and run: "update_refund r' s = (Ok q, u)"
  from run obtain row where row: "find_row rf_id (rf_id r') (refunds s) = Some row" "\<not> refund_final (rf_status row)"
    "u = s\<lparr>refunds := update_rows rf_id (rf_id r') (\<lambda>_. write_refund r' (clock s) row) (refunds s)\<rparr>"
    by (rule update_refund_run)
  then have "rf_amount row = rf_amount r" "rf_payment_id row = i" "rf_status row \<noteq> RefundFailed"
    using v assms by (auto simp: viewed_def refund_agrees_def refund_final_def)
  then show "viewed (\<lambda>ps ts rs. log_inv i (d + (if rf_status r' = RefundFailed then rf_amount r else 0)) ps ts rs \<and> Y ps) u"
    using log_inv_write_refund [of i d "payments s" "transitions s" "refunds s" "rf_id r'" row "write_refund r' (clock s) row"] v row
      find_row_Some [OF row(1)]
    by (cases "rf_status r' = RefundFailed") (simp_all add: viewed_def)
qed

lemma live_sum_member:
  assumes "\<forall>r\<in>set rs. 0 < rf_amount r" "r \<in> set rs" "rf_payment_id r = i" "rf_status r \<noteq> RefundFailed"
  shows "rf_amount r \<le> live_sum i rs"
  using assms
proof (induction rs)
  case (Cons x xs)
  have "0 \<le> live_sum i xs" using Cons.prems(1) by (auto simp: live_sum_def intro!: sum_by_nonneg)
  then show ?case using Cons by (auto simp: live_sum_def)
qed simp

lemma refund_covered:
  assumes "viewed (\<lambda>ps ts rs. log_inv (pm_id p) 0 ps ts rs \<and> agrees p ps \<and> refund_agrees r rs) s"
    "rf_payment_id r = pm_id p" "\<not> refund_final (rf_status r)"
  shows "0 < rf_amount r \<and> rf_amount r \<le> pm_refunded_amount p \<and> in64 (pm_refunded_amount p)"
proof -
  obtain row q where inv: "log_inv (pm_id p) 0 (payments s) (transitions s) (refunds s)"
    and q: "find_row pm_id (pm_id p) (payments s) = Some q" "pm_refunded_amount q = pm_refunded_amount p"
    and row: "find_row rf_id (rf_id r) (refunds s) = Some row" "rf_amount row = rf_amount r" "rf_payment_id row = pm_id p" "rf_status row = rf_status r"
    using assms(1,2) by (auto simp: viewed_def agrees_def refund_agrees_def)
  have "payment_ok (transitions s) (refunds s) 0 q" "pm_id q = pm_id p" using inv find_row_Some [OF q(1)] by (auto simp: log_inv_def)
  moreover have all: "\<forall>r\<in>set (refunds s). 0 < rf_amount r" and mem: "row \<in> set (refunds s)"
    using inv find_row_Some [OF row(1)] by (simp_all add: log_inv_def)
  moreover have "rf_amount row \<le> live_sum (pm_id p) (refunds s)"
    by (rule live_sum_member [OF all mem row(3)]) (use row(4) assms(3) in \<open>simp add: refund_final_def\<close>)
  ultimately show ?thesis using row(2) q(2) unfolding payment_ok_def by (metis add.right_neutral)
qed

lemma triple_given: "(\<And>s. P s \<Longrightarrow> B) \<Longrightarrow> (B \<Longrightarrow> triple P m Q) \<Longrightarrow> triple P m Q"
  unfolding triple_def by blast

abbreviation with_refund :: "refund \<Rightarrow> payment list \<Rightarrow> payment_transition list \<Rightarrow> refund list \<Rightarrow> bool" where
  "with_refund r \<equiv> \<lambda>ps ts rs. intact ps ts rs \<and> refund_agrees r rs"

lemma triple_fail_refund:
  assumes r: "\<not> refund_final (rf_status r)"
  shows "triple (viewed (with_refund r)) (fail_refund e c r reason) (\<lambda>_. viewed intact)"
proof -
  have reserve: "okp (viewed Q) (if b then return_reserve e c p r else returnM ())" for Q b p
    unfolding return_reserve_def by (intro view_keeps)
  have step: "triple (viewed (\<lambda>ps ts rs. with_refund r ps ts rs \<and> agrees p ps))
      (update_payment (p\<lparr>pm_refunded_amount := wrap64 (pm_refunded_amount p - rf_amount r)\<rparr>))
      (\<lambda>_. viewed (\<lambda>ps ts rs. log_inv (rf_payment_id r) (- rf_amount r) ps ts rs \<and> True \<and> refund_agrees r rs))"
    if id: "pm_id p = rf_payment_id r" for p
  proof -
    have covered: "0 < rf_amount r \<and> rf_amount r \<le> pm_refunded_amount p \<and> in64 (pm_refunded_amount p)"
      if "viewed (\<lambda>ps ts rs. with_refund r ps ts rs \<and> agrees p ps) s" for s
    proof (rule refund_covered [OF _ _ r])
      show "viewed (\<lambda>ps ts rs. log_inv (pm_id p) 0 ps ts rs \<and> agrees p ps \<and> refund_agrees r rs) s"
        using that by (simp add: viewed_def log_inv_any [of "pm_id p" _ _ _ 0])
    qed (simp add: id)
    show ?thesis
    proof (rule triple_given [OF covered])
      assume "0 < rf_amount r \<and> rf_amount r \<le> pm_refunded_amount p \<and> in64 (pm_refunded_amount p)"
      then have w: "wrap64 (pm_refunded_amount p - rf_amount r) = pm_refunded_amount p - rf_amount r"
        and b: "in64 (pm_refunded_amount p - rf_amount r)"
        by (auto simp: in64_def wrap64_id)
      show "triple (viewed (\<lambda>ps ts rs. with_refund r ps ts rs \<and> agrees p ps))
        (update_payment (p\<lparr>pm_refunded_amount := wrap64 (pm_refunded_amount p - rf_amount r)\<rparr>))
        (\<lambda>_. viewed (\<lambda>ps ts rs. log_inv (rf_payment_id r) (- rf_amount r) ps ts rs \<and> True \<and> refund_agrees r rs))"
        unfolding w
        by (rule triple_conseq [OF triple_update_payment [of "p\<lparr>pm_refunded_amount := pm_refunded_amount p - rf_amount r\<rparr>" p "- rf_amount r" 0 "refund_agrees r"]])
          (use b in \<open>simp_all add: id viewed_def log_inv_any [of "rf_payment_id r" _ _ _ 0]\<close>)
    qed
  qed
  have final: "triple (viewed (\<lambda>ps ts rs. log_inv (rf_payment_id r) (- rf_amount r) ps ts rs \<and> True \<and> refund_agrees r rs))
      (update_refund (r\<lparr>rf_status := RefundFailed, rf_failure_code := x, rf_failure_reason := y\<rparr>)) (\<lambda>_. viewed intact)" for x y
    by (rule triple_conseq [OF triple_update_refund [of _ r "rf_payment_id r" "- rf_amount r" "\<lambda>_. True"]])
      (auto simp: viewed_def log_inv_any [of "rf_payment_id r" _ _ _ 0])
  show ?thesis
    unfolding fail_refund_def
    by (intro triple_lock_then triple_keep [OF reserve] triple_bind [OF step] triple_bind [OF final] view_skips triple_return; simp)
qed

lemma triple_complete_refund:
  assumes e: "hooks_blind e"
  shows "triple (viewed (with_refund r)) (complete_refund e c r pr source) (\<lambda>_. viewed intact)"
proof -
  have step: "triple (viewed (\<lambda>ps ts rs. with_refund r ps ts rs \<and> agrees p ps))
      (update_refund (r\<lparr>rf_status := RefundProcessed, rf_processed_at := x\<rparr>)) (\<lambda>_. viewed (\<lambda>ps ts rs. intact ps ts rs \<and> agrees p ps))"
    for p x
    by (rule triple_conseq [OF triple_update_refund [of _ r "rf_payment_id r" 0 "agrees p"]])
      (auto simp: viewed_def log_inv_any [of 0 _ _ _ "rf_payment_id r"])
  show ?thesis
    unfolding complete_refund_def Let_def
    by (intro triple_if triple_stop triple_lock_then view_skips triple_bind [OF step] triple_bind [OF triple_moved [OF e]] triple_return; simp)
qed

lemma triple_apply_refund:
  assumes e: "hooks_blind e"
  shows "triple (viewed (with_refund r)) (apply_refund e c r pr source) (\<lambda>_. viewed intact)"
proof (cases "refund_final (rf_status r)")
  case True
  then show ?thesis by (simp add: apply_refund_def) (intro triple_return, simp add: viewed_def)
next
  case False
  let ?r = "r\<lparr>rf_provider_refund_id := Some (pf_provider_refund_id pr)\<rparr>"
  have same: "with_refund ?r = with_refund r" by (simp add: refund_agrees_def)
  have "triple (viewed (with_refund r)) (update_refund (?r\<lparr>rf_status := RefundPending\<rparr>)) (\<lambda>_. viewed intact)"
    by (rule triple_conseq [OF triple_update_refund [of _ r "rf_payment_id r" 0 "\<lambda>_. True"]])
      (auto simp: viewed_def log_inv_any [of 0 _ _ _ "rf_payment_id r"])
  then show ?thesis
    using False triple_complete_refund [OF e, of ?r] triple_fail_refund [of ?r] unfolding same
    by (cases "pf_status pr") (simp_all add: apply_refund_def Let_def triple_stop)
qed

lemma triple_submit_refund:
  assumes e: "hooks_blind e"
  shows "triple (viewed (with_refund r)) (submit_refund e c p r) (\<lambda>_. viewed intact)"
  unfolding submit_refund_def
  by (intro triples view_skips triple_apply_refund [OF e]; simp add: viewed_def)

lemma triple_lock_refund:
  "triple (viewed Q) (lock_refund c k) (\<lambda>r. viewed (\<lambda>ps ts rs. Q ps ts rs \<and> refund_agrees r rs))"
proof (rule tripleI)
  fix s u :: "'a till_scheme" and r
  assume "viewed Q s" "lock_refund c k s = (Ok r, u)"
  then show "viewed (\<lambda>ps ts rs. Q ps ts rs \<and> refund_agrees r rs) u"
    by (auto simp: lock_refund_def bindM_def act_simps some_or_def bind_eq_Some_conv viewed_def refund_agrees_def read_refund_def
        dest: find_row_self split: option.splits if_splits)
qed

lemma log_sync_refund: "hooks_blind e \<Longrightarrow> okp (viewed intact) (sync_refund e c i pr source)"
  unfolding sync_refund_def
  by (rule okp_triple) (intro triples triple_seq [OF triple_lock_refund] triple_apply_refund; assumption)

lemma log_resubmit: "hooks_blind e \<Longrightarrow> rf_status r = RefundInitiated \<Longrightarrow> okp (viewed intact) (poll_refund e c r)"
proof -
  assume e: "hooks_blind e" and r: "rf_status r = RefundInitiated"
  have read: "okp (viewed Q) (get_payment_by_id i)" for Q i
    unfolding get_payment_by_id_def by (intro keeps)
  show ?thesis
    unfolding poll_refund_def using r
    by (simp, intro okp_triple triples triple_seq [OF triple_lock_refund] triple_keep [OF read] triple_submit_refund [OF e])
      (simp_all add: viewed_def)
qed

lemma log_create_refund:
  assumes e: "hooks_blind e" and q: "in64 (rr_amount q)"
  shows "okp (viewed intact) (create_refund e c q)"
proof -
  have reserve: "okp (viewed Q) (if b then reserve_from_wallet e c p r else returnM ())" for Q b c p r
    unfolding reserve_from_wallet_def by (intro view_keeps)
  have row: "triple (viewed (\<lambda>ps ts rs. log_inv (pm_id p) (- rr_amount q) ps ts rs \<and> agrees p ps \<and> (0 < rr_amount q \<and> rf_payment_id r = pm_id p \<and> refund_agrees r rs)))
      (update_payment (p\<lparr>pm_refunded_amount := wrap64 (pm_refunded_amount p + rr_amount q)\<rparr>)) (\<lambda>_. viewed (with_refund r))" for p r
  proof -
    have pos: "0 < rr_amount q \<and> 0 \<le> pm_refunded_amount p"
      if v: "viewed (\<lambda>ps ts rs. log_inv (pm_id p) (- rr_amount q) ps ts rs \<and> agrees p ps \<and> (0 < rr_amount q \<and> rf_payment_id r = pm_id p \<and> refund_agrees r rs)) s"
      for s
    proof -
      obtain row where row: "0 < rr_amount q" "find_row pm_id (pm_id p) (payments s) = Some row" "pm_refunded_amount row = pm_refunded_amount p"
        using v by (auto simp: viewed_def agrees_def)
      then have "payment_checks row" using v find_row_Some [OF row(2)] by (simp add: viewed_def log_inv_def payment_ok_def)
      with row show ?thesis by (auto simp: payment_checks_def ck_payments_refunded_def)
    qed
    show ?thesis
    proof (rule triple_given [OF pos])
      assume "0 < rr_amount q \<and> 0 \<le> pm_refunded_amount p"
      then show "triple (viewed (\<lambda>ps ts rs. log_inv (pm_id p) (- rr_amount q) ps ts rs \<and> agrees p ps \<and> (0 < rr_amount q \<and> rf_payment_id r = pm_id p \<and> refund_agrees r rs)))
        (update_payment (p\<lparr>pm_refunded_amount := wrap64 (pm_refunded_amount p + rr_amount q)\<rparr>)) (\<lambda>_. viewed (with_refund r))"
        by (intro triple_conseq [OF triple_update_payment [of _ p "rr_amount q" "- rr_amount q" "\<lambda>rs. refund_agrees r rs"]])
          (use q in \<open>auto simp: viewed_def log_inv_any [of "pm_id p" _ _ _ 0]\<close>)
    qed
  qed
  have start: "triple (viewed (\<lambda>ps ts rs. intact ps ts rs \<and> agrees p ps)) (start_refund e c q p source) (\<lambda>_. viewed intact)" for c p source
    unfolding start_refund_def
    by (intro view_skips triple_seq [OF triple_create_refund [where p = p]])
      (simp_all add: q, intro triple_bind [OF row] triple_keep [OF reserve] triple_submit_refund [OF e])
  show ?thesis
    unfolding create_refund_def
    by (rule okp_triple) (intro triples triple_lock_then start; simp add: viewed_def)
qed

interpretation register: payment_calls "viewed intact" hooks_blind
  by unfold_locales
    (auto intro: view.free log_open_at log_sync log_mark_settled log_create_refund log_sync_refund log_resubmit log_open_dispute
      log_sync_dispute log_submit_evidence log_close_locally keeps_view_writes simp: hooks_blind_def hooks_keep_def)

section \<open>An example\<close>

text \<open>A provider that captures and refunds at once.\<close>

definition demo_provider :: provider where
  "demo_provider = \<lparr>pv_name = ''fake'',
     pv_create_payment = (\<lambda>_ q. Inr \<lparr>cs_provider_payment_id = ''pp_'' @ cq_attempt_id q, cs_checkout_url = ''url''\<rparr>),
     pv_fetch_payment = (\<lambda>_ i. Inr \<lparr>pp_provider_payment_id = i, pp_status = StatusCaptured, pp_amount = 500, pp_currency = ''INR'',
        pp_failure_code = [], pp_failure_reason = []\<rparr>),
     pv_capture = (\<lambda>_ _ _. Inr ()), pv_cancel = (\<lambda>_ _. Inr ()),
     pv_refund = (\<lambda>_ q. Inr \<lparr>pf_provider_refund_id = ''pr'', pf_provider_payment_id = rq_provider_payment_id q,
        pf_status = ProviderRefundProcessed, pf_amount = rq_amount q, pf_currency = rq_currency q, pf_failure_reason = []\<rparr>),
     pv_fetch_refund = (\<lambda>_ _. Inl (app_err Unavailable)), pv_fetch_dispute = (\<lambda>_ _. Inl (app_err Unavailable)),
     pv_submit_evidence = (\<lambda>_ _ _. Inr ()), pv_fetch_settlements = (\<lambda>_ _. Inr []),
     pv_verify_destination = (\<lambda>_ _. Inl (app_err Unavailable)), pv_create_payout = (\<lambda>_ _. Inl (app_err Unavailable)),
     pv_fetch_payout = (\<lambda>_ _. Inl (app_err Unavailable)), pv_verify_webhook = (\<lambda>_ _. Inl (app_err Unauthenticated))\<rparr>"

definition demo_engine :: "'x till_scheme payment_engine" where
  "demo_engine = \<lparr>pen_registry = new_registry [''fake''] (\<lambda>_. None) [demo_provider], pen_limits = demo_limits,
     pen_config = \<lparr>pcf_ttl = 1800, pcf_poll_after = 120\<rparr>, pen_orders = None, pen_payouts = None, pen_rfc3339 = (\<lambda>_. [])\<rparr>"

end
