(* ===== verification/PaymentProps.thy ===== *)
theory PaymentProps
  imports PaymentLog
begin

text \<open>
  Two places where the payment engine cannot go on: a chargeback on the payment of an order,
  and a refund that the provider finishes while the payment is disputed.
\<close>

section \<open>Refunds of disputed payments\<close>

text \<open>
  C28. A refund that the provider finishes while its payment is disputed, or after the dispute was resolved, is
  never completed: whatever the provider reports of it, syncing it to \<open>processed\<close> fails and changes
  nothing, since the state machine has no way from a disputed payment to a refunded one. What was reserved
  for the refund stays in \<open>refunds_payable\<close>.
\<close>

theorem refund_of_disputed_never_completes:
  assumes "\<not> in_tx c" "find_row rf_id i (refunds s) = Some r" "\<not> refund_final (rf_status r)"
    "find_payment (rf_payment_id r) s = Some p" "pm_status p \<in> {PaymentDisputed, PaymentDisputeWon, PaymentDisputeLost}"
    "pf_status pr = ProviderRefundProcessed"
  shows "\<not> is_ok (fst (sync_refund e c i pr source s)) \<and> (\<exists>t. snd (sync_refund e c i pr source s) = rollback s t)"
proof -
  have stuck: "transition e c' q to source ref detail t \<noteq> (Ok a, u)"
    if "pm_status q = pm_status p" "to = PaymentPartiallyRefunded \<or> to = PaymentRefunded" for c' q to ref detail t a u
    using that assms(5) by (auto simp: transition_def can_transition_def act_simps)
  have lock: "triple (\<lambda>t. t = s) (lock_payment c' (rf_payment_id r)) (\<lambda>q _. pm_status q = pm_status p)" for c'
    using assms(4)
    by (auto simp: triple_def lock_payment_def get_payment_by_id_def bindM_def act_simps some_or_def
        split: if_splits option.splits dest: read_payment_same)
  have "triple (\<lambda>t. t = s) (complete_refund e c' r' pr source) (\<lambda>_ _. False)" if "rf_payment_id r' = rf_payment_id r" for c' r'
    unfolding complete_refund_def that Let_def
    by (intro triple_if triple_stop triple_bind [OF lock], rule triple_fact, intro triple_any triple_dead stuck)
      (auto split: option.splits)
  then have no: "complete_refund e c' r' pr source s \<noteq> (Ok a, u)" if "rf_payment_id r' = rf_payment_id r" for c' r' a u
    using that by (auto simp: triple_def)
  have "\<not> is_ok (fst (bindM (lock_refund c' i) (\<lambda>r. apply_refund e c' r pr source) s))" for c'
  proof (cases "bindM (lock_refund c' i) (\<lambda>r. apply_refund e c' r pr source) s")
    case (Pair res u)
    have "res \<noteq> Ok a" for a
    proof
      assume "res = Ok a"
      then show False
        using Pair assms(2,3,4,6) no
        by (auto simp: bind_Ok_iff lock_refund_def act_simps some_or_def read_refund_def apply_refund_def Let_def split: if_splits)
    qed
    then show ?thesis using Pair by (cases res) auto
  qed
  then show ?thesis
    using assms(1) by (auto simp: sync_refund_def with_tx_def split: prod.splits outcome.splits) (metis fst_conv is_ok.simps(1))
qed

section \<open>Chargebacks on orders\<close>

lemma order_payment_no_wallet:
  "read_payment s row = Some p \<Longrightarrow> pm_wallet_id row = None \<Longrightarrow> pm_wallet_public_id p = None"
  by (auto simp: read_payment_def split: option.splits)

lemma bind_panic: "bindM panicM k = panicM"
  by (rule ext) (simp add: bindM_def panicM_def)

lemma open_dispute_panics:
  assumes "in_tx c" "find_row (\<lambda>a. (pa_provider a, pa_provider_payment_id a)) (name, Some (pd_provider_payment_id pd)) (attempts s) = Some a"
    "find_payment (pa_payment_id a) s = Some row" "pm_application row = ApplicationApplied" "pm_wallet_id row = None"
    "pm_captured_amount row \<noteq> None" "can_transition (pm_status row) PaymentDisputed"
    "find_row pr_id (pm_product_id row) (products s) \<noteq> None"
  shows "\<exists>u. open_dispute e c name pd s = (Panicked, u)"
proof -
  obtain pr where pr: "find_row pr_id (pm_product_id row) (products s) = Some pr" using assms(8) by auto
  then obtain p where p: "read_payment s row = Some p" by (simp add: read_payment_def)
  then have same: "pm_application p = ApplicationApplied" "pm_captured_amount p \<noteq> None" "pm_status p = pm_status row"
    "pm_product_id p = pm_product_id row" "pm_wallet_public_id p = None"
    using assms(4,6) order_payment_no_wallet [OF p assms(5)] by (auto simp: read_payment_def split: option.splits)
  have "\<exists>u. record_dispute e c name pd p pr s = (Panicked, u)"
  proof -
    obtain amount where amount: "pm_captured_amount p = Some amount" using same(2) by auto
    obtain x v where id: "new_id DisputeId s = (Ok x, v)" by (simp add: new_id_def)
    show ?thesis
      by (simp add: record_dispute_def amount contested_sources_def same wallet_part_def payment_wallet_def bind_panic)
        (simp add: bindM_def id act_simps)
  qed
  moreover have "attempt_for name (pd_provider_payment_id pd) s = (Ok a, s)"
    using assms(2) by (simp add: attempt_for_def get_attempt_by_provider_ref_def bindM_def try_apply act_simps some_or_def)
  moreover have "lock_payment c (pa_payment_id a) s = (Ok p, s)"
    using assms(1,3) p by (simp add: lock_payment_def get_payment_by_id_def bindM_def act_simps some_or_def)
  moreover have "get_product_by_id (pm_product_id p) s = (Ok pr, s)"
    using pr by (simp add: same get_product_by_id_def bindM_def act_simps some_or_def)
  ultimately show ?thesis
    using assms(1,7) by (simp add: open_dispute_def with_tx_def bind_apply_Ok same)
qed

lemma rollback_rollback: "rollback s (rollback s t) = rollback s t"
  by (simp add: rollback_def)

text \<open>
  C27. A chargeback on the payment of an order stops the worker: such a payment has no wallet, and opening the dispute
  reads through the wallet's public id. When the event of the chargeback is the next one due, processing it panics; the
  transaction is undone, so that no table changes and the event is neither marked processed nor put off,
  and the next worker claims the same event again.
\<close>

theorem order_chargeback_panics:
  assumes "\<not> in_tx c"
    "List.find (\<lambda>v. pe_processed_at v = None \<and> pe_next_attempt_at v \<le> clock s) (provider_events s) = Some ev"
    "pe_object_kind ev = ObjectDispute" "pe_object_id ev = Some ref"
    "registry_get (pen_registry e) (pe_provider ev) = Inr prov" "pv_fetch_dispute prov (calls s) ref = Inr pd"
    "find_row (\<lambda>d. (di_provider d, di_provider_dispute_id d)) (pe_provider ev, ref) (disputes s) = None"
    "find_row (\<lambda>a. (pa_provider a, pa_provider_payment_id a)) (pe_provider ev, Some (pd_provider_payment_id pd)) (attempts s) = Some a"
    "find_payment (pa_payment_id a) s = Some p" "pm_application p = ApplicationApplied" "pm_wallet_id p = None"
    "pm_captured_amount p \<noteq> None" "can_transition (pm_status p) PaymentDisputed" "find_row pr_id (pm_product_id p) (products s) \<noteq> None"
  shows "\<exists>t. process_next_event e c s = (Panicked, rollback s t)"
proof -
  define c' where "c' = c\<lparr>in_tx := True\<rparr>"
  define s1 where "s1 = s\<lparr>calls := calls s @ [entry ''fetch_dispute'' ref 0]\<rparr>"
  have "\<exists>u. open_dispute e c' (pe_provider ev) pd s1 = (Panicked, u)"
    by (rule open_dispute_panics [of _ _ _ _ a p]) (use assms in \<open>simp_all add: c'_def s1_def find_payment_def\<close>)
  moreover have "engine_provider e (pe_provider ev) s = (Ok prov, s)"
    using assms(5) by (simp add: engine_provider_def act_simps)
  moreover have "ask_fetch_dispute prov ref s = (Ok pd, s1)"
    using assms(6) by (simp add: ask_fetch_dispute_def ask_run s1_def)
  moreover have "tryM (get_dispute_by_provider_ref (pe_provider ev) ref) s1 = (Ok (Inl (app_err NotFound)), s1)"
    using assms(7) by (simp add: s1_def get_dispute_by_provider_ref_def try_apply bindM_def act_simps some_or_def)
  ultimately have "\<exists>u. process_event e c' ev s = (Panicked, u)"
    using assms(3,4) by (simp add: process_event_def process_dispute_event_def bind_apply_Ok)
      (auto simp: bindM_def)
  then obtain u where "process_event e c' ev s = (Panicked, u)" by blast
  then have tried: "tryM (with_savepoint c' (\<lambda>c. process_event e c ev)) s = (Panicked, rollback s u)"
    by (simp add: try_apply with_savepoint_def c'_def)
  have claim: "claim_provider_event c' (clock s) s = (Ok (Some ev), s)"
    using assms(2) by (simp add: claim_provider_event_def c'_def act_simps)
  have "bindM (getM clock) (\<lambda>now. bindM (claim_provider_event c' now) (\<lambda>claimed. case claimed of
       None \<Rightarrow> returnM False
     | Some ev \<Rightarrow> bindM (tryM (with_savepoint c' (\<lambda>c. process_event e c ev))) (\<lambda>r. case r of
           Inr _ \<Rightarrow> bindM (mark_provider_event_processed (pe_id ev)) (\<lambda>_. returnM True)
         | Inl err \<Rightarrow> bindM (mark_provider_event_failed (pe_id ev) (error_string err) (now + event_backoff (pe_attempts ev))) (\<lambda>_. returnM True)))) s
      = (Panicked, rollback s u)"
    by (simp add: bindM_def act_simps claim tried)
  then show ?thesis
    using assms(1) by (simp add: process_next_event_def with_tx_def c'_def [symmetric] rollback_rollback) blast
qed

text \<open>An order was paid with 500; the bank of the payer contests it.\<close>

definition demo_order_row :: payment where
  "demo_order_row = (new_payment ''pay_1'' 1 demo_product None PurposeOrder None (Some 1) 500 ''INR'' [] [] 0)
     \<lparr>pm_id := 1, pm_status := PaymentCaptured, pm_application := ApplicationApplied, pm_provider := Some ''fake'',
      pm_captured_amount := Some 500, pm_captured_at := Some 0\<rparr>"

definition demo_chargeback :: provider_event where
  "demo_chargeback = \<lparr>pe_id = 1, pe_provider = ''fake'', pe_event_id = ''ev_1'', pe_event_type = ''dispute.created'',
     pe_object_kind = ObjectDispute, pe_object_id = Some ''dp_1'', pe_payload = [], pe_received_at = 0, pe_processed_at = None,
     pe_attempts = 0, pe_next_attempt_at = 0, pe_last_error = None\<rparr>"

definition demo_claim :: provider_dispute where
  "demo_claim = \<lparr>pd_provider_dispute_id = ''dp_1'', pd_provider_payment_id = ''pp_1'', pd_status = ProviderDisputeOpen,
     pd_amount = 500, pd_currency = ''INR'', pd_reason = ''fraud'', pd_evidence_due_by = None\<rparr>"

definition demo_bank :: provider where
  "demo_bank = demo_provider\<lparr>pv_fetch_dispute := \<lambda>_ _. Inr demo_claim\<rparr>"

definition demo_bank_engine :: "till payment_engine" where
  "demo_bank_engine = demo_engine\<lparr>pen_registry := new_registry [''fake''] (\<lambda>_. None) [demo_bank]\<rparr>"

definition demo_charged :: till where
  "demo_charged = office.extend (estate.extend demo_shop \<lparr>credentials = [], idempotency_keys = []\<rparr>)
     \<lparr>payments = [demo_order_row], attempts = [(new_attempt ''pat_1'' 1 ''fake'' [])\<lparr>pa_id := 1, pa_provider_payment_id := Some ''pp_1''\<rparr>],
      transitions = [], provider_events = [demo_chargeback], refunds = [], disputes = [], provider_controls = []\<rparr>"

lemmas demo_charged_defs = demo_charged_def demo_shop_def office.defs estate.defs till.defs demo_order_row_def demo_chargeback_def
  new_payment_def new_attempt_def demo_product_def

lemma demo_bank_registry: "registry_get (pen_registry demo_bank_engine) ''fake'' = Inr demo_bank"
  by (simp add: demo_bank_engine_def registry_get_def registered_def new_registry_def demo_bank_def demo_provider_def)

theorem order_chargeback_panics_witness:
  "\<exists>t. process_next_event demo_bank_engine no_tx demo_charged = (Panicked, rollback demo_charged t)"
proof (rule order_chargeback_panics)
  show "registry_get (pen_registry demo_bank_engine) (pe_provider demo_chargeback) = Inr demo_bank"
    by (simp add: demo_bank_registry demo_chargeback_def)
  show "pv_fetch_dispute demo_bank (calls demo_charged) ''dp_1'' = Inr demo_claim" by (simp add: demo_bank_def)
  show "find_row (\<lambda>a. (pa_provider a, pa_provider_payment_id a)) (pe_provider demo_chargeback, Some (pd_provider_payment_id demo_claim))
      (attempts demo_charged) = Some (attempts demo_charged ! 0)"
    by (simp add: demo_charged_defs demo_claim_def)
  show "find_payment (pa_payment_id (attempts demo_charged ! 0)) demo_charged = Some demo_order_row"
    by (simp add: demo_charged_defs find_payment_def)
qed (simp_all add: demo_charged_defs no_tx_def demo_bank_def demo_claim_def can_transition_def)

definition demo_contested :: till where
  "demo_contested = demo_charged\<lparr>payments := [demo_order_row\<lparr>pm_status := PaymentDisputed\<rparr>],
     refunds := [\<lparr>rf_id = 1, rf_public_id = ''ref_1'', rf_payment_id = 1, rf_product_id = 1, rf_amount = 100, rf_currency = ''INR'',
       rf_status = RefundPending, rf_source = RefundFromOrder, rf_reason_code = ''customer_request'', rf_memo = [], rf_provider = ''fake'',
       rf_provider_refund_id = Some ''pr'', rf_failure_code = None, rf_failure_reason = None, rf_requested_by = [], rf_processed_at = None,
       rf_payment_public_id = ''pay_1'', rf_created_at = 0, rf_updated_at = 0\<rparr>]\<rparr>"

definition demo_processed :: provider_refund where
  "demo_processed = \<lparr>pf_provider_refund_id = ''pr'', pf_provider_payment_id = ''pp_1'', pf_status = ProviderRefundProcessed,
     pf_amount = 100, pf_currency = ''INR'', pf_failure_reason = []\<rparr>"

theorem refund_of_disputed_never_completes_witness:
  "\<not> is_ok (fst (sync_refund demo_engine no_tx 1 demo_processed ''webhook'' demo_contested))"
proof -
  have "find_row rf_id 1 (refunds demo_contested) = Some (refunds demo_contested ! 0)" "\<not> refund_final (rf_status (refunds demo_contested ! 0))"
    "find_payment (rf_payment_id (refunds demo_contested ! 0)) demo_contested = Some (demo_order_row\<lparr>pm_status := PaymentDisputed\<rparr>)"
    by (simp_all add: demo_contested_def refund_final_def find_payment_def demo_charged_defs)
  from refund_of_disputed_never_completes [OF _ this] show ?thesis
    by (simp add: no_tx_def demo_processed_def)
qed

end
