(* ===== verification/Drainer.thy ===== *)
theory Drainer
  imports Providers WalletProps
begin

text \<open>
  The outbox drainer (\<open>internal/outbox/drainer.go\<close>): publishing the events the engines wrote.

  The publisher is outside code: its answer is a function of the calls made so
  far and the event; the calls are recorded as those to a provider are. The loop
  that drains fully before it waits for the ticker takes fuel: its value says
  whether it came to an end.

  The theorems: with a publisher that accepts, every event is published once, in
  order; with one that is down and a full batch waiting, the loop never ends.
\<close>

type_synonym publisher = "call list \<Rightarrow> outbox_event \<Rightarrow> go_error + unit"

record drain_config =
  dc_interval :: int
  dc_batch_size :: int

definition drain_with_defaults :: "drain_config \<Rightarrow> drain_config" where
  "drain_with_defaults c = \<lparr>dc_interval = (if dc_interval c \<le> 0 then 5 else dc_interval c),
     dc_batch_size = (if dc_batch_size c \<le> 0 then 100 else dc_batch_size c)\<rparr>"

definition publish_call :: "outbox_event \<Rightarrow> call" where
  "publish_call e = entry ''publish'' (ev_event_id e) 0"

definition handle_event :: "publisher \<Rightarrow> outbox_event \<Rightarrow> ('x estate_scheme, unit) action" where
  "handle_event pub e = bindM (tryM (ask (publish_call e) (\<lambda>past. pub past e))) (\<lambda>r. case r of
     Inl err \<Rightarrow> mark_outbox_event_failed (ev_id e) (error_string err)
   | Inr _ \<Rightarrow> mark_outbox_event_published (ev_id e))"

definition drain_once :: "drain_config \<Rightarrow> publisher \<Rightarrow> ctx \<Rightarrow> ('x estate_scheme, nat) action" where
  "drain_once cfg pub c = with_tx c (\<lambda>c.
     bindM (claim_unpublished_outbox_events c (nat (dc_batch_size cfg))) (\<lambda>events.
     bindM (for_each events (handle_event pub)) (\<lambda>_. returnM (length events))))"

text \<open>The inner loop of \<open>Run\<close>, for so many sweeps.\<close>

fun drain_fully :: "nat \<Rightarrow> drain_config \<Rightarrow> publisher \<Rightarrow> ctx \<Rightarrow> ('x estate_scheme, bool) action" where
  "drain_fully 0 cfg pub c = returnM False"
| "drain_fully (Suc n) cfg pub c = bindM (tryM (drain_once cfg pub c)) (\<lambda>r. case r of
     Inl e \<Rightarrow> returnM True
   | Inr published \<Rightarrow> if int published < dc_batch_size cfg then returnM True else drain_fully n cfg pub c)"

section \<open>One sweep\<close>

definition unpublished :: "'x estate_scheme \<Rightarrow> outbox_event list" where
  "unpublished s = filter (\<lambda>e. ev_published_at e = None) (outbox s)"

definition settle_event :: "go_error + unit \<Rightarrow> int \<Rightarrow> outbox_event \<Rightarrow> outbox_event" where
  "settle_event r now e = (case r of
     Inl err \<Rightarrow> e\<lparr>ev_attempts := ev_attempts e + 1, ev_last_error := Some (error_string err)\<rparr>
   | Inr _ \<Rightarrow> e\<lparr>ev_published_at := Some now, ev_attempts := ev_attempts e + 1, ev_last_error := None\<rparr>)"

lemma settle_event_id [simp]: "ev_id (settle_event r now e) = ev_id e"
  by (simp add: settle_event_def split: sum.splits)

lemma handle_event_run:
  "handle_event pub e s = (Ok (), s\<lparr>calls := calls s @ [publish_call e],
     outbox := update_rows ev_id (ev_id e) (settle_event (pub (calls s) e) (clock s)) (outbox s)\<rparr>)"
  by (cases "pub (calls s) e") (simp_all add: handle_event_def bindM_def try_apply ask_run act_simps mark_outbox_event_failed_def
      mark_outbox_event_published_def settle_event_def [abs_def])

text \<open>A publisher that gives every event the same kind of answer.\<close>

definition steady :: "publisher \<Rightarrow> (go_error + unit) \<Rightarrow> bool" where
  "steady pub r \<longleftrightarrow> (\<forall>past e. pub past e = r)"

lemma handle_events_run:
  assumes "steady pub r" "distinct (map ev_id es)"
  shows "for_each es (handle_event pub) s = (Ok (), s\<lparr>calls := calls s @ map publish_call es,
     outbox := map (\<lambda>e. if ev_id e \<in> ev_id ` set es then settle_event r (clock s) e else e) (outbox s)\<rparr>)"
  using assms(2)
proof (induction es arbitrary: s)
  case Nil
  then show ?case by (simp add: act_simps)
next
  case (Cons x es)
  let ?t = "s\<lparr>calls := calls s @ [publish_call x],
     outbox := update_rows ev_id (ev_id x) (settle_event r (clock s)) (outbox s)\<rparr>"
  have first: "handle_event pub x s = (Ok (), ?t)"
    using assms(1) by (simp only: handle_event_run steady_def)
  have "for_each (x # es) (handle_event pub) s = for_each es (handle_event pub) ?t"
    by (simp only: for_each.simps bind_apply_Ok [of "handle_event pub x" s, OF first])
  also have "\<dots> = (Ok (), ?t\<lparr>calls := calls ?t @ map publish_call es,
     outbox := map (\<lambda>e. if ev_id e \<in> ev_id ` set es then settle_event r (clock ?t) e else e) (outbox ?t)\<rparr>)"
    by (rule Cons.IH) (use Cons.prems in simp)
  finally show ?case
    using Cons.prems by (simp add: update_rows_def comp_def)
qed

definition sweep :: "nat \<Rightarrow> go_error + unit \<Rightarrow> 'x estate_scheme \<Rightarrow> 'x estate_scheme" where
  "sweep n r s = (let es = take n (unpublished s) in s\<lparr>calls := calls s @ map publish_call es,
     outbox := map (\<lambda>e. if ev_id e \<in> ev_id ` set es then settle_event r (clock s) e else e) (outbox s)\<rparr>)"

lemma drain_once_run:
  assumes "steady pub r" "distinct (map ev_id (outbox s))" "\<not> in_tx c"
  shows "drain_once cfg pub c s = (Ok (length (take (nat (dc_batch_size cfg)) (unpublished s))), sweep (nat (dc_batch_size cfg)) r s)"
proof -
  have "distinct (map ev_id (take (nat (dc_batch_size cfg)) (unpublished s)))"
    using assms(2) distinct_map_filter [of ev_id "outbox s"] by (simp add: unpublished_def take_map [symmetric])
  from handle_events_run [OF assms(1) this, of s] show ?thesis
    using assms(3)
    by (simp add: drain_once_def with_tx_def bindM_def claim_unpublished_outbox_events_def act_simps unpublished_def sweep_def Let_def)
qed

section \<open>The loop\<close>


lemma distinct_sweep: "distinct (map ev_id (outbox s)) \<Longrightarrow> distinct (map ev_id (outbox (sweep n r s)))"
  by (simp add: sweep_def Let_def comp_def if_distrib cong: if_cong)

lemma distinct_take_drop:
  assumes "distinct (map f xs)" "x \<in> set xs"
  shows "f x \<in> f ` set (take n xs) \<longleftrightarrow> x \<in> set (take n xs)"
proof
  assume "f x \<in> f ` set (take n xs)"
  then obtain y where y: "y \<in> set (take n xs)" "f x = f y" by blast
  have "inj_on f (set xs)" using assms(1) by (simp add: distinct_map)
  then have "x = y" using y(2) assms(2) in_set_takeD [OF y(1)] by (rule inj_onD)
  then show "x \<in> set (take n xs)" using y(1) by simp
qed simp

lemma filter_not_taken: "distinct xs \<Longrightarrow> filter (\<lambda>x. x \<notin> set (take n xs)) xs = drop n xs"
proof (induction xs arbitrary: n)
  case (Cons x xs)
  show ?case
  proof (cases n)
    case (Suc m)
    have "filter (\<lambda>y. y \<noteq> x \<and> y \<notin> set (take m xs)) xs = filter (\<lambda>y. y \<notin> set (take m xs)) xs"
      using Cons.prems by (intro filter_cong) auto
    then show ?thesis using Cons Suc by simp
  qed simp
qed simp

lemma sweep_up:
  assumes "distinct (map ev_id (outbox s))"
  shows "unpublished (sweep n (Inr ()) s) = drop n (unpublished s)"
proof -
  let ?es = "unpublished s"
  have d: "distinct (map ev_id ?es)" using assms by (simp add: unpublished_def distinct_map_filter)
  have "unpublished (sweep n (Inr ()) s) = filter (\<lambda>e. ev_id e \<notin> ev_id ` set (take n ?es)) ?es"
  proof -
    have "filter P (map (\<lambda>e. if Q e then settle_event (Inr ()) now e else e) xs) = filter (\<lambda>e. P e \<and> \<not> Q e) xs"
      if "\<And>e. \<not> P (settle_event (Inr ()) now e)" for P Q now and xs :: "outbox_event list"
      using that by (induction xs) auto
    from this [of "\<lambda>e. ev_published_at e = None"] show ?thesis
      by (simp add: sweep_def Let_def unpublished_def settle_event_def conj_commute)
  qed
  also have "\<dots> = filter (\<lambda>e. e \<notin> set (take n ?es)) ?es"
    by (rule filter_cong) (simp_all add: distinct_take_drop [OF d])
  also have "\<dots> = drop n ?es" by (rule filter_not_taken) (use d in \<open>simp add: distinct_map\<close>)
  finally show ?thesis .
qed

lemma drain_step:
  assumes "steady pub r" "distinct (map ev_id (outbox s))" "\<not> in_tx c" "0 < dc_batch_size cfg"
  shows "drain_fully (Suc n) cfg pub c s = (if length (unpublished s) < nat (dc_batch_size cfg)
    then (Ok True, sweep (nat (dc_batch_size cfg)) r s) else drain_fully n cfg pub c (sweep (nat (dc_batch_size cfg)) r s))"
  using assms(4) by (auto simp: bindM_def try_apply drain_once_run [OF assms(1-3)] act_simps)

text \<open>
  C39. With a publisher that accepts, draining comes to an end and publishes every waiting event once, in the order
  the events were written: afterwards no event is unpublished, and the calls made are one per event.
\<close>

theorem outbox_drains:
  assumes "steady pub (Inr ())" "distinct (map ev_id (outbox s))" "\<not> in_tx c" "0 < dc_batch_size cfg"
    "length (unpublished s) < fuel * nat (dc_batch_size cfg)"
  shows "\<exists>u. drain_fully fuel cfg pub c s = (Ok True, u) \<and> unpublished u = [] \<and>
    calls u = calls s @ map publish_call (unpublished s)"
  using assms(2,5)
proof (induction fuel arbitrary: s)
  case (Suc n)
  let ?b = "nat (dc_batch_size cfg)"
  let ?t = "sweep ?b (Inr ()) s"
  note step = drain_step [OF assms(1) Suc.prems(1) assms(3,4), of n]
  have calls: "calls ?t = calls s @ map publish_call (take ?b (unpublished s))" by (simp add: sweep_def Let_def)
  show ?case
  proof (cases "length (unpublished s) < ?b")
    case True
    then show ?thesis using step calls sweep_up [OF Suc.prems(1), of ?b] by simp
  next
    case False
    have "length (unpublished ?t) < n * ?b" using Suc.prems(2) False by (simp add: sweep_up [OF Suc.prems(1)])
    from Suc.IH [OF distinct_sweep [OF Suc.prems(1)] this] obtain u
      where u: "drain_fully n cfg pub c ?t = (Ok True, u)" "unpublished u = []"
        "calls u = calls ?t @ map publish_call (unpublished ?t)" by blast
    have "map publish_call (take ?b (unpublished s)) @ map publish_call (drop ?b (unpublished s)) = map publish_call (unpublished s)"
      by (simp add: map_append [symmetric] del: map_append)
    then show ?thesis using step u calls False by (simp add: sweep_up [OF Suc.prems(1)])
  qed
qed simp


text \<open>Three movements of the example estate, drained in batches of two, and with the publisher down.\<close>

definition demo_drain :: drain_config where
  "demo_drain = \<lparr>dc_interval = 1, dc_batch_size = 1\<rparr>"

lemma demo_outbox: "distinct (map ev_id (outbox demo_loaded))" "length (unpublished demo_loaded) = 1"
  by code_simp+

theorem outbox_drains_witness:
  "\<exists>u. drain_fully 2 demo_drain (\<lambda>_ _. Inr ()) no_tx demo_loaded = (Ok True, u) \<and> unpublished u = []"
  using outbox_drains [of "\<lambda>_ _. Inr ()" demo_loaded no_tx demo_drain 2] demo_outbox
  by (auto simp: steady_def no_tx_def demo_drain_def)


end
