(* ===== verification/Fieldcrypt.thy ===== *)
theory Fieldcrypt
  imports Secrets Prelude
begin

text \<open>
  Sealed fields (\<open>pkg/fieldcrypt/fieldcrypt.go\<close>): a value encrypted under the current key, tagged with the id
  of that key as \<open>v1:<key id>:<base64>\<close>, opens as long as that key is configured.

  AES-GCM and HMAC-SHA256 are of Go's standard library and are parameters: \<open>aead\<close> is what a key gives,
  with \<open>aead_ok\<close> the law \<open>crypto/cipher\<close> documents. The nonce \<open>Seal\<close> draws is its argument.
\<close>

section \<open>Padded base64\<close>

text \<open>\<open>base64.StdEncoding\<close>: the letters of the raw encoding, filled up with \<open>=\<close> to a multiple of four.\<close>

definition std_encode :: "string \<Rightarrow> string" where
  "std_encode s = (let cs = base64_encode s in cs @ replicate ((4 - length cs mod 4) mod 4) (CHR ''=''))"

definition strip_padding :: "string \<Rightarrow> string" where
  "strip_padding cs = (let n = length (takeWhile (\<lambda>c. c = CHR ''='') (rev cs)) in take (length cs - min n 2) cs)"

definition std_decode :: "string \<Rightarrow> string option" where
  "std_decode s = (let cs = filter (\<lambda>c. c \<noteq> CHR 0x0A \<and> c \<noteq> CHR 0x0D) s
     in if length cs mod 4 \<noteq> 0 then None else base64_decode (strip_padding cs))"

section \<open>Ciphers\<close>

record aead =
  ae_nonce_size :: nat
  ae_seal :: "string \<Rightarrow> string \<Rightarrow> string \<Rightarrow> string"
  ae_open :: "string \<Rightarrow> string \<Rightarrow> string \<Rightarrow> string option"

text \<open>Opening inverts sealing under the same nonce and additional data.\<close>

definition aead_ok :: "aead \<Rightarrow> bool" where
  "aead_ok a \<longleftrightarrow> (\<forall>nonce plain extra. length nonce = ae_nonce_size a \<longrightarrow>
     ae_open a nonce (ae_seal a nonce plain extra) extra = Some plain)"

record crypto =
  cy_gcm :: "string \<Rightarrow> aead"
  cy_hmac :: "string \<Rightarrow> string \<Rightarrow> string"

record cipher_config =
  cc_current_key_id :: string
  cc_keys :: "(string \<times> string) list"

record cipher =
  ci_current :: string
  ci_aeads :: "(string \<times> aead) list"
  ci_mac :: "string \<Rightarrow> string"

definition crypt_error :: "string \<Rightarrow> go_error" where
  "crypt_error x = Foreign (''fieldcrypt: '' @ x) None"

definition key_of :: "string \<Rightarrow> string option" where
  "key_of encoded = (case std_decode encoded of None \<Rightarrow> None | Some k \<Rightarrow> if length k = 32 then Some k else None)"

text \<open>The keys one after the other; Go's map gives them in some order, and any bad one fails.\<close>

fun load_keys :: "crypto \<Rightarrow> (string \<times> string) list \<Rightarrow> go_error + (string \<times> string) list" where
  "load_keys y [] = Inr []"
| "load_keys y ((i, encoded) # ks) =
     (if CHR '':'' \<in> set i then Inl (crypt_error (''key id '' @ i @ '' may not contain a colon''))
      else case key_of encoded of
        None \<Rightarrow> Inl (crypt_error (''key '' @ i @ '' must be 32 bytes, base64-encoded''))
      | Some k \<Rightarrow> (case load_keys y ks of Inl e \<Rightarrow> Inl e | Inr rest \<Rightarrow> Inr ((i, k) # rest)))"

definition new_cipher :: "crypto \<Rightarrow> cipher_config \<Rightarrow> go_error + cipher" where
  "new_cipher y cfg =
     (if cc_current_key_id cfg = [] \<or> map_of (cc_keys cfg) (cc_current_key_id cfg) \<in> {None, Some []}
      then Inl (crypt_error ''no current key configured'')
      else case load_keys y (cc_keys cfg) of
        Inl e \<Rightarrow> Inl e
      | Inr keys \<Rightarrow> (case map_of keys (cc_current_key_id cfg) of
          None \<Rightarrow> Inl (crypt_error ''no current key configured'')
        | Some k \<Rightarrow> Inr \<lparr>ci_current = cc_current_key_id cfg, ci_aeads = map (\<lambda>(i, k). (i, cy_gcm y k)) keys,
            ci_mac = cy_hmac y (cy_hmac y k ''fieldcrypt fingerprint'')\<rparr>))"

definition is_sealed :: "string \<Rightarrow> bool" where
  "is_sealed x \<longleftrightarrow> prefix ''v1:'' x"

text \<open>\<open>Seal\<close>: the nonce is put before what it sealed. A cipher without its current key panics, which \<open>New\<close> excludes.\<close>

definition seal :: "cipher \<Rightarrow> string \<Rightarrow> string \<Rightarrow> string option" where
  "seal c nonce plain = (case map_of (ci_aeads c) (ci_current c) of
     None \<Rightarrow> None
   | Some a \<Rightarrow> Some (''v1:'' @ ci_current c @ '':'' @ std_encode (nonce @ ae_seal a nonce plain (ci_current c))))"

text \<open>\<open>strings.SplitN\<close> into at most \<open>n\<close> parts.\<close>

fun split_n :: "char \<Rightarrow> nat \<Rightarrow> string \<Rightarrow> string list" where
  "split_n c 0 x = []"
| "split_n c (Suc 0) x = [x]"
| "split_n c (Suc (Suc n)) x = (if c \<in> set x
     then takeWhile (\<lambda>d. d \<noteq> c) x # split_n c (Suc n) (tl (dropWhile (\<lambda>d. d \<noteq> c) x)) else [x])"

definition open_sealed :: "cipher \<Rightarrow> string \<Rightarrow> go_error + string" where
  "open_sealed c value = (case split_n (CHR '':'') 3 value of
     [v, i, text] \<Rightarrow>
       if v \<noteq> ''v1'' then Inl (crypt_error ''not a sealed value'')
       else (case map_of (ci_aeads c) i of
          None \<Rightarrow> Inl (crypt_error (''key '' @ i @ '' is not configured''))
        | Some a \<Rightarrow> (case std_decode text of
            None \<Rightarrow> Inl (crypt_error ''malformed sealed value'')
          | Some sealed \<Rightarrow>
              if length sealed < ae_nonce_size a then Inl (crypt_error ''malformed sealed value'')
              else (case ae_open a (take (ae_nonce_size a) sealed) (drop (ae_nonce_size a) sealed) i of
                 None \<Rightarrow> Inl (crypt_error ''value does not open'')
               | Some plain \<Rightarrow> Inr plain)))
   | _ \<Rightarrow> Inl (crypt_error ''not a sealed value''))"

definition hex_digit :: "nat \<Rightarrow> char" where
  "hex_digit n = ''0123456789abcdef'' ! n"

definition hex_string :: "string \<Rightarrow> string" where
  "hex_string x = concat (map (\<lambda>c. [hex_digit (of_char c div 16), hex_digit (of_char c mod 16)]) x)"

definition fingerprint :: "cipher \<Rightarrow> string \<Rightarrow> string" where
  "fingerprint c x = hex_string (ci_mac c x)"

section \<open>Sealed values open\<close>

lemma base64_plain:
  "filter (\<lambda>c. c \<noteq> CHR 0x0A \<and> c \<noteq> CHR 0x0D) (base64_encode s) = base64_encode s" "CHR ''='' \<notin> set (base64_encode s)"
proof -
  have letters: "set (base64_encode s) \<subseteq> set base64_alphabet"
  proof -
    have "decode_bits (base64_encode s) \<noteq> None"
      using padded_all [of "concat (map byte_bits s)"] by (auto simp: padded_def base64_encode_def)
    then obtain bs where "decode_bits (base64_encode s) = Some bs" by blast
    then show ?thesis by (rule decode_bits_letters)
  qed
  have plain: "CHR 0x0A \<notin> set base64_alphabet" "CHR 0x0D \<notin> set base64_alphabet" "CHR ''='' \<notin> set base64_alphabet"
    by (simp_all add: base64_alphabet_def)
  show "filter (\<lambda>c. c \<noteq> CHR 0x0A \<and> c \<noteq> CHR 0x0D) (base64_encode s) = base64_encode s"
    by (rule filter_True) (use letters plain(1,2) in blast)
  show "CHR ''='' \<notin> set (base64_encode s)" using letters plain(3) by blast
qed

lemma padding_size: "n mod 4 \<noteq> 1 \<Longrightarrow> (4 - n mod 4) mod 4 \<le> 2 \<and> (n + (4 - n mod 4) mod 4) mod 4 = (0::nat)"
proof -
  assume "n mod 4 \<noteq> 1"
  then consider "n mod 4 = 0" | "n mod 4 = 2" | "n mod 4 = 3" by linarith
  then show ?thesis by cases (simp_all, presburger+)
qed

lemma strip_padding_app:
  assumes "c = CHR ''=''" "c \<notin> set xs" "n \<le> 2"
  shows "strip_padding (xs @ replicate n c) = xs"
proof -
  have "takeWhile (\<lambda>d. d = c) (rev xs) = []"
    using assms(2) by (auto simp: takeWhile_eq_Nil_iff hd_rev)
  then have "takeWhile (\<lambda>d. d = c) (rev (xs @ replicate n c)) = replicate n c"
    by (simp add: takeWhile_append)
  then show ?thesis using assms(3) by (simp add: strip_padding_def assms(1) [symmetric])
qed

lemma std_round: "std_decode (std_encode s) = Some s"
proof -
  let ?cs = "base64_encode s"
  let ?pad = "(4 - length ?cs mod 4) mod 4"
  have "length ?cs mod 4 \<noteq> 1"
    using base64_round [of s] by (auto simp: base64_decode_def Let_def base64_plain(1) split: if_splits)
  note pad = padding_size [OF this]
  have enc: "std_encode s = ?cs @ replicate ?pad (CHR ''='')" by (simp only: std_encode_def Let_def)
  have plain: "filter (\<lambda>c. c \<noteq> CHR 0x0A \<and> c \<noteq> CHR 0x0D) (std_encode s) = std_encode s"
    unfolding enc filter_append base64_plain(1) by (simp add: filter_replicate)
  have "strip_padding (std_encode s) = ?cs"
    unfolding enc by (rule strip_padding_app [OF refl base64_plain(2)]) (use pad in simp)
  moreover have "length (std_encode s) mod 4 = 0"
    unfolding enc length_append length_replicate using pad by simp
  ultimately show ?thesis unfolding std_decode_def Let_def plain by (simp only: base64_round if_False not_True_eq_False) simp
qed

lemma load_keys_current:
  "load_keys y ks = Inr keys \<Longrightarrow> (\<forall>i\<in>fst ` set ks. CHR '':'' \<notin> set i) \<and>
    map_of keys i = Option.bind (map_of ks i) key_of"
proof (induction ks arbitrary: keys)
  case (Cons x ks)
  obtain j encoded where x: "x = (j, encoded)" by fastforce
  from Cons.prems obtain k rest where "CHR '':'' \<notin> set j" "key_of encoded = Some k" "load_keys y ks = Inr rest" "keys = (j, k) # rest"
    by (auto simp: x split: if_splits option.splits sum.splits)
  then show ?case using Cons.IH [of rest] by (auto simp: x)
qed simp

lemma new_cipher_run:
  assumes "new_cipher y cfg = Inr c"
  obtains keys where "load_keys y (cc_keys cfg) = Inr keys" "ci_current c = cc_current_key_id cfg"
    "ci_aeads c = map (\<lambda>(i, k). (i, cy_gcm y k)) keys" "map_of (cc_keys cfg) (cc_current_key_id cfg) \<noteq> None"
  using assms by (auto simp: new_cipher_def split: if_splits sum.splits option.splits)

lemma split_n_append: "c \<notin> set x \<Longrightarrow> split_n c (Suc (Suc n)) (x @ c # z) = x # split_n c (Suc n) z"
  by (induction x) (auto simp: takeWhile_append)

text \<open>
  C31. A sealed value opens to what was sealed, under every later configuration that still has the key it was sealed
  with, whichever key is current by then.
\<close>

theorem sealed_opens_after_rotation:
  assumes laws: "\<forall>k. aead_ok (cy_gcm y k) \<and> ae_nonce_size (cy_gcm y k) = length nonce"
    and made: "new_cipher y cfg = Inr c" "new_cipher y later = Inr d"
    and kept: "map_of (cc_keys later) (cc_current_key_id cfg) = map_of (cc_keys cfg) (cc_current_key_id cfg)"
    and sealed: "seal c nonce plain = Some x"
  shows "is_sealed x \<and> open_sealed d x = Inr plain"
proof -
  let ?i = "cc_current_key_id cfg"
  obtain keys where keys: "load_keys y (cc_keys cfg) = Inr keys" "ci_current c = ?i"
    "ci_aeads c = map (\<lambda>(i, k). (i, cy_gcm y k)) keys" "map_of (cc_keys cfg) ?i \<noteq> None"
    by (rule new_cipher_run [OF made(1)])
  obtain more_keys where more: "load_keys y (cc_keys later) = Inr more_keys" "ci_aeads d = map (\<lambda>(i, k). (i, cy_gcm y k)) more_keys"
    by (rule new_cipher_run [OF made(2)])
  have same: "map_of more_keys ?i = map_of keys ?i" and colon: "CHR '':'' \<notin> set ?i"
    using load_keys_current [OF keys(1), of ?i] load_keys_current [OF more(1), of ?i] kept keys(4)
    by (auto simp: map_of_eq_None_iff)
  have aeads: "map_of (map (\<lambda>(i, k). (i, cy_gcm y k)) ks) i = map_option (cy_gcm y) (map_of ks i)" for ks i
    by (induction ks) auto
  obtain k where k: "map_of keys ?i = Some k" and x: "x = ''v1:'' @ ?i @ '':'' @ std_encode (nonce @ ae_seal (cy_gcm y k) nonce plain ?i)"
    using sealed by (auto simp: seal_def keys(2,3) aeads split: option.splits)
  have "split_n (CHR '':'') 3 x = [''v1'', ?i, std_encode (nonce @ ae_seal (cy_gcm y k) nonce plain ?i)]"
    using split_n_append [of "CHR '':''" "''v1''" 1] split_n_append [OF colon, of 0] by (simp add: x numeral_3_eq_3)
  then show ?thesis
    using laws k by (simp add: open_sealed_def is_sealed_def x more(2) aeads same std_round aead_ok_def)
qed

definition demo_crypto :: crypto where
  "demo_crypto = \<lparr>cy_gcm = (\<lambda>k. \<lparr>ae_nonce_size = 2, ae_seal = (\<lambda>nonce plain extra. hd (k @ ''x'') # rev plain), ae_open = (\<lambda>nonce text extra.
     if take 1 text = [hd (k @ ''x'')] then Some (rev (drop 1 text)) else None)\<rparr>), cy_hmac = (\<lambda>k x. take 3 k @ x)\<rparr>"

definition demo_keys :: "string \<Rightarrow> cipher_config" where
  "demo_keys i = \<lparr>cc_current_key_id = i, cc_keys = [(''k1'', std_encode (replicate 32 (CHR ''a''))), (''k2'', std_encode (replicate 32 (CHR ''b'')))]\<rparr>"

definition demo_cipher :: "string \<Rightarrow> cipher" where
  "demo_cipher i = (case new_cipher demo_crypto (demo_keys i) of Inr c \<Rightarrow> c)"

lemma demo_cipher_made: "new_cipher demo_crypto (demo_keys ''k1'') = Inr (demo_cipher ''k1'')"
  "new_cipher demo_crypto (demo_keys ''k2'') = Inr (demo_cipher ''k2'')"
proof -
  have key: "key_of (std_encode (replicate 32 ch)) = Some (replicate 32 ch)" for ch by (simp add: key_of_def std_round)
  have some: "std_encode (replicate 32 ch) \<noteq> []" for ch :: char
    using std_round [of "replicate 32 ch"] by (auto simp: std_decode_def strip_padding_def base64_decode_def)
  show "new_cipher demo_crypto (demo_keys ''k1'') = Inr (demo_cipher ''k1'')"
    "new_cipher demo_crypto (demo_keys ''k2'') = Inr (demo_cipher ''k2'')"
    by (simp_all add: demo_cipher_def new_cipher_def demo_keys_def key some)
qed

lemma sealed_opens_after_rotation_witness:
  "\<exists>x. seal (demo_cipher ''k1'') ''nn'' ''12345678'' = Some x \<and> is_sealed x \<and> open_sealed (demo_cipher ''k2'') x = Inr ''12345678''"
proof -
  have laws: "\<forall>k. aead_ok (cy_gcm demo_crypto k) \<and> ae_nonce_size (cy_gcm demo_crypto k) = length ''nn''"
    by (simp add: aead_ok_def demo_crypto_def)
  obtain keys where keys: "load_keys demo_crypto (cc_keys (demo_keys ''k1'')) = Inr keys" "ci_current (demo_cipher ''k1'') = ''k1''"
    "ci_aeads (demo_cipher ''k1'') = map (\<lambda>(i, k). (i, cy_gcm demo_crypto k)) keys"
    by (rule new_cipher_run [OF demo_cipher_made(1)]) (simp add: demo_keys_def)
  then have "seal (demo_cipher ''k1'') ''nn'' ''12345678'' \<noteq> None"
    by (auto simp: seal_def demo_keys_def split: sum.splits option.splits)
  then obtain x where "seal (demo_cipher ''k1'') ''nn'' ''12345678'' = Some x" by auto
  with sealed_opens_after_rotation [OF laws demo_cipher_made _ this] show ?thesis by (simp add: demo_keys_def)
qed

end
