(* ===== verification/DaoOrder.thy ===== *)
theory DaoOrder
  imports PaymentLog
begin

text \<open>
  Orders, their lines and tenders, the refunds of orders and the item catalogue
  (\<open>internal/models/dao/order.go\<close>), the tables that hold them, and the queries on them
  (\<open>internal/repository/postgresql/order.go\<close>).

  The CHECK constraints of the migrations are predicates that an insert or an update has to
  meet; arithmetic of theirs that overflows counts as not met. The columns a query reads
  through a join are filled in when a row is read.
\<close>

section \<open>Rows\<close>

record item =
  it_id :: int
  it_public_id :: string
  it_product_id :: int
  it_code :: string
  it_name :: string
  it_reference_price :: int
  it_currency :: string
  it_tax_class :: string
  it_status :: string
  it_created_at :: int
  it_updated_at :: int

datatype order_status = OrderPendingPayment | OrderPaid | OrderPartiallyRefunded | OrderRefunded | OrderFailed | OrderCancelled

record order_row =
  od_id :: int
  od_public_id :: string
  od_product_id :: int
  od_customer_id :: "int option"
  od_external_ref :: string
  od_invoice_ref :: string
  od_currency :: string
  od_subtotal :: int
  od_discount :: int
  od_tax :: int
  od_total :: int
  od_tax_rate :: string
  od_tax_breakdown_provided :: bool
  od_status :: order_status
  od_failure_reason :: "string option"
  od_gateway_amount :: int
  od_refunded_subtotal :: int
  od_refunded_discount :: int
  od_refunded_tax :: int
  od_expires_at :: int
  od_paid_at :: "int option"
  od_product_public_id :: string
  od_customer_public_id :: "string option"
  od_created_at :: int
  od_updated_at :: int

record order_line =
  ol_id :: int
  ol_order_id :: int
  ol_item_id :: "int option"
  ol_description :: string
  ol_quantity :: int
  ol_unit_amount :: int
  ol_amount :: int
  ol_item_public_id :: "string option"

datatype tender_kind = TenderWallet | TenderGateway

datatype tender_status = TenderHeld | TenderCaptured | TenderReleased

record order_tender =
  ot_id :: int
  ot_order_id :: int
  ot_kind :: tender_kind
  ot_wallet_id :: "int option"
  ot_amount :: int
  ot_status :: tender_status
  ot_refunded_amount :: int
  ot_wallet_public_id :: "string option"

record order_refund =
  ox_id :: int
  ox_public_id :: string
  ox_order_id :: int
  ox_product_id :: int
  ox_amount :: int
  ox_subtotal :: int
  ox_discount :: int
  ox_tax :: int
  ox_tax_breakdown_provided :: bool
  ox_destination :: string
  ox_reason_code :: string
  ox_memo :: string
  ox_requested_by :: string
  ox_created_at :: int
  ox_order_public_id :: string

record order_refund_part =
  op_id :: int
  op_order_refund_id :: int
  op_tender_id :: int
  op_amount :: int
  op_wallet_id :: "int option"
  op_refund_id :: "int option"
  op_wallet_public_id :: "string option"
  op_refund_public_id :: "string option"

record shop = till +
  items :: "item list"
  orders :: "order_row list"
  order_lines :: "order_line list"
  order_tenders :: "order_tender list"
  order_refunds :: "order_refund list"
  order_refund_parts :: "order_refund_part list"

section \<open>Items\<close>

definition create_item :: "item \<Rightarrow> ('x shop_scheme, item) action" where
  "create_item i =
     bindM (getM (\<lambda>s. find_row (\<lambda>x. (it_product_id x, it_code x)) (it_product_id i, it_code i) (items s))) (\<lambda>known.
     bindM (getM (product_exists (Some (it_product_id i)))) (\<lambda>fk.
     if it_reference_price i < 0 \<or> it_status i \<notin> set [''active'', ''archived''] then failM Internal
     else if known \<noteq> None then failM AlreadyExists
     else if \<not> fk then failM Internal
     else bindM (getM (\<lambda>s. i\<lparr>it_id := next_id (items s), it_created_at := clock s, it_updated_at := clock s\<rparr>)) (\<lambda>row.
          bindM (modifyM (\<lambda>s. s\<lparr>items := items s @ [row]\<rparr>)) (\<lambda>_. returnM row))))"

definition get_item_by_public_id :: "string \<Rightarrow> ('x shop_scheme, item) action" where
  "get_item_by_public_id x = bindM (getM (\<lambda>s. find_row it_public_id x (items s))) (some_or NotFound)"

definition list_items :: "int \<Rightarrow> ('x shop_scheme, item list) action" where
  "list_items i = getM (\<lambda>s. sort_key it_code (filter (\<lambda>x. it_product_id x = i) (items s)))"

section \<open>Orders\<close>

definition paid_status :: "order_status \<Rightarrow> bool" where
  "paid_status st \<longleftrightarrow> st \<in> set [OrderPaid, OrderPartiallyRefunded, OrderRefunded]"

definition ck_orders_arithmetic :: "order_row \<Rightarrow> bool" where
  "ck_orders_arithmetic o' \<longleftrightarrow> in64 (od_subtotal o' - od_discount o') \<and> od_subtotal o' - od_discount o' + od_tax o' = od_total o'"

definition ck_orders_paid :: "order_row \<Rightarrow> bool" where
  "ck_orders_paid o' \<longleftrightarrow> paid_status (od_status o') = (od_paid_at o' \<noteq> None)"

definition ck_orders_refunded :: "order_row \<Rightarrow> bool" where
  "ck_orders_refunded o' \<longleftrightarrow> 0 \<le> od_refunded_subtotal o' \<and> od_refunded_subtotal o' \<le> od_subtotal o' \<and>
     0 \<le> od_refunded_discount o' \<and> od_refunded_discount o' \<le> od_discount o' \<and>
     0 \<le> od_refunded_tax o' \<and> od_refunded_tax o' \<le> od_tax o' \<and>
     0 \<le> od_refunded_subtotal o' - od_refunded_discount o' + od_refunded_tax o' \<and>
     od_refunded_subtotal o' - od_refunded_discount o' + od_refunded_tax o' \<le> od_total o'"

text \<open>The other constraints of the table.\<close>

definition order_checks :: "order_row \<Rightarrow> bool" where
  "order_checks o' \<longleftrightarrow> od_discount o' \<le> od_subtotal o' \<and> od_gateway_amount o' \<le> od_total o' \<and> 0 \<le> od_subtotal o' \<and>
     0 \<le> od_discount o' \<and> 0 \<le> od_tax o' \<and> 0 < od_total o' \<and> 0 \<le> od_gateway_amount o'"

definition order_ref :: "int \<Rightarrow> string \<Rightarrow> 'x shop_scheme \<Rightarrow> order_row option" where
  "order_ref product ref s = find_row (\<lambda>x. (od_product_id x, od_external_ref x)) (product, ref) (orders s)"

definition order_refs :: "order_row \<Rightarrow> 'x estate_scheme \<Rightarrow> bool" where
  "order_refs o' s \<longleftrightarrow> product_exists (Some (od_product_id o')) s \<and>
     (case od_customer_id o' of None \<Rightarrow> True | Some i \<Rightarrow> find_row cu_id i (customers s) \<noteq> None)"

definition create_order :: "order_row \<Rightarrow> ('x shop_scheme, order_row) action" where
  "create_order o' =
     bindM (getM (\<lambda>s. o'\<lparr>od_id := next_id (orders s), od_failure_reason := None, od_refunded_subtotal := 0,
        od_refunded_discount := 0, od_refunded_tax := 0, od_paid_at := None, od_created_at := clock s, od_updated_at := clock s\<rparr>)) (\<lambda>row.
     bindM (getM (order_ref (od_product_id o') (od_external_ref o'))) (\<lambda>known.
     bindM (getM (order_refs o')) (\<lambda>fk.
     if \<not> ck_orders_arithmetic row then failM InvalidArgument
     else if \<not> ck_orders_paid row \<or> \<not> ck_orders_refunded row \<or> \<not> order_checks row then failM Internal
     else if known \<noteq> None then failM AlreadyExists
     else if \<not> fk then failM Internal
     else bindM (modifyM (\<lambda>s. s\<lparr>orders := orders s @ [row]\<rparr>)) (\<lambda>_.
       returnM (o'\<lparr>od_id := od_id row, od_created_at := od_created_at row, od_updated_at := od_updated_at row\<rparr>)))))"

definition write_order :: "order_row \<Rightarrow> int \<Rightarrow> order_row \<Rightarrow> order_row" where
  "write_order o' now row = row\<lparr>od_status := od_status o', od_failure_reason := od_failure_reason o', od_paid_at := od_paid_at o',
     od_refunded_subtotal := od_refunded_subtotal o', od_refunded_discount := od_refunded_discount o',
     od_refunded_tax := od_refunded_tax o', od_updated_at := now\<rparr>"

definition update_order :: "order_row \<Rightarrow> ('x shop_scheme, order_row) action" where
  "update_order o' = bindM (getM (\<lambda>s. find_row od_id (od_id o') (orders s))) (\<lambda>r. case r of
     None \<Rightarrow> failM Internal
   | Some row \<Rightarrow> bindM (getM (\<lambda>s. write_order o' (clock s) row)) (\<lambda>row'.
       if \<not> ck_orders_paid row' then failM Internal
       else if \<not> ck_orders_refunded row' then failM FailedPrecondition
       else bindM (modifyM (\<lambda>s. s\<lparr>orders := update_rows od_id (od_id o') (\<lambda>_. row') (orders s)\<rparr>)) (\<lambda>_.
         returnM (o'\<lparr>od_updated_at := od_updated_at row'\<rparr>))))"

definition read_order :: "'x estate_scheme \<Rightarrow> order_row \<Rightarrow> order_row option" where
  "read_order s o' = (case find_row pr_id (od_product_id o') (products s) of
     None \<Rightarrow> None
   | Some pr \<Rightarrow> Some (o'\<lparr>od_product_public_id := pr_public_id pr,
       od_customer_public_id := (case od_customer_id o' of None \<Rightarrow> None
         | Some i \<Rightarrow> map_option cu_public_id (find_row cu_id i (customers s)))\<rparr>))"

definition get_order_by_public_id :: "string \<Rightarrow> ('x shop_scheme, order_row) action" where
  "get_order_by_public_id x = bindM (getM (\<lambda>s. Option.bind (find_row od_public_id x (orders s)) (read_order s))) (some_or NotFound)"

definition get_order_by_external_ref :: "int \<Rightarrow> string \<Rightarrow> ('x shop_scheme, order_row) action" where
  "get_order_by_external_ref product ref =
     bindM (getM (\<lambda>s. Option.bind (order_ref product ref s) (read_order s))) (some_or NotFound)"

definition lock_order :: "ctx \<Rightarrow> int \<Rightarrow> ('x shop_scheme, order_row) action" where
  "lock_order c i = (if \<not> in_tx c then failM Internal
     else bindM (getM (\<lambda>s. Option.bind (find_row od_id i (orders s)) (read_order s))) (some_or NotFound))"

definition list_expired_orders :: "int \<Rightarrow> nat \<Rightarrow> ('x shop_scheme, order_row list) action" where
  "list_expired_orders now limit = getM (\<lambda>s. take limit (List.map_filter (read_order s) (sort_key od_expires_at
     (filter (\<lambda>o'. od_status o' = OrderPendingPayment \<and> od_expires_at o' \<le> now) (orders s)))))"

section \<open>Lines and tenders\<close>

definition order_exists :: "int \<Rightarrow> 'x shop_scheme \<Rightarrow> bool" where
  "order_exists i s \<longleftrightarrow> find_row od_id i (orders s) \<noteq> None"

definition create_order_line :: "order_line \<Rightarrow> ('x shop_scheme, order_line) action" where
  "create_order_line l = bindM (getM (order_exists (ol_order_id l))) (\<lambda>fk.
     if \<not> 0 < ol_quantity l \<or> 2 ^ 31 \<le> ol_quantity l \<or> ol_unit_amount l < 0 \<or> ol_amount l \<noteq> ol_quantity l * ol_unit_amount l \<or> \<not> fk then failM Internal
     else bindM (getM (\<lambda>s. l\<lparr>ol_id := next_id (order_lines s)\<rparr>)) (\<lambda>row.
       bindM (modifyM (\<lambda>s. s\<lparr>order_lines := order_lines s @ [row]\<rparr>)) (\<lambda>_. returnM row)))"

definition read_line :: "'x shop_scheme \<Rightarrow> order_line \<Rightarrow> order_line" where
  "read_line s l = l\<lparr>ol_item_public_id := (case ol_item_id l of None \<Rightarrow> None
     | Some i \<Rightarrow> map_option it_public_id (find_row it_id i (items s)))\<rparr>"

definition list_order_lines :: "int \<Rightarrow> ('x shop_scheme, order_line list) action" where
  "list_order_lines i = getM (\<lambda>s. map (read_line s) (filter (\<lambda>l. ol_order_id l = i) (order_lines s)))"

definition ck_tender :: "order_tender \<Rightarrow> bool" where
  "ck_tender t \<longleftrightarrow> 0 < ot_amount t \<and> (ot_kind t = TenderWallet) = (ot_wallet_id t \<noteq> None)"

definition one_gateway :: "order_tender \<Rightarrow> order_tender list \<Rightarrow> bool" where
  "one_gateway t rows \<longleftrightarrow> ot_kind t \<noteq> TenderGateway \<or> \<not> list_ex (\<lambda>x. ot_order_id x = ot_order_id t \<and> ot_kind x = TenderGateway) rows"

definition tender_refs :: "order_tender \<Rightarrow> 'x shop_scheme \<Rightarrow> bool" where
  "tender_refs t s \<longleftrightarrow> order_exists (ot_order_id t) s \<and>
     (case ot_wallet_id t of None \<Rightarrow> True | Some i \<Rightarrow> find_row wa_id i (wallets s) \<noteq> None)"

definition create_order_tender :: "order_tender \<Rightarrow> ('x shop_scheme, order_tender) action" where
  "create_order_tender t = bindM (getM (tender_refs t)) (\<lambda>fk.
     bindM (getM (\<lambda>s. one_gateway t (order_tenders s))) (\<lambda>one.
     if \<not> ck_tender t \<or> \<not> one \<or> \<not> fk then failM Internal
     else bindM (getM (\<lambda>s. next_id (order_tenders s))) (\<lambda>i.
       bindM (modifyM (\<lambda>s. s\<lparr>order_tenders := order_tenders s @ [t\<lparr>ot_id := i, ot_refunded_amount := 0, ot_wallet_public_id := None\<rparr>]\<rparr>)) (\<lambda>_.
       returnM (t\<lparr>ot_id := i\<rparr>)))))"

definition update_order_tender :: "order_tender \<Rightarrow> ('x shop_scheme, unit) action" where
  "update_order_tender t = bindM (getM (\<lambda>s. find_row ot_id (ot_id t) (order_tenders s))) (\<lambda>r. case r of
     None \<Rightarrow> returnM ()
   | Some row \<Rightarrow>
       if \<not> (0 \<le> ot_refunded_amount t \<and> ot_refunded_amount t \<le> ot_amount row) then failM FailedPrecondition
       else modifyM (\<lambda>s. s\<lparr>order_tenders := update_rows ot_id (ot_id t)
         (\<lambda>x. x\<lparr>ot_status := ot_status t, ot_refunded_amount := ot_refunded_amount t\<rparr>) (order_tenders s)\<rparr>))"

definition read_tender :: "'x estate_scheme \<Rightarrow> order_tender \<Rightarrow> order_tender" where
  "read_tender s t = t\<lparr>ot_wallet_public_id := (case ot_wallet_id t of None \<Rightarrow> None
     | Some i \<Rightarrow> map_option wa_public_id (find_row wa_id i (wallets s)))\<rparr>"

definition list_order_tenders :: "int \<Rightarrow> ('x shop_scheme, order_tender list) action" where
  "list_order_tenders i = getM (\<lambda>s. map (read_tender s) (filter (\<lambda>t. ot_order_id t = i) (order_tenders s)))"

text \<open>The latest payment of the order.\<close>

definition get_order_payment :: "int \<Rightarrow> ('x till_scheme, payment) action" where
  "get_order_payment i = bindM (getM (\<lambda>s. Option.bind (find_row pm_order_id (Some i) (rev (payments s))) (read_payment s))) (some_or NotFound)"

section \<open>Refunds of orders\<close>

definition create_order_refund :: "order_refund \<Rightarrow> ('x shop_scheme, order_refund) action" where
  "create_order_refund x = bindM (getM (order_exists (ox_order_id x))) (\<lambda>fk.
     if \<not> (in64 (ox_subtotal x - ox_discount x) \<and> ox_subtotal x - ox_discount x + ox_tax x = ox_amount x) then failM InvalidArgument
     else if \<not> 0 < ox_amount x \<or> ox_subtotal x < 0 \<or> ox_discount x < 0 \<or> ox_tax x < 0 \<or>
       ox_destination x \<notin> set [''source'', ''wallet''] \<or> \<not> fk then failM Internal
     else bindM (getM (\<lambda>s. x\<lparr>ox_id := next_id (order_refunds s), ox_created_at := clock s\<rparr>)) (\<lambda>row.
       bindM (modifyM (\<lambda>s. s\<lparr>order_refunds := order_refunds s @ [row]\<rparr>)) (\<lambda>_. returnM row)))"

definition create_order_refund_part :: "order_refund_part \<Rightarrow> ('x shop_scheme, order_refund_part) action" where
  "create_order_refund_part p =
     (if \<not> 0 < op_amount p \<or> (op_wallet_id p = None) = (op_refund_id p = None) then failM Internal
      else bindM (getM (\<lambda>s. p\<lparr>op_id := next_id (order_refund_parts s)\<rparr>)) (\<lambda>row.
        bindM (modifyM (\<lambda>s. s\<lparr>order_refund_parts := order_refund_parts s @ [row]\<rparr>)) (\<lambda>_. returnM row)))"

definition list_order_refunds :: "int \<Rightarrow> ('x shop_scheme, order_refund list) action" where
  "list_order_refunds i = getM (\<lambda>s. List.map_filter (\<lambda>x. map_option (\<lambda>o'. x\<lparr>ox_order_public_id := od_public_id o'\<rparr>)
     (find_row od_id (ox_order_id x) (orders s))) (filter (\<lambda>x. ox_order_id x = i) (order_refunds s)))"

definition list_order_refund_parts :: "int \<Rightarrow> ('x shop_scheme, order_refund_part list) action" where
  "list_order_refund_parts i = getM (\<lambda>s. map (\<lambda>p. p\<lparr>
      op_wallet_public_id := (case op_wallet_id p of None \<Rightarrow> None | Some k \<Rightarrow> map_option wa_public_id (find_row wa_id k (wallets s))),
      op_refund_public_id := (case op_refund_id p of None \<Rightarrow> None | Some k \<Rightarrow> map_option rf_public_id (find_row rf_id k (refunds s)))\<rparr>)
    (filter (\<lambda>p. op_order_refund_id p = i) (order_refund_parts s)))"

end
