(* ===== verification/Order.thy ===== *)
theory Order
  imports DaoOrder
begin

text \<open>
  The order engine (\<open>internal/order/engine.go\<close>, \<open>refund.go\<close>): recording a purchase, paying for it from
  wallets, from a card or from both, settling it when the card share is captured, closing it when it is
  not, and returning its money component by component.

  It is the payment engine's order hook: \<open>order_hook\<close> are the two calls the payment engine makes back, and
  \<open>payments_of\<close> the payment engine value with this hook set, as \<open>New\<close> connects them.
\<close>

record order_config =
  ocf_ttl :: int
  ocf_hold_grace :: int

text \<open>In seconds.\<close>

definition order_with_defaults :: "order_config \<Rightarrow> order_config" where
  "order_with_defaults c = \<lparr>ocf_ttl = (if ocf_ttl c \<le> 0 then 30 * 60 else ocf_ttl c),
     ocf_hold_grace = (if ocf_hold_grace c \<le> 0 then 60 * 60 else ocf_hold_grace c)\<rparr>"

record line_request =
  lr_item_public_id :: string
  lr_description :: string
  lr_quantity :: int
  lr_unit_amount :: int

type_synonym wallet_tender = "wallet \<times> int"

record create_order_request =
  cr_product_id :: int
  cr_customer :: "customer option"
  cr_external_ref :: string
  cr_invoice_ref :: string
  cr_currency :: string
  cr_subtotal :: int
  cr_discount :: int
  cr_tax :: int
  cr_total :: int
  cr_tax_rate :: string
  cr_breakdown_provided :: bool
  cr_lines :: "line_request list"
  cr_tenders :: "wallet_tender list"
  cr_auto_tender :: bool
  cr_description :: string
  cr_return_url :: string

record order_result =
  os_order :: order_row
  os_tenders :: "order_tender list"
  os_payment :: "payment option"

section \<open>Checking a request\<close>

text \<open>The lines one after the other, with the sum so far.\<close>

fun sum_lines :: "line_request list \<Rightarrow> int \<Rightarrow> int option" where
  "sum_lines [] acc = Some acc"
| "sum_lines (l # ls) acc = (if lr_quantity l \<le> 0 \<or> lr_unit_amount l < 0 then None
     else sum_lines ls (wrap64 (acc + wrap64 (lr_quantity l * lr_unit_amount l))))"

definition validate_amounts :: "create_order_request \<Rightarrow> code option" where
  "validate_amounts r =
     (if cr_total r \<le> 0 then Some InvalidArgument
      else if cr_subtotal r < 0 \<or> cr_discount r < 0 \<or> cr_tax r < 0 \<or> cr_subtotal r < cr_discount r then Some InvalidArgument
      else if wrap64 (cr_subtotal r - cr_discount r + cr_tax r) \<noteq> cr_total r then Some InvalidArgument
      else if cr_lines r \<noteq> [] \<and> sum_lines (cr_lines r) 0 \<noteq> Some (cr_subtotal r) then Some InvalidArgument
      else if cr_customer r = None \<and> (cr_tenders r \<noteq> [] \<or> cr_auto_tender r) then Some InvalidArgument
      else None)"

definition line_row :: "order_row \<Rightarrow> line_request \<Rightarrow> order_line" where
  "line_row o' l = \<lparr>ol_id = 0, ol_order_id = od_id o', ol_item_id = None, ol_description = lr_description l,
     ol_quantity = lr_quantity l, ol_unit_amount = lr_unit_amount l,
     ol_amount = wrap64 (lr_quantity l * lr_unit_amount l), ol_item_public_id = None\<rparr>"

definition record_line :: "order_row \<Rightarrow> line_request \<Rightarrow> ('x shop_scheme, unit) action" where
  "record_line o' l =
     (if lr_item_public_id l = [] then bindM (create_order_line (line_row o' l)) (\<lambda>_. returnM ())
      else bindM (get_item_by_public_id (lr_item_public_id l)) (\<lambda>i.
        if it_product_id i \<noteq> od_product_id o' then failM InvalidArgument
        else if it_currency i \<noteq> od_currency o' then failM InvalidArgument
        else bindM (create_order_line ((line_row o' l)\<lparr>ol_item_id := Some (it_id i),
            ol_description := (if lr_description l = [] then it_name i else lr_description l)\<rparr>)) (\<lambda>_. returnM ())))"

definition record_lines :: "order_row \<Rightarrow> line_request list \<Rightarrow> ('x shop_scheme, unit) action" where
  "record_lines o' ls = for_each ls (record_line o')"

section \<open>Planning the wallet shares\<close>

text \<open>Only called for a customer's request; Go dereferences the customer.\<close>

definition check_tender :: "create_order_request \<Rightarrow> wallet \<Rightarrow> int \<Rightarrow> ('x estate_scheme, unit) action" where
  "check_tender r w amount =
     (if amount \<le> 0 then failM InvalidArgument
      else case cr_customer r of None \<Rightarrow> panicM | Some cust \<Rightarrow>
        if wa_customer_id w \<noteq> cu_id cust then failM InvalidArgument
        else if wa_product_id w \<noteq> None \<and> wa_product_id w \<noteq> Some (cr_product_id r) then failM NotFound
        else bindM (get_wallet_type_by_id (wa_wallet_type_id w)) (\<lambda>t.
          if wt_currency t \<noteq> cr_currency r then failM InvalidArgument else check_spend w amount))"

text \<open>The explicit shares: the wallets seen so far and the sum.\<close>

fun check_tenders :: "create_order_request \<Rightarrow> wallet_tender list \<Rightarrow> int list \<Rightarrow> int \<Rightarrow> ('x estate_scheme, int) action" where
  "check_tenders r [] seen acc = returnM acc"
| "check_tenders r ((w, amount) # ts) seen acc = bindM (check_tender r w amount) (\<lambda>_.
     if wa_id w \<in> set seen then failM InvalidArgument
     else check_tenders r ts (wa_id w # seen) (wrap64 (acc + amount)))"

record candidate =
  cd_wallet :: wallet
  cd_available :: int
  cd_rank :: int

text \<open>Granted value before purchased, expiring before permanent.\<close>

definition tender_rank :: "wallet_type \<Rightarrow> int" where
  "tender_rank t = (if wt_grantable t \<and> \<not> wt_fundable t then 0 else if wt_expiry_policy t \<noteq> ExpiryNone then 1 else 2)"

definition tender_candidate :: "create_order_request \<Rightarrow> wallet \<Rightarrow> ('x estate_scheme, candidate list) action" where
  "tender_candidate r w =
     (if wa_status w \<noteq> WalletActive then returnM []
      else bindM (get_wallet_type_by_id (wa_wallet_type_id w)) (\<lambda>t.
        if wt_currency t \<noteq> cr_currency r then returnM []
        else bindM (get_balance (wa_ledger_account_id w)) (\<lambda>b.
          let have_left = available b AccountLiability in
          if have_left \<le> 0 then returnM []
          else returnM [\<lparr>cd_wallet = w, cd_available = have_left, cd_rank = tender_rank t\<rparr>])))"

text \<open>A wallet whose policy refuses the share is passed over; a panic of the check goes on.\<close>

fun draw_tenders :: "candidate list \<Rightarrow> int \<Rightarrow> ('x estate_scheme, wallet_tender list) action" where
  "draw_tenders [] remaining = returnM []"
| "draw_tenders (cd # cds) remaining =
     (if remaining = 0 then returnM []
      else let take_now = min (cd_available cd) remaining in
        bindM (tryM (check_spend (cd_wallet cd) take_now)) (\<lambda>ok. case ok of
          Inl _ \<Rightarrow> draw_tenders cds remaining
        | Inr _ \<Rightarrow> bindM (draw_tenders cds (remaining - take_now)) (\<lambda>ts. returnM ((cd_wallet cd, take_now) # ts))))"

definition auto_tender :: "create_order_request \<Rightarrow> ('x estate_scheme, wallet_tender list) action" where
  "auto_tender r = (case cr_customer r of
     None \<Rightarrow> panicM
   | Some cust \<Rightarrow>
       bindM (list_customer_wallets (cu_id cust) (Some (only_products [cr_product_id r])) True) (\<lambda>ws.
       bindM (map_m (tender_candidate r) ws) (\<lambda>found.
       draw_tenders (sort_key cd_rank (sort_key (\<lambda>cd. wa_id (cd_wallet cd)) (concat found))) (cr_total r))))"

definition plan_tenders :: "create_order_request \<Rightarrow> ('x estate_scheme, wallet_tender list) action" where
  "plan_tenders r =
     (if cr_auto_tender r then auto_tender r
      else bindM (check_tenders r (cr_tenders r) [] 0) (\<lambda>shares.
        if cr_total r < shares then failM InvalidArgument else returnM (cr_tenders r)))"

section \<open>The settlement journal\<close>

definition paid_journal_id :: "order_row \<Rightarrow> string" where
  "paid_journal_id o' = ''order:'' @ od_public_id o' @ '':paid''"

definition leg_if :: "int \<Rightarrow> int \<Rightarrow> int \<Rightarrow> string \<Rightarrow> posting list" where
  "leg_if account dir amount cur = (if 0 < amount then [new_leg account dir amount cur] else [])"

definition tender_wallet :: "order_tender \<Rightarrow> ('x estate_scheme, wallet) action" where
  "tender_wallet t = (case ot_wallet_public_id t of None \<Rightarrow> panicM | Some ref \<Rightarrow> get_wallet_by_public_id ref)"

definition tender_leg :: "string \<Rightarrow> string \<Rightarrow> order_tender \<Rightarrow> ('x estate_scheme, posting list) action" where
  "tender_leg cur provider_name t = (case ot_kind t of
     TenderWallet \<Rightarrow> bindM (tender_wallet t) (\<lambda>w. returnM (leg_if (wa_ledger_account_id w) Debit (ot_amount t) cur))
   | TenderGateway \<Rightarrow> bindM (get_ledger_account_by_code (psp_receivable provider_name)) (\<lambda>a.
       returnM (leg_if (la_id a) Debit (ot_amount t) cur)))"

definition component_leg :: "string \<Rightarrow> string \<times> int \<times> int \<Rightarrow> ('x ledger_scheme, posting list) action" where
  "component_leg cur component = (case component of (code, dir, amount) \<Rightarrow>
     if amount = 0 then returnM []
     else bindM (get_ledger_account_by_code code) (\<lambda>a. returnM (leg_if (la_id a) dir amount cur)))"

definition settlement_journal :: "order_row \<Rightarrow> order_tender list \<Rightarrow> string \<Rightarrow> ('x estate_scheme, journal) action" where
  "settlement_journal o' ts provider_name =
     bindM (get_product_by_id (od_product_id o')) (\<lambda>product.
     bindM (map_m (tender_leg (od_currency o') provider_name) ts) (\<lambda>shares.
     bindM (map_m (component_leg (od_currency o'))
        [(product_discounts (pr_code product), Debit, od_discount o'), (product_sales (pr_code product), Credit, od_subtotal o'),
         (gst_payable, Credit, od_tax o')]) (\<lambda>components.
     bindM (new_id LedgerJournalId) (\<lambda>pid.
     returnM \<lparr>jo_id = 0, jo_public_id = pid, jo_external_id = paid_journal_id o', jo_kind = JournalPurchase,
       jo_product_id = Some (od_product_id o'), jo_source_kind = Some ''order'', jo_source_id = Some (od_public_id o'),
       jo_reverses_journal_id = None,
       jo_memo = ''order '' @ od_external_ref o' @
         (if od_tax_breakdown_provided o' then [] else '' (no tax breakdown provided: booked gross)''),
       jo_reason_code = None, jo_posted_at = 0, jo_postings = concat shares @ concat components, jo_product_public_id = None,
       jo_reverses_journal_public_id = None, jo_created_at = 0\<rparr>))))"

section \<open>Ends of an order\<close>

fun order_status_string :: "order_status \<Rightarrow> string" where
  "order_status_string OrderPendingPayment = ''pending_payment''"
| "order_status_string OrderPaid = ''paid''"
| "order_status_string OrderPartiallyRefunded = ''partially_refunded''"
| "order_status_string OrderRefunded = ''refunded''"
| "order_status_string OrderFailed = ''failed''"
| "order_status_string OrderCancelled = ''cancelled''"

definition order_event :: "order_row \<Rightarrow> payload" where
  "order_event o' = [(''order_id'', JStr (od_public_id o')), (''external_ref'', JStr (od_external_ref o')),
     (''product_id'', JStr (od_product_public_id o'))] @ opt_field ''customer_id'' (od_customer_public_id o') @
     [(''status'', JStr (order_status_string (od_status o'))), (''total'', JInt (od_total o')), (''currency'', JStr (od_currency o'))] @
     opt_field ''failure_reason'' (od_failure_reason o')"

definition emit_order :: "order_row \<Rightarrow> string \<Rightarrow> ('x estate_scheme, unit) action" where
  "emit_order o' topic = bindM (new_id OutboxEventId) (\<lambda>pid.
     bindM (save_outbox_event (new_event pid topic ''order'' (od_public_id o') (order_event o'))) (\<lambda>_. returnM ()))"

definition mark_paid :: "order_row \<Rightarrow> ('x shop_scheme, unit) action" where
  "mark_paid o' = bindM (getM clock) (\<lambda>now.
     bindM (update_order (o'\<lparr>od_status := OrderPaid, od_paid_at := Some now\<rparr>)) (\<lambda>o''. emit_order o'' ''order.paid''))"

text \<open>A hold already released or expired is fine: nothing is held either way.\<close>

definition let_go :: "ctx \<Rightarrow> order_row \<Rightarrow> order_tender \<Rightarrow> ('x estate_scheme, unit) action" where
  "let_go c o' t = bindM (tender_wallet t) (\<lambda>w.
     bindM (tryM (release_wallet_hold c w (od_public_id o'))) (\<lambda>r. case r of
       Inr _ \<Rightarrow> returnM ()
     | Inl err \<Rightarrow> if is_code err FailedPrecondition then returnM () else errM err))"

definition release_tender :: "ctx \<Rightarrow> order_row \<Rightarrow> order_tender \<Rightarrow> ('x shop_scheme, unit) action" where
  "release_tender c o' t =
     (if ot_status t \<noteq> TenderHeld then returnM ()
      else bindM (if ot_kind t = TenderWallet then let_go c o' t else returnM ()) (\<lambda>_.
        update_order_tender (t\<lparr>ot_status := TenderReleased\<rparr>)))"

definition end_order :: "ctx \<Rightarrow> order_row \<Rightarrow> order_status \<Rightarrow> string \<Rightarrow> ('x shop_scheme, unit) action" where
  "end_order c o' status reason =
     bindM (list_order_tenders (od_id o')) (\<lambda>ts.
     bindM (for_each ts (release_tender c o')) (\<lambda>_.
     bindM (update_order (o'\<lparr>od_status := status, od_failure_reason := Some reason\<rparr>)) (\<lambda>o''.
     emit_order o'' (if status = OrderCancelled then ''order.cancelled'' else ''order.failed''))))"

definition fail_order :: "ctx \<Rightarrow> order_row \<Rightarrow> string \<Rightarrow> ('x shop_scheme, unit) action" where
  "fail_order c o' reason = end_order c o' OrderFailed reason"

section \<open>The hook of the payment engine\<close>

text \<open>The wallets of the wallet shares, in order, and the ids of their holds that are still active.\<close>

definition share_hold :: "order_row \<Rightarrow> order_tender \<Rightarrow> ('x estate_scheme, (wallet \<times> string list) list) action" where
  "share_hold o' t =
     (if ot_kind t \<noteq> TenderWallet then returnM []
      else bindM (tender_wallet t) (\<lambda>w. let hold_id = hold_external_id w (od_public_id o') in
        bindM (tryM (get_hold hold_id)) (\<lambda>r. returnM [(w, case r of
          Inr h \<Rightarrow> if ho_status h = HoldActive then [hold_id] else []
        | Inl _ \<Rightarrow> [])])))"

definition settle_holds :: "ctx \<Rightarrow> string list \<Rightarrow> journal \<Rightarrow> ('x ledger_scheme, journal) action" where
  "settle_holds c active j = with_savepoint c (\<lambda>c.
     if active = [] then post_journal c j
     else bindM (capture_holds c active j) (\<lambda>(_, _, j'). returnM j'))"

definition capture_shares :: "ctx \<Rightarrow> order_row \<Rightarrow> order_tender list \<Rightarrow> string \<Rightarrow> ('x shop_scheme, bool) action" where
  "capture_shares c o' ts provider_name =
     bindM (map_m (share_hold o') ts) (\<lambda>found. let shares = concat found in
     bindM (settlement_journal o' ts provider_name) (\<lambda>j.
     bindM (tryM (settle_holds c (concat (map snd shares)) j)) (\<lambda>r. case r of
       Inl err \<Rightarrow> if is_code err InsufficientBalance
         then bindM (fail_order c o' ''a wallet share was no longer available when the card payment completed'') (\<lambda>_. returnM False)
         else errM err
     | Inr j' \<Rightarrow>
         bindM (for_each ts (\<lambda>t. update_order_tender (t\<lparr>ot_status := TenderCaptured\<rparr>))) (\<lambda>_.
         bindM (emit_movements j' (map fst shares)) (\<lambda>_.
         bindM (mark_paid o') (\<lambda>_. returnM True))))))"

definition capture_order :: "ctx \<Rightarrow> payment \<Rightarrow> string \<Rightarrow> ('x shop_scheme, bool) action" where
  "capture_order c p provider_name = (case pm_order_id p of
     None \<Rightarrow> panicM
   | Some i \<Rightarrow>
       bindM (lock_order c i) (\<lambda>o'.
       if od_status o' \<noteq> OrderPendingPayment then returnM False
       else if pm_captured_amount p \<noteq> Some (od_gateway_amount o')
       then bindM (fail_order c o' ''card share captured for a different amount'') (\<lambda>_. returnM False)
       else bindM (list_order_tenders (od_id o')) (\<lambda>ts. capture_shares c o' ts provider_name)))"

definition payment_ended :: "ctx \<Rightarrow> payment \<Rightarrow> ('x shop_scheme, unit) action" where
  "payment_ended c p = (case pm_order_id p of
     None \<Rightarrow> panicM
   | Some i \<Rightarrow>
       bindM (lock_order c i) (\<lambda>o'.
       if od_status o' \<noteq> OrderPendingPayment then returnM ()
       else if pm_status p = PaymentCancelled then end_order c o' OrderCancelled ''cancelled''
       else fail_order c o' (''card payment '' @ payment_status_string (pm_status p))))"

definition the_order_hook :: "'x shop_scheme order_hook" where
  "the_order_hook = \<lparr>hk_capture_order = capture_order, hk_payment_ended = payment_ended\<rparr>"

record 's order_engine =
  oen_payments :: "'s payment_engine"
  oen_config :: order_config

definition payments_of :: "'x shop_scheme order_engine \<Rightarrow> 'x shop_scheme payment_engine" where
  "payments_of e = (oen_payments e)\<lparr>pen_orders := Some the_order_hook\<rparr>"

section \<open>Creating an order\<close>

definition wallet_share_row :: "order_row \<Rightarrow> tender_status \<Rightarrow> wallet_tender \<Rightarrow> order_tender" where
  "wallet_share_row o' status t = \<lparr>ot_id = 0, ot_order_id = od_id o', ot_kind = TenderWallet, ot_wallet_id = Some (wa_id (fst t)),
     ot_amount = snd t, ot_status = status, ot_refunded_amount = 0,
     ot_wallet_public_id = None\<rparr>"

definition settle_from_wallets :: "ctx \<Rightarrow> order_row \<Rightarrow> wallet_tender list \<Rightarrow> ('x shop_scheme, unit) action" where
  "settle_from_wallets c o' ts =
     bindM (map_m (\<lambda>t. create_order_tender ((wallet_share_row o' TenderCaptured t)
        \<lparr>ot_wallet_public_id := Some (wa_public_id (fst t))\<rparr>)) ts) (\<lambda>rows.
     bindM (settlement_journal o' rows []) (\<lambda>j.
     bindM (post_journal c j) (\<lambda>j'.
     bindM (emit_movements j' (map fst ts)) (\<lambda>_. mark_paid o'))))"

definition hold_share :: "'x shop_scheme order_engine \<Rightarrow> ctx \<Rightarrow> order_row \<Rightarrow> wallet_tender \<Rightarrow> ('x shop_scheme, unit) action" where
  "hold_share e c o' t =
     bindM (hold_wallet c \<lparr>hq_wallet = fst t, hq_amount = snd t, hq_reference = od_public_id o',
        hq_expires_at = od_expires_at o' + ocf_hold_grace (oen_config e)\<rparr>) (\<lambda>_.
     bindM (create_order_tender (wallet_share_row o' TenderHeld t)) (\<lambda>_. returnM ()))"

definition hold_and_charge :: "'x shop_scheme order_engine \<Rightarrow> ctx \<Rightarrow> order_row \<Rightarrow> wallet_tender list \<Rightarrow> create_order_request \<Rightarrow>
    ('x shop_scheme, unit) action" where
  "hold_and_charge e c o' ts r =
     bindM (for_each ts (hold_share e c o')) (\<lambda>_.
     bindM (create_order_tender \<lparr>ot_id = 0, ot_order_id = od_id o', ot_kind = TenderGateway, ot_wallet_id = None,
        ot_amount = od_gateway_amount o', ot_status = TenderHeld, ot_refunded_amount = 0, ot_wallet_public_id = None\<rparr>) (\<lambda>_.
     bindM (create_order_payment (payments_of e) c \<lparr>oq_product_id = od_product_id o', oq_customer = cr_customer r,
        oq_order_id = od_id o', oq_amount = od_gateway_amount o', oq_currency = od_currency o', oq_description = cr_description r,
        oq_return_url = cr_return_url r, oq_expires_at = od_expires_at o'\<rparr>) (\<lambda>_. returnM ())))"

definition order_result_of :: "order_row \<Rightarrow> ('x shop_scheme, order_result) action" where
  "order_result_of o' =
     bindM (list_order_tenders (od_id o')) (\<lambda>ts.
     if 0 < od_gateway_amount o'
     then bindM (get_order_payment (od_id o')) (\<lambda>p. returnM \<lparr>os_order = o', os_tenders = ts, os_payment = Some p\<rparr>)
     else returnM \<lparr>os_order = o', os_tenders = ts, os_payment = None\<rparr>)"

definition new_order :: "create_order_request \<Rightarrow> string \<Rightarrow> int \<Rightarrow> int \<Rightarrow> order_row" where
  "new_order r pid wallet_share expires = \<lparr>od_id = 0, od_public_id = pid, od_product_id = cr_product_id r,
     od_customer_id = map_option cu_id (cr_customer r), od_external_ref = cr_external_ref r, od_invoice_ref = cr_invoice_ref r,
     od_currency = cr_currency r, od_subtotal = cr_subtotal r, od_discount = cr_discount r, od_tax = cr_tax r, od_total = cr_total r,
     od_tax_rate = cr_tax_rate r, od_tax_breakdown_provided = cr_breakdown_provided r, od_status = OrderPendingPayment,
     od_failure_reason = None, od_gateway_amount = wrap64 (cr_total r - wallet_share), od_refunded_subtotal = 0,
     od_refunded_discount = 0, od_refunded_tax = 0, od_expires_at = expires, od_paid_at = None, od_product_public_id = [],
     od_customer_public_id = map_option cu_public_id (cr_customer r), od_created_at = 0, od_updated_at = 0\<rparr>"

definition record_order :: "'x shop_scheme order_engine \<Rightarrow> ctx \<Rightarrow> create_order_request \<Rightarrow> ('x shop_scheme, order_result) action" where
  "record_order e c r =
     bindM (plan_tenders r) (\<lambda>ts.
     bindM (new_id OrderId) (\<lambda>pid.
     bindM (getM clock) (\<lambda>now.
     bindM (create_order (new_order r pid (fold (\<lambda>t acc. wrap64 (acc + snd t)) ts 0) (now + ocf_ttl (oen_config e)))) (\<lambda>o'.
     bindM (record_lines o' (cr_lines r)) (\<lambda>_.
     bindM (if od_gateway_amount o' = 0 then settle_from_wallets c o' ts else hold_and_charge e c o' ts r) (\<lambda>_.
     bindM (lock_order c (od_id o')) order_result_of))))))"

definition create_order_for :: "'x shop_scheme order_engine \<Rightarrow> ctx \<Rightarrow> create_order_request \<Rightarrow> ('x shop_scheme, order_result) action" where
  "create_order_for e c r =
     bindM (guardM (validate_amounts r)) (\<lambda>_.
     bindM (tryM (get_order_by_external_ref (cr_product_id r) (cr_external_ref r))) (\<lambda>existing. case existing of
       Inr o' \<Rightarrow> if od_total o' \<noteq> cr_total r \<or> od_currency o' \<noteq> cr_currency r then failM AlreadyExists else order_result_of o'
     | Inl err \<Rightarrow> if \<not> is_code err NotFound then errM err else with_tx c (\<lambda>c. record_order e c r)))"

section \<open>Expiry and cancellation\<close>

definition expire_unpaid :: "ctx \<Rightarrow> order_row \<Rightarrow> ('x shop_scheme, unit) action" where
  "expire_unpaid c o' = with_tx c (\<lambda>c. bindM (lock_order c (od_id o')) (\<lambda>locked.
     if od_status locked \<noteq> OrderPendingPayment then returnM () else fail_order c locked ''expired unpaid''))"

definition expire_order :: "'x shop_scheme order_engine \<Rightarrow> ctx \<Rightarrow> order_row \<Rightarrow> ('x shop_scheme, unit) action" where
  "expire_order e c o' =
     bindM (tryM (get_order_payment (od_id o'))) (\<lambda>r. case r of
       Inl err \<Rightarrow> if is_code err NotFound then expire_unpaid c o' else errM err
     | Inr p \<Rightarrow> if is_open (pm_status p) then bindM (expire_payment (payments_of e) c p) (\<lambda>_. returnM ()) else returnM ())"

definition cancel_order :: "'x shop_scheme order_engine \<Rightarrow> ctx \<Rightarrow> order_row \<Rightarrow> string \<Rightarrow> ('x shop_scheme, order_row) action" where
  "cancel_order e c o' reason =
     (if od_status o' \<noteq> OrderPendingPayment then failM FailedPrecondition
      else bindM (get_order_payment (od_id o')) (\<lambda>p.
        bindM (cancel_payment (payments_of e) c p reason) (\<lambda>_.
        bindM (with_tx c (\<lambda>c. lock_order c (od_id o'))) (\<lambda>current.
        if od_status current = OrderPaid then failM FailedPrecondition else returnM current))))"

section \<open>Refunds of orders (\<open>refund.go\<close>)\<close>

record breakdown =
  bd_subtotal :: int
  bd_discount :: int
  bd_tax :: int

record order_refund_request =
  orq_order_id :: int
  orq_amount :: int
  orq_breakdown :: "breakdown option"
  orq_destination :: string
  orq_reason_code :: string
  orq_memo :: string
  orq_requested_by :: string

text \<open>The split, and whether the product sent it.\<close>

definition split_refund :: "order_row \<Rightarrow> order_refund_request \<Rightarrow> code + breakdown \<times> bool" where
  "split_refund o' r = (case orq_breakdown r of
     Some b \<Rightarrow> if bd_subtotal b < 0 \<or> bd_discount b < 0 \<or> bd_tax b < 0 \<or>
         wrap64 (bd_subtotal b - bd_discount b + bd_tax b) \<noteq> orq_amount r then Inl InvalidArgument else Inr (b, True)
   | None \<Rightarrow> if \<not> od_tax_breakdown_provided o'
       then Inr (\<lparr>bd_subtotal = orq_amount r, bd_discount = 0, bd_tax = 0\<rparr>, False)
       else let tax = wrap64 (wrap64 (orq_amount r * od_tax o') sdiv od_total o');
         discount = wrap64 (wrap64 (orq_amount r * od_discount o') sdiv od_total o')
       in Inr (\<lparr>bd_subtotal = wrap64 (orq_amount r + discount - tax), bd_discount = discount, bd_tax = tax\<rparr>, False))"

text \<open>Real money first: the card, then purchased wallets, then granted ones.\<close>

definition refund_rank :: "order_tender \<Rightarrow> ('x estate_scheme, int) action" where
  "refund_rank t =
     (if ot_kind t = TenderGateway then returnM 0
      else bindM (tender_wallet t) (\<lambda>w.
        bindM (get_wallet_type_by_id (wa_wallet_type_id w)) (\<lambda>wt. returnM (if wt_fundable wt then 1 else 2))))"

definition refund_order :: "order_tender list \<Rightarrow> ('x estate_scheme, order_tender list) action" where
  "refund_order ts = bindM (map_m refund_rank ts) (\<lambda>ranks. returnM (map fst (sort_key snd (zip ts ranks))))"

definition credit_type :: "wallet_type \<Rightarrow> bool" where
  "credit_type wt \<longleftrightarrow> wt_product_id wt \<noteq> None \<and> wt_fundable wt \<and> wt_refundable_to_source wt \<and> wt_status wt = WalletTypeActive"

definition refund_wallet :: "ctx \<Rightarrow> order_row \<Rightarrow> ('x shop_scheme, wallet) action" where
  "refund_wallet c o' = (case od_customer_public_id o' of
     None \<Rightarrow> failM FailedPrecondition
   | Some ref \<Rightarrow>
       bindM (list_wallet_types (od_product_id o')) (\<lambda>wts.
       case List.find credit_type wts of
         None \<Rightarrow> failM FailedPrecondition
       | Some wt \<Rightarrow> bindM (get_customer_by_public_id ref) (\<lambda>cust. bindM (open_wallet c cust wt) (\<lambda>(w, _). returnM w))))"

text \<open>What the loop over the tenders gathers.\<close>

record gathered =
  ga_parts :: "order_refund_part list"
  ga_credits :: "posting list"
  ga_wallets :: "wallet list"
  ga_card_share :: int
  ga_card_tender :: "int option"
  ga_remaining :: int

definition empty_part :: "order_refund \<Rightarrow> order_tender \<Rightarrow> int \<Rightarrow> order_refund_part" where
  "empty_part x t amount = \<lparr>op_id = 0, op_order_refund_id = ox_id x, op_tender_id = ot_id t, op_amount = amount,
     op_wallet_id = None, op_refund_id = None, op_wallet_public_id = None, op_refund_public_id = None\<rparr>"

definition part_to_wallet :: "order_refund_part \<Rightarrow> wallet \<Rightarrow> order_refund_part" where
  "part_to_wallet p w = p\<lparr>op_wallet_id := Some (wa_id w), op_wallet_public_id := Some (wa_public_id w)\<rparr>"

definition gather_share :: "order_row \<Rightarrow> order_refund \<Rightarrow> wallet option \<Rightarrow> order_tender \<Rightarrow> int \<Rightarrow> gathered \<Rightarrow> ('x estate_scheme, gathered) action" where
  "gather_share o' x store t amount g = (let part = empty_part x t amount; g' = g\<lparr>ga_remaining := ga_remaining g - amount\<rparr> in
     case store of
       Some w \<Rightarrow> returnM (g'\<lparr>ga_parts := ga_parts g @ [part_to_wallet part w]\<rparr>)
     | None \<Rightarrow>
         if ot_kind t = TenderWallet
         then bindM (tender_wallet t) (\<lambda>w.
           bindM (check_refund_in w amount) (\<lambda>_.
           returnM (g'\<lparr>ga_parts := ga_parts g @ [part_to_wallet part w],
             ga_credits := ga_credits g @ [new_leg (wa_ledger_account_id w) Credit amount (od_currency o')],
             ga_wallets := ga_wallets g @ [w]\<rparr>)))
         else returnM (g'\<lparr>ga_parts := ga_parts g @ [part], ga_card_share := ga_card_share g + amount, ga_card_tender := Some (ot_id t)\<rparr>))"

fun gather_shares :: "order_row \<Rightarrow> order_refund \<Rightarrow> wallet option \<Rightarrow> order_tender list \<Rightarrow> gathered \<Rightarrow> ('x shop_scheme, gathered) action" where
  "gather_shares o' x store [] g = returnM g"
| "gather_shares o' x store (t # ts) g = (let amount = min (ga_remaining g) (ot_amount t - ot_refunded_amount t) in
     if amount \<le> 0 then gather_shares o' x store ts g
     else bindM (update_order_tender (t\<lparr>ot_refunded_amount := ot_refunded_amount t + amount\<rparr>)) (\<lambda>_.
       bindM (gather_share o' x store t amount g) (\<lambda>g'.
       if ga_remaining g' = 0 then returnM g' else gather_shares o' x store ts g')))"

text \<open>The store credit and the card share are credited after the loop.\<close>

definition final_credits :: "order_row \<Rightarrow> order_refund \<Rightarrow> wallet option \<Rightarrow> int \<Rightarrow> gathered \<Rightarrow> ('x estate_scheme, posting list \<times> wallet list) action" where
  "final_credits o' x store payable g =
     bindM (case store of
        None \<Rightarrow> returnM (ga_credits g, ga_wallets g)
      | Some w \<Rightarrow> bindM (check_refund_in w (ox_amount x)) (\<lambda>_.
          returnM (ga_credits g @ [new_leg (wa_ledger_account_id w) Credit (ox_amount x) (od_currency o')], ga_wallets g @ [w]))) (\<lambda>(credits, ws).
     returnM (credits @ leg_if payable Credit (ga_card_share g) (od_currency o'), ws))"

definition reversing_leg :: "string \<Rightarrow> string \<times> int \<times> int \<Rightarrow> ('x ledger_scheme, posting list) action" where
  "reversing_leg cur component = (case component of (code, dir, amount) \<Rightarrow>
     if amount = 0 then returnM []
     else bindM (get_ledger_account_by_code code) (\<lambda>a. returnM [new_leg (la_id a) dir amount cur]))"

definition refund_journal :: "order_row \<Rightarrow> product \<Rightarrow> order_refund \<Rightarrow> breakdown \<Rightarrow> posting list \<Rightarrow> ('x estate_scheme, journal) action" where
  "refund_journal o' product x split credits =
     bindM (map_m (reversing_leg (od_currency o'))
        [(product_sales (pr_code product), Debit, bd_subtotal split), (gst_payable, Debit, bd_tax split),
         (product_discounts (pr_code product), Credit, bd_discount split)]) (\<lambda>components.
     bindM (get_journal_by_external_id (paid_journal_id o')) (\<lambda>settlement.
     bindM (new_id LedgerJournalId) (\<lambda>pid.
     returnM \<lparr>jo_id = 0, jo_public_id = pid, jo_external_id = ''order:'' @ od_public_id o' @ '':refund:'' @ ox_public_id x,
       jo_kind = JournalRefund, jo_product_id = Some (od_product_id o'), jo_source_kind = Some ''order'',
       jo_source_id = Some (od_public_id o'), jo_reverses_journal_id = Some (jo_id settlement),
       jo_memo = ''refund of order '' @ od_external_ref o' @
         (if ox_tax_breakdown_provided x then [] else '' (tax split allocated proportionally: no breakdown provided)''),
       jo_reason_code = Some (ox_reason_code x), jo_posted_at = 0, jo_postings = credits @ concat components,
       jo_product_public_id = None, jo_reverses_journal_public_id = None, jo_created_at = 0\<rparr>)))"

text \<open>The card's share goes to the card by a refund of the payment; the card's parts name it.\<close>

definition refund_card :: "'x shop_scheme order_engine \<Rightarrow> ctx \<Rightarrow> order_row \<Rightarrow> order_refund \<Rightarrow> gathered \<Rightarrow>
    ('x shop_scheme, order_refund_part list) action" where
  "refund_card e c o' x g =
     (if ga_card_share g \<le> 0 then returnM (ga_parts g)
      else bindM (get_order_payment (od_id o')) (\<lambda>p.
        bindM (create_refund (payments_of e) c \<lparr>rr_payment_id = pm_id p, rr_amount = ga_card_share g, rr_reason_code = ox_reason_code x,
          rr_memo = ''order refund '' @ ox_public_id x, rr_requested_by = ox_requested_by x\<rparr>) (\<lambda>r.
        returnM (map (\<lambda>part. if Some (op_tender_id part) = ga_card_tender g
          then part\<lparr>op_refund_id := Some (rf_id r), op_refund_public_id := Some (rf_public_id r)\<rparr> else part) (ga_parts g)))))"

definition refund_tenders :: "'x shop_scheme order_engine \<Rightarrow> ctx \<Rightarrow> order_row \<Rightarrow> product \<Rightarrow> order_refund \<Rightarrow> breakdown \<Rightarrow>
    ('x shop_scheme, order_refund_part list) action" where
  "refund_tenders e c o' product x split =
     bindM (list_order_tenders (od_id o')) (\<lambda>ts.
     bindM (refund_order ts) (\<lambda>ordered.
     bindM (if ox_destination x = ''wallet'' then bindM (refund_wallet c o') (\<lambda>w. returnM (Some w)) else returnM None) (\<lambda>store.
     bindM (get_ledger_account_by_code (product_refunds_payable (pr_code product))) (\<lambda>payable.
     bindM (gather_shares o' x store ordered \<lparr>ga_parts = [], ga_credits = [], ga_wallets = [], ga_card_share = 0,
        ga_card_tender = None, ga_remaining = ox_amount x\<rparr>) (\<lambda>g.
     if ga_remaining g \<noteq> 0 then failM FailedPrecondition
     else bindM (final_credits o' x store (la_id payable) g) (\<lambda>(credits, ws).
       bindM (refund_journal o' product x split credits) (\<lambda>j.
       bindM (post_journal c j) (\<lambda>j'.
       bindM (emit_movements j' ws) (\<lambda>_.
       bindM (refund_card e c o' x g) (\<lambda>parts.
       map_m create_order_refund_part parts))))))))))"

definition new_order_refund :: "order_row \<Rightarrow> order_refund_request \<Rightarrow> string \<Rightarrow> breakdown \<Rightarrow> bool \<Rightarrow> string \<Rightarrow> order_refund" where
  "new_order_refund o' r pid split provided destination = \<lparr>ox_id = 0, ox_public_id = pid, ox_order_id = od_id o',
     ox_product_id = od_product_id o', ox_amount = orq_amount r, ox_subtotal = bd_subtotal split, ox_discount = bd_discount split,
     ox_tax = bd_tax split, ox_tax_breakdown_provided = provided, ox_destination = destination, ox_reason_code = orq_reason_code r,
     ox_memo = orq_memo r, ox_requested_by = orq_requested_by r, ox_created_at = 0, ox_order_public_id = od_public_id o'\<rparr>"

definition count_refunded :: "order_row \<Rightarrow> breakdown \<Rightarrow> order_row" where
  "count_refunded o' b = (let x = o'\<lparr>od_refunded_subtotal := wrap64 (od_refunded_subtotal o' + bd_subtotal b),
       od_refunded_discount := wrap64 (od_refunded_discount o' + bd_discount b),
       od_refunded_tax := wrap64 (od_refunded_tax o' + bd_tax b)\<rparr>
     in x\<lparr>od_status := (if wrap64 (od_refunded_subtotal x - od_refunded_discount x + od_refunded_tax x) = od_total x
       then OrderRefunded else OrderPartiallyRefunded)\<rparr>)"

definition refund_locked :: "'x shop_scheme order_engine \<Rightarrow> ctx \<Rightarrow> order_refund_request \<Rightarrow> order_row \<Rightarrow>
    ('x shop_scheme, order_refund \<times> order_refund_part list) action" where
  "refund_locked e c r o' =
     (if od_status o' \<noteq> OrderPaid \<and> od_status o' \<noteq> OrderPartiallyRefunded then failM FailedPrecondition
      else bindM (get_product_by_id (od_product_id o')) (\<lambda>product.
        case split_refund o' r of
          Inl err \<Rightarrow> failM err
        | Inr (split, provided) \<Rightarrow>
            let destination = (if orq_destination r = [] then pr_refund_destination product else orq_destination r) in
            if destination \<noteq> ''source'' \<and> destination \<noteq> ''wallet'' then failM InvalidArgument
            else bindM (new_id RefundId) (\<lambda>pid.
              bindM (create_order_refund (new_order_refund o' r pid split provided destination)) (\<lambda>x.
              bindM (update_order (count_refunded o' split)) (\<lambda>o''.
              bindM (refund_tenders e c o'' product x split) (\<lambda>parts.
              bindM (emit_order o'' ''order.refunded'') (\<lambda>_. returnM (x, parts))))))))"

definition refund_order_for :: "'x shop_scheme order_engine \<Rightarrow> ctx \<Rightarrow> order_refund_request \<Rightarrow>
    ('x shop_scheme, order_refund \<times> order_refund_part list) action" where
  "refund_order_for e c r =
     (if orq_amount r \<le> 0 then failM InvalidArgument
      else if orq_reason_code r \<notin> set refund_reasons then failM InvalidArgument
      else with_tx c (\<lambda>c. bindM (lock_order c (orq_order_id r)) (refund_locked e c r)))"

end
