(* ===== verification/OrderSafety.thy ===== *)
theory OrderSafety
  imports Order
begin

text \<open>
  The order engine keeps what the interfaces below it keep, and with that closes the loop: it is the hook the
  payment engine calls back, so \<open>payments_of\<close>, the payment engine that reports to it, satisfies what
  the payment engine asks of its hooks.

  \<open>order_side\<close> is what the order engine does without the payment engine; \<open>shop_calls\<close> adds the payment
  engine's interface. \<open>order_step\<close> is one call of the order engine, however it ends.
\<close>

section \<open>A release that is refused\<close>

lemma reads_lock_account: "reads (lock_account i)"
  by (auto simp: reads_def lock_account_def bindM_def act_simps some_or_def split: option.splits prod.splits outcome.splits)

lemma reads_get_hold: "reads (get_hold x)"
  unfolding get_hold_def by (intro read_only)

lemma release_refused:
  assumes "release_hold c x s = (Err e, u)" "is_code e FailedPrecondition"
  shows "u = s"
  using assms
  by (auto simp: release_hold_def resolve_hold_def add_held_def update_active_hold_def bindM_def act_simps
      dest!: readsD [OF reads_get_hold] readsD [OF reads_lock_account] split: prod.splits outcome.splits if_splits option.splits)


text \<open>A handler that goes on after one kind of error, which leaves the state alone.\<close>

lemma okp_recover:
  assumes "okp I m" "\<And>s e u. I s \<Longrightarrow> m s = (Err e, u) \<Longrightarrow> is_code e k \<Longrightarrow> I u" "\<And>a. okp I (f a)" "okp I g"
  shows "okp I (bindM (tryM m) (\<lambda>r. case r of Inr a \<Rightarrow> f a | Inl e \<Rightarrow> if is_code e k then g else errM e))"
proof (rule okpI)
  fix s a u
  assume I: "I s" and run: "bindM (tryM m) (\<lambda>r. case r of Inr a \<Rightarrow> f a | Inl e \<Rightarrow> if is_code e k then g else errM e) s = (Ok a, u)"
  obtain r t where r: "m s = (r, t)" by fastforce
  show "I u"
  proof (cases r)
    case (Ok b)
    then have "f b t = (Ok a, u)" "I t" using run r okpD [OF assms(1) I] by (simp_all add: bindM_def try_apply)
    then show ?thesis by (metis okpD assms(3))
  next
    case (Err e)
    then have "is_code e k" "g t = (Ok a, u)" using run r by (auto simp: bindM_def try_apply act_simps split: if_splits)
    then show ?thesis using assms(2) [OF I] r Err by (metis okpD assms(4))
  next
    case Panicked
    then show ?thesis using run r by (simp add: bindM_def try_apply)
  qed
qed

lemma wallet_release_refused:
  assumes "env_free I" "I s" "release_wallet_hold c w x s = (Err e, u)" "is_code e FailedPrecondition"
  shows "I u"
  using assms
  by (auto simp: release_wallet_hold_def with_tx_def rollback_env_free dest: release_refused
      split: if_splits prod.splits outcome.splits)

section \<open>The order engine beside the payment engine\<close>

lemma safep_check_spend: "safep I (check_spend w amount)"
  by (auto simp: check_spend_def check_op_def get_wallet_type_by_id_def guardM_def intro!: keeps split: option.splits)

lemma safep_follow_merge: "safep I (follow_merge n x)"
  by (induction n arbitrary: x) (auto intro!: keeps split: option.splits)

lemma safep_shop_lookups:
  "safep I (tender_wallet t)" "safep I (get_hold x)" "safep I (list_order_tenders i)" "safep I (get_order_payment i)"
  "safep I (get_order_by_external_ref k x)" "safep I (list_wallet_types i)" "safep I (get_customer_by_public_id x)"
  by (auto simp: tender_wallet_def get_wallet_by_public_id_def list_order_tenders_def get_order_payment_def
      get_order_by_external_ref_def list_wallet_types_def get_customer_by_public_id_def resolve_merge_def
      intro!: keeps safep_get_hold safep_follow_merge split: option.splits)

locale order_side = estate_ops I for I :: "'x shop_scheme \<Rightarrow> bool" +
  assumes keeps_order_rows: "okp I (create_order o')" "okp I (update_order o')" "okp I (create_order_line l)"
      "okp I (create_order_tender t)" "okp I (update_order_tender t)" "okp I (create_order_refund x)" "okp I (create_order_refund_part p)"
begin

lemma keeps_order_lookups: "okp I (lock_order c i)" "okp I (get_item_by_public_id x)" "okp I (get_journal_by_external_id x)"
  by (auto simp: lock_order_def get_item_by_public_id_def get_journal_by_external_id_def intro!: keeps)

lemmas order_keeps = engine_keeps keeps_order_rows keeps_order_lookups safep_shop_lookups safep_shop_lookups [THEN safep_okp]
  safep_check_spend safep_check_spend [THEN safep_okp] keeps_event keeps_post keeps_capture keeps_release_hold keeps_hold keeps_open

lemma keeps_emit_order: "okp I (emit_order o' topic)"
  unfolding emit_order_def by (intro order_keeps)

lemma keeps_mark_paid: "okp I (mark_paid o')"
  unfolding mark_paid_def by (intro order_keeps keeps_emit_order)

lemma keeps_let_go: "okp I (let_go c o' t)"
proof -
  have "okp I (bindM (tryM (release_wallet_hold c w (od_public_id o'))) (\<lambda>r. case r of
       Inr _ \<Rightarrow> returnM () | Inl err \<Rightarrow> if is_code err FailedPrecondition then returnM () else errM err))" for w
    by (intro okp_recover keeps keeps_release_hold) (rule wallet_release_refused [OF free])
  then show ?thesis unfolding let_go_def by (rule okp_bind [OF safep_okp [OF safep_shop_lookups(1)]])
qed

lemma keeps_end_order: "okp I (end_order c o' status reason)"
  unfolding end_order_def release_tender_def by (intro order_keeps keeps_let_go keeps_emit_order)

lemma keeps_fail_order: "okp I (fail_order c o' reason)"
  unfolding fail_order_def by (rule keeps_end_order)

lemma keeps_settlement_journal: "okp I (settlement_journal o' ts name)"
proof -
  have "okp I (component_leg cur x)" for cur x
    unfolding component_leg_def by (intro order_keeps)
  moreover have "okp I (tender_leg cur n t)" for cur n t
    unfolding tender_leg_def by (cases "ot_kind t") (simp_all, (intro order_keeps)+)
  ultimately show ?thesis unfolding settlement_journal_def by (intro order_keeps)
qed

lemma safe_settle_holds: "safep I (settle_holds c active j)"
  unfolding settle_holds_def by (intro order_keeps)

lemma keeps_share_hold: "okp I (share_hold o' t)"
  unfolding share_hold_def Let_def by (intro order_keeps)

lemma keeps_capture_shares: "okp I (capture_shares c o' ts name)"
  unfolding capture_shares_def Let_def
  by (intro order_keeps keeps_share_hold keeps_settlement_journal safe_settle_holds keeps_fail_order keeps_mark_paid)

text \<open>What the payment engine asks of its hook.\<close>

lemma keeps_capture_order: "okp I (capture_order c p name)"
  unfolding capture_order_def by (intro order_keeps keeps_capture_shares keeps_fail_order)

lemma keeps_payment_ended: "okp I (payment_ended c p)"
  unfolding payment_ended_def by (intro order_keeps keeps_end_order keeps_fail_order)

text \<open>Recording an order, but for the card payment.\<close>

lemma keeps_record_lines: "okp I (record_lines o' ls)"
  unfolding record_lines_def record_line_def by (intro order_keeps)

lemma safe_draw_tenders: "safep I (draw_tenders cds n)"
proof (induction cds arbitrary: n)
  case (Cons cd cds)
  then show ?case unfolding draw_tenders.simps Let_def by (intro keeps safep_check_spend) auto
qed (simp add: keeps)

lemma keeps_check_tenders: "okp I (check_tenders r ts seen acc)"
proof (induction ts arbitrary: seen acc)
  case (Cons t ts)
  obtain w amount where t: "t = (w, amount)" by fastforce
  have "okp I (check_tender r w amount)"
    unfolding check_tender_def by (intro order_keeps)
  then show ?case unfolding t check_tenders.simps by (intro keeps Cons.IH)
qed (simp add: keeps)

lemma keeps_plan_tenders: "okp I (plan_tenders r)"
proof -
  have "okp I (tender_candidate r w)" for w
    unfolding tender_candidate_def Let_def by (intro order_keeps)
  moreover have "okp I (list_customer_wallets i f b)" for i f b
    unfolding list_customer_wallets_def by (intro order_keeps)
  ultimately show ?thesis unfolding plan_tenders_def auto_tender_def
    by (intro order_keeps safep_okp [OF safe_draw_tenders] keeps_check_tenders)
qed

lemma keeps_settle_from_wallets: "okp I (settle_from_wallets c o' ts)"
  unfolding settle_from_wallets_def by (intro order_keeps keeps_settlement_journal keeps_mark_paid)

lemma keeps_hold_share: "okp I (hold_share e c o' t)"
  unfolding hold_share_def by (intro order_keeps)

lemma keeps_order_result: "okp I (order_result_of o')"
  unfolding order_result_of_def by (intro order_keeps)

lemma keeps_expire_unpaid: "okp I (expire_unpaid c o')"
  unfolding expire_unpaid_def by (intro order_keeps keeps_fail_order)

lemma safe_expire_unpaid: "\<not> in_tx c \<Longrightarrow> safep I (expire_unpaid c o')"
  using keeps_expire_unpaid unfolding expire_unpaid_def by (rule safep_own_tx [OF free])

text \<open>Refunding, but for the refund of the card.\<close>

lemma keeps_refund_order: "okp I (refund_order ts)"
  unfolding refund_order_def refund_rank_def by (intro order_keeps)

lemma keeps_refund_wallet: "okp I (refund_wallet c o')"
  unfolding refund_wallet_def by (intro order_keeps)

lemma keeps_check_refund_in: "okp I (check_refund_in w amount)"
  unfolding check_refund_in_def check_op_def by (intro order_keeps)

lemma keeps_gather_share: "okp I (gather_share o' x store t amount g)"
  unfolding gather_share_def Let_def by (intro order_keeps keeps_check_refund_in)

lemma keeps_gather_shares: "okp I (gather_shares o' x store ts g)"
proof (induction ts arbitrary: g)
  case (Cons t ts)
  then show ?case unfolding gather_shares.simps Let_def by (intro order_keeps keeps_gather_share)
qed (simp add: keeps)

lemma keeps_final_credits: "okp I (final_credits o' x store payable g)"
  unfolding final_credits_def by (intro order_keeps keeps_check_refund_in)

lemma keeps_refund_journal: "okp I (refund_journal o' product x split credits)"
  unfolding refund_journal_def reversing_leg_def by (intro order_keeps)

end

section \<open>With the payment engine\<close>

text \<open>A step whose result is known to have a property.\<close>

lemma okp_bind_fact:
  assumes "okp I m" "\<And>s a u. m s = (Ok a, u) \<Longrightarrow> F a" "\<And>a. F a \<Longrightarrow> okp I (k a)"
  shows "okp I (bindM m k)"
proof (rule okpI)
  fix s b v
  assume I: "I s" and run: "bindM m k s = (Ok b, v)"
  then obtain a u where a: "m s = (Ok a, u)" "k a u = (Ok b, v)" by (auto simp: bind_Ok_iff)
  show "I v" using okpD [OF assms(3) [OF assms(2) [OF a(1)]] okpD [OF assms(1) I a(1)] a(2)] .
qed

text \<open>The card's share is part of what is refunded.\<close>

definition card_within :: "int \<Rightarrow> gathered \<Rightarrow> bool" where
  "card_within n g \<longleftrightarrow> 0 \<le> ga_card_share g \<and> 0 \<le> ga_remaining g \<and> ga_card_share g + ga_remaining g \<le> n"

lemma gather_share_within:
  "gather_share o' x store t amount g s = (Ok g', u) \<Longrightarrow> card_within n g \<Longrightarrow> 0 < amount \<Longrightarrow> amount \<le> ga_remaining g \<Longrightarrow> card_within n g'"
  by (auto simp: gather_share_def card_within_def Let_def bind_Ok_iff act_simps split: option.splits if_splits)

lemma gather_shares_within:
  "gather_shares o' x store ts g s = (Ok g', u) \<Longrightarrow> card_within n g \<Longrightarrow> card_within n g'"
proof (induction ts arbitrary: g s)
  case (Cons t ts)
  show ?case
  proof (cases "min (ga_remaining g) (ot_amount t - ot_refunded_amount t) \<le> 0")
    case False
    with Cons.prems obtain h s1 s2 where
      "gather_share o' x store t (min (ga_remaining g) (ot_amount t - ot_refunded_amount t)) g s1 = (Ok h, s2)"
      and rest: "(if ga_remaining h = 0 then returnM h else gather_shares o' x store ts h) s2 = (Ok g', u)"
      by (auto simp: Let_def bind_Ok_iff)
    then have "card_within n h" using gather_share_within Cons.prems(2) False by fastforce
    then show ?thesis using rest Cons.IH by (auto simp: act_simps split: if_splits)
  qed (use Cons in \<open>auto simp: Let_def\<close>)
qed (simp add: act_simps)

lemma new_order_refund_amount: "create_order_refund (new_order_refund o' r pid split p d) s = (Ok y, u) \<Longrightarrow> ox_amount y = orq_amount r"
  by (auto simp: create_order_refund_def new_order_refund_def bind_Ok_iff act_simps split: if_splits)

locale shop_calls = order_side I + payment_calls I good
  for I :: "'x shop_scheme \<Rightarrow> bool" and good :: "'x shop_scheme payment_engine \<Rightarrow> bool"
begin

lemma calls_hold_and_charge: "good (payments_of e) \<Longrightarrow> okp I (hold_and_charge e c o' ts r)"
  unfolding hold_and_charge_def by (intro order_keeps keeps_hold_share calls_create_order_payment)

lemma calls_record_order: "good (payments_of e) \<Longrightarrow> okp I (record_order e c r)"
  unfolding record_order_def
  by (intro order_keeps keeps_plan_tenders keeps_record_lines keeps_settle_from_wallets keeps_order_result calls_hold_and_charge)

lemma calls_create_order:
  "good (payments_of e) \<Longrightarrow> okp I (create_order_for e c r)"
  "good (payments_of e) \<Longrightarrow> \<not> in_tx c \<Longrightarrow> safep I (create_order_for e c r)"
proof -
  assume e: "good (payments_of e)"
  have *: "okp I (with_tx c (\<lambda>c. record_order e c r))" for c by (intro keeps calls_record_order e)
  then show "okp I (create_order_for e c r)"
    unfolding create_order_for_def by (intro order_keeps keeps_order_result calls_record_order e)
  assume c: "\<not> in_tx c"
  have "safep I (order_result_of o')" for o'
    unfolding order_result_of_def by (intro order_keeps)
  then show "safep I (create_order_for e c r)"
    unfolding create_order_for_def guardM_def by (intro order_keeps safep_own_tx [OF free * c])
qed

lemma calls_refund_tenders:
  assumes "good (payments_of e)" "ox_amount x = n" "0 \<le> n" "in64 n"
  shows "okp I (refund_tenders e c o' product x split)"
proof -
  have card: "okp I (refund_card e c o' x g)" if "card_within (ox_amount x) g" for g
    unfolding refund_card_def
    by (intro order_keeps core_refund assms(1)) (use that assms in \<open>simp add: card_within_def in64_def\<close>)
  have "card_within (ox_amount x) \<lparr>ga_parts = [], ga_credits = [], ga_wallets = [], ga_card_share = 0, ga_card_tender = None,
      ga_remaining = ox_amount x\<rparr>"
    using assms by (simp add: card_within_def)
  note gathered = gather_shares_within [OF _ this]
  show ?thesis unfolding refund_tenders_def
    by (intro okp_bind_fact [OF keeps_gather_shares gathered] order_keeps keeps_refund_order keeps_refund_wallet
        keeps_final_credits keeps_refund_journal card)
qed

lemma calls_refund_order:
  "good (payments_of e) \<Longrightarrow> in64 (orq_amount r) \<Longrightarrow> okp I (refund_order_for e c r)"
  "good (payments_of e) \<Longrightarrow> in64 (orq_amount r) \<Longrightarrow> \<not> in_tx c \<Longrightarrow> safep I (refund_order_for e c r)"
proof -
  assume e: "good (payments_of e)" and r: "in64 (orq_amount r)"
  have locked: "okp I (refund_locked e c r o')" if "0 \<le> orq_amount r" for c o'
    unfolding refund_locked_def Let_def
    by (intro okp_bind_fact [OF keeps_order_rows(6) new_order_refund_amount] order_keeps keeps_emit_order calls_refund_tenders [where n = "orq_amount r"] e that r)
  show "okp I (refund_order_for e c r)"
    unfolding refund_order_for_def by (intro order_keeps locked) simp
  assume c: "\<not> in_tx c"
  show "safep I (refund_order_for e c r)"
    unfolding refund_order_for_def by (intro safep_if safep_basic safep_own_tx [OF free _ c] order_keeps locked) simp
qed

lemma calls_expire_order:
  "good (payments_of e) \<Longrightarrow> okp I (expire_order e c o')"
  "good (payments_of e) \<Longrightarrow> \<not> in_tx c \<Longrightarrow> safep I (expire_order e c o')"
  unfolding expire_order_def expire_payment_def
  by (intro order_keeps keeps_expire_unpaid safe_expire_unpaid calls_close_payment; assumption)+

lemma calls_cancel_order:
  "good (payments_of e) \<Longrightarrow> okp I (cancel_order e c o' reason)"
  "good (payments_of e) \<Longrightarrow> \<not> in_tx c \<Longrightarrow> safep I (cancel_order e c o' reason)"
  unfolding cancel_order_def cancel_payment_def
  by (intro order_keeps calls_close_payment safep_with_tx [OF free]; assumption)+

end

section \<open>Steps\<close>

text \<open>One call of the order engine, or of the payment engine that reports to it, however it ends.\<close>

inductive order_step :: "('x shop_scheme order_engine \<Rightarrow> bool) \<Rightarrow> 'x shop_scheme \<Rightarrow> 'x shop_scheme \<Rightarrow> bool" for E where
  order_create: "E e \<Longrightarrow> create_order_for e c cr s = (r, u) \<Longrightarrow> in_tx c \<longrightarrow> is_ok r \<Longrightarrow> order_step E s u"
| order_refund: "E e \<Longrightarrow> in64 (orq_amount q) \<Longrightarrow> refund_order_for e c q s = (r, u) \<Longrightarrow> in_tx c \<longrightarrow> is_ok r \<Longrightarrow> order_step E s u"
| order_expire: "E e \<Longrightarrow> expire_order e c o' s = (r, u) \<Longrightarrow> in_tx c \<longrightarrow> is_ok r \<Longrightarrow> order_step E s u"
| order_cancel: "E e \<Longrightarrow> cancel_order e c o' reason s = (r, u) \<Longrightarrow> in_tx c \<longrightarrow> is_ok r \<Longrightarrow> order_step E s u"
| order_pays: "payment_step (\<lambda>p. \<exists>e. E e \<and> p = payments_of e) s u \<Longrightarrow> order_step E s u"

context shop_calls
begin

lemma order_step_keeps:
  assumes "\<And>e. E e \<Longrightarrow> good (payments_of e)"
  shows "order_step E s u \<Longrightarrow> I s \<Longrightarrow> I u"
proof (induction rule: order_step.induct)
  case order_create
  show ?case
    by (rule calls_ended [OF calls_create_order(1) [OF assms [OF order_create(1)]] order_create(2-4)])
      (rule calls_create_order(2) [OF assms [OF order_create(1)]])
next
  case order_refund
  show ?case
    by (rule calls_ended [OF calls_refund_order(1) [OF assms [OF order_refund(1)] order_refund(2)] order_refund(3-5)])
      (rule calls_refund_order(2) [OF assms [OF order_refund(1)] order_refund(2)])
next
  case order_expire
  show ?case
    by (rule calls_ended [OF calls_expire_order(1) [OF assms [OF order_expire(1)]] order_expire(2-4)])
      (rule calls_expire_order(2) [OF assms [OF order_expire(1)]])
next
  case order_cancel
  show ?case
    by (rule calls_ended [OF calls_cancel_order(1) [OF assms [OF order_cancel(1)]] order_cancel(2-4)])
      (rule calls_cancel_order(2) [OF assms [OF order_cancel(1)]])
next
  case (order_pays s u)
  show ?case
    by (rule payment_step_keeps [OF _ order_pays.hyps order_pays.prems]) (use assms in blast)
qed

lemma order_steps_keep:
  assumes "\<And>e. E e \<Longrightarrow> good (payments_of e)"
  shows "(order_step E)\<^sup>*\<^sup>* s u \<Longrightarrow> I s \<Longrightarrow> I u"
  by (induction rule: rtranclp_induct) (auto intro: order_step_keeps [OF assms])

end

section \<open>Who satisfies the interface\<close>

lemmas order_writes = create_order_def update_order_def create_order_line_def create_order_tender_def update_order_tender_def
  create_order_refund_def create_order_refund_part_def

locale shop_keeper = estate_keeper I for I :: "'x shop_scheme \<Rightarrow> bool"

sublocale shop_keeper \<subseteq> order_side I
  unfolding order_side_def order_side_axioms_def order_writes
  by (auto simp: same_ledger_def intro!: estate_ops_axioms keeps keeps_tables_ok)

locale shop_blind = estate_blind I for I :: "'x shop_scheme \<Rightarrow> bool" +
  assumes blind_shop: "I s \<Longrightarrow> I (s\<lparr>orders := xs\<rparr>)" "I s \<Longrightarrow> I (s\<lparr>order_lines := ls\<rparr>)" "I s \<Longrightarrow> I (s\<lparr>order_tenders := ts\<rparr>)"
      "I s \<Longrightarrow> I (s\<lparr>order_refunds := rs\<rparr>)" "I s \<Longrightarrow> I (s\<lparr>order_refund_parts := ps\<rparr>)"

sublocale shop_blind \<subseteq> order_side I
  unfolding order_side_def order_side_axioms_def order_writes
  by (auto intro!: estate_ops_axioms keeps okp_modify blind_shop)

interpretation shop_view: shop_blind "viewed Q" for Q
  by unfold_locales (simp_all add: viewed_def)

interpretation shop_books: shop_keeper ledger_inv
  by unfold_locales

interpretation shop_trail: shop_keeper "extends s" for s
  by unfold_locales

text \<open>
  The payment engine that reports to the order engine meets what is asked of it, given
  what it asks of the hook for payouts.
\<close>

definition payouts_keep :: "('x shop_scheme \<Rightarrow> bool) \<Rightarrow> 'x shop_scheme order_engine \<Rightarrow> bool" where
  "payouts_keep I e \<longleftrightarrow> (\<forall>g. pen_payouts (oen_payments e) = Some g \<longrightarrow> (\<forall>c name ref. okp I (g c name ref)))"

context order_side
begin

lemma hooked: "payouts_keep I e \<Longrightarrow> hooks_keep I (payments_of e)"
  by (simp add: hooks_keep_def payouts_keep_def payments_of_def the_order_hook_def keeps_capture_order keeps_payment_ended)

end

lemma hooked_blind: "(\<And>Q. payouts_keep (viewed Q) e) \<Longrightarrow> hooks_blind (payments_of e)"
  unfolding hooks_blind_def by (intro allI shop_view.hooked)

interpretation order_books: shop_calls ledger_inv "hooks_keep ledger_inv"
  by unfold_locales

interpretation order_register: shop_calls "viewed intact" hooks_blind
  by unfold_locales

end
