(* ===== verification/DaoWithdrawal.thy ===== *)
theory DaoWithdrawal
  imports OrderSafety Fieldcrypt
begin

text \<open>
  Beneficiaries and withdrawals (\<open>internal/models/dao/withdrawal.go\<close>), the tables that hold
  them, and the queries on them (\<open>internal/repository/postgresql/withdrawal.go\<close>), with the
  constraints of the migrations 16 and 19.
\<close>

section \<open>Rows\<close>

datatype beneficiary_status = BeneficiaryPending | BeneficiaryVerified | BeneficiaryFailed

record beneficiary =
  bn_id :: int
  bn_public_id :: string
  bn_customer_id :: int
  bn_kind :: string
  bn_name :: string
  bn_account_number :: "string option"
  bn_account_last4 :: "string option"
  bn_account_fingerprint :: "string option"
  bn_ifsc :: "string option"
  bn_vpa :: "string option"
  bn_status :: beneficiary_status
  bn_name_at_bank :: "string option"
  bn_verified_at :: "int option"
  bn_failure_reason :: "string option"
  bn_created_at :: int
  bn_updated_at :: int

datatype withdrawal_status = WithdrawalPendingApproval | WithdrawalApproved | WithdrawalProcessing | WithdrawalPaid
  | WithdrawalFailed | WithdrawalRejected | WithdrawalReversed

record withdrawal =
  wd_id :: int
  wd_public_id :: string
  wd_wallet_id :: int
  wd_customer_id :: int
  wd_product_id :: "int option"
  wd_beneficiary_id :: int
  wd_amount :: int
  wd_currency :: string
  wd_status :: withdrawal_status
  wd_requires_approval :: bool
  wd_requested_by :: string
  wd_decided_by :: "string option"
  wd_decided_at :: "int option"
  wd_decision_note :: "string option"
  wd_provider :: string
  wd_provider_payout_id :: "string option"
  wd_failure_reason :: "string option"
  wd_paid_at :: "int option"
  wd_wallet_public_id :: string
  wd_beneficiary_public_id :: string
  wd_created_at :: int
  wd_updated_at :: int

record desk = shop +
  beneficiaries :: "beneficiary list"
  withdrawals :: "withdrawal list"

section \<open>Beneficiaries\<close>

definition ck_beneficiaries_details :: "beneficiary \<Rightarrow> bool" where
  "ck_beneficiaries_details b \<longleftrightarrow>
     (bn_kind b = ''bank_account'' \<and> bn_account_number b \<noteq> None \<and> bn_ifsc b \<noteq> None \<and> bn_vpa b = None) \<or>
     (bn_kind b = ''vpa'' \<and> bn_vpa b \<noteq> None \<and> bn_account_number b = None \<and> bn_ifsc b = None)"

definition ck_beneficiaries_verified :: "beneficiary \<Rightarrow> bool" where
  "ck_beneficiaries_verified b \<longleftrightarrow> (bn_status b = BeneficiaryVerified) = (bn_verified_at b \<noteq> None)"

text \<open>What the unique index on destinations compares: \<open>COALESCE\<close> reads an absent text as the empty one.\<close>

definition coalesce :: "string option \<Rightarrow> string" where
  "coalesce x = (case x of None \<Rightarrow> [] | Some y \<Rightarrow> y)"

definition bn_destination :: "beneficiary \<Rightarrow> int \<times> string \<times> string \<times> string" where
  "bn_destination b = (bn_customer_id b, bn_kind b, coalesce (bn_account_fingerprint b), coalesce (bn_vpa b))"

definition create_beneficiary :: "beneficiary \<Rightarrow> ('x desk_scheme, beneficiary) action" where
  "create_beneficiary b =
     bindM (getM (\<lambda>s. find_row bn_destination (bn_destination b) (beneficiaries s))) (\<lambda>known.
     bindM (getM (\<lambda>s. find_row cu_id (bn_customer_id b) (customers s))) (\<lambda>owner.
     if \<not> ck_beneficiaries_details b \<or> \<not> ck_beneficiaries_verified b then failM Internal
     else if known \<noteq> None then failM AlreadyExists
     else if owner = None then failM Internal
     else bindM (getM (\<lambda>s. b\<lparr>bn_id := next_id (beneficiaries s), bn_created_at := clock s, bn_updated_at := clock s\<rparr>)) (\<lambda>row.
          bindM (modifyM (\<lambda>s. s\<lparr>beneficiaries := beneficiaries s @ [row]\<rparr>)) (\<lambda>_. returnM row))))"

definition get_beneficiary_by_public_id :: "string \<Rightarrow> ('x desk_scheme, beneficiary) action" where
  "get_beneficiary_by_public_id x = bindM (getM (\<lambda>s. find_row bn_public_id x (beneficiaries s))) (some_or NotFound)"

definition get_beneficiary_by_id :: "int \<Rightarrow> ('x desk_scheme, beneficiary) action" where
  "get_beneficiary_by_id i = bindM (getM (\<lambda>s. find_row bn_id i (beneficiaries s))) (some_or Internal)"

definition list_beneficiaries :: "int \<Rightarrow> ('x desk_scheme, beneficiary list) action" where
  "list_beneficiaries i = getM (\<lambda>s. filter (\<lambda>b. bn_customer_id b = i) (beneficiaries s))"

text \<open>SQL's \<open>LIKE\<close>: a percent sign stands for any text, an underscore for any character, a backslash takes the next one literally.\<close>

fun like :: "string \<Rightarrow> string \<Rightarrow> bool" where
  "like [] x \<longleftrightarrow> x = []"
| "like (p # ps) [] \<longleftrightarrow> p = CHR ''%'' \<and> like ps []"
| "like (p # ps) (c # cs) \<longleftrightarrow>
     (if p = CHR ''%'' then like ps (c # cs) \<or> like (p # ps) cs
      else if p = CHR ''_'' then like ps cs
      else if p = CHR 0x5C then (case ps of [] \<Rightarrow> False | q # qs \<Rightarrow> q = c \<and> like qs cs)
      else p = c \<and> like ps cs)"

definition list_beneficiaries_to_reseal :: "string \<Rightarrow> ('x desk_scheme, beneficiary list) action" where
  "list_beneficiaries_to_reseal key = getM (\<lambda>s. filter (\<lambda>b. case bn_account_number b of None \<Rightarrow> False
     | Some x \<Rightarrow> \<not> like (''v1:'' @ key @ '':%'') x) (beneficiaries s))"

text \<open>Written only if the row still holds the previous value; the flag says whether it did.\<close>

definition reseal_beneficiary_account :: "int \<Rightarrow> string \<Rightarrow> string \<Rightarrow> string \<Rightarrow> string \<Rightarrow> ('x desk_scheme, bool) action" where
  "reseal_beneficiary_account i previous sealed last4 print =
     bindM (getM (\<lambda>s. find_row bn_id i (beneficiaries s))) (\<lambda>r. case r of
       None \<Rightarrow> returnM False
     | Some row \<Rightarrow>
         if bn_account_number row \<noteq> Some previous then returnM False
         else bindM (getM (\<lambda>s. row\<lparr>bn_account_number := Some sealed, bn_account_last4 := Some last4,
             bn_account_fingerprint := Some print, bn_updated_at := clock s\<rparr>)) (\<lambda>row'.
           bindM (getM (\<lambda>s. list_ex (\<lambda>b. bn_id b \<noteq> i \<and> bn_destination b = bn_destination row') (beneficiaries s))) (\<lambda>clash.
           if clash then failM AlreadyExists
           else bindM (modifyM (\<lambda>s. s\<lparr>beneficiaries := update_rows bn_id i (\<lambda>_. row') (beneficiaries s)\<rparr>)) (\<lambda>_. returnM True))))"

section \<open>Withdrawals\<close>

definition withdrawal_refs :: "withdrawal \<Rightarrow> 'x desk_scheme \<Rightarrow> bool" where
  "withdrawal_refs x s \<longleftrightarrow> find_row wa_id (wd_wallet_id x) (wallets s) \<noteq> None \<and>
     find_row cu_id (wd_customer_id x) (customers s) \<noteq> None \<and> product_exists (wd_product_id x) s \<and>
     find_row bn_id (wd_beneficiary_id x) (beneficiaries s) \<noteq> None"

definition create_withdrawal :: "withdrawal \<Rightarrow> ('x desk_scheme, withdrawal) action" where
  "create_withdrawal x = bindM (getM (withdrawal_refs x)) (\<lambda>fk.
     if \<not> 0 < wd_amount x \<or> \<not> fk then failM Internal
     else bindM (getM (\<lambda>s. x\<lparr>wd_id := next_id (withdrawals s), wd_decided_by := None, wd_decided_at := None, wd_decision_note := None,
          wd_provider_payout_id := None, wd_failure_reason := None, wd_paid_at := None,
          wd_created_at := clock s, wd_updated_at := clock s\<rparr>)) (\<lambda>row.
       bindM (modifyM (\<lambda>s. s\<lparr>withdrawals := withdrawals s @ [row]\<rparr>)) (\<lambda>_.
       returnM (x\<lparr>wd_id := wd_id row, wd_created_at := wd_created_at row, wd_updated_at := wd_updated_at row\<rparr>))))"

definition ck_withdrawals_four_eyes :: "withdrawal \<Rightarrow> bool" where
  "ck_withdrawals_four_eyes x \<longleftrightarrow> wd_decided_by x \<noteq> Some (wd_requested_by x)"

definition write_withdrawal :: "withdrawal \<Rightarrow> int \<Rightarrow> withdrawal \<Rightarrow> withdrawal" where
  "write_withdrawal x now row = row\<lparr>wd_status := wd_status x, wd_decided_by := wd_decided_by x, wd_decided_at := wd_decided_at x,
     wd_decision_note := wd_decision_note x, wd_provider_payout_id := wd_provider_payout_id x,
     wd_failure_reason := wd_failure_reason x, wd_paid_at := wd_paid_at x, wd_updated_at := now\<rparr>"

text \<open>The unique index on the provider's reference.\<close>

definition provider_ref_taken :: "withdrawal \<Rightarrow> withdrawal list \<Rightarrow> bool" where
  "provider_ref_taken x rows \<longleftrightarrow> wd_provider_payout_id x \<noteq> None \<and>
     list_ex (\<lambda>y. wd_id y \<noteq> wd_id x \<and> wd_provider y = wd_provider x \<and> wd_provider_payout_id y = wd_provider_payout_id x) rows"

definition update_withdrawal :: "withdrawal \<Rightarrow> ('x desk_scheme, withdrawal) action" where
  "update_withdrawal x = bindM (getM (\<lambda>s. find_row wd_id (wd_id x) (withdrawals s))) (\<lambda>r. case r of
     None \<Rightarrow> failM Internal
   | Some row \<Rightarrow> bindM (getM (\<lambda>s. write_withdrawal x (clock s) row)) (\<lambda>row'.
       bindM (getM (\<lambda>s. provider_ref_taken row' (withdrawals s))) (\<lambda>taken.
       if \<not> ck_withdrawals_four_eyes row' then failM PermissionDenied
       else if taken then failM Internal
       else bindM (modifyM (\<lambda>s. s\<lparr>withdrawals := update_rows wd_id (wd_id x) (\<lambda>_. row') (withdrawals s)\<rparr>)) (\<lambda>_.
         returnM (x\<lparr>wd_updated_at := wd_updated_at row'\<rparr>)))))"

definition read_withdrawal :: "'x desk_scheme \<Rightarrow> withdrawal \<Rightarrow> withdrawal option" where
  "read_withdrawal s x = (case (find_row wa_id (wd_wallet_id x) (wallets s), find_row bn_id (wd_beneficiary_id x) (beneficiaries s)) of
     (Some w, Some b) \<Rightarrow> Some (x\<lparr>wd_wallet_public_id := wa_public_id w, wd_beneficiary_public_id := bn_public_id b\<rparr>)
   | _ \<Rightarrow> None)"

definition get_withdrawal_by_public_id :: "string \<Rightarrow> ('x desk_scheme, withdrawal) action" where
  "get_withdrawal_by_public_id i =
     bindM (getM (\<lambda>s. Option.bind (find_row wd_public_id i (withdrawals s)) (read_withdrawal s))) (some_or NotFound)"

definition lock_withdrawal :: "ctx \<Rightarrow> int \<Rightarrow> ('x desk_scheme, withdrawal) action" where
  "lock_withdrawal c i = (if \<not> in_tx c then failM Internal
     else bindM (getM (\<lambda>s. Option.bind (find_row wd_id i (withdrawals s)) (read_withdrawal s))) (some_or NotFound))"

definition get_withdrawal_by_provider_ref :: "string \<Rightarrow> string \<Rightarrow> ('x desk_scheme, withdrawal) action" where
  "get_withdrawal_by_provider_ref name ref = bindM (getM (\<lambda>s. Option.bind
     (find_row (\<lambda>x. (wd_provider x, wd_provider_payout_id x)) (name, Some ref) (withdrawals s)) (read_withdrawal s))) (some_or NotFound)"

definition list_withdrawals :: "product_scope option \<Rightarrow> withdrawal_status option \<Rightarrow> int option \<Rightarrow> nat \<Rightarrow>
    ('x desk_scheme, withdrawal list) action" where
  "list_withdrawals scope status cust limit = (case scope_condition scope of
     Inl e \<Rightarrow> failM e
   | Inr cond \<Rightarrow> getM (\<lambda>s. take limit (sort_key wd_created_at (List.map_filter (read_withdrawal s)
       (filter (\<lambda>x. cond (wd_product_id x) \<and> (status = None \<or> status = Some (wd_status x)) \<and>
          (cust = None \<or> cust = Some (wd_customer_id x))) (withdrawals s))))))"

definition list_open_withdrawals :: "int \<Rightarrow> nat \<Rightarrow> ('x desk_scheme, withdrawal list) action" where
  "list_open_withdrawals before limit = getM (\<lambda>s. take limit (sort_key wd_updated_at (List.map_filter (read_withdrawal s)
     (filter (\<lambda>x. wd_status x \<in> set [WithdrawalApproved, WithdrawalProcessing] \<and> wd_updated_at x < before) (withdrawals s)))))"

definition undone :: "withdrawal_status \<Rightarrow> bool" where
  "undone st \<longleftrightarrow> st \<in> set [WithdrawalFailed, WithdrawalRejected, WithdrawalReversed]"

text \<open>The withdrawals since a moment, of one wallet or of all of the customer's, that were not undone.\<close>

definition counted :: "int \<Rightarrow> int option \<Rightarrow> int \<Rightarrow> withdrawal list \<Rightarrow> withdrawal list" where
  "counted cust wallet_id since rows = filter (\<lambda>x. wd_customer_id x = cust \<and> (wallet_id = None \<or> wallet_id = Some (wd_wallet_id x)) \<and>
     since \<le> wd_created_at x \<and> \<not> undone (wd_status x)) rows"

definition withdrawn_since :: "int \<Rightarrow> int option \<Rightarrow> int \<Rightarrow> ('x desk_scheme, int \<times> int) action" where
  "withdrawn_since cust wallet_id since =
     bindM (scan_sum (\<lambda>s. sum_list (map wd_amount (counted cust wallet_id since (withdrawals s))))) (\<lambda>amount.
     bindM (getM (\<lambda>s. int (length (counted cust wallet_id since (withdrawals s))))) (\<lambda>n. returnM (amount, n)))"

end
