(* ===== verification/Withdrawal.thy ===== *)
theory Withdrawal
  imports DaoWithdrawal
begin

text \<open>
  The withdrawal engine (\<open>internal/withdrawal/engine.go\<close>): where a customer's money may go, taking it out of the
  wallet, the second person's decision above the threshold, the payout at the provider, and giving the
  money back when it did not arrive. It is the payment engine's hook for payout webhooks.

  A random nonce is drawn from the same counter as the UUIDs; \<open>wen_nonce\<close> is the source, which may fail.
\<close>

record withdrawal_config =
  wcf_bank :: string
  wcf_beneficiary_cooling :: int
  wcf_max_customer_daily :: int
  wcf_max_customer_count :: int

definition withdrawal_with_defaults :: "withdrawal_config \<Rightarrow> withdrawal_config" where
  "withdrawal_with_defaults c = c\<lparr>wcf_bank := (if wcf_bank c = [] then ''hdfc'' else wcf_bank c)\<rparr>"

record withdrawal_engine =
  wen_cipher :: cipher
  wen_nonce :: "nat \<Rightarrow> go_error + string"
  wen_registry :: registry
  wen_limits :: limits
  wen_config :: withdrawal_config

definition payout_provider :: "withdrawal_engine \<Rightarrow> ('x till_scheme, provider) action" where
  "payout_provider e = bindM list_provider_controls (\<lambda>ctls. case choose_provider (wen_registry e) ctls of
     Inl err \<Rightarrow> errM err | Inr (p, _) \<Rightarrow> returnM p)"

definition known_provider :: "withdrawal_engine \<Rightarrow> string \<Rightarrow> ('x till_scheme, provider) action" where
  "known_provider e name = (case registry_get (wen_registry e) name of Inl err \<Rightarrow> errM err | Inr p \<Rightarrow> returnM p)"

section \<open>Destinations\<close>

text \<open>A pointer that the code follows without a check.\<close>

definition follow :: "'a option \<Rightarrow> ('s, 'a) action" where
  "follow x = (case x of None \<Rightarrow> panicM | Some y \<Rightarrow> returnM y)"

definition seal_account :: "withdrawal_engine \<Rightarrow> string \<Rightarrow> ('x env_scheme, string) action" where
  "seal_account e plain =
     bindM (getM uuid_next) (\<lambda>n.
     bindM (modifyM (\<lambda>s. s\<lparr>uuid_next := Suc (uuid_next s)\<rparr>)) (\<lambda>_.
     case wen_nonce e n of Inl err \<Rightarrow> errM err | Inr nonce \<Rightarrow> follow (seal (wen_cipher e) nonce plain)))"

definition last_four :: "string \<Rightarrow> string" where
  "last_four plain = drop (length plain - 4) plain"

definition account_print :: "withdrawal_engine \<Rightarrow> string \<Rightarrow> string option \<Rightarrow> string" where
  "account_print e plain ifsc = fingerprint (wen_cipher e) (plain @ ''|'' @ coalesce ifsc)"

definition plain_destination :: "beneficiary \<Rightarrow> ('s, destination) action" where
  "plain_destination b =
     bindM (case bn_account_number b of None \<Rightarrow> returnM ([], [])
       | Some x \<Rightarrow> bindM (follow (bn_ifsc b)) (\<lambda>ifsc. returnM (x, ifsc))) (\<lambda>(account, ifsc).
     returnM \<lparr>de_name = bn_name b, de_account_number = account, de_ifsc = ifsc, de_vpa = coalesce (bn_vpa b)\<rparr>)"

definition seal_beneficiary :: "withdrawal_engine \<Rightarrow> beneficiary \<Rightarrow> ('x env_scheme, beneficiary) action" where
  "seal_beneficiary e b = (case bn_account_number b of
     None \<Rightarrow> returnM b
   | Some plain \<Rightarrow> bindM (seal_account e plain) (\<lambda>sealed. returnM (b\<lparr>bn_account_number := Some sealed,
       bn_account_last4 := Some (last_four plain), bn_account_fingerprint := Some (account_print e plain (bn_ifsc b))\<rparr>)))"

definition add_beneficiary :: "withdrawal_engine \<Rightarrow> beneficiary \<Rightarrow> ('x desk_scheme, beneficiary) action" where
  "add_beneficiary e b =
     bindM (payout_provider e) (\<lambda>p.
     bindM (plain_destination b) (\<lambda>d.
     bindM (ask_verify_destination p d) (\<lambda>v.
     bindM (new_id BeneficiaryId) (\<lambda>pid.
     bindM (seal_beneficiary e (b\<lparr>bn_public_id := pid\<rparr>)) (\<lambda>b.
     bindM (getM clock) (\<lambda>now.
     create_beneficiary (if ve_verified v
       then b\<lparr>bn_status := BeneficiaryVerified, bn_verified_at := Some now, bn_name_at_bank := Some (ve_name_at_bank v)\<rparr>
       else b\<lparr>bn_status := BeneficiaryFailed, bn_failure_reason := Some (ve_failure_reason v)\<rparr>)))))))"

section \<open>Events and journals\<close>

fun withdrawal_status_string :: "withdrawal_status \<Rightarrow> string" where
  "withdrawal_status_string WithdrawalPendingApproval = ''pending_approval''"
| "withdrawal_status_string WithdrawalApproved = ''approved''"
| "withdrawal_status_string WithdrawalProcessing = ''processing''"
| "withdrawal_status_string WithdrawalPaid = ''paid''"
| "withdrawal_status_string WithdrawalFailed = ''failed''"
| "withdrawal_status_string WithdrawalRejected = ''rejected''"
| "withdrawal_status_string WithdrawalReversed = ''reversed''"

definition withdrawal_event :: "withdrawal \<Rightarrow> payload" where
  "withdrawal_event x = [(''withdrawal_id'', JStr (wd_public_id x)), (''wallet_id'', JStr (wd_wallet_public_id x)),
     (''amount'', JInt (wd_amount x)), (''currency'', JStr (wd_currency x)),
     (''status'', JStr (withdrawal_status_string (wd_status x)))] @ opt_field ''failure_reason'' (wd_failure_reason x)"

definition emit_withdrawal :: "withdrawal \<Rightarrow> string \<Rightarrow> ('x estate_scheme, unit) action" where
  "emit_withdrawal x topic = bindM (new_id OutboxEventId) (\<lambda>pid.
     bindM (save_outbox_event (new_event pid topic ''withdrawal'' (wd_public_id x) (withdrawal_event x))) (\<lambda>_. returnM ()))"

definition withdrawal_journal_id :: "withdrawal \<Rightarrow> string \<Rightarrow> string" where
  "withdrawal_journal_id x step = ''withdrawal:'' @ wd_public_id x @ '':'' @ step"

definition debit_id :: "withdrawal \<Rightarrow> string" where
  "debit_id x = ''withdrawal:'' @ wd_public_id x @ '':debit''"

text \<open>0 for a platform-scoped wallet, which the wallet engine books to no product.\<close>

definition product_of :: "withdrawal \<Rightarrow> int" where
  "product_of x = (case wd_product_id x of None \<Rightarrow> 0 | Some i \<Rightarrow> i)"

definition post_withdrawal :: "ctx \<Rightarrow> withdrawal \<Rightarrow> string \<Rightarrow> string \<Rightarrow> string \<Rightarrow> int option \<Rightarrow> ('x estate_scheme, unit) action" where
  "post_withdrawal c x step debit_code credit_code reverses =
     bindM (get_ledger_account_by_code debit_code) (\<lambda>debit.
     bindM (get_ledger_account_by_code credit_code) (\<lambda>credit.
     bindM (new_id LedgerJournalId) (\<lambda>pid.
     bindM (post_journal c \<lparr>jo_id = 0, jo_public_id = pid, jo_external_id = withdrawal_journal_id x step, jo_kind = JournalAdjustment,
        jo_product_id = wd_product_id x, jo_source_kind = Some ''withdrawal'', jo_source_id = Some (wd_public_id x),
        jo_reverses_journal_id = reverses, jo_memo = ''withdrawal '' @ step, jo_reason_code = None, jo_posted_at = 0,
        jo_postings = [new_leg (la_id debit) Debit (wd_amount x) (wd_currency x), new_leg (la_id credit) Credit (wd_amount x) (wd_currency x)],
        jo_product_public_id = None, jo_reverses_journal_public_id = None, jo_created_at = 0\<rparr>) (\<lambda>_. returnM ()))))"

section \<open>The payout\<close>

text \<open>The money goes back to the wallet from where it sits, in a journal that reverses the debit.\<close>

definition return_funds :: "withdrawal_engine \<Rightarrow> ctx \<Rightarrow> withdrawal \<Rightarrow> withdrawal_status \<Rightarrow> string \<Rightarrow> string \<Rightarrow>
    ('x desk_scheme, withdrawal) action" where
  "return_funds e c x status reason origin =
     bindM (get_journal_by_external_id (debit_id x)) (\<lambda>debit.
     bindM (get_wallet_by_public_id (wd_wallet_public_id x)) (\<lambda>w.
     bindM (restore (wen_limits e) c \<lparr>sr_wallet = w, sr_amount = wd_amount x, sr_counter_account_code = origin,
        sr_product_id = product_of x, sr_kind = JournalReversal,
        sr_external_id = withdrawal_journal_id x (withdrawal_status_string status)\<rparr> debit) (\<lambda>_.
     bindM (update_withdrawal (x\<lparr>wd_status := status, wd_failure_reason := Some reason\<rparr>)) (\<lambda>x'.
     bindM (emit_withdrawal x' (''withdrawal.'' @ withdrawal_status_string status)) (\<lambda>_. returnM x')))))"

definition apply_paid :: "withdrawal_engine \<Rightarrow> ctx \<Rightarrow> withdrawal \<Rightarrow> ('x desk_scheme, withdrawal) action" where
  "apply_paid e c x =
     (if wd_status x = WithdrawalPaid then returnM x
      else bindM (post_withdrawal c x ''paid'' payouts_in_transit (bank_account (wcf_bank (wen_config e))) None) (\<lambda>_.
        bindM (getM clock) (\<lambda>now.
        bindM (update_withdrawal (x\<lparr>wd_status := WithdrawalPaid, wd_paid_at := Some now\<rparr>)) (\<lambda>x'.
        bindM (emit_withdrawal x' ''withdrawal.paid'') (\<lambda>_. returnM x')))))"

definition apply_payout :: "withdrawal_engine \<Rightarrow> ctx \<Rightarrow> withdrawal \<Rightarrow> provider_payout \<Rightarrow> ('x desk_scheme, withdrawal) action" where
  "apply_payout e c x0 pt = (let x = x0\<lparr>wd_provider_payout_id := Some (pt_provider_payout_id pt)\<rparr> in
     case pt_status pt of
       ProviderPayoutProcessing \<Rightarrow> update_withdrawal (if wd_status x = WithdrawalApproved then x\<lparr>wd_status := WithdrawalProcessing\<rparr> else x)
     | ProviderPayoutPaid \<Rightarrow> apply_paid e c x
     | ProviderPayoutFailed \<Rightarrow> return_funds e c x WithdrawalFailed (pt_failure_reason pt) payouts_in_transit
     | ProviderPayoutReversed \<Rightarrow> bindM (apply_paid e c x) (\<lambda>x'.
         return_funds e c x' WithdrawalReversed (pt_failure_reason pt) (bank_account (wcf_bank (wen_config e))))
     | ProviderPayoutOther _ \<Rightarrow> failM Internal)"

definition open_account :: "withdrawal_engine \<Rightarrow> beneficiary \<Rightarrow> ('s, destination) action" where
  "open_account e b = (case bn_account_number b of
     None \<Rightarrow> plain_destination b
   | Some x \<Rightarrow> (case open_sealed (wen_cipher e) x of
       Inl err \<Rightarrow> errM err
     | Inr plain \<Rightarrow> plain_destination (b\<lparr>bn_account_number := Some plain\<rparr>)))"

definition submit_withdrawal :: "withdrawal_engine \<Rightarrow> ctx \<Rightarrow> withdrawal \<Rightarrow> ('x desk_scheme, withdrawal) action" where
  "submit_withdrawal e c x =
     bindM (known_provider e (wd_provider x)) (\<lambda>p.
     bindM (get_beneficiary_by_id (wd_beneficiary_id x)) (\<lambda>b.
     bindM (open_account e b) (\<lambda>d.
     bindM (tryM (ask_create_payout p \<lparr>pq_payout_id = wd_public_id x, pq_destination = d, pq_amount = wd_amount x,
        pq_currency = wd_currency x\<rparr>)) (\<lambda>r. case r of
       Inl err \<Rightarrow> if is_code err Unavailable then update_withdrawal x
         else return_funds e c x WithdrawalFailed (error_string err) payouts_in_transit
     | Inr pt \<Rightarrow> apply_payout e c x pt))))"

section \<open>Requests\<close>

record withdraw_request =
  wq_wallet :: wallet
  wq_beneficiary :: beneficiary
  wq_amount :: int
  wq_requested_by :: string

text \<open>Run with the withdrawal recorded and its debit posted.\<close>

definition check_daily_limits :: "withdrawal_engine \<Rightarrow> withdrawal \<Rightarrow> wallet_type \<Rightarrow> ('x desk_scheme, unit) action" where
  "check_daily_limits e x t = (let amount_cap = wcf_max_customer_daily (wen_config e); count_cap = wcf_max_customer_count (wen_config e) in
     bindM (getM (\<lambda>s. start_of_day (clock s))) (\<lambda>since.
     bindM (case wt_daily_withdrawal_limit t of
         None \<Rightarrow> returnM ()
       | Some limit \<Rightarrow> bindM (withdrawn_since (wd_customer_id x) (Some (wd_wallet_id x)) since) (\<lambda>(amount, _).
           if limit < amount then failM WalletOperationDenied else returnM ())) (\<lambda>_.
     if amount_cap = 0 \<and> count_cap = 0 then returnM ()
     else bindM (lock_customer (wd_customer_id x)) (\<lambda>_.
       bindM (withdrawn_since (wd_customer_id x) None since) (\<lambda>(amount, count).
       if 0 < amount_cap \<and> amount_cap < amount then failM WalletOperationDenied
       else if 0 < count_cap \<and> count_cap < count then failM WalletOperationDenied
       else returnM ())))))"

definition new_withdrawal :: "withdraw_request \<Rightarrow> wallet_type \<Rightarrow> provider \<Rightarrow> string \<Rightarrow> withdrawal" where
  "new_withdrawal r t p pid = (let w = wq_wallet r in \<lparr>wd_id = 0, wd_public_id = pid, wd_wallet_id = wa_id w,
     wd_customer_id = wa_customer_id w, wd_product_id = wa_product_id w, wd_beneficiary_id = bn_id (wq_beneficiary r),
     wd_amount = wq_amount r, wd_currency = wt_currency t,
     wd_status = (if needs_approval t (wq_amount r) then WithdrawalPendingApproval else WithdrawalApproved),
     wd_requires_approval = needs_approval t (wq_amount r), wd_requested_by = wq_requested_by r, wd_decided_by = None,
     wd_decided_at = None, wd_decision_note = None, wd_provider = pv_name p, wd_provider_payout_id = None,
     wd_failure_reason = None, wd_paid_at = None, wd_wallet_public_id = wa_public_id w,
     wd_beneficiary_public_id = bn_public_id (wq_beneficiary r), wd_created_at = 0, wd_updated_at = 0\<rparr>)"

definition record_withdrawal :: "withdrawal_engine \<Rightarrow> ctx \<Rightarrow> withdraw_request \<Rightarrow> wallet_type \<Rightarrow> withdrawal \<Rightarrow>
    ('x desk_scheme, withdrawal) action" where
  "record_withdrawal e c r t x0 =
     bindM (create_withdrawal x0) (\<lambda>x.
     bindM (withdraw_out (wen_limits e) c \<lparr>sr_wallet = wq_wallet r, sr_amount = wd_amount x, sr_counter_account_code = payouts_in_transit,
        sr_product_id = product_of x, sr_kind = JournalAdjustment, sr_external_id = debit_id x\<rparr>) (\<lambda>_.
     bindM (check_daily_limits e x t) (\<lambda>_.
     bindM (emit_withdrawal x ''withdrawal.requested'') (\<lambda>_.
     if wd_requires_approval x then returnM x else submit_withdrawal e c x))))"

definition request_withdrawal :: "withdrawal_engine \<Rightarrow> ctx \<Rightarrow> withdraw_request \<Rightarrow> ('x desk_scheme, withdrawal) action" where
  "request_withdrawal e c r = (let b = wq_beneficiary r in
     if bn_customer_id b \<noteq> wa_customer_id (wq_wallet r) then failM NotFound
     else if bn_status b \<noteq> BeneficiaryVerified then failM FailedPrecondition
     else bindM (follow (bn_verified_at b)) (\<lambda>verified.
       bindM (getM clock) (\<lambda>now.
       if now < verified + wcf_beneficiary_cooling (wen_config e) then failM FailedPrecondition
       else bindM (get_wallet_type_by_id (wa_wallet_type_id (wq_wallet r))) (\<lambda>t.
         bindM (payout_provider e) (\<lambda>p.
         bindM (new_id PayoutId) (\<lambda>pid.
         with_tx c (\<lambda>c. record_withdrawal e c r t (new_withdrawal r t p pid))))))))"

section \<open>Decisions\<close>

definition decide :: "ctx \<Rightarrow> int \<Rightarrow> string \<Rightarrow> string \<Rightarrow> (ctx \<Rightarrow> withdrawal \<Rightarrow> ('x desk_scheme, withdrawal) action) \<Rightarrow>
    ('x desk_scheme, withdrawal) action" where
  "decide c i approver note act =
     (if note = [] then failM InvalidArgument
      else with_tx c (\<lambda>c. bindM (lock_withdrawal c i) (\<lambda>x.
        if wd_status x \<noteq> WithdrawalPendingApproval then failM FailedPrecondition
        else if approver = wd_requested_by x then failM PermissionDenied
        else bindM (getM clock) (\<lambda>now.
          bindM (update_withdrawal (x\<lparr>wd_decided_by := Some approver, wd_decided_at := Some now, wd_decision_note := Some note\<rparr>)) (\<lambda>x.
          bindM (act c x) update_withdrawal)))))"

definition approve_withdrawal :: "withdrawal_engine \<Rightarrow> ctx \<Rightarrow> int \<Rightarrow> string \<Rightarrow> string \<Rightarrow> ('x desk_scheme, withdrawal) action" where
  "approve_withdrawal e c i approver note =
     decide c i approver note (\<lambda>c x. submit_withdrawal e c (x\<lparr>wd_status := WithdrawalApproved\<rparr>))"

definition reject_withdrawal :: "withdrawal_engine \<Rightarrow> ctx \<Rightarrow> int \<Rightarrow> string \<Rightarrow> string \<Rightarrow> ('x desk_scheme, withdrawal) action" where
  "reject_withdrawal e c i approver note =
     decide c i approver note (\<lambda>c x. return_funds e c x WithdrawalRejected (''rejected: '' @ note) payouts_in_transit)"

section \<open>Catching up with the provider\<close>

definition final_withdrawal :: "withdrawal_status \<Rightarrow> bool" where
  "final_withdrawal st \<longleftrightarrow> st \<in> set [WithdrawalFailed, WithdrawalRejected, WithdrawalReversed, WithdrawalPendingApproval]"

definition sync_withdrawal :: "withdrawal_engine \<Rightarrow> ctx \<Rightarrow> int \<Rightarrow> provider_payout \<Rightarrow> ('x desk_scheme, withdrawal) action" where
  "sync_withdrawal e c i pt = with_tx c (\<lambda>c. bindM (lock_withdrawal c i) (\<lambda>x.
     if final_withdrawal (wd_status x) then returnM x else apply_payout e c x pt))"

definition process_payout_event :: "withdrawal_engine \<Rightarrow> ctx \<Rightarrow> string \<Rightarrow> string \<Rightarrow> ('x desk_scheme, unit) action" where
  "process_payout_event e c name ref =
     bindM (tryM (get_withdrawal_by_provider_ref name ref)) (\<lambda>r. case r of
       Inl err \<Rightarrow> if is_code err NotFound then failM Unavailable else errM err
     | Inr x \<Rightarrow> bindM (known_provider e name) (\<lambda>p.
         bindM (ask_fetch_payout p ref) (\<lambda>pt.
         bindM (sync_withdrawal e c (wd_id x) pt) (\<lambda>_. returnM ()))))"

definition poll_withdrawal :: "withdrawal_engine \<Rightarrow> ctx \<Rightarrow> withdrawal \<Rightarrow> ('x desk_scheme, withdrawal) action" where
  "poll_withdrawal e c x =
     (if wd_status x = WithdrawalApproved
      then with_tx c (\<lambda>c. bindM (lock_withdrawal c (wd_id x)) (\<lambda>locked.
        if wd_status locked \<noteq> WithdrawalApproved then returnM x else submit_withdrawal e c locked))
      else case wd_provider_payout_id x of
        None \<Rightarrow> returnM x
      | Some ref \<Rightarrow> bindM (known_provider e (wd_provider x)) (\<lambda>p.
          bindM (ask_fetch_payout p ref) (\<lambda>pt. sync_withdrawal e c (wd_id x) pt)))"

section \<open>After a key rotation\<close>

definition reseal_row :: "withdrawal_engine \<Rightarrow> beneficiary \<Rightarrow> string \<Rightarrow> ('x desk_scheme, bool option) action" where
  "reseal_row e b stored =
     bindM (if is_sealed stored then (case open_sealed (wen_cipher e) stored of Inl _ \<Rightarrow> failM Internal | Inr plain \<Rightarrow> returnM plain)
        else returnM stored) (\<lambda>plain.
     bindM (seal_account e plain) (\<lambda>sealed.
     bindM (tryM (reseal_beneficiary_account (bn_id b) stored sealed (last_four plain) (account_print e plain (bn_ifsc b)))) (\<lambda>r. case r of
       Inr changed \<Rightarrow> returnM (Some changed)
     | Inl err \<Rightarrow> if is_code err AlreadyExists then returnM None else errM err)))"

fun reseal_rows :: "withdrawal_engine \<Rightarrow> beneficiary list \<Rightarrow> int \<Rightarrow> string list \<Rightarrow> ('x desk_scheme, int \<times> string list) action" where
  "reseal_rows e [] n dups = returnM (n, dups)"
| "reseal_rows e (b # bs) n dups =
     bindM (follow (bn_account_number b)) (\<lambda>stored.
     bindM (reseal_row e b stored) (\<lambda>r. case r of
       None \<Rightarrow> reseal_rows e bs n (dups @ [bn_public_id b])
     | Some changed \<Rightarrow> reseal_rows e bs (if changed then n + 1 else n) dups))"

definition reseal_accounts :: "withdrawal_engine \<Rightarrow> ('x desk_scheme, int \<times> string list) action" where
  "reseal_accounts e = bindM (list_beneficiaries_to_reseal (ci_current (wen_cipher e))) (\<lambda>stale. reseal_rows e stale 0 [])"

section \<open>The whole program's payment engine\<close>

text \<open>The payment engine with both its hooks, as \<open>order.New\<close> and \<open>withdrawal.New\<close> set them.\<close>

definition with_payouts :: "withdrawal_engine \<Rightarrow> 'x desk_scheme order_engine \<Rightarrow> 'x desk_scheme order_engine" where
  "with_payouts we e = e\<lparr>oen_payments := (oen_payments e)\<lparr>pen_payouts := Some (process_payout_event we)\<rparr>\<rparr>"

end
