(* ===== verification/WithdrawalSafety.thy ===== *)
theory WithdrawalSafety
  imports Withdrawal
begin

text \<open>
  The withdrawal engine keeps what the interfaces below it keep, and is the payment engine's other hook:
  with it every hook of the payment engine is the program's own, and \<open>desk_step\<close> is one call of the
  withdrawal engine, the order engine or the payment engine, however it ends.
\<close>

section \<open>Reads and draws\<close>

lemma safep_follow [keeps]: "safep I (follow x)"
  unfolding follow_def by (intro keeps)

lemma okp_follow [keeps]: "okp I (follow x)"
  by (rule safep_okp [OF safep_follow])

lemma safep_desk_lookups:
  "safep I (payout_provider e)" "safep I (known_provider e n)" "safep I (plain_destination b)" "safep I (open_account e b)"
  "safep I (get_beneficiary_by_id i)" "safep I (get_withdrawal_by_provider_ref n x)" "safep I (withdrawn_since i k t)"
  "safep I (lock_withdrawal c i)" "safep I (list_beneficiaries_to_reseal x)"
  by (auto simp: payout_provider_def known_provider_def plain_destination_def open_account_def get_beneficiary_by_id_def
      get_withdrawal_by_provider_ref_def withdrawn_since_def scan_sum_def lock_withdrawal_def list_provider_controls_def
      list_beneficiaries_to_reseal_def intro!: keeps split: option.splits sum.splits prod.splits)

lemma safep_seal_account: "env_free I \<Longrightarrow> safep I (seal_account e plain)"
  unfolding seal_account_def by (intro keeps safep_modify) (simp add: env_free_uuid)

text \<open>The destinations, which no other part of the engine writes.\<close>

locale payee_side = order_side I for I :: "'x desk_scheme \<Rightarrow> bool" +
  assumes keeps_beneficiary_rows: "safep I (create_beneficiary b)" "safep I (reseal_beneficiary_account i p y l f)"
begin

lemmas draws = safep_seal_account [OF free]

lemmas payout_asks = safep_asks [OF free]

lemmas payee_keeps = order_keeps safep_follow okp_follow safep_desk_lookups safep_desk_lookups [THEN safep_okp]
  payout_asks payout_asks [THEN safep_okp] draws draws [THEN safep_okp] keeps_moves

lemma safe_add_beneficiary: "safep I (add_beneficiary e b)"
  unfolding add_beneficiary_def seal_beneficiary_def
  by (intro payee_keeps safep_new_id [OF free] keeps_beneficiary_rows)

lemma safe_reseal: "safep I (reseal_accounts e)"
proof -
  have "safep I (reseal_row e b x)" for b x
    unfolding reseal_row_def by (intro payee_keeps keeps_beneficiary_rows)
  then have "safep I (reseal_rows e bs n dups)" for bs n dups
    by (induction bs arbitrary: n dups) (auto intro!: keeps split: option.splits)
  then show ?thesis unfolding reseal_accounts_def by (intro payee_keeps)
qed

lemma keeps_emit_withdrawal: "okp I (emit_withdrawal x topic)"
  unfolding emit_withdrawal_def by (intro payee_keeps)

lemma keeps_post_withdrawal: "okp I (post_withdrawal c x step d k r)"
  unfolding post_withdrawal_def by (intro payee_keeps)

lemma keeps_daily_limits: "okp I (check_daily_limits e x t)"
  unfolding check_daily_limits_def Let_def by (intro payee_keeps)

end

locale desk_side = payee_side I for I :: "'x desk_scheme \<Rightarrow> bool" +
  assumes keeps_withdrawal_rows: "okp I (create_withdrawal x)" "okp I (update_withdrawal x)"
begin

lemmas desk_keeps = payee_keeps keeps_withdrawal_rows

lemma keeps_return_funds: "okp I (return_funds e c x status reason origin)"
  unfolding return_funds_def by (intro desk_keeps keeps_emit_withdrawal)

lemma keeps_apply_paid: "okp I (apply_paid e c x)"
  unfolding apply_paid_def by (intro desk_keeps keeps_post_withdrawal keeps_emit_withdrawal)

lemma keeps_apply_payout: "okp I (apply_payout e c x pt)"
  unfolding apply_payout_def Let_def
  by (cases "pt_status pt") (auto intro!: desk_keeps keeps_apply_paid keeps_return_funds)

lemma keeps_submit_withdrawal: "okp I (submit_withdrawal e c x)"
  unfolding submit_withdrawal_def by (intro desk_keeps keeps_return_funds keeps_apply_payout)

lemma keeps_record_withdrawal: "okp I (record_withdrawal e c r t x)"
  unfolding record_withdrawal_def by (intro desk_keeps keeps_daily_limits keeps_emit_withdrawal keeps_submit_withdrawal)

lemma keeps_decide: "(\<And>c x. okp I (act c x)) \<Longrightarrow> okp I (decide c i approver note act)"
  unfolding decide_def by (intro desk_keeps)

lemma keeps_decisions:
  "okp I (approve_withdrawal e c i approver note)" "okp I (reject_withdrawal e c i approver note)"
  unfolding approve_withdrawal_def reject_withdrawal_def by (intro keeps_decide keeps_submit_withdrawal keeps_return_funds)+

lemma keeps_sync_withdrawal: "okp I (sync_withdrawal e c i pt)"
  unfolding sync_withdrawal_def by (intro desk_keeps keeps_apply_payout)

lemma keeps_payout_event: "okp I (process_payout_event e c n x)"
  unfolding process_payout_event_def by (intro desk_keeps keeps_sync_withdrawal)

lemma keeps_poll_withdrawal: "okp I (poll_withdrawal e c x)"
  unfolding poll_withdrawal_def by (intro desk_keeps keeps_submit_withdrawal keeps_sync_withdrawal)

text \<open>What the payment engine asks of its hook for payouts.\<close>

lemma hooked_payouts: "payouts_keep I (with_payouts we e)"
  by (simp add: payouts_keep_def with_payouts_def keeps_payout_event)

end

section \<open>Steps\<close>

text \<open>One call of any engine above the wallets, however it ends; \<open>E\<close> are the engine values the program runs with.\<close>

inductive desk_step :: "(withdrawal_engine \<Rightarrow> 'x desk_scheme order_engine \<Rightarrow> bool) \<Rightarrow> 'x desk_scheme \<Rightarrow> 'x desk_scheme \<Rightarrow> bool" for E where
  desk_request: "E we e \<Longrightarrow> request_withdrawal we c q s = (r, u) \<Longrightarrow> in_tx c \<longrightarrow> is_ok r \<Longrightarrow> desk_step E s u"
| desk_approve: "E we e \<Longrightarrow> approve_withdrawal we c i approver note s = (r, u) \<Longrightarrow> in_tx c \<longrightarrow> is_ok r \<Longrightarrow> desk_step E s u"
| desk_reject: "E we e \<Longrightarrow> reject_withdrawal we c i approver note s = (r, u) \<Longrightarrow> in_tx c \<longrightarrow> is_ok r \<Longrightarrow> desk_step E s u"
| desk_sync: "E we e \<Longrightarrow> sync_withdrawal we c i pt s = (r, u) \<Longrightarrow> in_tx c \<longrightarrow> is_ok r \<Longrightarrow> desk_step E s u"
| desk_event: "E we e \<Longrightarrow> process_payout_event we c n x s = (r, u) \<Longrightarrow> in_tx c \<longrightarrow> is_ok r \<Longrightarrow> desk_step E s u"
| desk_poll: "E we e \<Longrightarrow> poll_withdrawal we c wd s = (r, u) \<Longrightarrow> in_tx c \<longrightarrow> is_ok r \<Longrightarrow> desk_step E s u"
| desk_add: "E we e \<Longrightarrow> add_beneficiary we b s = (r, u) \<Longrightarrow> desk_step E s u"
| desk_reseal: "E we e \<Longrightarrow> reseal_accounts we s = (r, u) \<Longrightarrow> desk_step E s u"
| desk_orders: "order_step (\<lambda>x. \<exists>we e. E we e \<and> x = with_payouts we e) s u \<Longrightarrow> desk_step E s u"

text \<open>
  What the steps ask of an engine, whatever it does with its tables: that a call keeps the predicate when
  it returns. Outside of a transaction it then keeps it however it ends.
\<close>

locale desk_calls = shop_calls I good
  for I :: "'x desk_scheme \<Rightarrow> bool" and good :: "'x desk_scheme payment_engine \<Rightarrow> bool" +
  assumes good_hooks: "good (payments_of (with_payouts we e))"
    and core_record: "okp I (record_withdrawal we c r t (new_withdrawal r t p pid))"
    and core_approve: "okp I (approve_withdrawal we c i approver note)"
    and core_reject: "okp I (reject_withdrawal we c i approver note)"
    and core_payout_sync: "okp I (sync_withdrawal we c i pt)"
    and core_payout_retry: "wd_status x = WithdrawalApproved \<Longrightarrow> okp I (poll_withdrawal we c x)"
    and core_beneficiaries: "safep I (add_beneficiary we b)" "safep I (reseal_accounts we)"
begin

lemmas payout_keeps = order_keeps safep_follow okp_follow safep_desk_lookups safep_desk_lookups [THEN safep_okp]
  safep_asks [OF free] safep_asks [OF free, THEN safep_okp]

lemma calls_request:
  "okp I (request_withdrawal e c r)" "\<not> in_tx c \<Longrightarrow> safep I (request_withdrawal e c r)"
proof -
  have *: "okp I (with_tx c (\<lambda>c. record_withdrawal e c r t (new_withdrawal r t p pid)))" for c t p pid
    by (intro keeps core_record)
  then show "okp I (request_withdrawal e c r)"
    unfolding request_withdrawal_def Let_def by (intro payout_keeps core_record)
  assume c: "\<not> in_tx c"
  have "safep I (get_wallet_type_by_id i)" for i
    unfolding get_wallet_type_by_id_def by (intro keeps)
  then show "safep I (request_withdrawal e c r)"
    unfolding request_withdrawal_def Let_def by (intro payout_keeps safep_new_id [OF free] safep_own_tx [OF free * c])
qed

lemma safe_decide:
  assumes "\<And>c. okp I (decide c i approver note act)" "\<not> in_tx c"
  shows "safep I (decide c i approver note act)"
proof (cases "note = []")
  case False
  then show ?thesis using assms unfolding decide_def by (auto intro: safep_own_tx [OF free])
qed (simp add: decide_def keeps)

lemma calls_decisions:
  "\<not> in_tx c \<Longrightarrow> safep I (approve_withdrawal e c i approver note)"
  "\<not> in_tx c \<Longrightarrow> safep I (reject_withdrawal e c i approver note)"
  using core_approve core_reject unfolding approve_withdrawal_def reject_withdrawal_def by (auto intro: safe_decide)

lemma calls_payout_sync: "\<not> in_tx c \<Longrightarrow> safep I (sync_withdrawal e c i pt)"
  using core_payout_sync unfolding sync_withdrawal_def by (rule safep_own_tx [OF free])

lemma calls_payout_event:
  "okp I (process_payout_event e c n x)" "\<not> in_tx c \<Longrightarrow> safep I (process_payout_event e c n x)"
  unfolding process_payout_event_def by (intro payout_keeps core_payout_sync calls_payout_sync; assumption?)+

lemma calls_poll_withdrawal:
  "okp I (poll_withdrawal e c x)" "\<not> in_tx c \<Longrightarrow> safep I (poll_withdrawal e c x)"
proof -
  have later: "okp I (poll_withdrawal e c x)" "\<not> in_tx c \<Longrightarrow> safep I (poll_withdrawal e c x)" if "wd_status x \<noteq> WithdrawalApproved"
    using that unfolding poll_withdrawal_def by (auto intro!: payout_keeps core_payout_sync calls_payout_sync)
  then show "okp I (poll_withdrawal e c x)" using core_payout_retry by blast
  assume c: "\<not> in_tx c"
  show "safep I (poll_withdrawal e c x)"
  proof (cases "wd_status x = WithdrawalApproved")
    case True
    then have "okp I (with_tx c (\<lambda>c. bindM (lock_withdrawal c (wd_id x)) (\<lambda>locked.
        if wd_status locked \<noteq> WithdrawalApproved then returnM x else submit_withdrawal e c locked)))" for c
      using core_payout_retry [OF True, of e c] by (simp add: poll_withdrawal_def)
    from safep_own_tx [OF free this c] True show ?thesis by (simp add: poll_withdrawal_def)
  qed (rule later(2) [OF _ c])
qed

lemma desk_step_keeps: "desk_step E s u \<Longrightarrow> I s \<Longrightarrow> I u"
proof (induction rule: desk_step.induct)
  case desk_request
  show ?case by (rule calls_ended [OF calls_request(1) desk_request(2-4)]) (rule calls_request(2))
next
  case desk_approve
  show ?case by (rule calls_ended [OF core_approve desk_approve(2-4)]) (rule calls_decisions(1))
next
  case desk_reject
  show ?case by (rule calls_ended [OF core_reject desk_reject(2-4)]) (rule calls_decisions(2))
next
  case desk_sync
  show ?case by (rule calls_ended [OF core_payout_sync desk_sync(2-4)]) (rule calls_payout_sync)
next
  case desk_event
  show ?case by (rule calls_ended [OF calls_payout_event(1) desk_event(2-4)]) (rule calls_payout_event(2))
next
  case desk_poll
  show ?case by (rule calls_ended [OF calls_poll_withdrawal(1) desk_poll(2-4)]) (rule calls_poll_withdrawal(2))
next
  case desk_add
  then show ?case using safepD [OF core_beneficiaries(1)] by blast
next
  case desk_reseal
  then show ?case using safepD [OF core_beneficiaries(2)] by blast
next
  case (desk_orders s u)
  show ?case by (rule order_step_keeps [OF _ desk_orders.hyps desk_orders.prems]) (use good_hooks in blast)
qed

lemma desk_steps_keep: "(desk_step E)\<^sup>*\<^sup>* s u \<Longrightarrow> I s \<Longrightarrow> I u"
  by (induction rule: rtranclp_induct) (auto intro: desk_step_keeps)

end

section \<open>Who satisfies the interface\<close>

lemmas desk_writes = create_withdrawal_def update_withdrawal_def create_beneficiary_def reseal_beneficiary_account_def

locale desk_keeper = shop_keeper I for I :: "'x desk_scheme \<Rightarrow> bool"

sublocale desk_keeper \<subseteq> desk_side I
  unfolding desk_side_def desk_side_axioms_def payee_side_def payee_side_axioms_def desk_writes
  by (auto simp: same_ledger_def intro!: order_side_axioms keeps keeps_tables keeps_tables_ok)

locale desk_blind = shop_blind I for I :: "'x desk_scheme \<Rightarrow> bool" +
  assumes blind_desk: "I s \<Longrightarrow> I (s\<lparr>withdrawals := xs\<rparr>)" "I s \<Longrightarrow> I (s\<lparr>beneficiaries := bs\<rparr>)"

sublocale desk_blind \<subseteq> desk_side I
  unfolding desk_side_def desk_side_axioms_def payee_side_def payee_side_axioms_def desk_writes
  by (auto intro!: order_side_axioms keeps okp_modify safep_modify blind_desk)

text \<open>An engine whose tables' writes keep the predicate meets what the steps ask.\<close>

locale desk_wired = shop_calls I good + desk_side I
  for I :: "'x desk_scheme \<Rightarrow> bool" and good :: "'x desk_scheme payment_engine \<Rightarrow> bool" +
  assumes wired: "good (payments_of (with_payouts we e))"

sublocale desk_wired \<subseteq> desk_calls I good
  by unfold_locales
    (rule wired keeps_record_withdrawal keeps_decisions keeps_sync_withdrawal keeps_poll_withdrawal safe_add_beneficiary safe_reseal)+

interpretation desk_view: desk_blind "viewed Q" for Q
  by unfold_locales (simp_all add: viewed_def)

interpretation desk_ledger: desk_keeper ledger_inv
  by unfold_locales

interpretation desk_books: desk_wired ledger_inv "hooks_keep ledger_inv"
  by unfold_locales (rule shop_books.hooked [OF desk_ledger.hooked_payouts])

interpretation desk_register: desk_wired "viewed intact" hooks_blind
  by unfold_locales (intro hooked_blind desk_view.hooked_payouts)

end
