(* ===== verification/DaoSettlement.thy ===== *)
theory DaoSettlement
  imports WithdrawalSafety
begin

text \<open>
  Settlements, their lines and the work queue of breaks (\<open>internal/models/dao/settlement.go\<close>), the tables
  that hold them, and the queries on them (\<open>internal/repository/postgresql/settlement.go\<close>), with the
  constraints of migration 14. Foreign keys are to rows the engine has just read or written and are
  not checked again.
\<close>

section \<open>Rows\<close>

datatype settlement_status = SettlementClean | SettlementBreaks

record settlement =
  st_id :: int
  st_public_id :: string
  st_provider :: string
  st_provider_settlement_id :: string
  st_bank :: string
  st_bank_reference :: string
  st_settled_at :: int
  st_gross :: int
  st_fees :: int
  st_fee_tax :: int
  st_net :: int
  st_currency :: string
  st_item_count :: int
  st_raw :: string
  st_status :: settlement_status
  st_created_at :: int

datatype classification = Matched | MissingInLedger | MissingAtProvider | AmountMismatch | FeeMismatch | Duplicate

record settlement_line =
  sl_id :: int
  sl_settlement_id :: int
  sl_kind :: settlement_item_kind
  sl_provider_ref :: string
  sl_gross :: int
  sl_fee :: int
  sl_fee_tax :: int
  sl_net :: int
  sl_expected :: int
  sl_unexplained :: int
  sl_payment_id :: "int option"
  sl_refund_id :: "int option"
  sl_dispute_id :: "int option"
  sl_product_id :: "int option"
  sl_classification :: classification

datatype break_status = BreakOpen | BreakResolved | BreakForceMatched | BreakWrittenOff

record recon_break =
  rb_id :: int
  rb_public_id :: string
  rb_provider :: string
  rb_classification :: classification
  rb_settlement_item_id :: "int option"
  rb_payment_id :: "int option"
  rb_product_id :: "int option"
  rb_amount :: int
  rb_currency :: string
  rb_detail :: string
  rb_status :: break_status
  rb_reason_code :: "string option"
  rb_note :: "string option"
  rb_resolved_by :: "string option"
  rb_resolved_at :: "int option"
  rb_created_at :: int
  rb_updated_at :: int

record product_share =
  sh_product_id :: "int option"
  sh_product_public_id :: "string option"
  sh_lines :: int
  sh_gross :: int
  sh_fees :: int
  sh_fee_tax :: int
  sh_net :: int

record fee_variance_line =
  fv_product_id :: int
  fv_product_public_id :: string
  fv_charged :: int
  fv_cost :: int

record clearing = desk +
  settlements :: "settlement list"
  settlement_lines :: "settlement_line list"
  recon_breaks :: "recon_break list"

section \<open>Settlements\<close>

definition create_settlement :: "settlement \<Rightarrow> ('x clearing_scheme, settlement \<times> bool) action" where
  "create_settlement x =
     bindM (getM (\<lambda>s. find_row (\<lambda>y. (st_provider y, st_provider_settlement_id y)) (st_provider x, st_provider_settlement_id x)
        (settlements s))) (\<lambda>known.
     if known \<noteq> None then returnM (x, False)
     else bindM (getM (\<lambda>s. x\<lparr>st_id := next_id (settlements s), st_created_at := clock s\<rparr>)) (\<lambda>row.
       bindM (modifyM (\<lambda>s. s\<lparr>settlements := settlements s @ [row]\<rparr>)) (\<lambda>_. returnM (row, True))))"

definition set_settlement_status :: "int \<Rightarrow> settlement_status \<Rightarrow> ('x clearing_scheme, unit) action" where
  "set_settlement_status i status = modifyM (\<lambda>s. s\<lparr>settlements := update_rows st_id i (\<lambda>x. x\<lparr>st_status := status\<rparr>) (settlements s)\<rparr>)"

text \<open>The zero time when there is none yet.\<close>

definition latest_settlement_at :: "string \<Rightarrow> ('x clearing_scheme, int) action" where
  "latest_settlement_at name = getM (\<lambda>s. case map st_settled_at (filter (\<lambda>x. st_provider x = name) (settlements s)) of
     [] \<Rightarrow> zero_time | t # ts \<Rightarrow> fold max ts t)"

definition get_settlement_by_public_id :: "string \<Rightarrow> ('x clearing_scheme, settlement) action" where
  "get_settlement_by_public_id x = bindM (getM (\<lambda>s. find_row st_public_id x (settlements s))) (some_or NotFound)"

definition list_settlements :: "string \<Rightarrow> nat \<Rightarrow> ('x clearing_scheme, settlement list) action" where
  "list_settlements name limit = getM (\<lambda>s. take limit (sort_key (\<lambda>x. - st_settled_at x)
     (filter (\<lambda>x. name = [] \<or> st_provider x = name) (settlements s))))"

section \<open>Lines\<close>

definition ck_settlement_items_unexplained :: "settlement_line \<Rightarrow> bool" where
  "ck_settlement_items_unexplained l \<longleftrightarrow> in64 (sl_net l + sl_fee l) \<and> in64 (sl_net l + sl_fee l + sl_fee_tax l) \<and>
     sl_unexplained l = sl_net l + sl_fee l + sl_fee_tax l - sl_expected l"

definition line_ref :: "settlement_line \<Rightarrow> settlement_item_kind \<times> string" where
  "line_ref l = (sl_kind l, sl_provider_ref l)"

text \<open>Whether a line of this kind and reference was matched, which the unique index and \<open>IsSettled\<close> ask.\<close>

definition matched_before :: "settlement_item_kind \<Rightarrow> string \<Rightarrow> settlement_line list \<Rightarrow> bool" where
  "matched_before k ref rows \<longleftrightarrow> list_ex (\<lambda>l. line_ref l = (k, ref) \<and> sl_classification l = Matched) rows"

definition create_settlement_item :: "settlement_line \<Rightarrow> ('x clearing_scheme, settlement_line) action" where
  "create_settlement_item l =
     bindM (getM (\<lambda>s. matched_before (sl_kind l) (sl_provider_ref l) (settlement_lines s))) (\<lambda>clash.
     if \<not> ck_settlement_items_unexplained l \<or> sl_classification l = MissingAtProvider \<or> (sl_classification l = Matched \<and> clash)
     then failM Internal
     else bindM (getM (\<lambda>s. l\<lparr>sl_id := next_id (settlement_lines s)\<rparr>)) (\<lambda>row.
       bindM (modifyM (\<lambda>s. s\<lparr>settlement_lines := settlement_lines s @ [row]\<rparr>)) (\<lambda>_. returnM row)))"

definition is_settled :: "settlement_item_kind \<Rightarrow> string \<Rightarrow> ('x clearing_scheme, bool) action" where
  "is_settled k ref = getM (\<lambda>s. matched_before k ref (settlement_lines s))"

definition list_settlement_items :: "int \<Rightarrow> ('x clearing_scheme, settlement_line list) action" where
  "list_settlement_items i = getM (\<lambda>s. filter (\<lambda>l. sl_settlement_id l = i) (settlement_lines s))"

section \<open>Breaks\<close>

definition missing_open :: "int option \<Rightarrow> recon_break \<Rightarrow> bool" where
  "missing_open p b \<longleftrightarrow> p \<noteq> None \<and> rb_payment_id b = p \<and> rb_classification b = MissingAtProvider \<and> rb_status b = BreakOpen"

text \<open>A payment that is flagged missing is not flagged again; the flag says whether the break was created.\<close>

definition create_break :: "recon_break \<Rightarrow> ('x clearing_scheme, bool) action" where
  "create_break b =
     bindM (getM (\<lambda>s. missing_open (rb_payment_id b) b \<and> list_ex (missing_open (rb_payment_id b)) (recon_breaks s))) (\<lambda>conflict.
     if rb_classification b = Matched \<or> rb_status b \<noteq> BreakOpen then failM Internal
     else if conflict then returnM False
     else bindM (getM (\<lambda>s. b\<lparr>rb_id := next_id (recon_breaks s), rb_reason_code := None, rb_note := None, rb_resolved_by := None,
          rb_resolved_at := None, rb_created_at := clock s, rb_updated_at := clock s\<rparr>)) (\<lambda>row.
       bindM (modifyM (\<lambda>s. s\<lparr>recon_breaks := recon_breaks s @ [row]\<rparr>)) (\<lambda>_. returnM True)))"

definition ck_recon_breaks_resolution :: "recon_break \<Rightarrow> bool" where
  "ck_recon_breaks_resolution b \<longleftrightarrow> (rb_status b = BreakOpen) = (rb_resolved_at b = None)"

definition write_break :: "recon_break \<Rightarrow> int \<Rightarrow> recon_break \<Rightarrow> recon_break" where
  "write_break b now row = row\<lparr>rb_status := rb_status b, rb_reason_code := rb_reason_code b, rb_note := rb_note b,
     rb_resolved_by := rb_resolved_by b, rb_resolved_at := rb_resolved_at b, rb_updated_at := now\<rparr>"

definition update_break :: "recon_break \<Rightarrow> ('x clearing_scheme, recon_break) action" where
  "update_break b = bindM (getM (\<lambda>s. find_row rb_id (rb_id b) (recon_breaks s))) (\<lambda>r. case r of
     None \<Rightarrow> failM Internal
   | Some row \<Rightarrow> bindM (getM (\<lambda>s. write_break b (clock s) row)) (\<lambda>row'.
       if \<not> ck_recon_breaks_resolution row' then failM Internal
       else bindM (modifyM (\<lambda>s. s\<lparr>recon_breaks := update_rows rb_id (rb_id b) (\<lambda>_. row') (recon_breaks s)\<rparr>)) (\<lambda>_.
         returnM (b\<lparr>rb_updated_at := rb_updated_at row'\<rparr>))))"

definition lock_break :: "ctx \<Rightarrow> string \<Rightarrow> ('x clearing_scheme, recon_break) action" where
  "lock_break c x = (if \<not> in_tx c then failM Internal
     else bindM (getM (\<lambda>s. find_row rb_public_id x (recon_breaks s))) (some_or NotFound))"

definition open_missing_at_provider_break :: "int \<Rightarrow> ('x clearing_scheme, recon_break option) action" where
  "open_missing_at_provider_break i = getM (\<lambda>s. List.find (missing_open (Some i)) (recon_breaks s))"

definition list_breaks :: "product_scope option \<Rightarrow> break_status option \<Rightarrow> nat \<Rightarrow> ('x clearing_scheme, recon_break list) action" where
  "list_breaks scope status limit = (case scope_condition scope of
     Inl e \<Rightarrow> failM e
   | Inr cond \<Rightarrow> getM (\<lambda>s. take limit (sort_key rb_created_at
       (filter (\<lambda>b. cond (rb_product_id b) \<and> (status = None \<or> status = Some (rb_status b))) (recon_breaks s)))))"

definition break_summary :: "int \<Rightarrow> ('x clearing_scheme, int \<times> int) action" where
  "break_summary aged_before = getM (\<lambda>s. let waiting = filter (\<lambda>b. rb_status b = BreakOpen) (recon_breaks s)
     in (int (length waiting), int (length (filter (\<lambda>b. rb_created_at b < aged_before) waiting))))"

definition list_unsettled_payments :: "string \<Rightarrow> int \<Rightarrow> nat \<Rightarrow> ('x till_scheme, payment list) action" where
  "list_unsettled_payments name limit_time limit = getM (\<lambda>s. take limit (List.map_filter (read_payment s)
     (sort_key (\<lambda>p. the (pm_captured_at p)) (filter (\<lambda>p. pm_provider p = Some name \<and>
        (case pm_captured_at p of None \<Rightarrow> False | Some t \<Rightarrow> t < limit_time) \<and> pm_settled_at p = None) (payments s)))))"

section \<open>Reports\<close>

text \<open>One share per product of the settlement's lines, those without a product last; a sum beyond an \<open>int64\<close> cannot be read.\<close>

definition share_for :: "'x clearing_scheme \<Rightarrow> settlement_line list \<Rightarrow> int option \<Rightarrow> product_share" where
  "share_for s ls p = (let mine = filter (\<lambda>l. sl_product_id l = p) ls in
     \<lparr>sh_product_id = p,
       sh_product_public_id = (case p of None \<Rightarrow> None | Some i \<Rightarrow> map_option pr_public_id (find_row pr_id i (products s))),
       sh_lines = int (length mine), sh_gross = sum_list (map sl_gross mine), sh_fees = sum_list (map sl_fee mine),
       sh_fee_tax = sum_list (map sl_fee_tax mine), sh_net = sum_list (map sl_net mine)\<rparr>)"

definition share_fits :: "product_share \<Rightarrow> bool" where
  "share_fits x \<longleftrightarrow> in64 (sh_gross x) \<and> in64 (sh_fees x) \<and> in64 (sh_fee_tax x) \<and> in64 (sh_net x)"

definition settlement_by_product :: "int \<Rightarrow> ('x clearing_scheme, product_share list) action" where
  "settlement_by_product i =
     bindM (getM (\<lambda>s. let ls = filter (\<lambda>l. sl_settlement_id l = i) (settlement_lines s)
        in map (share_for s ls) (nulls_last id (remdups (map sl_product_id ls))))) (\<lambda>shares.
     if list_all share_fits shares then returnM shares else failM Internal)"

definition fee_accounts :: "string \<Rightarrow> int \<Rightarrow> 'x ledger_scheme \<Rightarrow> int list" where
  "fee_accounts pattern product s = map la_id (filter (\<lambda>a. la_product_id a = Some product \<and> like pattern (la_code a)) (accounts s))"

definition postings_sum :: "int list \<Rightarrow> int \<Rightarrow> int \<Rightarrow> 'x ledger_scheme \<Rightarrow> int" where
  "postings_sum accts t0 t1 s = sum_list (map (\<lambda>p. po_direction p * po_amount p)
     (filter (\<lambda>p. po_account_id p \<in> set accts \<and> t0 \<le> po_created_at p \<and> po_created_at p < t1) (postings s)))"

definition fee_variance :: "int \<Rightarrow> int \<Rightarrow> ('x ledger_scheme, fee_variance_line list) action" where
  "fee_variance t0 t1 =
     bindM (getM (\<lambda>s. map (\<lambda>p. \<lparr>fv_product_id = pr_id p, fv_product_public_id = pr_public_id p,
           fv_charged = - postings_sum (fee_accounts ''income:%:fee_recovery'' (pr_id p) s) t0 t1 s,
           fv_cost = postings_sum (fee_accounts ''expense:%:psp_fees'' (pr_id p) s) t0 t1 s\<rparr>)
         (sort_key pr_id (filter (\<lambda>p. fee_accounts ''income:%:fee_recovery'' (pr_id p) s \<noteq> [] \<or>
            fee_accounts ''expense:%:psp_fees'' (pr_id p) s \<noteq> []) (products s))))) (\<lambda>ls.
     if list_all (\<lambda>l. in64 (fv_charged l) \<and> in64 (fv_cost l)) ls then returnM ls else failM Internal)"

end
