(* ===== verification/Recon.thy ===== *)
theory Recon
  imports DaoSettlement
begin

text \<open>
  Reconciliation (\<open>internal/recon/engine.go\<close>, \<open>cycle.go\<close>, \<open>ops.go\<close>): a provider's settlements are fetched, every line is
  matched against the ledger's own records and booked, what does not match goes to suspense and to the
  work queue, and an operator decides what is on the queue.

  A line of a kind the provider package does not name is refused by the table's constraint and has no
  constructor here. Metrics and log lines are left out.
\<close>

record recon_config =
  rcf_bank :: string
  rcf_settle_within :: int

definition recon_with_defaults :: "recon_config \<Rightarrow> recon_config" where
  "recon_with_defaults c = \<lparr>rcf_bank = (if rcf_bank c = [] then ''hdfc'' else rcf_bank c),
     rcf_settle_within = (if rcf_settle_within c \<le> 0 then 72 * 60 * 60 else rcf_settle_within c)\<rparr>"

record 's recon_engine =
  ren_registry :: registry
  ren_payments :: "'s payment_engine"
  ren_config :: recon_config

section \<open>Names\<close>

fun classification_string :: "classification \<Rightarrow> string" where
  "classification_string Matched = ''matched''"
| "classification_string MissingInLedger = ''missing_in_ledger''"
| "classification_string MissingAtProvider = ''missing_at_provider''"
| "classification_string AmountMismatch = ''amount_mismatch''"
| "classification_string FeeMismatch = ''fee_mismatch''"
| "classification_string Duplicate = ''duplicate''"

fun item_kind_string :: "settlement_item_kind \<Rightarrow> string" where
  "item_kind_string SettlePayment = ''payment''"
| "item_kind_string SettleRefund = ''refund''"
| "item_kind_string SettleChargeback = ''chargeback''"

section \<open>The book of a settlement\<close>

text \<open>Signed amounts per account, debits positive; a Go map whose absent keys read as zero.\<close>

type_synonym book = "(string \<times> int) list"

definition book_amount :: "book \<Rightarrow> string \<Rightarrow> int" where
  "book_amount b code = (case map_of b code of None \<Rightarrow> 0 | Some x \<Rightarrow> x)"

definition book_add :: "string \<Rightarrow> int \<Rightarrow> book \<Rightarrow> book" where
  "book_add code x b = AList.update code (wrap64 (book_amount b code + x)) b"

definition book_leg :: "string \<Rightarrow> book \<Rightarrow> string \<Rightarrow> ('x ledger_scheme, posting list) action" where
  "book_leg cur b code = (let x = book_amount b code in
     if x = 0 then returnM []
     else bindM (get_ledger_account_by_code code) (\<lambda>a.
       returnM [if x < 0 then new_leg (la_id a) Credit (wrap64 (- x)) cur else new_leg (la_id a) Debit x cur]))"

definition settlement_external_id :: "string \<Rightarrow> string \<Rightarrow> string" where
  "settlement_external_id name ref = ''settlement:'' @ name @ '':'' @ ref"

definition book_journal :: "book \<Rightarrow> settlement \<Rightarrow> string \<Rightarrow> ('x ledger_scheme, journal) action" where
  "book_journal b x name =
     bindM (map_m (book_leg (st_currency x) b) (sort (map fst b))) (\<lambda>legs.
     bindM (new_id LedgerJournalId) (\<lambda>pid.
     returnM \<lparr>jo_id = 0, jo_public_id = pid, jo_external_id = settlement_external_id name (st_provider_settlement_id x),
       jo_kind = JournalSettlement, jo_product_id = None, jo_source_kind = Some ''settlement'', jo_source_id = Some (st_public_id x),
       jo_reverses_journal_id = None, jo_memo = ''settlement '' @ st_provider_settlement_id x @ '' ('' @ st_bank_reference x @ '')'',
       jo_reason_code = None, jo_posted_at = 0, jo_postings = concat legs, jo_product_public_id = None,
       jo_reverses_journal_public_id = None, jo_created_at = 0\<rparr>))"

section \<open>Matching a line\<close>

definition plain_line :: "settlement \<Rightarrow> settlement_item \<Rightarrow> settlement_line" where
  "plain_line x i = \<lparr>sl_id = 0, sl_settlement_id = st_id x, sl_kind = si_kind i, sl_provider_ref = si_provider_ref i,
     sl_gross = si_gross i, sl_fee = si_fee i, sl_fee_tax = si_fee_tax i, sl_net = si_net i, sl_expected = 0, sl_unexplained = 0,
     sl_payment_id = None, sl_refund_id = None, sl_dispute_id = None, sl_product_id = None, sl_classification = Matched\<rparr>"

text \<open>What the ledger knows of the line: the line with its links, and the amount it expected to settle, if any.\<close>

definition ledger_view :: "string \<Rightarrow> settlement_line \<Rightarrow> ('x till_scheme, settlement_line \<times> int option) action" where
  "ledger_view name l = (case sl_kind l of
     SettlePayment \<Rightarrow> bindM (tryM (get_attempt_by_provider_ref name (sl_provider_ref l))) (\<lambda>r. case r of
       Inl err \<Rightarrow> if is_code err NotFound then returnM (l, None) else errM err
     | Inr a \<Rightarrow> bindM (get_payment_by_id (pa_payment_id a)) (\<lambda>p.
         returnM (l\<lparr>sl_payment_id := Some (pm_id p), sl_product_id := Some (pm_product_id p)\<rparr>, pm_captured_amount p)))
   | SettleRefund \<Rightarrow> bindM (tryM (get_refund_by_provider_ref name (sl_provider_ref l))) (\<lambda>r. case r of
       Inl err \<Rightarrow> if is_code err NotFound then returnM (l, None) else errM err
     | Inr r \<Rightarrow> returnM (l\<lparr>sl_refund_id := Some (rf_id r), sl_product_id := Some (rf_product_id r)\<rparr>,
         if rf_status r = RefundProcessed then Some (wrap64 (- rf_amount r)) else None))
   | SettleChargeback \<Rightarrow> bindM (tryM (get_dispute_by_provider_ref name (sl_provider_ref l))) (\<lambda>r. case r of
       Inl err \<Rightarrow> if is_code err NotFound then returnM (l, None) else errM err
     | Inr d \<Rightarrow> returnM (l\<lparr>sl_dispute_id := Some (di_id d), sl_product_id := Some (di_product_id d)\<rparr>,
         if di_status d = DisputeLost then Some (wrap64 (- di_amount d)) else None)))"

definition classify :: "settlement_line \<Rightarrow> int option \<Rightarrow> settlement_line" where
  "classify l expected = (case expected of
     None \<Rightarrow> l\<lparr>sl_classification := MissingInLedger\<rparr>
   | Some x \<Rightarrow> l\<lparr>sl_expected := x, sl_classification :=
       (if sl_gross l \<noteq> x then AmountMismatch
        else if wrap64 (sl_net l + sl_fee l + sl_fee_tax l) \<noteq> sl_gross l then FeeMismatch else Matched)\<rparr>)"

text \<open>What \<open>match\<close> leaves in the line whichever way it returns.\<close>

definition explain :: "settlement_line \<Rightarrow> settlement_line" where
  "explain l = l\<lparr>sl_unexplained := wrap64 (sl_net l + sl_fee l + sl_fee_tax l - sl_expected l)\<rparr>"

definition match_line :: "string \<Rightarrow> settlement \<Rightarrow> settlement_item \<Rightarrow> (settlement_item_kind \<times> string) list \<Rightarrow>
    ('x clearing_scheme, settlement_line \<times> (settlement_item_kind \<times> string) list) action" where
  "match_line name x i seen = (let l = plain_line x i in
     bindM (is_settled (si_kind i) (si_provider_ref i)) (\<lambda>already.
     if already \<or> line_ref l \<in> set seen then returnM (explain (l\<lparr>sl_classification := Duplicate\<rparr>), seen)
     else bindM (ledger_view name l) (\<lambda>(l, expected). returnM (explain (classify l expected), line_ref l # seen))))"

section \<open>Booking a line\<close>

definition book_item :: "string \<Rightarrow> settlement_line \<Rightarrow> book \<Rightarrow> ('x ledger_scheme, book) action" where
  "book_item name l b =
     bindM (case sl_product_id l of
         None \<Rightarrow> returnM platform_psp_fees
       | Some i \<Rightarrow> if sl_classification l = Matched
           then bindM (get_product_by_id i) (\<lambda>p. returnM (product_psp_fees (pr_code p))) else returnM platform_psp_fees) (\<lambda>fees.
     returnM (book_add (psp_suspense name) (wrap64 (- sl_unexplained l))
       (book_add (psp_receivable name) (wrap64 (- sl_expected l))
         (book_add input_tax_credit (sl_fee_tax l) (book_add fees (sl_fee l) b)))))"

definition break_row :: "string \<Rightarrow> string \<Rightarrow> classification \<Rightarrow> recon_break" where
  "break_row pid name k = \<lparr>rb_id = 0, rb_public_id = pid, rb_provider = name, rb_classification = k, rb_settlement_item_id = None,
     rb_payment_id = None, rb_product_id = None, rb_amount = 0, rb_currency = [], rb_detail = [], rb_status = BreakOpen,
     rb_reason_code = None, rb_note = None, rb_resolved_by = None, rb_resolved_at = None, rb_created_at = 0, rb_updated_at = 0\<rparr>"

definition open_break :: "string \<Rightarrow> settlement \<Rightarrow> settlement_line \<Rightarrow> ('x clearing_scheme, unit) action" where
  "open_break name x l =
     bindM (new_id ReconBreakId) (\<lambda>pid.
     bindM (create_break ((break_row pid name (sl_classification l))\<lparr>rb_settlement_item_id := Some (sl_id l),
        rb_payment_id := sl_payment_id l, rb_product_id := sl_product_id l, rb_amount := sl_unexplained l, rb_currency := st_currency x,
        rb_detail := classification_string (sl_classification l) @ '' on '' @ item_kind_string (sl_kind l) @ '' '' @ sl_provider_ref l @
          '' in settlement '' @ st_provider_settlement_id x\<rparr>)) (\<lambda>_. returnM ()))"

text \<open>A matched payment is settled, and an earlier flag that it is missing at the provider closed: it was only late.\<close>

definition settle_payment :: "'x clearing_scheme recon_engine \<Rightarrow> ctx \<Rightarrow> int \<Rightarrow> string \<Rightarrow> ('x clearing_scheme, unit) action" where
  "settle_payment e c i ref =
     bindM (mark_settled (ren_payments e) c i ref) (\<lambda>_.
     bindM (open_missing_at_provider_break i) (\<lambda>r. case r of
       None \<Rightarrow> returnM ()
     | Some b \<Rightarrow> bindM (getM clock) (\<lambda>now.
         bindM (update_break (b\<lparr>rb_status := BreakResolved, rb_reason_code := Some ''settled_late'', rb_resolved_by := Some ''system'',
            rb_resolved_at := Some now, rb_note := Some (''settled in '' @ ref)\<rparr>)) (\<lambda>_. returnM ()))))"

section \<open>Reconciling a settlement\<close>

definition settle_line :: "'x clearing_scheme recon_engine \<Rightarrow> ctx \<Rightarrow> string \<Rightarrow> settlement \<Rightarrow> settlement_line \<Rightarrow> ('x clearing_scheme, unit) action" where
  "settle_line e c name x l =
     (if sl_classification l \<noteq> Matched then open_break name x l
      else case sl_payment_id l of None \<Rightarrow> returnM () | Some i \<Rightarrow> settle_payment e c i (st_public_id x))"

text \<open>The lines one after the other: the references seen, the book and the number of breaks so far.\<close>

fun reconcile_lines :: "'x clearing_scheme recon_engine \<Rightarrow> ctx \<Rightarrow> string \<Rightarrow> settlement \<Rightarrow> settlement_item list \<Rightarrow>
    (settlement_item_kind \<times> string) list \<Rightarrow> book \<Rightarrow> nat \<Rightarrow> ('x clearing_scheme, book \<times> nat) action" where
  "reconcile_lines e c name x [] seen b n = returnM (b, n)"
| "reconcile_lines e c name x (i # is) seen b n =
     bindM (match_line name x i seen) (\<lambda>(l0, seen').
     bindM (create_settlement_item l0) (\<lambda>l.
     bindM (book_item name l b) (\<lambda>b'.
     bindM (settle_line e c name x l) (\<lambda>_.
     reconcile_lines e c name x is seen' b' (if sl_classification l = Matched then n else Suc n)))))"

definition total64 :: "('a \<Rightarrow> int) \<Rightarrow> 'a list \<Rightarrow> int" where
  "total64 f xs = fold (\<lambda>x acc. wrap64 (acc + f x)) xs 0"

definition new_settlement :: "'x clearing_scheme recon_engine \<Rightarrow> string \<Rightarrow> provider_settlement \<Rightarrow> string \<Rightarrow> settlement" where
  "new_settlement e name ps pid = \<lparr>st_id = 0, st_public_id = pid, st_provider = name,
     st_provider_settlement_id = ps_provider_settlement_id ps, st_bank = rcf_bank (ren_config e), st_bank_reference = ps_bank_reference ps,
     st_settled_at = ps_settled_at ps, st_gross = total64 si_gross (ps_items ps), st_fees = total64 si_fee (ps_items ps),
     st_fee_tax = total64 si_fee_tax (ps_items ps), st_net = total64 si_net (ps_items ps), st_currency = ps_currency ps,
     st_item_count = int (length (ps_items ps)), st_raw = ps_raw ps, st_status = SettlementClean, st_created_at = 0\<rparr>"

definition book_settlement :: "'x clearing_scheme recon_engine \<Rightarrow> ctx \<Rightarrow> string \<Rightarrow> provider_settlement \<Rightarrow> settlement \<Rightarrow> ('x clearing_scheme, unit) action" where
  "book_settlement e c name ps x =
     bindM (reconcile_lines e c name x (ps_items ps) [] (book_add (bank_account (rcf_bank (ren_config e))) (st_net x) []) 0) (\<lambda>(b, n).
     bindM (book_journal b x name) (\<lambda>j.
     bindM (if jo_postings j = [] then returnM () else bindM (post_journal c j) (\<lambda>_. returnM ())) (\<lambda>_.
     if 0 < n then set_settlement_status (st_id x) SettlementBreaks else returnM ())))"

definition reconcile :: "'x clearing_scheme recon_engine \<Rightarrow> ctx \<Rightarrow> string \<Rightarrow> provider_settlement \<Rightarrow> ('x clearing_scheme, bool) action" where
  "reconcile e c name ps = with_tx c (\<lambda>c.
     bindM (new_id SettlementId) (\<lambda>pid.
     bindM (create_settlement (new_settlement e name ps pid)) (\<lambda>(x, inserted).
     if \<not> inserted then returnM False
     else bindM (book_settlement e c name ps x) (\<lambda>_. returnM True))))"

fun reconcile_all :: "'x clearing_scheme recon_engine \<Rightarrow> ctx \<Rightarrow> string \<Rightarrow> provider_settlement list \<Rightarrow> nat \<Rightarrow> ('x clearing_scheme, nat) action" where
  "reconcile_all e c name [] n = returnM n"
| "reconcile_all e c name (ps # rest) n = bindM (reconcile e c name ps) (\<lambda>inserted.
     reconcile_all e c name rest (if inserted then Suc n else n))"

definition ingest :: "'x clearing_scheme recon_engine \<Rightarrow> ctx \<Rightarrow> string \<Rightarrow> ('x clearing_scheme, nat) action" where
  "ingest e c name = (case registry_get (ren_registry e) name of
     Inl err \<Rightarrow> errM err
   | Inr p \<Rightarrow> bindM (latest_settlement_at name) (\<lambda>since.
       bindM (ask_fetch_settlements p (pen_rfc3339 (ren_payments e) (since - 60)) (since - 60)) (\<lambda>found.
       reconcile_all e c name found 0)))"

section \<open>Payments that were not settled\<close>

definition flag_payment :: "'x clearing_scheme recon_engine \<Rightarrow> string \<Rightarrow> payment \<Rightarrow> ('x clearing_scheme, bool) action" where
  "flag_payment e name p = bindM (new_id ReconBreakId) (\<lambda>pid.
     case (pm_captured_amount p, pm_captured_at p) of
       (Some amount, Some at) \<Rightarrow> create_break ((break_row pid name MissingAtProvider)\<lparr>rb_payment_id := Some (pm_id p),
         rb_product_id := Some (pm_product_id p), rb_amount := amount, rb_currency := pm_currency p,
         rb_detail := ''payment '' @ pm_public_id p @ '' captured '' @ pen_rfc3339 (ren_payments e) at @ '' but not settled''\<rparr>)
     | _ \<Rightarrow> panicM)"

fun flag_payments :: "'x clearing_scheme recon_engine \<Rightarrow> string \<Rightarrow> payment list \<Rightarrow> nat \<Rightarrow> ('x clearing_scheme, nat) action" where
  "flag_payments e name [] n = returnM n"
| "flag_payments e name (p # ps) n = bindM (flag_payment e name p) (\<lambda>created. flag_payments e name ps (if created then Suc n else n))"

definition flag_unsettled :: "'x clearing_scheme recon_engine \<Rightarrow> string \<Rightarrow> ('x clearing_scheme, nat) action" where
  "flag_unsettled e name =
     bindM (getM clock) (\<lambda>now.
     bindM (list_unsettled_payments name (now - rcf_settle_within (ren_config e)) 500) (\<lambda>ps. flag_payments e name ps 0))"

section \<open>The daily cycle\<close>

record recon_summary =
  rs_open_breaks :: int
  rs_aged_breaks :: int
  rs_suspense :: "(string \<times> int) list"
  rs_receivable :: "(string \<times> int) list"

record alert_config =
  al_aged_after :: int
  al_suspense_threshold :: int

definition alert_with_defaults :: "alert_config \<Rightarrow> alert_config" where
  "alert_with_defaults c = c\<lparr>al_aged_after := (if al_aged_after c \<le> 0 then 48 * 60 * 60 else al_aged_after c)\<rparr>"

definition natural_balance :: "string \<Rightarrow> ('x ledger_scheme, int) action" where
  "natural_balance code = bindM (get_ledger_account_by_code code) (\<lambda>a.
     bindM (get_balance (la_id a)) (\<lambda>b. returnM (natural b (la_type a))))"

definition summarize :: "'x clearing_scheme recon_engine \<Rightarrow> int \<Rightarrow> ('x clearing_scheme, recon_summary) action" where
  "summarize e aged_after =
     bindM (getM clock) (\<lambda>now.
     bindM (break_summary (now - aged_after)) (\<lambda>(waiting, aged).
     bindM (map_m (\<lambda>name. bindM (natural_balance (psp_suspense name)) (\<lambda>x.
        bindM (natural_balance (psp_receivable name)) (\<lambda>y. returnM (name, x, y)))) (registry_names (ren_registry e))) (\<lambda>rows.
     returnM \<lparr>rs_open_breaks = waiting, rs_aged_breaks = aged, rs_suspense = map (\<lambda>(n, x, y). (n, x)) rows,
       rs_receivable = map (\<lambda>(n, x, y). (n, y)) rows\<rparr>)))"

text \<open>Failures of one provider are logged and do not stop the others.\<close>

definition cycle_provider :: "'x clearing_scheme recon_engine \<Rightarrow> ctx \<Rightarrow> string \<Rightarrow> ('x clearing_scheme, unit) action" where
  "cycle_provider e c name = bindM (tryM (ingest e c name)) (\<lambda>_. bindM (tryM (flag_unsettled e name)) (\<lambda>_. returnM ()))"

definition cycle :: "'x clearing_scheme recon_engine \<Rightarrow> ctx \<Rightarrow> alert_config \<Rightarrow> ('x clearing_scheme, recon_summary) action" where
  "cycle e c alerts = bindM (for_each (registry_names (ren_registry e)) (cycle_provider e c)) (\<lambda>_.
     summarize e (al_aged_after (alert_with_defaults alerts)))"

section \<open>Decisions on breaks\<close>

definition resolution_reasons :: "string list" where
  "resolution_reasons = [''provider_error'', ''reference_mismatch'', ''timing'', ''bank_adjustment'', ''unrecoverable'', ''other'']"

record resolution =
  rn_break_id :: string
  rn_reason_code :: string
  rn_note :: string
  rn_by :: string
  rn_payment_id :: string

definition decide_break :: "ctx \<Rightarrow> resolution \<Rightarrow> (ctx \<Rightarrow> recon_break \<Rightarrow> ('x clearing_scheme, break_status) action) \<Rightarrow>
    ('x clearing_scheme, recon_break) action" where
  "decide_break c r act =
     (if rn_reason_code r \<notin> set resolution_reasons then failM InvalidArgument
      else if rn_note r = [] then failM InvalidArgument
      else with_tx c (\<lambda>c. bindM (lock_break c (rn_break_id r)) (\<lambda>b.
        if rb_status b \<noteq> BreakOpen then failM FailedPrecondition
        else bindM (act c b) (\<lambda>status.
          bindM (getM clock) (\<lambda>now.
          update_break (b\<lparr>rb_status := status, rb_reason_code := Some (rn_reason_code r), rb_note := Some (rn_note r),
            rb_resolved_by := Some (rn_by r), rb_resolved_at := Some now\<rparr>))))))"

definition break_journal_id :: "recon_break \<Rightarrow> string \<Rightarrow> string" where
  "break_journal_id b action = ''recon:'' @ rb_public_id b @ '':'' @ action"

text \<open>A positive amount debits \<open>to\<close> and credits \<open>origin\<close>, a negative one the reverse.\<close>

definition move_break :: "ctx \<Rightarrow> recon_break \<Rightarrow> string \<Rightarrow> string \<Rightarrow> string \<Rightarrow> int \<Rightarrow> ('x ledger_scheme, unit) action" where
  "move_break c b action origin to amount =
     (if amount = 0 then returnM ()
      else bindM (get_ledger_account_by_code origin) (\<lambda>x.
        bindM (get_ledger_account_by_code to) (\<lambda>y.
        let (debit, credit, n) = (if amount < 0 then (la_id x, la_id y, wrap64 (- amount)) else (la_id y, la_id x, amount)) in
        bindM (new_id LedgerJournalId) (\<lambda>pid.
        bindM (post_journal c \<lparr>jo_id = 0, jo_public_id = pid, jo_external_id = break_journal_id b action,
           jo_kind = JournalAdjustment, jo_product_id = rb_product_id b, jo_source_kind = Some ''recon_break'',
           jo_source_id = Some (rb_public_id b), jo_reverses_journal_id = None,
           jo_memo = action @ '' of '' @ classification_string (rb_classification b) @ '' break '' @ rb_public_id b,
           jo_reason_code = Some (''recon_'' @ action), jo_posted_at = 0,
           jo_postings = [new_leg debit Debit n (rb_currency b), new_leg credit Credit n (rb_currency b)],
           jo_product_public_id = None, jo_reverses_journal_public_id = None, jo_created_at = 0\<rparr>) (\<lambda>_. returnM ())))))"

definition resolve_break :: "ctx \<Rightarrow> resolution \<Rightarrow> ('x clearing_scheme, recon_break) action" where
  "resolve_break c r = decide_break c r (\<lambda>c b.
     if rb_classification b \<noteq> MissingAtProvider \<and> rb_amount b \<noteq> 0 then failM FailedPrecondition else returnM BreakResolved)"

definition force_match :: "'x clearing_scheme recon_engine \<Rightarrow> ctx \<Rightarrow> resolution \<Rightarrow> ('x clearing_scheme, recon_break) action" where
  "force_match e c r = decide_break c r (\<lambda>c b.
     if rb_settlement_item_id b = None then failM FailedPrecondition
     else if rn_payment_id r = [] then failM InvalidArgument
     else bindM (get_payment_by_public_id (rn_payment_id r)) (\<lambda>p.
       if pm_provider p \<noteq> Some (rb_provider b) then failM InvalidArgument
       else bindM (move_break c b ''force_match'' (psp_suspense (rb_provider b)) (psp_receivable (rb_provider b)) (wrap64 (- rb_amount b))) (\<lambda>_.
         bindM (mark_settled (ren_payments e) c (pm_id p) (''force-match '' @ rb_public_id b)) (\<lambda>_.
         returnM BreakForceMatched))))"

definition write_off :: "ctx \<Rightarrow> resolution \<Rightarrow> ('x clearing_scheme, recon_break) action" where
  "write_off c r = decide_break c r (\<lambda>c b.
     bindM (if rb_classification b = MissingAtProvider
       then move_break c b ''write_off'' (psp_receivable (rb_provider b)) recon_writeoffs (rb_amount b)
       else move_break c b ''write_off'' (psp_suspense (rb_provider b)) recon_writeoffs (wrap64 (- rb_amount b))) (\<lambda>_.
     returnM BreakWrittenOff))"

end
