(* ===== verification/ReconSafety.thy ===== *)
theory ReconSafety
  imports Recon
begin

text \<open>
  Reconciliation keeps what the interfaces below it keep. \<open>clearing_calls\<close> adds the settlement tables to the
  interface of the withdrawal desk, and \<open>clearing_step\<close> is one call of reconciliation or of any engine
  below it, however it ends; its payment engine is the one the other engines report to.
\<close>

lemma safep_clearing_lookups:
  "safep I (is_settled k x)" "safep I (ledger_view name l)" "safep I (match_line name st si seen)"
  "safep I (open_missing_at_provider_break i)" "safep I (latest_settlement_at name)" "safep I (lock_break c x)"
  "safep I (get_payment_by_public_id x)" "safep I (list_unsettled_payments name t n)" "safep I (break_summary t)"
  "safep I (natural_balance code)"
proof -
  show *: "safep I (ledger_view name l)" for name l
    unfolding ledger_view_def get_attempt_by_provider_ref_def get_payment_by_id_def get_refund_by_provider_ref_def
      get_dispute_by_provider_ref_def
    by (cases "sl_kind l") (simp_all, (intro keeps)+)
  show "safep I (is_settled k x)" unfolding is_settled_def by (intro keeps)
  then show "safep I (match_line name st si seen)"
    unfolding match_line_def Let_def is_settled_def by (intro keeps *)
qed (auto simp: open_missing_at_provider_break_def latest_settlement_at_def lock_break_def get_payment_by_public_id_def
    list_unsettled_payments_def break_summary_def natural_balance_def get_ledger_account_by_code_def get_balance_def
    intro!: keeps)

text \<open>The payment engine of the program: it reports to the order engine and to the withdrawal engine.\<close>

definition recon_of :: "withdrawal_engine \<Rightarrow> 'x clearing_scheme order_engine \<Rightarrow> 'x clearing_scheme recon_engine \<Rightarrow> 'x clearing_scheme recon_engine" where
  "recon_of we oe e = e\<lparr>ren_payments := payments_of (with_payouts we oe)\<rparr>"

locale break_calls = desk_calls I good
  for I :: "'x clearing_scheme \<Rightarrow> bool" and good :: "'x clearing_scheme payment_engine \<Rightarrow> bool" +
  assumes keeps_break_rows: "safep I (create_break b)" "okp I (update_break b)"
begin

lemmas break_keeps = payout_keeps keeps_break_rows keeps_break_rows(1) [THEN safep_okp]
  safep_clearing_lookups safep_clearing_lookups [THEN safep_okp] core_settled calls_safe(2)

lemma keeps_book_journal: "okp I (book_journal b x name)"
  unfolding book_journal_def book_leg_def Let_def by (intro break_keeps)

lemma keeps_book_item: "okp I (book_item name l b)"
  unfolding book_item_def by (intro break_keeps)

lemma keeps_settle_line: "good (ren_payments e) \<Longrightarrow> okp I (settle_line e c name x l)"
  unfolding settle_line_def open_break_def settle_payment_def by (intro break_keeps)

lemma good_recon: "good (ren_payments (recon_of we oe e))"
  by (simp add: recon_of_def good_hooks)

end

text \<open>With the tables of the settlements and their lines.\<close>

locale clearing_calls = break_calls I good
  for I :: "'x clearing_scheme \<Rightarrow> bool" and good :: "'x clearing_scheme payment_engine \<Rightarrow> bool" +
  assumes keeps_settlement_rows: "okp I (create_settlement x)" "okp I (set_settlement_status i status)" "okp I (create_settlement_item l)"
begin

lemmas clearing_keeps = break_keeps keeps_settlement_rows

lemma keeps_reconcile_lines: "good (ren_payments e) \<Longrightarrow> okp I (reconcile_lines e c name x is seen b n)"
proof (induction "is" arbitrary: seen b n)
  case (Cons i "is")
  then show ?case unfolding reconcile_lines.simps
    by (intro clearing_keeps keeps_book_item keeps_settle_line)
qed (simp add: keeps)

lemma keeps_book_settlement: "good (ren_payments e) \<Longrightarrow> okp I (book_settlement e c name ps x)"
  unfolding book_settlement_def by (intro clearing_keeps keeps_reconcile_lines keeps_book_journal)

lemma keeps_reconcile:
  "good (ren_payments e) \<Longrightarrow> okp I (reconcile e c name ps)" "good (ren_payments e) \<Longrightarrow> \<not> in_tx c \<Longrightarrow> safep I (reconcile e c name ps)"
proof -
  assume e: "good (ren_payments e)"
  show *: "okp I (reconcile e c name ps)" for c
    unfolding reconcile_def by (intro clearing_keeps keeps_book_settlement e)
  show "\<not> in_tx c \<Longrightarrow> safep I (reconcile e c name ps)"
    using * unfolding reconcile_def by (rule safep_own_tx [OF free])
qed

lemma safe_ingest: "good (ren_payments e) \<Longrightarrow> \<not> in_tx c \<Longrightarrow> safep I (ingest e c name)"
proof -
  assume e: "good (ren_payments e)" and c: "\<not> in_tx c"
  have "safep I (reconcile_all e c name xs n)" for xs n
    by (induction xs arbitrary: n) (auto intro!: keeps keeps_reconcile(2) e c)
  then show ?thesis unfolding ingest_def by (intro clearing_keeps)
qed

lemma safe_flag: "safep I (flag_unsettled e name)"
proof -
  have "safep I (flag_payment e name p)" for p
    unfolding flag_payment_def by (auto intro!: keeps keeps_break_rows safep_new_id [OF free] split: option.splits)
  then have "safep I (flag_payments e name ps n)" for ps n
    by (induction ps arbitrary: n) (auto intro!: keeps)
  then show ?thesis unfolding flag_unsettled_def by (intro clearing_keeps)
qed

lemma safe_cycle: "good (ren_payments e) \<Longrightarrow> \<not> in_tx c \<Longrightarrow> safep I (cycle e c alerts)"
  unfolding cycle_def cycle_provider_def summarize_def by (intro clearing_keeps safe_ingest safe_flag)

lemma keeps_decide_break:
  assumes "\<And>c b. okp I (act c b)"
  shows "okp I (decide_break c r act)" "\<not> in_tx c \<Longrightarrow> safep I (decide_break c r act)"
proof -
  have *: "okp I (with_tx c (\<lambda>c. bindM (lock_break c (rn_break_id r)) (\<lambda>b.
        if rb_status b \<noteq> BreakOpen then failM FailedPrecondition
        else bindM (act c b) (\<lambda>status.
          bindM (getM clock) (\<lambda>now.
          update_break (b\<lparr>rb_status := status, rb_reason_code := Some (rn_reason_code r), rb_note := Some (rn_note r),
            rb_resolved_by := Some (rn_by r), rb_resolved_at := Some now\<rparr>))))))" for c
    by (intro clearing_keeps assms)
  then show "okp I (decide_break c r act)"
    unfolding decide_break_def by (intro okp_if okp_basic)
  show "\<not> in_tx c \<Longrightarrow> safep I (decide_break c r act)"
    unfolding decide_break_def by (intro safep_if safep_basic safep_own_tx [OF free *])
qed

lemma keeps_move_break: "okp I (move_break c b action origin to amount)"
  unfolding move_break_def Let_def by (intro clearing_keeps)

lemma keeps_break_decisions:
  "okp I (resolve_break c r)" "good (ren_payments e) \<Longrightarrow> okp I (force_match e c r)" "okp I (write_off c r)"
  unfolding resolve_break_def force_match_def write_off_def
  by (intro keeps_decide_break clearing_keeps keeps_move_break; assumption?)+

lemma safe_break_decisions:
  assumes "\<not> in_tx c"
  shows "safep I (resolve_break c r)" "good (ren_payments e) \<Longrightarrow> safep I (force_match e c r)" "safep I (write_off c r)"
  unfolding resolve_break_def force_match_def write_off_def
  by (intro keeps_decide_break assms clearing_keeps keeps_move_break; assumption?)+

end

section \<open>Steps\<close>

inductive clearing_step ::
  "(withdrawal_engine \<Rightarrow> 'x clearing_scheme order_engine \<Rightarrow> bool) \<Rightarrow> 'x clearing_scheme \<Rightarrow> 'x clearing_scheme \<Rightarrow> bool" for E where
  clearing_reconcile: "E we oe \<Longrightarrow> reconcile (recon_of we oe e) c name ps s = (r, u) \<Longrightarrow> in_tx c \<longrightarrow> is_ok r \<Longrightarrow> clearing_step E s u"
| clearing_cycle: "E we oe \<Longrightarrow> cycle (recon_of we oe e) c alerts s = (r, u) \<Longrightarrow> \<not> in_tx c \<Longrightarrow> clearing_step E s u"
| clearing_ingest: "E we oe \<Longrightarrow> ingest (recon_of we oe e) c name s = (r, u) \<Longrightarrow> \<not> in_tx c \<Longrightarrow> clearing_step E s u"
| clearing_flag: "flag_unsettled e name s = (r, u) \<Longrightarrow> clearing_step E s u"
| clearing_resolve: "resolve_break c q s = (r, u) \<Longrightarrow> in_tx c \<longrightarrow> is_ok r \<Longrightarrow> clearing_step E s u"
| clearing_force: "E we oe \<Longrightarrow> force_match (recon_of we oe e) c q s = (r, u) \<Longrightarrow> in_tx c \<longrightarrow> is_ok r \<Longrightarrow> clearing_step E s u"
| clearing_write_off: "write_off c q s = (r, u) \<Longrightarrow> in_tx c \<longrightarrow> is_ok r \<Longrightarrow> clearing_step E s u"
| clearing_desk: "desk_step E s u \<Longrightarrow> clearing_step E s u"

context clearing_calls
begin

lemma clearing_step_keeps: "clearing_step E s u \<Longrightarrow> I s \<Longrightarrow> I u"
proof (induction rule: clearing_step.induct)
  case clearing_reconcile
  show ?case by (rule calls_ended [OF keeps_reconcile(1) [OF good_recon] clearing_reconcile(2-4)]) (rule keeps_reconcile(2) [OF good_recon])
next
  case clearing_cycle
  then show ?case using safepD [OF safe_cycle [OF good_recon]] by blast
next
  case clearing_ingest
  then show ?case using safepD [OF safe_ingest [OF good_recon]] by blast
next
  case clearing_flag
  then show ?case using safepD [OF safe_flag] by blast
next
  case clearing_resolve
  show ?case by (rule calls_ended [OF keeps_break_decisions(1) clearing_resolve]) (rule safe_break_decisions(1))
next
  case clearing_force
  show ?case by (rule calls_ended [OF keeps_break_decisions(2) [OF good_recon] clearing_force(2-4)]) (rule safe_break_decisions(2) [OF _ good_recon])
next
  case clearing_write_off
  show ?case by (rule calls_ended [OF keeps_break_decisions(3) clearing_write_off]) (rule safe_break_decisions(3))
next
  case clearing_desk
  then show ?case by (rule desk_step_keeps)
qed

lemma clearing_steps_keep: "(clearing_step E)\<^sup>*\<^sup>* s u \<Longrightarrow> I s \<Longrightarrow> I u"
  by (induction rule: rtranclp_induct) (auto intro: clearing_step_keeps)

end

section \<open>Who satisfies the interface\<close>

lemmas clearing_writes = create_settlement_def set_settlement_status_def create_settlement_item_def create_break_def update_break_def

interpretation clearing_books: clearing_calls ledger_inv "hooks_keep ledger_inv"
  by unfold_locales
    (auto simp: clearing_writes same_ledger_def intro!: keeps books.keeps_tables books.keeps_tables_ok)

lemma viewed_settlement_tables:
  "viewed Q (s\<lparr>settlements := xs\<rparr>) = viewed Q s" "viewed Q (s\<lparr>settlement_lines := ls\<rparr>) = viewed Q s"
  "viewed Q (s\<lparr>recon_breaks := bs\<rparr>) = viewed Q s"
  by (simp_all add: viewed_def)

interpretation clearing_register: clearing_calls "viewed intact" hooks_blind
  by unfold_locales
    (auto simp: clearing_writes viewed_settlement_tables intro!: keeps okp_modify safep_modify)

end
