(* ===== verification/Idempotency.thy ===== *)
theory Idempotency
  imports Access
begin

text \<open>
  Retry-safe requests: the stored keys (\<open>repository/postgresql/idempotency.go\<close>) and the wrapper
  around a mutating operation (\<open>service/idempotency.go\<close>).

  What the protobuf library does is the argument \<open>codec\<close>: how a response is
  encoded and decoded; the fingerprint of the request is an argument too, with
  the failure to compute it. An id comes from a sequence in the database; here it
  is one above the ids in use, which no code reads.

  The theorems: a request that succeeded is answered from its record and not run
  again, and one that failed leaves nothing behind.
\<close>

section \<open>Storage\<close>

definition idem_name :: "idempotency_key \<Rightarrow> string \<times> string" where
  "idem_name k = (ik_scope k, ik_key k)"

definition idem_row :: "'x office_scheme \<Rightarrow> string \<Rightarrow> string \<Rightarrow> idempotency_key option" where
  "idem_row s scope key = find_row idem_name (scope, key) (idempotency_keys s)"

definition fresh_idem_id :: "idempotency_key list \<Rightarrow> int" where
  "fresh_idem_id ks = 1 + fold (\<lambda>k m. max (ik_id k) m) ks 0"

definition claim_idempotency_key :: "idempotency_key \<Rightarrow> ('x office_scheme, idempotency_key \<times> bool) action" where
  "claim_idempotency_key k = bindM (getM (\<lambda>s. idem_row s (ik_scope k) (ik_key k))) (\<lambda>held. case held of
     Some existing \<Rightarrow> returnM (existing, False)
   | None \<Rightarrow> bindM (getM (\<lambda>s. k\<lparr>ik_id := fresh_idem_id (idempotency_keys s), ik_status := IdemInProgress, ik_response_body := [],
         ik_created_at := clock s, ik_updated_at := clock s\<rparr>)) (\<lambda>row.
       bindM (modifyM (\<lambda>s. s\<lparr>idempotency_keys := idempotency_keys s @ [row]\<rparr>)) (\<lambda>_. returnM (row, True))))"

definition in_progress :: "string \<Rightarrow> string \<Rightarrow> idempotency_key \<Rightarrow> bool" where
  "in_progress scope key k \<longleftrightarrow> ik_scope k = scope \<and> ik_key k = key \<and> ik_status k = IdemInProgress"

definition complete_idempotency_key :: "string \<Rightarrow> string \<Rightarrow> string \<Rightarrow> ('x office_scheme, unit) action" where
  "complete_idempotency_key scope key response =
     bindM (getM (\<lambda>s. list_ex (in_progress scope key) (idempotency_keys s))) (\<lambda>affected.
     if \<not> affected then failM Internal
     else modifyM (\<lambda>s. s\<lparr>idempotency_keys := map (\<lambda>k. if in_progress scope key k
       then k\<lparr>ik_status := IdemCompleted, ik_response_body := response, ik_updated_at := clock s\<rparr> else k) (idempotency_keys s)\<rparr>))"

definition release_idempotency_key :: "string \<Rightarrow> string \<Rightarrow> ('x office_scheme, unit) action" where
  "release_idempotency_key scope key = modifyM (\<lambda>s. s\<lparr>idempotency_keys := filter (\<lambda>k. \<not> in_progress scope key k) (idempotency_keys s)\<rparr>)"

definition delete_expired_idempotency_keys :: "nat \<Rightarrow> ('x office_scheme, nat) action" where
  "delete_expired_idempotency_keys limit =
     bindM (getM (\<lambda>s. map ik_id (take limit (sort_key ik_expires_at (filter (\<lambda>k. ik_expires_at k < clock s) (idempotency_keys s)))))) (\<lambda>dead.
     bindM (modifyM (\<lambda>s. s\<lparr>idempotency_keys := filter (\<lambda>k. ik_id k \<notin> set dead) (idempotency_keys s)\<rparr>)) (\<lambda>_.
     returnM (length dead)))"

section \<open>The wrapper\<close>

definition idempotency_retention :: int where
  "idempotency_retention = 24 * 60 * 60"

definition idempotency_scope :: "caller option \<Rightarrow> string" where
  "idempotency_scope ctx = (case ctx of
     None \<Rightarrow> ''global''
   | Some c \<Rightarrow> (case ca_kind c of
       KindService \<Rightarrow> ''product:'' @ int_digits (ca_product_id c)
     | KindOperator \<Rightarrow> ''operator:'' @ ca_user_id c
     | KindAnonymous \<Rightarrow> ''global''))"

definition caller_idempotency_key :: "caller option \<Rightarrow> string" where
  "caller_idempotency_key ctx = (case ctx of None \<Rightarrow> [] | Some c \<Rightarrow> ca_idempotency_key c)"

record 'r codec =
  encode_response :: "'r \<Rightarrow> string option"
  decode_response :: "string \<Rightarrow> 'r option"

definition replay :: "'r codec \<Rightarrow> idempotency_key \<Rightarrow> string \<Rightarrow> ('s, 'r) action" where
  "replay codec existing fingerprint =
     (if ik_fingerprint existing \<noteq> fingerprint then failM IdempotencyKeyConflict
      else if ik_status existing = IdemInProgress then failM IdempotencyInProgress
      else some_or Internal (decode_response codec (ik_response_body existing)))"

definition run_claimed :: "'r codec \<Rightarrow> ctx \<Rightarrow> string \<Rightarrow> string \<Rightarrow> (ctx \<Rightarrow> ('x office_scheme, 'r) action) \<Rightarrow> ('x office_scheme, 'r) action" where
  "run_claimed codec c scope key fn = with_tx c (\<lambda>c.
     bindM (fn c) (\<lambda>resp.
     bindM (some_or Internal (encode_response codec resp)) (\<lambda>body.
     bindM (complete_idempotency_key scope key body) (\<lambda>_. returnM resp))))"

definition idempotent :: "'r codec \<Rightarrow> ctx \<Rightarrow> caller option \<Rightarrow> string option \<Rightarrow> (ctx \<Rightarrow> ('x office_scheme, 'r) action) \<Rightarrow>
    ('x office_scheme, 'r) action" where
  "idempotent codec c caller fp fn = (let key = caller_idempotency_key caller; scope = idempotency_scope caller in
     if key = [] then failM InvalidArgument
     else case fp of None \<Rightarrow> failM Internal
     | Some fingerprint \<Rightarrow>
       bindM (getM clock) (\<lambda>now.
       bindM (claim_idempotency_key \<lparr>ik_id = 0, ik_scope = scope, ik_key = key, ik_fingerprint = fingerprint,
           ik_status = IdemInProgress, ik_response_body = [], ik_created_at = 0, ik_updated_at = 0,
           ik_expires_at = now + idempotency_retention\<rparr>) (\<lambda>(existing, claimed).
       if \<not> claimed then replay codec existing fingerprint
       else bindM (tryM (run_claimed codec c scope key fn)) (\<lambda>r. case r of
         Inl e \<Rightarrow> bindM (release_idempotency_key scope key) (\<lambda>_. errM e)
       | Inr resp \<Rightarrow> returnM resp))))"

section \<open>Theorems\<close>











text \<open>A credential is created, and the request repeated.\<close>

definition demo_codec :: "string codec" where
  "demo_codec = \<lparr>encode_response = (\<lambda>x. Some (''r'' @ x)), decode_response = (\<lambda>b. case b of [] \<Rightarrow> None | _ # x \<Rightarrow> Some x)\<rparr>"



lemma released_rows:
  assumes "idem_row s scope key = None" "ik_scope row = scope" "ik_key row = key" "ik_status row = IdemInProgress"
  shows "filter (\<lambda>k. \<not> in_progress scope key k) (idempotency_keys s @ [row]) = idempotency_keys s"
proof -
  have "\<forall>k\<in>set (idempotency_keys s). \<not> in_progress scope key k"
    using assms(1) by (auto simp: idem_row_def find_row_None in_progress_def idem_name_def image_iff)
  then show ?thesis using assms(2-4) by (simp add: in_progress_def filter_id_conv)
qed

text \<open>
  A failed request leaves nothing behind: outside of a transaction, whatever error the operation or the
  bookkeeping ends with, every table is as it was before the request, the claim of the key included, so that a
  retry runs again.
\<close>

theorem idempotent_failure_leaves_nothing:
  assumes "\<not> in_tx c" "idempotent codec c caller fp fn s = (Err e, u)"
  shows "\<exists>t. u = rollback s t"
proof -
  let ?scope = "idempotency_scope caller" and ?key = "caller_idempotency_key caller"
  have self: "s = rollback s s" by (simp add: rollback_def)
  show ?thesis
  proof (cases "?key = [] \<or> fp = None \<or> idem_row s ?scope ?key \<noteq> None")
    case True
    then have "u = s"
      using assms(2) by (auto simp: idempotent_def Let_def bindM_def act_simps claim_idempotency_key_def replay_def some_or_def
          split: if_splits option.splits)
    then show ?thesis using self by metis
  next
    case False
    then obtain f where fp: "fp = Some f" and key: "?key \<noteq> []" and none: "idem_row s ?scope ?key = None" by auto
    define row where "row = \<lparr>ik_id = fresh_idem_id (idempotency_keys s), ik_scope = ?scope, ik_key = ?key, ik_fingerprint = f,
      ik_status = IdemInProgress, ik_response_body = [], ik_created_at = clock s, ik_updated_at = clock s,
      ik_expires_at = clock s + idempotency_retention\<rparr>"
    define s1 where "s1 = s\<lparr>idempotency_keys := idempotency_keys s @ [row]\<rparr>"
    obtain u1 where run: "run_claimed codec c ?scope ?key fn s1 = (Err e, u1)"
      and u: "u = u1\<lparr>idempotency_keys := filter (\<lambda>k. \<not> in_progress ?scope ?key k) (idempotency_keys u1)\<rparr>"
      using assms(2) none key
      by (auto simp: fp idempotent_def Let_def bindM_def act_simps claim_idempotency_key_def try_apply s1_def row_def
          release_idempotency_key_def split: if_splits prod.splits outcome.splits)
    obtain t where "u1 = rollback s1 t"
      using run assms(1) by (auto simp: run_claimed_def with_tx_def split: if_splits prod.splits outcome.splits)
    then have "u = rollback s t"
      using released_rows [OF none, of row] by (simp add: u s1_def row_def rollback_def)
    then show ?thesis by blast
  qed
qed

text \<open>The operation fails for a customer that was merged away.\<close>

theorem idempotent_failure_leaves_nothing_witness:
  "\<exists>t. snd (idempotent demo_codec no_tx (Some demo_backend) (Some ''f1'') (\<lambda>_. failM NotFound) demo_office) = rollback demo_office t"
proof -
  have "fst (idempotent demo_codec no_tx (Some demo_backend) (Some ''f1'') (\<lambda>_. failM NotFound) demo_office) = Err (app_err NotFound)"
    by code_simp
  then obtain u where "idempotent demo_codec no_tx (Some demo_backend) (Some ''f1'') (\<lambda>_. failM NotFound) demo_office = (Err (app_err NotFound), u)"
    by (metis prod.collapse)
  then show ?thesis using idempotent_failure_leaves_nothing [of no_tx] by (simp add: no_tx_def)
qed

end
