(* ===== verification/Program.thy ===== *)
theory Program
  imports ReconSafety Idempotency
begin

text \<open>
  The program as a whole: the wallet, payment, order and withdrawal engines and reconciliation on one
  database, each reporting to the others as the process that starts them connects them, with the writes of
  the service layer beside them. \<open>program_step\<close> is one call of any of them, however it ends, or a
  transaction that was rolled back. What the interfaces below promise then holds after any sequence
  of such steps: the books are right, and what the payment tables say is consistent, with no assumption on
  the callbacks between the engines.
\<close>

section \<open>Steps\<close>

text \<open>Two states with the same tables but for those that only the service layer writes.\<close>

definition apart :: "'x clearing_scheme \<Rightarrow> 'x clearing_scheme \<Rightarrow> bool" where
  "apart s u \<longleftrightarrow> accounts u = accounts s \<and> journals u = journals s \<and> postings u = postings s \<and> balances u = balances s \<and>
     holds u = holds s \<and> wallets u = wallets s \<and> payments u = payments s \<and> attempts u = attempts s \<and> transitions u = transitions s \<and>
     provider_events u = provider_events s \<and> refunds u = refunds s \<and> disputes u = disputes s \<and> orders u = orders s \<and>
     order_lines u = order_lines s \<and> order_tenders u = order_tenders s \<and> order_refunds u = order_refunds s \<and>
     order_refund_parts u = order_refund_parts s \<and> beneficiaries u = beneficiaries s \<and> withdrawals u = withdrawals s \<and>
     settlements u = settlements s \<and> settlement_lines u = settlement_lines s \<and> recon_breaks u = recon_breaks s"

text \<open>
  The writes of the service layer, the ledger checker and the outbox drainer, and a transaction that was
  rolled back after whatever calls were made in it.
\<close>

inductive register_step :: "'x clearing_scheme \<Rightarrow> 'x clearing_scheme \<Rightarrow> bool" where
  reg_product: "create_product p s = (r, u) \<Longrightarrow> register_step s u"
| reg_update_product: "update_product p s = (r, u) \<Longrightarrow> register_step s u"
| reg_customer: "upsert_customer cu s = (r, u) \<Longrightarrow> register_step s u"
| reg_type: "create_wallet_type t s = (r, u) \<Longrightarrow> register_step s u"
| reg_update_type: "update_wallet_type t s = (r, u) \<Longrightarrow> register_step s u"
| reg_credential: "create_credential x s = (r, u) \<Longrightarrow> register_step s u"
| reg_revoke: "revoke_credential k s = (r, u) \<Longrightarrow> register_step s u"
| reg_touch: "touch_credential_used i s = (r, u) \<Longrightarrow> register_step s u"
| reg_item: "create_item it s = (r, u) \<Longrightarrow> register_step s u"
| reg_control: "set_provider_control c name ct s = (r, u) \<Longrightarrow> register_step s u"
| reg_claim: "claim_idempotency_key ik s = (r, u) \<Longrightarrow> register_step s u"
| reg_complete: "complete_idempotency_key scope k body s = (r, u) \<Longrightarrow> register_step s u"
| reg_release: "release_idempotency_key scope k s = (r, u) \<Longrightarrow> register_step s u"
| reg_published: "mark_outbox_event_published i s = (r, u) \<Longrightarrow> register_step s u"
| reg_failed: "mark_outbox_event_failed i k s = (r, u) \<Longrightarrow> register_step s u"
| reg_check: "record_ledger_check_run run s = (r, u) \<Longrightarrow> register_step s u"
| reg_rolled_back: "register_step s (rollback s t)"

lemma apart_refl: "apart s s" and apart_env: "env_free (apart s)"
  by (simp_all add: apart_def env_free_def rollback_def)

lemmas register_writes = create_product_def update_product_def upsert_customer_def create_wallet_type_def update_wallet_type_def
  create_credential_def revoke_credential_def touch_credential_used_def create_item_def set_provider_control_def
  claim_idempotency_key_def complete_idempotency_key_def release_idempotency_key_def mark_outbox_event_published_def
  mark_outbox_event_failed_def record_ledger_check_run_def

lemma safep_apart:
  "safep (apart s) (create_product p)" "safep (apart s) (update_product p)" "safep (apart s) (upsert_customer cu)"
  "safep (apart s) (create_wallet_type t)" "safep (apart s) (update_wallet_type t)" "safep (apart s) (create_credential x)"
  "safep (apart s) (revoke_credential k)" "safep (apart s) (touch_credential_used i)" "safep (apart s) (create_item it)"
  "safep (apart s) (set_provider_control c name ct)" "safep (apart s) (claim_idempotency_key ik)"
  "safep (apart s) (complete_idempotency_key scope k body)" "safep (apart s) (release_idempotency_key scope k)"
  "safep (apart s) (mark_outbox_event_published i)" "safep (apart s) (mark_outbox_event_failed i k)"
  "safep (apart s) (record_ledger_check_run run)"
  unfolding register_writes get_customer_by_external_ref_def resolve_merge_def get_product_by_public_id_def get_wallet_type_by_public_id_def
  by (auto simp: apart_def intro!: keeps safep_modify safep_follow_merge safep_joined_tx apart_env)

lemma apart_kept: "m s = (r, u) \<Longrightarrow> safep (apart s) m \<Longrightarrow> apart s u"
  by (auto dest: safepD intro: apart_refl)

lemma register_apart: "register_step s u \<Longrightarrow> apart s u"
proof (induction rule: register_step.induct)
  case (reg_rolled_back s t)
  then show ?case by (simp add: apart_refl rollback_env_free [OF apart_env])
qed (erule apart_kept, rule safep_apart)+

inductive program_step ::
  "(withdrawal_engine \<Rightarrow> 'x clearing_scheme order_engine \<Rightarrow> bool) \<Rightarrow> 'x clearing_scheme \<Rightarrow> 'x clearing_scheme \<Rightarrow> bool" for E where
  program_wallet: "wallet_step s u \<Longrightarrow> program_step E s u"
| program_clearing: "clearing_step E s u \<Longrightarrow> program_step E s u"
| program_account: "insert_ledger_account c a s = (r, u) \<Longrightarrow> program_step E s u"
| program_lapse: "expire_hold c x s = (Ok r, u) \<Longrightarrow> program_step E s u"
| program_register: "register_step s u \<Longrightarrow> program_step E s u"

locale program_calls = clearing_calls I good
  for I :: "'x clearing_scheme \<Rightarrow> bool" and good :: "'x clearing_scheme payment_engine \<Rightarrow> bool" +
  assumes elsewhere: "apart s u \<Longrightarrow> I s \<Longrightarrow> I u"
begin

lemma program_step_keeps: "program_step E s u \<Longrightarrow> I s \<Longrightarrow> I u"
  by (induction rule: program_step.induct)
    (auto intro: wallet_step_keeps clearing_step_keeps elsewhere [OF register_apart] dest: safepD [OF keeps_account] okpD [OF keeps_expire])

lemma program_steps_keep: "(program_step E)\<^sup>*\<^sup>* s u \<Longrightarrow> I s \<Longrightarrow> I u"
  by (induction rule: rtranclp_induct) (auto intro: program_step_keeps)

end

lemma apart_ledger_inv: "apart s u \<Longrightarrow> ledger_inv s \<Longrightarrow> ledger_inv u"
proof -
  assume "apart s u"
  then have eqs: "accounts u = accounts s" "journals u = journals s" "postings u = postings s" "balances u = balances s" "holds u = holds s"
    by (simp_all add: apart_def)
  show "ledger_inv s \<Longrightarrow> ledger_inv u"
    unfolding ledger_inv_def core_inv_def inv_defs posting_inv_def journal_inv_def hold_inv_def eqs .
qed

interpretation program_books: program_calls ledger_inv "hooks_keep ledger_inv"
  by unfold_locales (rule apart_ledger_inv)

interpretation program_register: program_calls "viewed intact" hooks_blind
  by unfold_locales (simp add: viewed_def apart_def)

section \<open>What holds after any sequence of calls\<close>

text \<open>An empty database: no accounts, no money moved, no payments.\<close>

definition program_start :: "'x clearing_scheme \<Rightarrow> bool" where
  "program_start s \<longleftrightarrow> ledger_start s \<and> payments s = [] \<and> transitions s = [] \<and> refunds s = []"

lemma program_intact:
  assumes "program_start s0" "(program_step E)\<^sup>*\<^sup>* s0 s"
  shows "ledger_inv s" "intact (payments s) (transitions s) (refunds s)"
proof -
  show "ledger_inv s"
    using program_books.program_steps_keep [OF assms(2)] assms(1) by (simp add: program_start_def ledger_start_inv)
  have "viewed intact s0" using assms(1) by (simp add: program_start_def viewed_def log_inv_start)
  then have "viewed intact s" by (rule program_register.program_steps_keep [OF assms(2)])
  then show "intact (payments s) (transitions s) (refunds s)" by (simp add: viewed_def)
qed

text \<open>
  Whatever sequence of calls of the engines and the service layer runs on an empty database, with whatever
  outcome, the ledger's checker reports nothing on the state it leads to, and no account that may not go
  negative is overdrawn, while the volume posted fits an int64.
\<close>

theorem program_keeps_books:
  assumes "program_start s0" "(program_step E)\<^sup>*\<^sup>* s0 s" "volume (postings s) < 2 ^ 63"
  shows "check_ledger_invariants c limit s = (Ok ([], False), s) \<and>
    (\<forall>a\<in>set (accounts s). \<forall>b. balance_of (la_id a) s = Some b \<and> \<not> la_allow_negative a \<longrightarrow>
       ba_held b \<le> ba_raw_balance b * normal_sign (la_type a))"
proof -
  have books: "books_ok s" by (rule ledger_inv_books [OF program_intact(1) [OF assms(1,2)] assms(3)])
  then show ?thesis using clean_report [of s c limit] by (auto simp: books_ok_def account_ok_def)
qed

text \<open>
  C9. The history of a payment is a run of the state machine: after any sequence of calls, however they
  end, the transitions recorded for a payment lead, each allowed by \<open>canTransition\<close> from where the last one
  ended, from \<open>created\<close> to the status the payment's row has, and that row has a captured amount exactly
  when its status says money was captured.
\<close>

theorem payment_log_follows_machine:
  assumes "program_start s0" "(program_step E)\<^sup>*\<^sup>* s0 s" "p \<in> set (payments s)"
  shows "legal_path PaymentCreated (log_of (pm_id p) (transitions s)) (pm_status p) \<and>
    (captured_status (pm_status p) \<longleftrightarrow> pm_captured_amount p \<noteq> None)"
  using program_intact(2) [OF assms(1,2)] assms(3)
  by (auto simp: log_inv_def payment_ok_def payment_checks_def ck_payments_captured_def)

text \<open>
  C10. No payment is refunded twice over: after any sequence of calls the refunds of a payment that did not
  fail add up to its refunded amount, which is never more than what was captured.
\<close>

theorem refunds_within_capture:
  assumes "program_start s0" "(program_step E)\<^sup>*\<^sup>* s0 s" "p \<in> set (payments s)"
  shows "sum_by rf_amount (\<lambda>r. rf_payment_id r = pm_id p \<and> rf_status r \<noteq> RefundFailed) (refunds s) = pm_refunded_amount p \<and>
    pm_refunded_amount p \<le> (case pm_captured_amount p of None \<Rightarrow> 0 | Some a \<Rightarrow> a)"
  using program_intact(2) [OF assms(1,2)] assms(3)
  by (auto simp: log_inv_def payment_ok_def payment_checks_def ck_payments_refunded_def live_sum_def)

section \<open>An example\<close>

text \<open>
  An empty database with one product, one wallet type and three customers: the accounts are opened, the first
  customer's wallet too, who tops it up with 500 and is given back 200.
\<close>

definition demo_orders :: "'x clearing_scheme order_engine" where
  "demo_orders = \<lparr>oen_payments = demo_engine, oen_config = \<lparr>ocf_ttl = 1800, ocf_hold_grace = 3600\<rparr>\<rparr>"

definition demo_payouts :: withdrawal_engine where
  "demo_payouts = \<lparr>wen_cipher = \<lparr>ci_current = [], ci_aeads = [], ci_mac = (\<lambda>_. [])\<rparr>, wen_nonce = (\<lambda>_. Inr []),
     wen_registry = new_registry [''fake''] (\<lambda>_. None) [demo_provider], wen_limits = demo_limits,
     wen_config = \<lparr>wcf_bank = ''hdfc'', wcf_beneficiary_cooling = 0, wcf_max_customer_daily = 0, wcf_max_customer_count = 0\<rparr>\<rparr>"

definition demo_wired :: "withdrawal_engine \<Rightarrow> 'x clearing_scheme order_engine \<Rightarrow> bool" where
  "demo_wired we oe \<longleftrightarrow> oe = demo_orders"

definition demo_pays :: "'x clearing_scheme order_hook \<Rightarrow> (ctx \<Rightarrow> string \<Rightarrow> string \<Rightarrow> ('x clearing_scheme, unit) action) \<Rightarrow> 'x clearing_scheme payment_engine" where
  "demo_pays h g = demo_engine\<lparr>pen_orders := Some h, pen_payouts := Some g\<rparr>"

lemma demo_pays_wired: "payments_of (with_payouts demo_payouts demo_orders) = demo_pays the_order_hook (process_payout_event demo_payouts)"
  by (simp add: demo_pays_def payments_of_def with_payouts_def demo_orders_def)

definition clearing_of :: "estate \<Rightarrow> clearing" where
  "clearing_of s = desk.extend (shop.extend (till.extend (office.extend (estate.extend s \<lparr>credentials = [], idempotency_keys = []\<rparr>)
     \<lparr>payments = [], attempts = [], transitions = [], provider_events = [], refunds = [], disputes = [], provider_controls = []\<rparr>)
     \<lparr>items = [], orders = [], order_lines = [], order_tenders = [], order_refunds = [], order_refund_parts = []\<rparr>)
     \<lparr>beneficiaries = [], withdrawals = []\<rparr>) \<lparr>settlements = [], settlement_lines = [], recon_breaks = []\<rparr>"

definition demo_chart :: "(string \<times> account_type) list" where
  "demo_chart = [(psp_receivable ''fake'', AccountAsset), (psp_suspense ''fake'', AccountAsset), (bank_account ''hdfc'', AccountAsset),
     (input_tax_credit, AccountAsset), (platform_psp_fees, AccountExpense), (recon_writeoffs, AccountExpense),
     (payouts_in_transit, AccountLiability), (product_psp_fees ''shop'', AccountExpense), (product_refunds_payable ''shop'', AccountLiability)]"

definition demo_day0 :: clearing where
  "demo_day0 = with_accounts demo_chart (clearing_of demo_shop)"

definition demo_topup :: "wallet \<Rightarrow> topup_request" where
  "demo_topup w = \<lparr>tq_product_id = 1, tq_customer = demo_customer 1 ''c1'', tq_wallet = w, tq_amount = 500,
     tq_currency = ''INR'', tq_description = [], tq_return_url = []\<rparr>"

definition demo_refund :: refund_request where
  "demo_refund = \<lparr>rr_payment_id = 1, rr_amount = 200, rr_reason_code = ''customer_request'', rr_memo = [], rr_requested_by = ''op''\<rparr>"

definition demo_story :: "'x clearing_scheme payment_engine \<Rightarrow> ('x clearing_scheme, refund) action" where
  "demo_story e =
     bindM (open_wallet no_tx (demo_customer 1 ''c1'') demo_type) (\<lambda>(w, _).
     bindM (create_topup e no_tx (demo_topup w)) (\<lambda>(p, _).
     bindM (poll e no_tx p ''poller'') (\<lambda>_.
     create_refund e no_tx demo_refund)))"

definition demo_day1 :: clearing where
  "demo_day1 = snd (demo_story (demo_pays the_order_hook (process_payout_event demo_payouts)) demo_day0)"

lemma demo_story_run:
  "(let s = snd (demo_story (demo_pays h g) demo_day0) in
     (map (\<lambda>p. (pm_id p, pm_status p, pm_refunded_amount p)) (payments s), volume (postings s)))
   = ([(1, PaymentPartiallyRefunded, 200)], 1800)"
  by code_simp

lemma demo_day1_run:
  "map (\<lambda>p. (pm_id p, pm_status p, pm_refunded_amount p)) (payments demo_day1) = [(1, PaymentPartiallyRefunded, 200)]"
  "volume (postings demo_day1) = 1800"
  using demo_story_run by (simp_all add: demo_day1_def Let_def)

text \<open>An action all of whose calls are steps leads along steps.\<close>

definition walks :: "('s \<Rightarrow> 's \<Rightarrow> bool) \<Rightarrow> ('s, 'a) action \<Rightarrow> bool" where
  "walks R m \<longleftrightarrow> (\<forall>s. R\<^sup>*\<^sup>* s (snd (m s)))"

lemma walks_bind: "walks R m \<Longrightarrow> (\<And>a. walks R (k a)) \<Longrightarrow> walks R (bindM m k)"
  by (auto simp: walks_def bindM_def split: prod.splits outcome.splits) (metis rtranclp_trans snd_conv)+

lemma walks_step: "(\<And>s r u. m s = (r, u) \<Longrightarrow> R s u) \<Longrightarrow> walks R m"
  by (auto simp: walks_def) (metis r_into_rtranclp surjective_pairing)

lemma walks_accounts: "(program_step E)\<^sup>*\<^sup>* s (with_accounts xs s)"
proof (induction xs arbitrary: s)
  case (Cons x xs)
  have "program_step E s (snd (insert_ledger_account tx a s))" for a
    by (rule program_account [of tx a s "fst (insert_ledger_account tx a s)"]) simp
  from this [of "demo_account (fst x) (snd x) True"] Cons.IH show ?case
    by (auto simp: with_accounts_def split: prod.splits intro: converse_rtranclp_into_rtranclp)
qed (simp add: with_accounts_def)

lemma demo_day_steps: "program_start (clearing_of demo_shop)" "(program_step demo_wired)\<^sup>*\<^sup>* (clearing_of demo_shop) demo_day1"
proof -
  show "program_start (clearing_of demo_shop)"
    by (simp add: program_start_def ledger_start_def clearing_of_def demo_shop_def estate.defs office.defs till.defs shop.defs desk.defs)
  let ?e = "demo_pays the_order_hook (process_payout_event demo_payouts) :: clearing payment_engine"
  let ?E = "\<lambda>p. \<exists>e. (\<exists>we oe. demo_wired we oe \<and> e = with_payouts we oe) \<and> p = payments_of e"
  have paying: "payment_step ?E s u \<Longrightarrow> program_step demo_wired s u" for s u
    by (rule program_clearing, rule clearing_desk, rule desk_orders, rule order_pays)
  have wired: "?E ?e"
    by (metis demo_pays_wired demo_wired_def)
  note pays = pay_topup [where E = ?E and e = ?e] pay_poll [where E = ?E and e = ?e] pay_refund [where E = ?E and e = ?e]
  have out: "in_tx no_tx \<longrightarrow> is_ok r" for r :: "'b outcome"
    by (simp add: no_tx_def)
  have "walks (program_step demo_wired) (open_wallet no_tx cu w)" for cu w
    by (rule walks_step) (rule program_wallet, erule wallet_open, rule out)
  moreover have "walks (program_step demo_wired) (create_topup ?e no_tx q)" for q
    by (rule walks_step) (rule paying, erule pays(1) [OF wired], rule out)
  moreover have "walks (program_step demo_wired) (poll ?e no_tx p x)" for p x
    by (rule walks_step) (rule paying, erule pays(2) [OF wired], rule out)
  moreover have "walks (program_step demo_wired) (create_refund ?e no_tx demo_refund)"
  proof (rule walks_step, rule paying)
    have "in64 (rr_amount demo_refund)" by (simp add: demo_refund_def in64_def)
    then show "create_refund ?e no_tx demo_refund s = (r, u) \<Longrightarrow> payment_step ?E s u" for s r u
      using pays(3) [OF wired _ _ out] by blast
  qed
  ultimately have "walks (program_step demo_wired) (demo_story ?e)"
    unfolding demo_story_def split_def by (intro walks_bind)
  then have "(program_step demo_wired)\<^sup>*\<^sup>* demo_day0 demo_day1" by (simp add: walks_def demo_day1_def)
  then show "(program_step demo_wired)\<^sup>*\<^sup>* (clearing_of demo_shop) demo_day1"
    using walks_accounts by (metis demo_day0_def rtranclp_trans)
qed

definition demo_row :: payment where
  "demo_row = payments demo_day1 ! 0"

lemma demo_row_facts: "demo_row \<in> set (payments demo_day1)" "pm_id demo_row = 1" "pm_status demo_row = PaymentPartiallyRefunded"
  "pm_refunded_amount demo_row = 200"
  using demo_day1_run(1) by (auto simp: demo_row_def map_eq_Cons_conv)

lemma program_keeps_books_witness: "check_ledger_invariants no_tx 50 demo_day1 = (Ok ([], False), demo_day1)"
  using program_keeps_books [OF demo_day_steps, of no_tx 50] by (simp add: demo_day1_run)

lemma payment_log_follows_machine_witness:
  "legal_path PaymentCreated (log_of 1 (transitions demo_day1)) PaymentPartiallyRefunded"
  using payment_log_follows_machine [OF demo_day_steps demo_row_facts(1)] unfolding demo_row_facts(2,3) by (simp only: simp_thms)

lemma refunds_within_capture_witness:
  "sum_by rf_amount (\<lambda>r. rf_payment_id r = 1 \<and> rf_status r \<noteq> RefundFailed) (refunds demo_day1) = 200"
  using refunds_within_capture [OF demo_day_steps demo_row_facts(1)] unfolding demo_row_facts(2,4) by (simp only: simp_thms)

end
