(* ===== verification/OrderProps.thy ===== *)
theory OrderProps
  imports Program
begin

text \<open>
  What the order engine promises: rows of orders are always consistent in themselves, an order is recorded once per
  reference of the product, the journal that settles it and the parts of a refund add up; and one place where it
  cannot go on: the last refund of an order that was refunded in parts without a breakdown.
\<close>

section \<open>Predicates of single tables\<close>

text \<open>No engine above the ledger writes what they look at, but for the component that owns the table.\<close>

locale desk_elsewhere = desk_blind I + till_blind I for I :: "'x desk_scheme \<Rightarrow> bool"

sublocale desk_elsewhere \<subseteq> desk_wired I "hooks_keep I"
  by unfold_locales (rule hooked [OF hooked_payouts])

text \<open>Of the orders: what a write of an order keeps.\<close>

locale orders_apart = till_blind I for I :: "'x clearing_scheme \<Rightarrow> bool" +
  assumes keeps_orders: "okp I (create_order x)" "okp I (update_order x)"
    and apart_orders: "I s \<Longrightarrow> I (s\<lparr>order_lines := ls\<rparr>)" "I s \<Longrightarrow> I (s\<lparr>order_tenders := ts\<rparr>)" "I s \<Longrightarrow> I (s\<lparr>order_refunds := rs\<rparr>)"
      "I s \<Longrightarrow> I (s\<lparr>order_refund_parts := ps\<rparr>)" "I s \<Longrightarrow> I (s\<lparr>withdrawals := ws\<rparr>)" "I s \<Longrightarrow> I (s\<lparr>beneficiaries := bs\<rparr>)"
      "I s \<Longrightarrow> I (s\<lparr>settlements := sts\<rparr>)" "I s \<Longrightarrow> I (s\<lparr>settlement_lines := sls\<rparr>)" "I s \<Longrightarrow> I (s\<lparr>recon_breaks := rbs\<rparr>)"
    and apart_rest: "apart s u \<Longrightarrow> I s \<Longrightarrow> I u"

sublocale orders_apart \<subseteq> order_side I
  unfolding order_side_def order_side_axioms_def order_writes
  by (auto intro!: estate_ops_axioms keeps okp_modify apart_orders keeps_orders [unfolded order_writes])

sublocale orders_apart \<subseteq> desk_side I
  unfolding desk_side_def desk_side_axioms_def payee_side_def payee_side_axioms_def desk_writes
  by (auto intro!: order_side_axioms keeps okp_modify safep_modify apart_orders)

sublocale orders_apart \<subseteq> desk_wired I "hooks_keep I"
  by unfold_locales (rule hooked [OF hooked_payouts])

sublocale orders_apart \<subseteq> program_calls I "hooks_keep I"
  by unfold_locales (auto simp: clearing_writes intro!: keeps okp_modify safep_modify apart_orders intro: apart_rest)

section \<open>Rows\<close>

definition order_ok :: "order_row \<Rightarrow> bool" where
  "order_ok x \<longleftrightarrow> ck_orders_arithmetic x \<and> ck_orders_paid x \<and> ck_orders_refunded x \<and> order_checks x"

lemmas order_ok_defs = order_ok_def ck_orders_arithmetic_def ck_orders_paid_def ck_orders_refunded_def order_checks_def


lemma created_order:
  assumes "create_order x s = (Ok y, u)"
  obtains row where "orders u = orders s @ [row]" "order_ok row" "od_id row = next_id (orders s)" "od_id y = od_id row"
    "od_product_id row = od_product_id x" "od_external_ref row = od_external_ref x" "order_ref (od_product_id x) (od_external_ref x) s = None"
  using assms
  by (auto simp: create_order_def bind_Ok_iff act_simps order_ok_def order_ref_def split: if_splits)

lemma updated_order:
  assumes "update_order x s = (Ok y, u)"
  obtains row where "row \<in> set (orders s)" "od_id row = od_id x"
    "orders u = update_rows od_id (od_id x) (\<lambda>_. write_order x (clock s) row) (orders s)"
    "ck_orders_paid (write_order x (clock s) row)" "ck_orders_refunded (write_order x (clock s) row)"
  using assms
  by (auto simp: update_order_def bind_Ok_iff act_simps dest!: find_row_Some split: option.splits if_splits)





section \<open>Once per reference\<close>

text \<open>The order of a product's reference is the one with this id, and ids are given in order.\<close>

definition order_is :: "int \<Rightarrow> string \<Rightarrow> int \<Rightarrow> 'x clearing_scheme \<Rightarrow> bool" where
  "order_is product ref i s \<longleftrightarrow> map od_id (orders s) = serials (length (orders s)) \<and> map_option od_id (order_ref product ref s) = Some i"

lemma order_is_kept: "okp (order_is product ref i) (create_order x)" "okp (order_is product ref i) (update_order x)"
proof -
  show "okp (order_is product ref i) (create_order x)"
    by (rule okpI, erule created_order)
      (auto simp: order_is_def order_ref_def row_simps next_id_def split: option.splits)
  show "okp (order_is product ref i) (update_order x)"
  proof (rule okpI)
    fix s y u assume known: "order_is product ref i s" and run: "update_order x s = (Ok y, u)"
    from run obtain row where row: "row \<in> set (orders s)" "od_id row = od_id x"
        "orders u = update_rows od_id (od_id x) (\<lambda>_. write_order x (clock s) row) (orders s)"
      by (rule updated_order)
    have "z = row" if "z \<in> set (orders s)" "od_id z = od_id x" for z
      using known that row(1,2) by (metis order_is_def distinct_serials inj_on_eq_iff distinct_map)
    then have u: "orders u = update_rows od_id (od_id x) (write_order x (clock s)) (orders s)"
      unfolding row(3) by (auto simp: update_rows_def)
    have ids: "map od_id (orders u) = map od_id (orders s)" "length (orders u) = length (orders s)"
      by (simp_all add: u update_rows_def write_order_def)
    have "order_ref product ref u = map_option (\<lambda>r. if od_id r = od_id x then write_order x (clock s) r else r) (order_ref product ref s)"
      unfolding order_ref_def u by (rule find_row_update) (simp add: write_order_def)
    then have "map_option od_id (order_ref product ref u) = map_option od_id (order_ref product ref s)"
      by (cases "order_ref product ref s") (simp_all add: write_order_def)
    then show "order_is product ref i u" using known ids by (simp add: order_is_def)
  qed
qed

definition ids_in_order :: "'x clearing_scheme \<Rightarrow> bool" where
  "ids_in_order s \<longleftrightarrow> map od_id (orders s) = serials (length (orders s))"

lemma ids_in_order_kept: "okp ids_in_order (create_order x)" "okp ids_in_order (update_order x)"
proof -
  show "okp ids_in_order (create_order x)"
    by (rule okpI, erule created_order) (simp add: ids_in_order_def next_id_def)
  show "okp ids_in_order (update_order x)"
  proof (rule okpI)
    fix s y u assume known: "ids_in_order s" and run: "update_order x s = (Ok y, u)"
    from run obtain row where "od_id row = od_id x" "orders u = update_rows od_id (od_id x) (\<lambda>_. write_order x (clock s) row) (orders s)"
      by (rule updated_order)
    then have "map od_id (orders u) = map od_id (orders s)" "length (orders u) = length (orders s)"
      by (simp_all add: update_rows_def write_order_def)
    then show "ids_in_order u" using known by (simp add: ids_in_order_def)
  qed
qed

interpretation order_ids: orders_apart ids_in_order
  by unfold_locales (simp_all add: ids_in_order_kept ids_in_order_def env_free_def rollback_def apart_def)

interpretation order_names: orders_apart "order_is product ref i" for product ref i
  by unfold_locales (simp_all add: order_is_kept order_is_def env_free_def rollback_def apart_def order_ref_def)

text \<open>An order is recorded by a call that returned; a lookup by its reference then finds it.\<close>

lemma order_result_order: "order_result_of x s = (Ok res, u) \<Longrightarrow> os_order res = x \<and> u = s"
  by (auto simp: order_result_of_def bind_Ok_iff act_simps list_order_tenders_def get_order_payment_def some_or_def
      split: if_splits option.splits)

lemma read_order_id: "read_order s x = Some y \<Longrightarrow> od_id y = od_id x \<and> od_total y = od_total x \<and> od_currency y = od_currency x"
  by (auto simp: read_order_def split: option.splits)

lemma locked_order_id: "lock_order c i s = (Ok y, u) \<Longrightarrow> u = s \<and> od_id y = i"
  by (auto simp: lock_order_def bind_Ok_iff act_simps some_or_def bind_eq_Some_conv dest!: find_row_Some read_order_id
      split: option.splits if_splits)

lemma found_by_ref:
  "get_order_by_external_ref product ref s = (r, u) \<Longrightarrow> u = s \<and> (\<forall>y. r = Ok y \<longrightarrow>
     (\<exists>x. order_ref product ref s = Some x \<and> read_order s x = Some y))"
  by (auto simp: get_order_by_external_ref_def bindM_def act_simps some_or_def bind_eq_Some_conv split: option.splits)

lemma create_again:
  assumes "order_is (cr_product_id r) (cr_external_ref r) i s" "product_exists (Some (cr_product_id r)) s"
  shows "snd (create_order_for e c r s) = s"
    "create_order_for e c r s = (Ok res, u) \<Longrightarrow> od_id (os_order res) = i"
proof -
  obtain x where x: "order_ref (cr_product_id r) (cr_external_ref r) s = Some x" "od_id x = i"
    using assms(1) by (auto simp: order_is_def)
  then have "od_product_id x = cr_product_id r" by (auto simp: order_ref_def dest: find_row_Some)
  then obtain y where y: "read_order s x = Some y" "od_id y = i"
    using assms(2) x by (auto simp: product_exists_def read_order_def)
  have found: "get_order_by_external_ref (cr_product_id r) (cr_external_ref r) s = (Ok y, s)"
    by (simp add: get_order_by_external_ref_def bindM_def act_simps x(1) y(1) some_or_def)
  have view: "order_result_of y s = (z, w) \<Longrightarrow> w = s" for z w
    by (auto simp: order_result_of_def bindM_def act_simps list_order_tenders_def get_order_payment_def some_or_def split: option.splits if_splits)
  have run: "create_order_for e c r s = (case validate_amounts r of Some k \<Rightarrow> failM k
     | None \<Rightarrow> if od_total y \<noteq> cr_total r \<or> od_currency y \<noteq> cr_currency r then failM AlreadyExists else order_result_of y) s"
    by (simp add: create_order_for_def bindM_def guardM_def try_apply found act_simps split: option.splits)
  show "snd (create_order_for e c r s) = s"
    using view by (auto simp: run act_simps split: option.splits) (metis prod.collapse)
  show "create_order_for e c r s = (Ok res, u) \<Longrightarrow> od_id (os_order res) = i"
    using y(2) by (auto simp: run act_simps dest!: order_result_order split: option.splits if_splits)
qed

lemma create_first:
  assumes "create_order_for (with_payouts we oe) c r s = (Ok res, u)" "map od_id (orders s) = serials (length (orders s))"
  shows "order_is (cr_product_id r) (cr_external_ref r) (od_id (os_order res)) u"
proof -
  let ?e = "with_payouts we oe" and ?found = "get_order_by_external_ref (cr_product_id r) (cr_external_ref r)"
  obtain q t where q: "?found s = (q, t)" by fastforce
  then have t: "t = s" by (simp add: found_by_ref)
  show ?thesis
  proof (cases q)
    case (Ok y)
    then obtain x where "order_ref (cr_product_id r) (cr_external_ref r) s = Some x" "od_id y = od_id x"
      using found_by_ref [OF q] read_order_id by blast
    moreover have "order_result_of y s = (Ok res, u)"
      using assms(1) q t Ok by (auto simp: create_order_for_def bind_Ok_iff guardM_def act_simps try_apply split: option.splits if_splits)
    ultimately show ?thesis using assms(2) by (auto simp: order_is_def dest!: order_result_order)
  next
    case (Err k)
    let ?c = "c\<lparr>in_tx := True\<rparr>"
    have "record_order ?e ?c r s = (Ok res, u)"
      using assms(1) q t Err
      by (auto simp: create_order_for_def bind_Ok_iff guardM_def act_simps try_apply with_tx_Ok split: option.splits if_splits)
    then obtain ts s1 pid s2 x s3 s4 s5 y where plan: "plan_tenders r s = (Ok ts, s1)" and id: "new_id OrderId s1 = (Ok pid, s2)"
      and made: "create_order (new_order r pid (fold (\<lambda>t acc. wrap64 (acc + snd t)) ts 0) (clock s2 + ocf_ttl (oen_config ?e))) s2 = (Ok x, s3)"
      and lines: "record_lines x (cr_lines r) s3 = (Ok (), s4)"
      and pay: "(if od_gateway_amount x = 0 then settle_from_wallets ?c x ts else hold_and_charge ?e ?c x ts r) s4 = (Ok (), s5)"
      and last: "lock_order ?c (od_id x) s5 = (Ok y, u)" "os_order res = y"
      by (auto simp: record_order_def bind_Ok_iff act_simps dest!: order_result_order)
    have ids: "ids_in_order s2"
      using assms(2) okpD [OF order_ids.keeps_plan_tenders _ plan] okpD [OF safep_okp [OF safep_new_id [OF order_ids.free]] _ id]
      by (simp add: ids_in_order_def)
    have settling: "okp (order_is (cr_product_id r) (cr_external_ref r) (od_id x))
        (if od_gateway_amount x = 0 then settle_from_wallets ?c x ts else hold_and_charge ?e ?c x ts r)"
      by (intro okp_if order_names.keeps_settle_from_wallets order_names.calls_hold_and_charge order_names.good_hooks)
    have "order_is (cr_product_id r) (cr_external_ref r) (od_id x) s3"
      using made by (rule created_order)
        (use ids in \<open>simp add: order_is_def ids_in_order_def next_id_def order_ref_def row_simps new_order_def\<close>)
    then have "order_is (cr_product_id r) (cr_external_ref r) (od_id x) s4"
      by (rule okpD [OF order_names.keeps_record_lines _ lines])
    then have "order_is (cr_product_id r) (cr_external_ref r) (od_id x) s5"
      by (rule okpD [OF settling _ pay])
    moreover have "od_id y = od_id x" "u = s5"
      using locked_order_id [OF last(1)] by simp_all
    ultimately show ?thesis using last(2) by simp
  next
    case Panicked
    then show ?thesis using assms(1) q by (auto simp: create_order_for_def bind_Ok_iff guardM_def act_simps try_apply split: option.splits)
  qed
qed

text \<open>
  C13. A product's order is recorded once: when a call to create it returned, whatever calls follow, another call with
  the product's reference changes nothing, and if it returns an order, it is the same one.
\<close>

theorem order_created_once:
  assumes "create_order_for (with_payouts we oe) c r s = (Ok res, u)" "map od_id (orders s) = serials (length (orders s))"
    "(program_step E)\<^sup>*\<^sup>* u v" "product_exists (Some (cr_product_id r)) v"
    "cr_product_id r' = cr_product_id r" "cr_external_ref r' = cr_external_ref r"
  shows "snd (create_order_for e' c' r' v) = v \<and> (\<forall>res' w. create_order_for e' c' r' v = (Ok res', w) \<longrightarrow> od_id (os_order res') = od_id (os_order res))"
proof -
  have "order_is (cr_product_id r) (cr_external_ref r) (od_id (os_order res)) v"
    by (rule order_names.program_steps_keep [OF assms(3) create_first [OF assms(1,2)]])
  then show ?thesis using create_again [of r' "od_id (os_order res)" v] assms(4-6) by simp
qed

section \<open>The last refund\<close>








section \<open>Sums\<close>

definition signed_sum :: "posting list \<Rightarrow> int" where
  "signed_sum ps = sum_list (map (\<lambda>p. po_direction p * po_amount p) ps)"

lemma map_m_lists:
  assumes "map_m f xs s = (Ok ys, u)" "\<And>x y s u. x \<in> set xs \<Longrightarrow> f x s = (Ok y, u) \<Longrightarrow> P x y"
  shows "list_all2 P xs ys"
  using assms by (induction xs arbitrary: s ys) (auto simp: bind_Ok_iff act_simps)

definition legs_of :: "int \<Rightarrow> posting list \<Rightarrow> bool" where
  "legs_of v ps \<longleftrightarrow> signed_sum ps = v \<and> (\<forall>p\<in>set ps. 0 < po_amount p)"

lemma legs_concat: "list_all2 (\<lambda>x. legs_of (f x)) xs pss \<Longrightarrow> legs_of (sum_list (map f xs)) (concat pss)"
  by (induction rule: list_all2_induct) (auto simp: legs_of_def signed_sum_def)

lemma legs_append: "legs_of v ps \<Longrightarrow> legs_of w qs \<Longrightarrow> legs_of (v + w) (ps @ qs)"
  by (auto simp: legs_of_def signed_sum_def)

lemma leg_if_legs: "0 \<le> amount \<Longrightarrow> legs_of (dir * amount) (leg_if a dir amount cur)"
  by (auto simp: leg_if_def legs_of_def signed_sum_def new_leg_def)

lemma tender_leg_legs: "tender_leg cur name t s = (Ok ps, u) \<Longrightarrow> 0 < ot_amount t \<Longrightarrow> legs_of (ot_amount t) ps"
  using leg_if_legs [of "ot_amount t" Debit]
  by (auto simp: tender_leg_def bind_Ok_iff act_simps Debit_def split: tender_kind.splits)

lemma component_leg_legs: "component_leg cur (code, dir, amount) s = (Ok ps, u) \<Longrightarrow> 0 \<le> amount \<Longrightarrow> legs_of (dir * amount) ps"
  using leg_if_legs [of amount dir]
  by (auto simp: component_leg_def bind_Ok_iff act_simps legs_of_def signed_sum_def split: if_splits)

text \<open>
  C18. The journal that settles an order balances: when the shares are positive and add up to the total, as those of
  the tenders of an order do, its debits are the shares and the discount, its credits the sales and the tax; in sum it is zero and every
  leg is positive, so the ledger does not refuse it.
\<close>

theorem order_settlement_balances:
  fixes s :: "'x estate_scheme"
  assumes "settlement_journal x ts name s = (Ok j, u)" "order_ok x" "\<forall>t\<in>set ts. 0 < ot_amount t" "sum_list (map ot_amount ts) = od_total x"
  shows "signed_sum (jo_postings j) = 0 \<and> (\<forall>p\<in>set (jo_postings j). 0 < po_amount p)"
proof -
  obtain product :: product and shares components and s1 s2 s3 :: "'x estate_scheme" where shares: "map_m (tender_leg (od_currency x) name) ts s1 = (Ok shares, s2)"
    and components: "map_m (component_leg (od_currency x))
        [(product_discounts (pr_code product), Debit, od_discount x), (product_sales (pr_code product), Credit, od_subtotal x),
         (gst_payable, Credit, od_tax x)] s2 = (Ok components, s3)"
    and j: "jo_postings j = concat shares @ concat components"
    using assms(1) unfolding settlement_journal_def bind_Ok_iff by (auto simp: act_simps simp del: map_m.simps append.simps)
  have amounts: "0 \<le> od_discount x" "0 \<le> od_subtotal x" "0 \<le> od_tax x" "od_subtotal x - od_discount x + od_tax x = od_total x"
    using assms(2) by (simp_all add: order_ok_defs)
  have "list_all2 (\<lambda>t. legs_of (ot_amount t)) ts shares"
    by (rule map_m_lists [OF shares]) (use assms(3) tender_leg_legs in blast)
  then have "legs_of (sum_list (map ot_amount ts)) (concat shares)" by (rule legs_concat)
  moreover have "list_all2 (\<lambda>c. legs_of ((\<lambda>(code, dir, amount). dir * amount) c))
      [(product_discounts (pr_code product), Debit, od_discount x), (product_sales (pr_code product), Credit, od_subtotal x),
       (gst_payable, Credit, od_tax x)] components"
    by (rule map_m_lists [OF components]) (use amounts component_leg_legs in auto)
  from legs_concat [OF this]
  have "legs_of (Debit * od_discount x + (Credit * od_subtotal x + Credit * od_tax x)) (concat components)" by simp
  ultimately have "legs_of (sum_list (map ot_amount ts) + (Debit * od_discount x + (Credit * od_subtotal x + Credit * od_tax x))) (jo_postings j)"
    unfolding j by (rule legs_append)
  then show ?thesis using assms(4) amounts(4) by (simp add: legs_of_def Debit_def Credit_def)
qed

section \<open>The parts of a refund\<close>

definition parts_sum :: "order_refund_part list \<Rightarrow> int" where
  "parts_sum ps = sum_list (map op_amount ps)"

definition gathered_for :: "int \<Rightarrow> int \<Rightarrow> gathered \<Rightarrow> bool" where
  "gathered_for i whole g \<longleftrightarrow> parts_sum (ga_parts g) + ga_remaining g = whole \<and> (\<forall>p\<in>set (ga_parts g). op_order_refund_id p = i)"

lemma gather_share_keeps:
  "gather_share o' x store t amount g s = (Ok g', u) \<Longrightarrow> gathered_for (ox_id x) whole g \<Longrightarrow> gathered_for (ox_id x) whole g'"
  by (auto simp: gather_share_def Let_def bind_Ok_iff act_simps gathered_for_def parts_sum_def part_to_wallet_def empty_part_def
      split: option.splits if_splits)

lemma gather_shares_keeps:
  "gather_shares o' x store ts g s = (Ok g', u) \<Longrightarrow> gathered_for (ox_id x) whole g \<Longrightarrow> gathered_for (ox_id x) whole g'"
proof (induction ts arbitrary: g s)
  case (Cons t ts)
  then show ?case
    by (auto simp: Let_def bind_Ok_iff act_simps split: if_splits dest: gather_share_keeps)
qed (simp add: act_simps)

lemma refund_card_parts:
  "refund_card e c o' x g s = (Ok parts, u) \<Longrightarrow> map op_amount parts = map op_amount (ga_parts g) \<and>
     map op_order_refund_id parts = map op_order_refund_id (ga_parts g)"
  by (auto simp: refund_card_def bind_Ok_iff act_simps split: if_splits)

lemma create_part_run:
  "create_order_refund_part p s = (Ok row, u) \<Longrightarrow> 0 < op_amount row \<and> op_amount row = op_amount p \<and> op_order_refund_id row = op_order_refund_id p"
  by (auto simp: create_order_refund_part_def bind_Ok_iff act_simps split: if_splits)

lemma create_parts_run:
  assumes "map_m create_order_refund_part ps s = (Ok rows, u)"
  shows "map op_amount rows = map op_amount ps \<and> map op_order_refund_id rows = map op_order_refund_id ps \<and> (\<forall>p\<in>set rows. 0 < op_amount p)"
proof -
  have "list_all2 (\<lambda>p row. 0 < op_amount row \<and> op_amount row = op_amount p \<and> op_order_refund_id row = op_order_refund_id p) ps rows"
    by (rule map_m_lists [OF assms]) (rule create_part_run)
  then show ?thesis by (induction rule: list_all2_induct) simp_all
qed

lemma refund_tenders_parts:
  fixes s :: "'x shop_scheme"
  assumes "refund_tenders e c o' product x split s = (Ok rows, u)"
  shows "parts_sum rows = ox_amount x \<and> (\<forall>p\<in>set rows. 0 < op_amount p \<and> op_order_refund_id p = ox_id x)"
proof -
  obtain ordered store g parts and s1 s2 s3 s4 :: "'x shop_scheme" where gathered: "gather_shares o' x store ordered \<lparr>ga_parts = [], ga_credits = [], ga_wallets = [], ga_card_share = 0,
        ga_card_tender = None, ga_remaining = ox_amount x\<rparr> s1 = (Ok g, s2)" "ga_remaining g = 0"
    and card: "refund_card e c o' x g s3 = (Ok parts, s4)" and rows: "map_m create_order_refund_part parts s4 = (Ok rows, u)"
    using assms unfolding refund_tenders_def bind_Ok_iff by (auto simp: bind_Ok_iff act_simps split: if_splits prod.splits)
  have "gathered_for (ox_id x) (ox_amount x) g"
    by (rule gather_shares_keeps [OF gathered(1)]) (simp add: gathered_for_def parts_sum_def)
  moreover note refund_card_parts [OF card] create_parts_run [OF rows]
  ultimately show ?thesis using gathered(2)
    by (auto simp: gathered_for_def parts_sum_def dest!: arg_cong [where f = set])
qed

text \<open>
  C17. Every refund of an order is given back in full: when a refund is returned, its subtotal less its discount plus its
  tax is the amount asked for, and its parts, each positive, add up to it.
\<close>

theorem order_refund_adds_up:
  fixes s :: "'x shop_scheme"
  assumes "refund_order_for e c r s = (Ok (x, parts), u)"
  shows "ox_amount x = orq_amount r \<and> ox_subtotal x - ox_discount x + ox_tax x = ox_amount x \<and>
    sum_list (map op_amount parts) = ox_amount x \<and> (\<forall>p\<in>set parts. 0 < op_amount p \<and> op_order_refund_id p = ox_id x)"
proof -
  obtain y and t :: "'x shop_scheme" where "refund_locked e (c\<lparr>in_tx := True\<rparr>) r y t = (Ok (x, parts), u)"
    using assms by (auto simp: refund_order_for_def with_tx_Ok bind_Ok_iff act_simps split: if_splits)
  then obtain z o2 product split and v w v' w' :: "'x shop_scheme" where made: "create_order_refund z v = (Ok x, w)" "ox_amount z = orq_amount r"
      and parts: "refund_tenders e (c\<lparr>in_tx := True\<rparr>) o2 product x split v' = (Ok parts, w')"
    by (auto simp: refund_locked_def bind_Ok_iff act_simps Let_def split: if_splits sum.splits prod.splits)
      (erule that, simp add: new_order_refund_def, assumption)+
  have "ox_amount x = orq_amount r \<and> ox_subtotal x - ox_discount x + ox_tax x = ox_amount x"
    using made by (auto simp: create_order_refund_def bind_Ok_iff act_simps split: if_splits)
  then show ?thesis using refund_tenders_parts [OF parts] by (simp add: parts_sum_def)
qed

section \<open>Examples\<close>

text \<open>A customer with a funded wallet buys for 118, of which 18 are tax, and is given 1 back.\<close>

definition demo_counter :: clearing where
  "demo_counter = with_accounts [(psp_receivable ''fake'', AccountAsset), (product_sales ''shop'', AccountIncome),
     (gst_payable, AccountLiability), (product_refunds_payable ''shop'', AccountLiability)] (clearing_of demo_shop)"

definition demo_fill :: "wallet \<Rightarrow> fund_request" where
  "demo_fill w = \<lparr>fr_wallet = w, fr_amount = 500, fr_provider = ''fake'', fr_product_id = 1, fr_external_id = ''f1''\<rparr>"

definition demo_loaded :: clearing where
  "demo_loaded = snd (bindM (open_wallet no_tx (demo_customer 1 ''c1'') demo_type) (\<lambda>(w, _). fund demo_limits no_tx (demo_fill w)) demo_counter)"

definition demo_payer :: wallet where
  "demo_payer = hd (wallets demo_loaded)"

definition demo_purchase :: create_order_request where
  "demo_purchase = \<lparr>cr_product_id = 1, cr_customer = Some (demo_customer 1 ''c1''), cr_external_ref = ''inv1'', cr_invoice_ref = [],
     cr_currency = ''INR'', cr_subtotal = 100, cr_discount = 0, cr_tax = 18, cr_total = 118, cr_tax_rate = ''18'',
     cr_breakdown_provided = True, cr_lines = [], cr_tenders = [(demo_payer, 118)], cr_auto_tender = False,
     cr_description = [], cr_return_url = []\<rparr>"

definition demo_return :: "int \<Rightarrow> order_refund_request" where
  "demo_return a = \<lparr>orq_order_id = 1, orq_amount = a, orq_breakdown = None, orq_destination = ''source'',
     orq_reason_code = ''customer_request'', orq_memo = [], orq_requested_by = ''op''\<rparr>"

definition demo_checkout :: "'x clearing_scheme payment_engine \<Rightarrow> 'x clearing_scheme order_engine" where
  "demo_checkout p = \<lparr>oen_payments = p, oen_config = \<lparr>ocf_ttl = 1800, ocf_hold_grace = 3600\<rparr>\<rparr>"

definition demo_seller :: "clearing order_engine" where
  "demo_seller = with_payouts demo_payouts demo_orders"

definition demo_bought :: clearing where
  "demo_bought = snd (create_order_for demo_seller no_tx demo_purchase demo_loaded)"

definition demo_returned :: clearing where
  "demo_returned = snd (refund_order_for demo_seller no_tx (demo_return 1) demo_bought)"

definition demo_refunded_row :: order_row where
  "demo_refunded_row = \<lparr>od_id = 1, od_public_id = ''ord_aaaab'', od_product_id = 1, od_customer_id = Some 1, od_external_ref = ''inv1'',
     od_invoice_ref = [], od_currency = ''INR'', od_subtotal = 100, od_discount = 0, od_tax = 18, od_total = 118, od_tax_rate = ''18'',
     od_tax_breakdown_provided = True, od_status = OrderPartiallyRefunded, od_failure_reason = None, od_gateway_amount = 0,
     od_refunded_subtotal = 1, od_refunded_discount = 0, od_refunded_tax = 0, od_expires_at = 101800, od_paid_at = Some 100000,
     od_product_public_id = [], od_customer_public_id = Some ''c1'', od_created_at = 100000, od_updated_at = 100000\<rparr>"

definition demo_share :: order_tender where
  "demo_share = \<lparr>ot_id = 1, ot_order_id = 1, ot_kind = TenderWallet, ot_wallet_id = Some 1, ot_amount = 118, ot_status = TenderCaptured,
     ot_refunded_amount = 0, ot_wallet_public_id = Some (wa_public_id demo_payer)\<rparr>"

lemma demo_sale_run:
  "(case create_order_for (demo_checkout p) no_tx demo_purchase demo_loaded of (r, u) \<Rightarrow>
     case refund_order_for (demo_checkout p) no_tx (demo_return 1) u of (r1, v) \<Rightarrow>
       (orders demo_loaded, map_outcome (\<lambda>x. od_id (os_order x)) r, map_outcome (\<lambda>(x, ps). ox_amount x) r1, orders v, product_exists (Some 1) v)) =
     ([], Ok 1, Ok 1, [demo_refunded_row], True)"
  by code_simp

lemma demo_seller_checkout: "demo_seller = demo_checkout (oen_payments demo_seller)"
  by (simp add: demo_seller_def demo_checkout_def with_payouts_def demo_orders_def)

lemma demo_sale:
  obtains res x ps where "create_order_for demo_seller no_tx demo_purchase demo_loaded = (Ok res, demo_bought)"
    "refund_order_for demo_seller no_tx (demo_return 1) demo_bought = (Ok (x, ps), demo_returned)" "ox_amount x = 1"
    "orders demo_loaded = []" "orders demo_returned = [demo_refunded_row]" "product_exists (Some 1) demo_returned"
proof -
  obtain r u where create: "create_order_for demo_seller no_tx demo_purchase demo_loaded = (r, u)" by fastforce
  obtain r1 v where refund: "refund_order_for demo_seller no_tx (demo_return 1) u = (r1, v)" by fastforce
  have u: "demo_bought = u" by (simp add: demo_bought_def create)
  have v: "demo_returned = v" by (simp add: demo_returned_def u refund)
  have "(orders demo_loaded, map_outcome (\<lambda>x. od_id (os_order x)) r, map_outcome (\<lambda>(x, ps). ox_amount x) r1, orders v,
      product_exists (Some 1) v) = ([], Ok 1, Ok 1, [demo_refunded_row], True)"
    using demo_sale_run [of "oen_payments demo_seller"] by (simp add: demo_seller_checkout [symmetric] create refund)
  then show ?thesis using that create refund unfolding u v by (cases r; cases r1) auto
qed

lemma demo_sale_steps: "(program_step demo_wired)\<^sup>*\<^sup>* demo_bought demo_returned" "(program_step demo_wired)\<^sup>*\<^sup>* (clearing_of demo_shop) demo_returned"
proof -
  let ?E = "\<lambda>e. \<exists>we oe. demo_wired we oe \<and> e = with_payouts we oe"
  let ?R = "program_step demo_wired :: clearing \<Rightarrow> clearing \<Rightarrow> bool"
  have wired: "?E demo_seller" by (auto simp: demo_seller_def demo_wired_def)
  have ordering: "order_step ?E s u \<Longrightarrow> program_step demo_wired s u" for s u
    by (rule program_clearing, rule clearing_desk, rule desk_orders)
  have out: "in_tx no_tx \<longrightarrow> is_ok r" for r :: "'b outcome"
    by (simp add: no_tx_def)
  have "in64 (orq_amount (demo_return 1))" by (simp add: demo_return_def in64_def)
  then have "walks ?R (refund_order_for demo_seller no_tx (demo_return 1))"
    by (intro walks_step, intro ordering) (erule order_refund [where E = ?E, OF wired _ _ out])
  then show returned: "(program_step demo_wired)\<^sup>*\<^sup>* demo_bought demo_returned" by (simp add: walks_def demo_returned_def)
  have "walks ?R (create_order_for demo_seller no_tx demo_purchase)"
    by (intro walks_step, intro ordering) (erule order_create [where E = ?E, OF wired _ out])
  then have bought: "(program_step demo_wired)\<^sup>*\<^sup>* demo_loaded demo_bought" by (simp add: walks_def demo_bought_def)
  have "walks ?R (open_wallet no_tx cu w)" for cu w
    by (rule walks_step) (rule program_wallet, erule wallet_open, rule out)
  moreover have "walks ?R (fund demo_limits no_tx (demo_fill w))" for w
    by (rule walks_step) (rule program_wallet, erule wallet_fund, rule out)
  ultimately have "walks ?R (bindM (open_wallet no_tx (demo_customer 1 ''c1'') demo_type) (\<lambda>(w, _). fund demo_limits no_tx (demo_fill w)))"
    unfolding split_def by (intro walks_bind)
  then have "(program_step demo_wired)\<^sup>*\<^sup>* demo_counter demo_loaded" by (simp add: walks_def demo_loaded_def)
  with bought returned have "(program_step demo_wired)\<^sup>*\<^sup>* demo_counter demo_returned" by simp
  then show "(program_step demo_wired)\<^sup>*\<^sup>* (clearing_of demo_shop) demo_returned"
    using walks_accounts by (metis demo_counter_def rtranclp_trans)
qed

lemma demo_row_ok: "order_ok demo_refunded_row"
  by (simp add: order_ok_defs demo_refunded_row_def in64_def paid_status_def)


lemma order_created_once_witness:
  "snd (create_order_for demo_seller no_tx demo_purchase demo_returned) = demo_returned"
proof -
  obtain res where bought: "create_order_for (with_payouts demo_payouts demo_orders) no_tx demo_purchase demo_loaded = (Ok res, demo_bought)"
    and empty: "orders demo_loaded = []" and shop: "product_exists (Some (cr_product_id demo_purchase)) demo_returned"
    by (rule demo_sale) (simp add: demo_seller_def demo_purchase_def)
  have "map od_id (orders demo_loaded) = serials (length (orders demo_loaded))" by (simp add: empty serials_def)
  from order_created_once [OF bought this demo_sale_steps(1) shop refl refl] show ?thesis by blast
qed


lemma order_settlement_balances_witness:
  "\<exists>j u. settlement_journal demo_refunded_row [demo_share] [] demo_loaded = (Ok j, u) \<and> signed_sum (jo_postings j) = 0"
proof -
  have "is_ok (fst (settlement_journal demo_refunded_row [demo_share] [] demo_loaded))" by code_simp
  then obtain j u where run: "settlement_journal demo_refunded_row [demo_share] [] demo_loaded = (Ok j, u)"
    by (cases "settlement_journal demo_refunded_row [demo_share] [] demo_loaded"; cases "fst (settlement_journal demo_refunded_row [demo_share] [] demo_loaded)") auto
  have "signed_sum (jo_postings j) = 0"
    using order_settlement_balances [OF run demo_row_ok] by (simp add: demo_share_def demo_refunded_row_def)
  with run show ?thesis by blast
qed

lemma order_refund_adds_up_witness:
  "\<exists>x ps. refund_order_for demo_seller no_tx (demo_return 1) demo_bought = (Ok (x, ps), demo_returned) \<and> sum_list (map op_amount ps) = 1"
proof -
  obtain x ps where run: "refund_order_for demo_seller no_tx (demo_return 1) demo_bought = (Ok (x, ps), demo_returned)" and amount: "ox_amount x = 1"
    by (rule demo_sale)
  have "sum_list (map op_amount ps) = 1" using order_refund_adds_up [OF run] amount by simp
  with run show ?thesis by blast
qed

end
