(* ===== verification/WithdrawalProps.thy ===== *)
theory WithdrawalProps
  imports Program
begin

text \<open>
  The second person's decision: a withdrawal that needs an approval never gets past waiting for it without the decision of
  somebody other than the one who asked for it.

  The row of a withdrawal is read, changed in parts and written back, in one transaction. \<open>known\<close> is what a call
  knows of the row it locked, \<open>fit\<close> what makes a copy of it one that may be written; \<open>fitting\<close> calls turn one such copy into
  another.
\<close>

section \<open>The table of withdrawals\<close>

definition standing :: "(withdrawal list \<Rightarrow> bool) \<Rightarrow> 'x desk_scheme \<Rightarrow> bool" where
  "standing Q s \<longleftrightarrow> Q (withdrawals s)"

text \<open>Past the decision only with a second person's.\<close>

definition cleared :: "withdrawal list \<Rightarrow> bool" where
  "cleared xs \<longleftrightarrow> map wd_id xs = serials (length xs) \<and>
     (\<forall>x\<in>set xs. wd_requires_approval x \<and> wd_status x \<noteq> WithdrawalPendingApproval \<longrightarrow>
        (\<exists>a. wd_decided_by x = Some a \<and> a \<noteq> wd_requested_by x))"

text \<open>The row with this id says whether it needs a decision, and a copy of it that may be written.\<close>

definition known :: "int \<Rightarrow> bool \<Rightarrow> withdrawal list \<Rightarrow> bool" where
  "known i b xs \<longleftrightarrow> cleared xs \<and> map_option wd_requires_approval (find_row wd_id i xs) = Some b"

definition fit :: "int \<Rightarrow> bool \<Rightarrow> withdrawal \<Rightarrow> bool" where
  "fit i b x \<longleftrightarrow> wd_id x = i \<and> (b \<longrightarrow> wd_decided_by x \<noteq> None)"

interpretation standing_desk: shop_blind "standing Q" for Q
  by unfold_locales (simp_all add: standing_def env_free_def rollback_def)

interpretation standing_till: till_blind "standing Q" for Q
  by unfold_locales (simp_all add: standing_def)

interpretation payees: payee_side "standing Q" for Q
  by unfold_locales (auto simp: desk_writes standing_def intro!: keeps safep_modify)

lemma find_row_replaced: "find_row key i xs = Some y \<Longrightarrow> key z = i \<Longrightarrow> find_row key i (update_rows key i (\<lambda>_. z) xs) = Some z"
  by (induction xs) (auto simp: update_rows_def split: if_splits)

lemma update_fit:
  assumes "fit i b x"
  shows "triple (standing (known i b)) (update_withdrawal x) (\<lambda>y s. fit i b y \<and> standing (known i b) s)"
proof (rule tripleI)
  fix s y u
  assume known: "standing (known i b) s" and run: "update_withdrawal x s = (Ok y, u)"
  obtain row where row: "find_row wd_id i (withdrawals s) = Some row" "wd_requires_approval row = b"
    using known by (auto simp: standing_def known_def)
  let ?row = "write_withdrawal x (clock s) row"
  have y: "fit i b y" and four: "wd_decided_by x \<noteq> Some (wd_requested_by row)"
    and u: "withdrawals u = update_rows wd_id i (\<lambda>_. ?row) (withdrawals s)"
    using run assms row(1)
    by (auto simp: update_withdrawal_def bind_Ok_iff act_simps fit_def ck_withdrawals_four_eyes_def write_withdrawal_def split: if_splits)
  have row': "wd_id ?row = i" "wd_requires_approval ?row = b" "wd_decided_by ?row = wd_decided_by x" "wd_requested_by ?row = wd_requested_by row"
    using find_row_Some [OF row(1)] row(2) by (simp_all add: write_withdrawal_def)
  have ids: "map wd_id (withdrawals u) = map wd_id (withdrawals s)" unfolding u using row'(1) by (simp add: update_rows_def)
  have "map wd_id (withdrawals u) = serials (length (withdrawals u))"
    using known map_eq_imp_length_eq [OF ids] by (simp add: ids standing_def known_def cleared_def)
  moreover have "\<forall>z\<in>set (withdrawals u). wd_requires_approval z \<and> wd_status z \<noteq> WithdrawalPendingApproval \<longrightarrow>
      (\<exists>a. wd_decided_by z = Some a \<and> a \<noteq> wd_requested_by z)"
    using known row' four assms by (auto simp: standing_def known_def cleared_def u update_rows_def fit_def)
  ultimately have "cleared (withdrawals u)" by (simp add: cleared_def)
  moreover have "find_row wd_id i (withdrawals u) = Some ?row"
    unfolding u using row'(1) row(1) by (simp add: find_row_replaced)
  ultimately show "fit i b y \<and> standing (known i b) u"
    using y row'(2) by (simp add: standing_def known_def)
qed

lemma fit_write [simp]:
  "fit i b (x\<lparr>wd_status := st\<rparr>) = fit i b x" "fit i b (x\<lparr>wd_failure_reason := r\<rparr>) = fit i b x"
  "fit i b (x\<lparr>wd_provider_payout_id := p\<rparr>) = fit i b x" "fit i b (x\<lparr>wd_paid_at := t\<rparr>) = fit i b x"
  by (simp_all add: fit_def)

text \<open>Steps of a call on a withdrawal that fits: writes of it return one that fits, everything else leaves the table alone.\<close>

abbreviation fitting :: "int \<Rightarrow> bool \<Rightarrow> ('x desk_scheme, withdrawal) action \<Rightarrow> bool" where
  "fitting i b m \<equiv> triple (standing (known i b)) m (\<lambda>y s. fit i b y \<and> standing (known i b) s)"

lemma fitting_return: "fit i b x \<Longrightarrow> fitting i b (returnM x)"
  by (rule triple_return) simp

lemmas fits = triple_pure triple_bind [OF update_fit] triple_stop triple_if fitting_return triple_skip

lemmas payee_rules = payees.payee_keeps payees.keeps_emit_withdrawal payees.keeps_post_withdrawal payees.keeps_daily_limits

lemma return_fit: "fit i b x \<Longrightarrow> fitting i b (return_funds e c x status reason origin)"
  unfolding return_funds_def by (intro fits payee_rules) simp_all

lemma paid_fit: "fit i b x \<Longrightarrow> fitting i b (apply_paid e c x)"
  unfolding apply_paid_def by (intro fits payee_rules) simp_all

lemma payout_fit: "fit i b x \<Longrightarrow> fitting i b (apply_payout e c x pt)"
  unfolding apply_payout_def Let_def
  by (cases "pt_status pt") (auto intro!: update_fit paid_fit return_fit triple_stop triple_bind [OF paid_fit] triple_pure)

lemma submit_fit: "fit i b x \<Longrightarrow> fitting i b (submit_withdrawal e c x)"
  unfolding submit_withdrawal_def
  by (intro fits payee_rules triple_sum update_fit return_fit payout_fit) simp_all


section \<open>Calls\<close>

lemma read_withdrawal_row: "read_withdrawal s row = Some x \<Longrightarrow> wd_id x = wd_id row \<and> wd_requires_approval x = wd_requires_approval row \<and>
    wd_status x = wd_status row \<and> wd_decided_by x = wd_decided_by row"
  by (auto simp: read_withdrawal_def split: option.splits)

lemma locked_row:
  assumes "lock_withdrawal c i s = (Ok x, u)"
  obtains row where "u = s" "find_row wd_id i (withdrawals s) = Some row" "read_withdrawal s row = Some x"
  using assms by (auto simp: lock_withdrawal_def bind_Ok_iff act_simps some_or_def bind_eq_Some_conv split: if_splits option.splits)

lemma fitting_cleared: "fitting i b m \<Longrightarrow> standing (known i b) s \<Longrightarrow> m s = (Ok y, u) \<Longrightarrow> standing cleared u"
  by (drule (2) tripleD) (simp add: standing_def known_def)

lemma locked_fits:
  assumes "lock_withdrawal c i s = (Ok x, u)" "standing cleared s"
  shows "u = s" "standing (known i (wd_requires_approval x)) u" "wd_status x \<noteq> WithdrawalPendingApproval \<Longrightarrow> fit i (wd_requires_approval x) x"
    "fit i (wd_requires_approval x) (x\<lparr>wd_decided_by := Some a, wd_decided_at := t, wd_decision_note := n\<rparr>)"
proof -
  obtain row where row: "u = s" "find_row wd_id i (withdrawals s) = Some row" "read_withdrawal s row = Some x"
    by (rule locked_row [OF assms(1)])
  note same = find_row_Some [OF row(2)] read_withdrawal_row [OF row(3)]
  show "u = s" by (rule row(1))
  show "standing (known i (wd_requires_approval x)) u" using assms(2) row(1,2) same by (simp add: standing_def known_def)
  show "fit i (wd_requires_approval x) (x\<lparr>wd_decided_by := Some a, wd_decided_at := t, wd_decision_note := n\<rparr>)"
    using same by (simp add: fit_def)
  show "fit i (wd_requires_approval x) x" if "wd_status x \<noteq> WithdrawalPendingApproval"
    using that same assms(2) by (auto simp: standing_def cleared_def fit_def)
qed

lemma decided_clear:
  assumes "\<And>b c x. fit i b x \<Longrightarrow> fitting i b (act c x)"
  shows "okp (standing cleared) (decide c i approver note act)"
proof (rule okpI)
  fix s y u assume clear: "standing cleared s" and run: "decide c i approver note act s = (Ok y, u)"
  let ?c = "c\<lparr>in_tx := True\<rparr>"
  obtain x t now z v w r where lock: "lock_withdrawal ?c i s = (Ok x, t)"
    and first: "update_withdrawal (x\<lparr>wd_decided_by := Some approver, wd_decided_at := Some now, wd_decision_note := Some note\<rparr>) t = (Ok z, v)"
    and act: "act ?c z v = (Ok r, w)" and last: "update_withdrawal r w = (Ok y, u)"
    using run by (auto simp: decide_def with_tx_Ok bind_Ok_iff act_simps split: if_splits)
  let ?b = "wd_requires_approval x"
  have "fit i ?b z \<and> standing (known i ?b) v"
    by (rule tripleD [OF update_fit [OF locked_fits(4) [OF lock clear]] locked_fits(2) [OF lock clear] first])
  then have "fit i ?b r \<and> standing (known i ?b) w"
    using tripleD [OF assms _ act] by blast
  then show "standing cleared u"
    using fitting_cleared [OF update_fit _ last] by blast
qed

lemma calls_clear:
  "okp (standing cleared) (approve_withdrawal we c i approver note)" "okp (standing cleared) (reject_withdrawal we c i approver note)"
  unfolding approve_withdrawal_def reject_withdrawal_def by (intro decided_clear submit_fit return_fit; simp)+

lemma sync_clear: "okp (standing cleared) (sync_withdrawal we c i pt)"
proof (rule okpI)
  fix s y u assume clear: "standing cleared s" and run: "sync_withdrawal we c i pt s = (Ok y, u)"
  let ?c = "c\<lparr>in_tx := True\<rparr>"
  obtain x t where lock: "lock_withdrawal ?c i s = (Ok x, t)"
    and rest: "(if final_withdrawal (wd_status x) then returnM x else apply_payout we ?c x pt) t = (Ok y, u)"
    using run by (auto simp: sync_withdrawal_def with_tx_Ok bind_Ok_iff)
  show "standing cleared u"
  proof (cases "final_withdrawal (wd_status x)")
    case True
    then show ?thesis using rest locked_fits(1) [OF lock clear] clear by (simp add: act_simps)
  next
    case False
    then have "wd_status x \<noteq> WithdrawalPendingApproval" by (auto simp: final_withdrawal_def)
    then have "fitting i (wd_requires_approval x) (apply_payout we ?c x pt)" by (intro payout_fit locked_fits(3) [OF lock clear])
    then show ?thesis using fitting_cleared [OF _ locked_fits(2) [OF lock clear]] rest False by auto
  qed
qed

lemma retry_clear:
  assumes "wd_status x = WithdrawalApproved"
  shows "okp (standing cleared) (poll_withdrawal we c x)"
proof (rule okpI)
  fix s y u assume clear: "standing cleared s" and run: "poll_withdrawal we c x s = (Ok y, u)"
  let ?c = "c\<lparr>in_tx := True\<rparr>"
  obtain z t where lock: "lock_withdrawal ?c (wd_id x) s = (Ok z, t)"
    and rest: "(if wd_status z \<noteq> WithdrawalApproved then returnM x else submit_withdrawal we ?c z) t = (Ok y, u)"
    using run assms by (auto simp: poll_withdrawal_def with_tx_Ok bind_Ok_iff)
  show "standing cleared u"
  proof (cases "wd_status z = WithdrawalApproved")
    case True
    then have "fitting (wd_id x) (wd_requires_approval z) (submit_withdrawal we ?c z)"
      by (intro submit_fit locked_fits(3) [OF lock clear]) simp
    then show ?thesis using fitting_cleared [OF _ locked_fits(2) [OF lock clear]] rest True by auto
  next
    case False
    then show ?thesis using rest locked_fits(1) [OF lock clear] clear by (simp add: act_simps)
  qed
qed

text \<open>A new row waits for a decision exactly when it needs one.\<close>

lemma created_known:
  assumes "create_withdrawal x s = (Ok y, u)" "standing cleared s" "wd_requires_approval x \<longrightarrow> wd_status x = WithdrawalPendingApproval"
  shows "standing (known (wd_id y) (wd_requires_approval y)) u" "wd_requires_approval y = wd_requires_approval x"
proof -
  obtain row where row: "withdrawals u = withdrawals s @ [row]" "wd_id row = next_id (withdrawals s)" "wd_id y = wd_id row"
      "wd_requires_approval row = wd_requires_approval x" "wd_status row = wd_status x" "wd_requires_approval y = wd_requires_approval x"
    using assms(1) by (auto simp: create_withdrawal_def bind_Ok_iff act_simps split: if_splits)
  show "wd_requires_approval y = wd_requires_approval x" by (rule row(6))
  have ids: "map wd_id (withdrawals s) = serials (length (withdrawals s))" using assms(2) by (simp add: standing_def cleared_def)
  then have "wd_id row \<notin> set (map wd_id (withdrawals s))" by (simp add: row(2) next_id_def set_serials)
  then have "find_row wd_id (wd_id row) (withdrawals s) = None" by (simp add: find_row_None)
  then have "find_row wd_id (wd_id row) (withdrawals u) = Some row" by (simp add: row(1) row_simps)
  moreover have "cleared (withdrawals u)"
    using assms(2,3) ids row by (auto simp: standing_def cleared_def next_id_def)
  ultimately show "standing (known (wd_id y) (wd_requires_approval y)) u"
    using row by (simp add: standing_def known_def)
qed

lemma record_clear: "okp (standing cleared) (record_withdrawal we c r t (new_withdrawal r t p pid))"
proof (rule okpI)
  fix s y u assume clear: "standing cleared s" and run: "record_withdrawal we c r t (new_withdrawal r t p pid) s = (Ok y, u)"
  let ?rest = "\<lambda>x. bindM (withdraw_out (wen_limits we) c \<lparr>sr_wallet = wq_wallet r, sr_amount = wd_amount x,
        sr_counter_account_code = payouts_in_transit, sr_product_id = product_of x, sr_kind = JournalAdjustment, sr_external_id = debit_id x\<rparr>) (\<lambda>_.
      bindM (check_daily_limits we x t) (\<lambda>_. bindM (emit_withdrawal x ''withdrawal.requested'') (\<lambda>_.
      if wd_requires_approval x then returnM x else submit_withdrawal we c x)))"
  obtain x v where made: "create_withdrawal (new_withdrawal r t p pid) s = (Ok x, v)" and rest: "?rest x v = (Ok y, u)"
    using run unfolding record_withdrawal_def bind_Ok_iff [of "create_withdrawal _"] by blast
  let ?b = "wd_requires_approval x"
  have known: "standing (known (wd_id x) ?b) v"
    by (rule created_known(1) [OF made clear]) (simp add: new_withdrawal_def Let_def)
  have final: "okp (standing (known (wd_id x) ?b)) (if ?b then returnM x else submit_withdrawal we c x)"
  proof (cases ?b)
    case False
    then have "fitting (wd_id x) ?b (submit_withdrawal we c x)" by (intro submit_fit) (simp add: fit_def)
    with False show ?thesis by (auto simp: okp_def triple_def)
  qed (simp add: keeps)
  have "standing (known (wd_id x) ?b) u"
  proof (rule okpD [where I = "standing (known (wd_id x) ?b)"])
    show "standing (known (wd_id x) ?b) v" "?rest x v = (Ok y, u)" using known rest by simp_all
    show "okp (standing (known (wd_id x) ?b)) (?rest x)" by (intro final payee_rules)
  qed
  then show "standing cleared u" by (simp add: standing_def known_def)
qed

lemma event_clear: "okp (standing cleared) (process_payout_event we c n x)"
  unfolding process_payout_event_def by (intro payee_rules sync_clear)

interpretation approvals: desk_calls "standing cleared" "hooks_keep (standing cleared)"
proof unfold_locales
  show "hooks_keep (standing cleared) (payments_of (with_payouts we e))" for we and e :: "'a desk_scheme order_engine"
    by (rule standing_desk.hooked) (simp add: payouts_keep_def with_payouts_def event_clear)
qed (rule record_clear calls_clear sync_clear retry_clear payees.safe_add_beneficiary payees.safe_reseal; assumption?)+

interpretation four_eyes: program_calls "standing cleared" "hooks_keep (standing cleared)"
  by unfold_locales (auto simp: clearing_writes standing_def apart_def intro!: keeps okp_modify safep_modify)

text \<open>
  C11. Nobody approves their own withdrawal: after any sequence of calls on a database that started without
  withdrawals, a withdrawal that needs an approval is either still waiting for it, or was decided on by somebody other than
  the one who asked for it.
\<close>

theorem withdrawals_four_eyes:
  assumes "withdrawals s0 = []" "(program_step E)\<^sup>*\<^sup>* s0 s" "x \<in> set (withdrawals s)" "wd_requires_approval x"
  shows "wd_status x = WithdrawalPendingApproval \<or> (\<exists>a. wd_decided_by x = Some a \<and> a \<noteq> wd_requested_by x)"
proof -
  have "standing cleared s0" using assms(1) by (simp add: standing_def cleared_def)
  then have "standing cleared s" by (rule four_eyes.program_steps_keep [OF assms(2)])
  then show ?thesis using assms(3,4) by (auto simp: standing_def cleared_def)
qed

section \<open>An example\<close>

text \<open>A withdrawal of 550, above the threshold of 500, is asked for by one operator and approved by another.\<close>

definition demo_payout_provider :: provider where
  "demo_payout_provider = demo_provider\<lparr>
     pv_verify_destination := (\<lambda>_ _. Inr \<lparr>ve_verified = True, ve_name_at_bank = ''C One'', ve_failure_reason = []\<rparr>),
     pv_create_payout := (\<lambda>_ q. Inr \<lparr>pt_provider_payout_id = ''po'', pt_status = ProviderPayoutPaid, pt_amount = pq_amount q, pt_failure_reason = []\<rparr>)\<rparr>"

definition demo_teller :: withdrawal_engine where
  "demo_teller = demo_payouts\<lparr>wen_registry := new_registry [''fake''] (\<lambda>_. None) [demo_payout_provider]\<rparr>"

definition demo_vault :: clearing where
  "demo_vault = with_accounts [(psp_receivable ''fake'', AccountAsset), (payouts_in_transit, AccountLiability),
     (bank_account ''hdfc'', AccountAsset)] (clearing_of demo_shop)"

definition demo_payee :: beneficiary where
  "demo_payee = \<lparr>bn_id = 0, bn_public_id = [], bn_customer_id = 1, bn_kind = ''vpa'', bn_name = ''C One'', bn_account_number = None,
     bn_account_last4 = None, bn_account_fingerprint = None, bn_ifsc = None, bn_vpa = Some ''c@upi'', bn_status = BeneficiaryPending,
     bn_name_at_bank = None, bn_verified_at = None, bn_failure_reason = None, bn_created_at = 0, bn_updated_at = 0\<rparr>"

definition demo_deposit :: "wallet \<Rightarrow> fund_request" where
  "demo_deposit w = \<lparr>fr_wallet = w, fr_amount = 600, fr_provider = ''fake'', fr_product_id = 1, fr_external_id = ''f1''\<rparr>"

definition demo_request :: "wallet \<Rightarrow> beneficiary \<Rightarrow> withdraw_request" where
  "demo_request w b = \<lparr>wq_wallet = w, wq_beneficiary = b, wq_amount = 550, wq_requested_by = ''op1''\<rparr>"

definition demo_cashout :: "('x clearing_scheme, withdrawal) action" where
  "demo_cashout =
     bindM (open_wallet no_tx (demo_customer 1 ''c1'') demo_type) (\<lambda>(w, _).
     bindM (fund demo_limits no_tx (demo_deposit w)) (\<lambda>_.
     bindM (add_beneficiary demo_teller demo_payee) (\<lambda>b.
     bindM (request_withdrawal demo_teller no_tx (demo_request w b)) (\<lambda>x.
     approve_withdrawal demo_teller no_tx (wd_id x) ''op2'' ''seen''))))"

lemma demo_cashout_run:
  "(case demo_cashout demo_vault of (r, s) \<Rightarrow> (map_outcome wd_status r, map (\<lambda>x. (wd_requires_approval x, wd_status x, wd_requested_by x,
     wd_decided_by x)) (withdrawals s))) = (Ok WithdrawalPaid, [(True, WithdrawalPaid, ''op1'', Some ''op2'')])"
  by code_simp

definition demo_paid_out :: clearing where
  "demo_paid_out = snd (demo_cashout demo_vault)"

lemma demo_cashout_steps:
  defines "E \<equiv> \<lambda>we (oe :: clearing order_engine). we = demo_teller"
  shows "(program_step E)\<^sup>*\<^sup>* (clearing_of demo_shop) demo_paid_out"
proof -
  let ?R = "program_step E :: clearing \<Rightarrow> clearing \<Rightarrow> bool"
  have wired: "E demo_teller oe" for oe by (simp add: E_def)
  have desk: "desk_step E s u \<Longrightarrow> ?R s u" for s u
    by (rule program_clearing, rule clearing_desk)
  have out: "in_tx no_tx \<longrightarrow> is_ok r" for r :: "'b outcome"
    by (simp add: no_tx_def)
  have "walks ?R (open_wallet no_tx cu w)" for cu w
    by (rule walks_step) (rule program_wallet, erule wallet_open, rule out)
  moreover have "walks ?R (fund demo_limits no_tx q)" for q
    by (rule walks_step) (rule program_wallet, erule wallet_fund, rule out)
  moreover have "walks ?R (add_beneficiary demo_teller b)" for b
    by (rule walks_step) (rule desk, erule desk_add [where E = E, OF wired])
  moreover have "walks ?R (request_withdrawal demo_teller no_tx q)" for q
    by (rule walks_step) (rule desk, erule desk_request [where E = E, OF wired], rule out)
  moreover have "walks ?R (approve_withdrawal demo_teller no_tx i a n)" for i a n
    by (rule walks_step) (rule desk, erule desk_approve [where E = E, OF wired], rule out)
  ultimately have "walks ?R demo_cashout"
    unfolding demo_cashout_def split_def by (intro walks_bind)
  then have "?R\<^sup>*\<^sup>* demo_vault demo_paid_out" by (simp add: walks_def demo_paid_out_def)
  then show ?thesis using walks_accounts by (metis demo_vault_def rtranclp_trans)
qed

lemma withdrawals_four_eyes_witness:
  "\<exists>x a. withdrawals demo_paid_out = [x] \<and> wd_status x = WithdrawalPaid \<and> wd_requested_by x = ''op1'' \<and> wd_decided_by x = Some a \<and> a \<noteq> ''op1''"
proof -
  have start: "withdrawals (clearing_of demo_shop) = []"
    by (simp add: clearing_of_def estate.defs office.defs till.defs shop.defs desk.defs)
  have "map (\<lambda>x. (wd_requires_approval x, wd_status x, wd_requested_by x)) (withdrawals demo_paid_out) = [(True, WithdrawalPaid, ''op1'')]"
    using demo_cashout_run by (auto simp: demo_paid_out_def split: prod.splits)
  then obtain x where x: "withdrawals demo_paid_out = [x]" "wd_requires_approval x" "wd_status x = WithdrawalPaid" "wd_requested_by x = ''op1''"
    by auto
  then show ?thesis using withdrawals_four_eyes [OF start demo_cashout_steps, of x] by simp
qed

end
