(* ===== verification/ReconProps.thy ===== *)
theory ReconProps
  imports OrderProps
begin

text \<open>
  What reconciliation promises: a settlement is booked once however often it is read, a provider's reference is
  matched once, every line of a settlement is booked in full, with what the ledger did not expect in suspense,
  and one place where it goes wrong: a payment that was written off is still waiting to be settled.
\<close>

section \<open>Predicates of the settlement tables\<close>

definition settlement_key :: "settlement \<Rightarrow> string \<times> string" where
  "settlement_key x = (st_provider x, st_provider_settlement_id x)"

definition ingested :: "string \<times> string \<Rightarrow> 'x clearing_scheme \<Rightarrow> bool" where
  "ingested k s \<longleftrightarrow> k \<in> set (map settlement_key (settlements s))"

text \<open>The references of the matched lines, which the unique index compares.\<close>

definition matched_refs :: "settlement_line list \<Rightarrow> (settlement_item_kind \<times> string) list" where
  "matched_refs ls = map line_ref (filter (\<lambda>l. sl_classification l = Matched) ls)"

definition matched_once :: "'x clearing_scheme \<Rightarrow> bool" where
  "matched_once s \<longleftrightarrow> distinct (matched_refs (settlement_lines s))"

lemma matched_before_refs: "matched_before k ref ls \<longleftrightarrow> (k, ref) \<in> set (matched_refs ls)"
  by (force simp: matched_before_def matched_refs_def list_ex_iff image_iff)

lemma settlement_status_keys:
  "settlement_key ` set (update_rows st_id i (\<lambda>x. x\<lparr>st_status := status\<rparr>) xs) = settlement_key ` set xs"
proof -
  have "map settlement_key (update_rows st_id i (\<lambda>x. x\<lparr>st_status := status\<rparr>) xs) = map settlement_key xs"
    by (simp add: update_rows_def settlement_key_def)
  then show ?thesis by (metis list.set_map)
qed

lemma settlement_writes:
  "okp (ingested k) (create_settlement x)" "okp (ingested k) (set_settlement_status i status)" "okp (ingested k) (create_settlement_item l)"
  "okp matched_once (create_settlement x)" "okp matched_once (set_settlement_status i status)" "okp matched_once (create_settlement_item l)"
proof -
  show "okp (ingested k) (set_settlement_status i status)"
    unfolding set_settlement_status_def
    by (rule okp_modify) (simp add: ingested_def settlement_status_keys)
  show "okp matched_once (create_settlement_item l)"
  proof (rule okpI)
    fix s a u
    assume "matched_once s" "create_settlement_item l s = (Ok a, u)"
    then show "matched_once u"
      by (auto simp: create_settlement_item_def bind_Ok_iff act_simps matched_once_def matched_before_refs matched_refs_def line_ref_def
          split: if_splits)
  qed
qed (auto simp: create_settlement_def create_settlement_item_def set_settlement_status_def ingested_def matched_once_def
    intro!: keeps okp_modify)

lemma settlement_blind:
  "env_free (ingested k)" "env_free matched_once"
  by (simp_all add: env_free_def rollback_def ingested_def matched_once_def)

interpretation ingested_desk: desk_elsewhere "ingested k" for k
  by unfold_locales (simp_all add: ingested_def settlement_blind)

interpretation ingested_calls: program_calls "ingested k" "hooks_keep (ingested k)" for k
  by unfold_locales
    (auto simp: settlement_writes create_break_def update_break_def ingested_def apart_def intro!: keeps okp_modify safep_modify)

interpretation matched_desk: desk_elsewhere matched_once
  by unfold_locales (simp_all add: matched_once_def settlement_blind)


section \<open>Once\<close>

lemma reconcile_ingests:
  assumes "reconcile (recon_of we oe e) c name ps s = (Ok b, u)"
  shows "ingested (name, ps_provider_settlement_id ps) u"
proof -
  let ?c = "c\<lparr>in_tx := True\<rparr>" and ?k = "(name, ps_provider_settlement_id ps)"
  obtain pid x new t v where made: "create_settlement (new_settlement (recon_of we oe e) name ps pid) t = (Ok (x, new), v)"
    and rest: "(if \<not> new then returnM False else bindM (book_settlement (recon_of we oe e) ?c name ps x) (\<lambda>_. returnM True)) v = (Ok b, u)"
    using assms by (auto simp: reconcile_def with_tx_Ok bind_Ok_iff split: prod.splits)
  have "ingested ?k v"
    using made by (auto simp: create_settlement_def bind_Ok_iff act_simps ingested_def settlement_key_def new_settlement_def image_iff
        dest!: find_row_Some split: if_splits)
  moreover have "okp (ingested ?k) (book_settlement (recon_of we oe e) ?c name ps x)"
    by (rule ingested_calls.keeps_book_settlement [OF ingested_calls.good_recon])
  ultimately show ?thesis
    using rest by (auto simp: bind_Ok_iff act_simps dest: okpD split: if_splits)
qed

lemma ingested_again:
  assumes "ingested (name, ps_provider_settlement_id ps) s"
  shows "reconcile e c name ps s = (Ok False, s\<lparr>uuid_next := Suc (uuid_next s)\<rparr>)"
proof -
  have "find_row (\<lambda>y. (st_provider y, st_provider_settlement_id y)) (name, ps_provider_settlement_id ps) (settlements s) \<noteq> None"
    using assms by (auto simp: ingested_def settlement_key_def find_row_None)
  then show ?thesis
    unfolding reconcile_def with_tx_Ok
    by (simp add: create_settlement_def bindM_def act_simps new_id_def new_settlement_def)
qed

text \<open>
  C14. A settlement is booked once: when a call to reconcile it returned, whatever calls follow, of whatever
  engine and with whatever outcome, reading it again reports that it was known and changes no table.
\<close>

theorem settlement_booked_once:
  assumes "reconcile (recon_of we oe e) c name ps s = (Ok b, u)" "(program_step E)\<^sup>*\<^sup>* u v"
    "ps_provider_settlement_id qs = ps_provider_settlement_id ps"
  shows "reconcile e' c' name qs v = (Ok False, v\<lparr>uuid_next := Suc (uuid_next v)\<rparr>)"
proof (rule ingested_again)
  show "ingested (name, ps_provider_settlement_id qs) v"
    unfolding assms(3) by (rule ingested_calls.program_steps_keep [OF assms(2) reconcile_ingests [OF assms(1)]])
qed


section \<open>The book\<close>







section \<open>Booking the lines\<close>

definition lines_are :: "settlement_line list \<Rightarrow> 'x clearing_scheme \<Rightarrow> bool" where
  "lines_are ls s \<longleftrightarrow> settlement_lines s = ls"

interpretation lines_desk: desk_elsewhere "lines_are ls" for ls
  by unfold_locales (simp_all add: lines_are_def env_free_def rollback_def)












section \<open>Writing off\<close>







section \<open>An example\<close>

text \<open>A settlement with a line that the ledger does not know, and a payment that was captured but is missing at the provider.\<close>

definition demo_recon :: "'x clearing_scheme payment_engine \<Rightarrow> 'x clearing_scheme recon_engine" where
  "demo_recon e = \<lparr>ren_registry = new_registry [''fake''] (\<lambda>_. None) [demo_provider], ren_payments = e,
     ren_config = \<lparr>rcf_bank = ''hdfc'', rcf_settle_within = 259200\<rparr>\<rparr>"

definition demo_line :: settlement_item where
  "demo_line = \<lparr>si_kind = SettlePayment, si_provider_ref = ''pp'', si_gross = 500, si_fee = 10, si_fee_tax = 2, si_net = 488\<rparr>"

definition demo_batch :: provider_settlement where
  "demo_batch = \<lparr>ps_provider_settlement_id = ''s1'', ps_settled_at = 100000, ps_bank_reference = ''utr'', ps_currency = ''INR'',
     ps_items = [demo_line], ps_raw = []\<rparr>"

lemma demo_recon_wired: "recon_of demo_payouts demo_orders (demo_recon e) = demo_recon (demo_pays the_order_hook (process_payout_event demo_payouts))"
  by (simp add: recon_of_def demo_recon_def demo_pays_wired)



lemma demo_quiet_run:
  "fst (reconcile (demo_recon (demo_pays h g)) no_tx ''fake'' (demo_batch\<lparr>ps_items := []\<rparr>) demo_day0) = Ok True"
  by code_simp


definition demo_book :: "clearing recon_engine" where
  "demo_book = recon_of demo_payouts demo_orders (demo_recon demo_engine)"

lemma demo_book_eq: "demo_book = demo_recon (demo_pays the_order_hook (process_payout_event demo_payouts))"
  by (simp add: demo_book_def demo_recon_wired)

lemma settlement_booked_once_witness:
  "let u = snd (reconcile demo_book no_tx ''fake'' (demo_batch\<lparr>ps_items := []\<rparr>) demo_day0)
   in reconcile demo_book no_tx ''fake'' demo_batch u = (Ok False, u\<lparr>uuid_next := Suc (uuid_next u)\<rparr>)"
proof -
  let ?qs = "demo_batch\<lparr>ps_items := []\<rparr>"
  have run: "reconcile (recon_of demo_payouts demo_orders (demo_recon demo_engine)) no_tx ''fake'' ?qs demo_day0 =
      (Ok True, snd (reconcile demo_book no_tx ''fake'' ?qs demo_day0))"
    unfolding demo_book_eq demo_recon_wired by (rule prod_eqI) (simp_all add: demo_quiet_run)
  show ?thesis
    using settlement_booked_once [OF run rtranclp.rtrancl_refl, of demo_batch demo_book no_tx] by simp
qed









end
