(* ===== verification/LedgerRead.thy ===== *)
theory LedgerRead
  imports Program
begin

text \<open>
  The read path of the ledger (\<open>internal/repository/postgresql/ledger_read.go\<close>, the rows of
  \<open>internal/models/dao/ledger.go\<close> it returns, \<open>internal/models/filter/ledger.go\<close>) and the paging of a
  statement (\<open>statementPage\<close> in \<open>internal/service/ledger.go\<close>).

  The joins are inner or left as in the query; a sum outside of bigint fails the scan.

  The theorems: paging a statement shows every posting once, and the trial balance agrees with the
  materialised balances it is computed apart from.
\<close>

section \<open>Rows\<close>

record account_view =
  av_account :: ledger_account
  av_product_public_id :: "string option"
  av_balance :: balance

record statement_entry =
  sy_posting :: posting
  sy_journal_public_id :: string
  sy_journal_external_id :: string
  sy_journal_kind :: journal_kind
  sy_journal_memo :: string
  sy_journal_posted_at :: int

record trial_balance_line =
  tl_account_public_id :: string
  tl_code :: string
  tl_type :: account_type
  tl_product_public_id :: "string option"
  tl_currency :: string
  tl_debits :: int
  tl_credits :: int

definition tl_raw :: "trial_balance_line \<Rightarrow> int" where
  "tl_raw l = wrap64 (tl_debits l - tl_credits l)"

section \<open>Accounts\<close>

definition product_public :: "'x ledger_scheme \<Rightarrow> int option \<Rightarrow> string option" where
  "product_public s pid = (case pid of None \<Rightarrow> None | Some i \<Rightarrow> map_option pr_public_id (find_row pr_id i (products s)))"

definition view_account :: "'x ledger_scheme \<Rightarrow> ledger_account \<Rightarrow> account_view option" where
  "view_account s a = map_option (\<lambda>b. \<lparr>av_account = a, av_product_public_id = product_public s (la_product_id a), av_balance = b\<rparr>)
     (balance_of (la_id a) s)"

definition is_account_code :: "string \<Rightarrow> bool" where
  "is_account_code ref \<longleftrightarrow> CHR '':'' \<in> set ref"

definition get_account_view :: "string \<Rightarrow> ('x ledger_scheme, account_view) action" where
  "get_account_view ref = bindM (getM (\<lambda>s. Option.bind
     (find_row (if is_account_code ref then la_code else la_public_id) ref (accounts s)) (view_account s))) (some_or NotFound)"

record account_filter =
  af_limit :: int
  af_offset :: int
  af_product_id :: "int option"
  af_platform_only :: bool
  af_type :: "account_type option"
  af_code_prefix :: string
  af_scope :: "product_scope option"

text \<open>\<open>LIKE\<close>'s wildcards and its escape are escaped.\<close>

fun escape_like :: "string \<Rightarrow> string" where
  "escape_like [] = []"
| "escape_like (c # cs) = (if c \<in> {CHR 0x5C, CHR ''%'', CHR ''_''} then [CHR 0x5C, c] else [c]) @ escape_like cs"

definition account_matches :: "account_filter \<Rightarrow> (int option \<Rightarrow> bool) \<Rightarrow> ledger_account \<Rightarrow> bool" where
  "account_matches f cond a \<longleftrightarrow> cond (la_product_id a) \<and>
     (case af_product_id f of Some i \<Rightarrow> la_product_id a = Some i | None \<Rightarrow> af_platform_only f \<longrightarrow> la_product_id a = None) \<and>
     (case af_type f of None \<Rightarrow> True | Some t \<Rightarrow> la_type a = t) \<and>
     (af_code_prefix f \<noteq> [] \<longrightarrow> like (escape_like (af_code_prefix f) @ ''%'') (la_code a))"

definition list_account_views :: "account_filter \<Rightarrow> ('x ledger_scheme, account_view list \<times> nat) action" where
  "list_account_views f = (case scope_condition (af_scope f) of
     Inl e \<Rightarrow> failM e
   | Inr cond \<Rightarrow> getM (\<lambda>s. case page (af_limit f) (af_offset f) of (limit, offset) \<Rightarrow>
       (take limit (drop offset (List.map_filter (view_account s)
          (sort_key la_code (filter (account_matches f cond) (accounts s))))),
        length (filter (account_matches f cond) (accounts s)))))"

section \<open>Statements and journals\<close>

definition statement_entry_of :: "'x ledger_scheme \<Rightarrow> posting \<Rightarrow> statement_entry option" where
  "statement_entry_of s p = map_option (\<lambda>j. \<lparr>sy_posting = p, sy_journal_public_id = jo_public_id j,
     sy_journal_external_id = jo_external_id j, sy_journal_kind = jo_kind j, sy_journal_memo = jo_memo j,
     sy_journal_posted_at = jo_posted_at j\<rparr>) (find_row jo_id (po_journal_id p) (journals s))"

definition list_statement :: "int \<Rightarrow> nat \<Rightarrow> int \<Rightarrow> ('x ledger_scheme, statement_entry list) action" where
  "list_statement account limit before = getM (\<lambda>s. take limit (List.map_filter (statement_entry_of s)
     (rev (sort_key po_id (filter (\<lambda>p. po_account_id p = account \<and> (before = 0 \<or> po_id p < before)) (postings s))))))"

definition get_journal_view :: "string \<Rightarrow> ('x ledger_scheme, journal) action" where
  "get_journal_view ref = bindM (getM (\<lambda>s. find_row (if is_account_code ref then jo_external_id else jo_public_id) ref (journals s))) (\<lambda>r.
     case r of None \<Rightarrow> failM NotFound
     | Some j \<Rightarrow> getM (\<lambda>s. j\<lparr>jo_product_public_id := product_public s (jo_product_id j),
         jo_reverses_journal_public_id := (case jo_reverses_journal_id j of None \<Rightarrow> None
           | Some i \<Rightarrow> map_option jo_public_id (find_row jo_id i (journals s))),
         jo_postings := list_postings (jo_id j) s\<rparr>))"

section \<open>The trial balance\<close>

definition posted_by :: "int \<Rightarrow> int \<Rightarrow> posting \<Rightarrow> bool" where
  "posted_by account as_of p \<longleftrightarrow> po_account_id p = account \<and> po_created_at p \<le> as_of"

definition trial_line :: "'x ledger_scheme \<Rightarrow> int \<Rightarrow> ledger_account \<Rightarrow> trial_balance_line" where
  "trial_line s as_of a = \<lparr>tl_account_public_id = la_public_id a, tl_code = la_code a, tl_type = la_type a,
     tl_product_public_id = product_public s (la_product_id a), tl_currency = la_currency a,
     tl_debits = sum_by po_amount (\<lambda>p. posted_by (la_id a) as_of p \<and> po_direction p = Debit) (postings s),
     tl_credits = sum_by po_amount (\<lambda>p. posted_by (la_id a) as_of p \<and> po_direction p = Credit) (postings s)\<rparr>"

definition trial_fits :: "trial_balance_line \<Rightarrow> bool" where
  "trial_fits l \<longleftrightarrow> in64 (tl_debits l) \<and> in64 (tl_credits l)"

definition trial_balance :: "int option \<Rightarrow> int \<Rightarrow> bool \<Rightarrow> ('x ledger_scheme, trial_balance_line list) action" where
  "trial_balance product as_of include_empty =
     bindM (getM (\<lambda>s. map (trial_line s as_of) (sort_key la_code (filter (\<lambda>a.
        (product = None \<or> la_product_id a = product) \<and> (include_empty \<or> list_ex (posted_by (la_id a) as_of) (postings s)))
        (accounts s))))) (\<lambda>ls.
     if list_all trial_fits ls then returnM ls else failM Internal)"

section \<open>Paging a statement (\<open>service/ledger.go\<close>)\<close>

text \<open>\<open>strconv.ParseInt\<close> in base ten for an int64.\<close>

definition parse_digits :: "bool \<Rightarrow> string \<Rightarrow> int option" where
  "parse_digits negative ds = (let n = (if negative then - int (digits_value ds) else int (digits_value ds)) in
     if ds = [] \<or> \<not> list_all is_digit ds \<or> \<not> in64 n then None else Some n)"

definition parse_int64 :: "string \<Rightarrow> int option" where
  "parse_int64 x = (case x of [] \<Rightarrow> None
     | c # cs \<Rightarrow> if c = CHR ''-'' then parse_digits True cs else if c = CHR ''+'' then parse_digits False cs else parse_digits False x)"

record statement_row =
  sn_journal_id :: string
  sn_journal_external_id :: string
  sn_journal_kind :: string
  sn_memo :: string
  sn_direction :: int
  sn_amount :: int
  sn_change :: int
  sn_balance_after :: int
  sn_posted_at :: int

definition statement_row_of :: "account_type \<Rightarrow> statement_entry \<Rightarrow> statement_row" where
  "statement_row_of t e = \<lparr>sn_journal_id = sy_journal_public_id e, sn_journal_external_id = sy_journal_external_id e,
     sn_journal_kind = journal_kind_string (sy_journal_kind e), sn_memo = sy_journal_memo e,
     sn_direction = po_direction (sy_posting e), sn_amount = po_amount (sy_posting e),
     sn_change = wrap64 (signed (sy_posting e) * normal_sign t),
     sn_balance_after = wrap64 (po_balance_after (sy_posting e) * normal_sign t), sn_posted_at = sy_journal_posted_at e\<rparr>"

definition cursor_before :: "string \<Rightarrow> int option" where
  "cursor_before cursor = (if cursor = [] then Some 0
     else case parse_int64 cursor of None \<Rightarrow> None | Some n \<Rightarrow> if n \<le> 0 then None else Some n)"

definition statement_limit :: "int \<Rightarrow> nat" where
  "statement_limit limit = (if limit \<le> 0 then 50 else nat limit)"

definition statement_page :: "int \<Rightarrow> account_type \<Rightarrow> int \<Rightarrow> string \<Rightarrow> ('x ledger_scheme, statement_row list \<times> string) action" where
  "statement_page account t limit cursor = (case cursor_before cursor of
     None \<Rightarrow> failM InvalidArgument
   | Some before \<Rightarrow> let n = statement_limit limit in
       bindM (list_statement account (n + 1) before) (\<lambda>rows.
       if n < length rows
       then returnM (map (statement_row_of t) (take n rows), int_digits (po_id (sy_posting (rows ! (n - 1)))))
       else returnM (map (statement_row_of t) rows, [])))"

section \<open>A statement is paged in full\<close>

text \<open>A reader who follows the cursors.\<close>

fun read_statement :: "nat \<Rightarrow> int \<Rightarrow> account_type \<Rightarrow> int \<Rightarrow> string \<Rightarrow> ('x ledger_scheme, statement_row list) action" where
  "read_statement 0 account t limit cursor = returnM []"
| "read_statement (Suc k) account t limit cursor = bindM (statement_page account t limit cursor) (\<lambda>(rows, next).
     if next = [] then returnM rows
     else bindM (read_statement k account t limit next) (\<lambda>rest. returnM (rows @ rest)))"

text \<open>The whole statement: every posting of the account, newest first.\<close>

definition statement_of :: "'x ledger_scheme \<Rightarrow> int \<Rightarrow> statement_entry list" where
  "statement_of s account = List.map_filter (statement_entry_of s) (rev (filter (\<lambda>p. po_account_id p = account) (postings s)))"

abbreviation entry_id :: "statement_entry \<Rightarrow> int" where
  "entry_id e \<equiv> po_id (sy_posting e)"

lemma parse_int_digits: "0 \<le> n \<Longrightarrow> in64 n \<Longrightarrow> parse_int64 (int_digits n) = Some n"
proof -
  assume n: "0 \<le> n" "in64 n"
  have "\<forall>c\<in>set (nat_digits (nat n)). is_digit c" by (simp add: nat_digits_digits)
  moreover from this obtain c cs where "nat_digits (nat n) = c # cs" "is_digit c"
    by (cases "nat_digits (nat n)") auto
  moreover have "c \<noteq> CHR ''-'' \<and> c \<noteq> CHR ''+''" using \<open>is_digit c\<close> by (auto simp: is_digit_def)
  ultimately show ?thesis using n nat_digits_value [of "nat n"]
    by (simp add: parse_int64_def parse_digits_def int_digits_def list_all_iff Let_def)
qed

lemma sorted_serials: "sorted_wrt (<) (serials n)"
  by (induction n) (auto simp: sorted_wrt_append set_serials)

lemma posting_ids_sorted: "ledger_inv s \<Longrightarrow> sorted_wrt (<) (map po_id (postings s))"
  by (simp add: ledger_inv_def core_inv_def postings_inv_def sorted_serials)

lemma map_filter_total: "(\<And>x. x \<in> set xs \<Longrightarrow> f x \<noteq> None) \<Longrightarrow> List.map_filter f xs = map (\<lambda>x. the (f x)) xs"
  by (induction xs) (auto simp: List.map_filter_simps split: option.splits)

lemma statement_entry_exists: "ledger_inv s \<Longrightarrow> p \<in> set (postings s) \<Longrightarrow>
    \<exists>e. statement_entry_of s p = Some e \<and> sy_posting e = p"
proof -
  assume "ledger_inv s" "p \<in> set (postings s)"
  then have "po_journal_id p \<in> jo_id ` set (journals s)"
    by (simp add: ledger_inv_def core_inv_def postings_inv_def posting_inv_def)
  then have "find_row jo_id (po_journal_id p) (journals s) \<noteq> None" by (simp add: find_row_None)
  then show ?thesis by (auto simp: statement_entry_of_def)
qed

lemma statement_postings: "ledger_inv s \<Longrightarrow> map sy_posting (statement_of s account) = rev (filter (\<lambda>p. po_account_id p = account) (postings s))"
proof -
  assume inv: "ledger_inv s"
  let ?ps = "rev (filter (\<lambda>p. po_account_id p = account) (postings s))"
  have some: "\<exists>e. statement_entry_of s p = Some e \<and> sy_posting e = p" if "p \<in> set ?ps" for p
    using that statement_entry_exists [OF inv] by auto
  have all: "List.map_filter (statement_entry_of s) ?ps = map (\<lambda>p. the (statement_entry_of s p)) ?ps"
    using some by (intro map_filter_total) fastforce
  have "sy_posting (the (statement_entry_of s p)) = p" if "p \<in> set ?ps" for p
    using some [OF that] by auto
  then show ?thesis unfolding statement_of_def all map_map comp_def by (rule map_idI)
qed

lemma entry_of_posting: "statement_entry_of s p = Some e \<Longrightarrow> sy_posting e = p"
  by (auto simp: statement_entry_of_def)

lemma map_filter_entries:
  "List.map_filter (statement_entry_of s) (filter (\<lambda>p. R (po_id p)) ps) = filter (\<lambda>e. R (entry_id e)) (List.map_filter (statement_entry_of s) ps)"
  by (induction ps) (auto simp: List.map_filter_simps entry_of_posting split: option.splits)

lemma list_statement_run:
  assumes "ledger_inv s"
  shows "list_statement account m before s = (Ok (take m (filter (\<lambda>e. before = 0 \<or> entry_id e < before) (statement_of s account))), s)"
proof -
  have "sorted (map po_id (filter Q (postings s)))" for Q
    using sorted_wrt_filter [OF posting_ids_sorted [OF assms, unfolded sorted_wrt_map], of Q]
    by (auto simp: sorted_wrt_map elim: sorted_wrt_mono_rel [rotated])
  then have "sort_key po_id (filter Q (postings s)) = filter Q (postings s)" for Q
    by (rule sort_key_id_if_sorted)
  moreover have "filter (\<lambda>p. po_account_id p = account \<and> (before = 0 \<or> po_id p < before)) ps =
      filter (\<lambda>p. before = 0 \<or> po_id p < before) (filter (\<lambda>p. po_account_id p = account) ps)" for ps
    by (simp add: filter_filter conj_commute)
  ultimately show ?thesis
    unfolding list_statement_def act_simps statement_of_def map_filter_entries [of s "\<lambda>i. before = 0 \<or> i < before", symmetric]
    by (simp add: rev_filter)
qed

lemma statement_descending: "ledger_inv s \<Longrightarrow> sorted_wrt (>) (map entry_id (statement_of s account))"
proof -
  assume inv: "ledger_inv s"
  have "map entry_id (statement_of s account) = map po_id (rev (filter (\<lambda>p. po_account_id p = account) (postings s)))"
    using arg_cong [OF statement_postings [OF inv], of "map po_id"] by (simp add: comp_def)
  then show ?thesis
    using sorted_wrt_filter [OF posting_ids_sorted [OF inv, unfolded sorted_wrt_map], of "\<lambda>p. po_account_id p = account"]
    by (simp add: sorted_wrt_map rev_map [symmetric] sorted_wrt_rev)
qed

lemma below_nth:
  "sorted_wrt (>) (map f xs) \<Longrightarrow> i < length xs \<Longrightarrow> filter (\<lambda>x. f x < f (xs ! i)) xs = drop (Suc i) xs" for f :: "'a \<Rightarrow> int"
proof (induction xs arbitrary: i)
  case (Cons x xs)
  then show ?case
  proof (cases i)
    case 0
    then show ?thesis using Cons.prems by (auto simp: filter_id_conv)
  next
    case (Suc k)
    then have k: "f (xs ! k) < f x" "k < length xs" using Cons.prems by auto
    have "\<not> f x < f (xs ! k)" using k(1) by simp
    then have "filter (\<lambda>y. f y < f (xs ! k)) (x # xs) = drop (Suc k) xs" using Cons.IH [of k] k(2) Cons.prems(1) by simp
    then show ?thesis using Suc by simp
  qed
qed simp

lemma statement_limit_pos: "0 < statement_limit n"
  by (simp add: statement_limit_def)

lemma cursor_of_id: "0 < i \<Longrightarrow> in64 i \<Longrightarrow> cursor_before (int_digits i) = Some i"
  using parse_int_digits [of i] by (auto simp: cursor_before_def parse_int64_def)

lemma statement_ids:
  assumes "ledger_inv s" "int (length (postings s)) < 2 ^ 63" "e \<in> set (statement_of s account)"
  shows "0 < entry_id e \<and> in64 (entry_id e)"
proof -
  have "sy_posting e \<in> set (map sy_posting (statement_of s account))" using assms(3) by simp
  then have "sy_posting e \<in> set (postings s)" unfolding statement_postings [OF assms(1)] by auto
  then have mem: "entry_id e \<in> set (map po_id (postings s))" by simp
  have "map po_id (postings s) = serials (length (postings s))"
    using assms(1) by (simp add: ledger_inv_def core_inv_def postings_inv_def)
  from mem [unfolded this] show ?thesis using assms(2) by (auto simp: set_serials in64_def)
qed

lemma read_statement_from:
  assumes inv: "ledger_inv s" and small: "int (length (postings s)) < 2 ^ 63"
    and E: "E = statement_of s account"
  shows "cursor_before cursor = Some before \<Longrightarrow> filter (\<lambda>e. before = 0 \<or> entry_id e < before) E = drop i E \<Longrightarrow>
    length (drop i E) < k \<Longrightarrow> read_statement k account t limit cursor s = (Ok (map (statement_row_of t) (drop i E)), s)"
proof (induction k arbitrary: cursor before i)
  case (Suc k)
  let ?n = "statement_limit limit"
  have n: "0 < ?n" by (rule statement_limit_pos)
  have run: "list_statement account (?n + 1) before s = (Ok (take (?n + 1) (drop i E)), s)"
    using list_statement_run [OF inv, of account "?n + 1" before] Suc.prems(2) E by simp
  show ?case
  proof (cases "?n < length (drop i E)")
    case False
    then show ?thesis using Suc.prems(1) run by (simp add: statement_page_def bind_apply_Ok act_simps Let_def)
  next
    case True
    define j where "j = i + (?n - 1)"
    have j: "j < length E" "Suc j = i + ?n" using True n by (auto simp: j_def)
    define next_id where "next_id = entry_id (E ! j)"
    have nth: "take (?n + 1) (drop i E) ! (?n - 1) = E ! j" using True n by (simp add: j_def)
    have id: "0 < next_id" "in64 next_id" using statement_ids [OF inv small, of "E ! j" account] j(1) E by (auto simp: next_id_def)
    have "filter (\<lambda>e. next_id = 0 \<or> entry_id e < next_id) E = drop (i + ?n) E"
      using below_nth [OF statement_descending [OF inv, of account], of j] j E id(1) by (simp add: next_id_def)
    then have rest: "read_statement k account t limit (int_digits next_id) s = (Ok (map (statement_row_of t) (drop (i + ?n) E)), s)"
      by (rule Suc.IH [OF cursor_of_id [OF id]]) (use Suc.prems(3) True n in simp)
    have page: "statement_page account t limit cursor s = (Ok (map (statement_row_of t) (take ?n (drop i E)), int_digits next_id), s)"
      using Suc.prems(1) run True nth by (simp add: statement_page_def bind_apply_Ok act_simps Let_def next_id_def)
    have "int_digits next_id \<noteq> []" using id by (simp add: int_digits_def)
    then have "read_statement (Suc k) account t limit cursor s =
        (Ok (map (statement_row_of t) (take ?n (drop i E)) @ map (statement_row_of t) (drop (i + ?n) E)), s)"
      using page rest by (simp add: bind_apply_Ok act_simps)
    moreover have "take ?n (drop i E) @ drop (i + ?n) E = drop i E" by (metis add.commute append_take_drop_id drop_drop)
    ultimately show ?thesis by (simp only: map_append [symmetric])
  qed
qed simp

text \<open>
  C32. Reading a statement page by page loses and repeats nothing: whatever the page size, a reader who follows
  the cursors from the first page gets one row for each posting of the account, newest first, and the last
  page says there is no more.
\<close>

theorem statement_paged_in_full:
  assumes "ledger_inv s" "int (length (postings s)) < 2 ^ 63" "length (filter (\<lambda>p. po_account_id p = account) (postings s)) < k"
  shows "read_statement k account t limit [] s = (Ok (map (statement_row_of t) (statement_of s account)), s) \<and>
    map sy_posting (statement_of s account) = rev (filter (\<lambda>p. po_account_id p = account) (postings s))"
proof -
  have "length (map sy_posting (statement_of s account)) < k"
    unfolding statement_postings [OF assms(1)] using assms(3) by simp
  then have "length (statement_of s account) < k" unfolding length_map .
  then show ?thesis
    using read_statement_from [OF assms(1,2) refl, of "[]" 0 account 0 k t limit] statement_postings [OF assms(1)]
    by (simp add: cursor_before_def)
qed

section \<open>The trial balance agrees with the balances\<close>

lemma debits_credits:
  assumes "\<forall>p\<in>set ps. valid_leg p"
  shows "sum_by po_amount (\<lambda>p. P p \<and> po_direction p = Debit) ps - sum_by po_amount (\<lambda>p. P p \<and> po_direction p = Credit) ps =
    sum_by leg P ps"
  using assms by (induction ps) (auto simp: valid_leg_def leg_def Debit_def Credit_def)

lemma sum_part_volume:
  assumes "\<forall>p\<in>set ps. valid_leg p"
  shows "0 \<le> sum_by po_amount P ps \<and> sum_by po_amount P ps \<le> volume ps"
  using assms by (induction ps) (auto simp: valid_leg_def)

text \<open>Every leg belongs to one account, in its currency.\<close>

lemma sum_over_accounts:
  assumes "distinct (map la_id as)" "\<forall>p\<in>set ps. \<exists>a\<in>set as. la_id a = po_account_id p \<and> la_currency a = po_currency p"
  shows "sum_list (map (\<lambda>a. acct_sum (la_id a) ps) (filter (\<lambda>a. la_currency a = c) as)) = currency_sum c ps"
  using assms(2)
proof (induction ps)
  case Nil
  then show ?case by (simp add: currency_sum_def)
next
  case (Cons p ps)
  obtain a where a: "a \<in> set as" "la_id a = po_account_id p" "la_currency a = po_currency p" using Cons.prems by auto
  have one: "sum_list (map (\<lambda>b. if la_id b = po_account_id p then leg p else 0) (filter (\<lambda>b. la_currency b = c) as)) =
      (if po_currency p = c then leg p else 0)"
    using assms(1) a
  proof (induction as)
    case (Cons b bs)
    have "sum_list (map (\<lambda>b. if la_id b = po_account_id p then leg p else 0) (filter (\<lambda>b. la_currency b = c) bs)) = 0"
      if "\<forall>b\<in>set bs. po_account_id p \<noteq> la_id b" for bs
      using that by (induction bs) auto
    then show ?case using Cons by (cases "a = b") (auto simp: image_iff)
  qed simp
  have "sum_list (map (\<lambda>b. acct_sum (la_id b) (p # ps)) (filter (\<lambda>b. la_currency b = c) as)) =
      sum_list (map (\<lambda>b. if la_id b = po_account_id p then leg p else 0) (filter (\<lambda>b. la_currency b = c) as)) +
      sum_list (map (\<lambda>b. acct_sum (la_id b) ps) (filter (\<lambda>b. la_currency b = c) as))"
    unfolding sum_list_addf [symmetric] by (intro arg_cong [where f = sum_list] map_cong) auto
  then show ?case using Cons.IH Cons.prems one by (simp add: currency_sum_def)
qed

text \<open>
  C33. The trial balance is a second opinion that agrees: taken after the last posting, it has one line
  for each account, each line's debits less its credits is the balance stored for that account,
  and in each currency the debits of all lines and their credits add up to the same.
\<close>

theorem trial_balance_agrees:
  assumes "ledger_inv s" "volume (postings s) < 2 ^ 63" "\<forall>p\<in>set (postings s). po_created_at p \<le> as_of"
  shows "\<exists>ls. trial_balance None as_of True s = (Ok ls, s) \<and>
    map tl_code ls = map la_code (sort_key la_code (accounts s)) \<and>
    (\<forall>a\<in>set (accounts s). \<forall>b. balance_of (la_id a) s = Some b \<longrightarrow> (\<exists>l\<in>set ls. tl_code l = la_code a \<and> tl_raw l = ba_raw_balance b)) \<and>
    (\<forall>c. sum_by tl_debits (\<lambda>l. tl_currency l = c) ls = sum_by tl_credits (\<lambda>l. tl_currency l = c) ls)"
proof -
  have inv: "accounts_inv s" "postings_inv s" using assms(1) by (simp_all add: ledger_inv_def core_inv_def)
  have legs: "\<forall>p\<in>set (postings s). valid_leg p" and owned: "\<forall>p\<in>set (postings s). \<exists>a\<in>set (accounts s). la_id a = po_account_id p \<and> la_currency a = po_currency p"
    using inv(2) by (auto simp: postings_inv_def posting_inv_def)
  have ids: "distinct (map la_id (accounts s))" using inv(1) by (simp add: accounts_inv_def distinct_serials)
  have books: "books_ok s" by (rule ledger_inv_books [OF assms(1,2)])
  let ?as = "sort_key la_code (accounts s)"
  let ?ls = "map (trial_line s as_of) ?as"
  have at: "posted_by i as_of p \<longleftrightarrow> po_account_id p = i" if "p \<in> set (postings s)" for i p
    using that assms(3) by (auto simp: posted_by_def)
  have parts: "0 \<le> tl_debits l \<and> tl_debits l \<le> volume (postings s) \<and> 0 \<le> tl_credits l \<and> tl_credits l \<le> volume (postings s)"
    if "l \<in> set ?ls" for l
    using that sum_part_volume [OF legs] by (auto simp: trial_line_def)
  have fits: "list_all trial_fits ?ls"
    using parts assms(2) by (fastforce simp: list_all_iff trial_fits_def in64_def)
  have net: "tl_debits (trial_line s as_of a) - tl_credits (trial_line s as_of a) = acct_sum (la_id a) (postings s)" for a
  proof -
    have "tl_debits (trial_line s as_of a) - tl_credits (trial_line s as_of a) = sum_by leg (posted_by (la_id a) as_of) (postings s)"
      using debits_credits [OF legs] by (simp add: trial_line_def)
    also have "\<dots> = acct_sum (la_id a) (postings s)"
      unfolding acct_sum_def sum_by_def by (intro arg_cong [where f = sum_list] arg_cong [where f = "map leg"] filter_cong refl at)
    finally show ?thesis .
  qed
  have raw: "tl_raw (trial_line s as_of a) = acct_sum (la_id a) (postings s)" for a
    using acct_sum_volume [OF legs, of "la_id a"] assms(2) by (simp add: tl_raw_def net wrap64_abs)
  have run: "trial_balance None as_of True s = (Ok ?ls, s)"
    using fits by (simp add: trial_balance_def bindM_def act_simps)
  have stored: "\<exists>l\<in>set ?ls. tl_code l = la_code a \<and> tl_raw l = ba_raw_balance b"
    if "a \<in> set (accounts s)" "balance_of (la_id a) s = Some b" for a b
    using that books raw [of a] by (intro bexI [of _ "trial_line s as_of a"]) (auto simp: books_ok_def account_ok_def trial_line_def)
  have "sum_by tl_debits (\<lambda>l. tl_currency l = c) ?ls - sum_by tl_credits (\<lambda>l. tl_currency l = c) ?ls = 0" for c
  proof -
    have "sum_by tl_debits (\<lambda>l. tl_currency l = c) (map (trial_line s as_of) as) - sum_by tl_credits (\<lambda>l. tl_currency l = c) (map (trial_line s as_of) as) =
        sum_list (map (\<lambda>a. acct_sum (la_id a) (postings s)) (filter (\<lambda>a. la_currency a = c) as))" for as
      by (induction as) (auto simp: net [symmetric], simp_all add: trial_line_def)
    moreover have "distinct (map la_id ?as)"
      using ids by (metis distinct_map distinct_sort set_sort)
    ultimately show ?thesis
      using sum_over_accounts [of ?as "postings s" c] owned books by (simp add: books_ok_def)
  qed
  then show ?thesis using run stored by (intro exI [of _ ?ls]) (simp add: trial_line_def comp_def)
qed

section \<open>On a day's books\<close>

text \<open>The ledger after the top-up and the refund of \<open>Program\<close>.\<close>

lemma demo_story_postings:
  "map (\<lambda>p. (po_account_id p, po_amount p, po_created_at p)) (postings (snd (demo_story (demo_pays h g) demo_day0))) =
    [(1, 500, 100000), (10, 500, 100000), (10, 200, 100000), (9, 200, 100000), (9, 200, 100000), (1, 200, 100000)]"
  by code_simp

lemma demo_day1_postings: "length (postings demo_day1) = 6" "\<forall>p\<in>set (postings demo_day1). po_created_at p \<le> 100000"
  "length (filter (\<lambda>p. po_account_id p = 10) (postings demo_day1)) = 2"
proof -
  note run = demo_story_postings [of the_order_hook "process_payout_event demo_payouts", folded demo_day1_def]
  show "length (postings demo_day1) = 6" using arg_cong [OF run, of length] by simp
  show "\<forall>p\<in>set (postings demo_day1). po_created_at p \<le> 100000"
    using arg_cong [OF run, of "list_all (\<lambda>(_, _, at). at \<le> 100000)"] by (simp add: list.pred_map comp_def list_all_iff)
  show "length (filter (\<lambda>p. po_account_id p = 10) (postings demo_day1)) = 2"
    using arg_cong [OF run, of "\<lambda>xs. length (filter (\<lambda>(i, _). i = 10) xs)"] by (simp add: filter_map comp_def split_def)
qed

lemma statement_paged_in_full_witness:
  "\<exists>rows. read_statement 3 10 AccountLiability 1 [] demo_day1 = (Ok rows, demo_day1) \<and> length rows = 2"
proof -
  have "int (length (postings demo_day1)) < 2 ^ 63" "length (filter (\<lambda>p. po_account_id p = 10) (postings demo_day1)) < 3"
    by (simp_all add: demo_day1_postings)
  note paged = statement_paged_in_full [OF program_intact(1) [OF demo_day_steps] this, of AccountLiability 1]
  have "length (statement_of demo_day1 10) = 2"
    using arg_cong [OF conjunct2 [OF paged], of length] by (simp add: demo_day1_postings)
  then show ?thesis using paged by simp
qed

lemma trial_balance_agrees_witness:
  "\<exists>ls. trial_balance None 100000 True demo_day1 = (Ok ls, demo_day1) \<and>
    sum_by tl_debits (\<lambda>l. tl_currency l = ''INR'') ls = sum_by tl_credits (\<lambda>l. tl_currency l = ''INR'') ls"
  using trial_balance_agrees [OF program_intact(1) [OF demo_day_steps] _ demo_day1_postings(2)] demo_day1_run(2) by auto

end
