(* ===== verification/Service.thy ===== *)
theory Service
  imports LedgerRead
begin

text \<open>
  The service layer (\<open>internal/service\<close>): what every handler shares, and the handlers on wallets
  (\<open>wallet.go\<close>) and the ledger (\<open>ledger.go\<close>).

  A handler checks who calls, validates the message, looks up what it names in the scope of the caller, calls an
  engine in a transaction and leaves an entry in the audit log in that same transaction. The table of the log
  extends the database as \<open>front\<close>.

  What generated code says of a request is an argument of the handler: whether the message satisfies the rules
  declared in the proto, and the fingerprint of its encoding under the name of an operation (or the failure to encode
  it). A response is a record of what it carries; how it is encoded is the \<open>codec\<close> of the idempotency wrapper. A
  request's fields are those of the Go message, with the zero value for an absent one. The JSON
  before and after states of an audit entry are left out.
\<close>

section \<open>The audit log (\<open>product.go\<close>, \<open>dao/audit.go\<close>, \<open>postgresql/audit.go\<close>)\<close>

datatype actor_type = ActorOperator | ActorService | ActorSystem

record audit_entry =
  au_id :: int
  au_actor_type :: actor_type
  au_actor_id :: string
  au_action :: string
  au_resource_type :: string
  au_resource_id :: string
  au_product_id :: "int option"
  au_request_id :: string
  au_created_at :: int

record front = clearing +
  audit_log :: "audit_entry list"

definition record_audit :: "audit_entry \<Rightarrow> ('x front_scheme, unit) action" where
  "record_audit e = bindM (getM (product_exists (au_product_id e))) (\<lambda>fk.
     if \<not> fk then failM Internal
     else modifyM (\<lambda>s. s\<lparr>audit_log := audit_log s @ [e\<lparr>au_id := next_id (audit_log s), au_created_at := clock s\<rparr>]\<rparr>))"

definition audit_actor :: "caller option \<Rightarrow> actor_type \<times> string" where
  "audit_actor who = (case who of
     None \<Rightarrow> (ActorSystem, ''system'')
   | Some c \<Rightarrow> (case ca_kind c of
       KindOperator \<Rightarrow> (ActorOperator, ca_user_id c)
     | KindService \<Rightarrow> (ActorService, ca_credential_id c)
     | KindAnonymous \<Rightarrow> (ActorSystem, ''system'')))"

definition request_id_of :: "caller option \<Rightarrow> string" where
  "request_id_of who = (case who of None \<Rightarrow> [] | Some c \<Rightarrow> ca_request_id c)"

definition audit :: "caller option \<Rightarrow> string \<Rightarrow> string \<Rightarrow> string \<Rightarrow> int option \<Rightarrow> ('x front_scheme, unit) action" where
  "audit who verb kind resource product = record_audit \<lparr>au_id = 0, au_actor_type = fst (audit_actor who), au_actor_id = snd (audit_actor who),
     au_action = verb, au_resource_type = kind, au_resource_id = resource, au_product_id = product,
     au_request_id = request_id_of who, au_created_at = 0\<rparr>"

section \<open>The service (\<open>service.go\<close>)\<close>

record service_config =
  scf_wallet :: limits
  scf_payments :: payment_config
  scf_orders :: order_config
  scf_recon :: recon_config
  scf_recon_alerts :: alert_config
  scf_withdrawals :: withdrawal_config

record 's service =
  svc_orders :: "'s order_engine"
  svc_recon :: "'s recon_engine"
  svc_payouts :: withdrawal_engine
  svc_alerts :: alert_config
  svc_registry :: registry

text \<open>
  \<open>NewService\<close>, with the registry of the configured providers, the cipher, its source of nonces and the format of
  a time. The engines hold one another by pointer: each payment engine below is the one that reports to the
  order and the withdrawal engine.
\<close>

definition new_service :: "service_config \<Rightarrow> registry \<Rightarrow> cipher \<Rightarrow> (nat \<Rightarrow> go_error + string) \<Rightarrow> (int \<Rightarrow> string) \<Rightarrow> 'x clearing_scheme service" where
  "new_service cfg reg cph nonce rfc = (let
     payouts = \<lparr>wen_cipher = cph, wen_nonce = nonce, wen_registry = reg, wen_limits = scf_wallet cfg,
       wen_config = withdrawal_with_defaults (scf_withdrawals cfg)\<rparr>;
     payments = \<lparr>pen_registry = reg, pen_limits = scf_wallet cfg, pen_config = payment_with_defaults (scf_payments cfg),
       pen_orders = None, pen_payouts = None, pen_rfc3339 = rfc\<rparr>;
     orders = with_payouts payouts \<lparr>oen_payments = payments, oen_config = order_with_defaults (scf_orders cfg)\<rparr>
     in \<lparr>svc_orders = orders,
       svc_recon = \<lparr>ren_registry = reg, ren_payments = payments_of orders, ren_config = recon_with_defaults (scf_recon cfg)\<rparr>,
       svc_payouts = payouts, svc_alerts = scf_recon_alerts cfg, svc_registry = reg\<rparr>)"

definition svc_payments :: "'x clearing_scheme service \<Rightarrow> 'x clearing_scheme payment_engine" where
  "svc_payments v = payments_of (svc_orders v)"

definition svc_limits :: "'x clearing_scheme service \<Rightarrow> limits" where
  "svc_limits v = pen_limits (svc_payments v)"

section \<open>Messages (\<open>validate.go\<close>, \<open>idempotency.go\<close>)\<close>

record message =
  ms_valid :: bool
  ms_print :: "string \<Rightarrow> string option"

definition validate :: "message \<Rightarrow> ('s, unit) action" where
  "validate m = (if ms_valid m then returnM () else failM InvalidArgument)"

definition serviceM :: "caller option \<Rightarrow> ('s, int) action" where
  "serviceM who = (case require_service who of Inl e \<Rightarrow> failM e | Inr p \<Rightarrow> returnM p)"

definition is_service :: "caller option \<Rightarrow> bool" where
  "is_service who \<longleftrightarrow> (case who of None \<Rightarrow> False | Some c \<Rightarrow> ca_kind c = KindService)"

definition product_id_of :: "caller option \<Rightarrow> int" where
  "product_id_of who = (case who of None \<Rightarrow> 0 | Some c \<Rightarrow> ca_product_id c)"

definition user_id_of :: "caller option \<Rightarrow> string" where
  "user_id_of who = (case who of None \<Rightarrow> [] | Some c \<Rightarrow> ca_user_id c)"

definition credential_id_of :: "caller option \<Rightarrow> string" where
  "credential_id_of who = (case who of None \<Rightarrow> [] | Some c \<Rightarrow> ca_credential_id c)"

section \<open>Wallets (\<open>wallet.go\<close>)\<close>

subsection \<open>Who sees which wallets\<close>

record wallet_viewer =
  vw_scope :: product_scope
  vw_platform :: bool
  vw_service_product :: int

definition sees :: "wallet_viewer \<Rightarrow> wallet \<Rightarrow> bool" where
  "sees v w = (case wa_product_id w of None \<Rightarrow> vw_platform v | Some i \<Rightarrow> allows_product (vw_scope v) i)"

definition wallet_viewer_for :: "caller option \<Rightarrow> string \<Rightarrow> ('x ledger_scheme, wallet_viewer) action" where
  "wallet_viewer_for who perm =
     (if is_service who
      then returnM \<lparr>vw_scope = only_products [product_id_of who], vw_platform = True, vw_service_product = product_id_of who\<rparr>
      else bindM (guardM (require_operator who perm)) (\<lambda>_.
        bindM (caller_scope who) (\<lambda>scope.
        returnM \<lparr>vw_scope = scope, vw_platform = sc_all scope, vw_service_product = 0\<rparr>)))"

definition visible_wallet :: "wallet_viewer \<Rightarrow> string \<Rightarrow> ('x estate_scheme, wallet) action" where
  "visible_wallet v i = bindM (get_wallet_by_public_id i) (\<lambda>w. if \<not> sees v w then failM NotFound else returnM w)"

record wallet_view =
  wv_id :: string
  wv_customer_id :: string
  wv_wallet_type_id :: string
  wv_wallet_type_code :: string
  wv_product_id :: string
  wv_currency :: string
  wv_frozen :: bool
  wv_balance :: int
  wv_held :: int
  wv_available :: int
  wv_created_at :: int

definition to_proto_wallet :: "wallet \<Rightarrow> ('x estate_scheme, wallet_view) action" where
  "to_proto_wallet w =
     bindM (get_wallet_type_by_id (wa_wallet_type_id w)) (\<lambda>t.
     bindM (get_balance (wa_ledger_account_id w)) (\<lambda>b.
     returnM \<lparr>wv_id = wa_public_id w, wv_customer_id = wa_customer_public_id w, wv_wallet_type_id = wt_public_id t,
       wv_wallet_type_code = wt_code t, wv_product_id = deref (wt_product_public_id t), wv_currency = wt_currency t,
       wv_frozen = (wa_status w = WalletFrozen), wv_balance = natural b AccountLiability, wv_held = ba_held b,
       wv_available = available b AccountLiability, wv_created_at = wa_created_at w\<rparr>))"

subsection \<open>Opening and reading\<close>

fun find_type :: "string \<Rightarrow> wallet_type option \<Rightarrow> wallet_type list \<Rightarrow> wallet_type option" where
  "find_type code platform [] = platform"
| "find_type code platform (t # ts) =
     (if wt_code t \<noteq> code then find_type code platform ts
      else if wt_product_id t \<noteq> None then Some t
      else find_type code (Some t) ts)"

definition wallet_type_by_code :: "int \<Rightarrow> string \<Rightarrow> ('x estate_scheme, wallet_type) action" where
  "wallet_type_by_code pid code = bindM (list_wallet_types pid) (\<lambda>ts. some_or NotFound (find_type code None ts))"

record open_wallet_request =
  ow_customer_id :: string
  ow_wallet_type_code :: string

definition rpc_open_wallet :: "message \<Rightarrow> caller option \<Rightarrow> open_wallet_request \<Rightarrow> ('x front_scheme, wallet_view \<times> bool) action" where
  "rpc_open_wallet m who r =
     bindM (serviceM who) (\<lambda>pid.
     bindM (validate m) (\<lambda>_.
     bindM (get_customer_by_public_id (ow_customer_id r)) (\<lambda>cust.
     bindM (wallet_type_by_code pid (ow_wallet_type_code r)) (\<lambda>t.
     bindM (with_tx no_tx (\<lambda>c. bindM (open_wallet c cust t) (\<lambda>(w, created).
       if \<not> created then returnM (w, created)
       else bindM (audit who ''wallet.opened'' ''wallet'' (wa_public_id w) (wa_product_id w)) (\<lambda>_. returnM (w, created))))) (\<lambda>(w, created).
     bindM (to_proto_wallet w) (\<lambda>out. returnM (out, created)))))))"

definition rpc_get_wallet :: "message \<Rightarrow> caller option \<Rightarrow> string \<Rightarrow> ('x estate_scheme, wallet_view) action" where
  "rpc_get_wallet m who i =
     bindM (wallet_viewer_for who ''openpay:wallets:read'') (\<lambda>v.
     bindM (validate m) (\<lambda>_.
     bindM (visible_wallet v i) to_proto_wallet))"

definition rpc_list_customer_wallets :: "message \<Rightarrow> caller option \<Rightarrow> string \<Rightarrow> ('x estate_scheme, wallet_view list) action" where
  "rpc_list_customer_wallets m who customer =
     bindM (wallet_viewer_for who ''openpay:wallets:read'') (\<lambda>v.
     bindM (validate m) (\<lambda>_.
     bindM (get_customer_by_public_id customer) (\<lambda>cust.
     bindM (list_customer_wallets (cu_id cust) (Some (vw_scope v)) (vw_platform v)) (\<lambda>ws.
     map_m (\<lambda>w. if \<not> sees v w then failM Internal else to_proto_wallet w) ws))))"

definition rpc_get_wallet_statement ::
  "message \<Rightarrow> caller option \<Rightarrow> string \<Rightarrow> int \<Rightarrow> string \<Rightarrow> ('x estate_scheme, wallet_view \<times> statement_row list \<times> string) action" where
  "rpc_get_wallet_statement m who i limit cursor =
     bindM (wallet_viewer_for who ''openpay:wallets:read'') (\<lambda>v.
     bindM (validate m) (\<lambda>_.
     bindM (visible_wallet v i) (\<lambda>w.
     bindM (statement_page (wa_ledger_account_id w) AccountLiability limit cursor) (\<lambda>(rows, next).
     bindM (to_proto_wallet w) (\<lambda>out. returnM (out, rows, next))))))"

subsection \<open>Moving money\<close>

definition funding_product :: "wallet_viewer \<Rightarrow> wallet \<Rightarrow> string \<Rightarrow> ('x ledger_scheme, int) action" where
  "funding_product v w named = (case wa_product_id w of
     Some i \<Rightarrow> returnM i
   | None \<Rightarrow> if vw_service_product v \<noteq> 0 then returnM (vw_service_product v)
       else if named = [] then failM InvalidArgument
       else bindM (get_product_by_public_id named) (\<lambda>p.
         bindM (guardM (require_product_in_scope (vw_scope v) (pr_id p))) (\<lambda>_. returnM (pr_id p))))"

record grant_wallet_request =
  gw_wallet_id :: string
  gw_amount :: int
  gw_funding_product_id :: string
  gw_reason_code :: string
  gw_memo :: string

definition rpc_grant_wallet :: "'x front_scheme service \<Rightarrow> (wallet_view \<times> string) codec \<Rightarrow> message \<Rightarrow> caller option \<Rightarrow> grant_wallet_request \<Rightarrow>
    ('x front_scheme, wallet_view \<times> string) action" where
  "rpc_grant_wallet sv codec m who r =
     bindM (wallet_viewer_for who ''openpay:wallets:grant'') (\<lambda>v.
     bindM (validate m) (\<lambda>_.
     idempotent codec no_tx who (ms_print m ''GrantWallet'') (\<lambda>c.
       bindM (visible_wallet v (gw_wallet_id r)) (\<lambda>w.
       bindM (funding_product v w (gw_funding_product_id r)) (\<lambda>funding.
       bindM (grant (svc_limits sv) c \<lparr>gr_wallet = w, gr_amount = gw_amount r, gr_funding_product_id = funding,
           gr_reason_code = gw_reason_code r, gr_memo = gw_memo r, gr_reference = caller_idempotency_key who\<rparr>) (\<lambda>j.
       bindM (audit who ''wallet.granted'' ''wallet'' (wa_public_id w) (Some funding)) (\<lambda>_.
       bindM (to_proto_wallet w) (\<lambda>out. returnM (out, jo_public_id j)))))))))"

record transfer_wallet_request =
  tw_from_wallet_id :: string
  tw_to_customer_id :: string
  tw_amount :: int

definition rpc_transfer_wallet :: "'x front_scheme service \<Rightarrow> (wallet_view \<times> wallet_view \<times> string) codec \<Rightarrow> message \<Rightarrow> caller option \<Rightarrow>
    transfer_wallet_request \<Rightarrow> ('x front_scheme, wallet_view \<times> wallet_view \<times> string) action" where
  "rpc_transfer_wallet sv codec m who r =
     bindM (serviceM who) (\<lambda>_.
     bindM (wallet_viewer_for who []) (\<lambda>v.
     bindM (validate m) (\<lambda>_.
     idempotent codec no_tx who (ms_print m ''TransferWallet'') (\<lambda>c.
       bindM (visible_wallet v (tw_from_wallet_id r)) (\<lambda>origin.
       bindM (get_customer_by_public_id (tw_to_customer_id r)) (\<lambda>recipient.
       bindM (get_wallet_type_by_id (wa_wallet_type_id origin)) (\<lambda>t.
       bindM (open_wallet c recipient t) (\<lambda>(to, _).
       bindM (transfer (svc_limits sv) c \<lparr>tr_from = origin, tr_to = to, tr_amount = tw_amount r,
           tr_reference = caller_idempotency_key who\<rparr>) (\<lambda>j.
       bindM (audit who ''wallet.transferred'' ''wallet'' (wa_public_id origin) (wa_product_id origin)) (\<lambda>_.
       bindM (to_proto_wallet origin) (\<lambda>from_out.
       bindM (to_proto_wallet to) (\<lambda>to_out. returnM (from_out, to_out, jo_public_id j)))))))))))))"

record adjust_wallet_request =
  aw_wallet_id :: string
  aw_amount :: int
  aw_debit :: bool
  aw_product_id :: string
  aw_reason_code :: string
  aw_memo :: string

definition rpc_adjust_wallet :: "'x front_scheme service \<Rightarrow> (wallet_view \<times> string) codec \<Rightarrow> message \<Rightarrow> caller option \<Rightarrow> adjust_wallet_request \<Rightarrow>
    ('x front_scheme, wallet_view \<times> string) action" where
  "rpc_adjust_wallet sv codec m who r =
     bindM (guardM (require_platform_operator who ''openpay:wallets:adjust'')) (\<lambda>_.
     bindM (wallet_viewer_for who ''openpay:wallets:adjust'') (\<lambda>v.
     bindM (validate m) (\<lambda>_.
     idempotent codec no_tx who (ms_print m ''AdjustWallet'') (\<lambda>c.
       bindM (visible_wallet v (aw_wallet_id r)) (\<lambda>w.
       bindM (funding_product v w (aw_product_id r)) (\<lambda>funding.
       bindM (get_balance (wa_ledger_account_id w)) (\<lambda>before.
       bindM (adjust (svc_limits sv) c \<lparr>ar_wallet = w, ar_amount = aw_amount r, ar_direction = (if aw_debit r then Debit else Credit),
           ar_product_id = funding, ar_reason_code = aw_reason_code r, ar_memo = aw_memo r,
           ar_reference = caller_idempotency_key who\<rparr>) (\<lambda>j.
       bindM (get_balance (wa_ledger_account_id w)) (\<lambda>after.
       bindM (audit who ''wallet.adjusted'' ''wallet'' (wa_public_id w) (Some funding)) (\<lambda>_.
       bindM (to_proto_wallet w) (\<lambda>out. returnM (out, jo_public_id j))))))))))))"

definition rpc_get_float_held :: "caller option \<Rightarrow> ('x estate_scheme, int \<times> float_line list) action" where
  "rpc_get_float_held who =
     bindM (guardM (require_operator who ''openpay:wallets:read'')) (\<lambda>_.
     bindM (caller_scope who) (\<lambda>scope.
     bindM (float_held (Some scope)) (\<lambda>lines.
     bindM (getM clock) (\<lambda>now. returnM (now, lines)))))"

section \<open>The ledger (\<open>ledger.go\<close>)\<close>

definition rpc_get_ledger_account :: "message \<Rightarrow> caller option \<Rightarrow> string \<Rightarrow> ('x ledger_scheme, account_view) action" where
  "rpc_get_ledger_account m who ref =
     bindM (guardM (require_operator who ''openpay:ledger:read'')) (\<lambda>_.
     bindM (validate m) (\<lambda>_.
     bindM (caller_scope who) (\<lambda>scope.
     bindM (get_account_view ref) (\<lambda>v.
     bindM (guardM (require_visible scope (la_product_id (av_account v)))) (\<lambda>_. returnM v)))))"

text \<open>An optional product named on a listing.\<close>

definition scoped_product_filter :: "product_scope \<Rightarrow> string \<Rightarrow> ('x ledger_scheme, int option) action" where
  "scoped_product_filter scope named =
     (if named = [] then returnM None
      else bindM (get_product_by_public_id named) (\<lambda>p.
        bindM (guardM (require_product_in_scope scope (pr_id p))) (\<lambda>_. returnM (Some (pr_id p)))))"

record list_accounts_request =
  lar_limit :: int
  lar_offset :: int
  lar_product_id :: string
  lar_platform_only :: bool
  lar_type :: "account_type option"
  lar_code_prefix :: string

definition rpc_list_ledger_accounts :: "message \<Rightarrow> caller option \<Rightarrow> list_accounts_request \<Rightarrow> ('x ledger_scheme, account_view list \<times> nat) action" where
  "rpc_list_ledger_accounts m who r =
     bindM (guardM (require_operator who ''openpay:ledger:read'')) (\<lambda>_.
     bindM (validate m) (\<lambda>_.
     if lar_product_id r \<noteq> [] \<and> lar_platform_only r then failM InvalidArgument
     else bindM (caller_scope who) (\<lambda>scope.
       if lar_platform_only r \<and> \<not> sc_all scope then failM PermissionDenied
       else bindM (scoped_product_filter scope (lar_product_id r)) (\<lambda>pid.
         list_account_views \<lparr>af_limit = lar_limit r, af_offset = lar_offset r, af_product_id = pid,
           af_platform_only = lar_platform_only r, af_type = lar_type r, af_code_prefix = lar_code_prefix r, af_scope = Some scope\<rparr>))))"

definition rpc_get_account_statement ::
  "message \<Rightarrow> caller option \<Rightarrow> string \<Rightarrow> int \<Rightarrow> string \<Rightarrow> ('x ledger_scheme, account_view \<times> statement_row list \<times> string) action" where
  "rpc_get_account_statement m who ref limit cursor =
     bindM (rpc_get_ledger_account m who ref) (\<lambda>v.
     bindM (statement_page (la_id (av_account v)) (la_type (av_account v)) limit cursor) (\<lambda>(rows, next). returnM (v, rows, next)))"

definition rpc_get_journal :: "message \<Rightarrow> caller option \<Rightarrow> string \<Rightarrow> ('x ledger_scheme, journal) action" where
  "rpc_get_journal m who ref =
     bindM (guardM (require_operator who ''openpay:ledger:read'')) (\<lambda>_.
     bindM (validate m) (\<lambda>_.
     bindM (caller_scope who) (\<lambda>scope.
     bindM (get_journal_view ref) (\<lambda>j.
     bindM (guardM (require_visible scope (jo_product_id j))) (\<lambda>_. returnM j)))))"

record trial_total =
  tt_currency :: string
  tt_debits :: int
  tt_credits :: int
  tt_difference :: int

definition trial_total_of :: "trial_balance_line list \<Rightarrow> string \<Rightarrow> trial_total" where
  "trial_total_of ls cur = (let mine = filter (\<lambda>l. tl_currency l = cur) ls; d = total64 tl_debits mine; k = total64 tl_credits mine
     in \<lparr>tt_currency = cur, tt_debits = d, tt_credits = k, tt_difference = wrap64 (d - k)\<rparr>)"

text \<open>The moment asked for: absent, or a timestamp that is not valid, or its time.\<close>

definition as_of_time :: "int option option \<Rightarrow> ('x env_scheme, int) action" where
  "as_of_time t = (case t of None \<Rightarrow> getM clock | Some None \<Rightarrow> failM InvalidArgument | Some (Some x) \<Rightarrow> returnM x)"

definition rpc_get_trial_balance :: "message \<Rightarrow> caller option \<Rightarrow> int option option \<Rightarrow> string \<Rightarrow> bool \<Rightarrow>
    ('x ledger_scheme, int \<times> trial_balance_line list \<times> trial_total list) action" where
  "rpc_get_trial_balance m who t named include_empty =
     bindM (guardM (require_operator who ''openpay:ledger:read'')) (\<lambda>_.
     bindM (validate m) (\<lambda>_.
     bindM (as_of_time t) (\<lambda>as_of.
     bindM (caller_scope who) (\<lambda>scope.
     bindM (scoped_product_filter scope named) (\<lambda>pid.
     if pid = None \<and> \<not> sc_all scope then failM PermissionDenied
     else bindM (trial_balance pid as_of include_empty) (\<lambda>ls.
       returnM (as_of, ls, map (trial_total_of ls) (sort (remdups (map tl_currency ls))))))))))"

definition rpc_run_ledger_check :: "caller option \<Rightarrow> ('x ledger_scheme, ledger_check_run) action" where
  "rpc_run_ledger_check who =
     bindM (guardM (require_platform_operator who ''openpay:ledger:check'')) (\<lambda>_.
     run_check no_tx LedgerCheckManual (Some (user_id_of who)))"

definition or_default :: "nat \<Rightarrow> int \<Rightarrow> nat" where
  "or_default d limit = (if limit \<le> 0 then d else nat limit)"

definition rpc_list_ledger_check_runs :: "message \<Rightarrow> caller option \<Rightarrow> int \<Rightarrow> ('x ledger_scheme, ledger_check_run list) action" where
  "rpc_list_ledger_check_runs m who limit =
     bindM (guardM (require_platform_operator who ''openpay:ledger:read'')) (\<lambda>_.
     bindM (validate m) (\<lambda>_. list_ledger_check_runs (or_default 20 limit)))"

end
