(* ===== verification/ServicePay.thy ===== *)
theory ServicePay
  imports Service
begin

text \<open>
  The handlers on payments, refunds and disputes (\<open>internal/service/payment.go\<close>), on items and orders
  (\<open>order.go\<close>) and on destinations and withdrawals (\<open>withdrawal.go\<close>).

  A row that a response copies field by field is that row. A status asked for in a listing is an option: none
  for the unspecified value of the enum.
\<close>

section \<open>Payments (\<open>payment.go\<close>)\<close>

text \<open>An em dash between spaces, in UTF-8.\<close>

definition described :: "string \<Rightarrow> string \<Rightarrow> string" where
  "described name description = (if description = [] then name
     else name @ '' '' @ [CHR 0xE2, CHR 0x80, CHR 0x94] @ '' '' @ description)"

record payment_detail =
  py_payment :: payment
  py_checkout_url :: string
  py_attempts :: "payment_attempt list"
  py_transitions :: "payment_transition list"

definition to_proto_payment :: "payment \<Rightarrow> payment_detail" where
  "to_proto_payment p = \<lparr>py_payment = p, py_checkout_url = [], py_attempts = [], py_transitions = []\<rparr>"

text \<open>The page to send the customer to, while the payment waits for it.\<close>

definition checkout_of :: "payment \<Rightarrow> payment_attempt option \<Rightarrow> string" where
  "checkout_of p a = (case a of None \<Rightarrow> [] | Some x \<Rightarrow> if pm_status p = PaymentPending then deref (pa_checkout_url x) else [])"

record create_payment_request =
  cp_topup :: bool
  cp_wallet_id :: string
  cp_amount :: int
  cp_currency :: string
  cp_description :: string
  cp_return_url :: string

definition rpc_create_payment :: "'x front_scheme service \<Rightarrow> payment_detail codec \<Rightarrow> message \<Rightarrow> caller option \<Rightarrow> create_payment_request \<Rightarrow>
    ('x front_scheme, payment_detail) action" where
  "rpc_create_payment sv codec m who r =
     bindM (serviceM who) (\<lambda>pid.
     bindM (validate m) (\<lambda>_.
     if \<not> cp_topup r then failM InvalidArgument
     else bindM (wallet_viewer_for who []) (\<lambda>v.
     idempotent codec no_tx who (ms_print m ''CreatePayment'') (\<lambda>c.
       bindM (visible_wallet v (cp_wallet_id r)) (\<lambda>w.
       bindM (get_customer_by_public_id (wa_customer_public_id w)) (\<lambda>cust.
       bindM (get_product_by_id pid) (\<lambda>product.
       bindM (create_topup (svc_payments sv) c \<lparr>tq_product_id = pid, tq_customer = cust, tq_wallet = w, tq_amount = cp_amount r,
           tq_currency = cp_currency r, tq_description = described (pr_name product) (cp_description r),
           tq_return_url = cp_return_url r\<rparr>) (\<lambda>(p, a).
       bindM (audit who ''payment.created'' ''payment'' (pm_public_id p) (Some pid)) (\<lambda>_.
       returnM ((to_proto_payment p)\<lparr>py_checkout_url := checkout_of p (Some a)\<rparr>))))))))))"

definition product_reader :: "caller option \<Rightarrow> string \<Rightarrow> ('x ledger_scheme, product_scope) action" where
  "product_reader who perm =
     (if is_service who then returnM (only_products [product_id_of who])
      else bindM (guardM (require_operator who perm)) (\<lambda>_. caller_scope who))"

definition visible_payment :: "caller option \<Rightarrow> string \<Rightarrow> string \<Rightarrow> ('x till_scheme, payment \<times> bool) action" where
  "visible_payment who i perm =
     bindM (product_reader who perm) (\<lambda>scope.
     bindM (get_payment_by_public_id i) (\<lambda>p.
     bindM (guardM (require_visible scope (Some (pm_product_id p)))) (\<lambda>_. returnM (p, \<not> is_service who))))"

definition payment_detail_of :: "payment \<Rightarrow> bool \<Rightarrow> ('x till_scheme, payment_detail) action" where
  "payment_detail_of p with_history =
     bindM (list_payment_attempts (pm_id p)) (\<lambda>xs.
     let out = (to_proto_payment p)\<lparr>py_checkout_url := checkout_of p (if xs = [] then None else Some (last xs))\<rparr>
     in if \<not> with_history then returnM out
        else bindM (list_payment_transitions (pm_id p)) (\<lambda>ts. returnM (out\<lparr>py_attempts := xs, py_transitions := ts\<rparr>)))"

definition rpc_get_payment :: "message \<Rightarrow> caller option \<Rightarrow> string \<Rightarrow> ('x till_scheme, payment_detail) action" where
  "rpc_get_payment m who i =
     bindM (validate m) (\<lambda>_.
     bindM (visible_payment who i ''openpay:payments:read'') (\<lambda>(p, operator). payment_detail_of p operator))"

text \<open>The customer named on a listing.\<close>

definition customer_filter :: "string \<Rightarrow> ('x estate_scheme, int option) action" where
  "customer_filter named = (if named = [] then returnM None
     else bindM (get_customer_by_public_id named) (\<lambda>cust. returnM (Some (cu_id cust))))"

record list_payments_request =
  lpr_limit :: int
  lpr_offset :: int
  lpr_product_id :: string
  lpr_customer_id :: string
  lpr_status :: "payment_status option"

definition rpc_list_payments :: "message \<Rightarrow> caller option \<Rightarrow> list_payments_request \<Rightarrow> ('x till_scheme, payment_detail list \<times> nat) action" where
  "rpc_list_payments m who r =
     bindM (guardM (require_operator who ''openpay:payments:read'')) (\<lambda>_.
     bindM (validate m) (\<lambda>_.
     bindM (caller_scope who) (\<lambda>scope.
     bindM (scoped_product_filter scope (lpr_product_id r)) (\<lambda>pid.
     bindM (customer_filter (lpr_customer_id r)) (\<lambda>cid.
     bindM (list_payments \<lparr>pml_limit = lpr_limit r, pml_offset = lpr_offset r, pml_product_id = pid, pml_customer_id = cid,
         pml_status = lpr_status r, pml_scope = Some scope\<rparr>) (\<lambda>(ps, total).
     returnM (map to_proto_payment ps, total)))))))"

definition rpc_sync_payment :: "'x front_scheme service \<Rightarrow> message \<Rightarrow> caller option \<Rightarrow> string \<Rightarrow> ('x front_scheme, payment_detail) action" where
  "rpc_sync_payment sv m who i =
     bindM (guardM (require_operator who ''openpay:payments:sync'')) (\<lambda>_.
     bindM (validate m) (\<lambda>_.
     bindM (visible_payment who i ''openpay:payments:sync'') (\<lambda>(p, _).
     bindM (poll (svc_payments sv) no_tx p ''operator'') (\<lambda>synced. payment_detail_of synced True))))"

subsection \<open>Refunds and disputes\<close>

record create_refund_request =
  cf_payment_id :: string
  cf_amount :: int
  cf_reason_code :: string
  cf_memo :: string

definition rpc_create_refund :: "'x front_scheme service \<Rightarrow> refund codec \<Rightarrow> message \<Rightarrow> caller option \<Rightarrow> create_refund_request \<Rightarrow>
    ('x front_scheme, refund) action" where
  "rpc_create_refund sv codec m who r =
     bindM (guardM (require_platform_operator who ''openpay:refunds:create'')) (\<lambda>_.
     bindM (validate m) (\<lambda>_.
     idempotent codec no_tx who (ms_print m ''CreateRefund'') (\<lambda>c.
       bindM (get_payment_by_public_id (cf_payment_id r)) (\<lambda>p.
       bindM (create_refund (svc_payments sv) c \<lparr>rr_payment_id = pm_id p, rr_amount = cf_amount r, rr_reason_code = cf_reason_code r,
           rr_memo = cf_memo r, rr_requested_by = user_id_of who\<rparr>) (\<lambda>x.
       bindM (audit who ''refund.created'' ''refund'' (rf_public_id x) (Some (pm_product_id p))) (\<lambda>_. returnM x))))))"

definition rpc_get_refund :: "message \<Rightarrow> caller option \<Rightarrow> string \<Rightarrow> ('x till_scheme, refund) action" where
  "rpc_get_refund m who i =
     bindM (guardM (require_operator who ''openpay:payments:read'')) (\<lambda>_.
     bindM (validate m) (\<lambda>_.
     bindM (caller_scope who) (\<lambda>scope.
     bindM (get_refund_by_public_id i) (\<lambda>x.
     bindM (guardM (require_visible scope (Some (rf_product_id x)))) (\<lambda>_. returnM x)))))"

definition rpc_list_refunds :: "message \<Rightarrow> caller option \<Rightarrow> string \<Rightarrow> ('x till_scheme, refund list) action" where
  "rpc_list_refunds m who i =
     bindM (validate m) (\<lambda>_.
     bindM (visible_payment who i ''openpay:payments:read'') (\<lambda>(p, _). list_payment_refunds (pm_id p)))"

definition visible_dispute :: "caller option \<Rightarrow> string \<Rightarrow> ('x till_scheme, dispute) action" where
  "visible_dispute who i =
     bindM (caller_scope who) (\<lambda>scope.
     bindM (get_dispute_by_public_id i) (\<lambda>d.
     bindM (guardM (require_visible scope (Some (di_product_id d)))) (\<lambda>_. returnM d)))"

definition rpc_get_dispute :: "message \<Rightarrow> caller option \<Rightarrow> string \<Rightarrow> ('x till_scheme, dispute) action" where
  "rpc_get_dispute m who i =
     bindM (guardM (require_operator who ''openpay:payments:read'')) (\<lambda>_.
     bindM (validate m) (\<lambda>_. visible_dispute who i))"

definition rpc_list_disputes :: "message \<Rightarrow> caller option \<Rightarrow> dispute_status option \<Rightarrow> int \<Rightarrow> ('x till_scheme, dispute list) action" where
  "rpc_list_disputes m who status limit =
     bindM (guardM (require_operator who ''openpay:payments:read'')) (\<lambda>_.
     bindM (validate m) (\<lambda>_.
     bindM (caller_scope who) (\<lambda>scope. list_disputes (Some scope) status (or_default 50 limit))))"

definition rpc_submit_dispute_evidence :: "'x front_scheme service \<Rightarrow> message \<Rightarrow> caller option \<Rightarrow> string \<Rightarrow> string \<Rightarrow> ('x front_scheme, dispute) action" where
  "rpc_submit_dispute_evidence sv m who i evidence =
     bindM (guardM (require_platform_operator who ''openpay:disputes:manage'')) (\<lambda>_.
     bindM (validate m) (\<lambda>_.
     bindM (visible_dispute who i) (\<lambda>d.
     with_tx no_tx (\<lambda>c.
       bindM (submit_dispute_evidence (svc_payments sv) c (di_id d) evidence (user_id_of who)) (\<lambda>updated.
       bindM (audit who ''dispute.evidence_submitted'' ''dispute'' (di_public_id d) (Some (di_product_id d))) (\<lambda>_. returnM updated))))))"

section \<open>Orders (\<open>order.go\<close>)\<close>

record create_item_request =
  ci_code :: string
  ci_name :: string
  ci_reference_price :: int
  ci_item_currency :: string
  ci_tax_class :: string

definition rpc_create_item :: "message \<Rightarrow> caller option \<Rightarrow> create_item_request \<Rightarrow> ('x front_scheme, item) action" where
  "rpc_create_item m who r =
     bindM (serviceM who) (\<lambda>pid.
     bindM (validate m) (\<lambda>_.
     bindM (new_id ItemId) (\<lambda>x.
     create_item \<lparr>it_id = 0, it_public_id = x, it_product_id = pid, it_code = ci_code r, it_name = ci_name r,
       it_reference_price = ci_reference_price r, it_currency = ci_item_currency r, it_tax_class = ci_tax_class r,
       it_status = ''active'', it_created_at = 0, it_updated_at = 0\<rparr>)))"

definition rpc_list_items :: "caller option \<Rightarrow> ('x shop_scheme, item list) action" where
  "rpc_list_items who = bindM (serviceM who) list_items"

record order_detail =
  ord_order :: order_row
  ord_lines :: "order_line list"
  ord_tenders :: "order_tender list"
  ord_refunds :: "(order_refund \<times> order_refund_part list) list"
  ord_payment_id :: string
  ord_checkout_url :: string

definition order_detail_of :: "order_row \<Rightarrow> ('x shop_scheme, order_detail) action" where
  "order_detail_of o' =
     bindM (list_order_lines (od_id o')) (\<lambda>ls.
     bindM (list_order_tenders (od_id o')) (\<lambda>ts.
     bindM (list_order_refunds (od_id o')) (\<lambda>xs.
     bindM (map_m (\<lambda>x. bindM (list_order_refund_parts (ox_id x)) (\<lambda>ps. returnM (x, ps))) xs) (\<lambda>rs.
     let out = \<lparr>ord_order = o', ord_lines = ls, ord_tenders = ts, ord_refunds = rs, ord_payment_id = [], ord_checkout_url = []\<rparr>
     in if od_gateway_amount o' \<le> 0 then returnM out
        else bindM (tryM (get_order_payment (od_id o'))) (\<lambda>r. case r of
          Inl e \<Rightarrow> if is_code e NotFound then returnM out else errM e
        | Inr p \<Rightarrow> bindM (payment_detail_of p False) (\<lambda>d. returnM (out\<lparr>ord_payment_id := pm_public_id p,
            ord_checkout_url := (if od_status o' = OrderPendingPayment then py_checkout_url d else [])\<rparr>)))))))"

record order_request =
  or_external_ref :: string
  or_invoice_ref :: string
  or_currency :: string
  or_total :: int
  or_breakdown_provided :: bool
  or_subtotal :: int
  or_discount :: int
  or_tax :: int
  or_tax_rate :: string
  or_auto_tender :: bool
  or_return_url :: string
  or_description :: string
  or_lines :: "line_request list"
  or_customer_id :: string
  or_wallet_tenders :: "(string \<times> int) list"

text \<open>The amounts as sent, or a bare total booked gross.\<close>

definition order_amounts :: "order_request \<Rightarrow> code + (int \<times> int \<times> int \<times> string)" where
  "order_amounts r =
     (if or_breakdown_provided r then Inr (or_subtotal r, or_discount r, or_tax r, or_tax_rate r)
      else if or_discount r \<noteq> 0 \<or> or_tax r \<noteq> 0 then Inl InvalidArgument
      else Inr (or_total r, 0, 0, []))"

definition order_customer :: "string \<Rightarrow> ('x estate_scheme, customer option) action" where
  "order_customer named = (if named = [] then returnM None
     else bindM (get_customer_by_public_id named) (\<lambda>cust. returnM (Some cust)))"

definition rpc_create_order :: "'x front_scheme service \<Rightarrow> order_detail codec \<Rightarrow> message \<Rightarrow> caller option \<Rightarrow> order_request \<Rightarrow>
    ('x front_scheme, order_detail) action" where
  "rpc_create_order sv codec m who r =
     bindM (serviceM who) (\<lambda>pid.
     bindM (validate m) (\<lambda>_.
     bindM (wallet_viewer_for who []) (\<lambda>v.
     idempotent codec no_tx who (ms_print m ''CreateOrder'') (\<lambda>c.
       bindM (get_product_by_id pid) (\<lambda>product.
       case order_amounts r of Inl e \<Rightarrow> failM e
       | Inr (subtotal, discount, tax, rate) \<Rightarrow>
       bindM (order_customer (or_customer_id r)) (\<lambda>cust.
       bindM (map_m (\<lambda>(i, amount). bindM (visible_wallet v i) (\<lambda>w. returnM (w, amount))) (or_wallet_tenders r)) (\<lambda>tenders.
       bindM (create_order_for (svc_orders sv) c \<lparr>cr_product_id = pid, cr_customer = cust, cr_external_ref = or_external_ref r,
           cr_invoice_ref = or_invoice_ref r, cr_currency = or_currency r, cr_subtotal = subtotal, cr_discount = discount, cr_tax = tax,
           cr_total = or_total r, cr_tax_rate = rate, cr_breakdown_provided = or_breakdown_provided r, cr_lines = or_lines r,
           cr_tenders = tenders, cr_auto_tender = or_auto_tender r, cr_description = described (pr_name product) (or_description r),
           cr_return_url = or_return_url r\<rparr>) (\<lambda>res.
       bindM (audit who ''order.created'' ''order'' (od_public_id (os_order res)) (Some pid)) (\<lambda>_.
       order_detail_of (os_order res))))))))))"

definition visible_order :: "product_scope \<Rightarrow> string \<Rightarrow> ('x shop_scheme, order_row) action" where
  "visible_order scope i =
     bindM (get_order_by_public_id i) (\<lambda>o'.
     bindM (guardM (require_visible scope (Some (od_product_id o')))) (\<lambda>_. returnM o'))"

definition rpc_get_order :: "message \<Rightarrow> caller option \<Rightarrow> string \<Rightarrow> ('x shop_scheme, order_detail) action" where
  "rpc_get_order m who i =
     bindM (validate m) (\<lambda>_.
     bindM (product_reader who ''openpay:payments:read'') (\<lambda>scope.
     bindM (visible_order scope i) order_detail_of))"

record refund_order_request =
  ro_id :: string
  ro_amount :: int
  ro_destination :: string
  ro_reason_code :: string
  ro_memo :: string
  ro_breakdown_provided :: bool
  ro_subtotal :: int
  ro_discount :: int
  ro_tax :: int

definition rpc_refund_order :: "'x front_scheme service \<Rightarrow> (order_detail \<times> order_refund \<times> order_refund_part list) codec \<Rightarrow> message \<Rightarrow>
    caller option \<Rightarrow> refund_order_request \<Rightarrow> ('x front_scheme, order_detail \<times> order_refund \<times> order_refund_part list) action" where
  "rpc_refund_order sv codec m who r =
     bindM (if is_service who then returnM (only_products [product_id_of who])
       else bindM (guardM (require_platform_operator who ''openpay:refunds:create'')) (\<lambda>_. returnM all_products)) (\<lambda>scope.
     bindM (validate m) (\<lambda>_.
     idempotent codec no_tx who (ms_print m ''RefundOrder'') (\<lambda>c.
       bindM (visible_order scope (ro_id r)) (\<lambda>o'.
       bindM (refund_order_for (svc_orders sv) c \<lparr>orq_order_id = od_id o', orq_amount = ro_amount r,
           orq_breakdown = (if ro_breakdown_provided r
             then Some \<lparr>bd_subtotal = ro_subtotal r, bd_discount = ro_discount r, bd_tax = ro_tax r\<rparr> else None),
           orq_destination = ro_destination r, orq_reason_code = ro_reason_code r, orq_memo = ro_memo r,
           orq_requested_by = (if is_service who then credential_id_of who else user_id_of who)\<rparr>) (\<lambda>(x, ps).
       bindM (audit who ''order.refunded'' ''order'' (od_public_id o') (Some (od_product_id o'))) (\<lambda>_.
       bindM (get_order_by_public_id (od_public_id o')) (\<lambda>current.
       bindM (order_detail_of current) (\<lambda>out. returnM (out, x, ps)))))))))"

definition rpc_cancel_order :: "'x front_scheme service \<Rightarrow> message \<Rightarrow> caller option \<Rightarrow> string \<Rightarrow> string \<Rightarrow> ('x front_scheme, order_detail) action" where
  "rpc_cancel_order sv m who i reason =
     bindM (serviceM who) (\<lambda>pid.
     bindM (validate m) (\<lambda>_.
     bindM (visible_order (only_products [pid]) i) (\<lambda>o'.
     bindM (cancel_order (svc_orders sv) no_tx o' (if reason = [] then ''cancelled by the product'' else reason)) order_detail_of)))"

section \<open>Withdrawals (\<open>withdrawal.go\<close>)\<close>

record add_beneficiary_request =
  ab_customer_id :: string
  ab_kind :: string
  ab_name :: string
  ab_account_number :: string
  ab_ifsc :: string
  ab_vpa :: string

definition beneficiary_details :: "add_beneficiary_request \<Rightarrow> code + (string option \<times> string option \<times> string option)" where
  "beneficiary_details r =
     (if ab_kind r = ''bank_account''
      then if ab_account_number r = [] \<or> ab_ifsc r = [] \<or> ab_vpa r \<noteq> [] then Inl InvalidArgument
        else Inr (Some (ab_account_number r), Some (ab_ifsc r), None)
      else if ab_kind r = ''vpa''
      then if ab_vpa r = [] \<or> ab_account_number r \<noteq> [] \<or> ab_ifsc r \<noteq> [] then Inl InvalidArgument
        else Inr (None, None, Some (ab_vpa r))
      else Inr (None, None, None))"

definition rpc_add_beneficiary :: "'x front_scheme service \<Rightarrow> message \<Rightarrow> caller option \<Rightarrow> add_beneficiary_request \<Rightarrow>
    ('x front_scheme, beneficiary \<times> string) action" where
  "rpc_add_beneficiary sv m who r =
     bindM (serviceM who) (\<lambda>_.
     bindM (validate m) (\<lambda>_.
     bindM (get_customer_by_public_id (ab_customer_id r)) (\<lambda>cust.
     case beneficiary_details r of Inl e \<Rightarrow> failM e
     | Inr (account, ifsc, vpa) \<Rightarrow>
       bindM (add_beneficiary (svc_payouts sv) \<lparr>bn_id = 0, bn_public_id = [], bn_customer_id = cu_id cust, bn_kind = ab_kind r,
         bn_name = ab_name r, bn_account_number = account, bn_account_last4 = None, bn_account_fingerprint = None, bn_ifsc = ifsc,
         bn_vpa = vpa, bn_status = BeneficiaryPending, bn_name_at_bank = None, bn_verified_at = None, bn_failure_reason = None,
         bn_created_at = 0, bn_updated_at = 0\<rparr>) (\<lambda>b. returnM (b, cu_public_id cust)))))"

definition rpc_list_beneficiaries :: "message \<Rightarrow> caller option \<Rightarrow> string \<Rightarrow> ('x desk_scheme, beneficiary list) action" where
  "rpc_list_beneficiaries m who customer =
     bindM (if is_service who then returnM () else guardM (require_operator who ''openpay:withdrawals:read'')) (\<lambda>_.
     bindM (validate m) (\<lambda>_.
     bindM (get_customer_by_public_id customer) (\<lambda>cust. list_beneficiaries (cu_id cust))))"

record request_withdrawal_request =
  rq_wallet_id :: string
  rq_beneficiary_id :: string
  rq_amount :: int

definition rpc_request_withdrawal :: "'x front_scheme service \<Rightarrow> withdrawal codec \<Rightarrow> message \<Rightarrow> caller option \<Rightarrow> request_withdrawal_request \<Rightarrow>
    ('x front_scheme, withdrawal) action" where
  "rpc_request_withdrawal sv codec m who r =
     bindM (serviceM who) (\<lambda>_.
     bindM (wallet_viewer_for who []) (\<lambda>v.
     bindM (validate m) (\<lambda>_.
     idempotent codec no_tx who (ms_print m ''RequestWithdrawal'') (\<lambda>c.
       bindM (visible_wallet v (rq_wallet_id r)) (\<lambda>w.
       bindM (get_beneficiary_by_public_id (rq_beneficiary_id r)) (\<lambda>b.
       bindM (request_withdrawal (svc_payouts sv) c \<lparr>wq_wallet = w, wq_beneficiary = b, wq_amount = rq_amount r,
           wq_requested_by = credential_id_of who\<rparr>) (\<lambda>x.
       bindM (audit who ''withdrawal.requested'' ''withdrawal'' (wd_public_id x) (wd_product_id x)) (\<lambda>_. returnM x))))))))"

definition decide_withdrawal :: "(ctx \<Rightarrow> int \<Rightarrow> string \<Rightarrow> string \<Rightarrow> ('x front_scheme, withdrawal) action) \<Rightarrow> string \<Rightarrow> message \<Rightarrow>
    caller option \<Rightarrow> string \<Rightarrow> string \<Rightarrow> ('x front_scheme, withdrawal) action" where
  "decide_withdrawal verdict verb m who i note =
     bindM (guardM (require_platform_operator who ''openpay:withdrawals:approve'')) (\<lambda>_.
     bindM (validate m) (\<lambda>_.
     bindM (get_withdrawal_by_public_id i) (\<lambda>existing.
     with_tx no_tx (\<lambda>c.
       bindM (verdict c (wd_id existing) (user_id_of who) note) (\<lambda>x.
       bindM (audit who verb ''withdrawal'' (wd_public_id x) (wd_product_id x)) (\<lambda>_. returnM x))))))"

definition rpc_approve_withdrawal :: "'x front_scheme service \<Rightarrow> message \<Rightarrow> caller option \<Rightarrow> string \<Rightarrow> string \<Rightarrow> ('x front_scheme, withdrawal) action" where
  "rpc_approve_withdrawal sv = decide_withdrawal (approve_withdrawal (svc_payouts sv)) ''withdrawal.approved''"

definition rpc_reject_withdrawal :: "'x front_scheme service \<Rightarrow> message \<Rightarrow> caller option \<Rightarrow> string \<Rightarrow> string \<Rightarrow> ('x front_scheme, withdrawal) action" where
  "rpc_reject_withdrawal sv = decide_withdrawal (reject_withdrawal (svc_payouts sv)) ''withdrawal.rejected''"

definition rpc_get_withdrawal :: "message \<Rightarrow> caller option \<Rightarrow> string \<Rightarrow> ('x desk_scheme, withdrawal) action" where
  "rpc_get_withdrawal m who i =
     bindM (validate m) (\<lambda>_.
     bindM (product_reader who ''openpay:withdrawals:read'') (\<lambda>scope.
     bindM (get_withdrawal_by_public_id i) (\<lambda>x.
     bindM (guardM (require_visible scope (wd_product_id x))) (\<lambda>_. returnM x))))"

definition rpc_list_withdrawals :: "message \<Rightarrow> caller option \<Rightarrow> withdrawal_status option \<Rightarrow> string \<Rightarrow> int \<Rightarrow> ('x desk_scheme, withdrawal list) action" where
  "rpc_list_withdrawals m who status customer limit =
     bindM (guardM (require_operator who ''openpay:withdrawals:read'')) (\<lambda>_.
     bindM (validate m) (\<lambda>_.
     bindM (caller_scope who) (\<lambda>scope.
     bindM (customer_filter customer) (\<lambda>cid.
     list_withdrawals (Some scope) status cid (or_default 50 limit)))))"

end
