(* ===== verification/ServiceAdmin.thy ===== *)
theory ServiceAdmin
  imports ServicePay
begin

text \<open>
  The handlers that set the platform up and look after it (\<open>internal/service\<close>): products (\<open>product.go\<close>), wallet
  types (\<open>wallet_type.go\<close>), customers (\<open>customer.go\<close>), credentials (\<open>credential.go\<close>), providers
  (\<open>provider.go\<close>), reconciliation (\<open>recon.go\<close>), and the console's listings (\<open>console.go\<close>, \<open>me.go\<close>) with
  their queries (\<open>postgresql/console.go\<close>).

  As in ServicePay a row that a response copies field by field is that row: a wallet type's limits are optional
  there, zero in the response.
\<close>

section \<open>Products (\<open>product.go\<close>)\<close>

record create_product_request =
  cpr_code :: string
  cpr_name :: string
  cpr_default_currency :: string

text \<open>The two types every product starts with.\<close>

definition bonus_expiry_days :: int where
  "bonus_expiry_days = 365"

definition base_wallet_type :: "product \<Rightarrow> string \<Rightarrow> string \<Rightarrow> ('x env_scheme, wallet_type) action" where
  "base_wallet_type p code name = bindM (new_id WalletTypeId) (\<lambda>x. returnM
     \<lparr>wt_id = 0, wt_public_id = x, wt_product_id = Some (pr_id p), wt_product_public_id = Some (pr_public_id p),
      wt_scope = WalletScopeProduct, wt_code = code, wt_name = name, wt_currency = pr_default_currency p,
      wt_fundable = False, wt_grantable = False, wt_withdrawable = False, wt_transferable = False,
      wt_refundable_to_source = True, wt_allow_negative = False, wt_expiry_policy = ExpiryNone, wt_expiry_days = None,
      wt_max_balance = None, wt_max_txn_amount = None, wt_daily_load_limit = None, wt_min_withdrawal_amount = None,
      wt_withdrawal_approval_threshold = None, wt_daily_withdrawal_limit = None, wt_status = WalletTypeActive,
      wt_withdrawable_approved_by = None, wt_withdrawable_approved_at = None, wt_withdrawable_approval_ref = None,
      wt_created_at = 0, wt_updated_at = 0\<rparr>)"

definition default_wallet_types :: "product \<Rightarrow> ('x env_scheme, wallet_type list) action" where
  "default_wallet_types p =
     bindM (base_wallet_type p ''MAIN'' ''Main balance'') (\<lambda>main.
     bindM (base_wallet_type p ''BONUS'' ''Bonus balance'') (\<lambda>bonus.
     returnM [main\<lparr>wt_fundable := True\<rparr>,
       bonus\<lparr>wt_grantable := True, wt_expiry_policy := ExpiryRolling, wt_expiry_days := Some bonus_expiry_days\<rparr>]))"

definition create_default_type :: "caller option \<Rightarrow> product \<Rightarrow> wallet_type \<Rightarrow> ('x front_scheme, unit) action" where
  "create_default_type who p t = bindM (create_wallet_type t) (\<lambda>row.
     audit who ''wallet_type.created'' ''wallet_type'' (wt_public_id row) (Some (pr_id p)))"

definition rpc_create_product :: "product codec \<Rightarrow> message \<Rightarrow> caller option \<Rightarrow> create_product_request \<Rightarrow> ('x front_scheme, product) action" where
  "rpc_create_product codec m who r =
     bindM (guardM (require_platform_operator who ''openpay:products:write'')) (\<lambda>_.
     bindM (validate m) (\<lambda>_.
     idempotent codec no_tx who (ms_print m ''CreateProduct'') (\<lambda>c.
       bindM (new_id ProductId) (\<lambda>x.
       bindM (create_product \<lparr>pr_id = 0, pr_public_id = x, pr_code = cpr_code r, pr_name = cpr_name r, pr_status = ProductActive,
           pr_default_currency = cpr_default_currency r, pr_refund_destination = []\<rparr>) (\<lambda>p.
       bindM (ensure_product c p 0) (\<lambda>_.
       bindM (default_wallet_types p) (\<lambda>ts.
       bindM (for_each ts (create_default_type who p)) (\<lambda>_.
       bindM (audit who ''product.created'' ''product'' (pr_public_id p) (Some (pr_id p))) (\<lambda>_. returnM p)))))))))"

definition rpc_get_product :: "message \<Rightarrow> caller option \<Rightarrow> string \<Rightarrow> ('x ledger_scheme, product) action" where
  "rpc_get_product m who i =
     bindM (guardM (require_operator who ''openpay:products:read'')) (\<lambda>_.
     bindM (validate m) (\<lambda>_.
     bindM (caller_scope who) (\<lambda>scope.
     bindM (get_product_by_public_id i) (\<lambda>p.
     bindM (guardM (require_visible scope (Some (pr_id p)))) (\<lambda>_. returnM p)))))"

record list_products_request =
  lp_limit :: int
  lp_offset :: int
  lp_search :: string
  lp_status :: "product_status option"

definition rpc_list_products :: "message \<Rightarrow> caller option \<Rightarrow> list_products_request \<Rightarrow> ('x ledger_scheme, product list \<times> nat) action" where
  "rpc_list_products m who r =
     bindM (guardM (require_operator who ''openpay:products:read'')) (\<lambda>_.
     bindM (validate m) (\<lambda>_.
     bindM (caller_scope who) (\<lambda>scope.
     list_products \<lparr>pl_limit = lp_limit r, pl_offset = lp_offset r, pl_search = lp_search r, pl_status = lp_status r,
       pl_scope = Some scope\<rparr>)))"

text \<open>A request's status is never the unspecified value: the message would not be valid.\<close>

record update_product_request =
  up_id :: string
  up_name :: string
  up_status :: product_status
  up_refund_destination :: string

definition rpc_update_product :: "product codec \<Rightarrow> message \<Rightarrow> caller option \<Rightarrow> update_product_request \<Rightarrow> ('x front_scheme, product) action" where
  "rpc_update_product codec m who r =
     bindM (guardM (require_platform_operator who ''openpay:products:write'')) (\<lambda>_.
     bindM (validate m) (\<lambda>_.
     idempotent codec no_tx who (ms_print m ''UpdateProduct'') (\<lambda>c.
       bindM (get_product_by_public_id (up_id r)) (\<lambda>before.
       bindM (update_product \<lparr>pr_id = 0, pr_public_id = up_id r, pr_code = [], pr_name = up_name r, pr_status = up_status r,
           pr_default_currency = [], pr_refund_destination = up_refund_destination r\<rparr>) (\<lambda>p.
       bindM (audit who ''product.updated'' ''product'' (pr_public_id p) (Some (pr_id p))) (\<lambda>_. returnM p))))))"

section \<open>Wallet types (\<open>wallet_type.go\<close>)\<close>

record wallet_limits =
  wl_max_balance :: int
  wl_max_txn_amount :: int
  wl_daily_load_limit :: int
  wl_min_withdrawal_amount :: int
  wl_withdrawal_approval_threshold :: int
  wl_daily_withdrawal_limit :: int

text \<open>An expiry policy is an option: none for the unspecified value.\<close>

record create_wallet_type_request =
  ctr_product_id :: string
  ctr_code :: string
  ctr_name :: string
  ctr_currency :: string
  ctr_fundable :: bool
  ctr_grantable :: bool
  ctr_withdrawable :: bool
  ctr_transferable :: bool
  ctr_refundable_to_source :: bool
  ctr_allow_negative :: bool
  ctr_expiry_policy :: "expiry_policy option"
  ctr_expiry_days :: int
  ctr_limits :: "wallet_limits option"
  ctr_withdrawal_approval_ref :: string

definition check_withdrawal_policy :: "bool \<Rightarrow> wallet_limits option \<Rightarrow> code option" where
  "check_withdrawal_policy withdrawable limits = (case limits of None \<Rightarrow> None
   | Some l \<Rightarrow>
       if \<not> withdrawable \<and> (wl_min_withdrawal_amount l \<noteq> 0 \<or> wl_withdrawal_approval_threshold l \<noteq> 0 \<or> wl_daily_withdrawal_limit l \<noteq> 0)
       then Some InvalidArgument
       else if wl_max_txn_amount l \<noteq> 0 \<and> wl_min_withdrawal_amount l > wl_max_txn_amount l then Some InvalidArgument
       else None)"

definition check_expiry :: "create_wallet_type_request \<Rightarrow> code option" where
  "check_expiry r =
     (if ctr_expiry_policy r = Some ExpiryFixed then Some InvalidArgument
      else if ctr_expiry_policy r \<noteq> Some ExpiryNone \<and> ctr_product_id r = [] then Some InvalidArgument
      else if ctr_expiry_policy r = Some ExpiryNone \<and> ctr_expiry_days r \<noteq> 0 then Some InvalidArgument
      else if ctr_expiry_policy r \<noteq> Some ExpiryNone \<and> ctr_expiry_days r \<le> 0 then Some InvalidArgument
      else None)"

definition check_wallet_capabilities :: "create_wallet_type_request \<Rightarrow> code option" where
  "check_wallet_capabilities r =
     (if \<not> ctr_fundable r \<and> \<not> ctr_grantable r then Some InvalidArgument
      else if ctr_withdrawable r \<and> \<not> ctr_fundable r then Some InvalidArgument
      else if ctr_withdrawable r \<and> ctr_grantable r then Some InvalidArgument
      else if ctr_withdrawable r \<and> ctr_withdrawal_approval_ref r = [] then Some InvalidArgument
      else case check_withdrawal_policy (ctr_withdrawable r) (ctr_limits r) of
        Some e \<Rightarrow> Some e
      | None \<Rightarrow> check_expiry r)"

text \<open>Zero means unlimited.\<close>

definition optional_limit :: "int \<Rightarrow> int option" where
  "optional_limit v = (if v \<le> 0 then None else Some v)"

definition limit_type :: "wallet_limits option \<Rightarrow> wallet_type \<Rightarrow> wallet_type" where
  "limit_type limits t = (case limits of None \<Rightarrow> t
   | Some l \<Rightarrow> t\<lparr>wt_max_balance := optional_limit (wl_max_balance l), wt_max_txn_amount := optional_limit (wl_max_txn_amount l),
       wt_daily_load_limit := optional_limit (wl_daily_load_limit l),
       wt_min_withdrawal_amount := optional_limit (wl_min_withdrawal_amount l),
       wt_withdrawal_approval_threshold := optional_limit (wl_withdrawal_approval_threshold l),
       wt_daily_withdrawal_limit := optional_limit (wl_daily_withdrawal_limit l)\<rparr>)"

definition expiry_of :: "expiry_policy option \<Rightarrow> expiry_policy" where
  "expiry_of p = (case p of None \<Rightarrow> ExpiryNone | Some e \<Rightarrow> e)"

definition requested_type :: "create_wallet_type_request \<Rightarrow> string \<Rightarrow> wallet_type" where
  "requested_type r x = \<lparr>wt_id = 0, wt_public_id = x, wt_product_id = None, wt_product_public_id = None,
     wt_scope = WalletScopePlatform, wt_code = ctr_code r, wt_name = ctr_name r, wt_currency = ctr_currency r,
     wt_fundable = ctr_fundable r, wt_grantable = ctr_grantable r, wt_withdrawable = ctr_withdrawable r,
     wt_transferable = ctr_transferable r, wt_refundable_to_source = ctr_refundable_to_source r,
     wt_allow_negative = ctr_allow_negative r, wt_expiry_policy = expiry_of (ctr_expiry_policy r), wt_expiry_days = None,
     wt_max_balance = None, wt_max_txn_amount = None, wt_daily_load_limit = None, wt_min_withdrawal_amount = None,
     wt_withdrawal_approval_threshold = None, wt_daily_withdrawal_limit = None, wt_status = WalletTypeActive,
     wt_withdrawable_approved_by = None, wt_withdrawable_approved_at = None, wt_withdrawable_approval_ref = None,
     wt_created_at = 0, wt_updated_at = 0\<rparr>"

definition expire_type :: "int \<Rightarrow> wallet_type \<Rightarrow> wallet_type" where
  "expire_type days t = (if wt_expiry_policy t = ExpiryNone then t else t\<lparr>wt_expiry_days := Some days\<rparr>)"

definition approve_type :: "caller option \<Rightarrow> string \<Rightarrow> int \<Rightarrow> wallet_type \<Rightarrow> wallet_type" where
  "approve_type who ref now t = (if \<not> wt_withdrawable t then t
     else t\<lparr>wt_withdrawable_approved_by := Some (user_id_of who), wt_withdrawable_approved_at := Some now,
       wt_withdrawable_approval_ref := Some ref\<rparr>)"

definition build_wallet_type :: "caller option \<Rightarrow> create_wallet_type_request \<Rightarrow> ('x ledger_scheme, wallet_type) action" where
  "build_wallet_type who r =
     bindM (new_id WalletTypeId) (\<lambda>x.
     bindM (if ctr_product_id r = [] then returnM (requested_type r x)
       else bindM (get_product_by_public_id (ctr_product_id r)) (\<lambda>p. returnM ((requested_type r x)\<lparr>wt_scope := WalletScopeProduct,
         wt_product_id := Some (pr_id p), wt_product_public_id := Some (pr_public_id p)\<rparr>))) (\<lambda>t.
     bindM (getM clock) (\<lambda>now.
     returnM (approve_type who (ctr_withdrawal_approval_ref r) now (limit_type (ctr_limits r) (expire_type (ctr_expiry_days r) t))))))"

definition rpc_create_wallet_type :: "wallet_type codec \<Rightarrow> message \<Rightarrow> caller option \<Rightarrow> create_wallet_type_request \<Rightarrow>
    ('x front_scheme, wallet_type) action" where
  "rpc_create_wallet_type codec m who r =
     bindM (guardM (require_platform_operator who ''openpay:wallet_types:write'')) (\<lambda>_.
     bindM (validate m) (\<lambda>_.
     bindM (guardM (check_wallet_capabilities r)) (\<lambda>_.
     bindM (if ctr_withdrawable r then guardM (require_operator who ''openpay:wallet_types:approve_withdrawal'') else returnM ()) (\<lambda>_.
     idempotent codec no_tx who (ms_print m ''CreateWalletType'') (\<lambda>c.
       bindM (build_wallet_type who r) (\<lambda>t.
       bindM (create_wallet_type t) (\<lambda>row.
       bindM (audit who ''wallet_type.created'' ''wallet_type'' (wt_public_id row) (wt_product_id row)) (\<lambda>_. returnM row))))))))"

definition rpc_get_wallet_type :: "message \<Rightarrow> caller option \<Rightarrow> string \<Rightarrow> ('x estate_scheme, wallet_type) action" where
  "rpc_get_wallet_type m who i =
     bindM (guardM (require_operator who ''openpay:wallet_types:read'')) (\<lambda>_.
     bindM (validate m) (\<lambda>_.
     bindM (caller_scope who) (\<lambda>scope.
     bindM (get_wallet_type_by_public_id i) (\<lambda>t.
     bindM (if wt_product_id t = None then returnM () else guardM (require_visible scope (wt_product_id t))) (\<lambda>_. returnM t)))))"

definition rpc_list_wallet_types :: "message \<Rightarrow> caller option \<Rightarrow> string \<Rightarrow> ('x estate_scheme, wallet_type list) action" where
  "rpc_list_wallet_types m who product =
     bindM (guardM (require_operator who ''openpay:wallet_types:read'')) (\<lambda>_.
     bindM (validate m) (\<lambda>_.
     bindM (caller_scope who) (\<lambda>scope.
     bindM (get_product_by_public_id product) (\<lambda>p.
     bindM (guardM (require_product_in_scope scope (pr_id p))) (\<lambda>_. list_wallet_types (pr_id p))))))"

record update_wallet_type_request =
  utr_id :: string
  utr_name :: string
  utr_archived :: bool
  utr_limits :: "wallet_limits option"

text \<open>The row sent to the UPDATE, which reads no more of it than what an update may change.\<close>

definition renamed_type :: "update_wallet_type_request \<Rightarrow> wallet_type \<Rightarrow> wallet_type" where
  "renamed_type r before = limit_type (utr_limits r) (before\<lparr>wt_public_id := utr_id r, wt_name := utr_name r,
     wt_status := (if utr_archived r then WalletTypeArchived else WalletTypeActive), wt_max_balance := None, wt_max_txn_amount := None,
     wt_daily_load_limit := None, wt_min_withdrawal_amount := None, wt_withdrawal_approval_threshold := None,
     wt_daily_withdrawal_limit := None\<rparr>)"

definition rpc_update_wallet_type :: "wallet_type codec \<Rightarrow> message \<Rightarrow> caller option \<Rightarrow> update_wallet_type_request \<Rightarrow>
    ('x front_scheme, wallet_type) action" where
  "rpc_update_wallet_type codec m who r =
     bindM (guardM (require_platform_operator who ''openpay:wallet_types:write'')) (\<lambda>_.
     bindM (validate m) (\<lambda>_.
     idempotent codec no_tx who (ms_print m ''UpdateWalletType'') (\<lambda>c.
       bindM (get_wallet_type_by_public_id (utr_id r)) (\<lambda>before.
       bindM (guardM (check_withdrawal_policy (wt_withdrawable before) (utr_limits r))) (\<lambda>_.
       bindM (update_wallet_type (renamed_type r before)) (\<lambda>t.
       bindM (audit who ''wallet_type.updated'' ''wallet_type'' (wt_public_id t) (wt_product_id t)) (\<lambda>_. returnM t)))))))"

section \<open>Customers (\<open>customer.go\<close>)\<close>

definition rpc_upsert_customer :: "message \<Rightarrow> caller option \<Rightarrow> string \<Rightarrow> ('x front_scheme, customer \<times> bool) action" where
  "rpc_upsert_customer m who ref =
     bindM (serviceM who) (\<lambda>_.
     bindM (validate m) (\<lambda>_.
     bindM (new_id CustomerId) (\<lambda>x.
     with_tx no_tx (\<lambda>c.
       bindM (upsert_customer \<lparr>cu_id = 0, cu_public_id = x, cu_external_ref = ref, cu_status = CustomerActive, cu_merged_into = None,
           cu_created_at = 0, cu_updated_at = 0\<rparr>) (\<lambda>(cust, created).
       if \<not> created then returnM (cust, created)
       else bindM (audit who ''customer.created'' ''customer'' (cu_public_id cust) None) (\<lambda>_. returnM (cust, created)))))))"

datatype customer_identifier = NoIdentifier | ById string | ByExternalRef string

definition rpc_get_customer :: "message \<Rightarrow> caller option \<Rightarrow> customer_identifier \<Rightarrow> ('x estate_scheme, customer) action" where
  "rpc_get_customer m who i =
     (if who = None then failM Unauthenticated
      else bindM (if is_service who then returnM () else guardM (require_operator who ''openpay:customers:read'')) (\<lambda>_.
      bindM (validate m) (\<lambda>_.
      case i of
        NoIdentifier \<Rightarrow> failM InvalidArgument
      | ById x \<Rightarrow> if cut_prefix ''cus_'' x \<noteq> None then get_customer_by_public_id x else get_customer_by_external_ref x
      | ByExternalRef x \<Rightarrow> get_customer_by_external_ref x)))"

section \<open>Credentials (\<open>credential.go\<close>, \<open>pkg/secrets\<close>)\<close>

text \<open>
  \<open>randomToken\<close>: the bytes drawn, or none when the source failed, in the URL alphabet of base64. The bytes of the
  secret are drawn before those of the key id.
\<close>

definition url_safe :: "char \<Rightarrow> char" where
  "url_safe c = (if c = CHR ''+'' then CHR ''-'' else if c = CHR ''/'' then CHR ''_'' else c)"

definition random_token :: "string option \<Rightarrow> code + string" where
  "random_token bytes = (case bytes of None \<Rightarrow> Inl Internal | Some b \<Rightarrow> Inr (map url_safe (base64_encode b)))"

record generated =
  ge_key_id :: string
  ge_secret :: string
  ge_secret_hash :: string

definition generate :: "(string \<Rightarrow> string) \<Rightarrow> string \<Rightarrow> string option \<Rightarrow> string option \<Rightarrow> code + generated" where
  "generate sha tag secret_bytes key_bytes = (case random_token secret_bytes of
     Inl e \<Rightarrow> Inl e
   | Inr secret \<Rightarrow> (case random_token key_bytes of
       Inl e \<Rightarrow> Inl e
     | Inr key \<Rightarrow> Inr \<lparr>ge_key_id = tag @ ''_'' @ key, ge_secret = secret, ge_secret_hash = hash_secret sha secret\<rparr>))"

record create_credential_request =
  ccr_product_id :: string
  ccr_name :: string

definition rpc_create_service_credential :: "(string \<Rightarrow> string) \<Rightarrow> string option \<Rightarrow> string option \<Rightarrow> message \<Rightarrow> caller option \<Rightarrow>
    create_credential_request \<Rightarrow> ('x front_scheme, service_credential \<times> string) action" where
  "rpc_create_service_credential sha secret_bytes key_bytes m who r =
     bindM (guardM (require_platform_operator who ''openpay:credentials:write'')) (\<lambda>_.
     bindM (validate m) (\<lambda>_.
     case generate sha ''opk'' secret_bytes key_bytes of Inl e \<Rightarrow> failM e
     | Inr g \<Rightarrow>
     bindM (new_id ServiceCredentialId) (\<lambda>x.
     bindM (with_tx no_tx (\<lambda>c.
       bindM (get_product_by_public_id (ccr_product_id r)) (\<lambda>p.
       bindM (create_credential \<lparr>sv_id = 0, sv_public_id = x, sv_product_id = pr_id p, sv_name = ccr_name r, sv_key_id = ge_key_id g,
           sv_secret_hash = ge_secret_hash g, sv_status = CredentialActive, sv_last_used_at = None, sv_revoked_at = None,
           sv_created_at = 0, sv_updated_at = 0\<rparr>) (\<lambda>row.
       bindM (audit who ''credential.created'' ''service_credential'' (sv_public_id row) (Some (pr_id p))) (\<lambda>_. returnM row))))) (\<lambda>row.
     returnM (row, ge_secret g)))))"

definition rpc_list_service_credentials :: "message \<Rightarrow> caller option \<Rightarrow> string \<Rightarrow> ('x office_scheme, service_credential list) action" where
  "rpc_list_service_credentials m who product =
     bindM (guardM (require_platform_operator who ''openpay:credentials:write'')) (\<lambda>_.
     bindM (validate m) (\<lambda>_.
     bindM (get_product_by_public_id product) (\<lambda>p. list_credentials (pr_id p))))"

definition rpc_revoke_service_credential :: "message \<Rightarrow> caller option \<Rightarrow> string \<Rightarrow> ('x front_scheme, unit) action" where
  "rpc_revoke_service_credential m who i =
     bindM (guardM (require_platform_operator who ''openpay:credentials:write'')) (\<lambda>_.
     bindM (validate m) (\<lambda>_.
     with_tx no_tx (\<lambda>c.
       bindM (revoke_credential i) (\<lambda>_.
       audit who ''credential.revoked'' ''service_credential'' i None))))"

end
