(* ===== verification/ServiceConsole.thy ===== *)
theory ServiceConsole
  imports ServiceAdmin
begin

text \<open>
  The handlers on providers (\<open>internal/service/provider.go\<close>) and reconciliation (\<open>recon.go\<close>), and the console's
  listings (\<open>console.go\<close>, \<open>me.go\<close>) with their queries (\<open>internal/repository/postgresql/console.go\<close>).
\<close>

section \<open>Providers (\<open>provider.go\<close>)\<close>

record provider_view =
  pvw_name :: string
  pvw_priority :: nat
  pvw_healthy :: bool
  pvw_failures :: int
  pvw_last_error :: string
  pvw_disabled :: bool
  pvw_forced :: bool
  pvw_reason :: string
  pvw_circuit_open_until :: "int option"

definition provider_status_of :: "registry \<Rightarrow> string \<Rightarrow> nat \<Rightarrow> control \<Rightarrow> provider_view" where
  "provider_status_of reg name priority c = (let h = fst (registry_health reg name) in
     \<lparr>pvw_name = name, pvw_priority = priority, pvw_healthy = he_healthy h, pvw_failures = he_failures h,
      pvw_last_error = he_last_error h, pvw_disabled = ct_disabled c, pvw_forced = ct_forced c, pvw_reason = ct_reason c,
      pvw_circuit_open_until = (if he_open_until h \<noteq> 0 \<and> \<not> he_healthy h then Some (he_open_until h) else None)\<rparr>)"

definition rpc_list_providers :: "'x front_scheme service \<Rightarrow> caller option \<Rightarrow> ('x front_scheme, provider_view list) action" where
  "rpc_list_providers sv who =
     bindM (guardM (require_platform_operator who ''openpay:providers:read'')) (\<lambda>_.
     bindM list_provider_controls (\<lambda>cs.
     let names = registry_names (svc_registry sv)
     in returnM (map (\<lambda>(i, name). provider_status_of (svc_registry sv) name (i + 1) (control_of cs name))
          (enumerate 0 names))))"

datatype provider_override = OverrideUnknown | OverrideNone | OverrideDisabled | OverrideForced

fun override_control :: "provider_override \<Rightarrow> string \<Rightarrow> control option" where
  "override_control OverrideUnknown reason = None"
| "override_control OverrideNone reason = Some \<lparr>ct_disabled = False, ct_forced = False, ct_reason = reason\<rparr>"
| "override_control OverrideDisabled reason = Some \<lparr>ct_disabled = True, ct_forced = False, ct_reason = reason\<rparr>"
| "override_control OverrideForced reason = Some \<lparr>ct_disabled = False, ct_forced = True, ct_reason = reason\<rparr>"

text \<open>The place of the last entry of that name, from 1; 0 when there is none.\<close>

fun priority_of :: "string \<Rightarrow> (nat \<times> string) list \<Rightarrow> nat \<Rightarrow> nat" where
  "priority_of name [] found = found"
| "priority_of name ((i, n) # rest) found = priority_of name rest (if n = name then i + 1 else found)"

definition rpc_set_provider_override :: "'x front_scheme service \<Rightarrow> message \<Rightarrow> caller option \<Rightarrow> string \<Rightarrow> provider_override \<Rightarrow> string \<Rightarrow>
    ('x front_scheme, provider_view) action" where
  "rpc_set_provider_override sv m who name override reason =
     bindM (guardM (require_platform_operator who ''openpay:providers:manage'')) (\<lambda>_.
     bindM (validate m) (\<lambda>_.
     case registry_get (svc_registry sv) name of Inl e \<Rightarrow> errM e
     | Inr _ \<Rightarrow> (case override_control override reason of None \<Rightarrow> failM InvalidArgument
       | Some ct \<Rightarrow> bindM (with_tx no_tx (\<lambda>c.
           bindM (set_provider_control c name ct) (\<lambda>_. audit who ''provider.override_set'' ''provider'' name None))) (\<lambda>_.
         returnM (provider_status_of (svc_registry sv) name
           (priority_of name (enumerate 0 (registry_names (svc_registry sv))) 0) ct)))))"

section \<open>Reconciliation (\<open>recon.go\<close>)\<close>

definition rpc_list_settlements :: "message \<Rightarrow> caller option \<Rightarrow> string \<Rightarrow> int \<Rightarrow> ('x clearing_scheme, settlement list) action" where
  "rpc_list_settlements m who name limit =
     bindM (guardM (require_platform_operator who ''openpay:recon:read'')) (\<lambda>_.
     bindM (validate m) (\<lambda>_. list_settlements name (or_default 20 limit)))"

record settlement_view =
  stv_settlement :: settlement
  stv_by_product :: "(string \<times> product_share) list"
  stv_lines :: "(string \<times> settlement_line) list"

text \<open>A share's product by its public id, dereferenced, and empty for the share of no product.\<close>

definition share_view :: "product_share \<Rightarrow> ('s, string \<times> product_share) action" where
  "share_view sh = (case sh_product_id sh of None \<Rightarrow> returnM ([], sh)
   | Some _ \<Rightarrow> (case sh_product_public_id sh of None \<Rightarrow> panicM | Some x \<Rightarrow> returnM (x, sh)))"

definition share_product :: "(string \<times> product_share) list \<Rightarrow> int option \<Rightarrow> string" where
  "share_product shares pid = (case pid of None \<Rightarrow> []
   | Some _ \<Rightarrow> (case List.find (\<lambda>(x, sh). sh_product_id sh = pid) (rev shares) of None \<Rightarrow> [] | Some (x, sh) \<Rightarrow> x))"

definition rpc_get_settlement :: "message \<Rightarrow> caller option \<Rightarrow> string \<Rightarrow> ('x clearing_scheme, settlement_view) action" where
  "rpc_get_settlement m who i =
     bindM (guardM (require_platform_operator who ''openpay:recon:read'')) (\<lambda>_.
     bindM (validate m) (\<lambda>_.
     bindM (get_settlement_by_public_id i) (\<lambda>st.
     bindM (list_settlement_items (st_id st)) (\<lambda>items.
     bindM (settlement_by_product (st_id st)) (\<lambda>shares.
     bindM (map_m share_view shares) (\<lambda>views.
     returnM \<lparr>stv_settlement = st, stv_by_product = views,
       stv_lines = map (\<lambda>l. (share_product views (sl_product_id l), l)) items\<rparr>))))))"

record break_view =
  bkv_break :: recon_break
  bkv_payment_id :: string
  bkv_product_id :: string

definition to_proto_break :: "recon_break \<Rightarrow> ('x clearing_scheme, break_view) action" where
  "to_proto_break b = (case rb_payment_id b of
     Some i \<Rightarrow> bindM (get_payment_by_id i) (\<lambda>p.
       returnM \<lparr>bkv_break = b, bkv_payment_id = pm_public_id p, bkv_product_id = pm_product_public_id p\<rparr>)
   | None \<Rightarrow> (case rb_product_id b of
       Some i \<Rightarrow> bindM (get_product_by_id i) (\<lambda>p. returnM \<lparr>bkv_break = b, bkv_payment_id = [], bkv_product_id = pr_public_id p\<rparr>)
     | None \<Rightarrow> returnM \<lparr>bkv_break = b, bkv_payment_id = [], bkv_product_id = []\<rparr>))"

definition rpc_list_recon_breaks :: "message \<Rightarrow> caller option \<Rightarrow> break_status option \<Rightarrow> int \<Rightarrow> ('x clearing_scheme, break_view list) action" where
  "rpc_list_recon_breaks m who status limit =
     bindM (guardM (require_platform_operator who ''openpay:recon:read'')) (\<lambda>_.
     bindM (validate m) (\<lambda>_.
     bindM (list_breaks (Some all_products) status (or_default 50 limit)) (map_m to_proto_break)))"

datatype break_action = ActionUnknown | ActionResolve | ActionForceMatch | ActionWriteOff

fun break_status_string :: "break_status \<Rightarrow> string" where
  "break_status_string BreakOpen = ''open''"
| "break_status_string BreakResolved = ''resolved''"
| "break_status_string BreakForceMatched = ''force_matched''"
| "break_status_string BreakWrittenOff = ''written_off''"

record resolve_break_request =
  rbr_id :: string
  rbr_action :: break_action
  rbr_reason_code :: string
  rbr_note :: string
  rbr_payment_id :: string

definition break_resolution :: "caller option \<Rightarrow> resolve_break_request \<Rightarrow> resolution" where
  "break_resolution who r = \<lparr>rn_break_id = rbr_id r, rn_reason_code = rbr_reason_code r, rn_note = rbr_note r,
     rn_by = user_id_of who, rn_payment_id = rbr_payment_id r\<rparr>"

definition settle_break :: "'x front_scheme service \<Rightarrow> ctx \<Rightarrow> break_action \<Rightarrow> resolution \<Rightarrow> ('x front_scheme, recon_break) action" where
  "settle_break sv c act r = (case act of
     ActionResolve \<Rightarrow> resolve_break c r
   | ActionForceMatch \<Rightarrow> force_match (svc_recon sv) c r
   | ActionWriteOff \<Rightarrow> write_off c r
   | ActionUnknown \<Rightarrow> failM InvalidArgument)"

definition rpc_resolve_recon_break :: "'x front_scheme service \<Rightarrow> message \<Rightarrow> caller option \<Rightarrow> resolve_break_request \<Rightarrow>
    ('x front_scheme, break_view) action" where
  "rpc_resolve_recon_break sv m who r =
     bindM (guardM (require_platform_operator who ''openpay:recon:manage'')) (\<lambda>_.
     bindM (validate m) (\<lambda>_.
     bindM (with_tx no_tx (\<lambda>c.
       bindM (settle_break sv c (rbr_action r) (break_resolution who r)) (\<lambda>b.
       bindM (audit who (''recon_break.'' @ break_status_string (rb_status b)) ''recon_break'' (rb_public_id b) (rb_product_id b)) (\<lambda>_.
       returnM b)))) to_proto_break))"

definition rpc_get_recon_summary :: "'x front_scheme service \<Rightarrow> caller option \<Rightarrow> ('x front_scheme, recon_summary) action" where
  "rpc_get_recon_summary sv who =
     bindM (guardM (require_platform_operator who ''openpay:recon:read'')) (\<lambda>_.
     summarize (svc_recon sv) (al_aged_after (alert_with_defaults (svc_alerts sv))))"

definition rpc_run_recon_cycle :: "'x front_scheme service \<Rightarrow> caller option \<Rightarrow> ('x front_scheme, recon_summary) action" where
  "rpc_run_recon_cycle sv who =
     bindM (guardM (require_platform_operator who ''openpay:recon:manage'')) (\<lambda>_. cycle (svc_recon sv) no_tx (svc_alerts sv))"

text \<open>A product's public id, what it charged, what it cost, and the difference.\<close>

definition rpc_get_fee_variance :: "message \<Rightarrow> caller option \<Rightarrow> int \<Rightarrow> int \<Rightarrow> ('x clearing_scheme, (string \<times> int \<times> int \<times> int) list) action" where
  "rpc_get_fee_variance m who t0 t1 =
     bindM (guardM (require_platform_operator who ''openpay:recon:read'')) (\<lambda>_.
     bindM (validate m) (\<lambda>_.
     bindM (fee_variance t0 t1) (\<lambda>ls.
     returnM (map (\<lambda>l. (fv_product_public_id l, fv_charged l, fv_cost l, wrap64 (fv_charged l - fv_cost l))) ls))))"

section \<open>The console's identity (\<open>me.go\<close>)\<close>

definition rpc_get_me :: "caller option \<Rightarrow> ('x ledger_scheme, string \<times> string list \<times> bool \<times> product list) action" where
  "rpc_get_me who = (case who of
     None \<Rightarrow> failM PermissionDenied
   | Some c \<Rightarrow> if ca_kind c \<noteq> KindOperator then failM PermissionDenied
       else bindM (caller_scope who) (\<lambda>scope.
         bindM (list_products \<lparr>pl_limit = max_page_size, pl_offset = 0, pl_search = [], pl_status = None, pl_scope = Some scope\<rparr>) (\<lambda>(ps, _).
         returnM (ca_user_id c, ca_permissions c, fst (operator_scope c), ps))))"

section \<open>Listings across the estate (\<open>console.go\<close>)\<close>

record order_filter =
  ofl_limit :: int
  ofl_offset :: int
  ofl_product_id :: "int option"
  ofl_customer_id :: "int option"
  ofl_status :: "order_status option"
  ofl_scope :: "product_scope option"

definition list_orders :: "order_filter \<Rightarrow> ('x shop_scheme, order_row list \<times> nat) action" where
  "list_orders f = (case scope_condition (ofl_scope f) of
     Inl e \<Rightarrow> failM e
   | Inr cond \<Rightarrow> getM (\<lambda>s. let hits = filter (\<lambda>x. cond (Some (od_product_id x)) \<and>
         (case ofl_product_id f of None \<Rightarrow> True | Some i \<Rightarrow> od_product_id x = i) \<and>
         (case ofl_customer_id f of None \<Rightarrow> True | Some i \<Rightarrow> od_customer_id x = Some i) \<and>
         (case ofl_status f of None \<Rightarrow> True | Some st \<Rightarrow> od_status x = st)) (orders s)
       in case page (ofl_limit f) (ofl_offset f) of (limit, offset) \<Rightarrow>
         (take limit (drop offset (List.map_filter (read_order s) (rev hits))), length hits)))"

record list_orders_request =
  lor_limit :: int
  lor_offset :: int
  lor_product_id :: string
  lor_customer_id :: string
  lor_status :: "order_status option"

definition rpc_list_orders :: "message \<Rightarrow> caller option \<Rightarrow> list_orders_request \<Rightarrow> ('x shop_scheme, order_row list \<times> nat) action" where
  "rpc_list_orders m who r =
     bindM (guardM (require_operator who ''openpay:payments:read'')) (\<lambda>_.
     bindM (validate m) (\<lambda>_.
     bindM (caller_scope who) (\<lambda>scope.
     bindM (scoped_product_filter scope (lor_product_id r)) (\<lambda>pid.
     bindM (customer_filter (lor_customer_id r)) (\<lambda>cid.
     list_orders \<lparr>ofl_limit = lor_limit r, ofl_offset = lor_offset r, ofl_product_id = pid, ofl_customer_id = cid,
       ofl_status = lor_status r, ofl_scope = Some scope\<rparr>)))))"

record refund_filter =
  rfl_limit :: int
  rfl_offset :: int
  rfl_product_id :: "int option"
  rfl_status :: "refund_status option"
  rfl_scope :: "product_scope option"

definition search_refunds :: "refund_filter \<Rightarrow> ('x till_scheme, refund list \<times> nat) action" where
  "search_refunds f = (case scope_condition (rfl_scope f) of
     Inl e \<Rightarrow> failM e
   | Inr cond \<Rightarrow> getM (\<lambda>s. let hits = filter (\<lambda>x. cond (Some (rf_product_id x)) \<and>
         (case rfl_product_id f of None \<Rightarrow> True | Some i \<Rightarrow> rf_product_id x = i) \<and>
         (case rfl_status f of None \<Rightarrow> True | Some st \<Rightarrow> rf_status x = st)) (refunds s)
       in case page (rfl_limit f) (rfl_offset f) of (limit, offset) \<Rightarrow>
         (take limit (drop offset (List.map_filter (read_refund s) (rev hits))), length hits)))"

record search_refunds_request =
  srr_limit :: int
  srr_offset :: int
  srr_product_id :: string
  srr_status :: "refund_status option"

definition rpc_search_refunds :: "message \<Rightarrow> caller option \<Rightarrow> search_refunds_request \<Rightarrow> ('x till_scheme, refund list \<times> nat) action" where
  "rpc_search_refunds m who r =
     bindM (guardM (require_operator who ''openpay:payments:read'')) (\<lambda>_.
     bindM (validate m) (\<lambda>_.
     bindM (caller_scope who) (\<lambda>scope.
     bindM (scoped_product_filter scope (srr_product_id r)) (\<lambda>pid.
     search_refunds \<lparr>rfl_limit = srr_limit r, rfl_offset = srr_offset r, rfl_product_id = pid, rfl_status = srr_status r,
       rfl_scope = Some scope\<rparr>))))"

subsection \<open>The audit log\<close>

record audit_filter =
  aul_resource_type :: string
  aul_resource_id :: string
  aul_actor_id :: string
  aul_limit :: int
  aul_before_id :: int
  aul_scope :: "product_scope option"

text \<open>\<open>WithDefaults\<close>: the page size bounded.\<close>

definition audit_defaults :: "audit_filter \<Rightarrow> audit_filter" where
  "audit_defaults f = f\<lparr>aul_limit := int (fst (page (aul_limit f) 0))\<rparr>"

definition audit_matches :: "audit_filter \<Rightarrow> (int option \<Rightarrow> bool) \<Rightarrow> audit_entry \<Rightarrow> bool" where
  "audit_matches f cond e \<longleftrightarrow> cond (au_product_id e) \<and>
     (aul_resource_type f \<noteq> [] \<longrightarrow> au_resource_type e = aul_resource_type f) \<and>
     (aul_resource_id f \<noteq> [] \<longrightarrow> au_resource_id e = aul_resource_id f) \<and>
     (aul_actor_id f \<noteq> [] \<longrightarrow> au_actor_id e = aul_actor_id f) \<and>
     (0 < aul_before_id f \<longrightarrow> au_id e < aul_before_id f)"

definition list_audit_log :: "audit_filter \<Rightarrow> ('x front_scheme, audit_entry list) action" where
  "list_audit_log f0 = (let f = audit_defaults f0 in case scope_condition (aul_scope f) of
     Inl e \<Rightarrow> failM e
   | Inr cond \<Rightarrow> getM (\<lambda>s. take (nat (aul_limit f)) (rev (filter (audit_matches f cond) (audit_log s)))))"

record list_audit_request =
  lau_resource_type :: string
  lau_resource_id :: string
  lau_actor_id :: string
  lau_limit :: int
  lau_cursor :: string

text \<open>One row more than the page says whether an older page exists. An entry is shown with the public id of its product.\<close>

definition rpc_list_audit_log :: "message \<Rightarrow> caller option \<Rightarrow> list_audit_request \<Rightarrow>
    ('x front_scheme, (audit_entry \<times> string option) list \<times> string) action" where
  "rpc_list_audit_log m who r =
     bindM (guardM (require_operator who ''openpay:audit:read'')) (\<lambda>_.
     bindM (validate m) (\<lambda>_.
     bindM (caller_scope who) (\<lambda>scope.
     case cursor_before (lau_cursor r) of None \<Rightarrow> failM InvalidArgument
     | Some before \<Rightarrow>
       let f = audit_defaults \<lparr>aul_resource_type = lau_resource_type r, aul_resource_id = lau_resource_id r,
         aul_actor_id = lau_actor_id r, aul_limit = lau_limit r, aul_before_id = before, aul_scope = Some scope\<rparr>;
         n = nat (aul_limit f)
       in bindM (list_audit_log (f\<lparr>aul_limit := aul_limit f + 1\<rparr>)) (\<lambda>es.
          bindM (getM (\<lambda>s e. (e, product_public s (au_product_id e)))) (\<lambda>named.
          if n < length es then returnM (map named (take n es), int_digits (au_id (es ! (n - 1))))
          else returnM (map named es, []))))))"

end
