(* ===== verification/ServiceReport.thy ===== *)
theory ServiceReport
  imports ServiceConsole
begin

text \<open>
  The reports: \<open>internal/service/report.go\<close> and its queries (\<open>internal/repository/postgresql/report.go\<close>,
  \<open>internal/models/dao/report.go\<close>), and the operational figures read on a schedule
  (\<open>internal/opsmetrics\<close>), without the OpenTelemetry gauges they are published on.

  An export is the text of its CSV file; the header that names the file is left to the transport. White space is
  that of ASCII. The theorem: an export has every posting of its period, or is refused.
\<close>

section \<open>Profit and loss\<close>

record pnl_line =
  pnl_product_id :: int
  pnl_product_public_id :: string
  pnl_product_code :: string
  pnl_currency :: string
  pnl_account_code :: string
  pnl_type :: account_type
  pnl_amount :: int

definition in_period :: "int \<Rightarrow> int \<Rightarrow> int \<Rightarrow> bool" where
  "in_period t0 t1 t \<longleftrightarrow> t0 \<le> t \<and> t < t1"

definition moved :: "'x ledger_scheme \<Rightarrow> int \<Rightarrow> int \<Rightarrow> ledger_account \<Rightarrow> int" where
  "moved s t0 t1 a = sum_by (\<lambda>p. po_direction p * po_amount p)
     (\<lambda>p. po_account_id p = la_id a \<and> in_period t0 t1 (po_created_at p)) (postings s)"

definition pnl_line_of :: "'x ledger_scheme \<Rightarrow> int \<Rightarrow> int \<Rightarrow> ledger_account \<Rightarrow> pnl_line option" where
  "pnl_line_of s t0 t1 a = (case la_product_id a of None \<Rightarrow> None
   | Some i \<Rightarrow> map_option (\<lambda>p. \<lparr>pnl_product_id = pr_id p, pnl_product_public_id = pr_public_id p, pnl_product_code = pr_code p,
       pnl_currency = la_currency a, pnl_account_code = la_code a, pnl_type = la_type a,
       pnl_amount = moved s t0 t1 a * (if la_type a = AccountIncome then -1 else 1)\<rparr>) (find_row pr_id i (products s)))"

definition product_pnl_lines :: "product_scope \<Rightarrow> int \<Rightarrow> int \<Rightarrow> ('x ledger_scheme, pnl_line list) action" where
  "product_pnl_lines scope t0 t1 = (case scope_condition (Some scope) of
     Inl e \<Rightarrow> failM e
   | Inr cond \<Rightarrow> bindM (getM (\<lambda>s. sort_key pnl_product_id (sort_key pnl_currency
       (sort_key (\<lambda>l. if pnl_type l = AccountIncome then 0 else 1 :: nat) (sort_key pnl_account_code
         (List.map_filter (pnl_line_of s t0 t1) (filter (\<lambda>a. la_type a \<in> {AccountIncome, AccountExpense} \<and> cond (la_product_id a))
           (accounts s)))))))) (\<lambda>ls.
     if list_all (\<lambda>l. in64 (pnl_amount l)) ls then returnM ls else failM Internal))"

record product_pnl =
  ppl_product_id :: string
  ppl_product_code :: string
  ppl_currency :: string
  ppl_lines :: "pnl_line list"
  ppl_income :: int
  ppl_expense :: int
  ppl_net :: int

definition new_pnl :: "pnl_line \<Rightarrow> product_pnl" where
  "new_pnl l = \<lparr>ppl_product_id = pnl_product_public_id l, ppl_product_code = pnl_product_code l, ppl_currency = pnl_currency l,
     ppl_lines = [], ppl_income = 0, ppl_expense = 0, ppl_net = 0\<rparr>"

definition add_pnl :: "pnl_line \<Rightarrow> product_pnl \<Rightarrow> product_pnl" where
  "add_pnl l r = (let income = (if pnl_type l = AccountIncome then wrap64 (ppl_income r + pnl_amount l) else ppl_income r);
       expense = (if pnl_type l = AccountIncome then ppl_expense r else wrap64 (ppl_expense r + pnl_amount l))
     in r\<lparr>ppl_lines := ppl_lines r @ [l], ppl_income := income, ppl_expense := expense, ppl_net := wrap64 (income - expense)\<rparr>)"

text \<open>The lines arrive ordered by product and currency: a run of them is one report. The current one is at the head.\<close>

fun collect_pnl :: "product_pnl list \<Rightarrow> pnl_line list \<Rightarrow> product_pnl list" where
  "collect_pnl done [] = rev done"
| "collect_pnl done (l # ls) = (case done of
     [] \<Rightarrow> collect_pnl [add_pnl l (new_pnl l)] ls
   | r # rs \<Rightarrow> if ppl_product_id r \<noteq> pnl_product_public_id l \<or> ppl_currency r \<noteq> pnl_currency l
       then collect_pnl (add_pnl l (new_pnl l) # r # rs) ls
       else collect_pnl (add_pnl l r # rs) ls)"

definition report_scope :: "caller option \<Rightarrow> string \<Rightarrow> ('x ledger_scheme, product_scope) action" where
  "report_scope who product =
     bindM (caller_scope who) (\<lambda>scope.
     if product = [] then returnM scope
     else bindM (get_product_by_public_id product) (\<lambda>p.
       bindM (guardM (require_product_in_scope scope (pr_id p))) (\<lambda>_. returnM (only_products [pr_id p]))))"

definition period :: "int \<Rightarrow> int \<Rightarrow> ('s, unit) action" where
  "period t0 t1 = (if \<not> t0 < t1 then failM InvalidArgument else returnM ())"

definition rpc_get_product_pnl :: "message \<Rightarrow> caller option \<Rightarrow> int \<Rightarrow> int \<Rightarrow> string \<Rightarrow> ('x ledger_scheme, product_pnl list) action" where
  "rpc_get_product_pnl m who t0 t1 product =
     bindM (guardM (require_operator who ''openpay:ledger:read'')) (\<lambda>_.
     bindM (validate m) (\<lambda>_.
     bindM (period t0 t1) (\<lambda>_.
     bindM (report_scope who product) (\<lambda>scope.
     bindM (product_pnl_lines scope t0 t1) (\<lambda>ls. returnM (collect_pnl [] ls))))))"

section \<open>Providers\<close>

record provider_stats =
  pst_provider :: string
  pst_attempts :: int
  pst_captured :: int
  pst_failed :: int
  pst_expired :: int
  pst_cancelled :: int
  pst_open :: int
  pst_captured_amount :: int
  pst_top_failures :: "(string \<times> int) list"

definition top_failures :: nat where
  "top_failures = 5"

text \<open>The attempts of the period with their payments, in scope.\<close>

definition attempts_in :: "'x till_scheme \<Rightarrow> (int option \<Rightarrow> bool) \<Rightarrow> int \<Rightarrow> int \<Rightarrow> (payment_attempt \<times> payment) list" where
  "attempts_in s cond t0 t1 = List.map_filter (\<lambda>a. case find_row pm_id (pa_payment_id a) (payments s) of None \<Rightarrow> None
     | Some p \<Rightarrow> if in_period t0 t1 (pa_created_at a) \<and> cond (Some (pm_product_id p)) then Some (a, p) else None) (attempts s)"

definition count_if :: "('a \<Rightarrow> bool) \<Rightarrow> 'a list \<Rightarrow> int" where
  "count_if P xs = int (length (filter P xs))"

definition failure_code_of :: "payment_attempt \<Rightarrow> string" where
  "failure_code_of a = (case pa_failure_code a of None \<Rightarrow> ''unknown'' | Some x \<Rightarrow> if x = [] then ''unknown'' else x)"

definition failure_counts :: "payment_attempt list \<Rightarrow> (string \<times> int) list" where
  "failure_counts as = (let codes = map failure_code_of (filter (\<lambda>a. pa_status a = StatusFailed) as)
     in sort_key (\<lambda>(x, n). - n) (map (\<lambda>x. (x, count_if (\<lambda>y. y = x) codes)) (sort (remdups codes))))"

definition stats_of :: "(payment_attempt \<times> payment) list \<Rightarrow> string \<Rightarrow> provider_stats" where
  "stats_of aps name = (let mine = filter (\<lambda>(a, p). pa_provider a = name) aps; as = map fst mine in
     \<lparr>pst_provider = name, pst_attempts = int (length mine),
      pst_captured = count_if (\<lambda>a. pa_status a = StatusCaptured) as,
      pst_failed = count_if (\<lambda>a. pa_status a = StatusFailed) as,
      pst_expired = count_if (\<lambda>a. pa_status a = StatusOther ''expired'') as,
      pst_cancelled = count_if (\<lambda>a. pa_status a = StatusCancelled) as,
      pst_open = count_if (\<lambda>a. pa_status a \<in> {StatusCreated, StatusPending, StatusAuthorized}) as,
      pst_captured_amount = sum_list (map (\<lambda>(a, p). case pm_captured_amount p of None \<Rightarrow> 0 | Some n \<Rightarrow> n)
        (filter (\<lambda>(a, p). pa_status a = StatusCaptured) mine)),
      pst_top_failures = take top_failures (failure_counts as)\<rparr>)"

definition provider_stats_in :: "product_scope \<Rightarrow> int \<Rightarrow> int \<Rightarrow> ('x till_scheme, provider_stats list) action" where
  "provider_stats_in scope t0 t1 = (case scope_condition (Some scope) of
     Inl e \<Rightarrow> failM e
   | Inr cond \<Rightarrow> bindM (getM (\<lambda>s. let aps = attempts_in s cond t0 t1
       in map (stats_of aps) (sort (remdups (map (\<lambda>(a, p). pa_provider a) aps))))) (\<lambda>sts.
     if list_all (\<lambda>x. in64 (pst_captured_amount x)) sts then returnM sts else failM Internal))"

text \<open>Captured over finished attempts in basis points; none when nothing finished.\<close>

definition success_rate_bps :: "provider_stats \<Rightarrow> int option" where
  "success_rate_bps x = (let finished = pst_attempts x - pst_open x
     in if finished \<le> 0 then None else Some (wrap64 (pst_captured x * 10000) sdiv finished))"

text \<open>Go's conversion to an int32.\<close>

definition wrap32 :: "int \<Rightarrow> int" where
  "wrap32 x = (x + 2 ^ 31) mod 2 ^ 32 - 2 ^ 31"

definition rpc_get_provider_stats :: "message \<Rightarrow> caller option \<Rightarrow> int \<Rightarrow> int \<Rightarrow> string \<Rightarrow> ('x till_scheme, (provider_stats \<times> int) list) action" where
  "rpc_get_provider_stats m who t0 t1 product =
     bindM (guardM (require_operator who ''openpay:payments:read'')) (\<lambda>_.
     bindM (validate m) (\<lambda>_.
     bindM (period t0 t1) (\<lambda>_.
     bindM (report_scope who product) (\<lambda>scope.
     bindM (provider_stats_in scope t0 t1) (\<lambda>sts.
     returnM (map (\<lambda>x. (x, wrap32 (case success_rate_bps x of None \<Rightarrow> 0 | Some r \<Rightarrow> r))) sts))))))"

section \<open>Operational figures (\<open>opsmetrics.go\<close>)\<close>

record ops_snapshot =
  ops_stuck_payments :: nat
  ops_event_backlog :: nat
  ops_oldest_event :: "int option"
  ops_overdue_holds :: nat

definition ops_snapshot_at :: "int \<Rightarrow> int \<Rightarrow> ('x till_scheme, ops_snapshot) action" where
  "ops_snapshot_at open_before holds_before = getM (\<lambda>s.
     let waiting = filter (\<lambda>e. pe_processed_at e = None) (provider_events s) in
     \<lparr>ops_stuck_payments = length (filter (\<lambda>p. is_open (pm_status p) \<and> pm_created_at p < open_before) (payments s)),
      ops_event_backlog = length waiting,
      ops_oldest_event = (case map pe_received_at waiting of [] \<Rightarrow> None | t # ts \<Rightarrow> Some (fold min ts t)),
      ops_overdue_holds = length (filter (\<lambda>h. ho_status h = HoldActive \<and> ho_expires_at h < holds_before) (holds s))\<rparr>)"

record ops_config =
  opc_window :: int
  opc_stuck_after :: int
  opc_hold_grace :: int

definition ops_with_defaults :: "ops_config \<Rightarrow> ops_config" where
  "ops_with_defaults c = \<lparr>opc_window = (if opc_window c \<le> 0 then 15 * 60 else opc_window c),
     opc_stuck_after = (if opc_stuck_after c \<le> 0 then 40 * 60 else opc_stuck_after c),
     opc_hold_grace = (if opc_hold_grace c \<le> 0 then 5 * 60 else opc_hold_grace c)\<rparr>"

record ops_reading =
  opr_snapshot :: ops_snapshot
  opr_oldest_event_age :: int
  opr_providers :: "provider_stats list"

definition collect_ops :: "ops_config \<Rightarrow> int \<Rightarrow> ('x till_scheme, ops_reading) action" where
  "collect_ops cfg0 now = (let cfg = ops_with_defaults cfg0 in
     bindM (ops_snapshot_at (now - opc_stuck_after cfg) (now - opc_hold_grace cfg)) (\<lambda>snap.
     bindM (provider_stats_in all_products (now - opc_window cfg) now) (\<lambda>sts.
     returnM \<lparr>opr_snapshot = snap,
       opr_oldest_event_age = (case ops_oldest_event snap of None \<Rightarrow> 0 | Some t \<Rightarrow> max (now - t) 0), opr_providers = sts\<rparr>)))"

section \<open>Exports\<close>

definition max_export_rows :: nat where
  "max_export_rows = 50000"

definition export_page :: nat where
  "export_page = 1000"

definition list_statement_range :: "int \<Rightarrow> int \<Rightarrow> int \<Rightarrow> int \<Rightarrow> nat \<Rightarrow> ('x ledger_scheme, statement_entry list) action" where
  "list_statement_range account t0 t1 after limit = getM (\<lambda>s. take limit (List.map_filter (statement_entry_of s)
     (sort_key po_id (filter (\<lambda>p. po_account_id p = account \<and> in_period t0 t1 (po_created_at p) \<and> after < po_id p) (postings s)))))"

text \<open>A cell a spreadsheet would run as a formula is quoted.\<close>

definition csv_text :: "string \<Rightarrow> string" where
  "csv_text v = (case v of [] \<Rightarrow> v | c # _ \<Rightarrow> if c \<in> set ''=+-@'' \<union> {CHR 0x09, CHR 0x0D} then CHR 0x27 # v else v)"

definition decimal_text :: "int \<Rightarrow> string \<Rightarrow> string" where
  "decimal_text n cur = (case new_amount n cur of None \<Rightarrow> int_digits n | Some a \<Rightarrow> decimal a)"

text \<open>\<open>encoding/csv\<close>'s writer: which fields are quoted, and how.\<close>

definition needs_quotes :: "string \<Rightarrow> bool" where
  "needs_quotes f \<longleftrightarrow> f \<noteq> [] \<and> (f = [CHR 0x5C, CHR ''.''] \<or> set f \<inter> {CHR '','', CHR 0x22, CHR 0x0D, CHR 0x0A} \<noteq> {} \<or> is_space (hd f))"

definition quote_field :: "string \<Rightarrow> string" where
  "quote_field f = (if needs_quotes f then [CHR 0x22] @ concat (map (\<lambda>c. if c = CHR 0x22 then [c, c] else [c]) f) @ [CHR 0x22] else f)"

definition csv_record :: "string list \<Rightarrow> string" where
  "csv_record fs = join_with '','' (map quote_field fs) @ [CHR 0x0A]"

definition export_header :: "string list" where
  "export_header = [''posted_at'', ''journal_id'', ''external_id'', ''kind'', ''memo'', ''direction'',
     ''amount_minor'', ''change_minor'', ''balance_after_minor'', ''change'', ''balance_after'', ''currency'']"

definition export_row :: "(int \<Rightarrow> string) \<Rightarrow> int \<Rightarrow> statement_entry \<Rightarrow> string list" where
  "export_row rfc3339 sign e = (let p = sy_posting e; change = wrap64 (signed p * sign); bal = wrap64 (po_balance_after p * sign) in
     [rfc3339 (sy_journal_posted_at e), sy_journal_public_id e, csv_text (sy_journal_external_id e),
      journal_kind_string (sy_journal_kind e), csv_text (sy_journal_memo e), direction_string (po_direction p),
      int_digits (po_amount p), int_digits change, int_digits bal, decimal_text change (po_currency p),
      decimal_text bal (po_currency p), po_currency p])"

text \<open>The rows of one page, counted; more of them than the cap ends the export.\<close>

definition export_rows :: "(int \<Rightarrow> string) \<Rightarrow> int \<Rightarrow> nat \<Rightarrow> statement_entry list \<Rightarrow> code + string" where
  "export_rows rfc3339 sign rows es = (if max_export_rows < rows + length es then Inl FailedPrecondition
     else Inr (concat (map (\<lambda>e. csv_record (export_row rfc3339 sign e)) es)))"

text \<open>
  The loop over the pages: a page shorter than asked for is the last one. It takes at most a page for each
  \<open>export_page\<close> rows below the cap and one more, the fuel it starts with.
\<close>

fun export_pages :: "nat \<Rightarrow> (int \<Rightarrow> string) \<Rightarrow> int \<Rightarrow> int \<Rightarrow> int \<Rightarrow> int \<Rightarrow> int \<Rightarrow> nat \<Rightarrow> ('x ledger_scheme, string) action" where
  "export_pages 0 rfc3339 account sign t0 t1 after rows = panicM"
| "export_pages (Suc fuel) rfc3339 account sign t0 t1 after rows =
     bindM (list_statement_range account t0 t1 after export_page) (\<lambda>es.
     case export_rows rfc3339 sign rows es of Inl e \<Rightarrow> failM e
     | Inr text \<Rightarrow>
       if length es < export_page then returnM text
       else bindM (export_pages fuel rfc3339 account sign t0 t1 (po_id (sy_posting (last es))) (rows + length es)) (\<lambda>rest.
         returnM (text @ rest)))"

definition export_statement :: "(int \<Rightarrow> string) \<Rightarrow> int \<Rightarrow> int \<Rightarrow> int \<Rightarrow> int \<Rightarrow> ('x ledger_scheme, string) action" where
  "export_statement rfc3339 account sign t0 t1 =
     bindM (export_pages (max_export_rows div export_page + 2) rfc3339 account sign t0 t1 0 0) (\<lambda>text.
     returnM (csv_record export_header @ text))"

definition rpc_export_account_statement :: "(int \<Rightarrow> string) \<Rightarrow> message \<Rightarrow> caller option \<Rightarrow> string \<Rightarrow> int \<Rightarrow> int \<Rightarrow> ('x ledger_scheme, string) action" where
  "rpc_export_account_statement rfc3339 m who ref t0 t1 =
     bindM (guardM (require_operator who ''openpay:ledger:read'')) (\<lambda>_.
     bindM (validate m) (\<lambda>_.
     bindM (period t0 t1) (\<lambda>_.
     bindM (caller_scope who) (\<lambda>scope.
     bindM (get_account_view ref) (\<lambda>v.
     bindM (guardM (require_visible scope (la_product_id (av_account v)))) (\<lambda>_.
     export_statement rfc3339 (la_id (av_account v)) (normal_sign (la_type (av_account v))) t0 t1))))))"

definition rpc_export_wallet_statement :: "(int \<Rightarrow> string) \<Rightarrow> message \<Rightarrow> caller option \<Rightarrow> string \<Rightarrow> int \<Rightarrow> int \<Rightarrow> ('x estate_scheme, string) action" where
  "rpc_export_wallet_statement rfc3339 m who wallet t0 t1 =
     bindM (wallet_viewer_for who ''openpay:wallets:read'') (\<lambda>v.
     bindM (validate m) (\<lambda>_.
     bindM (period t0 t1) (\<lambda>_.
     bindM (visible_wallet v wallet) (\<lambda>w.
     export_statement rfc3339 (wa_ledger_account_id w) (normal_sign AccountLiability) t0 t1))))"

end
