(* ===== verification/ServiceReads.thy ===== *)
theory ServiceReads
  imports ServiceReport
begin

text \<open>
  The handlers that answer a question leave the database as it is, whoever asks and whatever the answer; and so
  do the lookups the other handlers start with.
\<close>

section \<open>More rules for actions that only read\<close>

lemma reads_sum [read_only]: "(\<And>y. reads (f y)) \<Longrightarrow> (\<And>y. reads (g y)) \<Longrightarrow> reads (case_sum f g x)"
  by (cases x) simp_all

lemma reads_let [read_only]: "(\<And>y. reads (f y)) \<Longrightarrow> reads (Let x f)"
  by simp

lemma reads_map_m [read_only]: "(\<And>x. reads (f x)) \<Longrightarrow> reads (map_m f xs)"
  by (induction xs) (auto intro!: read_only)

lemma reads_try [read_only]: "reads m \<Longrightarrow> reads (tryM m)"
  by (auto simp: reads_def try_apply split: prod.splits outcome.splits)

lemma reads_caller_kind [read_only]: "reads a \<Longrightarrow> reads b \<Longrightarrow> reads c \<Longrightarrow> reads (case_caller_kind a b c k)"
  by (cases k) simp_all

lemma reads_safep: "reads m \<Longrightarrow> safep I m"
  by (auto simp: reads_def safep_def)

lemma reads_okp: "reads m \<Longrightarrow> okp I m"
  by (rule safep_okp [OF reads_safep])

section \<open>Lookups\<close>

lemma reads_granted: "reads (granted_ids codes found)"
  unfolding get_product_by_code_def
proof (induction codes arbitrary: found)
  case (Cons code codes)
  then show ?case
    unfolding granted_ids.simps get_product_by_code_def by (intro read_only) auto
qed (simp add: read_only)

lemma reads_scope [read_only]: "reads (caller_scope who)"
  unfolding caller_scope_def by (intro read_only reads_granted)

lemma reads_checks [read_only]: "reads (guardM g)" "reads (validate m)" "reads (serviceM who)"
  by (auto simp: guardM_def validate_def serviceM_def intro!: read_only)

lemma reads_rows [read_only]:
  "reads (get_product_by_public_id x)" "reads (get_product_by_id i)" "reads (get_wallet_by_public_id x)"
  "reads (get_wallet_type_by_public_id x)" "reads (get_wallet_type_by_id i)" "reads (get_balance i)"
  "reads (get_payment_by_public_id x)" "reads (get_payment_by_id i)" "reads (get_refund_by_public_id x)"
  "reads (get_dispute_by_public_id x)" "reads (get_order_by_public_id x)" "reads (get_withdrawal_by_public_id x)"
  "reads (get_beneficiary_by_public_id x)" "reads (get_settlement_by_public_id x)" "reads (get_order_payment i)"
  "reads (get_ledger_account_by_code x)"
  unfolding get_product_by_public_id_def get_product_by_id_def get_wallet_by_public_id_def get_wallet_type_by_public_id_def
    get_wallet_type_by_id_def get_balance_def get_payment_by_public_id_def get_payment_by_id_def get_refund_by_public_id_def
    get_dispute_by_public_id_def get_order_by_public_id_def get_withdrawal_by_public_id_def get_beneficiary_by_public_id_def
    get_settlement_by_public_id_def get_order_payment_def get_ledger_account_by_code_def
  by (intro read_only)+

lemma reads_customer [read_only]: "reads (get_customer_by_public_id x)" "reads (get_customer_by_external_ref x)"
proof -
  have merge: "reads (follow_merge n c)" for n c
  proof (induction n arbitrary: c)
    case (Suc n)
    then show ?case unfolding follow_merge.simps by (intro read_only)
  qed (simp add: read_only)
  show "reads (get_customer_by_public_id x)" "reads (get_customer_by_external_ref x)"
    unfolding get_customer_by_public_id_def get_customer_by_external_ref_def resolve_merge_def by (intro read_only merge)+
qed

lemma reads_lists [read_only]:
  "reads (list_customer_wallets i sc b)" "reads (list_wallet_types i)" "reads (list_statement a n k)" "reads (list_payment_attempts i)"
  "reads (list_payment_transitions i)" "reads (list_payments pf)" "reads (list_payment_refunds i)" "reads (list_disputes sc ds n)"
  "reads (list_items i)" "reads (list_order_lines i)" "reads (list_order_tenders i)" "reads (list_order_refunds i)"
  "reads (list_order_refund_parts i)" "reads (list_beneficiaries i)" "reads (list_withdrawals sc ws ci n)" "reads (list_products plf)"
  "reads (list_credentials i)" "reads list_provider_controls" "reads (list_settlements x n)" "reads (list_settlement_items i)"
  "reads (settlement_by_product i)" "reads (list_breaks sc bs n)" "reads (fee_variance t0 t1)" "reads (list_orders olf)"
  "reads (search_refunds rff)" "reads (list_audit_log alf)" "reads (list_account_views acf)" "reads (list_ledger_check_runs n)"
  "reads (float_held sc)" "reads (list_statement_range a t0 t1 k n)" "reads (break_summary t)"
  by (auto simp: list_customer_wallets_def list_wallet_types_def list_statement_def list_payment_attempts_def list_payment_transitions_def
      list_payments_def list_payment_refunds_def list_disputes_def list_items_def list_order_lines_def list_order_tenders_def
      list_order_refunds_def list_order_refund_parts_def list_beneficiaries_def list_withdrawals_def list_products_def
      list_credentials_def list_provider_controls_def list_settlements_def list_settlement_items_def settlement_by_product_def
      list_breaks_def fee_variance_def list_orders_def search_refunds_def list_audit_log_def list_account_views_def
      list_ledger_check_runs_def float_held_def list_statement_range_def break_summary_def Let_def intro!: read_only)

lemma reads_views [read_only]:
  "reads (wallet_viewer_for who perm)" "reads (visible_wallet v x)" "reads (to_proto_wallet w)" "reads (wallet_type_by_code i x)"
  "reads (funding_product v w x)" "reads (product_reader who perm)" "reads (visible_payment who x perm)" "reads (payment_detail_of p h)"
  "reads (customer_filter x)" "reads (scoped_product_filter sc x)" "reads (visible_dispute who x)" "reads (order_customer x)"
  "reads (visible_order sc x)" "reads (order_detail_of o')" "reads (to_proto_break b)" "reads (share_view sh)"
  "reads (report_scope who x)" "reads (period t0 t1)" "reads (as_of_time t)" "reads (statement_page a at n x)"
  "reads (get_account_view x)" "reads (get_journal_view x)" "reads (natural_balance x)"
  by (auto simp: wallet_viewer_for_def visible_wallet_def to_proto_wallet_def wallet_type_by_code_def funding_product_def
      product_reader_def visible_payment_def payment_detail_of_def customer_filter_def scoped_product_filter_def visible_dispute_def
      order_customer_def visible_order_def order_detail_of_def to_proto_break_def share_view_def report_scope_def period_def
      as_of_time_def statement_page_def get_account_view_def get_journal_view_def natural_balance_def Let_def intro!: read_only)

section \<open>Handlers that answer a question\<close>

lemma reads_export [read_only]: "reads (export_statement fmt a sign t0 t1)"
proof -
  have "reads (export_pages k fmt a sign t0 t1 after n)" for k after n
    by (induction k arbitrary: after n) (auto intro!: read_only)
  then show ?thesis unfolding export_statement_def by (intro read_only)
qed

lemma reads_figures [read_only]:
  "reads (trial_balance p t b)" "reads (product_pnl_lines sc t0 t1)" "reads (provider_stats_in sc t0 t1)" "reads (summarize e t)"
  by (auto simp: trial_balance_def product_pnl_lines_def provider_stats_in_def summarize_def intro!: read_only)

text \<open>
  C34. Asking changes nothing: none of the handlers that read, whoever calls them and with whatever
  arguments, leaves the database other than it was, and neither does it draw an identifier or call a provider.
\<close>

theorem reading_changes_nothing:
  "reads (rpc_get_wallet m who x) \<and> reads (rpc_list_customer_wallets m who x) \<and>
   reads (rpc_get_wallet_statement m who x n cur) \<and> reads (rpc_get_float_held who) \<and>
   reads (rpc_get_ledger_account m who x) \<and> reads (rpc_list_ledger_accounts m who lar) \<and>
   reads (rpc_get_account_statement m who x n cur) \<and> reads (rpc_get_journal m who x) \<and>
   reads (rpc_get_trial_balance m who t x b) \<and> reads (rpc_list_ledger_check_runs m who n) \<and>
   reads (rpc_get_payment m who x) \<and> reads (rpc_list_payments m who lpr) \<and> reads (rpc_get_refund m who x) \<and>
   reads (rpc_list_refunds m who x) \<and> reads (rpc_get_dispute m who x) \<and> reads (rpc_list_disputes m who ds n) \<and>
   reads (rpc_list_items who) \<and> reads (rpc_get_order m who x) \<and> reads (rpc_list_beneficiaries m who x) \<and>
   reads (rpc_get_withdrawal m who x) \<and> reads (rpc_list_withdrawals m who ws x n) \<and>
   reads (rpc_get_product m who x) \<and> reads (rpc_list_products m who lp) \<and> reads (rpc_get_wallet_type m who x) \<and>
   reads (rpc_list_wallet_types m who x) \<and> reads (rpc_get_customer m who ci) \<and>
   reads (rpc_list_service_credentials m who x) \<and> reads (rpc_list_providers sv who) \<and>
   reads (rpc_list_settlements m who x n) \<and> reads (rpc_get_settlement m who x) \<and>
   reads (rpc_list_recon_breaks m who bs n) \<and> reads (rpc_get_recon_summary sv who) \<and>
   reads (rpc_get_fee_variance m who t0 t1) \<and> reads (rpc_get_me who) \<and> reads (rpc_list_orders m who lor) \<and>
   reads (rpc_search_refunds m who srr) \<and> reads (rpc_list_audit_log m who lau) \<and>
   reads (rpc_get_product_pnl m who t0 t1 x) \<and> reads (rpc_get_provider_stats m who t0 t1 x) \<and>
   reads (rpc_export_account_statement fmt m who x t0 t1) \<and> reads (rpc_export_wallet_statement fmt m who x t0 t1)"
  by (intro conjI) (auto simp: rpc_get_wallet_def rpc_list_customer_wallets_def rpc_get_wallet_statement_def rpc_get_float_held_def
      rpc_get_ledger_account_def rpc_list_ledger_accounts_def rpc_get_account_statement_def rpc_get_journal_def rpc_get_trial_balance_def
      rpc_list_ledger_check_runs_def rpc_get_payment_def rpc_list_payments_def rpc_get_refund_def rpc_list_refunds_def rpc_get_dispute_def
      rpc_list_disputes_def rpc_list_items_def rpc_get_order_def rpc_list_beneficiaries_def rpc_get_withdrawal_def
      rpc_list_withdrawals_def rpc_get_product_def rpc_list_products_def rpc_get_wallet_type_def rpc_list_wallet_types_def
      rpc_get_customer_def rpc_list_service_credentials_def rpc_list_providers_def rpc_list_settlements_def rpc_get_settlement_def
      rpc_list_recon_breaks_def rpc_get_recon_summary_def rpc_get_fee_variance_def rpc_get_me_def rpc_list_orders_def
      rpc_search_refunds_def rpc_list_audit_log_def rpc_get_product_pnl_def rpc_get_provider_stats_def
      rpc_export_account_statement_def rpc_export_wallet_statement_def Let_def intro!: read_only split: customer_identifier.splits)

end
