(* ===== verification/ServiceSafety.thy ===== *)
theory ServiceSafety
  imports ServiceReads
begin

text \<open>
  The handlers that write keep what the engines below them keep. \<open>front_calls\<close> adds to the interface of
  reconciliation what a handler does itself, the writes of the registers and of the audit log for one caller, and
  \<open>rpc_step\<close> is one call of a handler by that caller, however it ends. Handlers run outside of any transaction.
\<close>

lemma no_tx_outside: "\<not> in_tx no_tx"
  by (simp add: no_tx_def)

lemma reads_findings: "reads (check_ledger_invariants c limit)"
  by (auto simp: reads_def dest: check_ledger_run)

text \<open>A service as it is put together: the engines know one another, as \<open>new_service\<close> connects them.\<close>

definition wired_service :: "'x clearing_scheme service \<Rightarrow> bool" where
  "wired_service sv \<longleftrightarrow> (\<exists>oe. svc_orders sv = with_payouts (svc_payouts sv) oe \<and>
     svc_recon sv = recon_of (svc_payouts sv) oe (svc_recon sv))"

lemma new_service_wired: "wired_service (new_service cfg reg cph nonce rfc)"
  unfolding wired_service_def new_service_def Let_def service.select_convs
  by (rule exI, rule conjI, rule refl) (simp add: recon_of_def)

locale front_calls = clearing_calls I good
  for I :: "'x front_scheme \<Rightarrow> bool" and good :: "'x front_scheme payment_engine \<Rightarrow> bool" +
  fixes who :: "caller option"
  assumes registers: "safep I (create_product p)" "safep I (update_product p)" "safep I (upsert_customer cu)"
      "safep I (create_wallet_type t)" "safep I (update_wallet_type t)" "safep I (create_credential x)" "safep I (revoke_credential k)"
      "safep I (create_item it)" "safep I (set_provider_control c name ct)" "safep I (claim_idempotency_key ik)"
      "safep I (complete_idempotency_key scope k body)" "safep I (release_idempotency_key scope k)"
      "safep I (record_ledger_check_run run)"
    and logs: "safep I (audit who verb kind resource product)"
begin

lemma safe_idempotent:
  assumes "\<And>c. okp I (fn c)"
  shows "safep I (idempotent codec no_tx who print fn)"
proof -
  have "okp I (run_claimed codec c scope key fn)" for c scope key
    unfolding run_claimed_def by (intro keeps assms safep_okp [OF registers(11)])
  then have "safep I (run_claimed codec no_tx scope key fn)" for scope key
    unfolding run_claimed_def by (rule safep_own_tx [OF free _ no_tx_outside])
  then show ?thesis
    unfolding idempotent_def replay_def Let_def by (intro keeps registers)
qed

lemmas lookups = reads_rows reads_views reads_checks reads_scope reads_customer

lemmas front_safe = safep_basic safep_bind safep_if safep_option safep_sum safep_prod safep_let
  lookups [THEN reads_safep] registers logs safe_idempotent safep_new_id [OF free] safep_with_tx [OF free no_tx_outside]

lemmas front_okp = okp_basic okp_bind okp_if okp_option okp_sum okp_prod okp_let okp_map_m okp_for_each okp_with_tx
  lookups [THEN reads_okp] registers [THEN safep_okp] logs [THEN safep_okp] okp_new_id [OF free]
  keeps_open keeps_grant keeps_transfer keeps_adjust

lemmas front_keeps = front_safe front_okp

lemma safe_check: "safep I (run_check no_tx trigger w)"
  unfolding run_check_def by (intro front_safe safep_try reads_safep [OF reads_findings])

section \<open>The handlers\<close>

lemma safe_wallet_handlers:
  "safep I (rpc_open_wallet m who owr)" "safep I (rpc_grant_wallet sv cd1 m who gwr)"
  "safep I (rpc_transfer_wallet sv cd2 m who twr)" "safep I (rpc_adjust_wallet sv cd1 m who awr)" "safep I (rpc_run_ledger_check who)"
  unfolding rpc_open_wallet_def rpc_grant_wallet_def rpc_transfer_wallet_def rpc_adjust_wallet_def rpc_run_ledger_check_def
  by (intro front_keeps safe_check)+

text \<open>The engines of a service that is put together.\<close>

lemma wired_good:
  assumes "wired_service sv"
  shows "good (svc_payments sv)" "good (payments_of (svc_orders sv))" "good (ren_payments (svc_recon sv))"
proof -
  obtain oe where oe: "svc_orders sv = with_payouts (svc_payouts sv) oe" "svc_recon sv = recon_of (svc_payouts sv) oe (svc_recon sv)"
    using assms by (auto simp: wired_service_def)
  show "good (svc_payments sv)" "good (payments_of (svc_orders sv))"
    by (simp_all add: svc_payments_def oe(1) good_hooks)
  show "good (ren_payments (svc_recon sv))" by (subst oe(2)) (rule good_recon)
qed

lemma safe_payment_handlers:
  assumes "wired_service sv"
  shows "safep I (rpc_create_payment sv cd3 m who cpq)" "safep I (rpc_sync_payment sv m who x)"
    "in64 (cf_amount cfr) \<Longrightarrow> safep I (rpc_create_refund sv cd4 m who cfr)"
    "safep I (rpc_submit_dispute_evidence sv m who x evidence)"
  unfolding rpc_create_payment_def rpc_sync_payment_def rpc_create_refund_def rpc_submit_dispute_evidence_def
  by (intro front_keeps calls_create_topup calls_poll core_evidence core_refund wired_good [OF assms] no_tx_outside; simp)+

lemma safe_order_handlers:
  assumes "wired_service sv"
  shows "safep I (rpc_create_order sv cd5 m who orq)"
    "in64 (ro_amount ror) \<Longrightarrow> safep I (rpc_refund_order sv cd6 m who ror)" "safep I (rpc_cancel_order sv m who x reason)"
  unfolding rpc_create_order_def rpc_refund_order_def rpc_cancel_order_def
  by (intro front_keeps calls_create_order calls_refund_order calls_cancel_order wired_good [OF assms] no_tx_outside; simp)+

lemma safe_withdrawal_handlers:
  "safep I (rpc_add_beneficiary sv m who abr)" "safep I (rpc_request_withdrawal sv cd7 m who rqr)"
  "safep I (rpc_approve_withdrawal sv m who x note)" "safep I (rpc_reject_withdrawal sv m who x note)"
  unfolding rpc_add_beneficiary_def rpc_request_withdrawal_def rpc_approve_withdrawal_def rpc_reject_withdrawal_def decide_withdrawal_def
  by (intro front_keeps core_beneficiaries calls_request core_approve core_reject)+

lemma safe_setup_handlers:
  "safep I (rpc_create_product cd8 m who cpr)" "safep I (rpc_update_product cd8 m who upr)"
  "safep I (rpc_create_wallet_type cd9 m who ctr)" "safep I (rpc_update_wallet_type cd9 m who utr)"
  "safep I (rpc_upsert_customer m who x)" "safep I (rpc_create_service_credential sha b1 b2 m who ccr)"
  "safep I (rpc_revoke_service_credential m who x)" "safep I (rpc_create_item m who cir)"
  unfolding rpc_create_item_def rpc_create_product_def rpc_update_product_def rpc_create_wallet_type_def rpc_update_wallet_type_def rpc_upsert_customer_def
    rpc_create_service_credential_def rpc_revoke_service_credential_def ensure_product_def product_chart_def chart_account_def
    default_wallet_types_def base_wallet_type_def create_default_type_def build_wallet_type_def
  by (intro front_keeps safep_okp [OF keeps_ensure])+

lemma safe_recon_handlers:
  assumes "wired_service sv"
  shows "safep I (rpc_set_provider_override sv m who x ov reason)" "safep I (rpc_resolve_recon_break sv m who rbr)"
    "safep I (rpc_run_recon_cycle sv who)"
proof -
  have "okp I (settle_break sv c act q)" for c act q
    unfolding settle_break_def by (cases act) (auto intro!: keeps keeps_break_decisions wired_good [OF assms])
  then show "safep I (rpc_set_provider_override sv m who x ov reason)" "safep I (rpc_resolve_recon_break sv m who rbr)"
    "safep I (rpc_run_recon_cycle sv who)"
    unfolding rpc_set_provider_override_def rpc_resolve_recon_break_def rpc_run_recon_cycle_def
    by (intro front_keeps safe_cycle wired_good [OF assms] no_tx_outside; assumption?)+
qed

end

section \<open>Steps\<close>

text \<open>One call of a handler that writes, by one caller, however it ends. An amount in a message is an \<open>int64\<close>.\<close>

inductive rpc_step :: "caller option \<Rightarrow> 'x front_scheme \<Rightarrow> 'x front_scheme \<Rightarrow> bool" for who where
  step_open_wallet: "rpc_open_wallet m who owr s = (r, u) \<Longrightarrow> rpc_step who s u"
| step_grant_wallet: "rpc_grant_wallet sv cd1 m who gwr s = (r, u) \<Longrightarrow> rpc_step who s u"
| step_transfer_wallet: "rpc_transfer_wallet sv cd2 m who twr s = (r, u) \<Longrightarrow> rpc_step who s u"
| step_adjust_wallet: "rpc_adjust_wallet sv cd1 m who awr s = (r, u) \<Longrightarrow> rpc_step who s u"
| step_run_check: "rpc_run_ledger_check who s = (r, u) \<Longrightarrow> rpc_step who s u"
| step_create_payment: "wired_service sv \<Longrightarrow> rpc_create_payment sv cd3 m who cpq s = (r, u) \<Longrightarrow> rpc_step who s u"
| step_sync_payment: "wired_service sv \<Longrightarrow> rpc_sync_payment sv m who x s = (r, u) \<Longrightarrow> rpc_step who s u"
| step_create_refund: "wired_service sv \<Longrightarrow> in64 (cf_amount cfr) \<Longrightarrow> rpc_create_refund sv cd4 m who cfr s = (r, u) \<Longrightarrow> rpc_step who s u"
| step_evidence: "wired_service sv \<Longrightarrow> rpc_submit_dispute_evidence sv m who x evidence s = (r, u) \<Longrightarrow> rpc_step who s u"
| step_create_item: "rpc_create_item m who cir s = (r, u) \<Longrightarrow> rpc_step who s u"
| step_create_order: "wired_service sv \<Longrightarrow> rpc_create_order sv cd5 m who orq s = (r, u) \<Longrightarrow> rpc_step who s u"
| step_refund_order: "wired_service sv \<Longrightarrow> in64 (ro_amount ror) \<Longrightarrow> rpc_refund_order sv cd6 m who ror s = (r, u) \<Longrightarrow> rpc_step who s u"
| step_cancel_order: "wired_service sv \<Longrightarrow> rpc_cancel_order sv m who x reason s = (r, u) \<Longrightarrow> rpc_step who s u"
| step_add_beneficiary: "rpc_add_beneficiary sv m who abr s = (r, u) \<Longrightarrow> rpc_step who s u"
| step_request_withdrawal: "rpc_request_withdrawal sv cd7 m who rqr s = (r, u) \<Longrightarrow> rpc_step who s u"
| step_approve_withdrawal: "rpc_approve_withdrawal sv m who x note s = (r, u) \<Longrightarrow> rpc_step who s u"
| step_reject_withdrawal: "rpc_reject_withdrawal sv m who x note s = (r, u) \<Longrightarrow> rpc_step who s u"
| step_create_product: "rpc_create_product cd8 m who cpr s = (r, u) \<Longrightarrow> rpc_step who s u"
| step_update_product: "rpc_update_product cd8 m who upr s = (r, u) \<Longrightarrow> rpc_step who s u"
| step_create_wallet_type: "rpc_create_wallet_type cd9 m who ctr s = (r, u) \<Longrightarrow> rpc_step who s u"
| step_update_wallet_type: "rpc_update_wallet_type cd9 m who utr s = (r, u) \<Longrightarrow> rpc_step who s u"
| step_upsert_customer: "rpc_upsert_customer m who x s = (r, u) \<Longrightarrow> rpc_step who s u"
| step_create_credential: "rpc_create_service_credential sha b1 b2 m who ccr s = (r, u) \<Longrightarrow> rpc_step who s u"
| step_revoke_credential: "rpc_revoke_service_credential m who x s = (r, u) \<Longrightarrow> rpc_step who s u"
| step_override: "wired_service sv \<Longrightarrow> rpc_set_provider_override sv m who x ov reason s = (r, u) \<Longrightarrow> rpc_step who s u"
| step_resolve_break: "wired_service sv \<Longrightarrow> rpc_resolve_recon_break sv m who rbr s = (r, u) \<Longrightarrow> rpc_step who s u"
| step_recon_cycle: "wired_service sv \<Longrightarrow> rpc_run_recon_cycle sv who s = (r, u) \<Longrightarrow> rpc_step who s u"

context front_calls
begin

lemmas handlers_safe = safe_wallet_handlers safe_payment_handlers safe_order_handlers safe_withdrawal_handlers
  safe_setup_handlers safe_recon_handlers

lemma kept: "m s = (r, u) \<Longrightarrow> I s \<Longrightarrow> safep I m \<Longrightarrow> I u"
  by (rule safepD)

lemma rpc_step_keeps: "rpc_step who s u \<Longrightarrow> I s \<Longrightarrow> I u"
  by (induction rule: rpc_step.induct) (erule kept, assumption, rule handlers_safe; assumption)+

end

end
