(* ===== verification/ServiceProps.thy ===== *)
theory ServiceProps
  imports ServiceSafety OrderProps
begin

text \<open>
  What holds of the service as its callers see it: the books stay right whatever they call, and the audit log
  only grows, each entry naming the caller it is about.
\<close>

section \<open>Steps\<close>

text \<open>What runs beside the handlers: jobs that call the engines, webhooks, the outbox and requests being authenticated.\<close>

inductive background_step ::
  "(withdrawal_engine \<Rightarrow> 'x clearing_scheme order_engine \<Rightarrow> bool) \<Rightarrow> 'x clearing_scheme \<Rightarrow> 'x clearing_scheme \<Rightarrow> bool" for E where
  background_wallet: "wallet_step s u \<Longrightarrow> background_step E s u"
| background_clearing: "clearing_step E s u \<Longrightarrow> background_step E s u"
| background_account: "insert_ledger_account c a s = (r, u) \<Longrightarrow> background_step E s u"
| background_lapse: "expire_hold c x s = (Ok r, u) \<Longrightarrow> background_step E s u"
| background_check: "record_ledger_check_run run s = (r, u) \<Longrightarrow> background_step E s u"
| background_published: "mark_outbox_event_published i s = (r, u) \<Longrightarrow> background_step E s u"
| background_failed: "mark_outbox_event_failed i k s = (r, u) \<Longrightarrow> background_step E s u"
| background_touch: "touch_credential_used i s = (r, u) \<Longrightarrow> background_step E s u"

lemma background_program: "background_step E s u \<Longrightarrow> program_step E s u"
  by (induction rule: background_step.induct) (blast intro: program_step.intros register_step.intros)+

text \<open>A run of the service: the callers of the handlers, in order, with other work between the calls.\<close>

inductive service_run ::
  "(withdrawal_engine \<Rightarrow> 'x front_scheme order_engine \<Rightarrow> bool) \<Rightarrow> caller option list \<Rightarrow> 'x front_scheme \<Rightarrow> 'x front_scheme \<Rightarrow> bool" for E where
  run_nothing: "service_run E [] s s"
| run_handler: "service_run E callers s t \<Longrightarrow> rpc_step who t u \<Longrightarrow> service_run E (callers @ [who]) s u"
| run_background: "service_run E callers s t \<Longrightarrow> background_step E t u \<Longrightarrow> service_run E callers s u"

section \<open>Who satisfies the interface\<close>

lemma apart_safe: "(\<And>s u. apart s u \<Longrightarrow> I s \<Longrightarrow> I u) \<Longrightarrow> (\<And>s. safep (apart s) m) \<Longrightarrow> safep I m"
  by (rule safepI) (metis apart_refl safepD)

lemma apart_audit: "safep (apart s) (audit who verb kind resource product)"
  unfolding audit_def record_audit_def
  by (intro keeps safep_modify) (simp add: apart_def)

interpretation rpc_books: front_calls ledger_inv "hooks_keep ledger_inv" who for who
  by unfold_locales (rule apart_safe [OF apart_ledger_inv], assumption, assumption, rule safep_apart apart_audit)+

interpretation rpc_register: front_calls "viewed intact" hooks_blind who for who
  by unfold_locales (rule apart_safe, erule program_register.elsewhere, assumption, rule safep_apart apart_audit)+

lemma run_keeps_books: "service_run E callers s u \<Longrightarrow> ledger_inv s \<Longrightarrow> ledger_inv u"
  by (induction rule: service_run.induct)
    (auto intro: rpc_books.rpc_step_keeps program_books.program_step_keeps background_program)

lemma run_keeps_register: "service_run E callers s u \<Longrightarrow> viewed intact s \<Longrightarrow> viewed intact u"
  by (induction rule: service_run.induct)
    (auto intro: rpc_register.rpc_step_keeps program_register.program_step_keeps background_program)

text \<open>
  C6. Whatever its callers ask of the service, in whatever order, allowed or refused, and whatever runs
  between their calls, on a database that started empty the ledger's checker reports nothing, no account
  that may not go negative is overdrawn, and no payment is refunded beyond what was captured of it.
\<close>

theorem service_keeps_books:
  assumes "program_start s0" "service_run E callers s0 s" "volume (postings s) < 2 ^ 63"
  shows "check_ledger_invariants c limit s = (Ok ([], False), s) \<and>
    (\<forall>a\<in>set (accounts s). \<forall>b. balance_of (la_id a) s = Some b \<and> \<not> la_allow_negative a \<longrightarrow>
       ba_held b \<le> ba_raw_balance b * normal_sign (la_type a)) \<and>
    (\<forall>p\<in>set (payments s). pm_refunded_amount p \<le> (case pm_captured_amount p of None \<Rightarrow> 0 | Some a \<Rightarrow> a))"
proof -
  have "ledger_inv s0" "viewed intact s0"
    using assms(1) by (simp_all add: program_start_def ledger_start_inv viewed_def log_inv_start)
  then have inv: "ledger_inv s" "viewed intact s"
    using run_keeps_books run_keeps_register assms(2) by blast+
  have books: "books_ok s" by (rule ledger_inv_books [OF inv(1) assms(3)])
  have "pm_refunded_amount p \<le> (case pm_captured_amount p of None \<Rightarrow> 0 | Some a \<Rightarrow> a)" if "p \<in> set (payments s)" for p
    using inv(2) that by (auto simp: viewed_def log_inv_def payment_ok_def payment_checks_def ck_payments_refunded_def)
  then show ?thesis using books clean_report [of s c limit] by (auto simp: books_ok_def account_ok_def)
qed

section \<open>The audit log\<close>

definition authored :: "caller option \<Rightarrow> audit_entry \<Rightarrow> bool" where
  "authored who e \<longleftrightarrow> (au_actor_type e, au_actor_id e) = audit_actor who \<and> au_request_id e = request_id_of who"

text \<open>A log that grew out of another by entries that satisfy \<open>P\<close>.\<close>

definition grown :: "(audit_entry \<Rightarrow> bool) \<Rightarrow> audit_entry list \<Rightarrow> 'x front_scheme \<Rightarrow> bool" where
  "grown P old s \<longleftrightarrow> (\<exists>new. audit_log s = old @ new \<and> list_all P new)"

lemma grown_refl: "grown P (audit_log s) s"
  by (simp add: grown_def)

lemma audit_grows: "(\<And>e. authored who e \<Longrightarrow> P e) \<Longrightarrow> safep (grown P old) (audit who verb kind resource product)"
  unfolding audit_def record_audit_def
  by (intro keeps safep_modify) (auto simp: grown_def authored_def)

lemma grown_free: "env_free (grown P old)"
  by (simp add: env_free_def rollback_def grown_def)

interpretation grown_desk: desk_elsewhere "grown P old" for P old
  by unfold_locales (simp_all add: grown_def grown_free)

interpretation grown_clearing: clearing_calls "grown P old" "hooks_keep (grown P old)" for P old
  by unfold_locales (auto simp: clearing_writes grown_def intro!: keeps okp_modify safep_modify)

lemma grown_registers:
  "safep (grown P old) (create_product p)" "safep (grown P old) (update_product p)" "safep (grown P old) (upsert_customer cu)"
  "safep (grown P old) (create_wallet_type t)" "safep (grown P old) (update_wallet_type t)" "safep (grown P old) (create_credential x)"
  "safep (grown P old) (revoke_credential k)" "safep (grown P old) (touch_credential_used i)" "safep (grown P old) (create_item it)"
  "safep (grown P old) (set_provider_control c name ct)" "safep (grown P old) (claim_idempotency_key ik)"
  "safep (grown P old) (complete_idempotency_key scope k body)" "safep (grown P old) (release_idempotency_key scope k)"
  "safep (grown P old) (mark_outbox_event_published i)" "safep (grown P old) (mark_outbox_event_failed i k)"
  "safep (grown P old) (record_ledger_check_run run)"
  unfolding register_writes get_product_by_public_id_def get_wallet_type_by_public_id_def
  by (auto simp: grown_def intro!: keeps safep_modify safep_joined_tx grown_free reads_customer [THEN reads_safep])

interpretation audit_trail: front_calls "grown (authored who) old" "hooks_keep (grown (authored who) old)" who for who old
  by unfold_locales (rule grown_registers audit_grows, assumption?)+

lemma background_keeps_log: "background_step E s u \<Longrightarrow> audit_log u = audit_log s"
proof -
  let ?I = "grown (\<lambda>_. False) (audit_log s)"
  assume "background_step E s u"
  moreover have "?I s" by (rule grown_refl)
  ultimately have "?I u"
  proof (induction rule: background_step.induct)
    case background_wallet
    then show ?case by (rule grown_desk.wallet_step_keeps)
  next
    case background_clearing
    then show ?case by (rule grown_clearing.clearing_step_keeps)
  next
    case background_lapse
    then show ?case using okpD [OF grown_desk.keeps_expire] by blast
  qed (erule safepD [rotated 2], rule grown_registers grown_desk.keeps_account, assumption)+
  then show ?thesis by (simp add: grown_def list_all_iff)
qed

text \<open>
  C7. The audit log is only ever added to, and never in someone else's name: after any run of the service the
  log begins with what it was before, and each entry added since names one of the callers of the run, as an
  operator by its user, as a service by its credential, with the id of that caller's request.
\<close>

theorem audit_log_attributed:
  assumes "service_run E callers s u"
  shows "\<exists>new. audit_log u = audit_log s @ new \<and>
    (\<forall>e\<in>set new. \<exists>who\<in>set callers. (au_actor_type e, au_actor_id e) = audit_actor who \<and> au_request_id e = request_id_of who)"
proof -
  let ?P = "\<lambda>ws e. \<exists>who\<in>set ws. authored who e"
  have "grown (?P callers) (audit_log s) u"
    using assms
  proof (induction rule: service_run.induct)
    case (run_handler callers s t who u)
    have "grown (authored who) (audit_log t) u"
      using audit_trail.rpc_step_keeps [OF run_handler.hyps(2) grown_refl] .
    then show ?case using run_handler.IH by (fastforce simp: grown_def list_all_iff)
  next
    case (run_background callers s t u)
    then show ?case using background_keeps_log [OF run_background.hyps(2)] by (simp add: grown_def)
  qed (simp add: grown_refl)
  then show ?thesis by (auto simp: grown_def list_all_iff authored_def)
qed

section \<open>Two callers\<close>

text \<open>A product opens the wallet of its customer and an operator of the platform credits it.\<close>

definition demo_service :: "'x clearing_scheme service" where
  "demo_service = new_service \<lparr>scf_wallet = demo_limits, scf_payments = \<lparr>pcf_ttl = 0, pcf_poll_after = 0\<rparr>,
     scf_orders = \<lparr>ocf_ttl = 0, ocf_hold_grace = 0\<rparr>, scf_recon = \<lparr>rcf_bank = [], rcf_settle_within = 0\<rparr>,
     scf_recon_alerts = \<lparr>al_aged_after = 0, al_suspense_threshold = 0\<rparr>, scf_withdrawals = wen_config demo_payouts\<rparr>
     (wen_registry demo_payouts) (wen_cipher demo_payouts) (wen_nonce demo_payouts) (\<lambda>_. [])"

definition demo_shop_caller :: caller where
  "demo_shop_caller = \<lparr>ca_kind = KindService, ca_product_id = 1, ca_product_code = ''shop'', ca_credential_id = ''svc_1'', ca_user_id = [],
     ca_permissions = [], ca_request_id = ''req_1'', ca_idempotency_key = ''k1''\<rparr>"

definition demo_operator :: caller where
  "demo_operator = \<lparr>ca_kind = KindOperator, ca_product_id = 0, ca_product_code = [], ca_credential_id = [], ca_user_id = ''asha'',
     ca_permissions = [''openpay:wallets:adjust'', perm_scope_all], ca_request_id = ''req_2'', ca_idempotency_key = ''k2''\<rparr>"

definition demo_message :: message where
  "demo_message = \<lparr>ms_valid = True, ms_print = Some\<rparr>"

definition demo_desk0 :: front where
  "demo_desk0 = clearing.extend (clearing_of demo_shop) \<lparr>audit_log = []\<rparr>"

definition demo_asks :: "'x front_scheme \<Rightarrow> 'x front_scheme" where
  "demo_asks s = snd (rpc_open_wallet demo_message (Some demo_shop_caller) \<lparr>ow_customer_id = ''c1'', ow_wallet_type_code = ''MAIN''\<rparr>
     (with_accounts [(product_adjustments ''shop'', AccountExpense)] s))"

definition demo_credits :: "string \<Rightarrow> 'x front_scheme \<Rightarrow> 'x front_scheme" where
  "demo_credits w s = snd (rpc_adjust_wallet demo_service \<lparr>encode_response = (\<lambda>_. Some ''done''), decode_response = (\<lambda>_. None)\<rparr>
     demo_message (Some demo_operator) \<lparr>aw_wallet_id = w, aw_amount = 300, aw_debit = False, aw_product_id = [],
       aw_reason_code = ''goodwill'', aw_memo = []\<rparr> s)"

lemma demo_asked_run: "map wa_public_id (wallets (demo_asks demo_desk0)) = [''wlt_ab'']"
  by code_simp

lemma demo_credited_run:
  "(let s = demo_credits ''wlt_ab'' (demo_asks demo_desk0) in (volume (postings s), map (\<lambda>e. (au_actor_type e, au_actor_id e, au_action e)) (audit_log s))) =
    (600, [(ActorService, ''svc_1'', ''wallet.opened''), (ActorOperator, ''asha'', ''wallet.adjusted'')])"
  by code_simp

lemma demo_callers_run: "service_run E [Some demo_shop_caller, Some demo_operator] demo_desk0 (demo_credits ''wlt_ab'' (demo_asks demo_desk0))"
proof -
  let ?a = "demo_account (product_adjustments ''shop'') AccountExpense True"
  let ?t = "with_accounts [(product_adjustments ''shop'', AccountExpense)] demo_desk0"
  have "service_run E [] demo_desk0 ?t"
    unfolding with_accounts_def foldl.simps prod.case
    by (rule run_background [OF run_nothing background_account [OF surjective_pairing]])
  moreover have "rpc_step (Some demo_shop_caller) ?t (demo_asks demo_desk0)"
    unfolding demo_asks_def by (rule step_open_wallet [OF surjective_pairing])
  moreover have "rpc_step (Some demo_operator) s (demo_credits w s)" for w and s :: front
    unfolding demo_credits_def by (rule step_adjust_wallet [OF surjective_pairing])
  ultimately have "service_run E (([] @ [Some demo_shop_caller]) @ [Some demo_operator]) demo_desk0 (demo_credits ''wlt_ab'' (demo_asks demo_desk0))"
    by (intro run_handler)
  then show ?thesis by simp
qed

lemma service_keeps_books_witness:
  "check_ledger_invariants no_tx 50 (demo_credits ''wlt_ab'' (demo_asks demo_desk0)) = (Ok ([], False), demo_credits ''wlt_ab'' (demo_asks demo_desk0))"
proof -
  have "program_start demo_desk0"
    by (simp add: program_start_def ledger_start_def demo_desk0_def clearing.defs clearing_of_def demo_shop_def estate.defs office.defs till.defs shop.defs desk.defs)
  moreover have "volume (postings (demo_credits ''wlt_ab'' (demo_asks demo_desk0))) < 2 ^ 63"
    using demo_credited_run by (simp add: Let_def)
  ultimately show ?thesis
    using service_keeps_books [OF _ demo_callers_run, of no_tx 50] by blast
qed

lemma audit_log_attributed_witness:
  "set (map au_request_id (audit_log (demo_credits ''wlt_ab'' (demo_asks demo_desk0)))) \<subseteq> {''req_1'', ''req_2''}"
proof -
  have "audit_log demo_desk0 = []" by (simp add: demo_desk0_def clearing.defs)
  then show ?thesis
    using audit_log_attributed [OF demo_callers_run [of "\<lambda>_ _. True"]]
    by (auto simp: request_id_of_def demo_shop_caller_def demo_operator_def)
qed

end
