(* ===== verification/ServiceAudit.thy ===== *)
theory ServiceAudit
  imports ServiceProps
begin

text \<open>
  What the audit log says of a request that moves money: \<open>idempotent_cases\<close> is what became of a request with a
  key, and \<open>accounted\<close> that it did nothing or left one entry. The last section is on reading the log in pages.
\<close>

section \<open>A request is done or not\<close>

text \<open>The tables a request that did nothing leaves as they were; its key and the identifiers it drew are not among them.\<close>

definition kept :: "'x front_scheme \<Rightarrow> 'x front_scheme \<Rightarrow> bool" where
  "kept s t \<longleftrightarrow> journals t = journals s \<and> postings t = postings s \<and> balances t = balances s \<and> accounts t = accounts s \<and>
     holds t = holds s \<and> wallets t = wallets s \<and> outbox t = outbox s \<and> audit_log t = audit_log s"

lemma kept_refl: "kept s s" and kept_trans: "kept s t \<Longrightarrow> kept t u \<Longrightarrow> kept s u"
  by (auto simp: kept_def)

lemma kept_rollback: "kept s (rollback s t)"
  by (simp add: kept_def rollback_def)

lemma kept_idem:
  "safep (kept s) (claim_idempotency_key ik)" "safep (kept s) (complete_idempotency_key scope k body)"
  "safep (kept s) (release_idempotency_key scope k)"
  unfolding claim_idempotency_key_def complete_idempotency_key_def release_idempotency_key_def
  by (auto simp: kept_def intro!: keeps safep_modify)

lemma keptD: "m s = (r, u) \<Longrightarrow> safep (kept s) m \<Longrightarrow> kept s u"
  by (auto dest: safepD intro: kept_refl)

lemma tx_of_no_tx: "no_tx\<lparr>in_tx := True\<rparr> = tx"
  by (simp add: no_tx_def tx_def)

lemma run_claimed_kept:
  assumes "run_claimed codec no_tx scope key fn t = (Ok a, v)"
  shows "\<exists>w. fn tx t = (Ok a, w) \<and> kept w v"
proof -
  obtain b w body x y z where w: "fn tx t = (Ok b, w)" "some_or Internal (encode_response codec b) w = (Ok body, x)"
      "complete_idempotency_key scope key body x = (Ok z, y)" "returnM b y = (Ok a, v)"
    using assms unfolding run_claimed_def with_tx_Ok tx_of_no_tx bind_Ok_iff by (elim exE conjE)
  then have "x = w" "y = v" "b = a" by (auto simp: some_or_def act_simps split: option.splits)
  then show ?thesis using w keptD [OF _ kept_idem(2)] by blast
qed

text \<open>A request either leaves the tables as they were, or its work was done in one piece and it returned what that gave.\<close>

lemma idempotent_cases:
  assumes run: "idempotent codec no_tx who fp fn s = (r, u)"
  obtains (nothing) "kept s u"
  | (ran) a t v where "kept s t" "fn tx t = (Ok a, v)" "kept v u" "r = Ok a"
proof (cases "caller_idempotency_key who = [] \<or> fp = None")
  case True
  then have "kept s u" using run by (auto simp: idempotent_def Let_def act_simps kept_refl split: if_splits)
  then show ?thesis by (rule nothing)
next
  case False
  then obtain print where fp: "fp = Some print" and key: "caller_idempotency_key who \<noteq> []" by auto
  let ?k = "caller_idempotency_key who" and ?sc = "idempotency_scope who"
  let ?ik = "\<lparr>ik_id = 0, ik_scope = ?sc, ik_key = ?k, ik_fingerprint = print, ik_status = IdemInProgress, ik_response_body = [],
    ik_created_at = 0, ik_updated_at = 0, ik_expires_at = clock s + idempotency_retention\<rparr>"
  obtain o1 t where claim: "claim_idempotency_key ?ik s = (o1, t)" by fastforce
  have t: "kept s t" by (rule keptD [OF claim kept_idem(1)])
  note step = run [unfolded idempotent_def Let_def fp option.case if_not_P [OF key]]
  show ?thesis
  proof (cases o1)
    case (Ok ec)
    obtain existing claimed where ec: "ec = (existing, claimed)" by (cases ec)
    show ?thesis
    proof (cases claimed)
      case False
      have "replay codec existing print t = (r, u)"
        using step claim by (simp add: bindM_def act_simps Ok ec False)
      moreover have "reads (replay codec existing print)" unfolding replay_def by (intro read_only)
      ultimately have "u = t" by (rule readsD [rotated])
      then have "kept s u" using t by simp
      then show ?thesis by (rule nothing)
    next
      case True
      obtain o2 v where work: "run_claimed codec no_tx ?sc ?k fn t = (o2, v)" by fastforce
      have rest: "(case o2 of Ok a \<Rightarrow> (Ok a, v)
          | Err e \<Rightarrow> bindM (release_idempotency_key ?sc ?k) (\<lambda>_. errM e) v
          | Panicked \<Rightarrow> (Panicked, v)) = (r, u)"
        using step claim work by (cases o2) (auto simp: bindM_def act_simps Ok ec True try_apply)
      show ?thesis
      proof (cases o2)
        case (Ok a)
        obtain w where w: "fn tx t = (Ok a, w)" "kept w v"
          using run_claimed_kept [OF work [unfolded Ok]] by blast
        have "r = Ok a \<and> u = v" using rest Ok by simp
        then show ?thesis using ran [OF t w(1)] w(2) by simp
      next
        case (Err e)
        then obtain w where "v = rollback t w"
          using work by (auto simp: run_claimed_def with_tx_def no_tx_def split: prod.splits outcome.splits)
        then have "kept s v" using kept_trans [OF t kept_rollback] by simp
        moreover obtain x where "release_idempotency_key ?sc ?k v = (x, u)"
          using rest Err by (auto simp: bindM_def act_simps split: prod.splits outcome.splits)
        then have "kept v u" by (rule keptD [OF _ kept_idem(3)])
        ultimately have "kept s u" by (rule kept_trans)
        then show ?thesis by (rule nothing)
      next
        case Panicked
        then obtain w where v: "v = rollback t w"
          using work by (auto simp: run_claimed_def with_tx_def no_tx_def split: prod.splits outcome.splits)
        have "u = v" using rest Panicked by simp
        then have "kept s u" unfolding v by (simp add: kept_trans [OF t kept_rollback])
        then show ?thesis by (rule nothing)
      qed
    qed
  next
    case (Err e)
    then have "u = t" using step claim by (simp add: bindM_def act_simps)
    then have "kept s u" using t by simp
      then show ?thesis by (rule nothing)
  next
    case Panicked
    then have "u = t" using step claim by (simp add: bindM_def act_simps)
    then have "kept s u" using t by simp
      then show ?thesis by (rule nothing)
  qed
qed


section \<open>One entry\<close>

text \<open>\<open>said\<close> is a log with one entry more.\<close>

abbreviation unsaid :: "audit_entry list \<Rightarrow> 'x front_scheme \<Rightarrow> bool" where
  "unsaid old \<equiv> grown (\<lambda>_. False) old"

definition said :: "audit_entry list \<Rightarrow> (audit_entry \<Rightarrow> bool) \<Rightarrow> 'x front_scheme \<Rightarrow> bool" where
  "said old P s \<longleftrightarrow> (\<exists>e. P e \<and> audit_log s = old @ [e])"

abbreviation entry_for :: "caller option \<Rightarrow> string \<Rightarrow> string \<Rightarrow> audit_entry \<Rightarrow> bool" where
  "entry_for who verb resource e \<equiv> authored who e \<and> au_action e = verb \<and> au_resource_id e = resource"

lemma grown_False: "unsaid old s \<longleftrightarrow> audit_log s = old"
proof -
  have "list_all (\<lambda>_. False) new \<longleftrightarrow> new = []" for new :: "audit_entry list" by (cases new) simp_all
  then show ?thesis by (simp add: grown_def)
qed

lemma audit_says: "triple (unsaid old) (audit who verb kind w p) (\<lambda>_. said old (entry_for who verb w))"
  by (auto simp: triple_def grown_False said_def audit_def record_audit_def bind_Ok_iff act_simps authored_def split: if_splits)

lemma wallet_named: "triple (unsaid old) (visible_wallet v i) (\<lambda>w s. wa_public_id w = i \<and> unsaid old s)"
proof (rule tripleI)
  fix s w u
  assume run: "unsaid old s" "visible_wallet v i s = (Ok w, u)"
  then have "u = s" using readsD [OF reads_views(2)] by blast
  moreover have "wa_public_id w = i"
    using run(2) by (auto simp: visible_wallet_def get_wallet_by_public_id_def bind_Ok_iff act_simps some_or_def read_wallet_def
        bind_eq_Some_conv dest!: find_row_Some split: if_splits option.splits)
  ultimately show "wa_public_id w = i \<and> unsaid old u" using run(1) by simp
qed

lemma named_then:
  "(\<And>w. wa_public_id w = i \<Longrightarrow> triple (unsaid old) (k w) Q) \<Longrightarrow> triple (unsaid old) (bindM (visible_wallet v i) k) Q"
  by (rule triple_bind [OF wallet_named]) (rule triple_pure)

text \<open>After the entry only the answer is put together.\<close>

lemma said_then:
  "w = i \<Longrightarrow> (\<And>a. reads (k a)) \<Longrightarrow>
    triple (unsaid old) (bindM (audit who verb kind w p) k) (\<lambda>_. said old (entry_for who verb i))"
  by (rule triple_bind [where R = "\<lambda>_. said old (entry_for who verb i)"])
    (use audit_says [of old who verb kind w p] in \<open>simp_all add: triple_okp reads_okp\<close>)

section \<open>Requests that move money\<close>

text \<open>Nothing happened, or the request succeeded and there is one entry more.\<close>

definition accounted :: "(audit_entry \<Rightarrow> bool) \<Rightarrow> ('x front_scheme, 'a) action \<Rightarrow> bool" where
  "accounted P m \<longleftrightarrow> (\<forall>s r u. m s = (r, u) \<longrightarrow> kept s u \<or> is_ok r \<and> said (audit_log s) P u)"

lemma accounted_read: "reads m \<Longrightarrow> (\<And>a. accounted P (k a)) \<Longrightarrow> accounted P (bindM m k)"
proof -
  assume m: "reads m" and k: "\<And>a. accounted P (k a)"
  have "kept s u \<or> is_ok r \<and> said (audit_log s) P u" if run: "bindM m k s = (r, u)" for s r u
  proof (cases "fst (m s)")
    case (Ok a)
    then have "k a s = (r, u)" using run reads_run [OF m, of s] by (simp add: bindM_def split: prod.splits)
    then show ?thesis using k [of a] by (simp add: accounted_def)
  next
    case Err
    then have "u = s" using run reads_run [OF m, of s] by (simp add: bindM_def split: prod.splits)
    then show ?thesis by (simp add: kept_refl)
  next
    case Panicked
    then have "u = s" using run reads_run [OF m, of s] by (simp add: bindM_def split: prod.splits)
    then show ?thesis by (simp add: kept_refl)
  qed
  then show ?thesis by (simp add: accounted_def)
qed

lemma accounted_idempotent:
  assumes "\<And>old. triple (unsaid old) (fn tx) (\<lambda>_. said old P)"
  shows "accounted P (idempotent codec no_tx who fp fn)"
  unfolding accounted_def
proof (intro allI impI)
  fix s r u
  assume "idempotent codec no_tx who fp fn s = (r, u)"
  then show "kept s u \<or> is_ok r \<and> said (audit_log s) P u"
  proof (cases rule: idempotent_cases)
    case (ran a t v)
    have "said (audit_log t) P v" by (rule tripleD [OF assms _ ran(2)]) (simp add: grown_False)
    then have "said (audit_log s) P u" using ran(1,3) by (simp add: said_def kept_def)
    then show ?thesis using ran(4) by simp
  qed simp
qed

lemmas quietly = reads_views [THEN reads_okp] reads_rows [THEN reads_okp] reads_customer [THEN reads_okp]
  grown_desk.keeps_grant grown_desk.keeps_transfer grown_desk.keeps_adjust grown_desk.keeps_open

lemmas says = said_then named_then triple_prod quietly [THEN triple_skip]

text \<open>
  C8. No money is moved by hand without a trace: a grant, a transfer or an adjustment either leaves the ledger,
  the wallets, the outbox and the audit log as they were, or it is answered with success and has left
  exactly one entry in the log, which names the caller, the request, what was done and the wallet it was done to.
\<close>

theorem money_moves_audited:
  "accounted (\<lambda>e. authored who e \<and> au_action e = ''wallet.granted'' \<and> au_resource_id e = gw_wallet_id g) (rpc_grant_wallet sv cd1 m who g) \<and>
   accounted (\<lambda>e. authored who e \<and> au_action e = ''wallet.transferred'' \<and> au_resource_id e = tw_from_wallet_id t) (rpc_transfer_wallet sv cd2 m who t) \<and>
   accounted (\<lambda>e. authored who e \<and> au_action e = ''wallet.adjusted'' \<and> au_resource_id e = aw_wallet_id a) (rpc_adjust_wallet sv cd1 m who a)"
  unfolding rpc_grant_wallet_def rpc_transfer_wallet_def rpc_adjust_wallet_def
  by (intro conjI accounted_read accounted_idempotent read_only says; assumption)+

section \<open>Reading the log in pages\<close>

text \<open>
  A page of the largest size never says that there is more: the row that would tell is asked for beyond the
  largest page, and the repository bounds the page again.
\<close>

theorem full_audit_page_never_continues:
  assumes "rpc_list_audit_log m who r s = (Ok (es, next), u)" "max_page_size \<le> lau_limit r"
  shows "next = [] \<and> length es \<le> nat max_page_size"
proof -
  have page: "fst (page n 0) = nat max_page_size" if "max_page_size \<le> n" for n
    using that by (auto simp: page_def Let_def max_page_size_def)
  show ?thesis
    using assms(1) page [OF assms(2)] page [of "max_page_size + 1"]
    by (auto simp: rpc_list_audit_log_def list_audit_log_def audit_defaults_def scope_condition_def bind_Ok_iff act_simps Let_def
        max_page_size_def split: option.splits if_splits)
qed

definition demo_long_log :: front where
  "demo_long_log = demo_desk0\<lparr>audit_log := map (\<lambda>i. \<lparr>au_id = i, au_actor_type = ActorSystem, au_actor_id = ''system'',
     au_action = ''seeded'', au_resource_type = ''product'', au_resource_id = ''prd_1'', au_product_id = None, au_request_id = [],
     au_created_at = 0\<rparr>) (serials 101)\<rparr>"

definition demo_auditor :: caller where
  "demo_auditor = demo_operator\<lparr>ca_permissions := [''openpay:audit:read'', perm_scope_all]\<rparr>"

definition demo_audit_page :: list_audit_request where
  "demo_audit_page = \<lparr>lau_resource_type = [], lau_resource_id = [], lau_actor_id = [], lau_limit = 100, lau_cursor = []\<rparr>"

lemma demo_long_run: "(case fst (rpc_list_audit_log demo_message (Some demo_auditor) demo_audit_page demo_long_log) of
    Ok (es, next) \<Rightarrow> length es | _ \<Rightarrow> 0) = 100" "length (audit_log demo_long_log) = 101"
  by code_simp+

lemma full_audit_page_never_continues_witness:
  "\<exists>es u. rpc_list_audit_log demo_message (Some demo_auditor) demo_audit_page demo_long_log = (Ok (es, []), u) \<and>
    length es = 100 \<and> length (audit_log demo_long_log) = 101"
proof -
  let ?run = "rpc_list_audit_log demo_message (Some demo_auditor) demo_audit_page demo_long_log"
  obtain es nxt u where run: "?run = (Ok (es, nxt), u)" "length es = 100"
    using demo_long_run(1) by (cases ?run) (auto split: outcome.splits prod.splits)
  then show ?thesis
    using full_audit_page_never_continues [OF run(1)] demo_long_run(2) by (simp add: demo_audit_page_def max_page_size_def)
qed

section \<open>One key, two callers\<close>

text \<open>
  Keys are kept apart by caller, journals are not: another operator who adjusts the same wallet by the same
  amount under a key of their own that the first one used too is answered with success and logged, but the
  journal is the first one's and no money moves.
\<close>

definition demo_second_operator :: caller where
  "demo_second_operator = demo_operator\<lparr>ca_user_id := ''ravi'', ca_request_id := ''req_3''\<rparr>"

definition demo_credits_again :: "string \<Rightarrow> ('x front_scheme, wallet_view \<times> string) action" where
  "demo_credits_again w = rpc_adjust_wallet demo_service \<lparr>encode_response = (\<lambda>_. Some ''done''), decode_response = (\<lambda>_. None)\<rparr>
     demo_message (Some demo_second_operator) \<lparr>aw_wallet_id = w, aw_amount = 300, aw_debit = False, aw_product_id = [],
       aw_reason_code = ''goodwill'', aw_memo = []\<rparr>"

lemma second_adjustment_lost:
  "(case demo_credits_again ''wlt_ab'' (demo_credits ''wlt_ab'' (demo_asks demo_desk0)) of
     (r, u) \<Rightarrow> (is_ok r, volume (postings u), map au_actor_id (audit_log u))) = (True, 600, [''svc_1'', ''asha'', ''ravi''])"
  by code_simp

end
